(* ===== verification/AIOA_Prelude.thy ===== *)
theory AIOA_Prelude
  imports Main "HOL-Library.AList" "HOL-Library.Word" "HOL-Library.Char_ord"
    "HOL-Library.List_Lexorder"
begin

text \<open>
  Shared vocabulary of the development: results that carry a Python exception, Python
  dictionaries as association lists (with the interface that the stores rely on), aware
  datetimes, UUIDs, and the generic transition-system interface that the state machines of
  the repository instantiate.
\<close>

section \<open>Results\<close>

named_theorems result_simps

definition ebind :: "'e + 'a \<Rightarrow> ('a \<Rightarrow> 'e + 'b) \<Rightarrow> 'e + 'b" where
  "ebind m f = (case m of Inl e \<Rightarrow> Inl e | Inr x \<Rightarrow> f x)"

definition ensure :: "bool \<Rightarrow> 'e \<Rightarrow> 'e + unit" where
  "ensure b e = (if b then Inr () else Inl e)"

lemma ebind_Inl [simp]: "ebind (Inl e) f = Inl e"
  by (simp add: ebind_def)

lemma ebind_Inr [simp]: "ebind (Inr x) f = f x"
  by (simp add: ebind_def)

lemma ebind_eq_Inr [result_simps]: "ebind m f = Inr y \<longleftrightarrow> (\<exists>x. m = Inr x \<and> f x = Inr y)"
  by (cases m) auto

lemma ebind_eq_Inl [result_simps]:
  "ebind m f = Inl e \<longleftrightarrow> m = Inl e \<or> (\<exists>x. m = Inr x \<and> f x = Inl e)"
  by (cases m) auto

lemma ensure_eq_Inr [result_simps]: "ensure b e = Inr u \<longleftrightarrow> b"
  by (auto simp: ensure_def)

lemma ensure_eq_Inl [result_simps]: "ensure b e = Inl e' \<longleftrightarrow> \<not> b \<and> e' = e"
  by (auto simp: ensure_def)

lemma ensure_True [simp]: "ensure True e = Inr ()"
  by (simp add: ensure_def)

lemma ensure_False [simp]: "ensure False e = Inl e"
  by (simp add: ensure_def)

text \<open>Validation of every element of a list, stopping at the first exception.\<close>

fun traverse :: "('a \<Rightarrow> 'e + 'b) \<Rightarrow> 'a list \<Rightarrow> 'e + 'b list" where
  "traverse f [] = Inr []"
| "traverse f (x # xs) = ebind (f x) (\<lambda>y. ebind (traverse f xs) (\<lambda>ys. Inr (y # ys)))"

lemma traverse_all_Inr: "(\<And>x. x \<in> set xs \<Longrightarrow> f x = Inr x) \<Longrightarrow> traverse f xs = Inr xs"
  by (induction xs) auto

lemma traverse_Inr_eq:
  "traverse f xs = Inr ys \<Longrightarrow> length ys = length xs \<and> (\<forall>i < length xs. f (xs ! i) = Inr (ys ! i))"
proof (induction xs arbitrary: ys)
  case Nil
  then show ?case by simp
next
  case (Cons x xs)
  then obtain y zs where "f x = Inr y" "traverse f xs = Inr zs" "ys = y # zs"
    by (auto simp: result_simps)
  with Cons.IH show ?case
    by (auto simp: nth_Cons split: nat.splits)
qed

section \<open>Dictionaries\<close>

text \<open>
  A Python dictionary keeps its insertion order: assignment to a present key replaces the
  value in place, assignment to a new key appends. The association lists of HOL-Library
  with their update operation behave exactly so.
\<close>

type_synonym ('k, 'v) dict = "('k \<times> 'v) list"

abbreviation dict_get :: "('k, 'v) dict \<Rightarrow> 'k \<Rightarrow> 'v option" where
  "dict_get d k \<equiv> map_of d k"

abbreviation dict_set :: "'k \<Rightarrow> 'v \<Rightarrow> ('k, 'v) dict \<Rightarrow> ('k, 'v) dict" where
  "dict_set k v d \<equiv> AList.update k v d"

abbreviation dict_del :: "'k \<Rightarrow> ('k, 'v) dict \<Rightarrow> ('k, 'v) dict" where
  "dict_del k d \<equiv> AList.delete k d"

abbreviation dict_ok :: "('k, 'v) dict \<Rightarrow> bool" where
  "dict_ok d \<equiv> distinct (map fst d)"

text \<open>
  The interface a store relies on: what a lookup returns after an assignment or a deletion,
  and how the number of entries changes. Clients reason about entries only through it.
\<close>

locale dictionary =
  fixes get :: "'d \<Rightarrow> 'k \<Rightarrow> 'v option"
    and put :: "'k \<Rightarrow> 'v \<Rightarrow> 'd \<Rightarrow> 'd"
    and del :: "'k \<Rightarrow> 'd \<Rightarrow> 'd"
    and entries :: "'d \<Rightarrow> nat"
    and ok :: "'d \<Rightarrow> bool"
  assumes get_put: "get (put k v d) k' = (if k' = k then Some v else get d k')"
    and get_del: "get (del k d) k' = (if k' = k then None else get d k')"
    and ok_put: "ok d \<Longrightarrow> ok (put k v d)"
    and ok_del: "ok d \<Longrightarrow> ok (del k d)"
    and entries_put: "ok d \<Longrightarrow> entries (put k v d) = (if get d k = None then Suc (entries d) else entries d)"
begin

definition every :: "('k \<Rightarrow> 'v \<Rightarrow> bool) \<Rightarrow> 'd \<Rightarrow> bool" where
  "every P d \<longleftrightarrow> (\<forall>k v. get d k = Some v \<longrightarrow> P k v)"

lemma everyD: "every P d \<Longrightarrow> get d k = Some v \<Longrightarrow> P k v"
  by (simp add: every_def)

lemma every_put: "every P d \<Longrightarrow> P k v \<Longrightarrow> every P (put k v d)"
  by (auto simp: every_def get_put)

lemma every_del: "every P d \<Longrightarrow> every P (del k d)"
  by (auto simp: every_def get_del split: if_splits)

lemma every_mono: "every P d \<Longrightarrow> (\<And>k v. P k v \<Longrightarrow> Q k v) \<Longrightarrow> every Q d"
  by (auto simp: every_def)

lemma get_put_same: "get (put k v d) k = Some v"
  by (simp add: get_put)

lemma get_put_other: "k' \<noteq> k \<Longrightarrow> get (put k v d) k' = get d k'"
  by (simp add: get_put)

lemma put_keeps_present: "get d k' \<noteq> None \<Longrightarrow> get (put k v d) k' \<noteq> None"
  by (simp add: get_put)

end

lemma alist_length_update:
  "length (AList.update k v d) = (if map_of d k = None then Suc (length d) else length d)"
  by (induction d) auto

interpretation pydict: dictionary map_of AList.update AList.delete length "\<lambda>d. distinct (map fst d)"
  by unfold_locales
     (auto simp: update_conv' delete_conv' distinct_update distinct_delete alist_length_update)

lemma dict_ok_update [simp]: "dict_ok d \<Longrightarrow> dict_ok (AList.update k v d)"
  by (rule pydict.ok_put)

lemma dict_get_update [simp]:
  "map_of (AList.update k v d) k' = (if k' = k then Some v else map_of d k')"
  by (rule pydict.get_put)

lemma dict_get_delete [simp]:
  "map_of (AList.delete k d) k' = (if k' = k then None else map_of d k')"
  by (rule pydict.get_del)

lemma dict_get_in_set: "map_of d k = Some v \<Longrightarrow> (k, v) \<in> set d"
  by (rule map_of_SomeD)

lemma dict_value_in_set: "map_of d k = Some v \<Longrightarrow> v \<in> snd ` set d"
  by (force dest: map_of_SomeD)

section \<open>Text\<close>

text \<open>
  Python text is modelled on the code points below 256, one \<^typ>\<open>char\<close> each. The whitespace
  that \<^verbatim>\<open>str.strip\<close> removes in that range.
\<close>

definition py_space :: "char \<Rightarrow> bool" where
  "py_space c \<longleftrightarrow> of_char c \<in> {9, 10, 11, 12, 13, 28, 29, 30, 31, 32, 133, 160 :: nat}"

definition py_strip :: "string \<Rightarrow> string" where
  "py_strip s = rev (dropWhile py_space (rev (dropWhile py_space s)))"

definition char_between :: "char \<Rightarrow> char \<Rightarrow> char \<Rightarrow> bool" where
  "char_between lo hi c \<longleftrightarrow> (of_char lo :: nat) \<le> of_char c \<and> (of_char c :: nat) \<le> of_char hi"

definition ascii_digit :: "char \<Rightarrow> bool" where
  "ascii_digit c \<longleftrightarrow> char_between CHR ''0'' CHR ''9'' c"

definition ascii_alnum :: "char \<Rightarrow> bool" where
  "ascii_alnum c \<longleftrightarrow> char_between CHR ''A'' CHR ''Z'' c \<or> char_between CHR ''a'' CHR ''z'' c \<or> ascii_digit c"

definition hex_lower :: "char \<Rightarrow> bool" where
  "hex_lower c \<longleftrightarrow> ascii_digit c \<or> char_between CHR ''a'' CHR ''f'' c"

text \<open>Decimal digits of a number, most significant first, without leading zeros.\<close>

fun dec_digits :: "nat \<Rightarrow> string" where
  "dec_digits n = (if n < 10 then [char_of (48 + n)] else dec_digits (n div 10) @ [char_of (48 + n mod 10)])"

declare dec_digits.simps [simp del]

definition py_int_str :: "int \<Rightarrow> string" where
  "py_int_str i = (if i < 0 then ''-'' @ dec_digits (nat (- i)) else dec_digits (nat i))"

definition hex_digit :: "nat \<Rightarrow> char" where
  "hex_digit n = (if n < 10 then char_of (48 + n) else char_of (87 + n))"

lemma hex_lower_hex_digit: "n < 16 \<Longrightarrow> hex_lower (hex_digit n)"
  by (simp add: hex_digit_def hex_lower_def ascii_digit_def char_between_def)

text \<open>Number padded with zeros on the left to a given width, as in the fields of a timestamp.\<close>

definition zero_pad :: "nat \<Rightarrow> nat \<Rightarrow> string" where
  "zero_pad w n = (let s = dec_digits n in replicate (w - length s) CHR ''0'' @ s)"

fun intersperse_text :: "string \<Rightarrow> string list \<Rightarrow> string" where
  "intersperse_text sep [] = []"
| "intersperse_text sep [x] = x"
| "intersperse_text sep (x # y # xs) = x @ sep @ intersperse_text sep (y # xs)"

section \<open>Datetimes\<close>

text \<open>
  A datetime is its instant in microseconds since 1970-01-01T00:00:00 and its offset from
  UTC: \<^const>\<open>None\<close> for a naive value. Every stored timestamp has passed a check that the offset
  is zero, so instants are compared directly.
\<close>

datatype datetime = Datetime (dt_micros: int) (dt_offset: "int option")

definition utc :: "int \<Rightarrow> datetime" where
  "utc n = Datetime n (Some 0)"

definition is_utc :: "datetime \<Rightarrow> bool" where
  "is_utc d \<longleftrightarrow> dt_offset d = Some 0"

definition plus_seconds :: "datetime \<Rightarrow> int \<Rightarrow> datetime" where
  "plus_seconds d n = Datetime (dt_micros d + n * 1000000) (dt_offset d)"

lemma is_utc_utc [simp]: "is_utc (utc n)"
  by (simp add: is_utc_def utc_def)

lemma dt_micros_utc [simp]: "dt_micros (utc n) = n"
  by (simp add: utc_def)

lemma is_utc_plus_seconds [simp]: "is_utc (plus_seconds d n) = is_utc d"
  by (simp add: is_utc_def plus_seconds_def)

lemma dt_micros_plus_seconds [simp]: "dt_micros (plus_seconds d n) = dt_micros d + n * 1000000"
  by (simp add: plus_seconds_def)

text \<open>Proleptic Gregorian date of a day number counted from 1970-01-01.\<close>

definition civil_from_days :: "int \<Rightarrow> nat \<times> nat \<times> nat" where
  "civil_from_days z0 =
     (let z = z0 + 719468;
          era = z div 146097;
          doe = z - era * 146097;
          yoe = (doe - doe div 1460 + doe div 36524 - doe div 146096) div 365;
          doy = doe - (365 * yoe + yoe div 4 - yoe div 100);
          mp = (5 * doy + 2) div 153;
          d = doy - (153 * mp + 2) div 5 + 1;
          m = (if mp < 10 then mp + 3 else mp - 9);
          y = yoe + era * 400 + (if m \<le> 2 then 1 else 0)
      in (nat y, nat m, nat d))"

definition iso_base :: "int \<Rightarrow> string" where
  "iso_base us =
     (let days = us div 86400000000; r = us mod 86400000000;
          (y, m, d) = civil_from_days days;
          secs = r div 1000000; frac = nat (r mod 1000000)
      in zero_pad 4 y @ ''-'' @ zero_pad 2 m @ ''-'' @ zero_pad 2 d @ ''T''
         @ zero_pad 2 (nat (secs div 3600)) @ '':'' @ zero_pad 2 (nat (secs div 60 mod 60))
         @ '':'' @ zero_pad 2 (nat (secs mod 60))
         @ (if frac = 0 then [] else ''.'' @ zero_pad 6 frac))"

text \<open>\<^verbatim>\<open>datetime.isoformat()\<close> of a UTC value, and its rendering in a JSON dump of a contract.\<close>

definition isoformat :: "datetime \<Rightarrow> string" where
  "isoformat d = iso_base (dt_micros d) @ ''+00:00''"

definition iso_json :: "datetime \<Rightarrow> string" where
  "iso_json d = iso_base (dt_micros d) @ ''Z''"

section \<open>UUIDs\<close>

type_synonym uuid = "128 word"

definition uuid_nibble :: "uuid \<Rightarrow> nat \<Rightarrow> nat" where
  "uuid_nibble u i = unat (and (drop_bit (4 * (31 - i)) u) 15)"

definition uuid_str :: "uuid \<Rightarrow> string" where
  "uuid_str u =
     (let h = map (\<lambda>i. hex_digit (uuid_nibble u i)) [0..<32]
      in take 8 h @ ''-'' @ take 4 (drop 8 h) @ ''-'' @ take 4 (drop 12 h) @ ''-''
         @ take 4 (drop 16 h) @ ''-'' @ drop 20 h)"

section \<open>Transition systems\<close>

text \<open>
  The interface of a deterministic machine whose operations either succeed with the next
  state or are rejected. A property that every accepted step keeps holds along every run.
\<close>

fun run_actions :: "('s \<Rightarrow> 'a \<Rightarrow> 'e + 's) \<Rightarrow> 's \<Rightarrow> 'a list \<Rightarrow> 's" where
  "run_actions step s [] = s"
| "run_actions step s (a # as) =
     (case step s a of Inl _ \<Rightarrow> run_actions step s as | Inr t \<Rightarrow> run_actions step t as)"

inductive reachable_by :: "('s \<Rightarrow> 'a \<Rightarrow> 'e + 's) \<Rightarrow> 's \<Rightarrow> 's \<Rightarrow> bool"
  for step :: "'s \<Rightarrow> 'a \<Rightarrow> 'e + 's" and s0 :: 's where
  reach_start: "reachable_by step s0 s0"
| reach_step: "reachable_by step s0 s \<Longrightarrow> step s a = Inr t \<Longrightarrow> reachable_by step s0 t"

lemma reachable_by_run: "reachable_by step s0 s \<Longrightarrow> reachable_by step s0 (run_actions step s as)"
proof (induction as arbitrary: s)
  case Nil
  then show ?case by simp
next
  case (Cons a as)
  then show ?case
    by (cases "step s a") (auto intro: reach_step)
qed

locale guarded_machine =
  fixes step :: "'s \<Rightarrow> 'a \<Rightarrow> 'e + 's"
    and start :: 's
    and inv :: "'s \<Rightarrow> bool"
  assumes start_inv: "inv start"
    and step_inv: "inv s \<Longrightarrow> step s a = Inr t \<Longrightarrow> inv t"
begin

lemma reachable_inv: "reachable_by step start s \<Longrightarrow> inv s"
  by (induction rule: reachable_by.induct) (auto intro: start_inv step_inv)

lemma run_inv: "inv (run_actions step start as)"
  by (rule reachable_inv) (rule reachable_by_run, rule reach_start)

end

end
