(* ===== verification/Sha256.thy ===== *)
theory Sha256
  imports AIOA_Prelude
begin

text \<open>
  SHA-256 (FIPS 180-4) on byte strings and its lower-case hexadecimal rendering: the
  behaviour of \<^verbatim>\<open>hashlib.sha256(data).hexdigest()\<close>, which every binding of the CloudOps
  contracts uses. Only the shape of a digest and its being a function of the data are used
  by the proofs; resistance to collisions is a named hypothesis wherever a property needs it.
\<close>

type_synonym w32 = "32 word"
type_synonym byte = "8 word"

definition K256 :: "w32 list" where
  "K256 =
    [1116352408, 1899447441, 3049323471, 3921009573, 961987163, 1508970993, 2453635748, 2870763221,
     3624381080, 310598401, 607225278, 1426881987, 1925078388, 2162078206, 2614888103, 3248222580,
     3835390401, 4022224774, 264347078, 604807628, 770255983, 1249150122, 1555081692, 1996064986,
     2554220882, 2821834349, 2952996808, 3210313671, 3336571891, 3584528711, 113926993, 338241895,
     666307205, 773529912, 1294757372, 1396182291, 1695183700, 1986661051, 2177026350, 2456956037,
     2730485921, 2820302411, 3259730800, 3345764771, 3516065817, 3600352804, 4094571909, 275423344,
     430227734, 506948616, 659060556, 883997877, 958139571, 1322822218, 1537002063, 1747873779,
     1955562222, 2024104815, 2227730452, 2361852424, 2428436474, 2756734187, 3204031479, 3329325298]"

definition H256 :: "w32 list" where
  "H256 = [1779033703, 3144134277, 1013904242, 2773480762, 1359893119, 2600822924, 528734635, 1541459225]"

definition big_endian :: "nat \<Rightarrow> nat \<Rightarrow> byte list" where
  "big_endian len n = map (\<lambda>i. word_of_int (int n div 256 ^ (len - 1 - i))) [0..<len]"

definition sha_pad :: "byte list \<Rightarrow> byte list" where
  "sha_pad m = m @ [0x80] @ replicate ((119 - length m mod 64) mod 64) 0 @ big_endian 8 (8 * length m)"

fun words_of :: "byte list \<Rightarrow> w32 list" where
  "words_of (a # b # c # d # bs) =
     (push_bit 24 (ucast a) + push_bit 16 (ucast b) + push_bit 8 (ucast c) + ucast d) # words_of bs"
| "words_of _ = []"

definition small0 :: "w32 \<Rightarrow> w32" where
  "small0 x = xor (xor (word_rotr 7 x) (word_rotr 18 x)) (drop_bit 3 x)"

definition small1 :: "w32 \<Rightarrow> w32" where
  "small1 x = xor (xor (word_rotr 17 x) (word_rotr 19 x)) (drop_bit 10 x)"

definition big0 :: "w32 \<Rightarrow> w32" where
  "big0 x = xor (xor (word_rotr 2 x) (word_rotr 13 x)) (word_rotr 22 x)"

definition big1 :: "w32 \<Rightarrow> w32" where
  "big1 x = xor (xor (word_rotr 6 x) (word_rotr 11 x)) (word_rotr 25 x)"

fun schedule :: "nat \<Rightarrow> w32 list \<Rightarrow> w32 list" where
  "schedule 0 ws = ws"
| "schedule (Suc n) ws =
     (let t = length ws
      in schedule n (ws @ [small1 (ws ! (t - 2)) + ws ! (t - 7) + small0 (ws ! (t - 15)) + ws ! (t - 16)]))"

fun sha_round :: "w32 \<times> w32 \<Rightarrow> w32 list \<Rightarrow> w32 list" where
  "sha_round (k, w) [a, b, c, d, e, f, g, h] =
     (let t1 = h + big1 e + xor (and e f) (and (not e) g) + k + w;
          t2 = big0 a + xor (xor (and a b) (and a c)) (and b c)
      in [t1 + t2, a, b, c, d + t1, e, f, g])"
| "sha_round kw vs = vs"

definition sha_block :: "w32 list \<Rightarrow> w32 list \<Rightarrow> w32 list" where
  "sha_block block hs = map2 (+) hs (fold sha_round (zip K256 (schedule 48 block)) hs)"

function sha_blocks :: "w32 list \<Rightarrow> w32 list \<Rightarrow> w32 list" where
  "sha_blocks ws hs = (if length ws < 16 then hs else sha_blocks (drop 16 ws) (sha_block (take 16 ws) hs))"
  by pat_completeness auto
termination
  by (relation "measure (\<lambda>(ws, hs). length ws)") auto

declare sha_blocks.simps [simp del]

definition hex_word :: "w32 \<Rightarrow> string" where
  "hex_word w = map (\<lambda>i. hex_digit (unat (and (drop_bit (4 * (7 - i)) w) 15))) [0..<8]"

definition sha256_hex :: "byte list \<Rightarrow> string" where
  "sha256_hex m = concat (map hex_word (sha_blocks (words_of (sha_pad m)) H256))"

text \<open>UTF-8 of the code points below 256.\<close>

definition utf8_char :: "char \<Rightarrow> byte list" where
  "utf8_char c = (let n = of_char c :: nat
     in if n < 128 then [word_of_nat n] else [word_of_nat (192 + n div 64), word_of_nat (128 + n mod 64)])"

definition utf8 :: "string \<Rightarrow> byte list" where
  "utf8 s = concat (map utf8_char s)"

definition sha256_text :: "string \<Rightarrow> string" where
  "sha256_text s = sha256_hex (utf8 s)"

section \<open>The shape of a digest\<close>

lemma length_sha_round: "length vs = 8 \<Longrightarrow> length (sha_round kw vs) = 8"
  by (cases "(kw, vs)" rule: sha_round.cases) (auto simp: Let_def)

lemma length_fold_sha_round: "length vs = 8 \<Longrightarrow> length (fold sha_round kws vs) = 8"
  by (induction kws arbitrary: vs) (auto simp: length_sha_round)

lemma length_sha_blocks: "length hs = 8 \<Longrightarrow> length (sha_blocks ws hs) = 8"
proof (induction ws hs rule: sha_blocks.induct)
  case (1 ws hs)
  then show ?case
    by (cases "length ws < 16")
       (simp_all add: sha_blocks.simps [of ws hs] sha_block_def length_fold_sha_round)
qed

lemma and_15_lt: "unat (and (x :: 'a :: len word) 15) < 16"
proof -
  have "and x 15 = take_bit 4 x"
    by (simp add: take_bit_eq_mask mask_numeral)
  moreover have "unat (take_bit 4 x) = take_bit 4 (unat x)"
    by (simp add: unsigned_take_bit_eq)
  ultimately show ?thesis by (simp add: take_bit_eq_mod)
qed

lemma hex_word_shape: "length (hex_word w) = 8" "\<forall>c \<in> set (hex_word w). hex_lower c"
  by (auto simp: hex_word_def intro: hex_lower_hex_digit and_15_lt)

lemma length_concat_hex_words: "length (concat (map hex_word ws)) = 8 * length ws"
  by (induction ws) (simp_all add: hex_word_shape)

lemma sha256_hex_shape: "length (sha256_hex m) = 64" "\<forall>c \<in> set (sha256_hex m). hex_lower c"
  by (auto simp: sha256_hex_def length_concat_hex_words length_sha_blocks H256_def
      dest: hex_word_shape(2) [rule_format])

lemma sha256_text_shape: "length (sha256_text s) = 64" "\<forall>c \<in> set (sha256_text s). hex_lower c"
  by (simp_all add: sha256_text_def sha256_hex_shape)

end
