(* ===== verification/Canonical_Json.thy ===== *)
theory Canonical_Json
  imports Sha256
begin

text \<open>
  The JSON values the contracts are hashed through and the text that
  \<^verbatim>\<open>json.dumps(value, ensure_ascii=True, separators=(",", ":"), sort_keys=True)\<close> gives
  for them. The main result is that this text determines the value up to the order of
  dictionary keys, so that two payloads hashed from the same text are the same payload.
\<close>

datatype json =
    JNull
  | JBool bool
  | JInt int
  | JStr string
  | JArr "json list"
  | JObj "(string \<times> json) list"

definition backslash :: char where
  "backslash = CHR 0x5C"

definition dquote :: char where
  "dquote = CHR 0x22"

definition py_escape :: "char \<Rightarrow> string" where
  "py_escape c =
     (let n = of_char c :: nat
      in if c = dquote then [backslash, dquote]
         else if c = backslash then [backslash, backslash]
         else if n = 8 then [backslash, CHR ''b'']
         else if n = 9 then [backslash, CHR ''t'']
         else if n = 10 then [backslash, CHR ''n'']
         else if n = 12 then [backslash, CHR ''f'']
         else if n = 13 then [backslash, CHR ''r'']
         else if 32 \<le> n \<and> n \<le> 126 then [c]
         else [backslash, CHR ''u'', CHR ''0'', CHR ''0'', hex_digit (n div 16), hex_digit (n mod 16)])"

text \<open>The same with \<^verbatim>\<open>ensure_ascii=False\<close>: only the two delimiters and control characters are escaped.\<close>

definition raw_escape :: "char \<Rightarrow> string" where
  "raw_escape c = (if (of_char c :: nat) < 32 \<or> c = dquote \<or> c = backslash then py_escape c else [c])"

text \<open>The printer takes the escape of one character as an argument.\<close>

definition py_quote :: "(char \<Rightarrow> string) \<Rightarrow> string \<Rightarrow> string" where
  "py_quote esc s = dquote # concat (map esc s) @ [dquote]"

fun jprint :: "(char \<Rightarrow> string) \<Rightarrow> json \<Rightarrow> string" and jelems :: "(char \<Rightarrow> string) \<Rightarrow> json list \<Rightarrow> string"
  and jmembers :: "(char \<Rightarrow> string) \<Rightarrow> (string \<times> json) list \<Rightarrow> string" where
  "jprint esc JNull = ''null''"
| "jprint esc (JBool b) = (if b then ''true'' else ''false'')"
| "jprint esc (JInt i) = py_int_str i"
| "jprint esc (JStr s) = py_quote esc s"
| "jprint esc (JArr []) = ''[]''"
| "jprint esc (JArr (v # vs)) = ''['' @ jprint esc v @ jelems esc vs"
| "jprint esc (JObj []) = ''{}''"
| "jprint esc (JObj ((k, v) # kvs)) = ''{'' @ py_quote esc k @ '':'' @ jprint esc v @ jmembers esc kvs"
| "jelems esc [] = '']''"
| "jelems esc (v # vs) = '','' @ jprint esc v @ jelems esc vs"
| "jmembers esc [] = ''}''"
| "jmembers esc ((k, v) # kvs) = '','' @ py_quote esc k @ '':'' @ jprint esc v @ jmembers esc kvs"

lemma jmembers_Cons: "jmembers esc (kv # kvs) = '','' @ py_quote esc (fst kv) @ '':'' @ jprint esc (snd kv) @ jmembers esc kvs"
  by (cases kv) simp

lemma jprint_obj_Cons: "jprint esc (JObj (kv # kvs)) = ''{'' @ py_quote esc (fst kv) @ '':'' @ jprint esc (snd kv) @ jmembers esc kvs"
  by (cases kv) simp

lemma json_shape_cases:
  obtains "v = JNull" | b where "v = JBool b" | i where "v = JInt i" | s where "v = JStr s" | "v = JArr []"
  | w ws where "v = JArr (w # ws)" | "v = JObj []" | kv kvs where "v = JObj (kv # kvs)"
  by (metis json.exhaust list.exhaust)

lemmas json_print_induct = jprint_jelems_jmembers.induct [of "\<lambda>_. P" "\<lambda>_. Q" "\<lambda>_. R" for P Q R]

text \<open>\<^verbatim>\<open>sort_keys=True\<close> at every level.\<close>

fun canon :: "json \<Rightarrow> json" where
  "canon (JArr vs) = JArr (map canon vs)"
| "canon (JObj kvs) = JObj (sort_key fst (map (\<lambda>kv. (fst kv, canon (snd kv))) kvs))"
| "canon v = v"

definition dumps :: "json \<Rightarrow> string" where
  "dumps v = jprint py_escape (canon v)"

definition digest :: "json \<Rightarrow> string" where
  "digest v = sha256_text (dumps v)"

text \<open>Compact sorted text with characters above ASCII left as they are.\<close>

definition dumps_raw :: "json \<Rightarrow> string" where
  "dumps_raw v = jprint raw_escape (canon v)"

lemma digest_shape: "length (digest v) = 64" "\<forall>c \<in> set (digest v). hex_lower c"
  by (simp_all add: digest_def sha256_text_shape)

section \<open>Escaped text is uniquely decodable\<close>

definition unhex :: "char \<Rightarrow> nat" where
  "unhex c = (if ascii_digit c then of_char c - 48 else of_char c - 87)"

lemma unhex_hex_digit: "n < 16 \<Longrightarrow> unhex (hex_digit n) = n"
  by (simp add: unhex_def hex_digit_def ascii_digit_def char_between_def)

definition unescape :: "string \<Rightarrow> char \<times> string" where
  "unescape s =
     (case s of
        c # d # r \<Rightarrow>
          if c \<noteq> backslash then (c, d # r)
          else if d = dquote \<or> d = backslash then (d, r)
          else if d = CHR ''b'' then (char_of (8 :: nat), r)
          else if d = CHR ''t'' then (char_of (9 :: nat), r)
          else if d = CHR ''n'' then (char_of (10 :: nat), r)
          else if d = CHR ''f'' then (char_of (12 :: nat), r)
          else if d = CHR ''r'' then (char_of (13 :: nat), r)
          else (char_of (unhex (r ! 2) * 16 + unhex (r ! 3)), drop 4 r)
      | c # [] \<Rightarrow> (c, [])
      | [] \<Rightarrow> (CHR ''?'', []))"

lemma char_of_eq: "of_char c = (n :: nat) \<Longrightarrow> char_of n = c"
  by auto

lemma unescape_escape: "unescape (py_escape c @ r) = (c, r)"
proof -
  have hex: "(of_char c :: nat) div 16 < 16"
    using nat_of_char_less_256 [of c] by linarith
  show ?thesis
    unfolding unescape_def py_escape_def Let_def
    by (auto simp: backslash_def dquote_def char_of_eq unhex_hex_digit hex numeral_2_eq_2 numeral_3_eq_3
             split: list.splits)
qed

lemma escape_head: "\<exists>d r. py_escape c = d # r \<and> d \<noteq> dquote"
  by (auto simp: py_escape_def Let_def backslash_def dquote_def)

lemma unescape_raw: "unescape (raw_escape c @ r) = (c, r)"
proof (cases "(of_char c :: nat) < 32 \<or> c = dquote \<or> c = backslash")
  case True
  then show ?thesis by (simp add: raw_escape_def unescape_escape)
next
  case False
  then show ?thesis by (auto simp: raw_escape_def unescape_def split: list.splits)
qed

lemma raw_escape_head: "\<exists>d r. raw_escape c = d # r \<and> d \<noteq> dquote"
  using escape_head [of c] by (auto simp: raw_escape_def)

section \<open>Decimal text is uniquely decodable before a non-digit\<close>

definition dec_value :: "string \<Rightarrow> nat" where
  "dec_value s = foldl (\<lambda>a c. 10 * a + (of_char c - 48)) 0 s"

lemma dec_digits_facts: "dec_value (dec_digits n) = n \<and> dec_digits n \<noteq> [] \<and> (\<forall>c \<in> set (dec_digits n). ascii_digit c)"
proof (induction n rule: dec_digits.induct)
  case (1 n)
  show ?case
  proof (cases "n < 10")
    case True
    then show ?thesis
      by (simp add: dec_digits.simps [of n] dec_value_def ascii_digit_def char_between_def)
  next
    case False
    have "n mod 10 < 10" by simp
    then have d: "of_char (char_of (48 + n mod 10)) = 48 + n mod 10" by simp
    have "10 * (n div 10) + n mod 10 = n" by simp
    with "1" [OF False] False d show ?thesis
      by (simp add: dec_digits.simps [of n] dec_value_def ascii_digit_def char_between_def)
  qed
qed

definition after_value :: "string \<Rightarrow> bool" where
  "after_value r \<longleftrightarrow> (r = [] \<or> hd r \<in> {CHR '','', CHR '']'', CHR ''}''})"

lemma after_value_not_digit: "after_value (c # r) \<Longrightarrow> \<not> ascii_digit c"
  by (auto simp: after_value_def ascii_digit_def char_between_def)

lemma span_digits: "(\<forall>c \<in> set ds. ascii_digit c) \<Longrightarrow> after_value r \<Longrightarrow> takeWhile ascii_digit (ds @ r) = ds"
  by (cases r) (auto simp: takeWhile_append2 after_value_not_digit)

lemma dec_digits_inj:
  assumes "dec_digits m @ r = dec_digits n @ s" "after_value r" "after_value s"
  shows "m = n \<and> r = s"
proof -
  have "takeWhile ascii_digit (dec_digits m @ r) = takeWhile ascii_digit (dec_digits n @ s)"
    using assms(1) by simp
  then have "dec_digits m = dec_digits n"
    using dec_digits_facts [of m] dec_digits_facts [of n] assms(2,3) span_digits by metis
  then show ?thesis using assms(1) dec_digits_facts by (metis same_append_eq)
qed

lemma dec_digits_head: "\<exists>d r. dec_digits n = d # r \<and> ascii_digit d"
  using dec_digits_facts [of n] by (cases "dec_digits n") auto

lemma py_int_str_inj:
  assumes "py_int_str i @ r = py_int_str j @ s" "after_value r" "after_value s"
  shows "i = j \<and> r = s"
proof -
  have "CHR ''-'' # dec_digits (nat (- i)) @ r \<noteq> dec_digits (nat j) @ s"
    "CHR ''-'' # dec_digits (nat (- j)) @ s \<noteq> dec_digits (nat i) @ r"
    using dec_digits_head [of "nat j"] dec_digits_head [of "nat i"]
    by (auto simp: ascii_digit_def char_between_def)
  with assms show ?thesis
    by (auto simp: py_int_str_def split: if_splits dest!: dec_digits_inj)
qed

section \<open>Injectivity of the printer\<close>

definition int_head :: "char \<Rightarrow> bool" where
  "int_head c \<longleftrightarrow> c = CHR ''-'' \<or> ascii_digit c"

lemma py_int_str_head: "\<exists>d r. py_int_str i = d # r \<and> int_head d"
  using dec_digits_head [of "nat i"] by (auto simp: py_int_str_def int_head_def)

fun head_kind :: "json \<Rightarrow> char \<Rightarrow> bool" where
  "head_kind JNull c = (c = CHR ''n'')"
| "head_kind (JBool b) c = (c = (if b then CHR ''t'' else CHR ''f''))"
| "head_kind (JInt i) c = int_head c"
| "head_kind (JStr s) c = (c = dquote)"
| "head_kind (JArr vs) c = (c = CHR ''['')"
| "head_kind (JObj kvs) c = (c = CHR ''{'')"

lemma head_kind_distinct:
  assumes "head_kind v c" "head_kind w c"
  shows "(case v of JNull \<Rightarrow> w = JNull | JBool b \<Rightarrow> w = JBool b | JInt i \<Rightarrow> (\<exists>j. w = JInt j)
     | JStr s \<Rightarrow> (\<exists>t. w = JStr t) | JArr vs \<Rightarrow> (\<exists>ws. w = JArr ws) | JObj kvs \<Rightarrow> (\<exists>kws. w = JObj kws))"
  using assms
  by (cases v; cases w) (auto simp: int_head_def ascii_digit_def char_between_def dquote_def split: if_splits)

section \<open>Printers with a decodable escape\<close>

locale json_text =
  fixes esc :: "char \<Rightarrow> string" and unesc :: "string \<Rightarrow> char \<times> string"
  assumes decodes: "unesc (esc c @ r) = (c, r)"
    and head_escaped: "\<exists>d r. esc c = d # r \<and> d \<noteq> dquote"
begin

lemma escaped_inj:
  "concat (map esc s) @ dquote # r = concat (map esc t) @ dquote # u \<Longrightarrow> s = t \<and> r = u"
proof (induction s arbitrary: t)
  case Nil
  show ?case
  proof (cases t)
    case Nil
    with Nil.prems show ?thesis by simp
  next
    case (Cons d t')
    with Nil.prems head_escaped [of d] show ?thesis by auto
  qed
next
  case (Cons c s)
  show ?case
  proof (cases t)
    case Nil
    with Cons.prems head_escaped [of c] show ?thesis by auto
  next
    case (Cons d t')
    let ?x = "concat (map esc s) @ dquote # r" and ?y = "concat (map esc t') @ dquote # u"
    from Cons.prems \<open>t = d # t'\<close> have "esc c @ ?x = esc d @ ?y" by simp
    then have "unesc (esc c @ ?x) = unesc (esc d @ ?y)" by simp
    then have "c = d" "?x = ?y" by (simp_all add: decodes)
    with Cons.IH \<open>t = d # t'\<close> show ?thesis by blast
  qed
qed

lemma py_quote_inj: "py_quote esc s @ r = py_quote esc t @ u \<Longrightarrow> s = t \<and> r = u"
  by (auto simp: py_quote_def dest: escaped_inj)

lemma jprint_head: "\<exists>c r. jprint esc v = c # r \<and> head_kind v c"
  using py_int_str_head
  by (cases v rule: json_shape_cases) (auto simp: py_quote_def jprint_obj_Cons)

lemma same_shape:
  assumes "jprint esc v @ r = jprint esc w @ s"
  shows "v = JNull \<Longrightarrow> w = JNull" "v = JBool b \<Longrightarrow> w = JBool b" "v = JInt i \<Longrightarrow> \<exists>j. w = JInt j"
    "v = JStr t \<Longrightarrow> \<exists>u. w = JStr u" "v = JArr vs \<Longrightarrow> \<exists>ws. w = JArr ws"
    "v = JObj kvs \<Longrightarrow> \<exists>kws. w = JObj kws"
proof -
  obtain c where "head_kind v c" "head_kind w c"
    using jprint_head [of v] jprint_head [of w] assms by auto
  then have "case v of JNull \<Rightarrow> w = JNull | JBool b \<Rightarrow> w = JBool b | JInt i \<Rightarrow> (\<exists>j. w = JInt j)
     | JStr s \<Rightarrow> (\<exists>t. w = JStr t) | JArr vs \<Rightarrow> (\<exists>ws. w = JArr ws) | JObj kvs \<Rightarrow> (\<exists>kws. w = JObj kws)"
    by (rule head_kind_distinct)
  then show "v = JNull \<Longrightarrow> w = JNull" "v = JBool b \<Longrightarrow> w = JBool b" "v = JInt i \<Longrightarrow> \<exists>j. w = JInt j"
    "v = JStr t \<Longrightarrow> \<exists>u. w = JStr u" "v = JArr vs \<Longrightarrow> \<exists>ws. w = JArr ws"
    "v = JObj kvs \<Longrightarrow> \<exists>kws. w = JObj kws"
    by simp_all
qed

lemma jprint_not_close: "jprint esc v \<noteq> CHR '']'' # r"
proof -
  obtain c t where "jprint esc v = c # t" "head_kind v c" using jprint_head by blast
  then show ?thesis
    by (cases v) (auto simp: int_head_def ascii_digit_def char_between_def dquote_def split: if_splits)
qed

lemma jprint_append_not_close: "jprint esc v @ x \<noteq> CHR '']'' # r"
  using jprint_not_close [of v] jprint_head [of v] by (metis append_Cons list.inject)

lemma after_value_elems: "after_value (jelems esc vs @ r)"
  by (cases vs) (auto simp: after_value_def)

lemma after_value_members: "after_value (jmembers esc kvs @ r)"
  by (cases kvs) (auto simp: after_value_def jmembers_Cons)

lemma jprint_inj_rest:
  "jprint esc v @ r = jprint esc w @ s \<Longrightarrow> after_value r \<Longrightarrow> after_value s \<Longrightarrow> v = w \<and> r = s"
  "jelems esc vs @ r = jelems esc ws @ s \<Longrightarrow> vs = ws \<and> r = s"
  "jmembers esc kvs @ r = jmembers esc kws @ s \<Longrightarrow> kvs = kws \<and> r = s"
proof (induction v and vs and kvs arbitrary: w r s and ws r s and kws r s rule: json_print_induct)
  case (1 e)
  from same_shape(1) [OF 1(1) refl] 1 show ?case by simp
next
  case (2 e b)
  from same_shape(2) [OF 2(1) refl] 2 show ?case by simp
next
  case (3 e i)
  from same_shape(3) [OF 3(1) refl] obtain j where "w = JInt j" ..
  with 3 show ?case by (auto dest: py_int_str_inj)
next
  case (4 e t)
  from same_shape(4) [OF 4(1) refl] obtain u where "w = JStr u" ..
  with 4 show ?case by (auto dest: py_quote_inj)
next
  case (5 e)
  from same_shape(5) [OF 5(1) refl] obtain ws where "w = JArr ws" ..
  with 5 show ?case
    using jprint_append_not_close [of _ _ r] by (cases ws) (simp_all, metis append_assoc)
next
  case (6 e v vs)
  from same_shape(5) [OF 6(3) refl] obtain ws where w: "w = JArr ws" ..
  show ?case
  proof (cases ws)
    case Nil
    with 6(3) w have "jprint esc v @ (jelems esc vs @ r) = CHR '']'' # s" by simp
    then show ?thesis using jprint_append_not_close by blast
  next
    case (Cons v' vs')
    with 6(3) w have "jprint esc v @ (jelems esc vs @ r) = jprint esc v' @ (jelems esc vs' @ s)" by simp
    from "6.IH"(1) [OF this after_value_elems after_value_elems]
    have "v = v'" "jelems esc vs @ r = jelems esc vs' @ s" by simp_all
    with "6.IH"(2) w Cons show ?thesis by blast
  qed
next
  case (7 e)
  from same_shape(6) [OF 7(1) refl] obtain ws where "w = JObj ws" ..
  with 7 show ?case by (cases ws) (auto simp: py_quote_def dquote_def)
next
  case (8 e k v kvs)
  from same_shape(6) [OF 8(3) refl] obtain ws where w: "w = JObj ws" ..
  show ?case
  proof (cases ws)
    case Nil
    with 8(3) w show ?thesis by (auto simp: py_quote_def dquote_def)
  next
    case (Cons kv' kvs')
    then obtain k' v' where kv: "ws = (k', v') # kvs'" by (cases kv') auto
    with 8(3) w have "py_quote esc k @ (CHR '':'' # jprint esc v @ jmembers esc kvs @ r)
        = py_quote esc k' @ (CHR '':'' # jprint esc v' @ jmembers esc kvs' @ s)" by simp
    then have k: "k = k'" and eq: "jprint esc v @ (jmembers esc kvs @ r) = jprint esc v' @ (jmembers esc kvs' @ s)"
      by (auto dest: py_quote_inj)
    from "8.IH"(1) [OF eq after_value_members after_value_members]
    have "v = v'" "jmembers esc kvs @ r = jmembers esc kvs' @ s" by simp_all
    with "8.IH"(2) w kv k show ?thesis by blast
  qed
next
  case (9 e)
  then show ?case by (cases ws) auto
next
  case (10 e v vs)
  show ?case
  proof (cases ws)
    case Nil
    with 10(3) show ?thesis by simp
  next
    case (Cons v' vs')
    with 10(3) have "jprint esc v @ (jelems esc vs @ r) = jprint esc v' @ (jelems esc vs' @ s)" by simp
    from "10.IH"(1) [OF this after_value_elems after_value_elems]
    have "v = v'" "jelems esc vs @ r = jelems esc vs' @ s" by simp_all
    with "10.IH"(2) Cons show ?thesis by blast
  qed
next
  case (11 e)
  then show ?case by (cases kws) (auto simp: jmembers_Cons)
next
  case (12 e k v kvs)
  show ?case
  proof (cases kws)
    case Nil
    with 12(3) show ?thesis by simp
  next
    case (Cons kv' kvs')
    then obtain k' v' where kv: "kws = (k', v') # kvs'" by (cases kv') auto
    with 12(3) have "py_quote esc k @ (CHR '':'' # jprint esc v @ jmembers esc kvs @ r)
        = py_quote esc k' @ (CHR '':'' # jprint esc v' @ jmembers esc kvs' @ s)" by simp
    then have k: "k = k'" and eq: "jprint esc v @ (jmembers esc kvs @ r) = jprint esc v' @ (jmembers esc kvs' @ s)"
      by (auto dest: py_quote_inj)
    from "12.IH"(1) [OF eq after_value_members after_value_members]
    have "v = v'" "jmembers esc kvs @ r = jmembers esc kvs' @ s" by simp_all
    with "12.IH"(2) kv k show ?thesis by blast
  qed
qed

lemma jprint_inj: "jprint esc v = jprint esc w \<Longrightarrow> v = w"
  using jprint_inj_rest(1) [of v "[]" w "[]"] by (simp add: after_value_def)

lemma sorted_text_inj: "jprint esc (canon v) = jprint esc (canon w) \<longleftrightarrow> canon v = canon w"
  by (auto dest: jprint_inj)

end

interpretation ascii_text: json_text py_escape unescape
  by unfold_locales (rule unescape_escape, rule escape_head)

interpretation raw_text: json_text raw_escape unescape
  by unfold_locales (rule unescape_raw, rule raw_escape_head)

lemma dumps_inj: "dumps v = dumps w \<Longrightarrow> canon v = canon w"
  by (simp add: dumps_def ascii_text.sorted_text_inj)

lemma dumps_raw_inj: "dumps_raw v = dumps_raw w \<Longrightarrow> canon v = canon w"
  by (simp add: dumps_raw_def raw_text.sorted_text_inj)

end
