(* ===== verification/NZ_Vocabulary.thy ===== *)
theory NZ_Vocabulary
  imports Canonical_Json
begin

text \<open>
  The closed vocabularies of \<^verbatim>\<open>runtime/nonzero_cloudops/models\<close> (\<^verbatim>\<open>enums.py\<close>,
  \<^verbatim>\<open>public_enums.py\<close>), the workflow transition table (\<^verbatim>\<open>transitions.py\<close>), the
  capability policy (\<^verbatim>\<open>authority.py\<close>) and the mapping of failures to workflow states
  (\<^verbatim>\<open>failures.py\<close>). The lemmas show that the table is a closed state machine whose
  sinks are exactly the terminal states, and that every failure leads to a state from which
  no effect can start.
\<close>

section \<open>Vocabularies\<close>

datatype workflow_state =
    WS_RECEIVED
  | WS_INVESTIGATING
  | WS_EVIDENCE_READY
  | WS_REMEDIATION_PROPOSED
  | WS_AWAITING_APPROVAL
  | WS_APPROVED
  | WS_EXECUTING
  | WS_VERIFYING
  | WS_NO_ACTION_REQUIRED
  | WS_RECOMMENDATION_ONLY
  | WS_SUCCESS_WITH_EVIDENCE
  | WS_DENIED_BY_HUMAN
  | WS_DENIED_BY_POLICY
  | WS_MODEL_OUTPUT_INVALID
  | WS_AMBIGUOUS_RESULT
  | WS_DEPENDENCY_UNAVAILABLE
  | WS_BUDGET_EXHAUSTED
  | WS_EXECUTION_FAILED
  | WS_VERIFICATION_FAILED
  | WS_RECOVERY_REQUIRED

fun workflow_state_value :: "workflow_state \<Rightarrow> string" where
  "workflow_state_value WS_RECEIVED = ''RECEIVED''"
| "workflow_state_value WS_INVESTIGATING = ''INVESTIGATING''"
| "workflow_state_value WS_EVIDENCE_READY = ''EVIDENCE_READY''"
| "workflow_state_value WS_REMEDIATION_PROPOSED = ''REMEDIATION_PROPOSED''"
| "workflow_state_value WS_AWAITING_APPROVAL = ''AWAITING_APPROVAL''"
| "workflow_state_value WS_APPROVED = ''APPROVED''"
| "workflow_state_value WS_EXECUTING = ''EXECUTING''"
| "workflow_state_value WS_VERIFYING = ''VERIFYING''"
| "workflow_state_value WS_NO_ACTION_REQUIRED = ''NO_ACTION_REQUIRED''"
| "workflow_state_value WS_RECOMMENDATION_ONLY = ''RECOMMENDATION_ONLY''"
| "workflow_state_value WS_SUCCESS_WITH_EVIDENCE = ''SUCCESS_WITH_EVIDENCE''"
| "workflow_state_value WS_DENIED_BY_HUMAN = ''DENIED_BY_HUMAN''"
| "workflow_state_value WS_DENIED_BY_POLICY = ''DENIED_BY_POLICY''"
| "workflow_state_value WS_MODEL_OUTPUT_INVALID = ''MODEL_OUTPUT_INVALID''"
| "workflow_state_value WS_AMBIGUOUS_RESULT = ''AMBIGUOUS_RESULT''"
| "workflow_state_value WS_DEPENDENCY_UNAVAILABLE = ''DEPENDENCY_UNAVAILABLE''"
| "workflow_state_value WS_BUDGET_EXHAUSTED = ''BUDGET_EXHAUSTED''"
| "workflow_state_value WS_EXECUTION_FAILED = ''EXECUTION_FAILED''"
| "workflow_state_value WS_VERIFICATION_FAILED = ''VERIFICATION_FAILED''"
| "workflow_state_value WS_RECOVERY_REQUIRED = ''RECOVERY_REQUIRED''"

datatype capability =
    CAP_INSPECT_INSTANCE
  | CAP_READ_UTILIZATION_METRICS
  | CAP_BUILD_REMEDIATION_EVIDENCE
  | CAP_STOP_SANDBOX_INSTANCE
  | CAP_VERIFY_INSTANCE_STATE
  | CAP_QUERY_RESOURCE
  | CAP_PLAN_REMEDIATION
  | CAP_RELEASE_ELASTIC_IP
  | CAP_REVOKE_PUBLIC_INGRESS
  | CAP_TERMINATE_INSTANCES
  | CAP_START_INSTANCES
  | CAP_REBOOT_INSTANCES
  | CAP_MODIFY_INSTANCE_ATTRIBUTE
  | CAP_CREATE_TAGS
  | CAP_DELETE_TAGS
  | CAP_IAM_MUTATION
  | CAP_SSM_COMMAND_EXECUTION
  | CAP_FILESYSTEM_ACCESS
  | CAP_CREDENTIAL_ACCESS
  | CAP_UNSAFE_STOP_OPTIONS
  | CAP_STORAGE_DATABASE_DELETION
  | CAP_SECURITY_GROUP_NETWORK_OPENING
  | CAP_SHELL_EXECUTION
  | CAP_ARBITRARY_CODE_EXECUTION
  | CAP_ARBITRARY_URL_FETCH
  | CAP_OUTSIDE_SANDBOX_SCOPE

fun capability_value :: "capability \<Rightarrow> string" where
  "capability_value CAP_INSPECT_INSTANCE = ''inspect_instance''"
| "capability_value CAP_READ_UTILIZATION_METRICS = ''read_utilization_metrics''"
| "capability_value CAP_BUILD_REMEDIATION_EVIDENCE = ''build_remediation_evidence''"
| "capability_value CAP_STOP_SANDBOX_INSTANCE = ''stop_sandbox_instance''"
| "capability_value CAP_VERIFY_INSTANCE_STATE = ''verify_instance_state''"
| "capability_value CAP_QUERY_RESOURCE = ''query_resource''"
| "capability_value CAP_PLAN_REMEDIATION = ''plan_remediation''"
| "capability_value CAP_RELEASE_ELASTIC_IP = ''ReleaseAddress''"
| "capability_value CAP_REVOKE_PUBLIC_INGRESS = ''RevokeSecurityGroupIngress''"
| "capability_value CAP_TERMINATE_INSTANCES = ''TerminateInstances''"
| "capability_value CAP_START_INSTANCES = ''StartInstances''"
| "capability_value CAP_REBOOT_INSTANCES = ''RebootInstances''"
| "capability_value CAP_MODIFY_INSTANCE_ATTRIBUTE = ''ModifyInstanceAttribute''"
| "capability_value CAP_CREATE_TAGS = ''CreateTags''"
| "capability_value CAP_DELETE_TAGS = ''DeleteTags''"
| "capability_value CAP_IAM_MUTATION = ''IAM_MUTATION''"
| "capability_value CAP_SSM_COMMAND_EXECUTION = ''SSM_COMMAND_EXECUTION''"
| "capability_value CAP_FILESYSTEM_ACCESS = ''FILESYSTEM_ACCESS''"
| "capability_value CAP_CREDENTIAL_ACCESS = ''CREDENTIAL_ACCESS''"
| "capability_value CAP_UNSAFE_STOP_OPTIONS = ''UNSAFE_STOP_OPTIONS''"
| "capability_value CAP_STORAGE_DATABASE_DELETION = ''STORAGE_DATABASE_DELETION''"
| "capability_value CAP_SECURITY_GROUP_NETWORK_OPENING = ''SECURITY_GROUP_NETWORK_OPENING''"
| "capability_value CAP_SHELL_EXECUTION = ''SHELL_EXECUTION''"
| "capability_value CAP_ARBITRARY_CODE_EXECUTION = ''ARBITRARY_CODE_EXECUTION''"
| "capability_value CAP_ARBITRARY_URL_FETCH = ''ARBITRARY_URL_FETCH''"
| "capability_value CAP_OUTSIDE_SANDBOX_SCOPE = ''OUTSIDE_SANDBOX_SCOPE''"

datatype proposal_state =
    PS_PROPOSED
  | PS_AWAITING_APPROVAL
  | PS_SUPERSEDED

datatype approval_decision =
    AD_APPROVED
  | AD_DENIED

fun approval_decision_value :: "approval_decision \<Rightarrow> string" where
  "approval_decision_value AD_APPROVED = ''APPROVED''"
| "approval_decision_value AD_DENIED = ''DENIED''"

datatype failure_kind =
    FK_VALIDATION_FAILURE
  | FK_POLICY_DENIAL
  | FK_AMBIGUOUS_RESULT
  | FK_DEPENDENCY_UNAVAILABLE
  | FK_BUDGET_EXHAUSTION
  | FK_EXECUTION_FAILURE
  | FK_VERIFICATION_FAILURE
  | FK_RECOVERY_REQUIREMENT
  | FK_ILLEGAL_STATE_TRANSITION
  | FK_PROVIDER_FAILURE
  | FK_TOOL_ADAPTER_FAILURE
  | FK_STORAGE_FAILURE
  | FK_IDEMPOTENCY_CONFLICT
  | FK_NOT_FOUND
  | FK_CONFIGURATION_ERROR

datatype result_status =
    RS_SUCCESS
  | RS_FAILURE

datatype action_outcome =
    AO_SUCCEEDED
  | AO_FAILED
  | AO_AMBIGUOUS
  | AO_RECONCILIATION_REQUIRED

datatype idempotency_status =
    IS_REGISTERED
  | IS_COMPLETED
  | IS_FAILED
  | IS_RECONCILIATION_REQUIRED

datatype execution_acknowledgement_status =
    EAS_ACCEPTED

datatype verification_disposition =
    VD_VERIFIED
  | VD_STILL_TRANSITIONING
  | VD_MISMATCH

fun verification_disposition_value :: "verification_disposition \<Rightarrow> string" where
  "verification_disposition_value VD_VERIFIED = ''VERIFIED''"
| "verification_disposition_value VD_STILL_TRANSITIONING = ''STILL_TRANSITIONING''"
| "verification_disposition_value VD_MISMATCH = ''MISMATCH''"

datatype verification_proof_origin =
    VPO_EXECUTION_ACKNOWLEDGEMENT
  | VPO_RECOVERY_READ_BACK

fun verification_proof_origin_value :: "verification_proof_origin \<Rightarrow> string" where
  "verification_proof_origin_value VPO_EXECUTION_ACKNOWLEDGEMENT = ''EXECUTION_ACKNOWLEDGEMENT''"
| "verification_proof_origin_value VPO_RECOVERY_READ_BACK = ''RECOVERY_READ_BACK''"

datatype observed_instance_state =
    OIS_PENDING
  | OIS_RUNNING
  | OIS_STOPPING
  | OIS_STOPPED

fun observed_instance_state_value :: "observed_instance_state \<Rightarrow> string" where
  "observed_instance_state_value OIS_PENDING = ''pending''"
| "observed_instance_state_value OIS_RUNNING = ''running''"
| "observed_instance_state_value OIS_STOPPING = ''stopping''"
| "observed_instance_state_value OIS_STOPPED = ''stopped''"

datatype audit_event_type =
    AET_RUN_CREATED
  | AET_STATE_TRANSITIONED
  | AET_PROPOSAL_CREATED
  | AET_APPROVAL_REQUESTED
  | AET_APPROVAL_RECORDED
  | AET_IDEMPOTENCY_REGISTERED
  | AET_EXECUTION_REQUESTED
  | AET_EXECUTION_ACKNOWLEDGED
  | AET_VERIFICATION_STARTED
  | AET_VERIFICATION_OBSERVED
  | AET_CHECKPOINT_SAVED
  | AET_TOOL_OBSERVED
  | AET_MODEL_OBSERVED
  | AET_VERIFICATION_RECORDED
  | AET_RECOVERY_CLASSIFIED
  | AET_RECOVERY_OBSERVED
  | AET_RECOVERY_COMPLETED
  | AET_RECOVERY_DEFERRED
  | AET_POLICY_DENIED
  | AET_MODEL_OUTPUT_REJECTED
  | AET_BUDGET_UPDATED
  | AET_BUDGET_EXHAUSTED
  | AET_RESOURCE_QUERIED
  | AET_REMEDIATION_PLANNED
  | AET_NO_ACTION_RECORDED
  | AET_RECOMMENDATION_RECORDED

datatype cloud_resource_type =
    CRT_EC2_INSTANCE
  | CRT_ELASTIC_IP
  | CRT_SECURITY_GROUP

fun cloud_resource_type_value :: "cloud_resource_type \<Rightarrow> string" where
  "cloud_resource_type_value CRT_EC2_INSTANCE = ''AWS::EC2::Instance''"
| "cloud_resource_type_value CRT_ELASTIC_IP = ''AWS::EC2::EIP''"
| "cloud_resource_type_value CRT_SECURITY_GROUP = ''AWS::EC2::SecurityGroup''"

datatype cloud_finding =
    CF_UNATTACHED_ELASTIC_IP
  | CF_OVERLY_PERMISSIVE_INGRESS
  | CF_REQUIRED_TAGS_MISSING
  | CF_CLEAN

fun cloud_finding_value :: "cloud_finding \<Rightarrow> string" where
  "cloud_finding_value CF_UNATTACHED_ELASTIC_IP = ''UNATTACHED_ELASTIC_IP''"
| "cloud_finding_value CF_OVERLY_PERMISSIVE_INGRESS = ''OVERLY_PERMISSIVE_INGRESS''"
| "cloud_finding_value CF_REQUIRED_TAGS_MISSING = ''REQUIRED_TAGS_MISSING''"
| "cloud_finding_value CF_CLEAN = ''CLEAN''"

datatype remediation_operation =
    RO_RELEASE_ELASTIC_IP
  | RO_REVOKE_PUBLIC_INGRESS
  | RO_APPLY_REQUIRED_TAGS

fun remediation_operation_value :: "remediation_operation \<Rightarrow> string" where
  "remediation_operation_value RO_RELEASE_ELASTIC_IP = ''RELEASE_ELASTIC_IP''"
| "remediation_operation_value RO_REVOKE_PUBLIC_INGRESS = ''REVOKE_PUBLIC_INGRESS''"
| "remediation_operation_value RO_APPLY_REQUIRED_TAGS = ''APPLY_REQUIRED_TAGS''"

datatype plan_disposition =
    PD_PROPOSAL
  | PD_NO_ACTION
  | PD_NON_EXECUTABLE_RECOMMENDATION

fun plan_disposition_value :: "plan_disposition \<Rightarrow> string" where
  "plan_disposition_value PD_PROPOSAL = ''PROPOSAL''"
| "plan_disposition_value PD_NO_ACTION = ''NO_ACTION''"
| "plan_disposition_value PD_NON_EXECUTABLE_RECOMMENDATION = ''NON_EXECUTABLE_RECOMMENDATION''"

datatype recovery_disposition =
    RD_NEW_RUN
  | RD_SAFE_RESUMABLE
  | RD_AWAITING_APPROVAL
  | RD_RECONCILIATION_REQUIRED
  | RD_TERMINAL_RUN

datatype approval_status =
    AS_NOT_REQUIRED
  | AS_PENDING_APPROVAL
  | AS_APPROVED
  | AS_REJECTED

datatype execution_state =
    ES_INIT
  | ES_RUNNING
  | ES_PENDING
  | ES_SUCCESS
  | ES_FAIL

datatype authority_gate =
    AG_AUTO
  | AG_PLAN_AND_CONFIRM
  | AG_NEVER_AUTONOMOUS

fun authority_gate_value :: "authority_gate \<Rightarrow> string" where
  "authority_gate_value AG_AUTO = ''AUTO''"
| "authority_gate_value AG_PLAN_AND_CONFIRM = ''PLAN_AND_CONFIRM''"
| "authority_gate_value AG_NEVER_AUTONOMOUS = ''NEVER_AUTONOMOUS''"


section \<open>Exceptions\<close>

text \<open>
  The exceptions that cross the boundaries of the module. Workflow, capability and storage
  errors derive from \<^verbatim>\<open>NonZeroContractError\<close>, itself a \<^verbatim>\<open>ValueError\<close>; a failed
  contract validation is a \<^verbatim>\<open>ValueError\<close>; the portable adapter's errors derive from
  \<^verbatim>\<open>RuntimeError\<close>.
\<close>

datatype exn =
    WorkflowTransitionError
  | CapabilityDeniedError
  | DurablePrerequisiteError
  | StorageDependencyError
  | StorageConflictError
  | ValueError
  | TypeError
  | PortablePolicyError
  | PortableConflictError
  | CloudResourceNotFoundError
  | CloudAdapterUnavailableError
  | AttributeError

fun is_value_error :: "exn \<Rightarrow> bool" where
  "is_value_error TypeError = False"
| "is_value_error PortablePolicyError = False"
| "is_value_error PortableConflictError = False"
| "is_value_error CloudResourceNotFoundError = False"
| "is_value_error CloudAdapterUnavailableError = False"
| "is_value_error AttributeError = False"
| "is_value_error _ = True"

fun is_portable_mutation_error :: "exn \<Rightarrow> bool" where
  "is_portable_mutation_error PortablePolicyError = True"
| "is_portable_mutation_error PortableConflictError = True"
| "is_portable_mutation_error _ = False"

section \<open>Workflow transitions\<close>

definition TERMINAL_WORKFLOW_STATES :: "workflow_state list" where
  "TERMINAL_WORKFLOW_STATES =
     [WS_SUCCESS_WITH_EVIDENCE, WS_NO_ACTION_REQUIRED, WS_RECOMMENDATION_ONLY, WS_DENIED_BY_HUMAN,
      WS_DENIED_BY_POLICY, WS_MODEL_OUTPUT_INVALID, WS_AMBIGUOUS_RESULT, WS_DEPENDENCY_UNAVAILABLE,
      WS_BUDGET_EXHAUSTED, WS_EXECUTION_FAILED, WS_VERIFICATION_FAILED]"

definition COMMON_INVESTIGATION_FAILURES :: "workflow_state list" where
  "COMMON_INVESTIGATION_FAILURES =
     [WS_DENIED_BY_POLICY, WS_MODEL_OUTPUT_INVALID, WS_AMBIGUOUS_RESULT, WS_DEPENDENCY_UNAVAILABLE,
      WS_BUDGET_EXHAUSTED, WS_RECOVERY_REQUIRED]"

fun ALLOWED_WORKFLOW_TRANSITIONS :: "workflow_state \<Rightarrow> workflow_state list" where
  "ALLOWED_WORKFLOW_TRANSITIONS WS_RECEIVED =
     [WS_INVESTIGATING, WS_DENIED_BY_POLICY, WS_MODEL_OUTPUT_INVALID, WS_DEPENDENCY_UNAVAILABLE,
      WS_BUDGET_EXHAUSTED]"
| "ALLOWED_WORKFLOW_TRANSITIONS WS_INVESTIGATING =
     WS_EVIDENCE_READY # COMMON_INVESTIGATION_FAILURES"
| "ALLOWED_WORKFLOW_TRANSITIONS WS_EVIDENCE_READY =
     [WS_REMEDIATION_PROPOSED, WS_NO_ACTION_REQUIRED, WS_RECOMMENDATION_ONLY, WS_DENIED_BY_POLICY]
     @ COMMON_INVESTIGATION_FAILURES"
| "ALLOWED_WORKFLOW_TRANSITIONS WS_REMEDIATION_PROPOSED =
     [WS_AWAITING_APPROVAL, WS_DENIED_BY_POLICY, WS_DEPENDENCY_UNAVAILABLE, WS_RECOVERY_REQUIRED]"
| "ALLOWED_WORKFLOW_TRANSITIONS WS_AWAITING_APPROVAL =
     [WS_APPROVED, WS_DENIED_BY_HUMAN, WS_DENIED_BY_POLICY, WS_MODEL_OUTPUT_INVALID,
      WS_DEPENDENCY_UNAVAILABLE, WS_BUDGET_EXHAUSTED, WS_RECOVERY_REQUIRED]"
| "ALLOWED_WORKFLOW_TRANSITIONS WS_APPROVED =
     [WS_EXECUTING, WS_DEPENDENCY_UNAVAILABLE, WS_RECOVERY_REQUIRED]"
| "ALLOWED_WORKFLOW_TRANSITIONS WS_EXECUTING =
     [WS_VERIFYING, WS_DENIED_BY_POLICY, WS_EXECUTION_FAILED, WS_AMBIGUOUS_RESULT,
      WS_DEPENDENCY_UNAVAILABLE, WS_BUDGET_EXHAUSTED, WS_RECOVERY_REQUIRED]"
| "ALLOWED_WORKFLOW_TRANSITIONS WS_VERIFYING =
     [WS_SUCCESS_WITH_EVIDENCE, WS_DENIED_BY_POLICY, WS_MODEL_OUTPUT_INVALID, WS_VERIFICATION_FAILED,
      WS_AMBIGUOUS_RESULT, WS_DEPENDENCY_UNAVAILABLE, WS_BUDGET_EXHAUSTED, WS_RECOVERY_REQUIRED]"
| "ALLOWED_WORKFLOW_TRANSITIONS WS_RECOVERY_REQUIRED =
     [WS_VERIFYING, WS_DENIED_BY_POLICY, WS_DEPENDENCY_UNAVAILABLE, WS_VERIFICATION_FAILED]"
| "ALLOWED_WORKFLOW_TRANSITIONS _ = []"

definition validate_workflow_transition :: "workflow_state \<Rightarrow> workflow_state \<Rightarrow> exn + workflow_state" where
  "validate_workflow_transition current_state next_state =
     (if next_state \<in> set (ALLOWED_WORKFLOW_TRANSITIONS current_state) then Inr next_state
      else Inl WorkflowTransitionError)"

lemma validate_workflow_transition_eq [result_simps]:
  "validate_workflow_transition s t = Inr u \<longleftrightarrow> t \<in> set (ALLOWED_WORKFLOW_TRANSITIONS s) \<and> u = t"
  by (auto simp: validate_workflow_transition_def)

lemma terminal_no_successor:
  "s \<in> set TERMINAL_WORKFLOW_STATES \<longleftrightarrow> ALLOWED_WORKFLOW_TRANSITIONS s = []"
  by (cases s) (simp_all add: TERMINAL_WORKFLOW_STATES_def COMMON_INVESTIGATION_FAILURES_def)

text \<open>A path of the workflow: consecutive states joined by allowed transitions.\<close>

fun workflow_path :: "workflow_state \<Rightarrow> workflow_state list \<Rightarrow> bool" where
  "workflow_path s [] = True"
| "workflow_path s (t # ts) = (t \<in> set (ALLOWED_WORKFLOW_TRANSITIONS s) \<and> workflow_path t ts)"

text \<open>
  The only cycle goes through recovery (\<^const>\<open>WS_RECOVERY_REQUIRED\<close> and
  \<^const>\<open>WS_VERIFYING\<close>): outside it every transition raises this rank.
\<close>

fun workflow_rank :: "workflow_state \<Rightarrow> nat" where
  "workflow_rank WS_RECEIVED = 0"
| "workflow_rank WS_INVESTIGATING = 1"
| "workflow_rank WS_EVIDENCE_READY = 2"
| "workflow_rank WS_REMEDIATION_PROPOSED = 3"
| "workflow_rank WS_AWAITING_APPROVAL = 4"
| "workflow_rank WS_APPROVED = 5"
| "workflow_rank WS_EXECUTING = 6"
| "workflow_rank WS_VERIFYING = 7"
| "workflow_rank WS_RECOVERY_REQUIRED = 7"
| "workflow_rank _ = 8"

lemma workflow_rank_step:
  "t \<in> set (ALLOWED_WORKFLOW_TRANSITIONS s) \<Longrightarrow>
     workflow_rank s < workflow_rank t \<or> {s, t} = {WS_VERIFYING, WS_RECOVERY_REQUIRED}"
  by (cases s) (auto simp: COMMON_INVESTIGATION_FAILURES_def)

lemma approved_only_from_awaiting:
  "WS_APPROVED \<in> set (ALLOWED_WORKFLOW_TRANSITIONS s) \<Longrightarrow> s = WS_AWAITING_APPROVAL"
  by (cases s) (auto simp: COMMON_INVESTIGATION_FAILURES_def)

lemma executing_only_from_approved:
  "WS_EXECUTING \<in> set (ALLOWED_WORKFLOW_TRANSITIONS s) \<Longrightarrow> s = WS_APPROVED"
  by (cases s) (auto simp: COMMON_INVESTIGATION_FAILURES_def)

lemma success_only_from_verifying:
  "WS_SUCCESS_WITH_EVIDENCE \<in> set (ALLOWED_WORKFLOW_TRANSITIONS s) \<Longrightarrow> s = WS_VERIFYING"
  by (cases s) (auto simp: COMMON_INVESTIGATION_FAILURES_def)

text \<open>The transition table gates execution: a run that reaches execution came straight from the
  approved state, and that straight from awaiting approval.\<close>

theorem execution_follows_approval:
  assumes "workflow_path WS_RECEIVED (ts @ [WS_EXECUTING])"
  shows "\<exists>us. ts = us @ [WS_AWAITING_APPROVAL, WS_APPROVED]"
proof -
  have last: "t \<in> set (ALLOWED_WORKFLOW_TRANSITIONS (if us = [] then s else last us))"
    if "workflow_path s (us @ [t])" for s us t
    using that by (induction us arbitrary: s) (auto split: if_splits)
  have front: "workflow_path s us" if "workflow_path s (us @ [t])" for s us t
    using that by (induction us arbitrary: s) auto
  have "ts \<noteq> []" "last ts = WS_APPROVED"
    using last [OF assms] executing_only_from_approved by (auto split: if_splits)
  then obtain vs where ts: "ts = vs @ [WS_APPROVED]" by (metis append_butlast_last_id)
  have "vs \<noteq> []" "last vs = WS_AWAITING_APPROVAL"
    using last [OF front [OF assms, unfolded ts]] approved_only_from_awaiting by (auto split: if_splits)
  then have "vs = butlast vs @ [WS_AWAITING_APPROVAL]" by (metis append_butlast_last_id)
  then show ?thesis using ts by (metis append_Cons append_Nil append_assoc)
qed

theorem execution_follows_approval_witness:
  "\<exists>us. [WS_INVESTIGATING, WS_EVIDENCE_READY, WS_REMEDIATION_PROPOSED, WS_AWAITING_APPROVAL, WS_APPROVED]
     = us @ [WS_AWAITING_APPROVAL, WS_APPROVED]"
  by (rule execution_follows_approval) simp

text \<open>Property C40. The workflow cannot run forever without going through recovery again: the length of a path is
  bounded by the states still ahead plus two for every time recovery is entered.\<close>

theorem workflow_path_bounded:
  assumes "workflow_path s ts"
  shows "length ts \<le> (8 - workflow_rank s) + (if s = WS_RECOVERY_REQUIRED then 1 else 0) + 2 * count_list ts WS_RECOVERY_REQUIRED"
  using assms
proof (induction ts arbitrary: s)
  case (Cons t ts)
  then have st: "t \<in> set (ALLOWED_WORKFLOW_TRANSITIONS s)" and IH: "length ts \<le> (8 - workflow_rank t)
      + (if t = WS_RECOVERY_REQUIRED then 1 else 0) + 2 * count_list ts WS_RECOVERY_REQUIRED" by auto
  have "workflow_rank t \<le> 8" by (cases t) simp_all
  moreover have "workflow_rank s < 8" using st by (cases s) simp_all
  ultimately show ?case using IH workflow_rank_step [OF st] by (auto simp: doubleton_eq_iff split: if_splits)
qed simp

theorem workflow_path_bounded_witness:
  "length [WS_RECOVERY_REQUIRED, WS_VERIFYING, WS_SUCCESS_WITH_EVIDENCE]
     \<le> (8 - workflow_rank WS_EXECUTING) + (if WS_EXECUTING = WS_RECOVERY_REQUIRED then 1 else 0)
        + 2 * count_list [WS_RECOVERY_REQUIRED, WS_VERIFYING, WS_SUCCESS_WITH_EVIDENCE] WS_RECOVERY_REQUIRED"
  by (rule workflow_path_bounded) simp

section \<open>Authority of capabilities\<close>

fun CAPABILITY_AUTHORITY :: "capability \<Rightarrow> authority_gate" where
  "CAPABILITY_AUTHORITY CAP_INSPECT_INSTANCE = AG_AUTO"
| "CAPABILITY_AUTHORITY CAP_READ_UTILIZATION_METRICS = AG_AUTO"
| "CAPABILITY_AUTHORITY CAP_BUILD_REMEDIATION_EVIDENCE = AG_AUTO"
| "CAPABILITY_AUTHORITY CAP_STOP_SANDBOX_INSTANCE = AG_PLAN_AND_CONFIRM"
| "CAPABILITY_AUTHORITY CAP_VERIFY_INSTANCE_STATE = AG_AUTO"
| "CAPABILITY_AUTHORITY CAP_QUERY_RESOURCE = AG_AUTO"
| "CAPABILITY_AUTHORITY CAP_PLAN_REMEDIATION = AG_PLAN_AND_CONFIRM"
| "CAPABILITY_AUTHORITY CAP_RELEASE_ELASTIC_IP = AG_PLAN_AND_CONFIRM"
| "CAPABILITY_AUTHORITY CAP_REVOKE_PUBLIC_INGRESS = AG_PLAN_AND_CONFIRM"
| "CAPABILITY_AUTHORITY CAP_TERMINATE_INSTANCES = AG_NEVER_AUTONOMOUS"
| "CAPABILITY_AUTHORITY CAP_START_INSTANCES = AG_NEVER_AUTONOMOUS"
| "CAPABILITY_AUTHORITY CAP_REBOOT_INSTANCES = AG_NEVER_AUTONOMOUS"
| "CAPABILITY_AUTHORITY CAP_MODIFY_INSTANCE_ATTRIBUTE = AG_NEVER_AUTONOMOUS"
| "CAPABILITY_AUTHORITY CAP_CREATE_TAGS = AG_NEVER_AUTONOMOUS"
| "CAPABILITY_AUTHORITY CAP_DELETE_TAGS = AG_NEVER_AUTONOMOUS"
| "CAPABILITY_AUTHORITY CAP_IAM_MUTATION = AG_NEVER_AUTONOMOUS"
| "CAPABILITY_AUTHORITY CAP_SSM_COMMAND_EXECUTION = AG_NEVER_AUTONOMOUS"
| "CAPABILITY_AUTHORITY CAP_FILESYSTEM_ACCESS = AG_NEVER_AUTONOMOUS"
| "CAPABILITY_AUTHORITY CAP_CREDENTIAL_ACCESS = AG_NEVER_AUTONOMOUS"
| "CAPABILITY_AUTHORITY CAP_UNSAFE_STOP_OPTIONS = AG_NEVER_AUTONOMOUS"
| "CAPABILITY_AUTHORITY CAP_STORAGE_DATABASE_DELETION = AG_NEVER_AUTONOMOUS"
| "CAPABILITY_AUTHORITY CAP_SECURITY_GROUP_NETWORK_OPENING = AG_NEVER_AUTONOMOUS"
| "CAPABILITY_AUTHORITY CAP_SHELL_EXECUTION = AG_NEVER_AUTONOMOUS"
| "CAPABILITY_AUTHORITY CAP_ARBITRARY_CODE_EXECUTION = AG_NEVER_AUTONOMOUS"
| "CAPABILITY_AUTHORITY CAP_ARBITRARY_URL_FETCH = AG_NEVER_AUTONOMOUS"
| "CAPABILITY_AUTHORITY CAP_OUTSIDE_SANDBOX_SCOPE = AG_NEVER_AUTONOMOUS"

definition authority_for_capability :: "capability \<Rightarrow> authority_gate" where
  "authority_for_capability c = CAPABILITY_AUTHORITY c"

definition require_capability_authority :: "capability \<Rightarrow> authority_gate \<Rightarrow> exn + authority_gate" where
  "require_capability_authority c claimed =
     (let required = authority_for_capability c
      in if claimed \<noteq> required then Inl CapabilityDeniedError else Inr required)"

section \<open>Failures\<close>

record failure_detail =
  f_kind :: failure_kind
  f_code :: string
  f_message :: string
  f_retryable :: bool

text \<open>\<^verbatim>\<open>ControlResult\<close>: a value exactly when it succeeded, a failure exactly when it failed.\<close>

datatype 'a control_result = Succeeded 'a | Failed failure_detail

fun FAILURE_WORKFLOW_STATE :: "failure_kind \<Rightarrow> workflow_state" where
  "FAILURE_WORKFLOW_STATE FK_VALIDATION_FAILURE = WS_MODEL_OUTPUT_INVALID"
| "FAILURE_WORKFLOW_STATE FK_POLICY_DENIAL = WS_DENIED_BY_POLICY"
| "FAILURE_WORKFLOW_STATE FK_AMBIGUOUS_RESULT = WS_AMBIGUOUS_RESULT"
| "FAILURE_WORKFLOW_STATE FK_DEPENDENCY_UNAVAILABLE = WS_DEPENDENCY_UNAVAILABLE"
| "FAILURE_WORKFLOW_STATE FK_BUDGET_EXHAUSTION = WS_BUDGET_EXHAUSTED"
| "FAILURE_WORKFLOW_STATE FK_EXECUTION_FAILURE = WS_EXECUTION_FAILED"
| "FAILURE_WORKFLOW_STATE FK_VERIFICATION_FAILURE = WS_VERIFICATION_FAILED"
| "FAILURE_WORKFLOW_STATE FK_RECOVERY_REQUIREMENT = WS_RECOVERY_REQUIRED"
| "FAILURE_WORKFLOW_STATE FK_ILLEGAL_STATE_TRANSITION = WS_RECOVERY_REQUIRED"
| "FAILURE_WORKFLOW_STATE FK_PROVIDER_FAILURE = WS_DEPENDENCY_UNAVAILABLE"
| "FAILURE_WORKFLOW_STATE FK_TOOL_ADAPTER_FAILURE = WS_DEPENDENCY_UNAVAILABLE"
| "FAILURE_WORKFLOW_STATE FK_STORAGE_FAILURE = WS_DEPENDENCY_UNAVAILABLE"
| "FAILURE_WORKFLOW_STATE FK_IDEMPOTENCY_CONFLICT = WS_RECOVERY_REQUIRED"
| "FAILURE_WORKFLOW_STATE FK_NOT_FOUND = WS_AMBIGUOUS_RESULT"
| "FAILURE_WORKFLOW_STATE FK_CONFIGURATION_ERROR = WS_DENIED_BY_POLICY"

definition workflow_state_for_failure :: "failure_detail \<Rightarrow> workflow_state" where
  "workflow_state_for_failure f = FAILURE_WORKFLOW_STATE (f_kind f)"

datatype boundary_risk = BR_READ_ONLY | BR_DURABLE_CONTROL | BR_MUTATION_OUTCOME_UNKNOWN

definition redacted_unknown_failure :: "boundary_risk \<Rightarrow> failure_detail" where
  "redacted_unknown_failure boundary =
     (if boundary = BR_MUTATION_OUTCOME_UNKNOWN then
        \<lparr>f_kind = FK_RECOVERY_REQUIREMENT, f_code = ''MUTATION_OUTCOME_UNKNOWN'',
         f_message = ''Mutation outcome is unknown and requires durable reconciliation'',
         f_retryable = False\<rparr>
      else if boundary = BR_DURABLE_CONTROL then
        \<lparr>f_kind = FK_DEPENDENCY_UNAVAILABLE, f_code = ''DURABLE_CONTROL_UNAVAILABLE'',
         f_message = ''Durable control dependency is unavailable'', f_retryable = True\<rparr>
      else
        \<lparr>f_kind = FK_DEPENDENCY_UNAVAILABLE, f_code = ''READ_DEPENDENCY_UNAVAILABLE'',
         f_message = ''Read-only dependency is unavailable'', f_retryable = True\<rparr>)"

end
