(* ===== verification/NZ_Redaction.thy ===== *)
theory NZ_Redaction
  imports NZ_Vocabulary
begin

text \<open>
  Detection of credential material in durable text (\<^verbatim>\<open>models/redaction.py\<close>). The regular
  expressions of the source are built from the combinators below. Only the existence of a
  match matters for detection, so a matcher maps a position to all positions a match may end
  at; a position is the character before it and the text after it, which is what the word
  boundary assertion looks at.
\<close>

type_synonym pos = "char option \<times> string"
type_synonym matcher = "pos \<Rightarrow> pos list"

definition re_class :: "(char \<Rightarrow> bool) \<Rightarrow> matcher" where
  "re_class P p = (case snd p of [] \<Rightarrow> [] | c # r \<Rightarrow> if P c then [(Some c, r)] else [])"

definition re_seq :: "matcher \<Rightarrow> matcher \<Rightarrow> matcher" where
  "re_seq f g p = concat (map g (f p))"

definition re_alt :: "matcher list \<Rightarrow> matcher" where
  "re_alt fs p = concat (map (\<lambda>f. f p) fs)"

fun re_lit :: "string \<Rightarrow> matcher" where
  "re_lit [] p = [p]"
| "re_lit (c # cs) p = re_seq (re_class (\<lambda>d. d = c)) (re_lit cs) p"

text \<open>Between \<open>lo\<close> and \<open>hi\<close> characters of a class, and \<open>lo\<close> or more of them.\<close>

fun re_upto :: "(char \<Rightarrow> bool) \<Rightarrow> nat \<Rightarrow> matcher" where
  "re_upto P 0 p = [p]"
| "re_upto P (Suc n) p = p # re_seq (re_class P) (re_upto P n) p"

fun re_times :: "(char \<Rightarrow> bool) \<Rightarrow> nat \<Rightarrow> matcher" where
  "re_times P 0 p = [p]"
| "re_times P (Suc n) p = re_seq (re_class P) (re_times P n) p"

definition re_between :: "(char \<Rightarrow> bool) \<Rightarrow> nat \<Rightarrow> nat \<Rightarrow> matcher" where
  "re_between P lo hi = re_seq (re_times P lo) (re_upto P (hi - lo))"

definition re_least :: "(char \<Rightarrow> bool) \<Rightarrow> nat \<Rightarrow> matcher" where
  "re_least P lo = re_seq (re_times P lo) (\<lambda>p. re_upto P (length (snd p)) p)"

definition word_char :: "char \<Rightarrow> bool" where
  "word_char c \<longleftrightarrow>
     (let n = of_char c :: nat
      in ascii_alnum c \<or> c = CHR ''_'' \<or> n \<in> {0xAA, 0xB2, 0xB3, 0xB5, 0xB9, 0xBA, 0xBC, 0xBD, 0xBE}
         \<or> (0xC0 \<le> n \<and> n \<noteq> 0xD7 \<and> n \<noteq> 0xF7))"

definition at_boundary :: "pos \<Rightarrow> bool" where
  "at_boundary p \<longleftrightarrow>
     (case fst p of None \<Rightarrow> False | Some c \<Rightarrow> word_char c)
       \<noteq> (case snd p of [] \<Rightarrow> False | c # _ \<Rightarrow> word_char c)"

definition re_boundary :: matcher where
  "re_boundary p = (if at_boundary p then [p] else [])"

definition re_end :: matcher where
  "re_end p = (if snd p = [] \<or> snd p = [CHR 0x0A] then [p] else [])"

fun re_search_from :: "matcher \<Rightarrow> char option \<Rightarrow> string \<Rightarrow> bool" where
  "re_search_from f prev [] = (f (prev, []) \<noteq> [])"
| "re_search_from f prev (c # r) = (f (prev, c # r) \<noteq> [] \<or> re_search_from f (Some c) r)"

definition re_search :: "matcher \<Rightarrow> string \<Rightarrow> bool" where
  "re_search f s = re_search_from f None s"

fun re_chain :: "matcher list \<Rightarrow> matcher" where
  "re_chain [] p = [p]"
| "re_chain (f # fs) p = re_seq f (re_chain fs) p"

definition lower_ascii :: "char \<Rightarrow> char" where
  "lower_ascii c = (if char_between CHR ''A'' CHR ''Z'' c then char_of ((of_char c :: nat) + 32) else c)"

text \<open>A literal under \<^verbatim>\<open>(?i)\<close>; the literals of the source are lower case here.\<close>

fun re_ilit :: "string \<Rightarrow> matcher" where
  "re_ilit [] p = [p]"
| "re_ilit (c # cs) p = re_seq (re_class (\<lambda>d. lower_ascii d = c)) (re_ilit cs) p"

definition upper_digit :: "char \<Rightarrow> bool" where
  "upper_digit c \<longleftrightarrow> ascii_digit c \<or> char_between CHR ''A'' CHR ''Z'' c"

definition slash_class :: "char \<Rightarrow> bool" where
  "slash_class c \<longleftrightarrow> c = CHR ''/'' \<or> c = backslash"

definition SENSITIVE_PATTERNS :: "matcher list" where
  "SENSITIVE_PATTERNS =
    [re_chain [re_boundary, re_alt [re_lit ''AKIA'', re_lit ''ASIA''], re_times upper_digit 16, re_boundary],
     re_chain [re_boundary, re_ilit ''bearer'', re_least py_space 1,
       re_least (\<lambda>c. ascii_alnum c \<or> c \<in> set ''._~+/=-'') 8],
     re_chain [re_boundary, re_ilit ''authorization'', re_least py_space 0, re_lit '':'',
       re_least py_space 0, re_least (\<lambda>c. c \<notin> set [CHR 0x0D, CHR 0x0A, CHR '','', CHR '';'']) 4],
     re_chain [re_boundary, re_lit ''sk-'', re_least (\<lambda>c. ascii_alnum c \<or> c \<in> set ''_-'') 8, re_boundary],
     re_chain [re_boundary, re_alt [re_lit ''ghp'', re_lit ''github_pat''], re_lit ''_'',
       re_least (\<lambda>c. ascii_alnum c \<or> c = CHR ''_'') 8, re_boundary],
     re_chain [re_lit ''-----BEGIN '', re_least (\<lambda>c. char_between CHR ''A'' CHR ''Z'' c \<or> c = CHR '' '') 0,
       re_lit ''PRIVATE KEY-----''],
     re_chain [re_boundary,
       re_alt [re_ilit ''password'', re_ilit ''passwd'', re_ilit ''pwd'', re_ilit ''token'', re_ilit ''secret'',
         re_chain [re_ilit ''api'', re_between (\<lambda>c. c \<in> set ''_-'') 0 1, re_ilit ''key'']],
       re_least py_space 0, re_class (\<lambda>c. c \<in> set ''=:''), re_least py_space 0,
       re_least (\<lambda>c. \<not> py_space c \<and> c \<noteq> CHR '','' \<and> c \<noteq> CHR '';'') 4],
     re_chain [re_ilit ''http'', re_between (\<lambda>c. lower_ascii c = CHR ''s'') 0 1, re_lit ''://'',
       re_between (\<lambda>c. \<not> py_space c \<and> c \<notin> set ''/:@'') 1 128, re_lit '':'',
       re_between (\<lambda>c. \<not> py_space c \<and> c \<notin> set ''/@'') 1 256, re_lit ''@''],
     re_chain [re_class slash_class,
       re_alt [re_chain [re_ilit ''.aws'', re_class slash_class, re_ilit ''credentials''],
         re_chain [re_ilit ''.ssh'', re_class slash_class, re_ilit ''id_'',
           re_least (\<lambda>c. ascii_alnum c \<or> c = CHR ''_'') 1],
         re_ilit ''.env''],
       re_alt [re_boundary, re_end]]]"

definition contains_sensitive_text :: "string \<Rightarrow> bool" where
  "contains_sensitive_text rendered \<longleftrightarrow> (\<exists>f \<in> set SENSITIVE_PATTERNS. re_search f rendered)"

text \<open>A value that is not text is rendered as canonical JSON first.\<close>

definition contains_sensitive_material :: "json \<Rightarrow> bool" where
  "contains_sensitive_material v =
     contains_sensitive_text (case v of JStr s \<Rightarrow> s | _ \<Rightarrow> dumps v)"

end
