(* ===== verification/NZ_Resources.thy ===== *)
theory NZ_Resources
  imports NZ_Redaction
begin

text \<open>
  The first half of \<^verbatim>\<open>models/contracts.py\<close>: identifiers, run budgets, the versioned run,
  normalized cloud resources, resource evidence, remediation proposals and plans. A contract
  class is a record together with the predicate that its field constraints and validators
  check (\<open>valid_\<dots>\<close>); building or revalidating a contract is \<open>validated\<close>, which gives the
  record back or a \<^verbatim>\<open>ValueError\<close>. A field with a single permitted literal is left out of
  the record and written into the JSON payloads.
\<close>

definition validated :: "('a \<Rightarrow> bool) \<Rightarrow> 'a \<Rightarrow> exn + 'a" where
  "validated P x = (if P x then Inr x else Inl ValueError)"

lemma validated_eq_Inr [result_simps]: "validated P x = Inr y \<longleftrightarrow> P x \<and> y = x"
  by (auto simp: validated_def)

lemma validated_eq_Inl [result_simps]: "validated P x = Inl e \<longleftrightarrow> \<not> P x \<and> e = ValueError"
  by (auto simp: validated_def)

section \<open>Identifiers\<close>

definition uuid7 :: "uuid \<Rightarrow> bool" where
  "uuid7 u \<longleftrightarrow> and (drop_bit 76 u) 15 = 7 \<and> and (drop_bit 62 u) 3 = 2"

definition non_empty_text :: "string \<Rightarrow> bool" where
  "non_empty_text s \<longleftrightarrow> 1 \<le> length s \<and> length s \<le> 512 \<and> s = py_strip s"

definition identifier_tail :: "char \<Rightarrow> bool" where
  "identifier_tail c \<longleftrightarrow> ascii_alnum c \<or> c \<in> set ''._:#/-''"

definition identifier_shape :: "string \<Rightarrow> bool" where
  "identifier_shape s = (case s of [] \<Rightarrow> False | c # cs \<Rightarrow> ascii_alnum c \<and> list_all identifier_tail cs)"

definition short_identifier :: "string \<Rightarrow> bool" where
  "short_identifier s \<longleftrightarrow> 1 \<le> length s \<and> length s \<le> 256 \<and> identifier_shape s"

definition idempotency_key :: "string \<Rightarrow> bool" where
  "idempotency_key s \<longleftrightarrow> 16 \<le> length s \<and> length s \<le> 256 \<and> identifier_shape s"

definition sha256_digest :: "string \<Rightarrow> bool" where
  "sha256_digest s \<longleftrightarrow> length s = 64 \<and> list_all hex_lower s"

text \<open>\<^verbatim>\<open>^<prefix>[0-9a-f]{8}(?:[0-9a-f]{9})?$\<close>\<close>

definition prefixed_hex :: "string \<Rightarrow> string \<Rightarrow> bool" where
  "prefixed_hex p s \<longleftrightarrow>
     take (length p) s = p
     \<and> (let h = drop (length p) s in (length h = 8 \<or> length h = 17) \<and> list_all hex_lower h)"

definition ec2_instance_id :: "string \<Rightarrow> bool" where
  "ec2_instance_id s = prefixed_hex ''i-'' s"

definition decision_nonce_text :: "string \<Rightarrow> bool" where
  "decision_nonce_text s \<longleftrightarrow> non_empty_text s \<and> 16 \<le> length s \<and> length s \<le> 256"

lemma sha256_digest_digest [simp]: "sha256_digest (digest v)"
  using digest_shape [of v] by (simp add: sha256_digest_def list_all_iff)

lemma sha256_digest_text [simp]: "sha256_digest (sha256_text s)"
  using sha256_text_shape [of s] by (simp add: sha256_digest_def list_all_iff)

text \<open>
  A dictionary whose order is never observed is kept sorted by key, so that equality of the
  association lists is equality of the dictionaries.
\<close>

definition dict_canonical :: "(string \<times> 'v) list \<Rightarrow> bool" where
  "dict_canonical d \<longleftrightarrow> dict_ok d \<and> sorted (map fst d)"

section \<open>Budgets and runs\<close>

record budget_counters =
  max_turns :: int
  max_tokens :: int
  max_elapsed_seconds :: int
  turns_used :: int
  tokens_used :: int
  elapsed_milliseconds_used :: int

definition valid_budget :: "budget_counters \<Rightarrow> bool" where
  "valid_budget b \<longleftrightarrow>
     0 < max_turns b \<and> max_turns b \<le> 1000
     \<and> 0 < max_tokens b \<and> max_tokens b \<le> 10000000
     \<and> 0 < max_elapsed_seconds b \<and> max_elapsed_seconds b \<le> 3600
     \<and> 0 \<le> turns_used b \<and> 0 \<le> tokens_used b
     \<and> 0 \<le> elapsed_milliseconds_used b \<and> elapsed_milliseconds_used b \<le> 3600000
     \<and> turns_used b \<le> max_turns b
     \<and> tokens_used b \<le> max_tokens b
     \<and> elapsed_milliseconds_used b \<le> max_elapsed_seconds b * 1000"

record run =
  run_id :: uuid
  trace_id :: uuid
  correlation_id :: uuid
  run_idempotency_key :: string
  run_state :: workflow_state
  run_created_at :: datetime
  run_updated_at :: datetime
  run_budget :: budget_counters
  run_version :: int

definition valid_run :: "run \<Rightarrow> bool" where
  "valid_run r \<longleftrightarrow>
     uuid7 (run_id r) \<and> uuid7 (trace_id r) \<and> uuid7 (correlation_id r)
     \<and> idempotency_key (run_idempotency_key r)
     \<and> is_utc (run_created_at r) \<and> is_utc (run_updated_at r)
     \<and> valid_budget (run_budget r) \<and> 0 < run_version r
     \<and> dt_micros (run_created_at r) \<le> dt_micros (run_updated_at r)"

definition Run_new :: "uuid \<Rightarrow> uuid \<Rightarrow> uuid \<Rightarrow> string \<Rightarrow> datetime \<Rightarrow> budget_counters \<Rightarrow> exn + run" where
  "Run_new rid tid cid key created_at budget =
     validated valid_run
       \<lparr>run_id = rid, trace_id = tid, correlation_id = cid, run_idempotency_key = key,
        run_state = WS_RECEIVED, run_created_at = created_at, run_updated_at = created_at,
        run_budget = budget, run_version = 1\<rparr>"

definition transition_run :: "run \<Rightarrow> workflow_state \<Rightarrow> datetime \<Rightarrow> exn + run" where
  "transition_run r next_state updated_at =
     ebind (validate_workflow_transition (run_state r) next_state) (\<lambda>valid_state.
     ebind (ensure (is_utc updated_at) ValueError) (\<lambda>_.
     ebind (ensure (\<not> dt_micros updated_at < dt_micros (run_updated_at r)) ValueError) (\<lambda>_.
     validated valid_run
       (r\<lparr>run_state := valid_state, run_updated_at := updated_at, run_version := run_version r + 1\<rparr>))))"

lemma transition_run_eq:
  "transition_run r s t = Inr r' \<longleftrightarrow>
     s \<in> set (ALLOWED_WORKFLOW_TRANSITIONS (run_state r)) \<and> is_utc t
     \<and> dt_micros (run_updated_at r) \<le> dt_micros t
     \<and> r' = r\<lparr>run_state := s, run_updated_at := t, run_version := run_version r + 1\<rparr> \<and> valid_run r'"
  by (auto simp: transition_run_def result_simps)

text \<open>A transition of a valid run can only fail for the table or for the clock.\<close>

lemma transition_run_total:
  "valid_run r \<Longrightarrow> s \<in> set (ALLOWED_WORKFLOW_TRANSITIONS (run_state r)) \<Longrightarrow> is_utc t \<Longrightarrow>
   dt_micros (run_updated_at r) \<le> dt_micros t \<Longrightarrow>
   transition_run r s t = Inr (r\<lparr>run_state := s, run_updated_at := t, run_version := run_version r + 1\<rparr>)"
  by (auto simp: transition_run_eq valid_run_def)

section \<open>IPv4 text\<close>

fun split_on :: "char \<Rightarrow> string \<Rightarrow> string list" where
  "split_on c [] = [[]]"
| "split_on c (x # xs) =
     (if x = c then [] # split_on c xs
      else (case split_on c xs of [] \<Rightarrow> [[x]] | p # ps \<Rightarrow> (x # p) # ps))"

definition text_value :: "string \<Rightarrow> nat" where
  "text_value s = foldl (\<lambda>a c. 10 * a + (of_char c - 48)) 0 s"

definition parse_octet :: "string \<Rightarrow> nat option" where
  "parse_octet s =
     (if s = [] \<or> \<not> list_all ascii_digit s \<or> 3 < length s then None
      else if s \<noteq> ''0'' \<and> hd s = CHR ''0'' then None
      else if 255 < text_value s then None else Some (text_value s))"

type_synonym ipv4 = "32 word"

definition ip_int_from_string :: "string \<Rightarrow> ipv4 option" where
  "ip_int_from_string s =
     (case map parse_octet (split_on CHR ''.'' s) of
        [Some a, Some b, Some c, Some d] \<Rightarrow> Some (((word_of_nat a * 256 + word_of_nat b) * 256 + word_of_nat c) * 256 + word_of_nat d)
      | _ \<Rightarrow> None)"

definition netmask :: "nat \<Rightarrow> ipv4" where
  "netmask n = push_bit (32 - n) (mask n)"

text \<open>A mask is a prefix length, a netmask or a hostmask, in this order.\<close>

definition prefix_of_mask :: "string \<Rightarrow> nat option" where
  "prefix_of_mask m =
     (if m \<noteq> [] \<and> list_all ascii_digit m \<and> text_value m \<le> 32 then Some (text_value m)
      else case ip_int_from_string m of
        None \<Rightarrow> None
      | Some w \<Rightarrow>
          (case find (\<lambda>n. netmask n = w) [0..<33] of
             Some n \<Rightarrow> Some n
           | None \<Rightarrow> find (\<lambda>n. netmask n = not w) [0..<33]))"

definition ipv4_str :: "ipv4 \<Rightarrow> string" where
  "ipv4_str w =
     dec_digits (unat (drop_bit 24 w)) @ ''.'' @ dec_digits (unat (and (drop_bit 16 w) 255)) @ ''.''
     @ dec_digits (unat (and (drop_bit 8 w) 255)) @ ''.'' @ dec_digits (unat (and w 255))"

definition validate_cidr :: "string \<Rightarrow> exn + string" where
  "validate_cidr s =
     (let network = (\<lambda>a n. ipv4_str (and a (netmask n)) @ ''/'' @ dec_digits n)
      in case split_on CHR ''/'' s of
           [addr] \<Rightarrow> (case ip_int_from_string addr of None \<Rightarrow> Inl ValueError | Some a \<Rightarrow> Inr (network a 32))
         | [addr, m] \<Rightarrow>
             (case (ip_int_from_string addr, prefix_of_mask m) of
                (Some a, Some n) \<Rightarrow> Inr (network a n)
              | _ \<Rightarrow> Inl ValueError)
         | _ \<Rightarrow> Inl ValueError)"

definition validate_public_ip :: "string \<Rightarrow> exn + string" where
  "validate_public_ip s =
     (case ip_int_from_string s of None \<Rightarrow> Inl ValueError | Some a \<Rightarrow> Inr (ipv4_str a))"

section \<open>Resources\<close>

record resource_query =
  rq_resource_type :: cloud_resource_type
  rq_resource_id :: string
  rq_region :: string

fun resource_id_prefix :: "cloud_resource_type \<Rightarrow> string" where
  "resource_id_prefix CRT_EC2_INSTANCE = ''i-''"
| "resource_id_prefix CRT_ELASTIC_IP = ''eipalloc-''"
| "resource_id_prefix CRT_SECURITY_GROUP = ''sg-''"

definition valid_resource_query :: "resource_query \<Rightarrow> bool" where
  "valid_resource_query q \<longleftrightarrow>
     short_identifier (rq_resource_id q) \<and> short_identifier (rq_region q)
     \<and> prefixed_hex (resource_id_prefix (rq_resource_type q)) (rq_resource_id q)"

record security_group_rule =
  ip_protocol :: string
  cidr_ipv4 :: string
  from_port :: "int option"
  to_port :: "int option"

definition port_ok :: "int option \<Rightarrow> bool" where
  "port_ok p = (case p of None \<Rightarrow> True | Some n \<Rightarrow> 0 \<le> n \<and> n \<le> 65535)"

definition validate_ports :: "security_group_rule \<Rightarrow> bool" where
  "validate_ports r =
     (if ip_protocol r = ''-1'' then from_port r = None \<and> to_port r = None
      else case (from_port r, to_port r) of
             (Some a, Some b) \<Rightarrow> a \<le> b
           | _ \<Rightarrow> False)"

definition validate_rule :: "security_group_rule \<Rightarrow> exn + security_group_rule" where
  "validate_rule r =
     ebind (ensure (non_empty_text (ip_protocol r) \<and> non_empty_text (cidr_ipv4 r)
                    \<and> port_ok (from_port r) \<and> port_ok (to_port r)) ValueError) (\<lambda>_.
     ebind (validate_cidr (cidr_ipv4 r)) (\<lambda>network.
     ebind (ensure (validate_ports r) ValueError) (\<lambda>_. Inr (r\<lparr>cidr_ipv4 := network\<rparr>))))"

definition valid_rule :: "security_group_rule \<Rightarrow> bool" where
  "valid_rule r \<longleftrightarrow> validate_rule r = Inr r"

datatype instance_state = INST_pending | INST_running | INST_stopping | INST_stopped | INST_terminated

fun instance_state_value :: "instance_state \<Rightarrow> string" where
  "instance_state_value INST_pending = ''pending''"
| "instance_state_value INST_running = ''running''"
| "instance_state_value INST_stopping = ''stopping''"
| "instance_state_value INST_stopped = ''stopped''"
| "instance_state_value INST_terminated = ''terminated''"

type_synonym tags = "(string \<times> string) list"

definition valid_tags :: "tags \<Rightarrow> bool" where
  "valid_tags t \<longleftrightarrow> dict_canonical t \<and> (\<forall>(k, v) \<in> set t. short_identifier k \<and> non_empty_text v)"

record ec2_resource =
  ec2_id :: string
  ec2_region :: string
  ec2_state :: instance_state
  ec2_instance_type :: string
  ec2_tags :: tags

record elastic_ip_resource =
  eip_id :: string
  eip_region :: string
  eip_public_ip :: string
  eip_association_id :: "string option"
  eip_tags :: tags

record security_group_resource =
  sg_id :: string
  sg_region :: string
  sg_vpc_id :: string
  sg_inbound_rules :: "security_group_rule list"
  sg_outbound_rules :: "security_group_rule list"
  sg_tags :: tags

datatype cloud_resource =
    Ec2Resource ec2_resource
  | ElasticIpResource elastic_ip_resource
  | SecurityGroupResource security_group_resource

fun valid_resource :: "cloud_resource \<Rightarrow> bool" where
  "valid_resource (Ec2Resource r) =
     (prefixed_hex ''i-'' (ec2_id r) \<and> short_identifier (ec2_region r)
      \<and> short_identifier (ec2_instance_type r) \<and> valid_tags (ec2_tags r))"
| "valid_resource (ElasticIpResource r) =
     (prefixed_hex ''eipalloc-'' (eip_id r) \<and> short_identifier (eip_region r)
      \<and> non_empty_text (eip_public_ip r) \<and> validate_public_ip (eip_public_ip r) = Inr (eip_public_ip r)
      \<and> (case eip_association_id r of None \<Rightarrow> True | Some a \<Rightarrow> prefixed_hex ''eipassoc-'' a)
      \<and> valid_tags (eip_tags r))"
| "valid_resource (SecurityGroupResource r) =
     (prefixed_hex ''sg-'' (sg_id r) \<and> short_identifier (sg_region r) \<and> prefixed_hex ''vpc-'' (sg_vpc_id r)
      \<and> list_all valid_rule (sg_inbound_rules r) \<and> list_all valid_rule (sg_outbound_rules r)
      \<and> valid_tags (sg_tags r))"

fun resource_type :: "cloud_resource \<Rightarrow> cloud_resource_type" where
  "resource_type (Ec2Resource _) = CRT_EC2_INSTANCE"
| "resource_type (ElasticIpResource _) = CRT_ELASTIC_IP"
| "resource_type (SecurityGroupResource _) = CRT_SECURITY_GROUP"

fun resource_id :: "cloud_resource \<Rightarrow> string" where
  "resource_id (Ec2Resource r) = ec2_id r"
| "resource_id (ElasticIpResource r) = eip_id r"
| "resource_id (SecurityGroupResource r) = sg_id r"

fun resource_region :: "cloud_resource \<Rightarrow> string" where
  "resource_region (Ec2Resource r) = ec2_region r"
| "resource_region (ElasticIpResource r) = eip_region r"
| "resource_region (SecurityGroupResource r) = sg_region r"

section \<open>JSON dumps of resources\<close>

definition opt_json :: "('a \<Rightarrow> json) \<Rightarrow> 'a option \<Rightarrow> json" where
  "opt_json f x = (case x of None \<Rightarrow> JNull | Some v \<Rightarrow> f v)"

definition tags_json :: "tags \<Rightarrow> json" where
  "tags_json t = JObj (map (\<lambda>kv. (fst kv, JStr (snd kv))) t)"

definition rule_json :: "security_group_rule \<Rightarrow> json" where
  "rule_json r = JObj
     [(''cidr_ipv4'', JStr (cidr_ipv4 r)), (''from_port'', opt_json JInt (from_port r)),
      (''ip_protocol'', JStr (ip_protocol r)), (''to_port'', opt_json JInt (to_port r))]"

fun resource_json :: "cloud_resource \<Rightarrow> json" where
  "resource_json (Ec2Resource r) = JObj
     [(''instance_type'', JStr (ec2_instance_type r)), (''region'', JStr (ec2_region r)),
      (''resource_id'', JStr (ec2_id r)), (''resource_type'', JStr (cloud_resource_type_value CRT_EC2_INSTANCE)),
      (''state'', JStr (instance_state_value (ec2_state r))), (''tags'', tags_json (ec2_tags r))]"
| "resource_json (ElasticIpResource r) = JObj
     [(''association_id'', opt_json JStr (eip_association_id r)), (''public_ip'', JStr (eip_public_ip r)),
      (''region'', JStr (eip_region r)), (''resource_id'', JStr (eip_id r)),
      (''resource_type'', JStr (cloud_resource_type_value CRT_ELASTIC_IP)), (''tags'', tags_json (eip_tags r))]"
| "resource_json (SecurityGroupResource r) = JObj
     [(''inbound_rules'', JArr (map rule_json (sg_inbound_rules r))),
      (''outbound_rules'', JArr (map rule_json (sg_outbound_rules r))),
      (''region'', JStr (sg_region r)), (''resource_id'', JStr (sg_id r)),
      (''resource_type'', JStr (cloud_resource_type_value CRT_SECURITY_GROUP)),
      (''tags'', tags_json (sg_tags r)), (''vpc_id'', JStr (sg_vpc_id r))]"

end
