(* ===== verification/NZ_Records.thy ===== *)
theory NZ_Records
  imports NZ_Resources
begin

text \<open>
  The middle part of \<^verbatim>\<open>models/contracts.py\<close>: resource evidence, remediation proposals
  and plans, and the provider-action records (proposal, approval, result, acknowledgement,
  verification evidence, idempotency). Each contract is a record, the payload its hash covers,
  its validity predicate and its \<^verbatim>\<open>create\<close> functions.
\<close>

text \<open>Python dictionaries have distinct keys at every level of a JSON value.\<close>

fun json_ok :: "json \<Rightarrow> bool" where
  "json_ok (JArr vs) = (\<forall>v \<in> set vs. json_ok v)"
| "json_ok (JObj kvs) = (distinct (map fst kvs) \<and> (\<forall>kv \<in> set kvs. json_ok (snd kv)))"
| "json_ok _ = True"

definition ZERO_HASH :: string where
  "ZERO_HASH = replicate 64 CHR ''0''"

definition optional_ok :: "('a \<Rightarrow> bool) \<Rightarrow> 'a option \<Rightarrow> bool" where
  "optional_ok P x = (case x of None \<Rightarrow> True | Some v \<Rightarrow> P v)"

lemma optional_ok_simps [simp]: "optional_ok P None" "optional_ok P (Some v) = P v"
  by (simp_all add: optional_ok_def)

section \<open>Resource evidence\<close>

record resource_provenance =
  pv_run_id :: uuid
  pv_trace_id :: uuid
  pv_correlation_id :: uuid
  pv_adapter :: string
  pv_resource_type :: cloud_resource_type
  pv_resource_id :: string
  pv_observed_fields :: "string list"
  pv_observed_at :: datetime

definition valid_provenance :: "resource_provenance \<Rightarrow> bool" where
  "valid_provenance p \<longleftrightarrow>
     uuid7 (pv_run_id p) \<and> uuid7 (pv_trace_id p) \<and> uuid7 (pv_correlation_id p)
     \<and> short_identifier (pv_adapter p) \<and> short_identifier (pv_resource_id p)
     \<and> pv_observed_fields p \<noteq> [] \<and> list_all non_empty_text (pv_observed_fields p)
     \<and> sort (remdups (pv_observed_fields p)) = pv_observed_fields p
     \<and> is_utc (pv_observed_at p)"

definition provenance_json :: "resource_provenance \<Rightarrow> json" where
  "provenance_json p = JObj
     [(''adapter'', JStr (pv_adapter p)), (''correlation_id'', JStr (uuid_str (pv_correlation_id p))),
      (''observed_at'', JStr (iso_json (pv_observed_at p))),
      (''observed_fields'', JArr (map JStr (pv_observed_fields p))),
      (''resource_id'', JStr (pv_resource_id p)),
      (''resource_type'', JStr (cloud_resource_type_value (pv_resource_type p))),
      (''run_id'', JStr (uuid_str (pv_run_id p))), (''source'', JStr ''query_resource''),
      (''trace_id'', JStr (uuid_str (pv_trace_id p)))]"

record resource_evidence =
  ev_run_id :: uuid
  ev_trace_id :: uuid
  ev_correlation_id :: uuid
  ev_resource :: cloud_resource
  ev_findings :: "cloud_finding list"
  ev_provenance :: resource_provenance
  ev_observed_at :: datetime
  ev_evidence_hash :: string

definition findings_json :: "cloud_finding list \<Rightarrow> json" where
  "findings_json fs = JArr (map (\<lambda>f. JStr (cloud_finding_value f)) fs)"

definition evidence_payload :: "resource_evidence \<Rightarrow> json" where
  "evidence_payload e = JObj
     [(''authority'', JStr (authority_gate_value AG_AUTO)),
      (''correlation_id'', JStr (uuid_str (ev_correlation_id e))),
      (''findings'', findings_json (ev_findings e)),
      (''observed_at'', JStr (isoformat (ev_observed_at e))),
      (''provenance'', provenance_json (ev_provenance e)),
      (''resource'', resource_json (ev_resource e)),
      (''run_id'', JStr (uuid_str (ev_run_id e))), (''trace_id'', JStr (uuid_str (ev_trace_id e)))]"

definition fingerprint_payload :: "resource_evidence \<Rightarrow> json" where
  "fingerprint_payload e = JObj
     [(''findings'', findings_json (ev_findings e)), (''resource'', resource_json (ev_resource e))]"

definition stable_fingerprint :: "resource_evidence \<Rightarrow> string" where
  "stable_fingerprint e = digest (fingerprint_payload e)"

definition valid_evidence :: "resource_evidence \<Rightarrow> bool" where
  "valid_evidence e \<longleftrightarrow>
     uuid7 (ev_run_id e) \<and> uuid7 (ev_trace_id e) \<and> uuid7 (ev_correlation_id e)
     \<and> valid_resource (ev_resource e) \<and> ev_findings e \<noteq> [] \<and> valid_provenance (ev_provenance e)
     \<and> is_utc (ev_observed_at e) \<and> sha256_digest (ev_evidence_hash e)
     \<and> ev_run_id e = pv_run_id (ev_provenance e)
     \<and> ev_trace_id e = pv_trace_id (ev_provenance e)
     \<and> ev_correlation_id e = pv_correlation_id (ev_provenance e)
     \<and> resource_type (ev_resource e) = pv_resource_type (ev_provenance e)
     \<and> resource_id (ev_resource e) = pv_resource_id (ev_provenance e)
     \<and> ev_observed_at e = pv_observed_at (ev_provenance e)
     \<and> (CF_CLEAN \<in> set (ev_findings e) \<longrightarrow> ev_findings e = [CF_CLEAN])
     \<and> sort_key cloud_finding_value (remdups (ev_findings e)) = ev_findings e
     \<and> ev_evidence_hash e = digest (evidence_payload e)"

definition ResourceEvidence_create ::
  "run \<Rightarrow> cloud_resource \<Rightarrow> cloud_finding list \<Rightarrow> resource_provenance \<Rightarrow> datetime \<Rightarrow> exn + resource_evidence" where
  "ResourceEvidence_create r res fs prov observed_at =
     (let provisional =
            \<lparr>ev_run_id = run_id r, ev_trace_id = trace_id r, ev_correlation_id = correlation_id r,
             ev_resource = res, ev_findings = fs, ev_provenance = prov, ev_observed_at = observed_at,
             ev_evidence_hash = ZERO_HASH\<rparr>
      in validated valid_evidence (provisional\<lparr>ev_evidence_hash := digest (evidence_payload provisional)\<rparr>))"

section \<open>Remediation proposals and plans\<close>

record remediation_proposal =
  rp_proposal_id :: uuid
  rp_run_id :: uuid
  rp_correlation_id :: uuid
  rp_operation_type :: remediation_operation
  rp_target_resource_type :: cloud_resource_type
  rp_target_resource_id :: string
  rp_normalized_parameters :: "(string \<times> json) list"
  rp_authority_class :: authority_gate
  rp_evidence_hash :: string
  rp_evidence_fingerprint :: string
  rp_risk_summary :: string
  rp_created_at :: datetime
  rp_expires_at :: datetime
  rp_proposal_hash :: string
  rp_status :: proposal_state
  rp_version :: int

definition action_payload :: "remediation_proposal \<Rightarrow> json" where
  "action_payload p = JObj
     [(''authority_class'', JStr (authority_gate_value (rp_authority_class p))),
      (''evidence_fingerprint'', JStr (rp_evidence_fingerprint p)),
      (''normalized_parameters'', JObj (rp_normalized_parameters p)),
      (''operation_type'', JStr (remediation_operation_value (rp_operation_type p))),
      (''target_resource_id'', JStr (rp_target_resource_id p)),
      (''target_resource_type'', JStr (cloud_resource_type_value (rp_target_resource_type p)))]"

fun operation_policy :: "remediation_operation \<Rightarrow> cloud_resource_type \<times> authority_gate" where
  "operation_policy RO_RELEASE_ELASTIC_IP = (CRT_ELASTIC_IP, AG_PLAN_AND_CONFIRM)"
| "operation_policy RO_REVOKE_PUBLIC_INGRESS = (CRT_SECURITY_GROUP, AG_PLAN_AND_CONFIRM)"
| "operation_policy RO_APPLY_REQUIRED_TAGS = (CRT_EC2_INSTANCE, AG_NEVER_AUTONOMOUS)"

definition valid_remediation_proposal :: "remediation_proposal \<Rightarrow> bool" where
  "valid_remediation_proposal p \<longleftrightarrow>
     uuid7 (rp_proposal_id p) \<and> uuid7 (rp_run_id p) \<and> uuid7 (rp_correlation_id p)
     \<and> short_identifier (rp_target_resource_id p)
     \<and> rp_normalized_parameters p \<noteq> [] \<and> json_ok (JObj (rp_normalized_parameters p))
     \<and> (\<forall>k \<in> set (map fst (rp_normalized_parameters p)). short_identifier k)
     \<and> sha256_digest (rp_evidence_hash p) \<and> sha256_digest (rp_evidence_fingerprint p)
     \<and> non_empty_text (rp_risk_summary p)
     \<and> is_utc (rp_created_at p) \<and> is_utc (rp_expires_at p)
     \<and> sha256_digest (rp_proposal_hash p) \<and> 0 < rp_version p
     \<and> (rp_target_resource_type p, rp_authority_class p) = operation_policy (rp_operation_type p)
     \<and> dt_micros (rp_created_at p) < dt_micros (rp_expires_at p)
     \<and> rp_proposal_hash p = digest (action_payload p)"

definition RemediationProposal_create ::
  "uuid \<Rightarrow> resource_evidence \<Rightarrow> remediation_operation \<Rightarrow> (string \<times> json) list \<Rightarrow> authority_gate
   \<Rightarrow> string \<Rightarrow> datetime \<Rightarrow> datetime \<Rightarrow> exn + remediation_proposal" where
  "RemediationProposal_create pid evidence operation params authority risk created_at expires_at =
     (let provisional =
            \<lparr>rp_proposal_id = pid, rp_run_id = ev_run_id evidence,
             rp_correlation_id = ev_correlation_id evidence, rp_operation_type = operation,
             rp_target_resource_type = resource_type (ev_resource evidence),
             rp_target_resource_id = resource_id (ev_resource evidence),
             rp_normalized_parameters = params, rp_authority_class = authority,
             rp_evidence_hash = ev_evidence_hash evidence,
             rp_evidence_fingerprint = stable_fingerprint evidence, rp_risk_summary = risk,
             rp_created_at = created_at, rp_expires_at = expires_at, rp_proposal_hash = ZERO_HASH,
             rp_status = PS_PROPOSED, rp_version = 1\<rparr>
      in validated valid_remediation_proposal
           (provisional\<lparr>rp_proposal_hash := digest (action_payload provisional)\<rparr>))"

record remediation_plan =
  plan_disposition_of :: plan_disposition
  plan_evidence_hash :: string
  plan_proposal :: "remediation_proposal option"
  plan_reason :: string

definition valid_plan :: "remediation_plan \<Rightarrow> bool" where
  "valid_plan pl \<longleftrightarrow>
     sha256_digest (plan_evidence_hash pl) \<and> non_empty_text (plan_reason pl)
     \<and> optional_ok valid_remediation_proposal (plan_proposal pl)
     \<and> (if plan_disposition_of pl = PD_NO_ACTION then plan_proposal pl = None
        else case plan_proposal pl of
               None \<Rightarrow> False
             | Some p \<Rightarrow>
                 rp_evidence_hash p = plan_evidence_hash pl
                 \<and> (plan_disposition_of pl = PD_PROPOSAL \<longrightarrow> rp_authority_class p = AG_PLAN_AND_CONFIRM)
                 \<and> (plan_disposition_of pl = PD_NON_EXECUTABLE_RECOMMENDATION
                    \<longrightarrow> rp_authority_class p = AG_NEVER_AUTONOMOUS))"


section \<open>Provider actions\<close>

record action_target =
  at_resource_id :: string
  at_sandbox_scope :: string
  at_required_tag_key :: string
  at_required_tag_value :: string

definition valid_target :: "action_target \<Rightarrow> bool" where
  "valid_target t \<longleftrightarrow>
     ec2_instance_id (at_resource_id t) \<and> short_identifier (at_sandbox_scope t)
     \<and> short_identifier (at_required_tag_key t) \<and> short_identifier (at_required_tag_value t)"

definition target_json :: "action_target \<Rightarrow> json" where
  "target_json t = JObj
     [(''region'', JStr ''eu-central-1''), (''required_tag_key'', JStr (at_required_tag_key t)),
      (''required_tag_value'', JStr (at_required_tag_value t)), (''resource_id'', JStr (at_resource_id t)),
      (''resource_type'', JStr ''AWS::EC2::Instance''), (''sandbox_scope'', JStr (at_sandbox_scope t))]"

record expected_precondition =
  pre_instance_state :: observed_instance_state
  pre_observed_at :: datetime
  pre_evidence_hash :: string

definition valid_precondition :: "expected_precondition \<Rightarrow> bool" where
  "valid_precondition c \<longleftrightarrow> is_utc (pre_observed_at c) \<and> sha256_digest (pre_evidence_hash c)"

definition precondition_json :: "expected_precondition \<Rightarrow> json" where
  "precondition_json c = JObj
     [(''evidence_hash'', JStr (pre_evidence_hash c)),
      (''instance_state'', JStr (observed_instance_state_value (pre_instance_state c))),
      (''observed_at'', JStr (iso_json (pre_observed_at c)))]"

record action_proposal =
  ap_proposal_id :: uuid
  ap_run_id :: uuid
  ap_action :: capability
  ap_target :: action_target
  ap_expected_precondition :: expected_precondition
  ap_authority :: authority_gate
  ap_state :: proposal_state
  ap_evidence_hash :: string
  ap_created_at :: datetime

definition valid_action_proposal :: "action_proposal \<Rightarrow> bool" where
  "valid_action_proposal p \<longleftrightarrow>
     uuid7 (ap_proposal_id p) \<and> uuid7 (ap_run_id p) \<and> valid_target (ap_target p)
     \<and> valid_precondition (ap_expected_precondition p)
     \<and> sha256_digest (ap_evidence_hash p) \<and> is_utc (ap_created_at p)
     \<and> ap_action p = CAP_STOP_SANDBOX_INSTANCE
     \<and> require_capability_authority (ap_action p) (ap_authority p) = Inr (ap_authority p)
     \<and> pre_instance_state (ap_expected_precondition p) = OIS_RUNNING
     \<and> ap_evidence_hash p = pre_evidence_hash (ap_expected_precondition p)"

record approval =
  appr_proposal_id :: uuid
  appr_run_id :: uuid
  appr_action :: capability
  appr_target :: action_target
  appr_evidence_hash :: string
  appr_interrupt_id :: string
  appr_request_hash :: string
  appr_decision :: approval_decision
  appr_decided_at :: datetime
  appr_actor_session_id :: string
  appr_decision_nonce :: string

definition valid_approval :: "approval \<Rightarrow> bool" where
  "valid_approval a \<longleftrightarrow>
     uuid7 (appr_proposal_id a) \<and> uuid7 (appr_run_id a) \<and> valid_target (appr_target a)
     \<and> sha256_digest (appr_evidence_hash a) \<and> non_empty_text (appr_interrupt_id a)
     \<and> sha256_digest (appr_request_hash a) \<and> is_utc (appr_decided_at a)
     \<and> short_identifier (appr_actor_session_id a) \<and> decision_nonce_text (appr_decision_nonce a)
     \<and> appr_action a = CAP_STOP_SANDBOX_INSTANCE"

record action_result =
  ar_outcome :: action_outcome
  ar_observed_state :: "observed_instance_state option"
  ar_evidence_hash :: "string option"
  ar_failure :: "failure_detail option"

definition valid_failure_detail :: "failure_detail \<Rightarrow> bool" where
  "valid_failure_detail f \<longleftrightarrow> short_identifier (f_code f) \<and> non_empty_text (f_message f)"

definition valid_action_result :: "action_result \<Rightarrow> bool" where
  "valid_action_result r \<longleftrightarrow>
     optional_ok sha256_digest (ar_evidence_hash r) \<and> optional_ok valid_failure_detail (ar_failure r)
     \<and> (if ar_outcome r = AO_SUCCEEDED
        then ar_observed_state r \<noteq> None \<and> ar_evidence_hash r \<noteq> None \<and> ar_failure r = None
        else ar_failure r \<noteq> None)"

record execution_acknowledgement =
  ack_proposal_id :: uuid
  ack_run_id :: uuid
  ack_target :: action_target
  ack_current_state :: observed_instance_state
  ack_request_reference :: "string option"
  ack_acknowledged_at :: datetime
  ack_acknowledgement_hash :: string

definition valid_acknowledgement :: "execution_acknowledgement \<Rightarrow> bool" where
  "valid_acknowledgement a \<longleftrightarrow>
     uuid7 (ack_proposal_id a) \<and> uuid7 (ack_run_id a) \<and> valid_target (ack_target a)
     \<and> ack_current_state a \<in> {OIS_STOPPING, OIS_STOPPED}
     \<and> optional_ok non_empty_text (ack_request_reference a)
     \<and> is_utc (ack_acknowledged_at a) \<and> sha256_digest (ack_acknowledgement_hash a)"

record verification_evidence =
  ve_evidence_id :: uuid
  ve_proposal_id :: uuid
  ve_run_id :: uuid
  ve_trace_id :: uuid
  ve_correlation_id :: uuid
  ve_target :: action_target
  ve_verified_at :: datetime
  ve_proof_origin :: verification_proof_origin
  ve_execution_acknowledgement_hash :: "string option"
  ve_recovery_observation_hash :: "string option"
  ve_observation_hash :: string
  ve_request_reference :: "string option"
  ve_evidence_hash :: string

definition verification_evidence_payload :: "verification_evidence \<Rightarrow> json" where
  "verification_evidence_payload v = JObj
     ([(''action'', JStr (capability_value CAP_STOP_SANDBOX_INSTANCE)),
       (''correlation_id'', JStr (uuid_str (ve_correlation_id v))),
       (''disposition'', JStr (verification_disposition_value VD_VERIFIED)),
       (''observation_hash'', JStr (ve_observation_hash v)),
       (''observed_state'', JStr (observed_instance_state_value OIS_STOPPED)),
       (''proposal_id'', JStr (uuid_str (ve_proposal_id v))),
       (''request_reference'', opt_json JStr (ve_request_reference v)),
       (''run_id'', JStr (uuid_str (ve_run_id v))), (''target'', target_json (ve_target v)),
       (''trace_id'', JStr (uuid_str (ve_trace_id v))),
       (''verified_at'', JStr (isoformat (ve_verified_at v)))]
      @ (if ve_proof_origin v = VPO_EXECUTION_ACKNOWLEDGEMENT
         then [(''execution_acknowledgement_hash'', opt_json JStr (ve_execution_acknowledgement_hash v))]
         else [(''proof_origin'', JStr (verification_proof_origin_value (ve_proof_origin v))),
               (''recovery_observation_hash'', opt_json JStr (ve_recovery_observation_hash v))]))"

definition valid_verification_evidence :: "verification_evidence \<Rightarrow> bool" where
  "valid_verification_evidence v \<longleftrightarrow>
     uuid7 (ve_evidence_id v) \<and> uuid7 (ve_proposal_id v) \<and> uuid7 (ve_run_id v)
     \<and> uuid7 (ve_trace_id v) \<and> uuid7 (ve_correlation_id v)
     \<and> valid_target (ve_target v) \<and> is_utc (ve_verified_at v)
     \<and> optional_ok sha256_digest (ve_execution_acknowledgement_hash v)
     \<and> optional_ok sha256_digest (ve_recovery_observation_hash v)
     \<and> sha256_digest (ve_observation_hash v) \<and> optional_ok non_empty_text (ve_request_reference v)
     \<and> sha256_digest (ve_evidence_hash v)
     \<and> (if ve_proof_origin v = VPO_EXECUTION_ACKNOWLEDGEMENT
        then ve_execution_acknowledgement_hash v \<noteq> None \<and> ve_recovery_observation_hash v = None
        else ve_recovery_observation_hash v \<noteq> None \<and> ve_execution_acknowledgement_hash v = None)
     \<and> ve_evidence_hash v = digest (verification_evidence_payload v)"

definition VerificationEvidence_create ::
  "uuid \<Rightarrow> action_proposal \<Rightarrow> run \<Rightarrow> datetime \<Rightarrow> execution_acknowledgement \<Rightarrow> string
   \<Rightarrow> exn + verification_evidence" where
  "VerificationEvidence_create eid proposal r verified_at ack observation_hash =
     ebind (ensure (ap_run_id proposal = run_id r \<and> ack_proposal_id ack = ap_proposal_id proposal
                    \<and> ack_run_id ack = run_id r \<and> ack_target ack = ap_target proposal) ValueError) (\<lambda>_.
     let provisional =
           \<lparr>ve_evidence_id = eid, ve_proposal_id = ap_proposal_id proposal, ve_run_id = run_id r,
            ve_trace_id = trace_id r, ve_correlation_id = correlation_id r, ve_target = ap_target proposal,
            ve_verified_at = verified_at, ve_proof_origin = VPO_EXECUTION_ACKNOWLEDGEMENT,
            ve_execution_acknowledgement_hash = Some (ack_acknowledgement_hash ack),
            ve_recovery_observation_hash = None, ve_observation_hash = observation_hash,
            ve_request_reference = ack_request_reference ack, ve_evidence_hash = ZERO_HASH\<rparr>
     in validated valid_verification_evidence
          (provisional\<lparr>ve_evidence_hash := digest (verification_evidence_payload provisional)\<rparr>))"

definition VerificationEvidence_create_from_recovery ::
  "uuid \<Rightarrow> action_proposal \<Rightarrow> run \<Rightarrow> datetime \<Rightarrow> string \<Rightarrow> exn + verification_evidence" where
  "VerificationEvidence_create_from_recovery eid proposal r verified_at observation_hash =
     ebind (ensure (ap_run_id proposal = run_id r) ValueError) (\<lambda>_.
     let provisional =
           \<lparr>ve_evidence_id = eid, ve_proposal_id = ap_proposal_id proposal, ve_run_id = run_id r,
            ve_trace_id = trace_id r, ve_correlation_id = correlation_id r, ve_target = ap_target proposal,
            ve_verified_at = verified_at, ve_proof_origin = VPO_RECOVERY_READ_BACK,
            ve_execution_acknowledgement_hash = None,
            ve_recovery_observation_hash = Some observation_hash, ve_observation_hash = observation_hash,
            ve_request_reference = None, ve_evidence_hash = ZERO_HASH\<rparr>
     in validated valid_verification_evidence
          (provisional\<lparr>ve_evidence_hash := digest (verification_evidence_payload provisional)\<rparr>))"

record idempotency_record =
  ir_idempotency_key :: string
  ir_proposal_id :: uuid
  ir_action_fingerprint :: string
  ir_status :: idempotency_status
  ir_execution_acknowledgement :: "execution_acknowledgement option"
  ir_action_result :: "action_result option"
  ir_registered_at :: datetime
  ir_completed_at :: "datetime option"

definition valid_idempotency_record :: "idempotency_record \<Rightarrow> bool" where
  "valid_idempotency_record r \<longleftrightarrow>
     idempotency_key (ir_idempotency_key r) \<and> uuid7 (ir_proposal_id r)
     \<and> sha256_digest (ir_action_fingerprint r)
     \<and> optional_ok valid_acknowledgement (ir_execution_acknowledgement r)
     \<and> optional_ok valid_action_result (ir_action_result r)
     \<and> is_utc (ir_registered_at r) \<and> optional_ok is_utc (ir_completed_at r)
     \<and> (if ir_status r = IS_REGISTERED then ir_action_result r = None \<and> ir_completed_at r = None
        else ir_action_result r \<noteq> None
             \<and> (case ir_completed_at r of
                  None \<Rightarrow> False
                | Some t \<Rightarrow> dt_micros (ir_registered_at r) \<le> dt_micros t))"

end
