(* ===== verification/NZ_Local_Records.thy ===== *)
theory NZ_Local_Records
  imports NZ_Records "HOL-Library.Sublist"
begin

text \<open>
  The last part of \<^verbatim>\<open>models/contracts.py\<close>: the local approval and execution chain
  (request, decision, intent, receipt, verification), the checkpoint that holds one link of
  each, and the audit event. The lemmas extract from a valid checkpoint the bindings that tie
  an execution receipt back to one human decision on one proposal, and show that the receipt's
  ordered-subset check is the subsequence relation.
\<close>

section \<open>Approval request and decision\<close>

record local_approval_request =
  lq_request_id :: uuid
  lq_proposal_id :: uuid
  lq_run_id :: uuid
  lq_correlation_id :: uuid
  lq_proposal_hash :: string
  lq_evidence_hash :: string
  lq_proposal_version :: int
  lq_operation_type :: remediation_operation
  lq_target_resource_type :: cloud_resource_type
  lq_target_resource_id :: string
  lq_actor_session_id :: string
  lq_decision_nonce_hash :: string
  lq_requested_at :: datetime
  lq_expires_at :: datetime
  lq_request_hash :: string

definition request_binding_payload :: "local_approval_request \<Rightarrow> json" where
  "request_binding_payload q = JObj
     [(''actor_session_id'', JStr (lq_actor_session_id q)),
      (''correlation_id'', JStr (uuid_str (lq_correlation_id q))),
      (''decision_nonce_hash'', JStr (lq_decision_nonce_hash q)),
      (''evidence_hash'', JStr (lq_evidence_hash q)),
      (''expires_at'', JStr (isoformat (lq_expires_at q))),
      (''operation_type'', JStr (remediation_operation_value (lq_operation_type q))),
      (''proposal_hash'', JStr (lq_proposal_hash q)),
      (''proposal_id'', JStr (uuid_str (lq_proposal_id q))),
      (''proposal_version'', JInt (lq_proposal_version q)),
      (''request_id'', JStr (uuid_str (lq_request_id q))),
      (''run_id'', JStr (uuid_str (lq_run_id q))),
      (''target_resource_id'', JStr (lq_target_resource_id q)),
      (''target_resource_type'', JStr (cloud_resource_type_value (lq_target_resource_type q)))]"

definition valid_request :: "local_approval_request \<Rightarrow> bool" where
  "valid_request q \<longleftrightarrow>
     uuid7 (lq_request_id q) \<and> uuid7 (lq_proposal_id q) \<and> uuid7 (lq_run_id q)
     \<and> uuid7 (lq_correlation_id q) \<and> sha256_digest (lq_proposal_hash q)
     \<and> sha256_digest (lq_evidence_hash q) \<and> 0 < lq_proposal_version q
     \<and> short_identifier (lq_target_resource_id q) \<and> short_identifier (lq_actor_session_id q)
     \<and> sha256_digest (lq_decision_nonce_hash q) \<and> is_utc (lq_requested_at q) \<and> is_utc (lq_expires_at q)
     \<and> sha256_digest (lq_request_hash q)
     \<and> dt_micros (lq_requested_at q) < dt_micros (lq_expires_at q)
     \<and> lq_request_hash q = digest (request_binding_payload q)"

definition LocalApprovalRequest_create ::
  "uuid \<Rightarrow> remediation_proposal \<Rightarrow> string \<Rightarrow> string \<Rightarrow> datetime \<Rightarrow> datetime \<Rightarrow> exn + local_approval_request" where
  "LocalApprovalRequest_create request_id proposal actor nonce_hash requested_at expires_at =
     ebind (ensure (rp_authority_class proposal = AG_PLAN_AND_CONFIRM) ValueError) (\<lambda>_.
     ebind (ensure (rp_status proposal = PS_AWAITING_APPROVAL) ValueError) (\<lambda>_.
     ebind (ensure (\<not> dt_micros (rp_expires_at proposal) < dt_micros expires_at) ValueError) (\<lambda>_.
     let provisional =
           \<lparr>lq_request_id = request_id, lq_proposal_id = rp_proposal_id proposal,
            lq_run_id = rp_run_id proposal, lq_correlation_id = rp_correlation_id proposal,
            lq_proposal_hash = rp_proposal_hash proposal, lq_evidence_hash = rp_evidence_hash proposal,
            lq_proposal_version = rp_version proposal, lq_operation_type = rp_operation_type proposal,
            lq_target_resource_type = rp_target_resource_type proposal,
            lq_target_resource_id = rp_target_resource_id proposal, lq_actor_session_id = actor,
            lq_decision_nonce_hash = nonce_hash, lq_requested_at = requested_at,
            lq_expires_at = expires_at, lq_request_hash = ZERO_HASH\<rparr>
     in validated valid_request
          (provisional\<lparr>lq_request_hash := digest (request_binding_payload provisional)\<rparr>))))"

record local_approval =
  la_request_id :: uuid
  la_proposal_id :: uuid
  la_run_id :: uuid
  la_request_hash :: string
  la_proposal_hash :: string
  la_evidence_hash :: string
  la_proposal_version :: int
  la_decision :: approval_decision
  la_actor_session_id :: string
  la_decision_nonce_hash :: string
  la_decided_at :: datetime
  la_decision_hash :: string

definition decision_binding_payload :: "local_approval \<Rightarrow> json" where
  "decision_binding_payload a = JObj
     [(''actor_session_id'', JStr (la_actor_session_id a)),
      (''decided_at'', JStr (isoformat (la_decided_at a))),
      (''decision'', JStr (approval_decision_value (la_decision a))),
      (''decision_nonce_hash'', JStr (la_decision_nonce_hash a)),
      (''evidence_hash'', JStr (la_evidence_hash a)),
      (''proposal_hash'', JStr (la_proposal_hash a)),
      (''proposal_id'', JStr (uuid_str (la_proposal_id a))),
      (''proposal_version'', JInt (la_proposal_version a)),
      (''request_hash'', JStr (la_request_hash a)),
      (''request_id'', JStr (uuid_str (la_request_id a))),
      (''run_id'', JStr (uuid_str (la_run_id a)))]"

definition valid_local_approval :: "local_approval \<Rightarrow> bool" where
  "valid_local_approval a \<longleftrightarrow>
     uuid7 (la_request_id a) \<and> uuid7 (la_proposal_id a) \<and> uuid7 (la_run_id a)
     \<and> sha256_digest (la_request_hash a) \<and> sha256_digest (la_proposal_hash a)
     \<and> sha256_digest (la_evidence_hash a) \<and> 0 < la_proposal_version a
     \<and> short_identifier (la_actor_session_id a) \<and> sha256_digest (la_decision_nonce_hash a)
     \<and> is_utc (la_decided_at a) \<and> sha256_digest (la_decision_hash a)
     \<and> la_decision_hash a = digest (decision_binding_payload a)"

definition LocalApprovalDecision_create ::
  "local_approval_request \<Rightarrow> approval_decision \<Rightarrow> datetime \<Rightarrow> exn + local_approval" where
  "LocalApprovalDecision_create q decision decided_at =
     (let provisional =
            \<lparr>la_request_id = lq_request_id q, la_proposal_id = lq_proposal_id q, la_run_id = lq_run_id q,
             la_request_hash = lq_request_hash q, la_proposal_hash = lq_proposal_hash q,
             la_evidence_hash = lq_evidence_hash q, la_proposal_version = lq_proposal_version q,
             la_decision = decision, la_actor_session_id = lq_actor_session_id q,
             la_decision_nonce_hash = lq_decision_nonce_hash q, la_decided_at = decided_at,
             la_decision_hash = ZERO_HASH\<rparr>
      in validated valid_local_approval
           (provisional\<lparr>la_decision_hash := digest (decision_binding_payload provisional)\<rparr>))"

section \<open>Intent, receipt and verification\<close>

record local_intent =
  li_run_id :: uuid
  li_proposal_id :: uuid
  li_proposal_hash :: string
  li_evidence_hash :: string
  li_decision_hash :: string
  li_operation_type :: remediation_operation
  li_target_resource_type :: cloud_resource_type
  li_target_resource_id :: string
  li_idempotency_key :: string
  li_registered_at :: datetime
  li_intent_hash :: string

definition intent_binding_payload :: "local_intent \<Rightarrow> json" where
  "intent_binding_payload i = JObj
     [(''decision_hash'', JStr (li_decision_hash i)), (''evidence_hash'', JStr (li_evidence_hash i)),
      (''idempotency_key'', JStr (li_idempotency_key i)),
      (''operation_type'', JStr (remediation_operation_value (li_operation_type i))),
      (''proposal_hash'', JStr (li_proposal_hash i)),
      (''proposal_id'', JStr (uuid_str (li_proposal_id i))),
      (''registered_at'', JStr (isoformat (li_registered_at i))),
      (''run_id'', JStr (uuid_str (li_run_id i))),
      (''target_resource_id'', JStr (li_target_resource_id i)),
      (''target_resource_type'', JStr (cloud_resource_type_value (li_target_resource_type i)))]"

definition valid_intent :: "local_intent \<Rightarrow> bool" where
  "valid_intent i \<longleftrightarrow>
     uuid7 (li_run_id i) \<and> uuid7 (li_proposal_id i) \<and> sha256_digest (li_proposal_hash i)
     \<and> sha256_digest (li_evidence_hash i) \<and> sha256_digest (li_decision_hash i)
     \<and> short_identifier (li_target_resource_id i) \<and> idempotency_key (li_idempotency_key i)
     \<and> is_utc (li_registered_at i) \<and> sha256_digest (li_intent_hash i)
     \<and> li_operation_type i \<noteq> RO_APPLY_REQUIRED_TAGS
     \<and> li_intent_hash i = digest (intent_binding_payload i)"

definition local_exec_key :: "remediation_proposal \<Rightarrow> string" where
  "local_exec_key p = ''local-exec:'' @ rp_proposal_hash p"

definition LocalExecutionIntent_create ::
  "remediation_proposal \<Rightarrow> local_approval \<Rightarrow> datetime \<Rightarrow> exn + local_intent" where
  "LocalExecutionIntent_create proposal a registered_at =
     ebind (ensure (la_decision a = AD_APPROVED) ValueError) (\<lambda>_.
     ebind (ensure (la_proposal_id a = rp_proposal_id proposal \<and> la_run_id a = rp_run_id proposal
                    \<and> la_proposal_hash a = rp_proposal_hash proposal
                    \<and> la_evidence_hash a = rp_evidence_hash proposal
                    \<and> la_proposal_version a = rp_version proposal) ValueError) (\<lambda>_.
     let provisional =
           \<lparr>li_run_id = rp_run_id proposal, li_proposal_id = rp_proposal_id proposal,
            li_proposal_hash = rp_proposal_hash proposal, li_evidence_hash = rp_evidence_hash proposal,
            li_decision_hash = la_decision_hash a, li_operation_type = rp_operation_type proposal,
            li_target_resource_type = rp_target_resource_type proposal,
            li_target_resource_id = rp_target_resource_id proposal,
            li_idempotency_key = local_exec_key proposal, li_registered_at = registered_at,
            li_intent_hash = ZERO_HASH\<rparr>
     in validated valid_intent
          (provisional\<lparr>li_intent_hash := digest (intent_binding_payload provisional)\<rparr>)))"

record local_receipt =
  lr_run_id :: uuid
  lr_proposal_id :: uuid
  lr_proposal_hash :: string
  lr_evidence_hash :: string
  lr_decision_hash :: string
  lr_intent_hash :: string
  lr_idempotency_key :: string
  lr_operation_type :: remediation_operation
  lr_target_resource_type :: cloud_resource_type
  lr_target_resource_id :: string
  lr_before_resource :: cloud_resource
  lr_after_resource :: "cloud_resource option"
  lr_executed_at :: datetime
  lr_receipt_hash :: string

definition receipt_payload :: "local_receipt \<Rightarrow> json" where
  "receipt_payload r = JObj
     [(''after_resource'', opt_json resource_json (lr_after_resource r)),
      (''before_resource'', resource_json (lr_before_resource r)),
      (''decision_hash'', JStr (lr_decision_hash r)), (''evidence_hash'', JStr (lr_evidence_hash r)),
      (''executed_at'', JStr (isoformat (lr_executed_at r))),
      (''idempotency_key'', JStr (lr_idempotency_key r)), (''intent_hash'', JStr (lr_intent_hash r)),
      (''operation_type'', JStr (remediation_operation_value (lr_operation_type r))),
      (''proposal_hash'', JStr (lr_proposal_hash r)),
      (''proposal_id'', JStr (uuid_str (lr_proposal_id r))),
      (''run_id'', JStr (uuid_str (lr_run_id r))),
      (''target_resource_id'', JStr (lr_target_resource_id r)),
      (''target_resource_type'', JStr (cloud_resource_type_value (lr_target_resource_type r)))]"

text \<open>The iterator of the receipt check: \<^verbatim>\<open>any\<close> consumes the rules it passes over.\<close>

fun consume_until :: "'a \<Rightarrow> 'a list \<Rightarrow> 'a list option" where
  "consume_until x [] = None"
| "consume_until x (y # ys) = (if y = x then Some ys else consume_until x ys)"

fun ordered_subset :: "'a list \<Rightarrow> 'a list \<Rightarrow> bool" where
  "ordered_subset [] remaining = True"
| "ordered_subset (x # xs) remaining =
     (case consume_until x remaining of None \<Rightarrow> False | Some rest \<Rightarrow> ordered_subset xs rest)"

definition receipt_effect_ok :: "local_receipt \<Rightarrow> bool" where
  "receipt_effect_ok r =
     (case lr_operation_type r of
        RO_RELEASE_ELASTIC_IP \<Rightarrow>
          (case lr_before_resource r of
             ElasticIpResource b \<Rightarrow> eip_association_id b = None \<and> lr_after_resource r = None
           | _ \<Rightarrow> False)
      | RO_REVOKE_PUBLIC_INGRESS \<Rightarrow>
          (case (lr_before_resource r, lr_after_resource r) of
             (SecurityGroupResource b, Some (SecurityGroupResource a)) \<Rightarrow>
               sg_id a = sg_id b \<and> sg_region a = sg_region b \<and> sg_vpc_id a = sg_vpc_id b
               \<and> sg_outbound_rules a = sg_outbound_rules b \<and> sg_tags a = sg_tags b
               \<and> length (sg_inbound_rules a) < length (sg_inbound_rules b)
               \<and> ordered_subset (sg_inbound_rules a) (sg_inbound_rules b)
           | _ \<Rightarrow> False)
      | RO_APPLY_REQUIRED_TAGS \<Rightarrow> False)"

definition valid_receipt :: "local_receipt \<Rightarrow> bool" where
  "valid_receipt r \<longleftrightarrow>
     uuid7 (lr_run_id r) \<and> uuid7 (lr_proposal_id r) \<and> sha256_digest (lr_proposal_hash r)
     \<and> sha256_digest (lr_evidence_hash r) \<and> sha256_digest (lr_decision_hash r)
     \<and> sha256_digest (lr_intent_hash r) \<and> idempotency_key (lr_idempotency_key r)
     \<and> short_identifier (lr_target_resource_id r) \<and> valid_resource (lr_before_resource r)
     \<and> optional_ok valid_resource (lr_after_resource r)
     \<and> is_utc (lr_executed_at r) \<and> sha256_digest (lr_receipt_hash r)
     \<and> resource_type (lr_before_resource r) = lr_target_resource_type r
     \<and> resource_id (lr_before_resource r) = lr_target_resource_id r
     \<and> receipt_effect_ok r
     \<and> lr_receipt_hash r = digest (receipt_payload r)"

record local_verification =
  lv_run_id :: uuid
  lv_proposal_id :: uuid
  lv_receipt_hash :: string
  lv_operation_type :: remediation_operation
  lv_target_resource_type :: cloud_resource_type
  lv_target_resource_id :: string
  lv_observed_absent :: bool
  lv_observed_resource :: "cloud_resource option"
  lv_verified_at :: datetime
  lv_verification_hash :: string

definition verification_payload :: "local_verification \<Rightarrow> json" where
  "verification_payload v = JObj
     [(''observed_absent'', JBool (lv_observed_absent v)),
      (''observed_resource'', opt_json resource_json (lv_observed_resource v)),
      (''operation_type'', JStr (remediation_operation_value (lv_operation_type v))),
      (''proposal_id'', JStr (uuid_str (lv_proposal_id v))),
      (''receipt_hash'', JStr (lv_receipt_hash v)), (''run_id'', JStr (uuid_str (lv_run_id v))),
      (''target_resource_id'', JStr (lv_target_resource_id v)),
      (''target_resource_type'', JStr (cloud_resource_type_value (lv_target_resource_type v))),
      (''verified_at'', JStr (isoformat (lv_verified_at v)))]"

definition valid_local_verification :: "local_verification \<Rightarrow> bool" where
  "valid_local_verification v \<longleftrightarrow>
     uuid7 (lv_run_id v) \<and> uuid7 (lv_proposal_id v) \<and> sha256_digest (lv_receipt_hash v)
     \<and> short_identifier (lv_target_resource_id v)
     \<and> optional_ok valid_resource (lv_observed_resource v)
     \<and> is_utc (lv_verified_at v) \<and> sha256_digest (lv_verification_hash v)
     \<and> (case lv_operation_type v of
          RO_RELEASE_ELASTIC_IP \<Rightarrow> lv_observed_absent v \<and> lv_observed_resource v = None
        | RO_REVOKE_PUBLIC_INGRESS \<Rightarrow>
            \<not> lv_observed_absent v
            \<and> (case lv_observed_resource v of
                 Some (SecurityGroupResource g) \<Rightarrow>
                   sg_id g = lv_target_resource_id v \<and> CRT_SECURITY_GROUP = lv_target_resource_type v
               | _ \<Rightarrow> False)
        | RO_APPLY_REQUIRED_TAGS \<Rightarrow> False)
     \<and> lv_verification_hash v = digest (verification_payload v)"

section \<open>Checkpoints\<close>

record checkpoint =
  cp_run_id :: uuid
  cp_last_safe_state :: workflow_state
  cp_resume_metadata :: "(string \<times> json) list"
  cp_tool_result_hashes :: "(string \<times> string) list"
  cp_resource_evidence :: "resource_evidence option"
  cp_remediation_proposal :: "remediation_proposal option"
  cp_local_approval_request :: "local_approval_request option"
  cp_local_approval :: "local_approval option"
  cp_local_execution_intent :: "local_intent option"
  cp_local_execution_receipt :: "local_receipt option"
  cp_local_verification :: "local_verification option"
  cp_created_at :: datetime
  cp_version :: int

definition proposal_bound :: "checkpoint \<Rightarrow> bool" where
  "proposal_bound c =
     (case cp_remediation_proposal c of
        None \<Rightarrow> True
      | Some p \<Rightarrow>
          (case cp_resource_evidence c of
             None \<Rightarrow> False
           | Some e \<Rightarrow>
               rp_run_id p = cp_run_id c \<and> ev_run_id e = cp_run_id c
               \<and> rp_correlation_id p = ev_correlation_id e
               \<and> rp_evidence_hash p = ev_evidence_hash e))"

definition request_bound :: "checkpoint \<Rightarrow> bool" where
  "request_bound c =
     (case cp_local_approval_request c of
        None \<Rightarrow> True
      | Some q \<Rightarrow>
          (case cp_remediation_proposal c of
             None \<Rightarrow> False
           | Some p \<Rightarrow>
               lq_run_id q = cp_run_id c \<and> lq_correlation_id q = rp_correlation_id p
               \<and> lq_proposal_id q = rp_proposal_id p \<and> lq_proposal_hash q = rp_proposal_hash p
               \<and> lq_evidence_hash q = rp_evidence_hash p \<and> lq_proposal_version q = rp_version p
               \<and> lq_operation_type q = rp_operation_type p
               \<and> lq_target_resource_type q = rp_target_resource_type p
               \<and> lq_target_resource_id q = rp_target_resource_id p))"

definition approval_bound :: "checkpoint \<Rightarrow> bool" where
  "approval_bound c =
     (case cp_local_approval c of
        None \<Rightarrow> True
      | Some a \<Rightarrow>
          (case cp_local_approval_request c of
             None \<Rightarrow> False
           | Some q \<Rightarrow>
               la_run_id a = cp_run_id c \<and> la_request_id a = lq_request_id q
               \<and> la_request_hash a = lq_request_hash q \<and> la_proposal_id a = lq_proposal_id q
               \<and> la_proposal_hash a = lq_proposal_hash q \<and> la_evidence_hash a = lq_evidence_hash q
               \<and> la_proposal_version a = lq_proposal_version q
               \<and> la_actor_session_id a = lq_actor_session_id q
               \<and> la_decision_nonce_hash a = lq_decision_nonce_hash q
               \<and> dt_micros (lq_requested_at q) \<le> dt_micros (la_decided_at a)
               \<and> dt_micros (la_decided_at a) \<le> dt_micros (lq_expires_at q)))"

definition intent_bound :: "checkpoint \<Rightarrow> bool" where
  "intent_bound c =
     (case cp_local_execution_intent c of
        None \<Rightarrow> True
      | Some i \<Rightarrow>
          (case (cp_remediation_proposal c, cp_local_approval c) of
             (Some p, Some a) \<Rightarrow>
               la_decision a = AD_APPROVED \<and> li_run_id i = cp_run_id c
               \<and> li_proposal_id i = rp_proposal_id p \<and> li_proposal_hash i = rp_proposal_hash p
               \<and> li_evidence_hash i = rp_evidence_hash p \<and> li_decision_hash i = la_decision_hash a
               \<and> li_operation_type i = rp_operation_type p
               \<and> li_target_resource_type i = rp_target_resource_type p
               \<and> li_target_resource_id i = rp_target_resource_id p
               \<and> li_idempotency_key i = local_exec_key p
               \<and> dt_micros (la_decided_at a) \<le> dt_micros (li_registered_at i)
               \<and> dt_micros (li_registered_at i) \<le> dt_micros (rp_expires_at p)
           | _ \<Rightarrow> False))"

definition receipt_bound :: "checkpoint \<Rightarrow> bool" where
  "receipt_bound c =
     (case cp_local_execution_receipt c of
        None \<Rightarrow> True
      | Some r \<Rightarrow>
          (case cp_local_execution_intent c of
             None \<Rightarrow> False
           | Some i \<Rightarrow>
               lr_run_id r = cp_run_id c \<and> lr_proposal_id r = li_proposal_id i
               \<and> lr_proposal_hash r = li_proposal_hash i \<and> lr_evidence_hash r = li_evidence_hash i
               \<and> lr_decision_hash r = li_decision_hash i \<and> lr_intent_hash r = li_intent_hash i
               \<and> lr_idempotency_key r = li_idempotency_key i
               \<and> lr_operation_type r = li_operation_type i
               \<and> lr_target_resource_type r = li_target_resource_type i
               \<and> lr_target_resource_id r = li_target_resource_id i
               \<and> dt_micros (li_registered_at i) \<le> dt_micros (lr_executed_at r)))"

definition verification_bound :: "checkpoint \<Rightarrow> bool" where
  "verification_bound c =
     (case cp_local_verification c of
        None \<Rightarrow> True
      | Some v \<Rightarrow>
          (case cp_local_execution_receipt c of
             None \<Rightarrow> False
           | Some r \<Rightarrow>
               lv_run_id v = cp_run_id c \<and> lv_proposal_id v = lr_proposal_id r
               \<and> lv_receipt_hash v = lr_receipt_hash r \<and> lv_operation_type v = lr_operation_type r
               \<and> lv_target_resource_type v = lr_target_resource_type r
               \<and> lv_target_resource_id v = lr_target_resource_id r
               \<and> lv_observed_resource v = lr_after_resource r
               \<and> dt_micros (lr_executed_at r) \<le> dt_micros (lv_verified_at v)))"

definition valid_checkpoint :: "checkpoint \<Rightarrow> bool" where
  "valid_checkpoint c \<longleftrightarrow>
     uuid7 (cp_run_id c) \<and> json_ok (JObj (cp_resume_metadata c))
     \<and> dict_ok (cp_tool_result_hashes c)
     \<and> (\<forall>(k, h) \<in> set (cp_tool_result_hashes c). short_identifier k \<and> sha256_digest h)
     \<and> optional_ok valid_evidence (cp_resource_evidence c)
     \<and> optional_ok valid_remediation_proposal (cp_remediation_proposal c)
     \<and> optional_ok valid_request (cp_local_approval_request c)
     \<and> optional_ok valid_local_approval (cp_local_approval c)
     \<and> optional_ok valid_intent (cp_local_execution_intent c)
     \<and> optional_ok valid_receipt (cp_local_execution_receipt c)
     \<and> optional_ok valid_local_verification (cp_local_verification c)
     \<and> is_utc (cp_created_at c) \<and> 0 < cp_version c
     \<and> cp_last_safe_state c \<notin> {WS_EXECUTING, WS_VERIFYING}
     \<and> proposal_bound c \<and> request_bound c \<and> approval_bound c
     \<and> intent_bound c \<and> receipt_bound c \<and> verification_bound c"

section \<open>Audit events\<close>

record audit_event =
  ae_event_id :: uuid
  ae_run_id :: uuid
  ae_type :: audit_event_type
  ae_timestamp :: datetime
  ae_source :: string
  ae_tool_name :: "string option"
  ae_model_id :: "string option"
  ae_redacted_payload_hash :: string
  ae_metadata :: "(string \<times> string) list"

fun text_in :: "string \<Rightarrow> string \<Rightarrow> bool" where
  "text_in t [] = (t = [])"
| "text_in t (c # s) = (take (length t) (c # s) = t \<or> text_in t s)"

definition sensitive_key :: "string \<Rightarrow> bool" where
  "sensitive_key k =
     list_ex (\<lambda>t. text_in t (map lower_ascii k)) [''credential'', ''password'', ''secret'', ''token'']"

definition valid_audit_event :: "audit_event \<Rightarrow> bool" where
  "valid_audit_event e \<longleftrightarrow>
     uuid7 (ae_event_id e) \<and> uuid7 (ae_run_id e) \<and> is_utc (ae_timestamp e)
     \<and> short_identifier (ae_source e) \<and> optional_ok short_identifier (ae_tool_name e)
     \<and> optional_ok non_empty_text (ae_model_id e) \<and> sha256_digest (ae_redacted_payload_hash e)
     \<and> dict_ok (ae_metadata e)
     \<and> (\<forall>(k, v) \<in> set (ae_metadata e). short_identifier k \<and> non_empty_text v)
     \<and> \<not> list_ex (\<lambda>kv. sensitive_key (fst kv)) (ae_metadata e)
     \<and> \<not> contains_sensitive_material (JObj (map (\<lambda>kv. (fst kv, JStr (snd kv))) (ae_metadata e)))"

section \<open>What a valid checkpoint proves\<close>

lemma ordered_subset_subseq: "ordered_subset xs ys \<longleftrightarrow> subseq xs ys"
proof (induction xs arbitrary: ys)
  case Nil
  then show ?case by simp
next
  case (Cons x xs)
  have "(case consume_until x ys of None \<Rightarrow> False | Some rest \<Rightarrow> subseq xs rest) = subseq (x # xs) ys"
    by (induction ys) auto
  with Cons.IH show ?case by (auto split: option.splits)
qed

lemma valid_checkpoint_bounds:
  assumes "valid_checkpoint c"
  shows "proposal_bound c" "request_bound c" "approval_bound c" "intent_bound c" "receipt_bound c"
    "verification_bound c"
  using assms by (simp_all add: valid_checkpoint_def)

lemma valid_checkpoint_parts:
  assumes "valid_checkpoint c"
  shows "cp_remediation_proposal c = Some p \<Longrightarrow> valid_remediation_proposal p"
    and "cp_resource_evidence c = Some e \<Longrightarrow> valid_evidence e"
    and "cp_local_approval_request c = Some q \<Longrightarrow> valid_request q"
    and "cp_local_approval c = Some a \<Longrightarrow> valid_local_approval a"
    and "cp_local_execution_intent c = Some i \<Longrightarrow> valid_intent i"
    and "cp_local_execution_receipt c = Some r \<Longrightarrow> valid_receipt r"
    and "cp_local_verification c = Some v \<Longrightarrow> valid_local_verification v"
  using assms by (auto simp: valid_checkpoint_def)

text \<open>
  The chain behind a receipt: one proposal with its evidence, one approved decision on a
  request for that proposal, and the intent registered in between.
\<close>

definition receipt_chain ::
  "checkpoint \<Rightarrow> local_receipt \<Rightarrow> remediation_proposal \<Rightarrow> local_approval_request \<Rightarrow> local_approval \<Rightarrow> local_intent \<Rightarrow> bool" where
  "receipt_chain c r p q a i \<longleftrightarrow>
     cp_remediation_proposal c = Some p \<and> cp_local_approval_request c = Some q
     \<and> cp_local_approval c = Some a \<and> cp_local_execution_intent c = Some i
     \<and> la_decision a = AD_APPROVED
     \<and> la_request_hash a = lq_request_hash q \<and> la_actor_session_id a = lq_actor_session_id q
     \<and> la_proposal_hash a = rp_proposal_hash p \<and> la_proposal_id a = rp_proposal_id p
     \<and> la_proposal_version a = rp_version p
     \<and> lr_proposal_hash r = rp_proposal_hash p \<and> lr_decision_hash r = la_decision_hash a
     \<and> lr_intent_hash r = li_intent_hash i \<and> lr_idempotency_key r = local_exec_key p
     \<and> lr_operation_type r = rp_operation_type p
     \<and> lr_target_resource_type r = rp_target_resource_type p
     \<and> lr_target_resource_id r = rp_target_resource_id p
     \<and> dt_micros (lq_requested_at q) \<le> dt_micros (la_decided_at a)
     \<and> dt_micros (la_decided_at a) \<le> dt_micros (lq_expires_at q)
     \<and> dt_micros (la_decided_at a) \<le> dt_micros (li_registered_at i)
     \<and> dt_micros (li_registered_at i) \<le> dt_micros (rp_expires_at p)
     \<and> dt_micros (li_registered_at i) \<le> dt_micros (lr_executed_at r)"

lemma receipt_chain_exists:
  assumes v: "valid_checkpoint c" and r: "cp_local_execution_receipt c = Some r"
  shows "\<exists>p q a i. receipt_chain c r p q a i"
proof -
  from v r obtain i where i: "cp_local_execution_intent c = Some i"
    by (auto simp: valid_checkpoint_def receipt_bound_def split: option.splits)
  with v obtain p a where pa: "cp_remediation_proposal c = Some p" "cp_local_approval c = Some a"
    by (auto simp: valid_checkpoint_def intent_bound_def split: option.splits)
  with v obtain q where q: "cp_local_approval_request c = Some q"
    by (auto simp: valid_checkpoint_def approval_bound_def split: option.splits)
  have "receipt_chain c r p q a i"
    using valid_checkpoint_bounds [OF v] r i pa q
    by (simp add: receipt_chain_def request_bound_def approval_bound_def intent_bound_def receipt_bound_def)
  then show ?thesis by blast
qed

end
