(* ===== verification/NZ_Snapshot.thy ===== *)
theory NZ_Snapshot
  imports NZ_Local_Records "HOL-Library.Product_Lexorder"
begin

text \<open>
  The transaction image of durable truth: \<^verbatim>\<open>state/snapshot.py\<close> with the record
  transformations of \<^verbatim>\<open>state/guards.py\<close> and \<^verbatim>\<open>state/idempotency.py\<close>. Every
  operation of \<^verbatim>\<open>DomainSnapshot\<close> is a function from the image to an exception or the
  next image with the value returned. Arguments are contract instances, so their validity is
  a precondition that building them has already checked.
\<close>

section \<open>Semantic idempotency and guards\<close>

definition fingerprint_action_payload :: "action_proposal \<Rightarrow> json" where
  "fingerprint_action_payload p = JObj
     [(''run_id'', JStr (uuid_str (ap_run_id p))), (''action'', JStr (capability_value (ap_action p))),
      (''target'', target_json (ap_target p)),
      (''expected_precondition'', precondition_json (ap_expected_precondition p)),
      (''authority'', JStr (authority_gate_value (ap_authority p))),
      (''evidence_hash'', JStr (ap_evidence_hash p))]"

definition derive_action_fingerprint :: "action_proposal \<Rightarrow> string" where
  "derive_action_fingerprint p = digest (fingerprint_action_payload p)"

definition derive_idempotency_key :: "action_proposal \<Rightarrow> string" where
  "derive_idempotency_key p = ''action/'' @ derive_action_fingerprint p"

definition build_idempotency_record :: "action_proposal \<Rightarrow> datetime \<Rightarrow> exn + idempotency_record" where
  "build_idempotency_record p registered_at =
     ebind (ensure (ap_state p = PS_AWAITING_APPROVAL) DurablePrerequisiteError) (\<lambda>_.
     let fingerprint = derive_action_fingerprint p
     in validated valid_idempotency_record
          \<lparr>ir_idempotency_key = ''action/'' @ fingerprint, ir_proposal_id = ap_proposal_id p,
           ir_action_fingerprint = fingerprint, ir_status = IS_REGISTERED,
           ir_execution_acknowledgement = None, ir_action_result = None,
           ir_registered_at = registered_at, ir_completed_at = None\<rparr>)"

definition validate_approval_binding :: "action_proposal \<Rightarrow> approval \<Rightarrow> exn + unit" where
  "validate_approval_binding p a =
     ensure (appr_proposal_id a = ap_proposal_id p \<and> appr_run_id a = ap_run_id p
             \<and> appr_action a = ap_action p \<and> appr_target a = ap_target p
             \<and> appr_evidence_hash a = ap_evidence_hash p) StorageConflictError"

definition completed_idempotency_status :: "action_result \<Rightarrow> idempotency_status" where
  "completed_idempotency_status r =
     (if ar_outcome r = AO_SUCCEEDED then IS_COMPLETED
      else if ar_outcome r = AO_FAILED then IS_FAILED
      else IS_RECONCILIATION_REQUIRED)"

fun ALLOWED_PROPOSAL_TRANSITIONS :: "proposal_state \<Rightarrow> proposal_state list" where
  "ALLOWED_PROPOSAL_TRANSITIONS PS_PROPOSED = [PS_AWAITING_APPROVAL, PS_SUPERSEDED]"
| "ALLOWED_PROPOSAL_TRANSITIONS PS_AWAITING_APPROVAL = [PS_SUPERSEDED]"
| "ALLOWED_PROPOSAL_TRANSITIONS PS_SUPERSEDED = []"

definition transitioned_proposal :: "action_proposal \<Rightarrow> proposal_state \<Rightarrow> exn + action_proposal" where
  "transitioned_proposal p next_state =
     ebind (ensure (next_state \<in> set (ALLOWED_PROPOSAL_TRANSITIONS (ap_state p))) StorageConflictError) (\<lambda>_.
     validated valid_action_proposal (p\<lparr>ap_state := next_state\<rparr>))"

section \<open>The image\<close>

definition MAX_DURABLE_RUNS :: nat where "MAX_DURABLE_RUNS = 2048"
definition MAX_AUDIT_EVENTS_PER_RUN :: nat where "MAX_AUDIT_EVENTS_PER_RUN = 1024"
definition MAX_SNAPSHOT_RECORDS :: nat where "MAX_SNAPSHOT_RECORDS = 65536"

record domain_snapshot =
  ds_runs :: "(uuid, run) dict"
  ds_proposals :: "(uuid, action_proposal) dict"
  ds_approvals :: "(uuid, approval) dict"
  ds_idempotency :: "(string, idempotency_record) dict"
  ds_checkpoints :: "(uuid, checkpoint) dict"
  ds_audit_events :: "(uuid \<times> uuid, audit_event) dict"
  ds_verification_evidence :: "(uuid \<times> uuid, verification_evidence) dict"

definition DomainSnapshot_new :: domain_snapshot where
  "DomainSnapshot_new =
     \<lparr>ds_runs = [], ds_proposals = [], ds_approvals = [], ds_idempotency = [], ds_checkpoints = [],
      ds_audit_events = [], ds_verification_evidence = []\<rparr>"

definition create_run :: "run \<Rightarrow> domain_snapshot \<Rightarrow> exn + domain_snapshot \<times> run" where
  "create_run r s =
     ebind (ensure (run_version r = 1 \<and> run_state r = WS_RECEIVED) StorageConflictError) (\<lambda>_.
     ebind (ensure (dict_get (ds_runs s) (run_id r) = None) StorageConflictError) (\<lambda>_.
     ebind (ensure (\<not> MAX_DURABLE_RUNS \<le> length (ds_runs s)) StorageConflictError) (\<lambda>_.
     Inr (s\<lparr>ds_runs := dict_set (run_id r) r (ds_runs s)\<rparr>, r))))"

definition get_run :: "domain_snapshot \<Rightarrow> uuid \<Rightarrow> run option" where
  "get_run s rid = dict_get (ds_runs s) rid"

definition run_count :: "domain_snapshot \<Rightarrow> nat" where
  "run_count s = length (ds_runs s)"

definition get_proposal :: "domain_snapshot \<Rightarrow> uuid \<Rightarrow> action_proposal option" where
  "get_proposal s pid = dict_get (ds_proposals s) pid"

definition get_approval :: "domain_snapshot \<Rightarrow> uuid \<Rightarrow> approval option" where
  "get_approval s pid = dict_get (ds_approvals s) pid"

definition get_idempotency :: "domain_snapshot \<Rightarrow> string \<Rightarrow> idempotency_record option" where
  "get_idempotency s k = dict_get (ds_idempotency s) k"

definition get_checkpoint :: "domain_snapshot \<Rightarrow> uuid \<Rightarrow> checkpoint option" where
  "get_checkpoint s rid = dict_get (ds_checkpoints s) rid"

definition get_audit_event :: "domain_snapshot \<Rightarrow> uuid \<Rightarrow> uuid \<Rightarrow> audit_event option" where
  "get_audit_event s rid eid = dict_get (ds_audit_events s) (rid, eid)"

definition get_verification_evidence :: "domain_snapshot \<Rightarrow> uuid \<Rightarrow> uuid \<Rightarrow> verification_evidence option" where
  "get_verification_evidence s rid pid = dict_get (ds_verification_evidence s) (rid, pid)"

section \<open>Run transitions\<close>

definition legacy_decision_valid :: "domain_snapshot \<Rightarrow> uuid \<Rightarrow> uuid \<Rightarrow> approval_decision \<Rightarrow> bool" where
  "legacy_decision_valid s rid pid expected =
     (case (get_proposal s pid, get_approval s pid) of
        (Some p, Some a) \<Rightarrow>
          ap_run_id p = rid \<and> ap_state p = PS_AWAITING_APPROVAL \<and> appr_decision a = expected
      | _ \<Rightarrow> False)"

definition local_decision_valid :: "domain_snapshot \<Rightarrow> uuid \<Rightarrow> uuid \<Rightarrow> approval_decision \<Rightarrow> bool" where
  "local_decision_valid s rid pid expected =
     (case get_checkpoint s rid of
        None \<Rightarrow> False
      | Some c \<Rightarrow>
          (case (cp_remediation_proposal c, cp_local_approval c) of
             (Some p, Some a) \<Rightarrow>
               rp_proposal_id p = pid \<and> rp_run_id p = rid \<and> rp_status p = PS_AWAITING_APPROVAL
               \<and> la_proposal_id a = pid \<and> la_run_id a = rid \<and> la_decision a = expected
           | _ \<Rightarrow> False))"

definition legacy_proof_valid :: "domain_snapshot \<Rightarrow> uuid \<Rightarrow> uuid \<Rightarrow> bool" where
  "legacy_proof_valid s rid pid =
     (case (get_proposal s pid, get_verification_evidence s rid pid) of
        (Some p, Some e) \<Rightarrow>
          ve_run_id e = rid
          \<and> (case get_idempotency s (derive_idempotency_key p) of
               None \<Rightarrow> False
             | Some i \<Rightarrow>
                 ir_status i = IS_COMPLETED
                 \<and> (case ir_action_result i of
                      None \<Rightarrow> False
                    | Some res \<Rightarrow> ar_evidence_hash res = Some (ve_evidence_hash e)))
      | _ \<Rightarrow> False)"

definition local_proof_valid :: "domain_snapshot \<Rightarrow> uuid \<Rightarrow> uuid \<Rightarrow> bool" where
  "local_proof_valid s rid pid =
     (case get_checkpoint s rid of
        None \<Rightarrow> False
      | Some c \<Rightarrow>
          (case (cp_remediation_proposal c, cp_local_execution_receipt c, cp_local_verification c) of
             (Some p, Some r, Some v) \<Rightarrow>
               rp_proposal_id p = pid \<and> rp_run_id p = rid
               \<and> lr_proposal_id r = pid \<and> lr_run_id r = rid
               \<and> lv_proposal_id v = pid \<and> lv_run_id v = rid \<and> lv_receipt_hash v = lr_receipt_hash r
           | _ \<Rightarrow> False))"

definition decision_guard :: "domain_snapshot \<Rightarrow> uuid \<Rightarrow> workflow_state \<Rightarrow> uuid option \<Rightarrow> exn + unit" where
  "decision_guard s rid next_state approval_pid =
     (if next_state \<in> {WS_APPROVED, WS_DENIED_BY_HUMAN} then
        (case approval_pid of
           None \<Rightarrow> Inl StorageConflictError
         | Some pid \<Rightarrow>
             let expected = (if next_state = WS_APPROVED then AD_APPROVED else AD_DENIED)
             in ensure (legacy_decision_valid s rid pid expected \<or> local_decision_valid s rid pid expected)
                  StorageConflictError)
      else Inr ())"

definition success_guard :: "domain_snapshot \<Rightarrow> uuid \<Rightarrow> workflow_state \<Rightarrow> uuid option \<Rightarrow> exn + unit" where
  "success_guard s rid next_state verification_pid =
     (if next_state = WS_SUCCESS_WITH_EVIDENCE then
        (case verification_pid of
           None \<Rightarrow> Inl StorageConflictError
         | Some pid \<Rightarrow>
             ensure (legacy_proof_valid s rid pid \<or> local_proof_valid s rid pid) StorageConflictError)
      else Inr ())"

definition transition_run_snapshot ::
  "uuid \<Rightarrow> workflow_state \<Rightarrow> workflow_state \<Rightarrow> int \<Rightarrow> datetime \<Rightarrow> uuid option \<Rightarrow> uuid option
   \<Rightarrow> domain_snapshot \<Rightarrow> exn + domain_snapshot \<times> run" where
  "transition_run_snapshot rid next_state expected_state expected_version updated_at approval_pid
       verification_pid s =
     (case get_run s rid of
        None \<Rightarrow> Inl StorageConflictError
      | Some current \<Rightarrow>
          ebind (ensure (run_state current = expected_state \<and> run_version current = expected_version)
                   StorageConflictError) (\<lambda>_.
          ebind (decision_guard s rid next_state approval_pid) (\<lambda>_.
          ebind (success_guard s rid next_state verification_pid) (\<lambda>_.
          ebind (transition_run current next_state updated_at) (\<lambda>updated.
          Inr (s\<lparr>ds_runs := dict_set rid updated (ds_runs s)\<rparr>, updated))))))"

definition budget_monotone :: "budget_counters \<Rightarrow> budget_counters \<Rightarrow> bool" where
  "budget_monotone old new \<longleftrightarrow>
     max_turns new = max_turns old \<and> max_tokens new = max_tokens old
     \<and> max_elapsed_seconds new = max_elapsed_seconds old
     \<and> turns_used old \<le> turns_used new \<and> tokens_used old \<le> tokens_used new
     \<and> elapsed_milliseconds_used old \<le> elapsed_milliseconds_used new"

definition update_run_budget ::
  "uuid \<Rightarrow> budget_counters \<Rightarrow> int \<Rightarrow> datetime \<Rightarrow> domain_snapshot \<Rightarrow> exn + domain_snapshot \<times> run" where
  "update_run_budget rid budget expected_version updated_at s =
     ebind (ensure (0 < expected_version) TypeError) (\<lambda>_.
     case get_run s rid of
       None \<Rightarrow> Inl StorageConflictError
     | Some current \<Rightarrow>
         ebind (ensure (run_version current = expected_version) StorageConflictError) (\<lambda>_.
         ebind (ensure (budget_monotone (run_budget current) budget
                        \<and> dt_micros (run_updated_at current) \<le> dt_micros updated_at)
                  StorageConflictError) (\<lambda>_.
         ebind (validated valid_run
                  (current\<lparr>run_budget := budget, run_updated_at := updated_at,
                           run_version := run_version current + 1\<rparr>)) (\<lambda>updated.
         Inr (s\<lparr>ds_runs := dict_set rid updated (ds_runs s)\<rparr>, updated)))))"

section \<open>Proposals, approvals and idempotency\<close>

definition create_proposal :: "action_proposal \<Rightarrow> domain_snapshot \<Rightarrow> exn + domain_snapshot \<times> action_proposal" where
  "create_proposal p s =
     ebind (ensure (ap_state p = PS_PROPOSED) StorageConflictError) (\<lambda>_.
     ebind (ensure (get_proposal s (ap_proposal_id p) = None) StorageConflictError) (\<lambda>_.
     Inr (s\<lparr>ds_proposals := dict_set (ap_proposal_id p) p (ds_proposals s)\<rparr>, p)))"

definition transition_proposal ::
  "uuid \<Rightarrow> proposal_state \<Rightarrow> proposal_state \<Rightarrow> domain_snapshot \<Rightarrow> exn + domain_snapshot \<times> action_proposal" where
  "transition_proposal pid next_state expected_state s =
     (case get_proposal s pid of
        None \<Rightarrow> Inl StorageConflictError
      | Some current \<Rightarrow>
          ebind (ensure (ap_state current = expected_state) StorageConflictError) (\<lambda>_.
          ebind (transitioned_proposal current next_state) (\<lambda>updated.
          Inr (s\<lparr>ds_proposals := dict_set pid updated (ds_proposals s)\<rparr>, updated))))"

definition create_approval :: "approval \<Rightarrow> domain_snapshot \<Rightarrow> exn + domain_snapshot \<times> approval" where
  "create_approval a s =
     (case get_proposal s (appr_proposal_id a) of
        None \<Rightarrow> Inl StorageConflictError
      | Some p \<Rightarrow>
          ebind (ensure (ap_state p = PS_AWAITING_APPROVAL) StorageConflictError) (\<lambda>_.
          ebind (validate_approval_binding p a) (\<lambda>_.
          case get_approval s (appr_proposal_id a) of
            Some existing \<Rightarrow> if existing = a then Inr (s, existing) else Inl StorageConflictError
          | None \<Rightarrow> Inr (s\<lparr>ds_approvals := dict_set (appr_proposal_id a) a (ds_approvals s)\<rparr>, a))))"

definition register_idempotency ::
  "idempotency_record \<Rightarrow> domain_snapshot \<Rightarrow> exn + domain_snapshot \<times> idempotency_record" where
  "register_idempotency r s =
     (case get_idempotency s (ir_idempotency_key r) of
        Some existing \<Rightarrow>
          if ir_proposal_id existing \<noteq> ir_proposal_id r
             \<or> ir_action_fingerprint existing \<noteq> ir_action_fingerprint r
          then Inl StorageConflictError else Inr (s, existing)
      | None \<Rightarrow>
          (case get_proposal s (ir_proposal_id r) of
             None \<Rightarrow> Inl StorageConflictError
           | Some p \<Rightarrow>
               ebind (ensure (ap_state p = PS_AWAITING_APPROVAL
                              \<and> ir_action_fingerprint r = derive_action_fingerprint p
                              \<and> ir_idempotency_key r = derive_idempotency_key p) StorageConflictError) (\<lambda>_.
               ebind (ensure (\<exists>a \<in> set_option (get_approval s (ir_proposal_id r)).
                                appr_decision a = AD_APPROVED) StorageConflictError) (\<lambda>_.
               ebind (ensure (\<exists>q \<in> set_option (get_run s (ap_run_id p)).
                                run_state q = WS_APPROVED) StorageConflictError) (\<lambda>_.
               Inr (s\<lparr>ds_idempotency := dict_set (ir_idempotency_key r) r (ds_idempotency s)\<rparr>, r))))))"

definition complete_idempotency ::
  "string \<Rightarrow> action_result \<Rightarrow> datetime \<Rightarrow> idempotency_status \<Rightarrow> domain_snapshot
   \<Rightarrow> exn + domain_snapshot \<times> idempotency_record" where
  "complete_idempotency key res completed_at expected_status s =
     (case get_idempotency s key of
        None \<Rightarrow> Inl StorageConflictError
      | Some current \<Rightarrow>
          ebind (ensure (ir_status current = expected_status) StorageConflictError) (\<lambda>_.
          ebind (validated valid_idempotency_record
                   (current\<lparr>ir_status := completed_idempotency_status res, ir_action_result := Some res,
                            ir_completed_at := Some completed_at\<rparr>)) (\<lambda>updated.
          Inr (s\<lparr>ds_idempotency := dict_set key updated (ds_idempotency s)\<rparr>, updated))))"

definition record_execution_acknowledgement ::
  "string \<Rightarrow> execution_acknowledgement \<Rightarrow> idempotency_status \<Rightarrow> domain_snapshot
   \<Rightarrow> exn + domain_snapshot \<times> idempotency_record" where
  "record_execution_acknowledgement key ack expected_status s =
     (case get_idempotency s key of
        None \<Rightarrow> Inl StorageConflictError
      | Some current \<Rightarrow>
          ebind (ensure (ir_status current = expected_status) StorageConflictError) (\<lambda>_.
          case ir_execution_acknowledgement current of
            Some existing \<Rightarrow> if existing = ack then Inr (s, current) else Inl StorageConflictError
          | None \<Rightarrow>
              ebind (ensure (ack_proposal_id ack = ir_proposal_id current) StorageConflictError) (\<lambda>_.
              let updated = current\<lparr>ir_execution_acknowledgement := Some ack\<rparr>
              in Inr (s\<lparr>ds_idempotency := dict_set key updated (ds_idempotency s)\<rparr>, updated))))"

section \<open>Checkpoints, audit events and verification evidence\<close>

definition save_checkpoint ::
  "checkpoint \<Rightarrow> int option \<Rightarrow> domain_snapshot \<Rightarrow> exn + domain_snapshot \<times> checkpoint" where
  "save_checkpoint c expected_version s =
     ebind (case get_checkpoint s (cp_run_id c) of
              None \<Rightarrow> ensure (expected_version = None \<and> cp_version c = 1) StorageConflictError
            | Some current \<Rightarrow>
                ensure (expected_version = Some (cp_version current) \<and> cp_version c = cp_version current + 1)
                  StorageConflictError) (\<lambda>_.
     Inr (s\<lparr>ds_checkpoints := dict_set (cp_run_id c) c (ds_checkpoints s)\<rparr>, c))"

definition count_audit_events :: "domain_snapshot \<Rightarrow> uuid \<Rightarrow> nat" where
  "count_audit_events s rid = length (filter (\<lambda>k. fst k = rid) (map fst (ds_audit_events s)))"

definition append_audit_event :: "audit_event \<Rightarrow> domain_snapshot \<Rightarrow> exn + domain_snapshot \<times> audit_event" where
  "append_audit_event e s =
     (let key = (ae_run_id e, ae_event_id e)
      in ebind (ensure (dict_get (ds_audit_events s) key = None) StorageConflictError) (\<lambda>_.
         ebind (ensure (\<not> MAX_AUDIT_EVENTS_PER_RUN \<le> count_audit_events s (ae_run_id e)) StorageConflictError) (\<lambda>_.
         Inr (s\<lparr>ds_audit_events := dict_set key e (ds_audit_events s)\<rparr>, e))))"

definition list_audit_events :: "domain_snapshot \<Rightarrow> uuid \<Rightarrow> int \<Rightarrow> exn + audit_event list" where
  "list_audit_events s rid limit =
     ebind (ensure (1 \<le> limit \<and> limit \<le> 256) ValueError) (\<lambda>_.
     Inr (take (nat limit)
            (sort_key (\<lambda>e. (dt_micros (ae_timestamp e), uuid_str (ae_event_id e)))
               (map snd (filter (\<lambda>kv. fst (fst kv) = rid) (ds_audit_events s))))))"

definition acknowledgement_matches :: "verification_evidence \<Rightarrow> idempotency_record option \<Rightarrow> bool" where
  "acknowledgement_matches e idem =
     (ve_proof_origin e = VPO_EXECUTION_ACKNOWLEDGEMENT
      \<and> (\<exists>i \<in> set_option idem. \<exists>k \<in> set_option (ir_execution_acknowledgement i).
           Some (ack_acknowledgement_hash k) = ve_execution_acknowledgement_hash e))"

definition recovery_matches :: "verification_evidence \<Rightarrow> idempotency_record option \<Rightarrow> approval option \<Rightarrow> bool" where
  "recovery_matches e idem appr =
     (ve_proof_origin e = VPO_RECOVERY_READ_BACK
      \<and> (\<exists>i \<in> set_option idem. ir_status i = IS_REGISTERED \<and> ir_execution_acknowledgement i = None)
      \<and> (\<exists>a \<in> set_option appr. appr_decision a = AD_APPROVED \<and> appr_run_id a = ve_run_id e
                                \<and> appr_target a = ve_target e))"

definition create_verification_evidence ::
  "verification_evidence \<Rightarrow> domain_snapshot \<Rightarrow> exn + domain_snapshot \<times> verification_evidence" where
  "create_verification_evidence e s =
     (let key = (ve_run_id e, ve_proposal_id e)
      in case dict_get (ds_verification_evidence s) key of
           Some existing \<Rightarrow> if existing = e then Inr (s, existing) else Inl StorageConflictError
         | None \<Rightarrow>
             (case (get_proposal s (ve_proposal_id e), get_run s (ve_run_id e)) of
                (Some p, Some r) \<Rightarrow>
                  let idem = get_idempotency s (derive_idempotency_key p);
                      appr = get_approval s (ve_proposal_id e)
                  in ebind (ensure (run_state r = WS_VERIFYING \<and> ap_run_id p = ve_run_id e
                                    \<and> ap_target p = ve_target e \<and> trace_id r = ve_trace_id e
                                    \<and> correlation_id r = ve_correlation_id e \<and> idem \<noteq> None
                                    \<and> (acknowledgement_matches e idem \<or> recovery_matches e idem appr))
                             StorageConflictError) (\<lambda>_.
                     Inr (s\<lparr>ds_verification_evidence := dict_set key e (ds_verification_evidence s)\<rparr>, e))
              | _ \<Rightarrow> Inl StorageConflictError))"

section \<open>Export and reconstruction\<close>

text \<open>
  The exported snapshot, one list of contract values per collection. A contract is the same
  value before its JSON dump and after the validation that reads the dump back.
\<close>

record snapshot_payload =
  sp_format_version :: int
  sp_runs :: "run list"
  sp_proposals :: "action_proposal list"
  sp_approvals :: "approval list"
  sp_idempotency :: "idempotency_record list"
  sp_checkpoints :: "checkpoint list"
  sp_audit_events :: "audit_event list"
  sp_verification_evidence :: "verification_evidence list"

definition sorted_values :: "('k \<Rightarrow> 's :: linorder) \<Rightarrow> ('k \<times> 'v) list \<Rightarrow> 'v list" where
  "sorted_values key d = map snd (sort_key (\<lambda>kv. key (fst kv)) d)"

definition pair_key :: "uuid \<times> uuid \<Rightarrow> string \<times> string" where
  "pair_key k = (uuid_str (fst k), uuid_str (snd k))"

definition export_snapshot :: "domain_snapshot \<Rightarrow> snapshot_payload" where
  "export_snapshot s =
     \<lparr>sp_format_version = 1,
      sp_runs = sorted_values uuid_str (ds_runs s),
      sp_proposals = sorted_values uuid_str (ds_proposals s),
      sp_approvals = sorted_values uuid_str (ds_approvals s),
      sp_idempotency = sorted_values (\<lambda>k. k) (ds_idempotency s),
      sp_checkpoints = sorted_values uuid_str (ds_checkpoints s),
      sp_audit_events = sorted_values pair_key (ds_audit_events s),
      sp_verification_evidence = sorted_values pair_key (ds_verification_evidence s)\<rparr>"

definition snapshot_records :: "('a \<Rightarrow> bool) \<Rightarrow> 'a list \<Rightarrow> exn + 'a list" where
  "snapshot_records valid xs =
     ebind (ensure (\<not> MAX_SNAPSHOT_RECORDS < length xs) StorageDependencyError) (\<lambda>_.
     if list_all valid xs then Inr xs else Inl StorageDependencyError)"

definition dict_of :: "('a \<Rightarrow> 'k) \<Rightarrow> 'a list \<Rightarrow> ('k, 'a) dict" where
  "dict_of key xs = foldl (\<lambda>d x. dict_set (key x) x d) [] xs"


definition references_ok :: "domain_snapshot \<Rightarrow> bool" where
  "references_ok s \<longleftrightarrow>
     (\<forall>p \<in> set (map snd (ds_proposals s)). get_run s (ap_run_id p) \<noteq> None)
     \<and> (\<forall>a \<in> set (map snd (ds_approvals s)). get_proposal s (appr_proposal_id a) \<noteq> None)
     \<and> (\<forall>c \<in> set (map snd (ds_checkpoints s)). get_run s (cp_run_id c) \<noteq> None)
     \<and> (\<forall>e \<in> set (map snd (ds_audit_events s)). get_run s (ae_run_id e) \<noteq> None)"

definition event_counts_ok :: "audit_event list \<Rightarrow> bool" where
  "event_counts_ok es \<longleftrightarrow>
     (\<forall>e \<in> set es. length (filter (\<lambda>x. ae_run_id x = ae_run_id e) es) \<le> MAX_AUDIT_EVENTS_PER_RUN)"

definition from_snapshot :: "snapshot_payload \<Rightarrow> exn + domain_snapshot" where
  "from_snapshot payload =
     ebind (ensure (sp_format_version payload = 1) StorageDependencyError) (\<lambda>_.
     ebind (snapshot_records valid_run (sp_runs payload)) (\<lambda>runs.
     ebind (snapshot_records valid_action_proposal (sp_proposals payload)) (\<lambda>proposals.
     ebind (snapshot_records valid_approval (sp_approvals payload)) (\<lambda>approvals.
     ebind (snapshot_records valid_idempotency_record (sp_idempotency payload)) (\<lambda>idempotency.
     ebind (snapshot_records valid_checkpoint (sp_checkpoints payload)) (\<lambda>checkpoints.
     ebind (snapshot_records valid_audit_event (sp_audit_events payload)) (\<lambda>audit_events.
     ebind (snapshot_records valid_verification_evidence (sp_verification_evidence payload)) (\<lambda>evidence.
     let s = \<lparr>ds_runs = dict_of run_id runs, ds_proposals = dict_of ap_proposal_id proposals,
              ds_approvals = dict_of appr_proposal_id approvals,
              ds_idempotency = dict_of ir_idempotency_key idempotency,
              ds_checkpoints = dict_of cp_run_id checkpoints,
              ds_audit_events = dict_of (\<lambda>e. (ae_run_id e, ae_event_id e)) audit_events,
              ds_verification_evidence = dict_of (\<lambda>e. (ve_run_id e, ve_proposal_id e)) evidence\<rparr>
     in ebind (ensure (length runs = length (ds_runs s) \<and> length proposals = length (ds_proposals s)
                       \<and> length approvals = length (ds_approvals s)
                       \<and> length idempotency = length (ds_idempotency s)
                       \<and> length checkpoints = length (ds_checkpoints s)
                       \<and> length audit_events = length (ds_audit_events s)
                       \<and> length evidence = length (ds_verification_evidence s)) StorageDependencyError) (\<lambda>_.
        ebind (ensure (references_ok s) StorageDependencyError) (\<lambda>_.
        ebind (ensure (\<not> MAX_DURABLE_RUNS < length runs) StorageDependencyError) (\<lambda>_.
        ebind (ensure (event_counts_ok audit_events) StorageDependencyError) (\<lambda>_.
        Inr s))))))))))))"

end
