(* ===== verification/NZ_Durable_Truth.thy ===== *)
theory NZ_Durable_Truth
  imports NZ_Snapshot
begin

text \<open>
  What the operations of the durable image keep: every stored record is valid and filed under
  its own identity, the capacities hold, approvals, idempotency records and verification
  evidence are linked to the proposals they are about, and nothing that was recorded is lost
  or rewritten. The operations form a guarded machine, so these facts hold of every image the
  program can build.
\<close>

section \<open>Keyed dictionaries and extension\<close>

definition keyed :: "('v \<Rightarrow> 'k) \<Rightarrow> ('v \<Rightarrow> bool) \<Rightarrow> ('k, 'v) dict \<Rightarrow> bool" where
  "keyed key valid d \<longleftrightarrow> dict_ok d \<and> pydict.every (\<lambda>k v. key v = k \<and> valid v) d"

lemma keyed_put: "keyed key valid d \<Longrightarrow> valid v \<Longrightarrow> key v = k \<Longrightarrow> keyed key valid (dict_set k v d)"
  by (auto simp: keyed_def intro: pydict.every_put)

lemma keyed_get: "keyed key valid d \<Longrightarrow> dict_get d k = Some v \<Longrightarrow> key v = k \<and> valid v"
  by (auto simp: keyed_def dest: pydict.everyD)

lemma keyed_empty [simp]: "keyed key valid []"
  by (simp add: keyed_def pydict.every_def)

lemma keyed_in_set: "keyed key valid d \<Longrightarrow> (k, v) \<in> set d \<Longrightarrow> key v = k \<and> valid v"
  by (metis keyed_def keyed_get map_of_is_SomeI)

definition dict_extends :: "('v \<Rightarrow> 'v \<Rightarrow> bool) \<Rightarrow> ('k, 'v) dict \<Rightarrow> ('k, 'v) dict \<Rightarrow> bool" where
  "dict_extends R d d' \<longleftrightarrow> (\<forall>k v. dict_get d k = Some v \<longrightarrow> (\<exists>v'. dict_get d' k = Some v' \<and> R v v'))"

lemma dict_extendsD: "dict_extends R d d' \<Longrightarrow> dict_get d k = Some v \<Longrightarrow> \<exists>v'. dict_get d' k = Some v' \<and> R v v'"
  by (simp add: dict_extends_def)

lemma dict_extends_refl: "(\<And>v. R v v) \<Longrightarrow> dict_extends R d d"
  by (auto simp: dict_extends_def)

lemma dict_extends_put:
  "(\<And>v. R v v) \<Longrightarrow> (\<And>v. dict_get d k = Some v \<Longrightarrow> R v v') \<Longrightarrow> dict_extends R d (dict_set k v' d)"
  by (auto simp: dict_extends_def)

lemma dict_extends_trans:
  assumes "dict_extends R d d'" "dict_extends R d' d''" "\<And>u v w. R u v \<Longrightarrow> R v w \<Longrightarrow> R u w"
  shows "dict_extends R d d''"
  unfolding dict_extends_def
proof (intro allI impI)
  fix k v assume "dict_get d k = Some v"
  from dict_extendsD [OF assms(1) this] obtain v' where v': "dict_get d' k = Some v'" "R v v'" by blast
  from dict_extendsD [OF assms(2) v'(1)] obtain w where "dict_get d'' k = Some w" "R v' w" by blast
  with v'(2) assms(3) show "\<exists>w. dict_get d'' k = Some w \<and> R v w" by blast
qed

text \<open>How a stored record may change.\<close>

definition run_later :: "run \<Rightarrow> run \<Rightarrow> bool" where
  "run_later r r' \<longleftrightarrow>
     run_id r' = run_id r \<and> trace_id r' = trace_id r \<and> correlation_id r' = correlation_id r
     \<and> run_idempotency_key r' = run_idempotency_key r \<and> run_created_at r' = run_created_at r
     \<and> run_version r \<le> run_version r' \<and> dt_micros (run_updated_at r) \<le> dt_micros (run_updated_at r')
     \<and> budget_monotone (run_budget r) (run_budget r')
     \<and> (run_state r \<in> set TERMINAL_WORKFLOW_STATES \<longrightarrow> run_state r' = run_state r)"

definition proposal_later :: "action_proposal \<Rightarrow> action_proposal \<Rightarrow> bool" where
  "proposal_later p p' \<longleftrightarrow> p' = p\<lparr>ap_state := ap_state p'\<rparr>"

definition idempotency_later :: "idempotency_record \<Rightarrow> idempotency_record \<Rightarrow> bool" where
  "idempotency_later i i' \<longleftrightarrow>
     ir_idempotency_key i' = ir_idempotency_key i \<and> ir_proposal_id i' = ir_proposal_id i
     \<and> ir_action_fingerprint i' = ir_action_fingerprint i \<and> ir_registered_at i' = ir_registered_at i
     \<and> (\<forall>k. ir_execution_acknowledgement i = Some k \<longrightarrow> ir_execution_acknowledgement i' = Some k)"

definition checkpoint_later :: "checkpoint \<Rightarrow> checkpoint \<Rightarrow> bool" where
  "checkpoint_later c c' \<longleftrightarrow> cp_run_id c' = cp_run_id c \<and> cp_version c \<le> cp_version c'"

lemma run_later_refl [simp]: "run_later r r"
  by (simp add: run_later_def budget_monotone_def)

lemma proposal_later_refl [simp]: "proposal_later p p"
  by (simp add: proposal_later_def)

lemma idempotency_later_refl [simp]: "idempotency_later i i"
  by (simp add: idempotency_later_def)

lemma checkpoint_later_refl [simp]: "checkpoint_later c c"
  by (simp add: checkpoint_later_def)

lemma run_later_trans: "run_later a b \<Longrightarrow> run_later b c \<Longrightarrow> run_later a c"
  by (auto simp: run_later_def budget_monotone_def)

lemma proposal_later_trans: "proposal_later a b \<Longrightarrow> proposal_later b c \<Longrightarrow> proposal_later a c"
  by (metis action_proposal.surjective action_proposal.update_convs(7) proposal_later_def)

lemma idempotency_later_trans: "idempotency_later a b \<Longrightarrow> idempotency_later b c \<Longrightarrow> idempotency_later a c"
  by (simp add: idempotency_later_def)

lemma checkpoint_later_trans: "checkpoint_later a b \<Longrightarrow> checkpoint_later b c \<Longrightarrow> checkpoint_later a c"
  by (simp add: checkpoint_later_def)

lemma proposal_later_facts:
  assumes "proposal_later p p'"
  shows "ap_proposal_id p' = ap_proposal_id p" "ap_run_id p' = ap_run_id p" "ap_target p' = ap_target p"
    "derive_idempotency_key p' = derive_idempotency_key p"
    "derive_action_fingerprint p' = derive_action_fingerprint p"
    "validate_approval_binding p' a = validate_approval_binding p a"
proof -
  obtain st where "p' = p\<lparr>ap_state := st\<rparr>" using assms unfolding proposal_later_def by blast
  then show "ap_proposal_id p' = ap_proposal_id p" "ap_run_id p' = ap_run_id p" "ap_target p' = ap_target p"
    "derive_idempotency_key p' = derive_idempotency_key p"
    "derive_action_fingerprint p' = derive_action_fingerprint p"
    "validate_approval_binding p' a = validate_approval_binding p a"
    by (simp_all add: derive_idempotency_key_def derive_action_fingerprint_def
        fingerprint_action_payload_def validate_approval_binding_def)
qed

definition extends :: "domain_snapshot \<Rightarrow> domain_snapshot \<Rightarrow> bool" where
  "extends s t \<longleftrightarrow>
     dict_extends run_later (ds_runs s) (ds_runs t)
     \<and> dict_extends proposal_later (ds_proposals s) (ds_proposals t)
     \<and> dict_extends (=) (ds_approvals s) (ds_approvals t)
     \<and> dict_extends idempotency_later (ds_idempotency s) (ds_idempotency t)
     \<and> dict_extends checkpoint_later (ds_checkpoints s) (ds_checkpoints t)
     \<and> dict_extends (=) (ds_audit_events s) (ds_audit_events t)
     \<and> dict_extends (=) (ds_verification_evidence s) (ds_verification_evidence t)"

lemma extends_parts:
  assumes "extends s t"
  shows "dict_extends run_later (ds_runs s) (ds_runs t)"
    "dict_extends proposal_later (ds_proposals s) (ds_proposals t)"
    "dict_extends (=) (ds_approvals s) (ds_approvals t)"
    "dict_extends idempotency_later (ds_idempotency s) (ds_idempotency t)"
    "dict_extends checkpoint_later (ds_checkpoints s) (ds_checkpoints t)"
    "dict_extends (=) (ds_audit_events s) (ds_audit_events t)"
    "dict_extends (=) (ds_verification_evidence s) (ds_verification_evidence t)"
  using assms by (simp_all add: extends_def)

lemma extends_refl [simp]: "extends s s"
  by (simp add: extends_def dict_extends_refl)

lemma extends_trans:
  assumes "extends s t" "extends t u"
  shows "extends s u"
proof -
  have "dict_extends run_later (ds_runs s) (ds_runs u)"
    using assms run_later_trans by (blast intro: dict_extends_trans dest: extends_parts(1))
  moreover have "dict_extends proposal_later (ds_proposals s) (ds_proposals u)"
    using assms proposal_later_trans by (blast intro: dict_extends_trans dest: extends_parts(2))
  moreover have "dict_extends (=) (ds_approvals s) (ds_approvals u)"
    using assms by (blast intro: dict_extends_trans dest: extends_parts(3))
  moreover have "dict_extends idempotency_later (ds_idempotency s) (ds_idempotency u)"
    using assms idempotency_later_trans by (blast intro: dict_extends_trans dest: extends_parts(4))
  moreover have "dict_extends checkpoint_later (ds_checkpoints s) (ds_checkpoints u)"
    using assms checkpoint_later_trans by (blast intro: dict_extends_trans dest: extends_parts(5))
  moreover have "dict_extends (=) (ds_audit_events s) (ds_audit_events u)"
    using assms by (blast intro: dict_extends_trans dest: extends_parts(6))
  moreover have "dict_extends (=) (ds_verification_evidence s) (ds_verification_evidence u)"
    using assms by (blast intro: dict_extends_trans dest: extends_parts(7))
  ultimately show ?thesis by (simp add: extends_def)
qed

section \<open>The invariant\<close>

definition snapshot_typed :: "domain_snapshot \<Rightarrow> bool" where
  "snapshot_typed s \<longleftrightarrow>
     keyed run_id valid_run (ds_runs s)
     \<and> keyed ap_proposal_id valid_action_proposal (ds_proposals s)
     \<and> keyed appr_proposal_id valid_approval (ds_approvals s)
     \<and> keyed ir_idempotency_key valid_idempotency_record (ds_idempotency s)
     \<and> keyed cp_run_id valid_checkpoint (ds_checkpoints s)
     \<and> keyed (\<lambda>e. (ae_run_id e, ae_event_id e)) valid_audit_event (ds_audit_events s)
     \<and> keyed (\<lambda>e. (ve_run_id e, ve_proposal_id e)) valid_verification_evidence (ds_verification_evidence s)
     \<and> length (ds_runs s) \<le> MAX_DURABLE_RUNS
     \<and> (\<forall>rid. count_audit_events s rid \<le> MAX_AUDIT_EVENTS_PER_RUN)"

definition approval_linked :: "domain_snapshot \<Rightarrow> approval \<Rightarrow> bool" where
  "approval_linked s a \<longleftrightarrow>
     (\<exists>p. get_proposal s (appr_proposal_id a) = Some p \<and> validate_approval_binding p a = Inr ())"

definition idempotency_linked :: "domain_snapshot \<Rightarrow> idempotency_record \<Rightarrow> bool" where
  "idempotency_linked s i \<longleftrightarrow>
     (\<exists>p a. get_proposal s (ir_proposal_id i) = Some p \<and> derive_idempotency_key p = ir_idempotency_key i
        \<and> derive_action_fingerprint p = ir_action_fingerprint i
        \<and> get_approval s (ir_proposal_id i) = Some a \<and> appr_decision a = AD_APPROVED)"

definition evidence_linked :: "domain_snapshot \<Rightarrow> verification_evidence \<Rightarrow> bool" where
  "evidence_linked s e \<longleftrightarrow>
     (\<exists>p i r. get_proposal s (ve_proposal_id e) = Some p \<and> ap_run_id p = ve_run_id e
        \<and> ap_target p = ve_target e \<and> get_run s (ve_run_id e) = Some r
        \<and> get_idempotency s (derive_idempotency_key p) = Some i)"

definition truth_linked :: "domain_snapshot \<Rightarrow> bool" where
  "truth_linked s \<longleftrightarrow>
     pydict.every (\<lambda>_. approval_linked s) (ds_approvals s)
     \<and> pydict.every (\<lambda>_. idempotency_linked s) (ds_idempotency s)
     \<and> pydict.every (\<lambda>_. evidence_linked s) (ds_verification_evidence s)"

definition snapshot_inv :: "domain_snapshot \<Rightarrow> bool" where
  "snapshot_inv s \<longleftrightarrow> snapshot_typed s \<and> truth_linked s"

lemmas getters = get_run_def get_proposal_def get_approval_def get_idempotency_def get_checkpoint_def
  get_audit_event_def get_verification_evidence_def

lemma extends_get:
  assumes "extends s t"
  shows "get_run s rid = Some r \<Longrightarrow> \<exists>r'. get_run t rid = Some r' \<and> run_later r r'"
    and "get_proposal s pid = Some p \<Longrightarrow> \<exists>p'. get_proposal t pid = Some p' \<and> proposal_later p p'"
    and "get_approval s pid = Some a \<Longrightarrow> get_approval t pid = Some a"
    and "get_idempotency s k = Some i \<Longrightarrow> \<exists>i'. get_idempotency t k = Some i' \<and> idempotency_later i i'"
    and "get_checkpoint s rid = Some c \<Longrightarrow> \<exists>c'. get_checkpoint t rid = Some c' \<and> checkpoint_later c c'"
    and "get_audit_event s rid eid = Some e \<Longrightarrow> get_audit_event t rid eid = Some e"
    and "get_verification_evidence s rid pid = Some v \<Longrightarrow> get_verification_evidence t rid pid = Some v"
  using assms unfolding extends_def getters by (auto dest: dict_extendsD)

lemma approval_linked_extends:
  assumes "extends s t" "approval_linked s a"
  shows "approval_linked t a"
proof -
  obtain p where p: "get_proposal s (appr_proposal_id a) = Some p" "validate_approval_binding p a = Inr ()"
    using assms(2) by (auto simp: approval_linked_def)
  obtain p' where "get_proposal t (appr_proposal_id a) = Some p'" "proposal_later p p'"
    using extends_get(2) [OF assms(1) p(1)] by blast
  with p(2) show ?thesis by (auto simp: approval_linked_def proposal_later_facts)
qed

lemma idempotency_linked_extends:
  assumes "extends s t" "idempotency_linked s i"
  shows "idempotency_linked t i"
proof -
  obtain p a where p: "get_proposal s (ir_proposal_id i) = Some p"
      "derive_idempotency_key p = ir_idempotency_key i" "derive_action_fingerprint p = ir_action_fingerprint i"
    and a: "get_approval s (ir_proposal_id i) = Some a" "appr_decision a = AD_APPROVED"
    using assms(2) by (auto simp: idempotency_linked_def)
  obtain p' where "get_proposal t (ir_proposal_id i) = Some p'" "proposal_later p p'"
    using extends_get(2) [OF assms(1) p(1)] by blast
  with p(2,3) a extends_get(3) [OF assms(1) a(1)] show ?thesis
    by (auto simp: idempotency_linked_def proposal_later_facts)
qed

lemma idempotency_linked_later: "idempotency_later i i' \<Longrightarrow> idempotency_linked s i \<Longrightarrow> idempotency_linked s i'"
  by (simp add: idempotency_linked_def idempotency_later_def)

lemma evidence_linked_extends:
  assumes "extends s t" "evidence_linked s e"
  shows "evidence_linked t e"
proof -
  obtain p i r where p: "get_proposal s (ve_proposal_id e) = Some p" "ap_run_id p = ve_run_id e" "ap_target p = ve_target e"
    and r: "get_run s (ve_run_id e) = Some r" and i: "get_idempotency s (derive_idempotency_key p) = Some i"
    using assms(2) by (auto simp: evidence_linked_def)
  obtain p' where "get_proposal t (ve_proposal_id e) = Some p'" "proposal_later p p'"
    using extends_get(2) [OF assms(1) p(1)] by blast
  moreover obtain r' where "get_run t (ve_run_id e) = Some r'" using extends_get(1) [OF assms(1) r] by blast
  moreover obtain i' where "get_idempotency t (derive_idempotency_key p) = Some i'"
    using extends_get(4) [OF assms(1) i] by blast
  ultimately show ?thesis using p(2,3) by (auto simp: evidence_linked_def proposal_later_facts)
qed

text \<open>
  Along an extension, only the new or changed records have to be linked.
\<close>

lemma truth_linked_extends:
  assumes "truth_linked s" "extends s t"
    and "\<And>k a. dict_get (ds_approvals t) k = Some a \<Longrightarrow> dict_get (ds_approvals s) k \<noteq> Some a \<Longrightarrow> approval_linked t a"
    and "\<And>k i. dict_get (ds_idempotency t) k = Some i \<Longrightarrow> dict_get (ds_idempotency s) k \<noteq> Some i \<Longrightarrow> idempotency_linked t i"
    and "\<And>k e. dict_get (ds_verification_evidence t) k = Some e \<Longrightarrow> dict_get (ds_verification_evidence s) k \<noteq> Some e
            \<Longrightarrow> evidence_linked t e"
  shows "truth_linked t"
proof -
  have "approval_linked t a" if "dict_get (ds_approvals t) k = Some a" for k a
    using that assms(1,2,3) by (cases "dict_get (ds_approvals s) k = Some a")
      (auto simp: truth_linked_def dest: pydict.everyD intro: approval_linked_extends)
  moreover have "idempotency_linked t i" if "dict_get (ds_idempotency t) k = Some i" for k i
    using that assms(1,2,4) by (cases "dict_get (ds_idempotency s) k = Some i")
      (auto simp: truth_linked_def dest: pydict.everyD intro: idempotency_linked_extends)
  moreover have "evidence_linked t e" if "dict_get (ds_verification_evidence t) k = Some e" for k e
    using that assms(1,2,5) by (cases "dict_get (ds_verification_evidence s) k = Some e")
      (auto simp: truth_linked_def dest: pydict.everyD intro: evidence_linked_extends)
  ultimately show ?thesis by (simp add: truth_linked_def pydict.every_def)
qed

section \<open>One assignment into one collection\<close>

definition good_step :: "domain_snapshot \<Rightarrow> domain_snapshot \<Rightarrow> bool" where
  "good_step s t \<longleftrightarrow> extends s t \<and> snapshot_inv t"

lemma good_step_refl: "snapshot_inv s \<Longrightarrow> good_step s s"
  by (simp add: good_step_def)

lemma snapshot_typed_parts:
  assumes "snapshot_inv s"
  shows "keyed run_id valid_run (ds_runs s)"
    "keyed ap_proposal_id valid_action_proposal (ds_proposals s)"
    "keyed appr_proposal_id valid_approval (ds_approvals s)"
    "keyed ir_idempotency_key valid_idempotency_record (ds_idempotency s)"
    "keyed cp_run_id valid_checkpoint (ds_checkpoints s)"
    "keyed (\<lambda>e. (ae_run_id e, ae_event_id e)) valid_audit_event (ds_audit_events s)"
    "keyed (\<lambda>e. (ve_run_id e, ve_proposal_id e)) valid_verification_evidence (ds_verification_evidence s)"
    "length (ds_runs s) \<le> MAX_DURABLE_RUNS"
    "count_audit_events s rid \<le> MAX_AUDIT_EVENTS_PER_RUN"
    "truth_linked s"
  using assms by (simp_all add: snapshot_inv_def snapshot_typed_def)

lemma put_run:
  assumes inv: "snapshot_inv s" and v: "valid_run r" "run_id r = rid"
    and later: "\<And>old. get_run s rid = Some old \<Longrightarrow> run_later old r"
    and cap: "get_run s rid = None \<Longrightarrow> length (ds_runs s) < MAX_DURABLE_RUNS"
  shows "good_step s (s\<lparr>ds_runs := dict_set rid r (ds_runs s)\<rparr>)" (is "good_step s ?t")
proof -
  have ext: "extends s ?t"
    using later by (auto simp: extends_def getters intro!: dict_extends_refl dict_extends_put)
  moreover have "truth_linked ?t"
    using truth_linked_extends [OF snapshot_typed_parts(10) [OF inv] ext] by simp
  moreover have "snapshot_typed ?t"
    using inv v cap
    by (auto simp: snapshot_inv_def snapshot_typed_def count_audit_events_def getters alist_length_update
        intro: keyed_put)
  ultimately show ?thesis by (simp add: good_step_def snapshot_inv_def)
qed

lemma put_proposal:
  assumes inv: "snapshot_inv s" and v: "valid_action_proposal p" "ap_proposal_id p = pid"
    and later: "\<And>old. get_proposal s pid = Some old \<Longrightarrow> proposal_later old p"
  shows "good_step s (s\<lparr>ds_proposals := dict_set pid p (ds_proposals s)\<rparr>)" (is "good_step s ?t")
proof -
  have ext: "extends s ?t"
    using later by (auto simp: extends_def getters intro!: dict_extends_refl dict_extends_put)
  moreover have "truth_linked ?t"
    using truth_linked_extends [OF snapshot_typed_parts(10) [OF inv] ext] by simp
  moreover have "snapshot_typed ?t"
    using inv v by (auto simp: snapshot_inv_def snapshot_typed_def count_audit_events_def intro: keyed_put)
  ultimately show ?thesis by (simp add: good_step_def snapshot_inv_def)
qed

lemma put_approval:
  assumes inv: "snapshot_inv s" and v: "valid_approval a" "appr_proposal_id a = pid"
    and new: "get_approval s pid = None" and link: "approval_linked s a"
  shows "good_step s (s\<lparr>ds_approvals := dict_set pid a (ds_approvals s)\<rparr>)" (is "good_step s ?t")
proof -
  have ext: "extends s ?t"
    using new by (auto simp: extends_def getters intro!: dict_extends_refl dict_extends_put)
  moreover have "truth_linked ?t"
    using approval_linked_extends [OF ext link]
    by (intro truth_linked_extends [OF snapshot_typed_parts(10) [OF inv] ext]) (auto split: if_splits)
  moreover have "snapshot_typed ?t"
    using inv v by (auto simp: snapshot_inv_def snapshot_typed_def count_audit_events_def intro: keyed_put)
  ultimately show ?thesis by (simp add: good_step_def snapshot_inv_def)
qed

lemma put_idempotency:
  assumes inv: "snapshot_inv s" and v: "valid_idempotency_record i" "ir_idempotency_key i = k"
    and later: "\<And>old. get_idempotency s k = Some old \<Longrightarrow> idempotency_later old i"
    and link: "idempotency_linked s i"
  shows "good_step s (s\<lparr>ds_idempotency := dict_set k i (ds_idempotency s)\<rparr>)" (is "good_step s ?t")
proof -
  have ext: "extends s ?t"
    using later by (auto simp: extends_def getters intro!: dict_extends_refl dict_extends_put)
  moreover have "truth_linked ?t"
    using idempotency_linked_extends [OF ext link]
    by (intro truth_linked_extends [OF snapshot_typed_parts(10) [OF inv] ext]) (auto split: if_splits)
  moreover have "snapshot_typed ?t"
    using inv v by (auto simp: snapshot_inv_def snapshot_typed_def count_audit_events_def intro: keyed_put)
  ultimately show ?thesis by (simp add: good_step_def snapshot_inv_def)
qed

lemma put_checkpoint:
  assumes inv: "snapshot_inv s" and v: "valid_checkpoint c" "cp_run_id c = rid"
    and later: "\<And>old. get_checkpoint s rid = Some old \<Longrightarrow> checkpoint_later old c"
  shows "good_step s (s\<lparr>ds_checkpoints := dict_set rid c (ds_checkpoints s)\<rparr>)" (is "good_step s ?t")
proof -
  have ext: "extends s ?t"
    using later by (auto simp: extends_def getters intro!: dict_extends_refl dict_extends_put)
  moreover have "truth_linked ?t"
    using truth_linked_extends [OF snapshot_typed_parts(10) [OF inv] ext] by simp
  moreover have "snapshot_typed ?t"
    using inv v by (auto simp: snapshot_inv_def snapshot_typed_def count_audit_events_def intro: keyed_put)
  ultimately show ?thesis by (simp add: good_step_def snapshot_inv_def)
qed

lemma count_after_append:
  "dict_get (ds_audit_events s) (rid, eid) = None \<Longrightarrow>
   count_audit_events (s\<lparr>ds_audit_events := dict_set (rid, eid) e (ds_audit_events s)\<rparr>) rid'
   = count_audit_events s rid' + (if rid' = rid then 1 else 0)"
  by (auto simp: count_audit_events_def update_keys map_of_eq_None_iff)

lemma put_audit_event:
  assumes inv: "snapshot_inv s" and v: "valid_audit_event e" "(ae_run_id e, ae_event_id e) = k"
    and new: "dict_get (ds_audit_events s) k = None"
    and cap: "count_audit_events s (ae_run_id e) < MAX_AUDIT_EVENTS_PER_RUN"
  shows "good_step s (s\<lparr>ds_audit_events := dict_set k e (ds_audit_events s)\<rparr>)" (is "good_step s ?t")
proof -
  have ext: "extends s ?t"
    using new by (auto simp: extends_def getters intro!: dict_extends_refl dict_extends_put)
  moreover have "truth_linked ?t"
    using truth_linked_extends [OF snapshot_typed_parts(10) [OF inv] ext] by simp
  moreover have "count_audit_events ?t rid \<le> MAX_AUDIT_EVENTS_PER_RUN" for rid
    using count_after_append [of s "ae_run_id e" "ae_event_id e" e rid] new cap v(2)
      snapshot_typed_parts(9) [OF inv, of rid] by auto
  then have "snapshot_typed ?t"
    using inv v by (auto simp: snapshot_inv_def snapshot_typed_def intro: keyed_put)
  ultimately show ?thesis by (simp add: good_step_def snapshot_inv_def)
qed

lemma put_evidence:
  assumes inv: "snapshot_inv s" and v: "valid_verification_evidence e" "(ve_run_id e, ve_proposal_id e) = k"
    and new: "dict_get (ds_verification_evidence s) k = None" and link: "evidence_linked s e"
  shows "good_step s (s\<lparr>ds_verification_evidence := dict_set k e (ds_verification_evidence s)\<rparr>)" (is "good_step s ?t")
proof -
  have ext: "extends s ?t"
    using new by (auto simp: extends_def getters intro!: dict_extends_refl dict_extends_put)
  moreover have "truth_linked ?t"
    using evidence_linked_extends [OF ext link]
    by (intro truth_linked_extends [OF snapshot_typed_parts(10) [OF inv] ext]) (auto split: if_splits)
  moreover have "snapshot_typed ?t"
    using inv v by (auto simp: snapshot_inv_def snapshot_typed_def count_audit_events_def intro: keyed_put)
  ultimately show ?thesis by (simp add: good_step_def snapshot_inv_def)
qed

section \<open>The operations\<close>

lemma create_run_step:
  "snapshot_inv s \<Longrightarrow> valid_run r \<Longrightarrow> create_run r s = Inr (t, r') \<Longrightarrow> good_step s t"
  by (auto simp: create_run_def result_simps getters intro!: put_run)

lemma transition_run_later: "transition_run r st u = Inr r' \<Longrightarrow> run_later r r' \<and> valid_run r' \<and> run_id r' = run_id r"
  using terminal_no_successor [of "run_state r"]
  by (auto simp: transition_run_eq run_later_def budget_monotone_def)

lemma transition_run_snapshot_shape:
  assumes "transition_run_snapshot rid next_state es ev u ap vp s = Inr (t, r')"
  shows "\<exists>r. get_run s rid = Some r \<and> run_state r = es \<and> run_version r = ev
           \<and> decision_guard s rid next_state ap = Inr () \<and> success_guard s rid next_state vp = Inr ()
           \<and> transition_run r next_state u = Inr r' \<and> t = s\<lparr>ds_runs := dict_set rid r' (ds_runs s)\<rparr>"
  using assms by (auto simp: transition_run_snapshot_def result_simps split: option.splits)

lemma get_run_valid: "snapshot_inv s \<Longrightarrow> get_run s rid = Some r \<Longrightarrow> run_id r = rid \<and> valid_run r"
  by (auto simp: getters dest: snapshot_typed_parts(1) keyed_get)

lemma get_proposal_valid: "snapshot_inv s \<Longrightarrow> get_proposal s k = Some p \<Longrightarrow> ap_proposal_id p = k \<and> valid_action_proposal p"
  by (auto simp: getters dest: snapshot_typed_parts(2) keyed_get)

lemma get_approval_valid: "snapshot_inv s \<Longrightarrow> get_approval s k = Some p \<Longrightarrow> appr_proposal_id p = k \<and> valid_approval p"
  by (auto simp: getters dest: snapshot_typed_parts(3) keyed_get)

lemma get_idempotency_valid:
  "snapshot_inv s \<Longrightarrow> get_idempotency s k = Some p \<Longrightarrow> ir_idempotency_key p = k \<and> valid_idempotency_record p"
  by (auto simp: getters dest: snapshot_typed_parts(4) keyed_get)

lemma get_checkpoint_valid: "snapshot_inv s \<Longrightarrow> get_checkpoint s k = Some c \<Longrightarrow> cp_run_id c = k \<and> valid_checkpoint c"
  by (auto simp: getters dest: snapshot_typed_parts(5) keyed_get)

lemma get_idempotency_linked:
  "snapshot_inv s \<Longrightarrow> get_idempotency s k = Some i \<Longrightarrow> idempotency_linked s i"
  by (auto simp: getters snapshot_inv_def truth_linked_def dest: pydict.everyD)

lemma transition_run_snapshot_step:
  assumes inv: "snapshot_inv s" and op: "transition_run_snapshot rid next_state es ev u ap vp s = Inr (t, r')"
  shows "good_step s t"
proof -
  from transition_run_snapshot_shape [OF op] obtain r where r: "get_run s rid = Some r"
    "transition_run r next_state u = Inr r'" "t = s\<lparr>ds_runs := dict_set rid r' (ds_runs s)\<rparr>" by blast
  with get_run_valid [OF inv r(1)] transition_run_later [OF r(2)] inv show ?thesis
    by (auto intro!: put_run)
qed

lemma update_run_budget_step:
  assumes inv: "snapshot_inv s" and op: "update_run_budget rid b ev u s = Inr (t, r')"
  shows "good_step s t"
proof -
  obtain r where r: "get_run s rid = Some r" and r': "r' = r\<lparr>run_budget := b, run_updated_at := u, run_version := run_version r + 1\<rparr>"
    and m: "budget_monotone (run_budget r) b" "dt_micros (run_updated_at r) \<le> dt_micros u"
    and v: "valid_run r'" and t: "t = s\<lparr>ds_runs := dict_set rid r' (ds_runs s)\<rparr>"
    using op by (auto simp: update_run_budget_def result_simps split: option.splits)
  have "run_later r r'" using m by (simp add: r' run_later_def)
  moreover have "run_id r' = rid" using get_run_valid [OF inv r] by (simp add: r')
  ultimately show ?thesis using inv v r unfolding t by (auto intro!: put_run)
qed

lemma create_proposal_step:
  "snapshot_inv s \<Longrightarrow> valid_action_proposal p \<Longrightarrow> create_proposal p s = Inr (t, p') \<Longrightarrow> good_step s t"
  by (auto simp: create_proposal_def result_simps intro!: put_proposal)

lemma transition_proposal_step:
  assumes inv: "snapshot_inv s" and op: "transition_proposal pid st es s = Inr (t, p')"
  shows "good_step s t"
proof -
  obtain p where p: "get_proposal s pid = Some p" "p' = p\<lparr>ap_state := st\<rparr>" "valid_action_proposal p'"
    "t = s\<lparr>ds_proposals := dict_set pid p' (ds_proposals s)\<rparr>"
    using op by (auto simp: transition_proposal_def transitioned_proposal_def result_simps split: option.splits)
  with get_proposal_valid [OF inv p(1)] inv show ?thesis
    by (auto simp: proposal_later_def intro!: put_proposal)
qed

lemma create_approval_step:
  "snapshot_inv s \<Longrightarrow> valid_approval a \<Longrightarrow> create_approval a s = Inr (t, a') \<Longrightarrow> good_step s t"
  by (auto simp: create_approval_def result_simps approval_linked_def good_step_refl
      split: option.splits if_splits intro!: put_approval)

lemma register_idempotency_step:
  "snapshot_inv s \<Longrightarrow> valid_idempotency_record i \<Longrightarrow> register_idempotency i s = Inr (t, i') \<Longrightarrow> good_step s t"
  by (auto simp: register_idempotency_def result_simps idempotency_linked_def good_step_refl
      split: option.splits if_splits intro!: put_idempotency)

lemma complete_idempotency_step:
  assumes inv: "snapshot_inv s" and op: "complete_idempotency k res u es s = Inr (t, i')"
  shows "good_step s t"
proof -
  obtain i where i0: "get_idempotency s k = Some i"
    using op by (cases "get_idempotency s k") (simp_all add: complete_idempotency_def)
  then have i: "get_idempotency s k = Some i" "valid_idempotency_record i'"
      "t = s\<lparr>ds_idempotency := dict_set k i' (ds_idempotency s)\<rparr>"
      "i' = i\<lparr>ir_status := completed_idempotency_status res, ir_action_result := Some res, ir_completed_at := Some u\<rparr>"
    using op by (auto simp: complete_idempotency_def result_simps)
  have later: "idempotency_later i i'" by (simp add: idempotency_later_def i(4))
  have "ir_idempotency_key i' = k" using get_idempotency_valid [OF inv i(1)] by (simp add: i(4))
  moreover have "idempotency_linked s i'"
    by (rule idempotency_linked_later [OF later get_idempotency_linked [OF inv i(1)]])
  ultimately show ?thesis using inv i(1,2,3) later by (auto intro!: put_idempotency)
qed

lemma record_execution_acknowledgement_step:
  assumes inv: "snapshot_inv s" and ack: "valid_acknowledgement k"
    and op: "record_execution_acknowledgement key k es s = Inr (t, i')"
  shows "good_step s t"
proof -
  obtain i where i: "get_idempotency s key = Some i"
    using op by (auto simp: record_execution_acknowledgement_def split: option.splits)
  show ?thesis
  proof (cases "ir_execution_acknowledgement i")
    case (Some x)
    with op i inv show ?thesis
      by (auto simp: record_execution_acknowledgement_def result_simps good_step_refl split: if_splits)
  next
    case None
    with op i have t: "i' = i\<lparr>ir_execution_acknowledgement := Some k\<rparr>"
      "t = s\<lparr>ds_idempotency := dict_set key i' (ds_idempotency s)\<rparr>"
      by (auto simp: record_execution_acknowledgement_def result_simps Let_def)
    have later: "idempotency_later i i'" by (simp add: idempotency_later_def t(1) None)
    have v: "valid_idempotency_record i'" "ir_idempotency_key i' = key"
      using get_idempotency_valid [OF inv i] ack
      by (auto simp: t(1) valid_idempotency_record_def split: option.splits if_splits)
    have "idempotency_linked s i'"
      by (rule idempotency_linked_later [OF later get_idempotency_linked [OF inv i]])
    with inv i later v show ?thesis unfolding t(2) by (auto intro!: put_idempotency)
  qed
qed

lemma save_checkpoint_shape:
  "save_checkpoint c ev s = Inr (t, c') \<longleftrightarrow>
     c' = c \<and> t = s\<lparr>ds_checkpoints := dict_set (cp_run_id c) c (ds_checkpoints s)\<rparr>
     \<and> (case get_checkpoint s (cp_run_id c) of
          None \<Rightarrow> ev = None \<and> cp_version c = 1
        | Some old \<Rightarrow> ev = Some (cp_version old) \<and> cp_version c = cp_version old + 1)"
  by (auto simp: save_checkpoint_def result_simps split: option.splits)

lemma save_checkpoint_step:
  assumes inv: "snapshot_inv s" and v: "valid_checkpoint c" and op: "save_checkpoint c ev s = Inr (t, c')"
  shows "good_step s t"
proof -
  have "checkpoint_later old c" if "get_checkpoint s (cp_run_id c) = Some old" for old
    using that op get_checkpoint_valid [OF inv that]
    by (auto simp: save_checkpoint_shape checkpoint_later_def)
  with inv v op show ?thesis by (auto simp: save_checkpoint_shape intro!: put_checkpoint)
qed

lemma append_audit_event_step:
  "snapshot_inv s \<Longrightarrow> valid_audit_event e \<Longrightarrow> append_audit_event e s = Inr (t, e') \<Longrightarrow> good_step s t"
  by (auto simp: append_audit_event_def Let_def result_simps intro!: put_audit_event)

lemma create_verification_evidence_step:
  assumes inv: "snapshot_inv s" and v: "valid_verification_evidence e"
    and op: "create_verification_evidence e s = Inr (t, e')"
  shows "good_step s t"
proof (cases "dict_get (ds_verification_evidence s) (ve_run_id e, ve_proposal_id e)")
  case (Some x)
  with op inv show ?thesis
    by (auto simp: create_verification_evidence_def good_step_refl split: if_splits)
next
  case None
  with op have "evidence_linked s e"
    "t = s\<lparr>ds_verification_evidence := dict_set (ve_run_id e, ve_proposal_id e) e (ds_verification_evidence s)\<rparr>"
    by (auto simp: create_verification_evidence_def Let_def result_simps evidence_linked_def split: option.splits)
  with inv v None show ?thesis by (auto intro!: put_evidence)
qed

section \<open>The durable machine\<close>

datatype durable_op =
    CreateRun run
  | TransitionRun uuid workflow_state workflow_state int datetime "uuid option" "uuid option"
  | UpdateRunBudget uuid budget_counters int datetime
  | CreateProposal action_proposal
  | TransitionProposal uuid proposal_state proposal_state
  | CreateApproval approval
  | RegisterIdempotency idempotency_record
  | CompleteIdempotency string action_result datetime idempotency_status
  | RecordExecutionAcknowledgement string execution_acknowledgement idempotency_status
  | SaveCheckpoint checkpoint "int option"
  | AppendAuditEvent audit_event
  | CreateVerificationEvidence verification_evidence

text \<open>Arguments are contract instances: building an invalid one raises before the call.\<close>

fun durable_args_ok :: "durable_op \<Rightarrow> bool" where
  "durable_args_ok (CreateRun r) = valid_run r"
| "durable_args_ok (UpdateRunBudget _ b _ _) = valid_budget b"
| "durable_args_ok (CreateProposal p) = valid_action_proposal p"
| "durable_args_ok (CreateApproval a) = valid_approval a"
| "durable_args_ok (RegisterIdempotency i) = valid_idempotency_record i"
| "durable_args_ok (CompleteIdempotency _ res _ _) = valid_action_result res"
| "durable_args_ok (RecordExecutionAcknowledgement _ k _) = valid_acknowledgement k"
| "durable_args_ok (SaveCheckpoint c _) = valid_checkpoint c"
| "durable_args_ok (AppendAuditEvent e) = valid_audit_event e"
| "durable_args_ok (CreateVerificationEvidence e) = valid_verification_evidence e"
| "durable_args_ok _ = True"

definition image :: "exn + domain_snapshot \<times> 'a \<Rightarrow> exn + domain_snapshot" where
  "image m = ebind m (\<lambda>x. Inr (fst x))"

fun durable_apply :: "durable_op \<Rightarrow> domain_snapshot \<Rightarrow> exn + domain_snapshot" where
  "durable_apply (CreateRun r) s = image (create_run r s)"
| "durable_apply (TransitionRun rid st es ev u ap vp) s = image (transition_run_snapshot rid st es ev u ap vp s)"
| "durable_apply (UpdateRunBudget rid b ev u) s = image (update_run_budget rid b ev u s)"
| "durable_apply (CreateProposal p) s = image (create_proposal p s)"
| "durable_apply (TransitionProposal pid st es) s = image (transition_proposal pid st es s)"
| "durable_apply (CreateApproval a) s = image (create_approval a s)"
| "durable_apply (RegisterIdempotency i) s = image (register_idempotency i s)"
| "durable_apply (CompleteIdempotency k res u es) s = image (complete_idempotency k res u es s)"
| "durable_apply (RecordExecutionAcknowledgement k a es) s = image (record_execution_acknowledgement k a es s)"
| "durable_apply (SaveCheckpoint c ev) s = image (save_checkpoint c ev s)"
| "durable_apply (AppendAuditEvent e) s = image (append_audit_event e s)"
| "durable_apply (CreateVerificationEvidence e) s = image (create_verification_evidence e s)"

definition durable_step :: "domain_snapshot \<Rightarrow> durable_op \<Rightarrow> exn + domain_snapshot" where
  "durable_step s a = ebind (ensure (durable_args_ok a) ValueError) (\<lambda>_. durable_apply a s)"

lemmas durable_op_steps =
  create_run_step transition_run_snapshot_step update_run_budget_step create_proposal_step
  transition_proposal_step create_approval_step register_idempotency_step complete_idempotency_step
  record_execution_acknowledgement_step save_checkpoint_step append_audit_event_step
  create_verification_evidence_step

lemma durable_step_good: "snapshot_inv s \<Longrightarrow> durable_step s a = Inr t \<Longrightarrow> good_step s t"
  by (cases a) (auto simp: durable_step_def image_def result_simps intro: durable_op_steps)

lemma snapshot_inv_new: "snapshot_inv DomainSnapshot_new"
  by (simp add: snapshot_inv_def snapshot_typed_def truth_linked_def DomainSnapshot_new_def
      count_audit_events_def pydict.every_def)

interpretation durable: guarded_machine durable_step DomainSnapshot_new snapshot_inv
  by unfold_locales (auto intro: snapshot_inv_new dest: durable_step_good simp: good_step_def)

lemma durable_reachable_extends:
  "reachable_by durable_step s0 s \<Longrightarrow> snapshot_inv s0 \<Longrightarrow> extends s0 s \<and> snapshot_inv s"
proof (induction rule: reachable_by.induct)
  case reach_start
  then show ?case by simp
next
  case (reach_step s a t)
  then have "extends s0 s" "good_step s t" by (auto dest: durable_step_good)
  then show ?case by (auto simp: good_step_def intro: extends_trans)
qed

section \<open>Human decisions behind the workflow\<close>

text \<open>
  A decision transition rests on a durable human decision of the same polarity: either an
  approval record bound to a provider proposal of the run that still awaits approval, or the
  decision in the run's checkpoint, which is bound to the request, the proposal and its
  evidence and was taken before the request expired.
\<close>

definition provider_decision :: "domain_snapshot \<Rightarrow> uuid \<Rightarrow> uuid \<Rightarrow> approval_decision \<Rightarrow> bool" where
  "provider_decision s rid pid d \<longleftrightarrow>
     (\<exists>p a. get_proposal s pid = Some p \<and> get_approval s pid = Some a \<and> ap_run_id p = rid
        \<and> ap_state p = PS_AWAITING_APPROVAL \<and> appr_decision a = d
        \<and> validate_approval_binding p a = Inr ())"

definition checkpoint_decision :: "domain_snapshot \<Rightarrow> uuid \<Rightarrow> uuid \<Rightarrow> approval_decision \<Rightarrow> bool" where
  "checkpoint_decision s rid pid d \<longleftrightarrow>
     (\<exists>c p q a e. get_checkpoint s rid = Some c \<and> cp_remediation_proposal c = Some p
        \<and> cp_local_approval_request c = Some q \<and> cp_local_approval c = Some a
        \<and> cp_resource_evidence c = Some e
        \<and> rp_proposal_id p = pid \<and> rp_run_id p = rid \<and> rp_evidence_hash p = ev_evidence_hash e
        \<and> la_decision a = d \<and> la_proposal_hash a = rp_proposal_hash p
        \<and> la_request_hash a = lq_request_hash q \<and> la_actor_session_id a = lq_actor_session_id q
        \<and> la_decision_nonce_hash a = lq_decision_nonce_hash q
        \<and> dt_micros (lq_requested_at q) \<le> dt_micros (la_decided_at a)
        \<and> dt_micros (la_decided_at a) \<le> dt_micros (lq_expires_at q))"

lemma legacy_decision_provider:
  assumes inv: "snapshot_inv s" and l: "legacy_decision_valid s rid pid d"
  shows "provider_decision s rid pid d"
proof -
  obtain p a where pa: "get_proposal s pid = Some p" "get_approval s pid = Some a"
    using l by (auto simp: legacy_decision_valid_def split: option.splits)
  have "approval_linked s a"
    using inv pa(2) by (auto simp: snapshot_inv_def truth_linked_def get_approval_def dest: pydict.everyD)
  with pa get_approval_valid [OF inv pa(2)] have "validate_approval_binding p a = Inr ()"
    by (auto simp: approval_linked_def)
  with pa l show ?thesis by (auto simp: provider_decision_def legacy_decision_valid_def)
qed

lemma local_decision_checkpoint:
  assumes inv: "snapshot_inv s" and l: "local_decision_valid s rid pid d"
  shows "checkpoint_decision s rid pid d"
proof -
  obtain c p a where c: "get_checkpoint s rid = Some c" "cp_remediation_proposal c = Some p" "cp_local_approval c = Some a"
    using l by (auto simp: local_decision_valid_def split: option.splits)
  then have v: "valid_checkpoint c" using get_checkpoint_valid [OF inv] by blast
  obtain q where q: "cp_local_approval_request c = Some q"
    using valid_checkpoint_bounds(3) [OF v] c(3) by (auto simp: approval_bound_def split: option.splits)
  obtain e where e: "cp_resource_evidence c = Some e"
    using valid_checkpoint_bounds(1) [OF v] c(2) by (auto simp: proposal_bound_def split: option.splits)
  show ?thesis
    using valid_checkpoint_bounds(1-3) [OF v] c q e l
    by (auto simp: checkpoint_decision_def local_decision_valid_def proposal_bound_def request_bound_def
        approval_bound_def)
qed

lemma decision_guard_sound:
  assumes "snapshot_inv s" "next_state \<in> {WS_APPROVED, WS_DENIED_BY_HUMAN}" "decision_guard s rid next_state ap = Inr ()"
  shows "\<exists>pid. ap = Some pid
           \<and> (provider_decision s rid pid (if next_state = WS_APPROVED then AD_APPROVED else AD_DENIED)
              \<or> checkpoint_decision s rid pid (if next_state = WS_APPROVED then AD_APPROVED else AD_DENIED))"
  using assms legacy_decision_provider local_decision_checkpoint
  by (auto simp: decision_guard_def Let_def result_simps split: option.splits if_splits)

text \<open>Property C5. Reaching \<^const>\<open>WS_APPROVED\<close> or \<^const>\<open>WS_DENIED_BY_HUMAN\<close> takes a durable human
  decision of that polarity for the named proposal of that very run.\<close>

theorem decision_transition_needs_human_decision:
  assumes "snapshot_inv s" "next_state \<in> {WS_APPROVED, WS_DENIED_BY_HUMAN}"
    and "transition_run_snapshot rid next_state es ev u ap vp s = Inr (t, r)"
  shows "es = WS_AWAITING_APPROVAL
    \<and> (\<exists>pid. ap = Some pid
         \<and> (provider_decision s rid pid (if next_state = WS_APPROVED then AD_APPROVED else AD_DENIED)
            \<or> checkpoint_decision s rid pid (if next_state = WS_APPROVED then AD_APPROVED else AD_DENIED)))"
proof -
  obtain r0 where r0: "run_state r0 = es" "transition_run r0 next_state u = Inr r"
    and g: "decision_guard s rid next_state ap = Inr ()"
    using transition_run_snapshot_shape [OF assms(3)] by blast
  have "es = WS_AWAITING_APPROVAL"
    using r0 assms(2) by (cases es) (auto simp: transition_run_eq COMMON_INVESTIGATION_FAILURES_def)
  with decision_guard_sound [OF assms(1,2) g] show ?thesis by blast
qed

definition provider_proof :: "domain_snapshot \<Rightarrow> uuid \<Rightarrow> uuid \<Rightarrow> bool" where
  "provider_proof s rid pid \<longleftrightarrow>
     (\<exists>p e i res p' a. get_proposal s pid = Some p \<and> ap_run_id p = rid
        \<and> get_verification_evidence s rid pid = Some e \<and> ve_target e = ap_target p
        \<and> get_idempotency s (derive_idempotency_key p) = Some i \<and> ir_status i = IS_COMPLETED
        \<and> ir_action_result i = Some res
        \<and> ar_evidence_hash res = Some (ve_evidence_hash e)
        \<and> get_proposal s (ir_proposal_id i) = Some p'
        \<and> derive_action_fingerprint p' = derive_action_fingerprint p
        \<and> get_approval s (ir_proposal_id i) = Some a \<and> appr_decision a = AD_APPROVED)"

definition checkpoint_proof :: "domain_snapshot \<Rightarrow> uuid \<Rightarrow> uuid \<Rightarrow> bool" where
  "checkpoint_proof s rid pid \<longleftrightarrow>
     (\<exists>c r v p q a i. get_checkpoint s rid = Some c \<and> cp_local_execution_receipt c = Some r
        \<and> cp_local_verification c = Some v \<and> receipt_chain c r p q a i
        \<and> rp_proposal_id p = pid \<and> rp_run_id p = rid
        \<and> lv_receipt_hash v = lr_receipt_hash r \<and> lv_observed_resource v = lr_after_resource r)"

lemma legacy_proof_provider:
  assumes inv: "snapshot_inv s" and l: "legacy_proof_valid s rid pid"
  shows "provider_proof s rid pid"
proof -
  obtain p e where pe: "get_proposal s pid = Some p" "get_verification_evidence s rid pid = Some e"
    using l by (auto simp: legacy_proof_valid_def split: option.splits)
  with l obtain i res where i: "get_idempotency s (derive_idempotency_key p) = Some i" "ir_status i = IS_COMPLETED"
      "ir_action_result i = Some res" "ar_evidence_hash res = Some (ve_evidence_hash e)"
    by (auto simp: legacy_proof_valid_def split: option.splits)
  have key: "ir_idempotency_key i = derive_idempotency_key p" using get_idempotency_valid [OF inv i(1)] by simp
  obtain p' a where pa: "get_proposal s (ir_proposal_id i) = Some p'" "derive_idempotency_key p' = ir_idempotency_key i"
      "get_approval s (ir_proposal_id i) = Some a" "appr_decision a = AD_APPROVED"
    using get_idempotency_linked [OF inv i(1)] by (auto simp: idempotency_linked_def)
  from pa(2) key have fp: "derive_action_fingerprint p' = derive_action_fingerprint p"
    by (simp add: derive_idempotency_key_def)
  have "(ve_run_id e, ve_proposal_id e) = (rid, pid)"
    using pe(2) snapshot_typed_parts(7) [OF inv] by (auto simp: get_verification_evidence_def dest: keyed_get)
  moreover have "evidence_linked s e"
    using inv pe(2) by (auto simp: snapshot_inv_def truth_linked_def get_verification_evidence_def dest: pydict.everyD)
  ultimately have "ap_run_id p = rid" "ve_target e = ap_target p"
    using pe(1) by (auto simp: evidence_linked_def)
  with pe i pa(1,3,4) fp show ?thesis unfolding provider_proof_def by blast
qed

lemma local_proof_checkpoint:
  assumes inv: "snapshot_inv s" and l: "local_proof_valid s rid pid"
  shows "checkpoint_proof s rid pid"
proof -
  obtain c p r v where c: "get_checkpoint s rid = Some c" "cp_remediation_proposal c = Some p"
      "cp_local_execution_receipt c = Some r" "cp_local_verification c = Some v"
    using l by (auto simp: local_proof_valid_def split: option.splits)
  then have vc: "valid_checkpoint c" using get_checkpoint_valid [OF inv] by blast
  obtain p0 q a i where ch: "receipt_chain c r p0 q a i" using receipt_chain_exists [OF vc c(3)] by blast
  with c(2) have "p0 = p" by (simp add: receipt_chain_def)
  moreover have "lv_observed_resource v = lr_after_resource r"
    using valid_checkpoint_bounds(6) [OF vc] c(3,4) by (simp add: verification_bound_def)
  ultimately show ?thesis
    using c ch l by (auto simp: checkpoint_proof_def local_proof_valid_def)
qed

text \<open>Property C4. No run reaches success without durable proof, and the proof always
  contains an approving human decision for the action that was verified: on the provider path
  the completed idempotency record was registered under an approval of a proposal with the same
  action fingerprint, on the local path the receipt hangs off one approved decision through the
  whole request, decision, intent and receipt chain.\<close>

theorem success_needs_approved_and_verified_action:
  assumes "snapshot_inv s"
    and "transition_run_snapshot rid WS_SUCCESS_WITH_EVIDENCE es ev u ap vp s = Inr (t, r)"
  shows "es = WS_VERIFYING \<and> (\<exists>pid. vp = Some pid \<and> (provider_proof s rid pid \<or> checkpoint_proof s rid pid))"
proof -
  obtain r0 where r0: "run_state r0 = es" "transition_run r0 WS_SUCCESS_WITH_EVIDENCE u = Inr r"
    and g: "success_guard s rid WS_SUCCESS_WITH_EVIDENCE vp = Inr ()"
    using transition_run_snapshot_shape [OF assms(2)] by blast
  have "es = WS_VERIFYING" using r0 by (auto simp: transition_run_eq dest: success_only_from_verifying)
  with g show ?thesis using assms(1) legacy_proof_provider local_proof_checkpoint
    by (auto simp: success_guard_def result_simps split: option.splits)
qed

text \<open>Property C35. Whatever sequence of operations is attempted on a fresh store, accepted or
  rejected, the image stays well-formed: every record is valid and filed under its own identity,
  the run and audit capacities hold, and approvals, idempotency records and evidence stay linked
  to their proposals.\<close>

theorem durable_invariant: "snapshot_inv (run_actions durable_step DomainSnapshot_new ops)"
  by (rule durable.run_inv)

lemma run_actions_append: "run_actions step s (as @ bs) = run_actions step (run_actions step s as) bs"
  by (induction as arbitrary: s) (simp_all split: sum.splits)

text \<open>Property C36. Durable truth is append-only: whatever is attempted afterwards, a recorded
  approval, audit event or verification evidence is still there unchanged, a proposal has at most
  changed state, an idempotency record keeps its owner and its acknowledgement, and a run keeps
  its identity, never loses version, time or budget use, and never leaves a terminal state.\<close>

theorem durable_truth_is_append_only:
  "extends (run_actions durable_step DomainSnapshot_new before)
           (run_actions durable_step DomainSnapshot_new (before @ after))"
  by (metis durable.run_inv durable_reachable_extends reach_start reachable_by_run run_actions_append)

text \<open>A human decision is recorded once: a second, different decision for the same
  proposal is a conflict that leaves the first in place, and repeating the same decision returns
  the stored record without change.\<close>

theorem approval_recorded_once:
  assumes "get_approval s (appr_proposal_id a) = Some existing"
    and "create_approval a s = Inr (t, stored)"
  shows "t = s \<and> stored = existing \<and> a = existing"
  using assms by (auto simp: create_approval_def result_simps split: option.splits if_splits)

end
