(* ===== verification/NZ_Repository.thy ===== *)
theory NZ_Repository
  imports NZ_Durable_Truth
begin

text \<open>
  The restart-safe store of \<^verbatim>\<open>state/repository.py\<close> over the integrity envelope of
  \<^verbatim>\<open>state/files.py\<close>. A store is the file: absent, or the payload last written. Every
  operation takes the file lock, rebuilds the image from the file, applies one operation of the
  image and replaces the file atomically. Input and output can fail at three points: while the
  lock is taken or the file is read, before the file is replaced, and after it was replaced, when
  the directory is synchronised. The lemmas show that an image survives the round trip through
  the file, and that the store implements the interface of \<^verbatim>\<open>state/protocol.py\<close>.
\<close>

section \<open>Integrity envelopes\<close>

definition envelope_material :: "json \<Rightarrow> string \<Rightarrow> json" where
  "envelope_material payload payload_type = JObj
     [(''integrity_version'', JInt 1), (''payload'', payload), (''payload_type'', JStr payload_type)]"

definition payload_type_ok :: "string \<Rightarrow> bool" where
  "payload_type_ok t \<longleftrightarrow> t \<noteq> [] \<and> t = py_strip t \<and> length t \<le> 64"

definition is_mapping :: "json \<Rightarrow> bool" where
  "is_mapping v = (case v of JObj _ \<Rightarrow> True | _ \<Rightarrow> False)"

text \<open>The envelope; \<^verbatim>\<open>StateIntegrityError\<close> is a \<^verbatim>\<open>ValueError\<close>. The version is
  compared by value, and Python's \<^verbatim>\<open>True\<close> equals 1.\<close>

definition seal_local_payload :: "json \<Rightarrow> string \<Rightarrow> exn + json" where
  "seal_local_payload payload payload_type =
     ebind (ensure (is_mapping payload) ValueError) (\<lambda>_.
     ebind (ensure (payload_type_ok payload_type) ValueError) (\<lambda>_.
     Inr (JObj [(''integrity_version'', JInt 1), (''payload'', payload), (''payload_type'', JStr payload_type),
                (''payload_sha256'', JStr (digest (envelope_material payload payload_type)))])))"

definition obj_get :: "(string \<times> json) list \<Rightarrow> string \<Rightarrow> json" where
  "obj_get kvs k = (case map_of kvs k of None \<Rightarrow> JNull | Some v \<Rightarrow> v)"

definition open_local_payload :: "json \<Rightarrow> string \<Rightarrow> exn + json \<times> string" where
  "open_local_payload envelope payload_type =
     (case envelope of
        JObj kvs \<Rightarrow>
          ebind (ensure (set (map fst kvs) = {''integrity_version'', ''payload'', ''payload_sha256'', ''payload_type''})
                   ValueError) (\<lambda>_.
          ebind (ensure (obj_get kvs ''integrity_version'' \<in> {JInt 1, JBool True}) ValueError) (\<lambda>_.
          ebind (ensure (obj_get kvs ''payload_type'' = JStr payload_type) ValueError) (\<lambda>_.
          let payload = obj_get kvs ''payload''
          in ebind (ensure (is_mapping payload) ValueError) (\<lambda>_.
             case obj_get kvs ''payload_sha256'' of
               JStr d \<Rightarrow>
                 ebind (ensure (length d = 64 \<and> list_all hex_lower d) ValueError) (\<lambda>_.
                 ebind (ensure (d = digest (envelope_material payload payload_type)) ValueError) (\<lambda>_.
                 Inr (payload, d)))
             | _ \<Rightarrow> Inl ValueError))))
      | _ \<Rightarrow> Inl ValueError)"

lemma seal_opens:
  assumes "seal_local_payload payload t = Inr envelope"
  shows "open_local_payload envelope t = Inr (payload, digest (envelope_material payload t))"
  using assms digest_shape [of "envelope_material payload t"]
  by (auto simp: seal_local_payload_def open_local_payload_def obj_get_def result_simps Let_def list_all_iff)

text \<open>A sealed payload opens to itself under the type it was sealed with.\<close>

theorem seal_open_roundtrip:
  assumes "seal_local_payload payload t = Inr envelope"
  shows "open_local_payload envelope t = Inr (payload, digest (envelope_material payload t))"
  by (rule seal_opens [OF assms])

section \<open>The round trip through the file\<close>

definition by_key :: "('k \<Rightarrow> 's :: linorder) \<Rightarrow> ('k, 'v) dict \<Rightarrow> ('k, 'v) dict" where
  "by_key key d = sort_key (\<lambda>kv. key (fst kv)) d"

definition reload :: "domain_snapshot \<Rightarrow> domain_snapshot" where
  "reload s =
     \<lparr>ds_runs = by_key uuid_str (ds_runs s), ds_proposals = by_key uuid_str (ds_proposals s),
      ds_approvals = by_key uuid_str (ds_approvals s), ds_idempotency = by_key (\<lambda>k. k) (ds_idempotency s),
      ds_checkpoints = by_key uuid_str (ds_checkpoints s), ds_audit_events = by_key pair_key (ds_audit_events s),
      ds_verification_evidence = by_key pair_key (ds_verification_evidence s)\<rparr>"

lemma update_fresh: "k \<notin> set (map fst d) \<Longrightarrow> AList.update k v d = d @ [(k, v)]"
  by (induction d) auto

lemma dict_of_distinct: "distinct (map key xs) \<Longrightarrow> dict_of key xs = map (\<lambda>x. (key x, x)) xs"
proof (induction xs rule: rev_induct)
  case Nil
  then show ?case by (simp add: dict_of_def)
next
  case (snoc x xs)
  then have "dict_of key xs = map (\<lambda>x. (key x, x)) xs" "key x \<notin> set (map key xs)" by auto
  then show ?case by (simp add: dict_of_def update_fresh comp_def)
qed

lemma by_key_perm: "set (by_key key d) = set d" "length (by_key key d) = length d"
  by (simp_all add: by_key_def)

lemma dict_ok_by_key: "dict_ok (by_key key d) = dict_ok d"
  by (simp add: distinct_map by_key_def)

lemma get_by_key [simp]:
  assumes "dict_ok d"
  shows "dict_get (by_key key d) k = dict_get d k"
  by (rule map_of_inject_set [THEN iffD2, THEN fun_cong])
     (use assms in \<open>simp_all add: dict_ok_by_key by_key_perm\<close>)

lemma dict_of_sorted_values:
  assumes "keyed key valid d"
  shows "dict_of key (sorted_values ord d) = by_key ord d"
proof -
  have own: "key (snd kv) = fst kv" if "kv \<in> set (by_key ord d)" for kv
    using that keyed_in_set [OF assms, of "fst kv" "snd kv"] by (simp add: by_key_perm)
  have vals: "sorted_values ord d = map snd (by_key ord d)"
    by (simp add: sorted_values_def by_key_def)
  have "map key (sorted_values ord d) = map fst (by_key ord d)"
    unfolding vals by (simp add: own)
  then have "distinct (map key (sorted_values ord d))"
    using assms by (simp add: keyed_def dict_ok_by_key)
  then have "dict_of key (sorted_values ord d) = map (\<lambda>v. (key v, v)) (sorted_values ord d)"
    by (rule dict_of_distinct)
  also have "\<dots> = map (\<lambda>kv. kv) (by_key ord d)"
    unfolding vals map_map by (rule map_cong) (simp_all add: own)
  finally show ?thesis by simp
qed

definition store_limits :: "domain_snapshot \<Rightarrow> bool" where
  "store_limits s \<longleftrightarrow>
     length (ds_runs s) \<le> MAX_SNAPSHOT_RECORDS \<and> length (ds_proposals s) \<le> MAX_SNAPSHOT_RECORDS
     \<and> length (ds_approvals s) \<le> MAX_SNAPSHOT_RECORDS \<and> length (ds_idempotency s) \<le> MAX_SNAPSHOT_RECORDS
     \<and> length (ds_checkpoints s) \<le> MAX_SNAPSHOT_RECORDS \<and> length (ds_audit_events s) \<le> MAX_SNAPSHOT_RECORDS
     \<and> length (ds_verification_evidence s) \<le> MAX_SNAPSHOT_RECORDS"

lemma sorted_values_facts:
  "length (sorted_values ord d) = length d" "set (sorted_values ord d) = snd ` set d"
  by (simp_all add: sorted_values_def)

lemma records_sorted_values:
  assumes "keyed key valid d"
  shows "snapshot_records valid (sorted_values ord d) =
           (if length d \<le> MAX_SNAPSHOT_RECORDS then Inr (sorted_values ord d) else Inl StorageDependencyError)"
proof -
  have "list_all valid (sorted_values ord d)"
    using keyed_in_set [OF assms] by (auto simp: list_all_iff sorted_values_facts)
  then show ?thesis by (simp add: snapshot_records_def sorted_values_facts ensure_def)
qed

lemma count_sorted_events:
  assumes "snapshot_inv s"
  shows "length (filter (\<lambda>e. ae_run_id e = rid) (sorted_values pair_key (ds_audit_events s))) = count_audit_events s rid"
proof -
  let ?d = "by_key pair_key (ds_audit_events s)"
  have own: "ae_run_id (snd kv) = fst (fst kv)" if "kv \<in> set ?d" for kv
    using that keyed_in_set [OF snapshot_typed_parts(6) [OF assms], of "fst kv" "snd kv"]
    by (simp add: by_key_perm) (metis fst_conv)
  have "length (filter (\<lambda>e. ae_run_id e = rid) (map snd ?d)) = length (filter (\<lambda>kv. fst (fst kv) = rid) ?d)"
    by (simp add: filter_map comp_def own cong: filter_cong)
  also have "\<dots> = length (filter (\<lambda>kv. fst (fst kv) = rid) (ds_audit_events s))"
    by (simp add: by_key_def filter_sort)
  finally show ?thesis
    by (simp add: sorted_values_def by_key_def count_audit_events_def filter_map comp_def)
qed

lemma event_counts_sorted:
  assumes "snapshot_inv s"
  shows "event_counts_ok (sorted_values pair_key (ds_audit_events s))"
  using snapshot_typed_parts(9) [OF assms] by (simp add: event_counts_ok_def count_sorted_events [OF assms])

lemma reload_dicts_ok:
  assumes "snapshot_inv s"
  shows "dict_ok (ds_runs s)" "dict_ok (ds_proposals s)" "dict_ok (ds_approvals s)" "dict_ok (ds_idempotency s)"
    "dict_ok (ds_checkpoints s)" "dict_ok (ds_audit_events s)" "dict_ok (ds_verification_evidence s)"
  using snapshot_typed_parts(1-7) [OF assms] by (simp_all add: keyed_def)

lemma reload_get:
  assumes "snapshot_inv s"
  shows "get_run (reload s) = get_run s" "get_proposal (reload s) = get_proposal s"
    "get_approval (reload s) = get_approval s" "get_idempotency (reload s) = get_idempotency s"
    "get_checkpoint (reload s) = get_checkpoint s" "get_audit_event (reload s) = get_audit_event s"
    "get_verification_evidence (reload s) = get_verification_evidence s"
  using reload_dicts_ok [OF assms] by (auto simp: fun_eq_iff getters reload_def)

lemma keyed_by_key: "keyed key valid d \<Longrightarrow> keyed key valid (by_key ord d)"
  by (simp add: keyed_def dict_ok_by_key pydict.every_def)

lemma count_reload: "count_audit_events (reload s) rid = count_audit_events s rid"
  by (simp add: count_audit_events_def reload_def by_key_def filter_map comp_def filter_sort)

lemma snapshot_inv_reload:
  assumes inv: "snapshot_inv s"
  shows "snapshot_inv (reload s)"
proof -
  have "snapshot_typed (reload s)"
    unfolding snapshot_typed_def count_reload
    using snapshot_typed_parts [OF inv] by (simp add: reload_def keyed_by_key by_key_perm)
  moreover have "truth_linked (reload s)"
    using snapshot_typed_parts(10) [OF inv] reload_dicts_ok [OF inv]
    by (simp add: truth_linked_def approval_linked_def idempotency_linked_def evidence_linked_def
        reload_get [OF inv] pydict.every_def) (simp add: reload_def)
  ultimately show ?thesis by (simp add: snapshot_inv_def)
qed

lemma references_ok_reload: "snapshot_inv s \<Longrightarrow> references_ok (reload s) = references_ok s"
  by (simp add: references_ok_def reload_get) (simp add: reload_def by_key_perm)

lemma from_export:
  assumes inv: "snapshot_inv s"
  shows "from_snapshot (export_snapshot s) =
           (if store_limits s \<and> references_ok s then Inr (reload s) else Inl StorageDependencyError)"
proof -
  note k = snapshot_typed_parts(1-7) [OF inv]
  show ?thesis
    using snapshot_typed_parts(8) [OF inv] references_ok_reload [OF inv]
    by (simp add: from_snapshot_def export_snapshot_def records_sorted_values [OF k(1)] records_sorted_values [OF k(2)]
        records_sorted_values [OF k(3)] records_sorted_values [OF k(4)] records_sorted_values [OF k(5)]
        records_sorted_values [OF k(6)] records_sorted_values [OF k(7)] dict_of_sorted_values [OF k(1)]
        dict_of_sorted_values [OF k(2)] dict_of_sorted_values [OF k(3)] dict_of_sorted_values [OF k(4)]
        dict_of_sorted_values [OF k(5)] dict_of_sorted_values [OF k(6)] dict_of_sorted_values [OF k(7)]
        sorted_values_facts by_key_perm event_counts_sorted [OF inv] store_limits_def ensure_def
        Let_def flip: reload_def)
qed

section \<open>The store\<close>

datatype io = IoOk | IoLoadFails | IoWriteFails | IoSyncFails

type_synonym store = "snapshot_payload option"

definition repo_load :: "store \<Rightarrow> exn + domain_snapshot" where
  "repo_load f = (case f of None \<Rightarrow> Inr DomainSnapshot_new | Some payload \<Rightarrow> from_snapshot payload)"

definition repo_read :: "io \<Rightarrow> (domain_snapshot \<Rightarrow> exn + 'a) \<Rightarrow> store \<Rightarrow> exn + 'a" where
  "repo_read io operation f =
     (if io = IoLoadFails then Inl StorageDependencyError else ebind (repo_load f) operation)"

definition repo_mutate :: "io \<Rightarrow> (domain_snapshot \<Rightarrow> exn + domain_snapshot \<times> 'a) \<Rightarrow> store \<Rightarrow> store \<times> (exn + 'a)" where
  "repo_mutate io operation f =
     (if io = IoLoadFails then (f, Inl StorageDependencyError)
      else case ebind (repo_load f) operation of
             Inl e \<Rightarrow> (f, Inl e)
           | Inr (s, x) \<Rightarrow>
               if io = IoWriteFails then (f, Inl StorageDependencyError)
               else (Some (export_snapshot s), if io = IoSyncFails then Inl StorageDependencyError else Inr x))"

definition repo_get_run :: "io \<Rightarrow> uuid \<Rightarrow> store \<Rightarrow> exn + run option" where
  "repo_get_run io rid = repo_read io (\<lambda>s. Inr (get_run s rid))"

definition repo_run_count :: "io \<Rightarrow> store \<Rightarrow> exn + nat" where
  "repo_run_count io = repo_read io (\<lambda>s. Inr (run_count s))"

definition repo_get_proposal :: "io \<Rightarrow> uuid \<Rightarrow> store \<Rightarrow> exn + action_proposal option" where
  "repo_get_proposal io pid = repo_read io (\<lambda>s. Inr (get_proposal s pid))"

definition repo_get_approval :: "io \<Rightarrow> uuid \<Rightarrow> store \<Rightarrow> exn + approval option" where
  "repo_get_approval io pid = repo_read io (\<lambda>s. Inr (get_approval s pid))"

definition repo_get_idempotency :: "io \<Rightarrow> string \<Rightarrow> store \<Rightarrow> exn + idempotency_record option" where
  "repo_get_idempotency io k = repo_read io (\<lambda>s. Inr (get_idempotency s k))"

definition repo_get_checkpoint :: "io \<Rightarrow> uuid \<Rightarrow> store \<Rightarrow> exn + checkpoint option" where
  "repo_get_checkpoint io rid = repo_read io (\<lambda>s. Inr (get_checkpoint s rid))"

definition repo_list_audit_events :: "io \<Rightarrow> uuid \<Rightarrow> int \<Rightarrow> store \<Rightarrow> exn + audit_event list" where
  "repo_list_audit_events io rid limit = repo_read io (\<lambda>s. list_audit_events s rid limit)"

definition repo_get_verification_evidence :: "io \<Rightarrow> uuid \<Rightarrow> uuid \<Rightarrow> store \<Rightarrow> exn + verification_evidence option" where
  "repo_get_verification_evidence io rid pid = repo_read io (\<lambda>s. Inr (get_verification_evidence s rid pid))"

definition repo_create_run :: "io \<Rightarrow> run \<Rightarrow> store \<Rightarrow> store \<times> (exn + run)" where
  "repo_create_run io r = repo_mutate io (create_run r)"

definition repo_transition_run ::
  "io \<Rightarrow> uuid \<Rightarrow> workflow_state \<Rightarrow> workflow_state \<Rightarrow> int \<Rightarrow> datetime \<Rightarrow> uuid option \<Rightarrow> uuid option \<Rightarrow> store
   \<Rightarrow> store \<times> (exn + run)" where
  "repo_transition_run io rid st es ev u ap vp = repo_mutate io (transition_run_snapshot rid st es ev u ap vp)"

definition repo_update_run_budget :: "io \<Rightarrow> uuid \<Rightarrow> budget_counters \<Rightarrow> int \<Rightarrow> datetime \<Rightarrow> store \<Rightarrow> store \<times> (exn + run)" where
  "repo_update_run_budget io rid b ev u = repo_mutate io (update_run_budget rid b ev u)"

definition repo_create_proposal :: "io \<Rightarrow> action_proposal \<Rightarrow> store \<Rightarrow> store \<times> (exn + action_proposal)" where
  "repo_create_proposal io p = repo_mutate io (create_proposal p)"

definition repo_transition_proposal ::
  "io \<Rightarrow> uuid \<Rightarrow> proposal_state \<Rightarrow> proposal_state \<Rightarrow> store \<Rightarrow> store \<times> (exn + action_proposal)" where
  "repo_transition_proposal io pid st es = repo_mutate io (transition_proposal pid st es)"

definition repo_create_approval :: "io \<Rightarrow> approval \<Rightarrow> store \<Rightarrow> store \<times> (exn + approval)" where
  "repo_create_approval io a = repo_mutate io (create_approval a)"

definition repo_register_idempotency :: "io \<Rightarrow> idempotency_record \<Rightarrow> store \<Rightarrow> store \<times> (exn + idempotency_record)" where
  "repo_register_idempotency io i = repo_mutate io (register_idempotency i)"

definition repo_complete_idempotency ::
  "io \<Rightarrow> string \<Rightarrow> action_result \<Rightarrow> datetime \<Rightarrow> idempotency_status \<Rightarrow> store \<Rightarrow> store \<times> (exn + idempotency_record)" where
  "repo_complete_idempotency io k res u es = repo_mutate io (complete_idempotency k res u es)"

definition repo_record_execution_acknowledgement ::
  "io \<Rightarrow> string \<Rightarrow> execution_acknowledgement \<Rightarrow> idempotency_status \<Rightarrow> store \<Rightarrow> store \<times> (exn + idempotency_record)" where
  "repo_record_execution_acknowledgement io k a es = repo_mutate io (record_execution_acknowledgement k a es)"

definition repo_save_checkpoint :: "io \<Rightarrow> checkpoint \<Rightarrow> int option \<Rightarrow> store \<Rightarrow> store \<times> (exn + checkpoint)" where
  "repo_save_checkpoint io c ev = repo_mutate io (save_checkpoint c ev)"

definition repo_append_audit_event :: "io \<Rightarrow> audit_event \<Rightarrow> store \<Rightarrow> store \<times> (exn + audit_event)" where
  "repo_append_audit_event io e = repo_mutate io (append_audit_event e)"

definition repo_create_verification_evidence ::
  "io \<Rightarrow> verification_evidence \<Rightarrow> store \<Rightarrow> store \<times> (exn + verification_evidence)" where
  "repo_create_verification_evidence io e = repo_mutate io (create_verification_evidence e)"

section \<open>What the store keeps under faults\<close>

definition store_inv :: "store \<Rightarrow> bool" where
  "store_inv f \<longleftrightarrow> f = None \<or> (\<exists>s. snapshot_inv s \<and> f = Some (export_snapshot s))"

lemma store_inv_load:
  assumes "store_inv f" "repo_load f = Inr s"
  shows "snapshot_inv s"
  using assms snapshot_inv_new snapshot_inv_reload
  by (auto simp: store_inv_def repo_load_def from_export split: if_splits)

lemma load_export: "snapshot_inv s \<Longrightarrow> repo_load (Some (export_snapshot s)) = Inr s' \<Longrightarrow> s' = reload s"
  by (simp add: repo_load_def from_export split: if_splits)

lemma repo_mutate_cases:
  assumes "repo_mutate io operation f = (f', res)"
  shows "(f' = f \<and> (\<exists>e. res = Inl e))
    \<or> (\<exists>s t x. repo_load f = Inr s \<and> operation s = Inr (t, x) \<and> f' = Some (export_snapshot t)
         \<and> (res = Inr x \<or> res = Inl StorageDependencyError))"
  using assms by (auto simp: repo_mutate_def result_simps split: if_splits sum.splits prod.splits)

lemma repo_mutate_Inr:
  assumes "repo_mutate io operation f = (f', Inr x)"
  shows "\<exists>s t. repo_load f = Inr s \<and> operation s = Inr (t, x) \<and> f' = Some (export_snapshot t)"
  using repo_mutate_cases [OF assms] by auto

text \<open>
  One operation of the store on a durable operation, with the fault it meets: the file is either
  as before or holds the image the operation gives, never anything in between.
\<close>

definition repo_step :: "store \<Rightarrow> io \<times> durable_op \<Rightarrow> store" where
  "repo_step f a = fst (repo_mutate (fst a) (\<lambda>s. ebind (durable_step s (snd a)) (\<lambda>t. Inr (t, ()))) f)"

lemma repo_step_cases:
  "repo_step f a = f
   \<or> (\<exists>s t. repo_load f = Inr s \<and> durable_step s (snd a) = Inr t \<and> repo_step f a = Some (export_snapshot t))"
proof -
  obtain f' res where m: "repo_mutate (fst a) (\<lambda>s. ebind (durable_step s (snd a)) (\<lambda>t. Inr (t, ()))) f = (f', res)"
    by fastforce
  from repo_mutate_cases [OF m] m show ?thesis by (auto simp: repo_step_def result_simps)
qed

lemma store_inv_step:
  assumes "store_inv f"
  shows "store_inv (repo_step f a)"
  using repo_step_cases [of f a]
proof (elim disjE exE conjE)
  assume "repo_step f a = f"
  with assms show ?thesis by simp
next
  fix s t assume h: "repo_load f = Inr s" "durable_step s (snd a) = Inr t" "repo_step f a = Some (export_snapshot t)"
  then have "snapshot_inv t" using store_inv_load [OF assms h(1)] durable_step_good by (auto simp: good_step_def)
  with h(3) show ?thesis by (auto simp: store_inv_def)
qed

lemma store_inv_steps: "store_inv f \<Longrightarrow> store_inv (foldl repo_step f ops)"
  by (induction ops arbitrary: f) (simp_all add: store_inv_step)

lemma extends_reload:
  assumes "snapshot_inv s"
  shows "extends s (reload s)"
  using reload_dicts_ok [OF assms] by (auto simp: extends_def dict_extends_def reload_def)

lemma store_extends_step:
  assumes inv: "store_inv f" and s: "repo_load f = Inr s" and t: "repo_load (repo_step f a) = Inr t"
  shows "extends s t"
  using repo_step_cases [of f a]
proof (elim disjE exE conjE)
  assume "repo_step f a = f"
  with s t show ?thesis by simp
next
  fix s0 u assume h: "repo_load f = Inr s0" "durable_step s0 (snd a) = Inr u" "repo_step f a = Some (export_snapshot u)"
  then have g: "good_step s u" using s store_inv_load [OF inv h(1)] durable_step_good by auto
  with t h(3) have "t = reload u" by (auto simp: good_step_def dest: load_export)
  with g show ?thesis by (auto simp: good_step_def intro: extends_trans extends_reload)
qed

lemma store_unreadable_step: "repo_load f = Inl e \<Longrightarrow> repo_step f a = f"
  using repo_step_cases [of f a] by auto

lemma store_extends_steps:
  "store_inv f \<Longrightarrow> repo_load f = Inr s \<Longrightarrow> repo_load (foldl repo_step f ops) = Inr t \<Longrightarrow> extends s t"
proof (induction ops arbitrary: f s)
  case Nil
  then show ?case by simp
next
  case (Cons a ops)
  show ?case
  proof (cases "repo_load (repo_step f a)")
    case (Inr u)
    have "extends u t"
      by (rule Cons.IH [OF store_inv_step [OF Cons.prems(1)] Inr]) (use Cons.prems(3) in simp)
    with Inr Cons.prems show ?thesis using store_extends_step extends_trans by blast
  next
    case (Inl e)
    then have "foldl repo_step (repo_step f a) ops = repo_step f a"
      by (induction ops) (simp_all add: store_unreadable_step)
    with Cons.prems(3) Inl show ?thesis by simp
  qed
qed


text \<open>Property C37. Whatever operations are attempted on a new store, and wherever each one fails
  (while reading, before the file is replaced, or after it was replaced), what a later reader
  rebuilds keeps everything an earlier reader saw.\<close>

theorem store_is_append_only_under_faults:
  assumes "repo_load (foldl repo_step None before) = Inr s"
    and "repo_load (foldl repo_step None (before @ after)) = Inr t"
  shows "snapshot_inv s \<and> snapshot_inv t \<and> extends s t"
proof -
  have i: "store_inv (foldl repo_step None before)" by (rule store_inv_steps) (simp add: store_inv_def)
  have "store_inv (foldl repo_step (foldl repo_step None before) after)" by (rule store_inv_steps [OF i])
  with i assms show ?thesis using store_inv_load store_extends_steps by auto
qed

text \<open>Operations that file a record under a run the image does not hold.\<close>

fun orphan_op :: "domain_snapshot \<Rightarrow> durable_op \<Rightarrow> bool" where
  "orphan_op s (CreateProposal p) = (get_run s (ap_run_id p) = None)"
| "orphan_op s (SaveCheckpoint c _) = (get_run s (cp_run_id c) = None)"
| "orphan_op s (AppendAuditEvent e) = (get_run s (ae_run_id e) = None)"
| "orphan_op s _ = False"

lemma dict_put_value: "v \<in> snd ` set (AList.update k v d)"
  using map_of_SomeD [of "AList.update k v d" k v] by force

lemma references_okD:
  assumes "references_ok t"
  shows "p \<in> snd ` set (ds_proposals t) \<Longrightarrow> get_run t (ap_run_id p) \<noteq> None"
    and "c \<in> snd ` set (ds_checkpoints t) \<Longrightarrow> get_run t (cp_run_id c) \<noteq> None"
    and "e \<in> snd ` set (ds_audit_events t) \<Longrightarrow> get_run t (ae_run_id e) \<noteq> None"
  using assms unfolding references_ok_def set_map by blast+

lemma orphan_breaks_references:
  assumes "orphan_op s a" "durable_step s a = Inr t"
  shows "\<not> references_ok t"
proof (cases a)
  case (CreateProposal p)
  with assms have "t = s\<lparr>ds_proposals := dict_set (ap_proposal_id p) p (ds_proposals s)\<rparr>" "get_run s (ap_run_id p) = None"
    by (auto simp: durable_step_def image_def result_simps create_proposal_def)
  then show ?thesis using references_okD(1) [of t p] by (auto simp: get_run_def dict_put_value)
next
  case (SaveCheckpoint c ev)
  with assms have "t = s\<lparr>ds_checkpoints := dict_set (cp_run_id c) c (ds_checkpoints s)\<rparr>" "get_run s (cp_run_id c) = None"
    by (auto simp: durable_step_def image_def result_simps save_checkpoint_shape)
  then show ?thesis using references_okD(2) [of t c] by (auto simp: get_run_def dict_put_value)
next
  case (AppendAuditEvent e)
  with assms have "t = s\<lparr>ds_audit_events := dict_set (ae_run_id e, ae_event_id e) e (ds_audit_events s)\<rparr>"
      "get_run s (ae_run_id e) = None"
    by (auto simp: durable_step_def image_def Let_def result_simps append_audit_event_def)
  then show ?thesis using references_okD(3) [of t e] by (auto simp: get_run_def dict_put_value)
qed (use assms in auto)


section \<open>The repository protocol\<close>

text \<open>
  What the workflow relies on in \<^verbatim>\<open>DurableTruthRepository\<close>: conditional writes of
  checkpoints and run states, each guarded by the version the caller read, and frames between
  them. From these laws a stale writer is always rejected.
\<close>

locale durable_truth =
  fixes run_of :: "'st \<Rightarrow> uuid \<Rightarrow> run option"
    and checkpoint_of :: "'st \<Rightarrow> uuid \<Rightarrow> checkpoint option"
    and save :: "checkpoint \<Rightarrow> int option \<Rightarrow> 'st \<Rightarrow> exn + 'st \<times> checkpoint"
    and move :: "uuid \<Rightarrow> workflow_state \<Rightarrow> workflow_state \<Rightarrow> int \<Rightarrow> datetime \<Rightarrow> uuid option \<Rightarrow> uuid option
                 \<Rightarrow> 'st \<Rightarrow> exn + 'st \<times> run"
    and log_event :: "audit_event \<Rightarrow> 'st \<Rightarrow> exn + 'st \<times> audit_event"
  assumes save_sets: "save c ev s = Inr (t, c') \<Longrightarrow>
            c' = c \<and> run_of t = run_of s \<and> checkpoint_of t = (checkpoint_of s)(cp_run_id c \<mapsto> c)"
    and save_guard: "save c ev s = Inr (t, c') \<Longrightarrow> ev = map_option cp_version (checkpoint_of s (cp_run_id c))
            \<and> cp_version c = (case ev of None \<Rightarrow> 1 | Some v \<Rightarrow> v + 1)"
    and move_sets: "move rid st es n u ap vp s = Inr (t, r') \<Longrightarrow>
            \<exists>r. run_of s rid = Some r \<and> run_state r = es \<and> run_version r = n \<and> transition_run r st u = Inr r'
                \<and> run_of t = (run_of s)(rid \<mapsto> r') \<and> checkpoint_of t = checkpoint_of s"
    and log_frame: "log_event e s = Inr (t, e') \<Longrightarrow> run_of t = run_of s \<and> checkpoint_of t = checkpoint_of s"
begin

lemma stale_save_rejected:
  assumes "save c (Some v) s = Inr (t, c')" "cp_run_id d = cp_run_id c"
  shows "\<exists>e. save d (Some v) t = Inl e"
proof (cases "save d (Some v) t")
  case (Inr x)
  then obtain t' d' where x: "save d (Some v) t = Inr (t', d')" by (metis prod.exhaust)
  have "checkpoint_of t (cp_run_id d) = Some c" using save_sets [OF assms(1)] assms(2) by simp
  with save_guard [OF x] have "v = cp_version c" by simp
  with save_guard [OF assms(1)] show ?thesis by simp
qed auto

lemma stale_move_rejected:
  assumes "move rid st es v u ap vp s = Inr (t, r')"
  shows "\<exists>e. move rid st' es' v u' ap' vp' t = Inl e"
proof (cases "move rid st' es' v u' ap' vp' t")
  case (Inr x)
  then obtain t' r'' where x: "move rid st' es' v u' ap' vp' t = Inr (t', r'')" by (metis prod.exhaust)
  from move_sets [OF assms] obtain r where r: "run_version r = v" "transition_run r st u = Inr r'" "run_of t rid = Some r'"
    by auto
  moreover from r(2) have "run_version r' = run_version r + 1" by (auto simp: transition_run_eq)
  moreover from move_sets [OF x] r(3) have "run_version r' = v" by auto
  ultimately show ?thesis by simp
qed auto

lemma save_then_read: "save c ev s = Inr (t, c') \<Longrightarrow> log_event e t = Inr (u, e') \<Longrightarrow> checkpoint_of u (cp_run_id c) = Some c"
  using save_sets log_frame by simp

end

lemma save_checkpoint_image:
  assumes "save_checkpoint c ev s = Inr (t, c')"
  shows "c' = c \<and> get_run t = get_run s \<and> get_checkpoint t = (get_checkpoint s)(cp_run_id c \<mapsto> c)"
  using assms by (auto simp: save_checkpoint_shape getters fun_eq_iff)

lemma transition_run_image:
  assumes "transition_run_snapshot rid st es ev u ap vp s = Inr (t, r')"
  shows "\<exists>r. get_run s rid = Some r \<and> run_state r = es \<and> run_version r = ev \<and> transition_run r st u = Inr r'
             \<and> get_run t = (get_run s)(rid \<mapsto> r') \<and> get_checkpoint t = get_checkpoint s"
  using transition_run_snapshot_shape [OF assms] by (auto simp: getters fun_eq_iff)

lemma append_audit_event_image:
  assumes "append_audit_event e s = Inr (t, e')"
  shows "get_run t = get_run s \<and> get_checkpoint t = get_checkpoint s"
  using assms by (auto simp: append_audit_event_def Let_def result_simps getters fun_eq_iff)

interpretation truth: durable_truth get_run get_checkpoint save_checkpoint transition_run_snapshot append_audit_event
proof unfold_locales
  fix c ev s t c' assume a: "save_checkpoint c ev s = Inr (t, c')"
  show "c' = c \<and> get_run t = get_run s \<and> get_checkpoint t = (get_checkpoint s)(cp_run_id c \<mapsto> c)"
    by (rule save_checkpoint_image [OF a])
  show "ev = map_option cp_version (get_checkpoint s (cp_run_id c))
        \<and> cp_version c = (case ev of None \<Rightarrow> 1 | Some v \<Rightarrow> v + 1)"
    using a by (auto simp: save_checkpoint_shape split: option.splits)
qed (blast dest: transition_run_image append_audit_event_image)+

text \<open>Optimistic concurrency: of two writers that read the same version, the second
  is rejected, for checkpoints and for run states alike, so no decision, intent, receipt or state
  change is silently overwritten.\<close>

theorem stale_writers_are_rejected:
  assumes "save_checkpoint c (Some v) s = Inr (t, c')" "cp_run_id d = cp_run_id c"
    and "transition_run_snapshot rid st es w u ap vp s = Inr (t2, r)"
  shows "(\<exists>e. save_checkpoint d (Some v) t = Inl e)
    \<and> (\<exists>e. transition_run_snapshot rid st' es' w u' ap' vp' t2 = Inl e)"
  using truth.stale_save_rejected [OF assms(1,2)] truth.stale_move_rejected [OF assms(3)] by blast

end
