(* ===== verification/NZ_Portable.thy ===== *)
theory NZ_Portable
  imports NZ_Repository
begin

text \<open>
  The isolated mutation boundary: the integrity-bound inventory of \<^verbatim>\<open>adapters/portable.py\<close>
  with its fixtures (\<^verbatim>\<open>adapters/resources.py\<close>), the protected-executor contract of
  \<^verbatim>\<open>adapters/base.py\<close> and the linkage check of \<^verbatim>\<open>verification.py\<close>. The inventory
  is an image of resources and receipts, rebuilt from and written to one file in the same way as
  the durable store. The function \<open>lax_int\<close> stands for the library's lenient reading of an
  integer field from a JSON value, which the rule parser uses.
\<close>

section \<open>Fixtures\<close>

definition MOCK_UNATTACHED_EIP_ID :: string where "MOCK_UNATTACHED_EIP_ID = ''eipalloc-0123456789abcdef0''"
definition MOCK_UNSAFE_SECURITY_GROUP_ID :: string where "MOCK_UNSAFE_SECURITY_GROUP_ID = ''sg-0123456789abcdef0''"
definition MOCK_UNTAGGED_INSTANCE_ID :: string where "MOCK_UNTAGGED_INSTANCE_ID = ''i-0fedcba9876543210''"
definition MOCK_CLEAN_INSTANCE_ID :: string where "MOCK_CLEAN_INSTANCE_ID = ''i-0123456789abcdef0''"
definition MOCK_REGION :: string where "MOCK_REGION = ''eu-central-1''"

definition default_mock_resources :: "cloud_resource list" where
  "default_mock_resources =
     [ElasticIpResource
        \<lparr>eip_id = MOCK_UNATTACHED_EIP_ID, eip_region = MOCK_REGION, eip_public_ip = ''198.51.100.42'',
         eip_association_id = None, eip_tags = [(''Environment'', ''hackathon''), (''Owner'', ''platform'')]\<rparr>,
      SecurityGroupResource
        \<lparr>sg_id = MOCK_UNSAFE_SECURITY_GROUP_ID, sg_region = MOCK_REGION, sg_vpc_id = ''vpc-0123456789abcdef0'',
         sg_inbound_rules =
           [\<lparr>ip_protocol = ''tcp'', cidr_ipv4 = ''0.0.0.0/0'', from_port = Some 22, to_port = Some 22\<rparr>],
         sg_outbound_rules =
           [\<lparr>ip_protocol = ''-1'', cidr_ipv4 = ''0.0.0.0/0'', from_port = None, to_port = None\<rparr>],
         sg_tags = [(''Environment'', ''hackathon''), (''Owner'', ''platform'')]\<rparr>,
      Ec2Resource
        \<lparr>ec2_id = MOCK_UNTAGGED_INSTANCE_ID, ec2_region = MOCK_REGION, ec2_state = INST_running,
         ec2_instance_type = ''t3.micro'', ec2_tags = []\<rparr>,
      Ec2Resource
        \<lparr>ec2_id = MOCK_CLEAN_INSTANCE_ID, ec2_region = MOCK_REGION, ec2_state = INST_running,
         ec2_instance_type = ''t3.micro'',
         ec2_tags = [(''AIOACloudOpsSandbox'', ''true''), (''Environment'', ''hackathon''), (''Owner'', ''platform'')]\<rparr>]"

section \<open>The inventory image\<close>

type_synonym resource_key = "cloud_resource_type \<times> string \<times> string"

definition key_of :: "cloud_resource \<Rightarrow> resource_key" where
  "key_of r = (resource_type r, resource_id r, resource_region r)"

record inventory =
  pi_resources :: "(resource_key, cloud_resource) dict"
  pi_receipts :: "(string, local_receipt) dict"

definition initial_snapshot :: "cloud_resource list \<Rightarrow> inventory" where
  "initial_snapshot initial = \<lparr>pi_resources = dict_of key_of initial, pi_receipts = []\<rparr>"

text \<open>\<^verbatim>\<open>PortableStateStore.__init__\<close>: the initial resources must have unique identities.\<close>

definition PortableStateStore_init :: "cloud_resource list \<Rightarrow> exn + cloud_resource list" where
  "PortableStateStore_init initial =
     (let selected = (if initial = [] then default_mock_resources else initial)
      in ebind (ensure (card (set (map key_of selected)) = length selected) ValueError) (\<lambda>_. Inr selected))"

definition get_resource :: "resource_query \<Rightarrow> inventory \<Rightarrow> exn + cloud_resource" where
  "get_resource q img =
     (case dict_get (pi_resources img) (rq_resource_type q, rq_resource_id q, rq_region q) of
        None \<Rightarrow> Inl CloudResourceNotFoundError
      | Some r \<Rightarrow> Inr r)"

definition get_receipt :: "string \<Rightarrow> inventory \<Rightarrow> local_receipt option" where
  "get_receipt k img = dict_get (pi_receipts img) k"

section \<open>Execution\<close>

definition text_field :: "(string \<times> json) list \<Rightarrow> string \<Rightarrow> string option" where
  "text_field kvs k = (case map_of kvs k of Some (JStr s) \<Rightarrow> Some s | _ \<Rightarrow> None)"

definition port_field :: "(json \<Rightarrow> int option) \<Rightarrow> (string \<times> json) list \<Rightarrow> string \<Rightarrow> exn + int option" where
  "port_field lax_int kvs k =
     (case map_of kvs k of
        None \<Rightarrow> Inr None
      | Some JNull \<Rightarrow> Inr None
      | Some v \<Rightarrow> (case lax_int v of None \<Rightarrow> Inl ValueError | Some n \<Rightarrow> Inr (Some n)))"

definition rule_of_json :: "(json \<Rightarrow> int option) \<Rightarrow> json \<Rightarrow> exn + security_group_rule" where
  "rule_of_json lax_int v =
     (case v of
        JObj kvs \<Rightarrow>
          ebind (ensure (set (map fst kvs) \<subseteq> {''ip_protocol'', ''cidr_ipv4'', ''from_port'', ''to_port''}) ValueError) (\<lambda>_.
          (case (text_field kvs ''ip_protocol'', text_field kvs ''cidr_ipv4'') of
             (Some proto, Some cidr) \<Rightarrow>
               ebind (port_field lax_int kvs ''from_port'') (\<lambda>fp.
               ebind (port_field lax_int kvs ''to_port'') (\<lambda>tp.
               validate_rule \<lparr>ip_protocol = proto, cidr_ipv4 = cidr, from_port = fp, to_port = tp\<rparr>))
           | _ \<Rightarrow> Inl ValueError))
      | _ \<Rightarrow> Inl ValueError)"

definition validate_execution_binding ::
  "remediation_proposal \<Rightarrow> resource_evidence \<Rightarrow> local_approval \<Rightarrow> local_intent \<Rightarrow> exn + unit" where
  "validate_execution_binding p e a i =
     ensure (rp_authority_class p = AG_PLAN_AND_CONFIRM \<and> la_decision a = AD_APPROVED
             \<and> rp_run_id p = ev_run_id e \<and> rp_correlation_id p = ev_correlation_id e
             \<and> rp_evidence_hash p = ev_evidence_hash e \<and> rp_evidence_fingerprint p = stable_fingerprint e
             \<and> la_proposal_id a = rp_proposal_id p \<and> la_run_id a = rp_run_id p
             \<and> la_proposal_hash a = rp_proposal_hash p \<and> la_evidence_hash a = rp_evidence_hash p
             \<and> la_proposal_version a = rp_version p
             \<and> li_run_id i = rp_run_id p \<and> li_proposal_id i = rp_proposal_id p
             \<and> li_proposal_hash i = rp_proposal_hash p \<and> li_evidence_hash i = rp_evidence_hash p
             \<and> li_decision_hash i = la_decision_hash a \<and> li_operation_type i = rp_operation_type p
             \<and> li_target_resource_type i = rp_target_resource_type p
             \<and> li_target_resource_id i = rp_target_resource_id p
             \<and> li_idempotency_key i = local_exec_key p) PortablePolicyError"

definition release_effect :: "remediation_proposal \<Rightarrow> cloud_resource \<Rightarrow> exn + cloud_resource option" where
  "release_effect p current =
     (case current of
        ElasticIpResource b \<Rightarrow>
          ebind (ensure (eip_association_id b = None
                         \<and> rp_normalized_parameters p = [(''allocation_id'', JStr (rp_target_resource_id p))])
                   PortablePolicyError) (\<lambda>_. Inr None)
      | _ \<Rightarrow> Inl PortablePolicyError)"

definition revoke_effect ::
  "(json \<Rightarrow> int option) \<Rightarrow> remediation_proposal \<Rightarrow> cloud_resource \<Rightarrow> exn + cloud_resource option" where
  "revoke_effect lax_int p current =
     (case current of
        SecurityGroupResource g \<Rightarrow>
          (let params = rp_normalized_parameters p
           in case map_of params ''ingress_rules'' of
                Some (JArr raw_rules) \<Rightarrow>
                  ebind (ensure (set (map fst params) = {''ingress_rules'', ''security_group_id''}
                                 \<and> map_of params ''security_group_id'' = Some (JStr (rp_target_resource_id p))
                                 \<and> raw_rules \<noteq> []) PortablePolicyError) (\<lambda>_.
                  (case traverse (rule_of_json lax_int) raw_rules of
                     Inl _ \<Rightarrow> Inl PortablePolicyError
                   | Inr approved_rules \<Rightarrow>
                       ebind (ensure (list_all (\<lambda>r. r \<in> set (sg_inbound_rules g)) approved_rules)
                                PortableConflictError) (\<lambda>_.
                       let remaining = filter (\<lambda>r. r \<notin> set approved_rules) (sg_inbound_rules g)
                       in ebind (ensure (int (length remaining) =
                                         int (length (sg_inbound_rules g)) - int (card (set approved_rules)))
                                   PortablePolicyError) (\<lambda>_.
                          Inr (Some (SecurityGroupResource (g\<lparr>sg_inbound_rules := remaining\<rparr>)))))))
              | _ \<Rightarrow> Inl PortablePolicyError)
      | _ \<Rightarrow> Inl PortablePolicyError)"

definition build_receipt ::
  "remediation_proposal \<Rightarrow> local_approval \<Rightarrow> local_intent \<Rightarrow> cloud_resource \<Rightarrow> cloud_resource option \<Rightarrow> datetime
   \<Rightarrow> exn + local_receipt" where
  "build_receipt p a i current after executed_at =
     (let provisional =
            \<lparr>lr_run_id = rp_run_id p, lr_proposal_id = rp_proposal_id p, lr_proposal_hash = rp_proposal_hash p,
             lr_evidence_hash = rp_evidence_hash p, lr_decision_hash = la_decision_hash a,
             lr_intent_hash = li_intent_hash i, lr_idempotency_key = li_idempotency_key i,
             lr_operation_type = rp_operation_type p, lr_target_resource_type = rp_target_resource_type p,
             lr_target_resource_id = rp_target_resource_id p, lr_before_resource = current,
             lr_after_resource = after, lr_executed_at = executed_at, lr_receipt_hash = ZERO_HASH\<rparr>
      in validated valid_receipt (provisional\<lparr>lr_receipt_hash := digest (receipt_payload provisional)\<rparr>))"

definition target_key :: "remediation_proposal \<Rightarrow> resource_evidence \<Rightarrow> resource_key" where
  "target_key p e = (rp_target_resource_type p, rp_target_resource_id p, resource_region (ev_resource e))"

text \<open>The body of \<^verbatim>\<open>PortableStateStore.execute\<close> under its lock, on the loaded image.\<close>

definition execute_image ::
  "(json \<Rightarrow> int option) \<Rightarrow> remediation_proposal \<Rightarrow> resource_evidence \<Rightarrow> local_approval \<Rightarrow> local_intent \<Rightarrow> datetime
   \<Rightarrow> inventory \<Rightarrow> exn + inventory \<times> local_receipt \<times> bool" where
  "execute_image lax_int p e a i executed_at img =
     (case get_receipt (li_idempotency_key i) img of
        Some existing \<Rightarrow>
          if lr_intent_hash existing \<noteq> li_intent_hash i \<or> lr_proposal_hash existing \<noteq> rp_proposal_hash p
             \<or> lr_decision_hash existing \<noteq> la_decision_hash a
          then Inl PortableConflictError else Inr (img, existing, False)
      | None \<Rightarrow>
          (let key = target_key p e
           in case dict_get (pi_resources img) key of
                None \<Rightarrow> Inl PortableConflictError
              | Some current \<Rightarrow>
                  ebind (ensure (current = ev_resource e) PortableConflictError) (\<lambda>_.
                  ebind (case rp_operation_type p of
                           RO_RELEASE_ELASTIC_IP \<Rightarrow> release_effect p current
                         | RO_REVOKE_PUBLIC_INGRESS \<Rightarrow> revoke_effect lax_int p current
                         | RO_APPLY_REQUIRED_TAGS \<Rightarrow> Inl PortablePolicyError) (\<lambda>after.
                  ebind (build_receipt p a i current after executed_at) (\<lambda>receipt.
                  Inr (img\<lparr>pi_resources := (case after of None \<Rightarrow> dict_del key (pi_resources img)
                                             | Some x \<Rightarrow> dict_set key x (pi_resources img)),
                           pi_receipts := dict_set (li_idempotency_key i) receipt (pi_receipts img)\<rparr>,
                       receipt, True))))))"

definition portable_execute ::
  "(json \<Rightarrow> int option) \<Rightarrow> remediation_proposal \<Rightarrow> resource_evidence \<Rightarrow> local_approval \<Rightarrow> local_intent \<Rightarrow> datetime
   \<Rightarrow> inventory \<Rightarrow> exn + inventory \<times> local_receipt \<times> bool" where
  "portable_execute lax_int p e a i executed_at img =
     ebind (validate_execution_binding p e a i) (\<lambda>_. execute_image lax_int p e a i executed_at img)"

section \<open>Verification\<close>

definition verify :: "local_receipt \<Rightarrow> datetime \<Rightarrow> inventory \<Rightarrow> exn + local_verification" where
  "verify r verified_at img =
     ebind (ensure (get_receipt (lr_idempotency_key r) img = Some r) PortableConflictError) (\<lambda>_.
     let observed = dict_get (pi_resources img)
           (lr_target_resource_type r, lr_target_resource_id r, resource_region (lr_before_resource r))
     in ebind (case lr_operation_type r of
                 RO_RELEASE_ELASTIC_IP \<Rightarrow> ebind (ensure (observed = None) PortableConflictError) (\<lambda>_. Inr True)
               | RO_REVOKE_PUBLIC_INGRESS \<Rightarrow>
                   ebind (ensure (observed = lr_after_resource r) PortableConflictError) (\<lambda>_. Inr False)
               | RO_APPLY_REQUIRED_TAGS \<Rightarrow> Inl PortablePolicyError) (\<lambda>observed_absent.
        let provisional =
              \<lparr>lv_run_id = lr_run_id r, lv_proposal_id = lr_proposal_id r, lv_receipt_hash = lr_receipt_hash r,
               lv_operation_type = lr_operation_type r, lv_target_resource_type = lr_target_resource_type r,
               lv_target_resource_id = lr_target_resource_id r, lv_observed_absent = observed_absent,
               lv_observed_resource = observed, lv_verified_at = verified_at, lv_verification_hash = ZERO_HASH\<rparr>
        in validated valid_local_verification
             (provisional\<lparr>lv_verification_hash := digest (verification_payload provisional)\<rparr>)))"

definition assert_linked_verification :: "local_receipt \<Rightarrow> local_verification \<Rightarrow> exn + unit" where
  "assert_linked_verification r v =
     ensure (lv_run_id v = lr_run_id r \<and> lv_proposal_id v = lr_proposal_id r \<and> lv_receipt_hash v = lr_receipt_hash r
             \<and> lv_target_resource_id v = lr_target_resource_id r
             \<and> lv_target_resource_type v = lr_target_resource_type r
             \<and> lv_operation_type v = lr_operation_type r) ValueError"

section \<open>The inventory file\<close>

record portable_payload =
  pp_format_version :: int
  pp_receipts :: "local_receipt list"
  pp_resources :: "cloud_resource list"

type_synonym portable_file = "portable_payload option"

definition portable_load :: "cloud_resource list \<Rightarrow> portable_file \<Rightarrow> exn + inventory" where
  "portable_load initial f =
     (case f of
        None \<Rightarrow> Inr (initial_snapshot initial)
      | Some payload \<Rightarrow>
          ebind (ensure (pp_format_version payload = 1) CloudAdapterUnavailableError) (\<lambda>_.
          ebind (ensure (list_all valid_resource (pp_resources payload) \<and> list_all valid_receipt (pp_receipts payload))
                   CloudAdapterUnavailableError) (\<lambda>_.
          let img = \<lparr>pi_resources = dict_of key_of (pp_resources payload),
                     pi_receipts = dict_of lr_idempotency_key (pp_receipts payload)\<rparr>
          in ebind (ensure (length (pi_resources img) = length (pp_resources payload)
                            \<and> length (pi_receipts img) = length (pp_receipts payload))
                      CloudAdapterUnavailableError) (\<lambda>_. Inr img))))"

definition resource_order :: "resource_key \<Rightarrow> string \<times> string \<times> string" where
  "resource_order k = (cloud_resource_type_value (fst k), fst (snd k), snd (snd k))"

definition portable_write :: "inventory \<Rightarrow> portable_file" where
  "portable_write img = Some
     \<lparr>pp_format_version = 1,
      pp_receipts = sorted_values (\<lambda>k. k) (pi_receipts img),
      pp_resources = sorted_values resource_order (pi_resources img)\<rparr>"

definition portable_read :: "io \<Rightarrow> cloud_resource list \<Rightarrow> (inventory \<Rightarrow> exn + 'a) \<Rightarrow> portable_file \<Rightarrow> exn + 'a" where
  "portable_read io initial operation f =
     (if io = IoLoadFails then Inl CloudAdapterUnavailableError else ebind (portable_load initial f) operation)"

record portable_executor =
  px_file :: portable_file
  px_execute_calls :: int
  px_mutation_calls :: int
  px_reconciled_calls :: int

text \<open>
  \<^verbatim>\<open>PortableExecutor.execute\<close> over the file. A replay returns before anything is written;
  an applied effect is counted only when the call returns.
\<close>

definition PortableExecutor_execute ::
  "io \<Rightarrow> (json \<Rightarrow> int option) \<Rightarrow> cloud_resource list \<Rightarrow> remediation_proposal \<Rightarrow> resource_evidence \<Rightarrow> local_approval
   \<Rightarrow> local_intent \<Rightarrow> datetime \<Rightarrow> portable_executor \<Rightarrow> portable_executor \<times> (exn + local_receipt)" where
  "PortableExecutor_execute io lax_int initial p e a i now x =
     (let x1 = x\<lparr>px_execute_calls := px_execute_calls x + 1\<rparr>
      in case validate_execution_binding p e a i of
           Inl err \<Rightarrow> (x1, Inl err)
         | Inr _ \<Rightarrow>
             (case portable_read io initial (execute_image lax_int p e a i now) (px_file x) of
                Inl err \<Rightarrow> (x1, Inl err)
              | Inr (img, receipt, applied) \<Rightarrow>
                  if \<not> applied then (x1\<lparr>px_reconciled_calls := px_reconciled_calls x + 1\<rparr>, Inr receipt)
                  else if io = IoWriteFails then (x1, Inl CloudAdapterUnavailableError)
                  else if io = IoSyncFails then (x1\<lparr>px_file := portable_write img\<rparr>, Inl CloudAdapterUnavailableError)
                  else (x1\<lparr>px_file := portable_write img, px_mutation_calls := px_mutation_calls x + 1\<rparr>,
                        Inr receipt)))"

definition PortableExecutor_get_receipt ::
  "io \<Rightarrow> cloud_resource list \<Rightarrow> string \<Rightarrow> portable_executor \<Rightarrow> exn + local_receipt option" where
  "PortableExecutor_get_receipt io initial k x = portable_read io initial (\<lambda>img. Inr (get_receipt k img)) (px_file x)"

definition PortableExecutor_verify ::
  "io \<Rightarrow> cloud_resource list \<Rightarrow> local_receipt \<Rightarrow> datetime \<Rightarrow> portable_executor \<Rightarrow> exn + local_verification" where
  "PortableExecutor_verify io initial r now x = portable_read io initial (verify r now) (px_file x)"

definition PortableResourceReader_get_resource ::
  "io \<Rightarrow> cloud_resource list \<Rightarrow> resource_query \<Rightarrow> portable_file \<Rightarrow> exn + cloud_resource" where
  "PortableResourceReader_get_resource io initial q f = portable_read io initial (get_resource q) f"

end
