(* ===== verification/NZ_Executor.thy ===== *)
theory NZ_Executor
  imports NZ_Portable
begin

text \<open>
  Correctness of the mutation boundary: an execution is bound to one approved decision, is
  applied once per idempotency key, changes only its target and only by removing it or some of
  its ingress rules, survives the round trip through the file, and is what an independent
  read-back then verifies.
\<close>

section \<open>The inventory invariant\<close>

definition inventory_inv :: "inventory \<Rightarrow> bool" where
  "inventory_inv img \<longleftrightarrow>
     keyed key_of valid_resource (pi_resources img) \<and> keyed lr_idempotency_key valid_receipt (pi_receipts img)"

definition effect_of ::
  "(json \<Rightarrow> int option) \<Rightarrow> remediation_proposal \<Rightarrow> cloud_resource \<Rightarrow> exn + cloud_resource option" where
  "effect_of lax_int p current =
     (case rp_operation_type p of
        RO_RELEASE_ELASTIC_IP \<Rightarrow> release_effect p current
      | RO_REVOKE_PUBLIC_INGRESS \<Rightarrow> revoke_effect lax_int p current
      | RO_APPLY_REQUIRED_TAGS \<Rightarrow> Inl PortablePolicyError)"

definition put_effect :: "resource_key \<Rightarrow> cloud_resource option \<Rightarrow> (resource_key, cloud_resource) dict \<Rightarrow> (resource_key, cloud_resource) dict" where
  "put_effect key after d = (case after of None \<Rightarrow> dict_del key d | Some x \<Rightarrow> dict_set key x d)"

lemma get_put_effect [simp]: "dict_get (put_effect key after d) k = (if k = key then after else dict_get d k)"
  by (simp add: put_effect_def split: option.splits)

lemma dict_ok_delete [simp]: "dict_ok d \<Longrightarrow> dict_ok (AList.delete k d)"
  by (rule pydict.ok_del)

lemma keyed_put_effect:
  "keyed key valid d \<Longrightarrow> (\<And>x. after = Some x \<Longrightarrow> valid x \<and> key x = k) \<Longrightarrow>
   keyed key valid (case after of None \<Rightarrow> dict_del k d | Some x \<Rightarrow> dict_set k x d)"
  by (auto simp: keyed_def intro: pydict.every_del pydict.every_put split: option.splits)

lemma execute_image_replay:
  assumes "get_receipt (li_idempotency_key i) img = Some x"
  shows "execute_image lax p e a i now img = Inr (img', r, applied) \<longleftrightarrow>
           img' = img \<and> r = x \<and> \<not> applied \<and> lr_intent_hash x = li_intent_hash i
           \<and> lr_proposal_hash x = rp_proposal_hash p \<and> lr_decision_hash x = la_decision_hash a"
  using assms by (auto simp: execute_image_def)

lemma execute_image_fresh:
  assumes "get_receipt (li_idempotency_key i) img = None"
  shows "execute_image lax p e a i now img = Inr (img', r, applied) \<longleftrightarrow>
           applied \<and> dict_get (pi_resources img) (target_key p e) = Some (ev_resource e)
           \<and> (\<exists>after. effect_of lax p (ev_resource e) = Inr after
                 \<and> build_receipt p a i (ev_resource e) after now = Inr r
                 \<and> img' = img\<lparr>pi_resources := put_effect (target_key p e) after (pi_resources img),
                              pi_receipts := dict_set (li_idempotency_key i) r (pi_receipts img)\<rparr>)"
  using assms
  by (auto simp: execute_image_def Let_def result_simps effect_of_def put_effect_def split: option.splits)

lemma build_receipt_fields:
  assumes "build_receipt p a i current after now = Inr r"
  shows "valid_receipt r" "lr_before_resource r = current" "lr_after_resource r = after"
    "lr_idempotency_key r = li_idempotency_key i" "lr_intent_hash r = li_intent_hash i"
    "lr_proposal_hash r = rp_proposal_hash p" "lr_decision_hash r = la_decision_hash a"
    "lr_run_id r = rp_run_id p" "lr_proposal_id r = rp_proposal_id p" "lr_operation_type r = rp_operation_type p"
    "lr_target_resource_type r = rp_target_resource_type p" "lr_target_resource_id r = rp_target_resource_id p"
    "lr_executed_at r = now" "lr_evidence_hash r = rp_evidence_hash p"
  using assms by (auto simp: build_receipt_def Let_def result_simps)

text \<open>What an execution may leave of a resource.\<close>

definition reduced :: "cloud_resource \<Rightarrow> cloud_resource \<Rightarrow> bool" where
  "reduced before after \<longleftrightarrow>
     after = before
     \<or> (\<exists>g rules. before = SecurityGroupResource g \<and> after = SecurityGroupResource (g\<lparr>sg_inbound_rules := rules\<rparr>)
          \<and> subseq rules (sg_inbound_rules g))"

lemma reduced_refl [simp]: "reduced r r"
  by (simp add: reduced_def)

lemma reduced_trans: "reduced a b \<Longrightarrow> reduced b c \<Longrightarrow> reduced a c"
proof -
  assume ab: "reduced a b" and bc: "reduced b c"
  show "reduced a c"
  proof (cases "a = b \<or> b = c")
    case False
    with ab obtain g rules where a: "a = SecurityGroupResource g" "subseq rules (sg_inbound_rules g)"
      and b: "b = SecurityGroupResource (g\<lparr>sg_inbound_rules := rules\<rparr>)" by (auto simp: reduced_def)
    from False bc obtain g' rules' where b': "b = SecurityGroupResource g'" "subseq rules' (sg_inbound_rules g')"
      and c: "c = SecurityGroupResource (g'\<lparr>sg_inbound_rules := rules'\<rparr>)" by (auto simp: reduced_def)
    from b b'(1) have "g' = g\<lparr>sg_inbound_rules := rules\<rparr>" by simp
    with b'(2) c have "subseq rules' rules" "c = SecurityGroupResource (g\<lparr>sg_inbound_rules := rules'\<rparr>)" by simp_all
    with a show ?thesis unfolding reduced_def by (blast intro: subseq_order.trans)
  qed (use ab bc in auto)
qed

lemma release_effect_shape:
  "release_effect p c = Inr after \<Longrightarrow>
     after = None \<and> (\<exists>b. c = ElasticIpResource b \<and> eip_association_id b = None)"
  by (auto simp: release_effect_def result_simps split: cloud_resource.splits)

lemma revoke_effect_shape:
  assumes "revoke_effect lax p c = Inr after"
  shows "\<exists>g rules. c = SecurityGroupResource g \<and> rules \<noteq> [] \<and> set rules \<subseteq> set (sg_inbound_rules g)
           \<and> after = Some (SecurityGroupResource (g\<lparr>sg_inbound_rules := filter (\<lambda>r. r \<notin> set rules) (sg_inbound_rules g)\<rparr>))"
proof -
  obtain g where g: "c = SecurityGroupResource g" using assms by (cases c) (auto simp: revoke_effect_def)
  with assms obtain raw rules where raw: "raw \<noteq> []" "traverse (rule_of_json lax) raw = Inr rules"
    and rest: "set rules \<subseteq> set (sg_inbound_rules g)"
      "after = Some (SecurityGroupResource (g\<lparr>sg_inbound_rules := filter (\<lambda>r. r \<notin> set rules) (sg_inbound_rules g)\<rparr>))"
    by (auto simp: revoke_effect_def Let_def result_simps list_all_iff split: option.splits json.splits sum.splits)
  have "rules \<noteq> []" using traverse_Inr_eq [OF raw(2)] raw(1) by auto
  with g rest show ?thesis by blast
qed

lemma effect_of_reduces:
  assumes "effect_of lax p c = Inr after"
  shows "after = None \<or> (\<exists>x. after = Some x \<and> reduced c x \<and> key_of x = key_of c)"
proof (cases "rp_operation_type p")
  case RO_RELEASE_ELASTIC_IP
  with assms show ?thesis by (auto simp: effect_of_def dest: release_effect_shape)
next
  case RO_REVOKE_PUBLIC_INGRESS
  with assms obtain g rules where "c = SecurityGroupResource g"
      "after = Some (SecurityGroupResource (g\<lparr>sg_inbound_rules := filter (\<lambda>r. r \<notin> set rules) (sg_inbound_rules g)\<rparr>))"
    by (auto simp: effect_of_def dest: revoke_effect_shape)
  then show ?thesis by (auto simp: reduced_def key_of_def intro: subseq_filter_left)
next
  case RO_APPLY_REQUIRED_TAGS
  with assms show ?thesis by (simp add: effect_of_def)
qed

lemma execute_image_inv:
  assumes inv: "inventory_inv img" and op: "execute_image lax p e a i now img = Inr (img', r, applied)"
  shows "inventory_inv img'"
proof (cases "get_receipt (li_idempotency_key i) img")
  case (Some x)
  with op inv show ?thesis by (simp add: execute_image_replay)
next
  case None
  with op obtain after where cur: "dict_get (pi_resources img) (target_key p e) = Some (ev_resource e)"
    and ef: "effect_of lax p (ev_resource e) = Inr after"
    and br: "build_receipt p a i (ev_resource e) after now = Inr r"
    and img': "img' = img\<lparr>pi_resources := put_effect (target_key p e) after (pi_resources img),
                          pi_receipts := dict_set (li_idempotency_key i) r (pi_receipts img)\<rparr>"
    by (auto simp: execute_image_fresh)
  have k: "key_of (ev_resource e) = target_key p e"
    using inv cur by (auto simp: inventory_inv_def dest: keyed_get)
  have "valid_resource x \<and> key_of x = target_key p e" if "after = Some x" for x
    using that build_receipt_fields(1,3) [OF br] effect_of_reduces [OF ef] k by (auto simp: valid_receipt_def)
  with inv build_receipt_fields(1,4) [OF br] show ?thesis
    by (auto simp: inventory_inv_def img' put_effect_def intro!: keyed_put_effect keyed_put)
qed

section \<open>One execution\<close>

text \<open>The contract of a protected executor, as the workflow uses it: a receipt is recorded under
  the key of the call, an effect is applied exactly when no receipt was there, and nothing else
  is recorded.\<close>

fun applied_keys :: "('c \<Rightarrow> 's \<Rightarrow> 'e + 's \<times> 'r \<times> bool) \<Rightarrow> ('c \<Rightarrow> 'k) \<Rightarrow> 's \<Rightarrow> 'c list \<Rightarrow> 'k list" where
  "applied_keys execute key s [] = []"
| "applied_keys execute key s (x # xs) =
     (case execute x s of
        Inl _ \<Rightarrow> applied_keys execute key s xs
      | Inr (t, _, applied) \<Rightarrow> (if applied then [key x] else []) @ applied_keys execute key t xs)"

locale protected_executor =
  fixes execute :: "'c \<Rightarrow> 's \<Rightarrow> 'e + 's \<times> 'r \<times> bool"
    and receipt_of :: "'k \<Rightarrow> 's \<Rightarrow> 'r option"
    and key :: "'c \<Rightarrow> 'k"
  assumes records: "execute x s = Inr (t, r, applied) \<Longrightarrow>
            receipt_of k t = (if k = key x then Some r else receipt_of k s)"
    and once: "execute x s = Inr (t, r, applied) \<Longrightarrow> applied \<longleftrightarrow> receipt_of (key x) s = None"
    and replay_frame: "execute x s = Inr (t, r, False) \<Longrightarrow> t = s"
begin

lemma receipt_kept: "execute x s = Inr (t, r, applied) \<Longrightarrow> receipt_of k s = Some r' \<Longrightarrow> receipt_of k t = Some r'"
proof -
  assume op: "execute x s = Inr (t, r, applied)" and r': "receipt_of k s = Some r'"
  show "receipt_of k t = Some r'"
  proof (cases "k = key x")
    case True
    with once [OF op] r' have "\<not> applied" by simp
    with op have "t = s" using replay_frame by simp
    with r' show ?thesis by simp
  next
    case False
    with records [OF op, of k] r' show ?thesis by simp
  qed
qed

lemma applied_keys_fresh: "k \<in> set (applied_keys execute key s xs) \<Longrightarrow> receipt_of k s = None"
proof (induction xs arbitrary: s)
  case Nil
  then show ?case by simp
next
  case (Cons x xs)
  show ?case
  proof (cases "execute x s")
    case (Inl e)
    with Cons show ?thesis by simp
  next
    case (Inr y)
    then obtain t r applied where op: "execute x s = Inr (t, r, applied)" by (cases y) auto
    show ?thesis
    proof (rule ccontr)
      assume "receipt_of k s \<noteq> None"
      then obtain r' where r': "receipt_of k s = Some r'" by blast
      with once [OF op] have "\<not> (applied \<and> k = key x)" by auto
      with Cons.prems op have "k \<in> set (applied_keys execute key t xs)" by (auto split: if_splits)
      with Cons.IH have "receipt_of k t = None" by blast
      with receipt_kept [OF op r'] show False by simp
    qed
  qed
qed

lemma applied_at_most_once: "distinct (applied_keys execute key s xs)"
proof (induction xs arbitrary: s)
  case Nil
  then show ?case by simp
next
  case (Cons x xs)
  show ?case
  proof (cases "execute x s")
    case (Inl e)
    with Cons show ?thesis by simp
  next
    case (Inr y)
    then obtain t r applied where op: "execute x s = Inr (t, r, applied)" by (cases y) auto
    have "key x \<notin> set (applied_keys execute key t xs)"
      using applied_keys_fresh [of "key x" t xs] records [OF op, of "key x"] by auto
    with Cons op show ?thesis by auto
  qed
qed

end

type_synonym exec_call = "remediation_proposal \<times> resource_evidence \<times> local_approval \<times> local_intent \<times> datetime"

fun exec_key :: "exec_call \<Rightarrow> string" where
  "exec_key (p, e, a, i, now) = li_idempotency_key i"

fun exec_call_step :: "(json \<Rightarrow> int option) \<Rightarrow> exec_call \<Rightarrow> inventory \<Rightarrow> exn + inventory \<times> local_receipt \<times> bool" where
  "exec_call_step lax (p, e, a, i, now) img = portable_execute lax p e a i now img"

lemma portable_execute_image:
  "portable_execute lax p e a i now img = Inr x \<longleftrightarrow>
     validate_execution_binding p e a i = Inr () \<and> execute_image lax p e a i now img = Inr x"
  by (auto simp: portable_execute_def result_simps)

lemma execute_image_records:
  assumes "execute_image lax p e a i now img = Inr (img', r, applied)"
  shows "get_receipt k img' = (if k = li_idempotency_key i then Some r else get_receipt k img)"
    and "applied \<longleftrightarrow> get_receipt (li_idempotency_key i) img = None"
    and "\<not> applied \<Longrightarrow> img' = img"
  using assms
  by (cases "get_receipt (li_idempotency_key i) img";
      auto simp: execute_image_replay execute_image_fresh get_receipt_def)+

interpretation portable: protected_executor "exec_call_step lax" get_receipt exec_key for lax
proof unfold_locales
  fix x :: exec_call and s t r applied k
  assume op: "exec_call_step lax x s = Inr (t, r, applied)"
  obtain p e a i now where x: "x = (p, e, a, i, now)" by (cases x)
  with op have im: "execute_image lax p e a i now s = Inr (t, r, applied)" by (simp add: portable_execute_image)
  show "get_receipt k t = (if k = exec_key x then Some r else get_receipt k s)"
    using execute_image_records(1) [OF im] by (simp add: x)
  show "applied \<longleftrightarrow> get_receipt (exec_key x) s = None"
    using execute_image_records(2) [OF im] by (simp add: x)
next
  fix x :: exec_call and s t r
  assume op: "exec_call_step lax x s = Inr (t, r, False)"
  obtain p e a i now where x: "x = (p, e, a, i, now)" by (cases x)
  with op have im: "execute_image lax p e a i now s = Inr (t, r, False)" by (simp add: portable_execute_image)
  show "t = s" using execute_image_records(3) [OF im] by simp
qed

text \<open>Property C33. Over any sequence of execution attempts, with any arguments and in any order,
  no idempotency key is applied twice.\<close>

theorem executions_apply_at_most_once: "distinct (applied_keys (exec_call_step lax) exec_key img calls)"
  by (rule portable.applied_at_most_once)

text \<open>Repeating an execution, at any later time, returns the receipt of the first and
  changes nothing.\<close>

theorem execution_replay_is_stable:
  assumes "portable_execute lax p e a i now img = Inr (img', r, applied)"
  shows "portable_execute lax p e a i later img' = Inr (img', r, False)"
proof -
  have b: "validate_execution_binding p e a i = Inr ()" and im: "execute_image lax p e a i now img = Inr (img', r, applied)"
    using assms by (simp_all add: portable_execute_image)
  have r: "get_receipt (li_idempotency_key i) img' = Some r"
    using execute_image_records(1) [OF im, of "li_idempotency_key i"] by simp
  have "lr_intent_hash r = li_intent_hash i \<and> lr_proposal_hash r = rp_proposal_hash p \<and> lr_decision_hash r = la_decision_hash a"
    using im by (cases "get_receipt (li_idempotency_key i) img")
      (auto simp: execute_image_replay execute_image_fresh build_receipt_fields)
  with b r show ?thesis by (simp add: portable_execute_image execute_image_replay)
qed

text \<open>Property C34. An applied execution acts under an approving decision bound to the exact
  proposal and evidence; the target was in the state the evidence recorded; nothing else in the
  inventory changes; and the effect is the removal of an unattached address, or the removal of
  rules from the ingress of one security group.\<close>

theorem execution_effect_is_confined:
  assumes "portable_execute lax p e a i now img = Inr (img', r, True)"
  shows "la_decision a = AD_APPROVED \<and> la_proposal_hash a = rp_proposal_hash p
    \<and> rp_authority_class p = AG_PLAN_AND_CONFIRM \<and> rp_evidence_hash p = ev_evidence_hash e
    \<and> dict_get (pi_resources img) (target_key p e) = Some (ev_resource e)
    \<and> (\<forall>k. k \<noteq> target_key p e \<longrightarrow> dict_get (pi_resources img') k = dict_get (pi_resources img) k)
    \<and> (\<forall>k. k \<noteq> li_idempotency_key i \<longrightarrow> get_receipt k img' = get_receipt k img)
    \<and> dict_get (pi_resources img') (target_key p e) = lr_after_resource r
    \<and> ((rp_operation_type p = RO_RELEASE_ELASTIC_IP \<and> lr_after_resource r = None
         \<and> (\<exists>b. ev_resource e = ElasticIpResource b \<and> eip_association_id b = None))
       \<or> (rp_operation_type p = RO_REVOKE_PUBLIC_INGRESS
         \<and> (\<exists>g rules. ev_resource e = SecurityGroupResource g \<and> rules \<noteq> [] \<and> set rules \<subseteq> set (sg_inbound_rules g)
              \<and> lr_after_resource r = Some (SecurityGroupResource
                    (g\<lparr>sg_inbound_rules := filter (\<lambda>x. x \<notin> set rules) (sg_inbound_rules g)\<rparr>)))))"
proof -
  have b: "validate_execution_binding p e a i = Inr ()" and im: "execute_image lax p e a i now img = Inr (img', r, True)"
    using assms by (simp_all add: portable_execute_image)
  have none: "get_receipt (li_idempotency_key i) img = None" using execute_image_records(2) [OF im] by simp
  obtain after where cur: "dict_get (pi_resources img) (target_key p e) = Some (ev_resource e)"
    and ef: "effect_of lax p (ev_resource e) = Inr after" and br: "build_receipt p a i (ev_resource e) after now = Inr r"
    and img': "img' = img\<lparr>pi_resources := put_effect (target_key p e) after (pi_resources img),
                          pi_receipts := dict_set (li_idempotency_key i) r (pi_receipts img)\<rparr>"
    using im by (auto simp: execute_image_fresh [OF none])
  have "(rp_operation_type p = RO_RELEASE_ELASTIC_IP \<and> after = None
         \<and> (\<exists>b. ev_resource e = ElasticIpResource b \<and> eip_association_id b = None))
       \<or> (rp_operation_type p = RO_REVOKE_PUBLIC_INGRESS
         \<and> (\<exists>g rules. ev_resource e = SecurityGroupResource g \<and> rules \<noteq> [] \<and> set rules \<subseteq> set (sg_inbound_rules g)
              \<and> after = Some (SecurityGroupResource
                    (g\<lparr>sg_inbound_rules := filter (\<lambda>x. x \<notin> set rules) (sg_inbound_rules g)\<rparr>))))"
    using ef release_effect_shape [of p "ev_resource e" after] revoke_effect_shape [of lax p "ev_resource e" after]
    by (cases "rp_operation_type p") (simp_all add: effect_of_def)
  then show ?thesis
    using b cur build_receipt_fields(3) [OF br]
    by (simp add: validate_execution_binding_def result_simps img' get_receipt_def)
qed

text \<open>Read-back right after an applied execution verifies it: the proof is valid,
  linked to the receipt, and records the target exactly as the receipt left it.\<close>

theorem applied_execution_verifies:
  assumes inv: "inventory_inv img" and ex: "portable_execute lax p e a i now img = Inr (img', r, True)"
    and t: "is_utc verified_at"
  shows "\<exists>v. verify r verified_at img' = Inr v \<and> assert_linked_verification r v = Inr ()
           \<and> lv_observed_resource v = lr_after_resource r \<and> lv_observed_absent v = (lr_after_resource r = None)
           \<and> lv_verified_at v = verified_at"
proof -
  have im: "execute_image lax p e a i now img = Inr (img', r, True)" using ex by (simp add: portable_execute_image)
  have none: "get_receipt (li_idempotency_key i) img = None" using execute_image_records(2) [OF im] by simp
  obtain after where cur: "dict_get (pi_resources img) (target_key p e) = Some (ev_resource e)"
    and ef: "effect_of lax p (ev_resource e) = Inr after" and br: "build_receipt p a i (ev_resource e) after now = Inr r"
    and img': "img' = img\<lparr>pi_resources := put_effect (target_key p e) after (pi_resources img),
                          pi_receipts := dict_set (li_idempotency_key i) r (pi_receipts img)\<rparr>"
    using im by (auto simp: execute_image_fresh [OF none])
  have key: "(lr_target_resource_type r, lr_target_resource_id r, resource_region (lr_before_resource r)) = target_key p e"
    by (simp add: target_key_def build_receipt_fields [OF br])
  have rv: "valid_receipt r" by (rule build_receipt_fields(1) [OF br])
  have "key_of (ev_resource e) = target_key p e" using inv cur by (auto simp: inventory_inv_def dest: keyed_get)
  then have k: "key_of x = target_key p e" if "after = Some x" for x
    using that effect_of_reduces [OF ef] by auto
  have obs: "dict_get (pi_resources img')
      (lr_target_resource_type r, lr_target_resource_id r, resource_region (lr_before_resource r)) = after"
    unfolding key by (simp add: img')
  have rec: "get_receipt (lr_idempotency_key r) img' = Some r"
    by (simp add: img' get_receipt_def build_receipt_fields [OF br])
  show ?thesis
  proof (cases "rp_operation_type p")
    case RO_RELEASE_ELASTIC_IP
    with ef have "after = None" by (auto simp: effect_of_def dest: release_effect_shape)
    with RO_RELEASE_ELASTIC_IP rv t show ?thesis
      by (simp add: verify_def rec obs Let_def build_receipt_fields(3,10) [OF br] validated_def
          valid_local_verification_def valid_receipt_def verification_payload_def assert_linked_verification_def)
  next
    case RO_REVOKE_PUBLIC_INGRESS
    with ef obtain g where g: "after = Some (SecurityGroupResource g)"
      by (auto simp: effect_of_def dest: revoke_effect_shape)
    with k have "sg_id g = lr_target_resource_id r" "lr_target_resource_type r = CRT_SECURITY_GROUP"
      by (auto simp: key_of_def target_key_def build_receipt_fields [OF br])
    with RO_REVOKE_PUBLIC_INGRESS rv t g obs show ?thesis
      by (simp add: verify_def rec obs Let_def build_receipt_fields(3,10) [OF br] validated_def
          valid_local_verification_def valid_receipt_def verification_payload_def assert_linked_verification_def)
  next
    case RO_APPLY_REQUIRED_TAGS
    with ef show ?thesis by (simp add: effect_of_def)
  qed
qed

section \<open>The inventory as a machine\<close>

definition exec_step :: "(json \<Rightarrow> int option) \<Rightarrow> inventory \<Rightarrow> exec_call \<Rightarrow> exn + inventory" where
  "exec_step lax img x = ebind (exec_call_step lax x img) (\<lambda>y. Inr (fst y))"

definition inventory_le :: "inventory \<Rightarrow> inventory \<Rightarrow> bool" where
  "inventory_le img img' \<longleftrightarrow>
     dict_extends (\<lambda>r' r. reduced r r') (pi_resources img') (pi_resources img)
     \<and> dict_extends (=) (pi_receipts img) (pi_receipts img')"

lemma inventory_le_refl [simp]: "inventory_le img img"
  by (simp add: inventory_le_def dict_extends_refl)

lemma inventory_le_trans: "inventory_le a b \<Longrightarrow> inventory_le b c \<Longrightarrow> inventory_le a c"
  unfolding inventory_le_def by (blast intro: dict_extends_trans reduced_trans)

lemma exec_step_image:
  "exec_step lax img x = Inr img' \<Longrightarrow>
     \<exists>p e a i now r applied. x = (p, e, a, i, now) \<and> validate_execution_binding p e a i = Inr ()
       \<and> execute_image lax p e a i now img = Inr (img', r, applied)"
  by (cases x) (auto simp: exec_step_def result_simps portable_execute_image)

lemma execute_image_le:
  assumes "execute_image lax p e a i now img = Inr (img', r, applied)"
  shows "inventory_le img img'"
proof (cases "get_receipt (li_idempotency_key i) img")
  case (Some x)
  with assms show ?thesis by (simp add: execute_image_replay)
next
  case None
  with assms obtain after where cur: "dict_get (pi_resources img) (target_key p e) = Some (ev_resource e)"
    and ef: "effect_of lax p (ev_resource e) = Inr after"
    and img': "img' = img\<lparr>pi_resources := put_effect (target_key p e) after (pi_resources img),
                          pi_receipts := dict_set (li_idempotency_key i) r (pi_receipts img)\<rparr>"
    by (auto simp: execute_image_fresh)
  show ?thesis
    using effect_of_reduces [OF ef] cur None
    by (auto simp: inventory_le_def img' dict_extends_def get_receipt_def split: if_splits)
qed

lemma exec_step_le: "exec_step lax img x = Inr img' \<Longrightarrow> inventory_le img img'"
  by (auto dest!: exec_step_image intro: execute_image_le)

lemma run_exec_le: "inventory_le img (run_actions (exec_step lax) img calls)"
proof (induction calls arbitrary: img)
  case Nil
  then show ?case by simp
next
  case (Cons x calls)
  then show ?case by (cases "exec_step lax img x") (auto intro: inventory_le_trans exec_step_le)
qed

text \<open>No sequence of executions grants anything: whatever is attempted, every resource
  still present was there before and differs at most by removed ingress rules, and no receipt is
  lost or changed.\<close>

theorem executions_only_reduce:
  "inventory_le (run_actions (exec_step lax) img before) (run_actions (exec_step lax) img (before @ after))"
  by (simp add: run_actions_append run_exec_le)

section \<open>The executor over its file, under faults\<close>

definition initial_ok :: "cloud_resource list \<Rightarrow> bool" where
  "initial_ok initial \<longleftrightarrow> list_all valid_resource initial \<and> distinct (map key_of initial)"

lemma inventory_inv_initial: "initial_ok initial \<Longrightarrow> inventory_inv (initial_snapshot initial)"
  by (auto simp: inventory_inv_def initial_snapshot_def initial_ok_def dict_of_distinct keyed_def
      pydict.every_def list_all_iff comp_def map_of_map_keys dest!: map_of_SomeD)

definition inventory_reload :: "inventory \<Rightarrow> inventory" where
  "inventory_reload img =
     \<lparr>pi_resources = by_key resource_order (pi_resources img), pi_receipts = by_key (\<lambda>k. k) (pi_receipts img)\<rparr>"

lemma inventory_reload_facts:
  assumes "inventory_inv img"
  shows "inventory_inv (inventory_reload img)" "get_receipt k (inventory_reload img) = get_receipt k img"
    "dict_get (pi_resources (inventory_reload img)) key = dict_get (pi_resources img) key"
    "length (pi_receipts (inventory_reload img)) = length (pi_receipts img)"
proof -
  have "keyed key_of valid_resource (pi_resources img)" "keyed lr_idempotency_key valid_receipt (pi_receipts img)"
    using assms by (simp_all add: inventory_inv_def)
  moreover from this have "dict_ok (pi_resources img)" "dict_ok (pi_receipts img)" by (simp_all add: keyed_def)
  ultimately show "inventory_inv (inventory_reload img)" "get_receipt k (inventory_reload img) = get_receipt k img"
    "dict_get (pi_resources (inventory_reload img)) key = dict_get (pi_resources img) key"
    "length (pi_receipts (inventory_reload img)) = length (pi_receipts img)"
    by (simp_all add: inventory_inv_def inventory_reload_def keyed_by_key get_receipt_def by_key_perm)
qed

lemma portable_load_write:
  assumes "inventory_inv img"
  shows "portable_load initial (portable_write img) = Inr (inventory_reload img)"
proof -
  have k: "keyed key_of valid_resource (pi_resources img)" "keyed lr_idempotency_key valid_receipt (pi_receipts img)"
    using assms by (simp_all add: inventory_inv_def)
  have "list_all valid_resource (sorted_values resource_order (pi_resources img))"
    "list_all valid_receipt (sorted_values (\<lambda>k. k) (pi_receipts img))"
    using keyed_in_set [OF k(1)] keyed_in_set [OF k(2)] by (auto simp: list_all_iff sorted_values_facts)
  then show ?thesis
    by (simp add: portable_load_def portable_write_def dict_of_sorted_values [OF k(1)] dict_of_sorted_values [OF k(2)]
        Let_def by_key_perm sorted_values_facts inventory_reload_def)
qed

lemma PortableExecutor_execute_cases:
  assumes "PortableExecutor_execute io lax initial p e a i now x = (x', res)"
  shows "px_execute_calls x' = px_execute_calls x + 1
    \<and> ((px_file x' = px_file x \<and> px_mutation_calls x' = px_mutation_calls x
          \<and> px_reconciled_calls x \<le> px_reconciled_calls x' \<and> px_reconciled_calls x' \<le> px_reconciled_calls x + 1
          \<and> (\<forall>r. res = Inr r \<longrightarrow> (\<exists>img. portable_load initial (px_file x) = Inr img
                                       \<and> portable_execute lax p e a i now img = Inr (img, r, False))))
       \<or> (\<exists>img img' r. portable_load initial (px_file x) = Inr img
            \<and> portable_execute lax p e a i now img = Inr (img', r, True) \<and> px_file x' = portable_write img'
            \<and> px_reconciled_calls x' = px_reconciled_calls x
            \<and> (res = Inr r \<and> px_mutation_calls x' = px_mutation_calls x + 1
               \<or> res = Inl CloudAdapterUnavailableError \<and> px_mutation_calls x' = px_mutation_calls x)))"
proof (cases "validate_execution_binding p e a i")
  case (Inl err)
  with assms show ?thesis by (auto simp: PortableExecutor_execute_def Let_def)
next
  case (Inr u)
  show ?thesis
  proof (cases "portable_read io initial (execute_image lax p e a i now) (px_file x)")
    case (Inl err)
    with assms Inr show ?thesis by (auto simp: PortableExecutor_execute_def Let_def)
  next
    case (Inr y)
    obtain img' r applied where y: "y = (img', r, applied)" by (cases y)
    with Inr obtain img where img: "portable_load initial (px_file x) = Inr img"
        "execute_image lax p e a i now img = Inr (img', r, applied)"
      by (auto simp: portable_read_def result_simps split: if_splits)
    then have ex: "portable_execute lax p e a i now img = Inr (img', r, applied)"
      using \<open>validate_execution_binding p e a i = Inr u\<close> by (simp add: portable_execute_image)
    show ?thesis
    proof (cases applied)
      case False
      then have "img' = img" using execute_image_records(3) [OF img(2)] by simp
      with assms Inr y \<open>validate_execution_binding p e a i = Inr u\<close> False img ex show ?thesis
        by (auto simp: PortableExecutor_execute_def Let_def)
    next
      case True
      with assms Inr y \<open>validate_execution_binding p e a i = Inr u\<close> img ex show ?thesis
        by (auto simp: PortableExecutor_execute_def Let_def split: if_splits)
    qed
  qed
qed

definition px_new :: portable_executor where
  "px_new = \<lparr>px_file = None, px_execute_calls = 0, px_mutation_calls = 0, px_reconciled_calls = 0\<rparr>"

fun px_step :: "(json \<Rightarrow> int option) \<Rightarrow> cloud_resource list \<Rightarrow> portable_executor \<Rightarrow> io \<times> exec_call \<Rightarrow> portable_executor" where
  "px_step lax initial x (io, p, e, a, i, now) = fst (PortableExecutor_execute io lax initial p e a i now x)"

definition px_ok :: "cloud_resource list \<Rightarrow> portable_executor \<Rightarrow> bool" where
  "px_ok initial x \<longleftrightarrow>
     (\<exists>img. portable_load initial (px_file x) = Inr img \<and> inventory_inv img
        \<and> px_mutation_calls x \<le> int (length (pi_receipts img)))
     \<and> px_mutation_calls x + px_reconciled_calls x \<le> px_execute_calls x"

lemma applied_adds_receipt:
  assumes "inventory_inv img" "portable_execute lax p e a i now img = Inr (img', r, True)"
  shows "length (pi_receipts img') = Suc (length (pi_receipts img))"
proof -
  have im: "execute_image lax p e a i now img = Inr (img', r, True)" using assms(2) by (simp add: portable_execute_image)
  then have none: "get_receipt (li_idempotency_key i) img = None" using execute_image_records(2) by blast
  with im show ?thesis by (auto simp: execute_image_fresh get_receipt_def alist_length_update)
qed

lemma px_ok_step:
  assumes "px_ok initial x"
  shows "px_ok initial (px_step lax initial x c)"
proof -
  obtain io p e a i now where c: "c = (io, p, e, a, i, now)" by (cases c)
  obtain x' res where m: "PortableExecutor_execute io lax initial p e a i now x = (x', res)" by fastforce
  from assms obtain img where img: "portable_load initial (px_file x) = Inr img" "inventory_inv img"
      "px_mutation_calls x \<le> int (length (pi_receipts img))"
      "px_mutation_calls x + px_reconciled_calls x \<le> px_execute_calls x" by (auto simp: px_ok_def)
  have "px_ok initial x'"
    using PortableExecutor_execute_cases [OF m]
  proof (elim conjE disjE exE)
    fix img0 img' r
    assume h: "portable_load initial (px_file x) = Inr img0"
      "portable_execute lax p e a i now img0 = Inr (img', r, True)" "px_file x' = portable_write img'"
      "px_execute_calls x' = px_execute_calls x + 1" "px_reconciled_calls x' = px_reconciled_calls x"
      "res = Inr r" "px_mutation_calls x' = px_mutation_calls x + 1"
    then have "img0 = img" using img(1) by simp
    then have "inventory_inv img'" using h(2) img(2) execute_image_inv by (auto simp: portable_execute_image)
    with h img applied_adds_receipt [OF img(2), of lax p e a i now img' r] \<open>img0 = img\<close> show ?thesis
      by (simp add: px_ok_def portable_load_write inventory_reload_facts)
  next
    fix img0 img' r
    assume h: "portable_load initial (px_file x) = Inr img0"
      "portable_execute lax p e a i now img0 = Inr (img', r, True)" "px_file x' = portable_write img'"
      "px_execute_calls x' = px_execute_calls x + 1" "px_reconciled_calls x' = px_reconciled_calls x"
      "px_mutation_calls x' = px_mutation_calls x"
    then have "img0 = img" using img(1) by simp
    then have "inventory_inv img'" using h(2) img(2) execute_image_inv by (auto simp: portable_execute_image)
    with h img applied_adds_receipt [OF img(2), of lax p e a i now img' r] \<open>img0 = img\<close> show ?thesis
      by (simp add: px_ok_def portable_load_write inventory_reload_facts)
  qed (use img in \<open>auto simp: px_ok_def\<close>)
  with m show ?thesis by (simp add: c)
qed

lemma px_ok_new: "initial_ok initial \<Longrightarrow> px_ok initial px_new"
  using inventory_inv_initial [of initial] by (simp add: px_ok_def px_new_def portable_load_def)

lemma px_ok_steps: "px_ok initial x \<Longrightarrow> px_ok initial (foldl (px_step lax initial) x calls)"
  by (induction calls arbitrary: x) (simp_all add: px_ok_step)

text \<open>Whatever is attempted through the executor, and wherever reading, writing or
  synchronising fails, its file stays readable and well-formed, the effects it counts are all
  receipted, and every counted effect and replay belongs to a call.\<close>

theorem executor_survives_faults:
  assumes "initial_ok initial"
  shows "px_ok initial (foldl (px_step lax initial) px_new calls)"
  using px_ok_steps [OF px_ok_new [OF assms]] .


lemma default_mock_resources_ok: "initial_ok default_mock_resources"
  by code_simp

text \<open>The executor over the shipped fixtures meets the hypothesis.\<close>

theorem executor_survives_faults_witness:
  "px_ok default_mock_resources (foldl (px_step (\<lambda>_. None) default_mock_resources) px_new [])"
  by (rule executor_survives_faults [OF default_mock_resources_ok])

end
