(* ===== verification/NZ_Workflow.thy ===== *)
theory NZ_Workflow
  imports NZ_Executor
begin

text \<open>
  Human authorization, protected execution and verification: \<^verbatim>\<open>execution.py\<close>. A
  computation runs in a world (the durable store, the executor with its file, and how many times
  the clock, the identifier factories and the two files were used so far) and gives a value or an
  exception; an exception keeps what was already done. The environment fixes what the clock and
  the factories return at each use and where input and output fail. The workflow object's methods
  are the definitions below; the three stages of \<^verbatim>\<open>resume\<close> after the decision are
  definitions of their own, each either returning a result early or passing the run and the
  checkpoint on.
\<close>

section \<open>Computations\<close>

record environment =
  en_clock :: "nat \<Rightarrow> int"
  en_request_id :: "nat \<Rightarrow> uuid"
  en_event_id :: "nat \<Rightarrow> uuid"
  en_nonce :: "nat \<Rightarrow> string"
  en_request_ttl_seconds :: int
  en_store_io :: "nat \<Rightarrow> io"
  en_executor_io :: "nat \<Rightarrow> io"
  en_lax_int :: "json \<Rightarrow> int option"
  en_initial_resources :: "cloud_resource list"

record world =
  w_store :: store
  w_executor :: portable_executor
  w_ticks :: nat
  w_ids :: nat
  w_store_uses :: nat
  w_executor_uses :: nat
  w_plan_calls :: nat

type_synonym 'a comp = "world \<Rightarrow> (exn + 'a) \<times> world"

definition ret :: "'a \<Rightarrow> 'a comp" where
  "ret x w = (Inr x, w)"

definition raise_exn :: "exn \<Rightarrow> 'a comp" where
  "raise_exn e w = (Inl e, w)"

definition bindc :: "'a comp \<Rightarrow> ('a \<Rightarrow> 'b comp) \<Rightarrow> 'b comp" where
  "bindc m k w = (case m w of (Inl e, w') \<Rightarrow> (Inl e, w') | (Inr x, w') \<Rightarrow> k x w')"

definition catchc :: "'a comp \<Rightarrow> (exn \<Rightarrow> 'a comp option) \<Rightarrow> 'a comp" where
  "catchc m h w =
     (case m w of
        (Inl e, w') \<Rightarrow> (case h e of None \<Rightarrow> (Inl e, w') | Some k \<Rightarrow> k w')
      | (Inr x, w') \<Rightarrow> (Inr x, w'))"

definition lift :: "exn + 'a \<Rightarrow> 'a comp" where
  "lift r w = (r, w)"

definition clock :: "environment \<Rightarrow> datetime comp" where
  "clock env w = (Inr (utc (en_clock env (w_ticks w))), w\<lparr>w_ticks := w_ticks w + 1\<rparr>)"

definition request_id_factory :: "environment \<Rightarrow> uuid comp" where
  "request_id_factory env w = (Inr (en_request_id env (w_ids w)), w\<lparr>w_ids := w_ids w + 1\<rparr>)"

definition event_id_factory :: "environment \<Rightarrow> uuid comp" where
  "event_id_factory env w = (Inr (en_event_id env (w_ids w)), w\<lparr>w_ids := w_ids w + 1\<rparr>)"

definition nonce_factory :: "environment \<Rightarrow> string comp" where
  "nonce_factory env w = (Inr (en_nonce env (w_ids w)), w\<lparr>w_ids := w_ids w + 1\<rparr>)"

definition store_read :: "environment \<Rightarrow> (io \<Rightarrow> store \<Rightarrow> exn + 'a) \<Rightarrow> 'a comp" where
  "store_read env op w =
     (op (en_store_io env (w_store_uses w)) (w_store w), w\<lparr>w_store_uses := w_store_uses w + 1\<rparr>)"

definition store_write :: "environment \<Rightarrow> (io \<Rightarrow> store \<Rightarrow> store \<times> (exn + 'a)) \<Rightarrow> 'a comp" where
  "store_write env op w =
     (let (f, r) = op (en_store_io env (w_store_uses w)) (w_store w)
      in (r, w\<lparr>w_store := f, w_store_uses := w_store_uses w + 1\<rparr>))"

definition executor_get_receipt :: "environment \<Rightarrow> string \<Rightarrow> local_receipt option comp" where
  "executor_get_receipt env k w =
     (PortableExecutor_get_receipt (en_executor_io env (w_executor_uses w)) (en_initial_resources env) k (w_executor w),
      w\<lparr>w_executor_uses := w_executor_uses w + 1\<rparr>)"

definition executor_execute ::
  "environment \<Rightarrow> remediation_proposal \<Rightarrow> resource_evidence \<Rightarrow> local_approval \<Rightarrow> local_intent \<Rightarrow> local_receipt comp" where
  "executor_execute env p e a i w =
     (let now = utc (en_clock env (w_ticks w));
          (x, r) = PortableExecutor_execute (en_executor_io env (w_executor_uses w)) (en_lax_int env)
                     (en_initial_resources env) p e a i now (w_executor w)
      in (r, w\<lparr>w_executor := x, w_ticks := w_ticks w + 1, w_executor_uses := w_executor_uses w + 1\<rparr>))"

definition executor_verify :: "environment \<Rightarrow> local_receipt \<Rightarrow> local_verification comp" where
  "executor_verify env r w =
     (PortableExecutor_verify (en_executor_io env (w_executor_uses w)) (en_initial_resources env) r
        (utc (en_clock env (w_ticks w))) (w_executor w),
      w\<lparr>w_ticks := w_ticks w + 1, w_executor_uses := w_executor_uses w + 1\<rparr>)"

section \<open>Messages of the workflow\<close>

record approval_challenge =
  ch_request :: local_approval_request
  ch_proposal :: remediation_proposal
  ch_evidence :: resource_evidence
  ch_decision_nonce :: string

definition valid_challenge :: "approval_challenge \<Rightarrow> bool" where
  "valid_challenge c \<longleftrightarrow>
     valid_request (ch_request c) \<and> valid_remediation_proposal (ch_proposal c) \<and> valid_evidence (ch_evidence c)
     \<and> decision_nonce_text (ch_decision_nonce c)
     \<and> lq_proposal_id (ch_request c) = rp_proposal_id (ch_proposal c)
     \<and> lq_run_id (ch_request c) = rp_run_id (ch_proposal c)
     \<and> lq_proposal_hash (ch_request c) = rp_proposal_hash (ch_proposal c)
     \<and> lq_evidence_hash (ch_request c) = ev_evidence_hash (ch_evidence c)
     \<and> rp_evidence_hash (ch_proposal c) = ev_evidence_hash (ch_evidence c)
     \<and> lq_decision_nonce_hash (ch_request c) = sha256_text (ch_decision_nonce c)"

record decision_request =
  dr_request_id :: uuid
  dr_run_id :: uuid
  dr_proposal_id :: uuid
  dr_request_hash :: string
  dr_proposal_hash :: string
  dr_evidence_hash :: string
  dr_proposal_version :: int
  dr_decision :: approval_decision
  dr_decision_nonce :: string

record approval_resolution =
  rs_run_id :: uuid
  rs_proposal_id :: uuid
  rs_request_id :: uuid
  rs_request_hash :: string
  rs_decision_hash :: string
  rs_decision :: approval_decision
  rs_final_state :: workflow_state
  rs_reconciled :: bool

definition valid_resolution :: "approval_resolution \<Rightarrow> bool" where
  "valid_resolution r \<longleftrightarrow>
     uuid7 (rs_run_id r) \<and> uuid7 (rs_proposal_id r) \<and> uuid7 (rs_request_id r)
     \<and> sha256_digest (rs_request_hash r) \<and> sha256_digest (rs_decision_hash r)
     \<and> rs_final_state r = (if rs_decision r = AD_APPROVED then WS_APPROVED else WS_DENIED_BY_HUMAN)"

record execution_completion =
  ec_run_id :: uuid
  ec_proposal_id :: uuid
  ec_decision :: approval_decision
  ec_final_state :: workflow_state
  ec_approval :: local_approval
  ec_receipt :: "local_receipt option"
  ec_verification :: "local_verification option"
  ec_reconciled :: bool

definition valid_completion :: "execution_completion \<Rightarrow> bool" where
  "valid_completion c \<longleftrightarrow>
     uuid7 (ec_run_id c) \<and> uuid7 (ec_proposal_id c) \<and> valid_local_approval (ec_approval c)
     \<and> optional_ok valid_receipt (ec_receipt c) \<and> optional_ok valid_local_verification (ec_verification c)
     \<and> ec_final_state c \<in> {WS_DENIED_BY_HUMAN, WS_SUCCESS_WITH_EVIDENCE}
     \<and> (if ec_decision c = AD_DENIED
        then ec_final_state c = WS_DENIED_BY_HUMAN \<and> ec_receipt c = None \<and> ec_verification c = None
        else ec_final_state c = WS_SUCCESS_WITH_EVIDENCE
             \<and> (case (ec_receipt c, ec_verification c) of
                  (Some r, Some v) \<Rightarrow> lr_run_id r = ec_run_id c \<and> lr_proposal_id r = ec_proposal_id c
                                      \<and> lv_receipt_hash v = lr_receipt_hash r
                | _ \<Rightarrow> False))"

definition approval_json :: "local_approval \<Rightarrow> json" where
  "approval_json a = JObj
     [(''request_id'', JStr (uuid_str (la_request_id a))), (''proposal_id'', JStr (uuid_str (la_proposal_id a))),
      (''run_id'', JStr (uuid_str (la_run_id a))), (''request_hash'', JStr (la_request_hash a)),
      (''proposal_hash'', JStr (la_proposal_hash a)), (''evidence_hash'', JStr (la_evidence_hash a)),
      (''proposal_version'', JInt (la_proposal_version a)),
      (''decision'', JStr (approval_decision_value (la_decision a))),
      (''actor_session_id'', JStr (la_actor_session_id a)),
      (''decision_nonce_hash'', JStr (la_decision_nonce_hash a)),
      (''decided_at'', JStr (iso_json (la_decided_at a))), (''decision_hash'', JStr (la_decision_hash a))]"

definition APPROVED_DECISION_DOWNSTREAM_STATES :: "workflow_state set" where
  "APPROVED_DECISION_DOWNSTREAM_STATES =
     {WS_EXECUTING, WS_VERIFYING, WS_SUCCESS_WITH_EVIDENCE, WS_DENIED_BY_POLICY, WS_MODEL_OUTPUT_INVALID,
      WS_AMBIGUOUS_RESULT, WS_DEPENDENCY_UNAVAILABLE, WS_BUDGET_EXHAUSTED, WS_EXECUTION_FAILED,
      WS_VERIFICATION_FAILED, WS_RECOVERY_REQUIRED}"

definition failure :: "failure_kind \<Rightarrow> string \<Rightarrow> string \<Rightarrow> failure_detail" where
  "failure kind code message = \<lparr>f_kind = kind, f_code = code, f_message = message, f_retryable = False\<rparr>"

definition storage_failure :: "string \<Rightarrow> failure_detail" where
  "storage_failure message =
     \<lparr>f_kind = FK_STORAGE_FAILURE, f_code = ''LOCAL_STATE_STORE_UNAVAILABLE'', f_message = message, f_retryable = True\<rparr>"

definition failed :: "failure_detail \<Rightarrow> 'a control_result comp" where
  "failed f = ret (Failed f)"

section \<open>Shared steps\<close>

definition is_storage_error :: "exn \<Rightarrow> bool" where
  "is_storage_error e \<longleftrightarrow> e = StorageConflictError \<or> e = StorageDependencyError"

definition on_exn :: "(exn \<Rightarrow> bool) \<Rightarrow> 'a comp \<Rightarrow> exn \<Rightarrow> 'a comp option" where
  "on_exn P k e = (if P e then Some k else None)"

definition save_cp :: "environment \<Rightarrow> checkpoint \<Rightarrow> int \<Rightarrow> checkpoint comp" where
  "save_cp env c v = store_write env (\<lambda>io. repo_save_checkpoint io c (Some v))"

definition move_run ::
  "environment \<Rightarrow> uuid \<Rightarrow> workflow_state \<Rightarrow> workflow_state \<Rightarrow> int \<Rightarrow> uuid option \<Rightarrow> uuid option \<Rightarrow> run comp" where
  "move_run env rid st es v ap vp =
     bindc (clock env) (\<lambda>now. store_write env (\<lambda>io. repo_transition_run io rid st es v now ap vp))"

type_synonym loaded = "run \<times> checkpoint \<times> resource_evidence \<times> remediation_proposal"

definition load_bound :: "run \<Rightarrow> checkpoint \<Rightarrow> failure_detail + loaded" where
  "load_bound r c =
     (case (cp_resource_evidence c, cp_remediation_proposal c) of
        (Some e, Some p) \<Rightarrow>
          if ev_run_id e = run_id r \<and> ev_trace_id e = trace_id r \<and> ev_correlation_id e = correlation_id r
             \<and> rp_run_id p = run_id r \<and> rp_correlation_id p = correlation_id r
             \<and> rp_evidence_hash p = ev_evidence_hash e
          then Inr (r, c, e, p)
          else Inl (failure FK_RECOVERY_REQUIREMENT ''LOCAL_HITL_PREREQUISITES_INVALID''
                      ''Local run lacks exact durable evidence and proposal bindings'')
      | _ \<Rightarrow> Inl (failure FK_RECOVERY_REQUIREMENT ''LOCAL_HITL_PREREQUISITES_INVALID''
                    ''Local run lacks exact durable evidence and proposal bindings''))"

definition load_run :: "environment \<Rightarrow> uuid \<Rightarrow> (failure_detail + loaded) comp" where
  "load_run env rid =
     catchc
       (bindc (store_read env (\<lambda>io. repo_get_run io rid)) (\<lambda>r.
        bindc (store_read env (\<lambda>io. repo_get_checkpoint io rid)) (\<lambda>c.
        ret (case (r, c) of
               (Some r, Some c) \<Rightarrow> load_bound r c
             | _ \<Rightarrow> Inl (failure FK_NOT_FOUND ''LOCAL_RUN_NOT_FOUND'' ''Local run and checkpoint are required'')))))
       (on_exn (\<lambda>e. e = StorageDependencyError \<or> e = TypeError)
          (ret (Inl (storage_failure ''Local durable state lookup is unavailable''))))"

definition merge_metadata :: "(string \<times> json) list \<Rightarrow> (string \<times> string) list \<Rightarrow> (string \<times> json) list" where
  "merge_metadata old new = foldl (\<lambda>d kv. dict_set (fst kv) (JStr (snd kv)) d) old new"

definition next_checkpoint ::
  "environment \<Rightarrow> checkpoint \<Rightarrow> workflow_state \<Rightarrow> (string \<times> string) list \<Rightarrow> (checkpoint \<Rightarrow> checkpoint) \<Rightarrow> checkpoint comp" where
  "next_checkpoint env c st metadata updates =
     bindc (clock env) (\<lambda>now.
     lift (validated valid_checkpoint
       ((updates c)\<lparr>cp_created_at := now, cp_last_safe_state := st,
                    cp_resume_metadata := merge_metadata (cp_resume_metadata c) metadata,
                    cp_version := cp_version c + 1\<rparr>)))"

definition append_event ::
  "environment \<Rightarrow> run \<Rightarrow> audit_event_type \<Rightarrow> string \<Rightarrow> (string \<times> string) list \<Rightarrow> unit comp" where
  "append_event env r ty payload_hash metadata =
     bindc (event_id_factory env) (\<lambda>eid.
     bindc (clock env) (\<lambda>now.
     bindc (lift (validated valid_audit_event
              \<lparr>ae_event_id = eid, ae_run_id = run_id r, ae_type = ty, ae_timestamp = now,
               ae_source = ''local-hitl'', ae_tool_name = None, ae_model_id = None,
               ae_redacted_payload_hash = payload_hash,
               ae_metadata = foldl (\<lambda>d kv. dict_set (fst kv) (snd kv) d) metadata
                 [(''trace_id'', uuid_str (trace_id r)), (''correlation_id'', uuid_str (correlation_id r))]\<rparr>)) (\<lambda>ev.
     bindc (store_write env (\<lambda>io. repo_append_audit_event io ev)) (\<lambda>_. ret ()))))"

definition audit_policy_denial :: "environment \<Rightarrow> run \<Rightarrow> remediation_proposal \<Rightarrow> string \<Rightarrow> unit comp" where
  "audit_policy_denial env r p code =
     catchc
       (append_event env r AET_POLICY_DENIED (rp_proposal_hash p)
          [(''proposal_id'', uuid_str (rp_proposal_id p)), (''policy_code'', code)])
       (on_exn is_storage_error (ret ()))"

definition decision_state :: "approval_decision \<Rightarrow> workflow_state" where
  "decision_state d = (if d = AD_APPROVED then WS_APPROVED else WS_DENIED_BY_HUMAN)"

definition apply_decision_state ::
  "environment \<Rightarrow> run \<Rightarrow> checkpoint \<Rightarrow> local_approval \<Rightarrow> (failure_detail + run \<times> checkpoint) comp" where
  "apply_decision_state env r c a =
     (let target_state = decision_state (la_decision a);
          downstream = (la_decision a = AD_APPROVED \<and> run_state r \<in> APPROVED_DECISION_DOWNSTREAM_STATES)
      in catchc
           (bindc (if run_state r \<noteq> target_state \<and> \<not> downstream then
                     (if run_state r \<noteq> WS_AWAITING_APPROVAL then raise_exn StorageConflictError
                      else move_run env (run_id r) target_state WS_AWAITING_APPROVAL (run_version r)
                             (Some (la_proposal_id a)) None)
                   else ret r) (\<lambda>r'.
            bindc (if \<not> downstream \<and> cp_last_safe_state c \<noteq> target_state then
                     bindc (next_checkpoint env c target_state
                              [(''phase'', ''LOCAL_2''), (''local_decision'', approval_decision_value (la_decision a))]
                              (\<lambda>c. c)) (\<lambda>c'. save_cp env c' (cp_version c))
                   else ret c) (\<lambda>c'.
            ret (Inr (r', c')))))
           (\<lambda>e. if e = StorageConflictError then
                  Some (ret (Inl (failure FK_RECOVERY_REQUIREMENT ''LOCAL_DECISION_STATE_CONFLICT''
                                    ''Durable local decision conflicts with workflow state'')))
                else if e = StorageDependencyError then
                  Some (ret (Inl (storage_failure ''Local decision state persistence is unavailable'')))
                else None))"

definition decision_matches_request :: "decision_request \<Rightarrow> string \<Rightarrow> local_approval_request \<Rightarrow> bool" where
  "decision_matches_request d actor q \<longleftrightarrow>
     dr_request_id d = lq_request_id q \<and> dr_run_id d = lq_run_id q \<and> dr_proposal_id d = lq_proposal_id q
     \<and> dr_request_hash d = lq_request_hash q \<and> dr_proposal_hash d = lq_proposal_hash q
     \<and> dr_evidence_hash d = lq_evidence_hash q \<and> dr_proposal_version d = lq_proposal_version q
     \<and> actor = lq_actor_session_id q \<and> sha256_text (dr_decision_nonce d) = lq_decision_nonce_hash q"

definition resolution :: "run \<Rightarrow> local_approval option \<Rightarrow> bool \<Rightarrow> exn + approval_resolution" where
  "resolution r a reconciled =
     (case a of
        None \<Rightarrow> Inl ValueError
      | Some a \<Rightarrow>
          validated valid_resolution
            \<lparr>rs_run_id = run_id r, rs_proposal_id = la_proposal_id a, rs_request_id = la_request_id a,
             rs_request_hash = la_request_hash a, rs_decision_hash = la_decision_hash a,
             rs_decision = la_decision a, rs_final_state = decision_state (la_decision a),
             rs_reconciled = reconciled\<rparr>)"

definition persist_execution_failure ::
  "environment \<Rightarrow> run \<Rightarrow> workflow_state \<Rightarrow> failure_kind \<Rightarrow> string \<Rightarrow> string \<Rightarrow> execution_completion control_result comp" where
  "persist_execution_failure env r target_state kind code message =
     catchc
       (bindc (if run_state r \<noteq> target_state then
                 bindc (move_run env (run_id r) target_state (run_state r) (run_version r) None None) (\<lambda>_. ret ())
               else ret ()) (\<lambda>_. failed (failure kind code message)))
       (on_exn is_storage_error (failed (storage_failure ''Local failure state could not be durably persisted'')))"

definition mark_recovery_required ::
  "environment \<Rightarrow> run \<Rightarrow> string \<Rightarrow> string \<Rightarrow> execution_completion control_result comp" where
  "mark_recovery_required env r code message =
     persist_execution_failure env r WS_RECOVERY_REQUIRED FK_RECOVERY_REQUIREMENT code message"

definition mark_verification_failed ::
  "environment \<Rightarrow> run \<Rightarrow> string \<Rightarrow> string \<Rightarrow> execution_completion control_result comp" where
  "mark_verification_failed env r code message =
     persist_execution_failure env r WS_VERIFICATION_FAILED FK_VERIFICATION_FAILURE code message"

definition completed_from_checkpoint ::
  "run \<Rightarrow> checkpoint \<Rightarrow> bool \<Rightarrow> execution_completion control_result comp" where
  "completed_from_checkpoint r c reconciled =
     (case (cp_local_approval c, cp_remediation_proposal c) of
        (Some a, Some p) \<Rightarrow>
          if run_state r = WS_SUCCESS_WITH_EVIDENCE \<and> cp_local_execution_receipt c \<noteq> None
             \<and> cp_local_verification c \<noteq> None
          then bindc (lift (validated valid_completion
                 \<lparr>ec_run_id = run_id r, ec_proposal_id = rp_proposal_id p, ec_decision = la_decision a,
                  ec_final_state = run_state r, ec_approval = a, ec_receipt = cp_local_execution_receipt c,
                  ec_verification = cp_local_verification c, ec_reconciled = reconciled\<rparr>)) (\<lambda>x. ret (Succeeded x))
          else failed (failure FK_RECOVERY_REQUIREMENT ''LOCAL_COMPLETION_PROOF_MISSING''
                         ''Local success requires durable receipt and verification proof'')
      | _ \<Rightarrow> failed (failure FK_RECOVERY_REQUIREMENT ''LOCAL_COMPLETION_PROOF_MISSING''
                       ''Local success requires durable receipt and verification proof''))"

section \<open>Requesting approval\<close>

text \<open>The persisted part of \<^verbatim>\<open>request_approval\<close>: the request, its checkpoint and its event.\<close>

definition persist_request ::
  "environment \<Rightarrow> run \<Rightarrow> checkpoint \<Rightarrow> remediation_proposal \<Rightarrow> string \<Rightarrow> string \<Rightarrow> datetime \<Rightarrow> datetime
   \<Rightarrow> (failure_detail + local_approval_request) comp" where
  "persist_request env r c p actor nonce_hash now expires_at =
     catchc
       (bindc (request_id_factory env) (\<lambda>qid.
        bindc (lift (LocalApprovalRequest_create qid p actor nonce_hash now expires_at)) (\<lambda>q.
        bindc (next_checkpoint env c WS_AWAITING_APPROVAL
                 [(''phase'', ''LOCAL_2''), (''local_approval_request_hash'', lq_request_hash q)]
                 (\<lambda>c. c\<lparr>cp_local_approval_request := Some q, cp_local_approval := None,
                        cp_local_execution_intent := None, cp_local_execution_receipt := None,
                        cp_local_verification := None\<rparr>)) (\<lambda>c'.
        bindc (save_cp env c' (cp_version c)) (\<lambda>_.
        bindc (append_event env r AET_APPROVAL_REQUESTED (lq_request_hash q)
                 [(''proposal_id'', uuid_str (rp_proposal_id p)),
                  (''request_id'', uuid_str (lq_request_id q)), (''actor_session_id'', actor)]) (\<lambda>_.
        ret (Inr q)))))))
       (on_exn (\<lambda>x. x = TypeError \<or> is_value_error x)
          (ret (Inl (storage_failure ''Local approval challenge could not be persisted''))))"

definition issue_challenge ::
  "environment \<Rightarrow> loaded \<Rightarrow> string \<Rightarrow> datetime \<Rightarrow> string \<Rightarrow> approval_challenge control_result comp" where
  "issue_challenge env l actor now nonce =
     (case l of (r, c, e, p) \<Rightarrow>
      if nonce \<noteq> py_strip nonce \<or> \<not> (16 \<le> length nonce \<and> length nonce \<le> 256) then
        failed (failure FK_CONFIGURATION_ERROR ''LOCAL_NONCE_FACTORY_INVALID''
                  ''The local approval nonce factory returned an invalid challenge'')
      else
        let ttl = plus_seconds now (en_request_ttl_seconds env);
            expires_at = (if dt_micros ttl < dt_micros (rp_expires_at p) then ttl else rp_expires_at p)
        in bindc (persist_request env r c p actor (sha256_text nonce) now expires_at) (\<lambda>x. case x of
             Inl f \<Rightarrow> failed f
           | Inr q \<Rightarrow>
               bindc (lift (validated valid_challenge
                        \<lparr>ch_request = q, ch_proposal = p, ch_evidence = e, ch_decision_nonce = nonce\<rparr>))
                 (\<lambda>y. ret (Succeeded y))))"

definition request_approval :: "environment \<Rightarrow> uuid \<Rightarrow> string \<Rightarrow> approval_challenge control_result comp" where
  "request_approval env rid actor =
     bindc (load_run env rid) (\<lambda>l. case l of
       Inl f \<Rightarrow> failed f
     | Inr (r, c, e, p) \<Rightarrow>
         if run_state r \<noteq> WS_AWAITING_APPROVAL then
           failed (failure FK_RECOVERY_REQUIREMENT ''LOCAL_APPROVAL_STATE_INVALID''
                     ''Local approval can be requested only from AWAITING_APPROVAL'')
         else if cp_local_approval c \<noteq> None then
           failed (failure FK_IDEMPOTENCY_CONFLICT ''LOCAL_DECISION_ALREADY_RECORDED''
                     ''A durable human decision already exists for this proposal'')
         else bindc (clock env) (\<lambda>now.
           if dt_micros (rp_expires_at p) \<le> dt_micros now then
             failed (failure FK_POLICY_DENIAL ''LOCAL_PROPOSAL_EXPIRED'' ''The local remediation proposal has expired'')
           else bindc (nonce_factory env) (\<lambda>nonce. issue_challenge env (r, c, e, p) actor now nonce)))"

section \<open>Deciding\<close>

text \<open>A decision repeated for a challenge that already has one.\<close>

definition replay_decision ::
  "environment \<Rightarrow> decision_request \<Rightarrow> run \<Rightarrow> checkpoint \<Rightarrow> local_approval \<Rightarrow> approval_resolution control_result comp" where
  "replay_decision env d r c existing =
     (if la_request_id existing \<noteq> dr_request_id d \<or> la_request_hash existing \<noteq> dr_request_hash d
         \<or> la_decision existing \<noteq> dr_decision d
         \<or> la_decision_nonce_hash existing \<noteq> sha256_text (dr_decision_nonce d)
      then failed (failure FK_IDEMPOTENCY_CONFLICT ''LOCAL_APPROVAL_REPLAY_CONFLICT''
                     ''A conflicting decision already owns this approval challenge'')
      else bindc (apply_decision_state env r c existing) (\<lambda>x. case x of
             Inl f \<Rightarrow> failed f
           | Inr (final_run, _) \<Rightarrow>
               bindc (lift (resolution final_run (Some existing) True)) (\<lambda>y. ret (Succeeded y))))"

definition record_decision :: "environment \<Rightarrow> checkpoint \<Rightarrow> local_approval \<Rightarrow> (failure_detail + checkpoint) comp" where
  "record_decision env c a =
     catchc
       (bindc (next_checkpoint env c WS_AWAITING_APPROVAL
                 [(''phase'', ''LOCAL_2''), (''local_decision_hash'', la_decision_hash a)]
                 (\<lambda>c. c\<lparr>cp_local_approval := Some a\<rparr>)) (\<lambda>c'.
        bindc (save_cp env c' (cp_version c)) (\<lambda>c''. ret (Inr c''))))
       (on_exn is_value_error (ret (Inl (storage_failure ''Local human decision could not be durably recorded''))))"

definition audit_decision ::
  "environment \<Rightarrow> run \<Rightarrow> remediation_proposal \<Rightarrow> local_approval_request \<Rightarrow> local_approval \<Rightarrow> string
   \<Rightarrow> failure_detail option comp" where
  "audit_decision env final_run p q a actor =
     catchc
       (bindc (append_event env final_run AET_APPROVAL_RECORDED (la_decision_hash a)
                 [(''proposal_id'', uuid_str (rp_proposal_id p)), (''request_id'', uuid_str (lq_request_id q)),
                  (''decision'', approval_decision_value (la_decision a)), (''actor_session_id'', actor)])
          (\<lambda>_. ret None))
       (on_exn is_storage_error (ret (Some (storage_failure ''Local decision audit could not be durably recorded''))))"

definition fresh_decision ::
  "environment \<Rightarrow> decision_request \<Rightarrow> string \<Rightarrow> run \<Rightarrow> checkpoint \<Rightarrow> remediation_proposal \<Rightarrow> local_approval_request
   \<Rightarrow> approval_resolution control_result comp" where
  "fresh_decision env d actor r c p q =
     bindc (clock env) (\<lambda>now.
     if dt_micros (lq_expires_at q) < dt_micros now \<or> dt_micros (rp_expires_at p) < dt_micros now then
       bindc (audit_policy_denial env r p ''LOCAL_APPROVAL_EXPIRED'') (\<lambda>_.
       failed (failure FK_POLICY_DENIAL ''LOCAL_APPROVAL_EXPIRED''
                 ''Local approval challenge or proposal has expired''))
     else
       bindc (lift (LocalApprovalDecision_create q (dr_decision d) now)) (\<lambda>a.
       bindc (record_decision env c a) (\<lambda>s. case s of
         Inl f \<Rightarrow> failed f
       | Inr dc \<Rightarrow>
           bindc (apply_decision_state env r dc a) (\<lambda>x. case x of
             Inl f \<Rightarrow> failed f
           | Inr (final_run, final_cp) \<Rightarrow>
               bindc (audit_decision env final_run p q a actor) (\<lambda>z. case z of
                 Some f \<Rightarrow> failed f
               | None \<Rightarrow>
                   bindc (lift (resolution final_run (cp_local_approval final_cp) False)) (\<lambda>y. ret (Succeeded y)))))))"

definition decide :: "environment \<Rightarrow> decision_request \<Rightarrow> string \<Rightarrow> approval_resolution control_result comp" where
  "decide env d actor =
     bindc (load_run env (dr_run_id d)) (\<lambda>l. case l of
       Inl f \<Rightarrow> failed f
     | Inr (r, c, _, p) \<Rightarrow>
         (case cp_local_approval_request c of
            None \<Rightarrow>
              failed (failure FK_RECOVERY_REQUIREMENT ''LOCAL_APPROVAL_REQUEST_MISSING''
                        ''No durable local approval challenge exists'')
          | Some q \<Rightarrow>
              if \<not> decision_matches_request d actor q then
                bindc (audit_policy_denial env r p ''LOCAL_APPROVAL_BINDING_MISMATCH'') (\<lambda>_.
                failed (failure FK_POLICY_DENIAL ''LOCAL_APPROVAL_BINDING_MISMATCH''
                          ''Local decision does not match the durable proposal challenge''))
              else (case cp_local_approval c of
                      Some existing \<Rightarrow> replay_decision env d r c existing
                    | None \<Rightarrow> fresh_decision env d actor r c p q)))"

section \<open>Resuming\<close>

type_synonym staged = "execution_completion control_result + run \<times> checkpoint"

text \<open>A stage either ends the call with a result or passes the run and checkpoint on.\<close>

definition early :: "execution_completion control_result comp \<Rightarrow> staged comp" where
  "early m = bindc m (\<lambda>x. ret (Inl x))"

definition pass_on :: "run \<Rightarrow> checkpoint \<Rightarrow> staged comp" where
  "pass_on r c = ret (Inr (r, c))"

text \<open>The write-ahead part: the intent of the checkpoint, registered durably when it has none.\<close>

definition register_intent ::
  "environment \<Rightarrow> remediation_proposal \<Rightarrow> local_approval \<Rightarrow> run \<Rightarrow> checkpoint \<Rightarrow> (local_intent \<times> checkpoint) comp" where
  "register_intent env p a r c =
     (case cp_local_execution_intent c of
        Some i \<Rightarrow> ret (i, c)
      | None \<Rightarrow>
          bindc (clock env) (\<lambda>now.
          bindc (lift (LocalExecutionIntent_create p a now)) (\<lambda>i.
          bindc (next_checkpoint env c WS_APPROVED
                   [(''phase'', ''LOCAL_2''), (''local_execution_intent_hash'', li_intent_hash i)]
                   (\<lambda>c. c\<lparr>cp_local_execution_intent := Some i\<rparr>)) (\<lambda>c'.
          bindc (save_cp env c' (cp_version c)) (\<lambda>c''.
          bindc (append_event env r AET_IDEMPOTENCY_REGISTERED (li_intent_hash i)
                   [(''proposal_id'', uuid_str (rp_proposal_id p))]) (\<lambda>_.
          ret (i, c'')))))))"

definition claim_execution ::
  "environment \<Rightarrow> remediation_proposal \<Rightarrow> run \<Rightarrow> local_intent \<Rightarrow> checkpoint \<Rightarrow> staged comp" where
  "claim_execution env p r i c =
     bindc (move_run env (run_id r) WS_EXECUTING WS_APPROVED (run_version r) None None) (\<lambda>r1.
     bindc (append_event env r1 AET_EXECUTION_REQUESTED (li_intent_hash i)
              [(''proposal_id'', uuid_str (rp_proposal_id p))]) (\<lambda>_.
     pass_on r1 c))"

definition stage_approved ::
  "environment \<Rightarrow> remediation_proposal \<Rightarrow> local_approval \<Rightarrow> run \<Rightarrow> checkpoint \<Rightarrow> staged comp" where
  "stage_approved env p a r c =
     (if run_state r \<noteq> WS_APPROVED then pass_on r c
      else catchc
        (bindc (register_intent env p a r c) (\<lambda>x. claim_execution env p r (fst x) (snd x)))
        (on_exn is_value_error
           (early (failed (storage_failure ''Local execution ownership could not be established'')))))"

text \<open>The receipt: the checkpoint's, else the executor's durable one, else a new execution.\<close>

definition obtain_receipt ::
  "environment \<Rightarrow> remediation_proposal \<Rightarrow> resource_evidence \<Rightarrow> local_approval \<Rightarrow> local_intent \<Rightarrow> checkpoint
   \<Rightarrow> local_receipt comp" where
  "obtain_receipt env p e a i c =
     (case cp_local_execution_receipt c of
        Some rc \<Rightarrow> ret rc
      | None \<Rightarrow>
          bindc (executor_get_receipt env (li_idempotency_key i)) (\<lambda>found.
          case found of
            Some rc \<Rightarrow> ret rc
          | None \<Rightarrow> executor_execute env p e a i))"

definition record_receipt ::
  "environment \<Rightarrow> remediation_proposal \<Rightarrow> run \<Rightarrow> checkpoint \<Rightarrow> local_receipt \<Rightarrow> staged comp" where
  "record_receipt env p r c rc =
     bindc
       (if cp_local_execution_receipt c = None then
          bindc (next_checkpoint env c WS_APPROVED
                   [(''phase'', ''LOCAL_2''), (''local_execution_receipt_hash'', lr_receipt_hash rc)]
                   (\<lambda>c. c\<lparr>cp_local_execution_receipt := Some rc\<rparr>)) (\<lambda>c'. save_cp env c' (cp_version c))
        else ret c)
       (\<lambda>c1.
        bindc (move_run env (run_id r) WS_VERIFYING WS_EXECUTING (run_version r) None None) (\<lambda>r1.
        bindc (append_event env r1 AET_EXECUTION_ACKNOWLEDGED (lr_receipt_hash rc)
                 [(''proposal_id'', uuid_str (rp_proposal_id p))]) (\<lambda>_.
        pass_on r1 c1)))"

definition execution_handler :: "environment \<Rightarrow> run \<Rightarrow> exn \<Rightarrow> staged comp option" where
  "execution_handler env r x =
     (if x = PortablePolicyError then
        Some (early (persist_execution_failure env r WS_DENIED_BY_POLICY FK_POLICY_DENIAL
                ''LOCAL_EXECUTION_POLICY_DENIED'' ''Protected local executor denied the exact action''))
      else if x = PortableConflictError then
        Some (early (mark_recovery_required env r ''LOCAL_EXECUTION_CONFLICT''
                ''Local mock state conflicts with approved evidence''))
      else if x = CloudAdapterUnavailableError then
        Some (early (persist_execution_failure env r WS_DEPENDENCY_UNAVAILABLE FK_DEPENDENCY_UNAVAILABLE
                ''LOCAL_MOCK_STATE_UNAVAILABLE'' ''Local mock inventory is unavailable''))
      else if is_value_error x then
        Some (early (failed (failure FK_RECOVERY_REQUIREMENT ''LOCAL_RECEIPT_DURABILITY_FAILED''
                ''Local execution receipt requires deterministic retry reconciliation'')))
      else None)"

definition stage_executing ::
  "environment \<Rightarrow> remediation_proposal \<Rightarrow> resource_evidence \<Rightarrow> local_approval \<Rightarrow> run \<Rightarrow> checkpoint \<Rightarrow> staged comp" where
  "stage_executing env p e a r c =
     (if run_state r \<noteq> WS_EXECUTING then pass_on r c
      else case cp_local_execution_intent c of
        None \<Rightarrow>
          early (mark_recovery_required env r ''LOCAL_EXECUTION_INTENT_MISSING''
                   ''Executing local run has no durable idempotency ownership'')
      | Some i \<Rightarrow>
          catchc (bindc (obtain_receipt env p e a i c) (record_receipt env p r c)) (execution_handler env r))"

definition obtain_verification ::
  "environment \<Rightarrow> local_receipt \<Rightarrow> checkpoint \<Rightarrow> (local_verification \<times> checkpoint) comp" where
  "obtain_verification env rc c =
     (case cp_local_verification c of
        Some v \<Rightarrow> ret (v, c)
      | None \<Rightarrow>
          bindc (executor_verify env rc) (\<lambda>v.
          bindc (lift (assert_linked_verification rc v)) (\<lambda>_.
          bindc (next_checkpoint env c WS_APPROVED
                   [(''phase'', ''LOCAL_2''), (''local_verification_hash'', lv_verification_hash v)]
                   (\<lambda>c. c\<lparr>cp_local_verification := Some v\<rparr>)) (\<lambda>c'.
          bindc (save_cp env c' (cp_version c)) (\<lambda>c''. ret (v, c''))))))"

definition close_success ::
  "environment \<Rightarrow> remediation_proposal \<Rightarrow> run \<Rightarrow> local_verification \<Rightarrow> checkpoint \<Rightarrow> staged comp" where
  "close_success env p r v c =
     bindc (move_run env (run_id r) WS_SUCCESS_WITH_EVIDENCE WS_VERIFYING (run_version r) None
              (Some (rp_proposal_id p))) (\<lambda>r1.
     bindc (next_checkpoint env c WS_SUCCESS_WITH_EVIDENCE
              [(''phase'', ''LOCAL_2''), (''local_outcome'', ''verified'')] (\<lambda>c. c)) (\<lambda>c'.
     bindc (save_cp env c' (cp_version c)) (\<lambda>c2.
     bindc (append_event env r1 AET_VERIFICATION_RECORDED (lv_verification_hash v)
              [(''proposal_id'', uuid_str (rp_proposal_id p))]) (\<lambda>_.
     pass_on r1 c2))))"

definition verification_handler :: "environment \<Rightarrow> run \<Rightarrow> exn \<Rightarrow> staged comp option" where
  "verification_handler env r x =
     (if is_portable_mutation_error x then
        Some (early (mark_verification_failed env r ''LOCAL_VERIFICATION_MISMATCH''
                ''Independent local read-back did not prove the approved result''))
      else if x = CloudAdapterUnavailableError then
        Some (early (persist_execution_failure env r WS_DEPENDENCY_UNAVAILABLE FK_DEPENDENCY_UNAVAILABLE
                ''LOCAL_MOCK_STATE_UNAVAILABLE'' ''Local mock inventory is unavailable during verification''))
      else if is_value_error x then
        Some (early (failed (storage_failure ''Local verification proof could not be durably closed'')))
      else None)"

definition stage_verifying ::
  "environment \<Rightarrow> remediation_proposal \<Rightarrow> run \<Rightarrow> checkpoint \<Rightarrow> staged comp" where
  "stage_verifying env p r c =
     (if run_state r \<noteq> WS_VERIFYING then pass_on r c
      else case cp_local_execution_receipt c of
        None \<Rightarrow>
          early (mark_verification_failed env r ''LOCAL_RECEIPT_MISSING''
                   ''Verification cannot proceed without a durable execution receipt'')
      | Some rc \<Rightarrow>
          catchc (bindc (obtain_verification env rc c) (\<lambda>x. close_success env p r (fst x) (snd x)))
            (verification_handler env r))"

definition then_stage :: "staged comp \<Rightarrow> (run \<Rightarrow> checkpoint \<Rightarrow> staged comp) \<Rightarrow> staged comp" where
  "then_stage m k = bindc m (\<lambda>x. case x of Inl res \<Rightarrow> ret (Inl res) | Inr (r, c) \<Rightarrow> k r c)"

definition finish :: "staged comp \<Rightarrow> execution_completion control_result comp" where
  "finish m = bindc m (\<lambda>x. case x of Inl res \<Rightarrow> ret res | Inr (r, c) \<Rightarrow> completed_from_checkpoint r c False)"

definition resume_denied ::
  "environment \<Rightarrow> run \<Rightarrow> checkpoint \<Rightarrow> remediation_proposal \<Rightarrow> local_approval \<Rightarrow> execution_completion control_result comp" where
  "resume_denied env r c p a =
     bindc (apply_decision_state env r c a) (\<lambda>x. case x of
       Inl f \<Rightarrow> failed f
     | Inr (final_run, _) \<Rightarrow>
         bindc (lift (validated valid_completion
                  \<lparr>ec_run_id = run_id r, ec_proposal_id = rp_proposal_id p, ec_decision = la_decision a,
                   ec_final_state = run_state final_run, ec_approval = a, ec_receipt = None, ec_verification = None,
                   ec_reconciled = (run_state r = WS_DENIED_BY_HUMAN)\<rparr>)) (\<lambda>y. ret (Succeeded y)))"

definition resume_succeeded :: "environment \<Rightarrow> run \<Rightarrow> checkpoint \<Rightarrow> execution_completion control_result comp" where
  "resume_succeeded env r c =
     bindc
       (if cp_last_safe_state c \<noteq> WS_SUCCESS_WITH_EVIDENCE then
          catchc
            (bindc (next_checkpoint env c WS_SUCCESS_WITH_EVIDENCE
                      [(''phase'', ''LOCAL_2''), (''local_outcome'', ''verified'')] (\<lambda>c. c)) (\<lambda>c'.
             bindc (save_cp env c' (cp_version c)) (\<lambda>c''. ret (Inr c''))))
            (on_exn is_value_error (ret (Inl (storage_failure ''Local success checkpoint could not be reconciled''))))
        else ret (Inr c))
       (\<lambda>x. case x of Inl f \<Rightarrow> failed f | Inr c' \<Rightarrow> completed_from_checkpoint r c' True)"

definition resume_stages ::
  "environment \<Rightarrow> remediation_proposal \<Rightarrow> resource_evidence \<Rightarrow> local_approval \<Rightarrow> run \<Rightarrow> checkpoint
   \<Rightarrow> execution_completion control_result comp" where
  "resume_stages env p e a r c =
     finish (then_stage (then_stage (stage_approved env p a r c) (stage_executing env p e a)) (stage_verifying env p))"

definition resume_unexpired ::
  "environment \<Rightarrow> remediation_proposal \<Rightarrow> resource_evidence \<Rightarrow> local_approval \<Rightarrow> run \<Rightarrow> checkpoint
   \<Rightarrow> execution_completion control_result comp" where
  "resume_unexpired env p e a r c =
     bindc (clock env) (\<lambda>now.
     if dt_micros (rp_expires_at p) < dt_micros now then
       mark_recovery_required env r ''LOCAL_APPROVAL_EXPIRED_BEFORE_EXECUTION''
         ''Approved proposal expired before protected execution''
     else resume_stages env p e a r c)"

definition resume_approved ::
  "environment \<Rightarrow> remediation_proposal \<Rightarrow> resource_evidence \<Rightarrow> local_approval \<Rightarrow> run \<Rightarrow> checkpoint
   \<Rightarrow> execution_completion control_result comp" where
  "resume_approved env p e a r c =
     bindc (if run_state r = WS_AWAITING_APPROVAL then apply_decision_state env r c a else ret (Inr (r, c)))
       (\<lambda>x. case x of Inl f \<Rightarrow> failed f | Inr (r1, c1) \<Rightarrow> resume_unexpired env p e a r1 c1)"

definition resume_decided ::
  "environment \<Rightarrow> string \<Rightarrow> remediation_proposal \<Rightarrow> resource_evidence \<Rightarrow> local_approval \<Rightarrow> run \<Rightarrow> checkpoint
   \<Rightarrow> execution_completion control_result comp" where
  "resume_decided env actor p e a r c =
     (if la_actor_session_id a \<noteq> actor then
        bindc (audit_policy_denial env r p ''LOCAL_OPERATOR_SESSION_MISMATCH'') (\<lambda>_.
        failed (failure FK_POLICY_DENIAL ''LOCAL_OPERATOR_SESSION_MISMATCH''
                  ''Only the deciding local operator identity may resume execution''))
      else if la_decision a = AD_DENIED then resume_denied env r c p a
      else if run_state r = WS_SUCCESS_WITH_EVIDENCE then resume_succeeded env r c
      else resume_approved env p e a r c)"

definition resume :: "environment \<Rightarrow> uuid \<Rightarrow> string \<Rightarrow> execution_completion control_result comp" where
  "resume env rid actor =
     bindc (load_run env rid) (\<lambda>l. case l of
       Inl f \<Rightarrow> failed f
     | Inr (r, c, e, p) \<Rightarrow>
         (case cp_local_approval c of
            None \<Rightarrow>
              failed (failure FK_POLICY_DENIAL ''LOCAL_APPROVAL_REQUIRED''
                        ''Protected local execution requires a durable human decision'')
          | Some a \<Rightarrow> resume_decided env actor p e a r c))"

end
