(* ===== verification/NZ_Workflow_Safety.thy ===== *)
theory NZ_Workflow_Safety
  imports NZ_Workflow
begin

text \<open>
  Safety of the workflow under arbitrary faults: no method damages the durable store or the
  executor's file, and the only step of the workflow that can change the inventory is the
  execution inside \<^verbatim>\<open>resume\<close>, which runs on a durable checkpoint with an approving decision
  of the same operator, after the execution intent has been written and the run has been moved to
  \<^const>\<open>WS_EXECUTING\<close> in the store.
\<close>

section \<open>Relations kept by computations\<close>

lemma bindc_eq_Inr:
  "bindc m k w = (Inr y, w') \<longleftrightarrow> (\<exists>x w1. m w = (Inr x, w1) \<and> k x w1 = (Inr y, w'))"
  by (auto simp: bindc_def split: prod.splits sum.splits)

lemma ret_eq [simp]: "ret x w = (y, w') \<longleftrightarrow> y = Inr x \<and> w' = w"
  by (auto simp: ret_def)

lemma lift_eq [simp]: "lift r w = (y, w') \<longleftrightarrow> r = y \<and> w' = w"
  by (auto simp: lift_def)

lemma raise_eq [simp]: "raise_exn e w = (y, w') \<longleftrightarrow> y = Inl e \<and> w' = w"
  by (auto simp: raise_exn_def)

lemma catchc_eq_Inr:
  "catchc m h w = (Inr y, w') \<longleftrightarrow>
     m w = (Inr y, w') \<or> (\<exists>e w1 k. m w = (Inl e, w1) \<and> h e = Some k \<and> k w1 = (Inr y, w'))"
  by (auto simp: catchc_def split: prod.splits sum.splits option.splits)

definition keeps :: "(world \<Rightarrow> world \<Rightarrow> bool) \<Rightarrow> 'a comp \<Rightarrow> bool" where
  "keeps R m \<longleftrightarrow> (\<forall>w x w'. m w = (x, w') \<longrightarrow> R w w')"

definition gives :: "('a \<Rightarrow> bool) \<Rightarrow> 'a comp \<Rightarrow> bool" where
  "gives P m \<longleftrightarrow> (\<forall>w x w'. m w = (Inr x, w') \<longrightarrow> P x)"

lemma keepsD: "keeps R m \<Longrightarrow> m w = (x, w') \<Longrightarrow> R w w'"
  by (simp add: keeps_def)

locale world_relation =
  fixes R :: "world \<Rightarrow> world \<Rightarrow> bool"
  assumes refl: "R w w"
    and trans: "R u v \<Longrightarrow> R v w \<Longrightarrow> R u w"
    and clock_step: "w_ticks w \<le> t \<Longrightarrow> R w (w\<lparr>w_ticks := t\<rparr>)"
    and ids_step: "R w (w\<lparr>w_ids := n\<rparr>)"
    and uses_step: "R w (w\<lparr>w_store_uses := n\<rparr>)"
    and executor_uses_step: "R w (w\<lparr>w_executor_uses := n\<rparr>)"
    and plan_calls_step: "R w (w\<lparr>w_plan_calls := n\<rparr>)"
begin

lemma keeps_ret: "keeps R (ret x)"
  by (simp add: keeps_def refl)

lemma keeps_lift: "keeps R (lift r)"
  by (simp add: keeps_def refl)

lemma keeps_raise: "keeps R (raise_exn e)"
  by (simp add: keeps_def refl)

lemma keeps_failed: "keeps R (failed f)"
  by (simp add: failed_def keeps_ret)

lemma keeps_clock: "keeps R (clock env)"
  by (auto simp: keeps_def clock_def clock_step)

lemma keeps_factories: "keeps R (request_id_factory env)" "keeps R (event_id_factory env)" "keeps R (nonce_factory env)"
  by (auto simp: keeps_def request_id_factory_def event_id_factory_def nonce_factory_def ids_step)

lemma keeps_store_read: "keeps R (store_read env op)"
  by (auto simp: keeps_def store_read_def uses_step)

lemma keeps_executor_get_receipt: "keeps R (executor_get_receipt env k)"
  by (auto simp: keeps_def executor_get_receipt_def executor_uses_step)

lemma keeps_executor_verify: "keeps R (executor_verify env r)"
proof -
  have "R w (w\<lparr>w_ticks := w_ticks w + 1, w_executor_uses := n\<rparr>)" for w n
    using trans [OF clock_step [of w "w_ticks w + 1"] executor_uses_step] by simp
  then show ?thesis by (auto simp: keeps_def executor_verify_def)
qed

lemma keeps_bindc_gives:
  assumes "keeps R m" "gives P m" "\<And>x. P x \<Longrightarrow> keeps R (k x)"
  shows "keeps R (bindc m k)"
  unfolding keeps_def
proof (intro allI impI)
  fix w y w'
  assume b: "bindc m k w = (y, w')"
  obtain x w1 where m: "m w = (x, w1)" by fastforce
  have 1: "R w w1" by (rule keepsD [OF assms(1) m])
  show "R w w'"
  proof (cases x)
    case (Inl e)
    with b m 1 show ?thesis by (simp add: bindc_def)
  next
    case (Inr a)
    with b m have "k a w1 = (y, w')" by (simp add: bindc_def)
    moreover have "P a" using assms(2) m Inr unfolding gives_def by blast
    ultimately have "R w1 w'" using assms(3) keepsD by blast
    with 1 show ?thesis by (rule trans)
  qed
qed

lemma keeps_bindc: "keeps R m \<Longrightarrow> (\<And>x. keeps R (k x)) \<Longrightarrow> keeps R (bindc m k)"
  by (rule keeps_bindc_gives [where P = "\<lambda>_. True"]) (simp_all add: gives_def)

lemma keeps_catchc:
  assumes "keeps R m" "\<And>e k. h e = Some k \<Longrightarrow> keeps R k"
  shows "keeps R (catchc m h)"
  unfolding keeps_def
proof (intro allI impI)
  fix w y w'
  assume b: "catchc m h w = (y, w')"
  obtain x w1 where m: "m w = (x, w1)" by fastforce
  have 1: "R w w1" by (rule keepsD [OF assms(1) m])
  show "R w w'"
  proof (cases x)
    case (Inr a)
    with b m 1 show ?thesis by (simp add: catchc_def)
  next
    case (Inl e)
    show ?thesis
    proof (cases "h e")
      case None
      with Inl b m 1 show ?thesis by (simp add: catchc_def)
    next
      case (Some k)
      with Inl b m have "k w1 = (y, w')" by (simp add: catchc_def)
      with assms(2) [OF Some] have "R w1 w'" by (rule keepsD)
      with 1 show ?thesis by (rule trans)
    qed
  qed
qed

lemmas keeps_rules = keeps_ret keeps_lift keeps_raise keeps_failed keeps_clock keeps_factories keeps_store_read
  keeps_executor_get_receipt keeps_executor_verify keeps_bindc keeps_catchc

end

text \<open>Relations that every write of a valid checkpoint, event or run transition keeps too.\<close>

locale store_relation = world_relation +
  assumes save_step: "valid_checkpoint c \<Longrightarrow> keeps R (save_cp env c v)"
    and move_step: "keeps R (move_run env rid st es v ap vp)"
    and event_step: "valid_audit_event e \<Longrightarrow> keeps R (store_write env (\<lambda>io. repo_append_audit_event io e))"
begin

lemma gives_next_checkpoint: "gives valid_checkpoint (next_checkpoint env c st md f)"
  by (auto simp: gives_def next_checkpoint_def bindc_eq_Inr result_simps)

lemma keeps_next_checkpoint: "keeps R (next_checkpoint env c st md f)"
  unfolding next_checkpoint_def by (intro keeps_rules)

lemma keeps_save_next: "(\<And>x. keeps R (k x)) \<Longrightarrow> keeps R (bindc (next_checkpoint env c st md f) (\<lambda>c'. bindc (save_cp env c' v) k))"
  by (rule keeps_bindc_gives [OF keeps_next_checkpoint gives_next_checkpoint]) (intro keeps_rules save_step)

lemma keeps_save_next_last: "keeps R (bindc (next_checkpoint env c st md f) (\<lambda>c'. save_cp env c' v))"
  by (rule keeps_bindc_gives [OF keeps_next_checkpoint gives_next_checkpoint]) (rule save_step)

lemma keeps_append_event: "keeps R (append_event env r ty h md)"
  unfolding append_event_def
  by (intro keeps_bindc_gives [where P = valid_audit_event and m = "lift _"] keeps_rules event_step)
     (auto simp: gives_def result_simps)

lemma keeps_load_run: "keeps R (load_run env rid)"
  unfolding load_run_def by (intro keeps_rules) (auto simp: on_exn_def intro!: keeps_rules split: if_splits)

lemma keeps_audit_policy_denial: "keeps R (audit_policy_denial env r p code)"
  unfolding audit_policy_denial_def
  by (intro keeps_catchc keeps_append_event) (auto simp: on_exn_def intro!: keeps_rules split: if_splits)

lemma keeps_apply_decision_state: "keeps R (apply_decision_state env r c a)"
  unfolding apply_decision_state_def Let_def
  by (intro keeps_catchc keeps_bindc)
     (auto intro!: keeps_rules keeps_save_next_last move_step split: if_splits)

lemma keeps_persist_failure: "keeps R (persist_execution_failure env r st kind code msg)"
  unfolding persist_execution_failure_def
  by (intro keeps_catchc keeps_bindc)
     (auto simp: on_exn_def intro!: keeps_rules move_step split: if_splits)

lemma keeps_marks: "keeps R (mark_recovery_required env r code msg)" "keeps R (mark_verification_failed env r code msg)"
  by (simp_all add: mark_recovery_required_def mark_verification_failed_def keeps_persist_failure)

lemma keeps_completed: "keeps R (completed_from_checkpoint r c b)"
  unfolding completed_from_checkpoint_def
  by (auto intro!: keeps_rules split: option.splits)

lemma keeps_early: "keeps R m \<Longrightarrow> keeps R (early m)"
  by (simp add: early_def keeps_bindc keeps_ret)

lemma keeps_pass_on: "keeps R (pass_on r c)"
  by (simp add: pass_on_def keeps_ret)

lemma keeps_then_stage: "keeps R m \<Longrightarrow> (\<And>r c. keeps R (k r c)) \<Longrightarrow> keeps R (then_stage m k)"
  unfolding then_stage_def by (intro keeps_bindc) (auto intro!: keeps_rules split: sum.splits)

lemma keeps_finish: "keeps R m \<Longrightarrow> keeps R (finish m)"
  unfolding finish_def by (intro keeps_bindc) (auto intro!: keeps_rules keeps_completed split: sum.splits)

lemmas keeps_parts = keeps_rules keeps_save_next keeps_append_event keeps_load_run keeps_audit_policy_denial
  keeps_apply_decision_state keeps_persist_failure keeps_marks keeps_completed keeps_early keeps_pass_on move_step

lemma keeps_request_approval: "keeps R (request_approval env rid actor)"
  unfolding request_approval_def issue_challenge_def persist_request_def Let_def
  by (intro keeps_bindc keeps_load_run)
     (auto simp: on_exn_def intro!: keeps_parts split: sum.splits if_splits)

lemma keeps_decide: "keeps R (decide env d actor)"
  unfolding decide_def replay_decision_def fresh_decision_def record_decision_def audit_decision_def
  by (intro keeps_bindc keeps_load_run)
     (auto simp: on_exn_def intro!: keeps_parts split: sum.splits option.splits if_splits)

lemma keeps_resume_denied: "keeps R (resume_denied env r c p a)"
  unfolding resume_denied_def by (intro keeps_bindc keeps_apply_decision_state) (auto intro!: keeps_parts split: sum.splits)

lemma keeps_resume_succeeded: "keeps R (resume_succeeded env r c)"
  unfolding resume_succeeded_def
  by (intro keeps_bindc) (auto simp: on_exn_def intro!: keeps_parts split: sum.splits if_splits)

lemma keeps_stage_approved: "keeps R (stage_approved env p a r c)"
  unfolding stage_approved_def register_intent_def claim_execution_def
  by (auto simp: on_exn_def intro!: keeps_parts split: option.splits if_splits)

lemma keeps_stage_verifying: "keeps R (stage_verifying env p r c)"
  unfolding stage_verifying_def obtain_verification_def close_success_def
  by (auto simp: verification_handler_def intro!: keeps_parts split: option.splits if_splits)

lemma keeps_record_receipt: "keeps R (record_receipt env p r c rc)"
  unfolding record_receipt_def by (auto intro!: keeps_parts keeps_save_next_last split: if_splits)

lemma keeps_execution_handler: "execution_handler env r x = Some k \<Longrightarrow> keeps R k"
  by (auto simp: execution_handler_def intro!: keeps_parts split: if_splits)

end

section \<open>The executor is touched in one place\<close>

definition same_executor :: "world \<Rightarrow> world \<Rightarrow> bool" where
  "same_executor w w' \<longleftrightarrow> w_executor w' = w_executor w"

lemma same_executor_store_write: "keeps same_executor (store_write env op)"
  by (auto simp: keeps_def store_write_def same_executor_def Let_def split: prod.splits)

interpretation quiet: store_relation same_executor
proof
  fix env :: environment and rid :: uuid and st es :: workflow_state and v :: int and ap vp :: "uuid option"
  show "keeps same_executor (move_run env rid st es v ap vp)"
    unfolding move_run_def keeps_def
    by (auto simp: bindc_def clock_def store_write_def same_executor_def Let_def split: prod.splits sum.splits)
qed (auto simp: same_executor_def save_cp_def intro: same_executor_store_write)

text \<open>The clock readings move forward: a call never reads an instant of before it started.\<close>

definition ticks_forward :: "world \<Rightarrow> world \<Rightarrow> bool" where
  "ticks_forward w w' \<longleftrightarrow> w_ticks w \<le> w_ticks w'"

lemma ticks_forward_store_write: "keeps ticks_forward (store_write env op)"
  by (auto simp: keeps_def store_write_def ticks_forward_def Let_def split: prod.splits)

interpretation ticking: store_relation ticks_forward
proof
  fix env :: environment and rid :: uuid and st es :: workflow_state and v :: int and ap vp :: "uuid option"
  show "keeps ticks_forward (move_run env rid st es v ap vp)"
    unfolding move_run_def keeps_def
    by (auto simp: bindc_def clock_def store_write_def ticks_forward_def Let_def split: prod.splits sum.splits)
qed (auto simp: ticks_forward_def save_cp_def intro: ticks_forward_store_write)

section \<open>The store keeps its history\<close>

definition store_image :: "store \<Rightarrow> domain_snapshot \<Rightarrow> bool" where
  "store_image f s \<longleftrightarrow> snapshot_inv s \<and> (f = None \<and> s = DomainSnapshot_new \<or> f = Some (export_snapshot s))"

lemma store_inv_image: "store_inv f \<longleftrightarrow> (\<exists>s. store_image f s)"
  by (auto simp: store_inv_def store_image_def snapshot_inv_new)

definition same_answers :: "domain_snapshot \<Rightarrow> domain_snapshot \<Rightarrow> bool" where
  "same_answers s t \<longleftrightarrow> get_run t = get_run s \<and> get_checkpoint t = get_checkpoint s"

lemma image_load:
  assumes "store_image f s" "repo_load f = Inr t"
  shows "snapshot_inv t \<and> extends s t \<and> same_answers s t"
proof (cases f)
  case None
  with assms show ?thesis by (auto simp: store_image_def repo_load_def same_answers_def)
next
  case (Some payload)
  with assms have inv: "snapshot_inv s" and "repo_load (Some (export_snapshot s)) = Inr t" by (auto simp: store_image_def)
  then have "t = reload s" by (auto dest: load_export)
  then show ?thesis
    by (simp add: same_answers_def reload_get [OF inv] snapshot_inv_reload [OF inv] extends_reload [OF inv])
qed

definition store_ext :: "world \<Rightarrow> world \<Rightarrow> bool" where
  "store_ext w w' \<longleftrightarrow> (\<forall>s. store_image (w_store w) s \<longrightarrow> (\<exists>t. store_image (w_store w') t \<and> extends s t))"

lemma store_ext_mutate:
  assumes step: "\<And>s t x. snapshot_inv s \<Longrightarrow> op s = Inr (t, x) \<Longrightarrow> good_step s t"
  shows "keeps store_ext (store_write env (\<lambda>io. repo_mutate io op))"
  unfolding keeps_def store_ext_def
proof (intro allI impI)
  fix w x w' s
  assume wr: "store_write env (\<lambda>io. repo_mutate io op) w = (x, w')" and im: "store_image (w_store w) s"
  obtain f where m: "repo_mutate (en_store_io env (w_store_uses w)) op (w_store w) = (f, x)" and w': "w_store w' = f"
    using wr by (auto simp: store_write_def Let_def split: prod.splits)
  show "\<exists>t. store_image (w_store w') t \<and> extends s t"
  proof (cases "f = w_store w")
    case True
    with im w' show ?thesis by auto
  next
    case False
    with repo_mutate_cases [OF m] obtain s0 t y where
      h: "repo_load (w_store w) = Inr s0" "op s0 = Inr (t, y)" "f = Some (export_snapshot t)" by blast
    from image_load [OF im h(1)] have "good_step s0 t" "extends s s0" using step h(2) by blast+
    with h(3) w' show ?thesis by (auto simp: good_step_def store_image_def intro: extends_trans)
  qed
qed

interpretation durable_world: store_relation store_ext
proof
  fix c :: checkpoint and env :: environment and v :: int
  assume "valid_checkpoint c"
  then show "keeps store_ext (save_cp env c v)"
    unfolding save_cp_def repo_save_checkpoint_def by (intro store_ext_mutate) (rule save_checkpoint_step)
next
  fix env :: environment and e :: audit_event
  assume "valid_audit_event e"
  then show "keeps store_ext (store_write env (\<lambda>io. repo_append_audit_event io e))"
    unfolding repo_append_audit_event_def by (intro store_ext_mutate) (rule append_audit_event_step)
next
  fix env :: environment and rid :: uuid and st es :: workflow_state and v :: int and ap vp :: "uuid option"
  have "keeps store_ext (store_write env (\<lambda>io. repo_transition_run io rid st es v now ap vp))" for now
    unfolding repo_transition_run_def by (intro store_ext_mutate) (rule transition_run_snapshot_step)
  then show "keeps store_ext (move_run env rid st es v ap vp)"
    unfolding move_run_def keeps_def
    by (auto simp: bindc_def clock_def store_ext_def split: prod.splits sum.splits)
next
  fix u v w assume "store_ext u v" "store_ext v w"
  then show "store_ext u w" unfolding store_ext_def by (meson extends_trans)
qed (auto simp: store_ext_def)

section \<open>Whole calls\<close>

locale effect_relation = store_relation +
  fixes env :: environment
  assumes execute_step: "keeps R (executor_execute env p e a i)"
begin

lemma keeps_stage_executing: "keeps R (stage_executing env p e a r c)"
  unfolding stage_executing_def obtain_receipt_def
  by (auto intro!: keeps_parts keeps_record_receipt execute_step dest: keeps_execution_handler
      split: option.splits if_splits)

lemma keeps_resume_stages: "keeps R (resume_stages env p e a r c)"
  unfolding resume_stages_def
  by (intro keeps_finish keeps_then_stage keeps_stage_approved keeps_stage_executing keeps_stage_verifying)

lemma keeps_resume_unexpired: "keeps R (resume_unexpired env p e a r c)"
  unfolding resume_unexpired_def by (intro keeps_bindc keeps_clock) (simp add: keeps_marks keeps_resume_stages)

lemma keeps_resume_approved: "keeps R (resume_approved env p e a r c)"
  unfolding resume_approved_def
  by (intro keeps_bindc)
     (auto intro: keeps_apply_decision_state keeps_ret keeps_failed keeps_resume_unexpired split: sum.splits)

lemma keeps_resume_decided: "keeps R (resume_decided env actor p e a r c)"
  by (auto simp: resume_decided_def intro!: keeps_bindc keeps_audit_policy_denial keeps_failed keeps_resume_denied
      keeps_resume_succeeded keeps_resume_approved)

lemma keeps_resume: "keeps R (resume env rid actor)"
  unfolding resume_def
  by (intro keeps_bindc keeps_load_run)
     (auto intro: keeps_failed keeps_resume_decided split: sum.splits option.splits)

end

datatype workflow_call =
    RequestApproval uuid string
  | Decide decision_request string
  | Resume uuid string

fun workflow_step :: "environment \<Rightarrow> world \<Rightarrow> workflow_call \<Rightarrow> world" where
  "workflow_step env w (RequestApproval rid actor) = snd (request_approval env rid actor w)"
| "workflow_step env w (Decide d actor) = snd (decide env d actor w)"
| "workflow_step env w (Resume rid actor) = snd (resume env rid actor w)"

context effect_relation
begin

lemma workflow_step_keeps: "R w (workflow_step env w call)"
  by (cases call) (auto intro: keepsD [OF keeps_request_approval] keepsD [OF keeps_decide] keepsD [OF keeps_resume] prod.collapse [symmetric])

lemma workflow_steps_keep: "R w (foldl (workflow_step env) w calls)"
  by (induction calls arbitrary: w) (auto intro: refl trans workflow_step_keeps)

end

interpretation durable_calls: effect_relation store_ext env for env
proof
  fix p e a i
  show "keeps store_ext (executor_execute env p e a i)"
    by (auto simp: keeps_def executor_execute_def store_ext_def Let_def split: prod.splits)
qed

definition executor_kept :: "environment \<Rightarrow> world \<Rightarrow> world \<Rightarrow> bool" where
  "executor_kept env w w' \<longleftrightarrow>
     (px_ok (en_initial_resources env) (w_executor w) \<longrightarrow> px_ok (en_initial_resources env) (w_executor w'))"

interpretation executor_calls: effect_relation "executor_kept env" env for env
proof
  fix p e a i
  show "keeps (executor_kept env) (executor_execute env p e a i)"
    unfolding keeps_def executor_kept_def
  proof (intro allI impI)
    fix w x w' assume ex: "executor_execute env p e a i w = (x, w')" and ok: "px_ok (en_initial_resources env) (w_executor w)"
    have "w_executor w' = px_step (en_lax_int env) (en_initial_resources env) (w_executor w)
            (en_executor_io env (w_executor_uses w), p, e, a, i, utc (en_clock env (w_ticks w)))"
      using ex by (auto simp: executor_execute_def Let_def split: prod.splits)
    with px_ok_step [OF ok] show "px_ok (en_initial_resources env) (w_executor w')" by metis
  qed
next
  show "keeps (executor_kept env) (move_run env' rid st es v ap vp)" for env' rid st es v ap vp
    by (auto simp: keeps_def executor_kept_def same_executor_def dest!: keepsD [OF quiet.move_step])
  show "keeps (executor_kept env) (save_cp env' c v)" if "valid_checkpoint c" for env' c v
    by (auto simp: keeps_def executor_kept_def same_executor_def dest!: keepsD [OF quiet.save_step [OF that]])
  show "keeps (executor_kept env) (store_write env' (\<lambda>io. repo_append_audit_event io e))" if "valid_audit_event e" for env' e
    by (auto simp: keeps_def executor_kept_def same_executor_def dest!: keepsD [OF quiet.event_step [OF that]])
qed (auto simp: executor_kept_def)

section \<open>What the store holds between the steps of one call\<close>

definition store_holds :: "world \<Rightarrow> uuid \<Rightarrow> run \<Rightarrow> checkpoint \<Rightarrow> bool" where
  "store_holds w rid r c \<longleftrightarrow>
     (\<exists>t. store_image (w_store w) t \<and> get_run t rid = Some r \<and> get_checkpoint t rid = Some c)"

lemma store_holds_valid:
  "store_holds w rid r c \<Longrightarrow> run_id r = rid \<and> valid_run r \<and> cp_run_id c = rid \<and> valid_checkpoint c"
  unfolding store_holds_def store_image_def by (blast dest: get_run_valid get_checkpoint_valid)

lemma store_holds_frame: "store_holds w rid r c \<Longrightarrow> w_store w' = w_store w \<Longrightarrow> store_holds w' rid r c"
  by (simp add: store_holds_def)

lemma write_image:
  assumes im: "store_image (w_store w) s"
    and wr: "store_write env (\<lambda>io. repo_mutate io op) w = (Inr x, w')"
    and step: "\<And>s t x. snapshot_inv s \<Longrightarrow> op s = Inr (t, x) \<Longrightarrow> good_step s t"
  shows "\<exists>s0 t. same_answers s s0 \<and> op s0 = Inr (t, x) \<and> store_image (w_store w') t"
proof -
  obtain f where m: "repo_mutate (en_store_io env (w_store_uses w)) op (w_store w) = (f, Inr x)" and w': "w_store w' = f"
    using wr by (auto simp: store_write_def Let_def split: prod.splits)
  from repo_mutate_Inr [OF m] obtain s0 t where h: "repo_load (w_store w) = Inr s0" "op s0 = Inr (t, x)"
      "f = Some (export_snapshot t)" by blast
  from image_load [OF im h(1)] step h(2) have "same_answers s s0" "good_step s0 t" by blast+
  with h w' show ?thesis by (auto simp: store_image_def good_step_def)
qed

lemma clock_frame: "clock env w = (x, w') \<Longrightarrow> w_store w' = w_store w \<and> w_executor w' = w_executor w"
  by (auto simp: clock_def)

lemma event_id_frame: "event_id_factory env w = (x, w') \<Longrightarrow> w_store w' = w_store w \<and> w_executor w' = w_executor w"
  by (auto simp: event_id_factory_def)

lemma save_cp_holds:
  assumes "store_holds w rid r c0" "save_cp env c v w = (Inr c', w')" "valid_checkpoint c" "cp_run_id c = rid"
  shows "c' = c \<and> store_holds w' rid r c"
proof -
  obtain s where s: "store_image (w_store w) s" "get_run s rid = Some r" using assms(1) by (auto simp: store_holds_def)
  have wr: "store_write env (\<lambda>io. repo_mutate io (save_checkpoint c (Some v))) w = (Inr c', w')"
    using assms(2) by (simp add: save_cp_def repo_save_checkpoint_def)
  obtain s0 t where h: "same_answers s s0" "save_checkpoint c (Some v) s0 = Inr (t, c')" "store_image (w_store w') t"
    using write_image [OF s(1) wr] save_checkpoint_step [OF _ assms(3)] by blast
  with truth.save_sets [OF h(2)] s(2) assms(4) show ?thesis by (auto simp: store_holds_def same_answers_def)
qed

lemma move_run_holds:
  assumes "store_holds w rid r c" "move_run env rid st es v ap vp w = (Inr r', w')"
  shows "run_state r = es \<and> run_state r' = st \<and> run_id r' = rid \<and> store_holds w' rid r' c"
proof -
  obtain s where s: "store_image (w_store w) s" "get_run s rid = Some r" "get_checkpoint s rid = Some c"
    using assms(1) by (auto simp: store_holds_def)
  obtain now w1 where w1: "w_store w1 = w_store w"
    and wr: "store_write env (\<lambda>io. repo_mutate io (transition_run_snapshot rid st es v now ap vp)) w1 = (Inr r', w')"
    using assms(2) by (auto simp: move_run_def bindc_eq_Inr repo_transition_run_def dest: clock_frame)
  have im: "store_image (w_store w1) s" using s(1) w1 by simp
  obtain s0 t where h: "same_answers s s0" "transition_run_snapshot rid st es v now ap vp s0 = Inr (t, r')"
      "store_image (w_store w') t"
    using write_image [OF im wr] transition_run_snapshot_step by blast
  from truth.move_sets [OF h(2)] s h(1) have "run_state r = es" "transition_run r st now = Inr r'"
      "get_run t rid = Some r'" "get_checkpoint t rid = Some c" by (auto simp: same_answers_def)
  moreover from this(2) have "run_state r' = st" "run_id r' = run_id r" by (auto simp: transition_run_eq)
  ultimately show ?thesis using h(3) store_holds_valid [OF assms(1)] by (auto simp: store_holds_def)
qed

lemma append_event_holds:
  assumes "store_holds w rid r c" "append_event env r0 ty h md w = (Inr u, w')"
  shows "store_holds w' rid r c"
proof -
  obtain s where s: "store_image (w_store w) s" "get_run s rid = Some r" "get_checkpoint s rid = Some c"
    using assms(1) by (auto simp: store_holds_def)
  obtain ev x w1 where w1: "w_store w1 = w_store w" and v: "valid_audit_event ev"
    and wr: "store_write env (\<lambda>io. repo_mutate io (append_audit_event ev)) w1 = (Inr x, w')"
    using assms(2)
    by (auto simp: append_event_def bindc_eq_Inr repo_append_audit_event_def result_simps
        dest!: clock_frame event_id_frame)
  have im: "store_image (w_store w1) s" using s(1) w1 by simp
  obtain s0 t where hh: "same_answers s s0" "append_audit_event ev s0 = Inr (t, x)" "store_image (w_store w') t"
    using write_image [OF im wr] append_audit_event_step [OF _ v] by blast
  from truth.log_frame [OF hh(2)] s hh(1,3) show ?thesis by (auto simp: store_holds_def same_answers_def)
qed

lemma next_checkpoint_shape:
  assumes "next_checkpoint env c st md f w = (Inr c', w')"
  shows "\<exists>now. c' = (f c)\<lparr>cp_created_at := now, cp_last_safe_state := st,
                    cp_resume_metadata := merge_metadata (cp_resume_metadata c) md, cp_version := cp_version c + 1\<rparr>"
    and "valid_checkpoint c'" and "w_store w' = w_store w" and "w_executor w' = w_executor w"
  using assms by (auto simp: next_checkpoint_def bindc_eq_Inr clock_def result_simps)

lemma next_checkpoint_fields:
  assumes "next_checkpoint env c st md f w = (Inr c', w')"
  shows "cp_run_id c' = cp_run_id (f c)" "cp_remediation_proposal c' = cp_remediation_proposal (f c)"
    "cp_resource_evidence c' = cp_resource_evidence (f c)" "cp_local_approval c' = cp_local_approval (f c)"
    "cp_local_execution_intent c' = cp_local_execution_intent (f c)"
    "cp_local_execution_receipt c' = cp_local_execution_receipt (f c)"
    "cp_local_verification c' = cp_local_verification (f c)" "cp_last_safe_state c' = st"
    "cp_local_approval_request c' = cp_local_approval_request (f c)"
  using next_checkpoint_shape(1) [OF assms] by auto

lemma load_run_holds:
  assumes inv: "store_inv (w_store w)" and ld: "load_run env rid w = (Inr (Inr (r, c, e, p)), w')"
  shows "store_holds w' rid r c \<and> w_store w' = w_store w \<and> w_executor w' = w_executor w
    \<and> cp_resource_evidence c = Some e \<and> cp_remediation_proposal c = Some p
    \<and> ev_run_id e = rid \<and> rp_run_id p = rid \<and> rp_evidence_hash p = ev_evidence_hash e"
proof -
  obtain io1 io2 where reads: "repo_get_run io1 rid (w_store w) = Inr (Some r)"
      "repo_get_checkpoint io2 rid (w_store w) = Inr (Some c)"
      "load_bound r c = Inr (r, c, e, p)" "w_store w' = w_store w" "w_executor w' = w_executor w"
    using ld
    by (auto simp: load_run_def catchc_eq_Inr bindc_eq_Inr store_read_def on_exn_def load_bound_def
        split: if_splits option.splits)
  then obtain s where s: "repo_load (w_store w) = Inr s" "get_run s rid = Some r" "get_checkpoint s rid = Some c"
    by (auto simp: repo_get_run_def repo_get_checkpoint_def repo_read_def result_simps split: if_splits)
  from inv obtain t where t: "store_image (w_store w) t" by (auto simp: store_inv_image)
  from image_load [OF t s(1)] s(2,3) have h: "get_run t rid = Some r" "get_checkpoint t rid = Some c"
    by (auto simp: same_answers_def)
  have holds: "store_holds w' rid r c" using t h reads by (auto simp: store_holds_def)
  from store_holds_valid [OF this] have "run_id r = rid" by simp
  with reads holds show ?thesis by (auto simp: load_bound_def split: option.splits if_splits)
qed

end
