(* ===== verification/NZ_Workflow_Effects.thy ===== *)
theory NZ_Workflow_Effects
  imports NZ_Workflow_Safety
begin

text \<open>What a call of the workflow's resume can do to the protected executor: the stages of a resume are followed
  with the repository content they rely on, from the loaded run to the single point where the executor is called.\<close>

section \<open>The effect of a resume\<close>

definition bound_to :: "remediation_proposal \<Rightarrow> resource_evidence \<Rightarrow> local_approval \<Rightarrow> checkpoint \<Rightarrow> bool" where
  "bound_to p e a c \<longleftrightarrow>
     cp_remediation_proposal c = Some p \<and> cp_resource_evidence c = Some e \<and> cp_local_approval c = Some a"

lemma quiet_executor: "keeps same_executor m \<Longrightarrow> m w = (x, w') \<Longrightarrow> w_executor w' = w_executor w"
  by (auto simp: same_executor_def dest: keepsD)

text \<open>A checkpoint derived from the stored one is stored in its place.\<close>

lemma save_next_holds:
  assumes "store_holds w rid r c" "next_checkpoint env c st md f w = (Inr c', w1)" "save_cp env c' v w1 = (Inr c'', w')"
    and "cp_run_id (f c) = cp_run_id c"
  shows "c'' = c' \<and> store_holds w' rid r c'"
proof -
  note n = next_checkpoint_shape(3,2) [OF assms(2)] next_checkpoint_fields(1) [OF assms(2)]
  have "store_holds w1 rid r c" using assms(1) n(1) by (rule store_holds_frame)
  moreover have "cp_run_id c' = rid" using n(3) assms(4) store_holds_valid [OF assms(1)] by metis
  ultimately show ?thesis using save_cp_holds [OF _ assms(3)] n(2) by blast
qed

lemma apply_decision_state_holds:
  assumes h: "store_holds w rid r c" and b: "bound_to p e a c"
    and ap: "apply_decision_state env r c a w = (Inr (Inr (r1, c1)), w')"
  shows "store_holds w' rid r1 c1 \<and> bound_to p e a c1 \<and> cp_local_approval_request c1 = cp_local_approval_request c
    \<and> (run_state r = WS_AWAITING_APPROVAL \<longrightarrow> run_state r1 = decision_state (la_decision a))
    \<and> (run_state r1 = run_state r \<or> run_state r1 = decision_state (la_decision a))
    \<and> (run_state r1 = decision_state (la_decision a)
        \<or> la_decision a = AD_APPROVED \<and> run_state r1 \<in> APPROVED_DECISION_DOWNSTREAM_STATES)"
proof -
  let ?T = "decision_state (la_decision a)"
  let ?down = "la_decision a = AD_APPROVED \<and> run_state r \<in> APPROVED_DECISION_DOWNSTREAM_STATES"
  have rid: "run_id r = rid" using store_holds_valid [OF h] by simp
  from ap obtain w1 where
    m: "(if run_state r \<noteq> ?T \<and> \<not> ?down then
           (if run_state r \<noteq> WS_AWAITING_APPROVAL then raise_exn StorageConflictError
            else move_run env (run_id r) ?T WS_AWAITING_APPROVAL (run_version r) (Some (la_proposal_id a)) None)
         else ret r) w = (Inr r1, w1)"
    and s: "(if \<not> ?down \<and> cp_last_safe_state c \<noteq> ?T then
           bindc (next_checkpoint env c ?T [(''phase'', ''LOCAL_2''), (''local_decision'', approval_decision_value (la_decision a))]
                    (\<lambda>c. c)) (\<lambda>c'. save_cp env c' (cp_version c))
         else ret c) w1 = (Inr c1, w')"
    by (auto simp: apply_decision_state_def Let_def catchc_eq_Inr bindc_eq_Inr split: if_splits)
  have await: "WS_AWAITING_APPROVAL \<noteq> ?T" "WS_AWAITING_APPROVAL \<notin> APPROVED_DECISION_DOWNSTREAM_STATES"
    by (simp_all add: decision_state_def APPROVED_DECISION_DOWNSTREAM_STATES_def)
  have r1: "store_holds w1 rid r1 c \<and> (run_state r = WS_AWAITING_APPROVAL \<longrightarrow> run_state r1 = ?T)
      \<and> (run_state r1 = run_state r \<or> run_state r1 = ?T)
      \<and> (run_state r1 = ?T \<or> la_decision a = AD_APPROVED \<and> run_state r1 \<in> APPROVED_DECISION_DOWNSTREAM_STATES)"
  proof (cases "run_state r \<noteq> ?T \<and> \<not> ?down")
    case True
    with m have "move_run env rid ?T WS_AWAITING_APPROVAL (run_version r) (Some (la_proposal_id a)) None w = (Inr r1, w1)"
      by (auto simp: rid split: if_splits)
    from move_run_holds [OF h this] show ?thesis by simp
  next
    case False
    with m h await show ?thesis by (auto split: if_splits)
  qed
  show ?thesis
  proof (cases "\<not> ?down \<and> cp_last_safe_state c \<noteq> ?T")
    case True
    with s obtain c' w2 where n: "next_checkpoint env c ?T [(''phase'', ''LOCAL_2''), (''local_decision'', approval_decision_value (la_decision a))]
          (\<lambda>c. c) w1 = (Inr c', w2)" "save_cp env c' (cp_version c) w2 = (Inr c1, w')"
      by (auto simp: bindc_eq_Inr split: if_splits)
    from save_next_holds [OF conjunct1 [OF r1] n] next_checkpoint_fields [OF n(1)] r1 b show ?thesis
      by (auto simp: bound_to_def)
  next
    case False
    with s r1 b show ?thesis by (auto split: if_splits)
  qed
qed

lemma register_intent_holds:
  assumes h: "store_holds w rid r c" and b: "bound_to p e a c"
    and reg: "register_intent env p a r c w = (Inr (i, c1), w')"
  shows "store_holds w' rid r c1 \<and> bound_to p e a c1 \<and> cp_local_execution_intent c1 = Some i"
proof (cases "cp_local_execution_intent c")
  case (Some j)
  with reg h b show ?thesis by (simp add: register_intent_def)
next
  case None
  let ?f = "\<lambda>c. c\<lparr>cp_local_execution_intent := Some i\<rparr>"
  obtain now w0 c' w1 w2 u where k: "clock env w = (Inr now, w0)"
    and n: "next_checkpoint env c WS_APPROVED [(''phase'', ''LOCAL_2''), (''local_execution_intent_hash'', li_intent_hash i)]
             ?f w0 = (Inr c', w1)"
    and sv: "save_cp env c' (cp_version c) w1 = (Inr c1, w2)"
    and ev: "append_event env r AET_IDEMPOTENCY_REGISTERED (li_intent_hash i)
             [(''proposal_id'', uuid_str (rp_proposal_id p))] w2 = (Inr u, w')"
    using reg None by (auto simp: register_intent_def bindc_eq_Inr)
  have "store_holds w0 rid r c" using h clock_frame [OF k] by (blast intro: store_holds_frame)
  from save_next_holds [OF this n sv] have s: "c1 = c'" "store_holds w2 rid r c'" by simp_all
  with append_event_holds [OF s(2) ev] have "store_holds w' rid r c1" by simp
  moreover have "bound_to p e a c1" "cp_local_execution_intent c1 = Some i"
    using next_checkpoint_fields [OF n] s(1) b by (auto simp: bound_to_def)
  ultimately show ?thesis by blast
qed

lemma claim_execution_holds:
  assumes h: "store_holds w rid r c" and cl: "claim_execution env p r i c w = (Inr x, w')"
  shows "\<exists>r1. x = Inr (r1, c) \<and> run_state r1 = WS_EXECUTING \<and> store_holds w' rid r1 c"
proof -
  have rid: "run_id r = rid" using store_holds_valid [OF h] by simp
  obtain r1 w1 u where m: "move_run env rid WS_EXECUTING WS_APPROVED (run_version r) None None w = (Inr r1, w1)"
    and ev: "append_event env r1 AET_EXECUTION_REQUESTED (li_intent_hash i)
             [(''proposal_id'', uuid_str (rp_proposal_id p))] w1 = (Inr u, w')" and x: "x = Inr (r1, c)"
    using cl by (auto simp: claim_execution_def bindc_eq_Inr pass_on_def rid)
  from move_run_holds [OF h m] append_event_holds [OF _ ev] x show ?thesis by blast
qed

lemma stage_approved_holds:
  assumes h: "store_holds w rid r c" and b: "bound_to p e a c"
    and st: "stage_approved env p a r c w = (Inr (Inr (r1, c1)), w')"
  shows "store_holds w' rid r1 c1 \<and> bound_to p e a c1"
proof (cases "run_state r = WS_APPROVED")
  case False
  with st h b show ?thesis by (simp add: stage_approved_def pass_on_def)
next
  case True
  then obtain i c2 w1 where reg: "register_intent env p a r c w = (Inr (i, c2), w1)"
    and cl: "claim_execution env p r i c2 w1 = (Inr (Inr (r1, c1)), w')"
    using st by (auto simp: stage_approved_def catchc_eq_Inr bindc_eq_Inr on_exn_def early_def failed_def split: if_splits)
  note g = register_intent_holds [OF h b reg]
  from claim_execution_holds [OF conjunct1 [OF g] cl] g show ?thesis by auto
qed

text \<open>Only the execution itself can change the executor.\<close>

lemma bind_then_quiet:
  assumes "catchc (bindc m k) h w = (x, w')" "\<And>y. keeps same_executor (k y)"
    and "\<And>e j. h e = Some j \<Longrightarrow> keeps same_executor j"
  shows "\<exists>y w1. m w = (y, w1) \<and> w_executor w' = w_executor w1"
proof -
  obtain y w1 where m: "m w = (y, w1)" by fastforce
  have "same_executor w1 w'"
  proof (cases y)
    case (Inr b)
    obtain z w2 where k: "k b w1 = (z, w2)" by fastforce
    have q: "same_executor w1 w2" by (rule keepsD [OF assms(2) k])
    show ?thesis
    proof (cases z)
      case (Inl err)
      show ?thesis
      proof (cases "h err")
        case None
        with assms(1) m Inr k Inl q show ?thesis by (simp add: catchc_def bindc_def)
      next
        case (Some j)
        with assms(1) m Inr k Inl have "j w2 = (x, w')" by (simp add: catchc_def bindc_def)
        with keepsD [OF assms(3) [OF Some]] q show ?thesis by (auto simp: same_executor_def)
      qed
    next
      case (Inr v)
      with assms(1) m \<open>y = Inr b\<close> k q show ?thesis by (simp add: catchc_def bindc_def)
    qed
  next
    case (Inl err)
    show ?thesis
    proof (cases "h err")
      case None
      with assms(1) m Inl show ?thesis by (simp add: catchc_def bindc_def same_executor_def)
    next
      case (Some j)
      with assms(1) m Inl have "j w1 = (x, w')" by (simp add: catchc_def bindc_def)
      with keepsD [OF assms(3) [OF Some]] show ?thesis by blast
    qed
  qed
  with m show ?thesis by (auto simp: same_executor_def)
qed

lemma stage_executing_effect:
  assumes "stage_executing env p e a r c w = (x, w')" "w_executor w' \<noteq> w_executor w"
  shows "run_state r = WS_EXECUTING
    \<and> (\<exists>i w2 y w3. cp_local_execution_intent c = Some i \<and> executor_execute env p e a i w2 = (y, w3)
        \<and> w_store w2 = w_store w \<and> w_executor w2 = w_executor w \<and> w_executor w' = w_executor w3)"
proof (cases "run_state r = WS_EXECUTING")
  case False
  with assms show ?thesis by (simp add: stage_executing_def pass_on_def)
next
  case True
  show ?thesis
  proof (cases "cp_local_execution_intent c")
    case None
    with assms True quiet_executor [OF quiet.keeps_early [OF quiet.keeps_marks(1)]] show ?thesis
      by (simp add: stage_executing_def)
  next
    case (Some i)
    have ex: "catchc (bindc (obtain_receipt env p e a i c) (record_receipt env p r c)) (execution_handler env r) w = (x, w')"
      using assms(1) True Some by (simp add: stage_executing_def)
    obtain y w1 where m: "obtain_receipt env p e a i c w = (y, w1)" "w_executor w' = w_executor w1"
      using bind_then_quiet [OF ex quiet.keeps_record_receipt] quiet.keeps_execution_handler by blast
    show ?thesis
    proof (cases "cp_local_execution_receipt c")
      case (Some rc)
      with m assms(2) show ?thesis by (simp add: obtain_receipt_def)
    next
      case None
      obtain f w2 where g: "executor_get_receipt env (li_idempotency_key i) w = (f, w2)" by fastforce
      then have fr: "w_store w2 = w_store w" "w_executor w2 = w_executor w" by (auto simp: executor_get_receipt_def)
      from m None g have "(case f of Inl er \<Rightarrow> (Inl er, w2) | Inr found \<Rightarrow>
          (case found of Some rc \<Rightarrow> ret rc | None \<Rightarrow> executor_execute env p e a i) w2) = (y, w1)"
        by (simp add: obtain_receipt_def bindc_def split: sum.splits)
      with m(2) fr assms(2) True \<open>cp_local_execution_intent c = Some i\<close> show ?thesis
        by (cases f) (auto split: option.splits)
    qed
  qed
qed

lemma bind_first_quiet:
  assumes "bindc m k w = (x, w')" "keeps same_executor m" "w_executor w' \<noteq> w_executor w"
  shows "\<exists>y w1. m w = (Inr y, w1) \<and> k y w1 = (x, w') \<and> w_executor w1 = w_executor w"
proof -
  obtain y w1 where m: "m w = (y, w1)" by fastforce
  have q: "w_executor w1 = w_executor w" by (rule quiet_executor [OF assms(2) m])
  show ?thesis
  proof (cases y)
    case (Inl e)
    with assms(1) m q assms(3) show ?thesis by (simp add: bindc_def)
  next
    case (Inr z)
    with assms(1) m q show ?thesis by (auto simp: bindc_def)
  qed
qed

text \<open>The point of a resume from which an effect can still follow.\<close>

definition ready_to_execute ::
  "environment \<Rightarrow> nat \<Rightarrow> uuid \<Rightarrow> string \<Rightarrow> world \<Rightarrow> run \<Rightarrow> checkpoint \<Rightarrow> remediation_proposal \<Rightarrow> resource_evidence \<Rightarrow> local_approval \<Rightarrow> bool" where
  "ready_to_execute env t rid actor w r c p e a \<longleftrightarrow>
     store_holds w rid r c \<and> bound_to p e a c \<and> la_actor_session_id a = actor \<and> la_decision a = AD_APPROVED
     \<and> rp_run_id p = rid \<and> rp_evidence_hash p = ev_evidence_hash e
     \<and> (\<exists>n\<ge>t. en_clock env n \<le> dt_micros (rp_expires_at p))"

lemma resume_unexpired_ready:
  assumes rs: "resume_unexpired env p e a r c w = (res, w')" and ch: "w_executor w' \<noteq> w_executor w"
    and t: "t \<le> w_ticks w" and h: "store_holds w rid r c" "bound_to p e a c"
    and ok: "la_actor_session_id a = actor" "la_decision a = AD_APPROVED" "rp_run_id p = rid"
      "rp_evidence_hash p = ev_evidence_hash e"
  shows "\<exists>w0. ready_to_execute env t rid actor w0 r c p e a \<and> w_executor w0 = w_executor w
           \<and> resume_stages env p e a r c w0 = (res, w')"
proof -
  from bind_first_quiet [OF rs [unfolded resume_unexpired_def] quiet.keeps_clock ch] obtain now w1 where
    c: "clock env w = (Inr now, w1)" "w_executor w1 = w_executor w"
    and k: "(if dt_micros (rp_expires_at p) < dt_micros now then
              mark_recovery_required env r ''LOCAL_APPROVAL_EXPIRED_BEFORE_EXECUTION''
                ''Approved proposal expired before protected execution''
            else resume_stages env p e a r c) w1 = (res, w')" by blast
  have live: "\<not> dt_micros (rp_expires_at p) < dt_micros now"
    using k ch c(2) quiet_executor [OF quiet.keeps_marks(1)] by (auto split: if_splits)
  then have "en_clock env (w_ticks w) \<le> dt_micros (rp_expires_at p)" using c(1) by (auto simp: clock_def)
  then have "\<exists>n\<ge>t. en_clock env n \<le> dt_micros (rp_expires_at p)" using t by blast
  moreover have "store_holds w1 rid r c" using h(1) clock_frame [OF c(1)] by (blast intro: store_holds_frame)
  ultimately have "ready_to_execute env t rid actor w1 r c p e a" using h(2) ok by (simp add: ready_to_execute_def)
  moreover have "resume_stages env p e a r c w1 = (res, w')" using k live by simp
  ultimately show ?thesis using c(2) by blast
qed

lemma resume_approved_ready:
  assumes rs: "resume_approved env p e a r c w = (res, w')" and ch: "w_executor w' \<noteq> w_executor w"
    and t: "t \<le> w_ticks w" and h: "store_holds w rid r c" "bound_to p e a c"
    and ok: "la_actor_session_id a = actor" "la_decision a = AD_APPROVED" "rp_run_id p = rid"
      "rp_evidence_hash p = ev_evidence_hash e"
  shows "\<exists>w0 r1 c1. ready_to_execute env t rid actor w0 r1 c1 p e a \<and> w_executor w0 = w_executor w
           \<and> resume_stages env p e a r1 c1 w0 = (res, w')"
proof -
  let ?m = "if run_state r = WS_AWAITING_APPROVAL then apply_decision_state env r c a else ret (Inr (r, c))"
  have q: "keeps same_executor ?m" "keeps ticks_forward ?m"
    by (simp_all add: quiet.keeps_apply_decision_state quiet.keeps_ret ticking.keeps_apply_decision_state ticking.keeps_ret)
  from bind_first_quiet [OF rs [unfolded resume_approved_def] q(1) ch] obtain x w1 where
    x: "?m w = (Inr x, w1)" "w_executor w1 = w_executor w"
    and k: "(case x of Inl f \<Rightarrow> failed f | Inr (r1, c1) \<Rightarrow> resume_unexpired env p e a r1 c1) w1 = (res, w')" by blast
  have ch1: "w_executor w' \<noteq> w_executor w1" using ch x(2) by simp
  obtain r1 c1 where x1: "x = Inr (r1, c1)" using k ch1 quiet_executor [OF quiet.keeps_failed] by (cases x) auto
  have h1: "store_holds w1 rid r1 c1" "bound_to p e a c1"
    using x(1) x1 h apply_decision_state_holds [OF h, of env r1 c1 w1] by (auto split: if_splits)
  have "t \<le> w_ticks w1" using t keepsD [OF q(2) x(1)] by (simp add: ticks_forward_def)
  moreover have "resume_unexpired env p e a r1 c1 w1 = (res, w')" using k x1 by simp
  ultimately show ?thesis using resume_unexpired_ready [OF _ ch1 _ h1 ok] x(2) by metis
qed

lemma resume_decided_approved:
  assumes rs: "resume_decided env actor p e a r c w = (res, w')" and ch: "w_executor w' \<noteq> w_executor w"
  shows "la_actor_session_id a = actor \<and> la_decision a = AD_APPROVED \<and> resume_approved env p e a r c w = (res, w')"
proof -
  have "keeps same_executor (bindc (audit_policy_denial env r p d) (\<lambda>_. failed f) :: execution_completion control_result comp)" for d f
    by (intro quiet.keeps_bindc quiet.keeps_audit_policy_denial quiet.keeps_failed)
  then have "la_actor_session_id a = actor"
    using rs ch quiet_executor by (fastforce simp: resume_decided_def split: if_splits)
  moreover have "la_decision a \<noteq> AD_DENIED" "run_state r \<noteq> WS_SUCCESS_WITH_EVIDENCE"
    using rs ch calculation quiet_executor [OF quiet.keeps_resume_denied] quiet_executor [OF quiet.keeps_resume_succeeded]
    by (auto simp: resume_decided_def split: if_splits)
  ultimately show ?thesis using rs by (cases "la_decision a") (auto simp: resume_decided_def)
qed

lemma resume_reaches_stages:
  assumes inv: "store_inv (w_store w)" and rs: "resume env rid actor w = (res, w')"
    and ch: "w_executor w' \<noteq> w_executor w"
  shows "\<exists>w0 r c e p a. ready_to_execute env (w_ticks w) rid actor w0 r c p e a \<and> w_executor w0 = w_executor w
           \<and> resume_stages env p e a r c w0 = (res, w')"
proof -
  from bind_first_quiet [OF rs [unfolded resume_def] quiet.keeps_load_run ch] obtain l w1 where
    l: "load_run env rid w = (Inr l, w1)" "w_executor w1 = w_executor w"
    and k: "(case l of Inl f \<Rightarrow> failed f | Inr (r, c, e, p) \<Rightarrow>
         (case cp_local_approval c of
            None \<Rightarrow>
              failed (failure FK_POLICY_DENIAL ''LOCAL_APPROVAL_REQUIRED''
                        ''Protected local execution requires a durable human decision'')
          | Some a \<Rightarrow> resume_decided env actor p e a r c)) w1 = (res, w')" by auto
  have ch1: "w_executor w' \<noteq> w_executor w1" using ch l(2) by simp
  obtain r c e p where lr: "l = Inr (r, c, e, p)"
    using k ch1 quiet_executor [OF quiet.keeps_failed] by (cases l) auto
  note h = load_run_holds [OF inv l(1) [unfolded lr]]
  obtain a where a: "cp_local_approval c = Some a"
    using k ch1 quiet_executor [OF quiet.keeps_failed] by (cases "cp_local_approval c") (auto simp: lr)
  from k lr a have "resume_decided env actor p e a r c w1 = (res, w')" by simp
  note d = resume_decided_approved [OF this ch1]
  have "w_ticks w \<le> w_ticks w1" using keepsD [OF ticking.keeps_load_run l(1)] by (simp add: ticks_forward_def)
  moreover have "bound_to p e a c" using h a by (simp add: bound_to_def)
  ultimately show ?thesis using resume_approved_ready [of env p e a r c w1 res w' "w_ticks w" rid actor] d h l(2) ch1
    by metis
qed

lemma bind_rest_quiet:
  assumes "bindc m k w = (x, w')" "\<And>y. keeps same_executor (k y)"
  shows "\<exists>y w1. m w = (y, w1) \<and> w_executor w' = w_executor w1"
proof -
  obtain y w1 where m: "m w = (y, w1)" by fastforce
  show ?thesis
  proof (cases y)
    case (Inl e)
    with assms(1) m show ?thesis by (auto simp: bindc_def)
  next
    case (Inr z)
    with assms(1) m have "k z w1 = (x, w')" by (simp add: bindc_def)
    from quiet_executor [OF assms(2) this] m show ?thesis by auto
  qed
qed

lemma then_stage_quiet:
  assumes "then_stage m k w = (x, w')" "\<And>r c. keeps same_executor (k r c)"
  shows "\<exists>y w1. m w = (y, w1) \<and> w_executor w' = w_executor w1"
  using assms(1) unfolding then_stage_def
  by (rule bind_rest_quiet) (auto intro: assms(2) quiet.keeps_ret split: sum.splits)

lemma finish_quiet:
  assumes "finish m w = (x, w')"
  shows "\<exists>y w1. m w = (y, w1) \<and> w_executor w' = w_executor w1"
  using assms unfolding finish_def
  by (rule bind_rest_quiet) (auto intro: quiet.keeps_ret quiet.keeps_completed split: sum.splits)

lemma resume_stages_effect:
  assumes st: "resume_stages env p e a r c w = (res, w')" and ch: "w_executor w' \<noteq> w_executor w"
    and h: "store_holds w rid r c" and b: "bound_to p e a c"
  shows "\<exists>w1 r1 c1 i y w2. store_holds w1 rid r1 c1 \<and> bound_to p e a c1 \<and> run_state r1 = WS_EXECUTING
      \<and> cp_local_execution_intent c1 = Some i \<and> w_executor w1 = w_executor w
      \<and> executor_execute env p e a i w1 = (y, w2) \<and> w_executor w' = w_executor w2"
proof -
  obtain y w1 where f: "then_stage (then_stage (stage_approved env p a r c) (stage_executing env p e a)) (stage_verifying env p) w = (y, w1)"
    "w_executor w' = w_executor w1" using finish_quiet [OF st [unfolded resume_stages_def]] by blast
  obtain z w2 where g: "then_stage (stage_approved env p a r c) (stage_executing env p e a) w = (z, w2)"
    "w_executor w1 = w_executor w2" using then_stage_quiet [OF f(1) quiet.keeps_stage_verifying] by blast
  have ch2: "w_executor w2 \<noteq> w_executor w" using ch f(2) g(2) by simp
  from bind_first_quiet [OF g(1) [unfolded then_stage_def] quiet.keeps_stage_approved ch2] obtain u w3 where
    u: "stage_approved env p a r c w = (Inr u, w3)" "w_executor w3 = w_executor w"
    and k: "(case u of Inl res \<Rightarrow> ret (Inl res) | Inr (r, c) \<Rightarrow> stage_executing env p e a r c) w3 = (z, w2)" by blast
  obtain r1 c1 where r1: "u = Inr (r1, c1)" using k ch2 u(2) by (cases u) auto
  have h3: "store_holds w3 rid r1 c1" "bound_to p e a c1"
    using stage_approved_holds [OF h b] u(1) r1 by blast+
  have "stage_executing env p e a r1 c1 w3 = (z, w2)" "w_executor w2 \<noteq> w_executor w3" using k r1 ch2 u(2) by auto
  from stage_executing_effect [OF this] obtain i v y' w4 where
    i: "run_state r1 = WS_EXECUTING" "cp_local_execution_intent c1 = Some i" "executor_execute env p e a i v = (y', w4)"
      "w_store v = w_store w3" "w_executor v = w_executor w3" "w_executor w2 = w_executor w4" by blast
  have "store_holds v rid r1 c1" using h3(1) i(4) by (rule store_holds_frame)
  then show ?thesis using i h3(2) u(2) f(2) g(2) by metis
qed

text \<open>An effect on the executor by one authorised execution: the repository durably holds the run in EXECUTING with
  the bound proposal, evidence, intent and an APPROVED decision of the actor, not past expiry.\<close>

definition authorized_effect :: "environment \<Rightarrow> uuid \<Rightarrow> string \<Rightarrow> world \<Rightarrow> world \<Rightarrow> bool" where
  "authorized_effect env rid actor w w' \<longleftrightarrow>
     (\<exists>w1 r c p e a i y w2.
      store_holds w1 rid r c \<and> run_state r = WS_EXECUTING
      \<and> cp_remediation_proposal c = Some p \<and> rp_run_id p = rid
      \<and> cp_resource_evidence c = Some e \<and> rp_evidence_hash p = ev_evidence_hash e
      \<and> cp_local_approval c = Some a \<and> la_decision a = AD_APPROVED \<and> la_actor_session_id a = actor
      \<and> cp_local_execution_intent c = Some i
      \<and> (\<exists>n\<ge>w_ticks w. en_clock env n \<le> dt_micros (rp_expires_at p))
      \<and> w_executor w1 = w_executor w \<and> executor_execute env p e a i w1 = (y, w2) \<and> w_executor w' = w_executor w2)"

lemma resume_effect:
  assumes "store_inv (w_store w)" "resume env rid actor w = (res, w')" "w_executor w' \<noteq> w_executor w"
  shows "authorized_effect env rid actor w w'"
proof -
  obtain w0 r c e p a where r: "ready_to_execute env (w_ticks w) rid actor w0 r c p e a" "w_executor w0 = w_executor w"
    "resume_stages env p e a r c w0 = (res, w')" using resume_reaches_stages [OF assms] by blast
  then have "w_executor w' \<noteq> w_executor w0" using assms(3) by simp
  from resume_stages_effect [OF r(3) this] r(1,2) show ?thesis
    unfolding authorized_effect_def ready_to_execute_def bound_to_def by metis
qed


end
