(* ===== verification/NZ_Workflow_Completion.thy ===== *)
theory NZ_Workflow_Completion
  imports NZ_Workflow_Effects
begin

text \<open>What a completed resume or decision guarantees: an early exit never reports a completion, so a completion carries the run
  and the checkpoint the repository durably holds when the call returns.\<close>

section \<open>Early exits are failures\<close>

definition fails :: "'a control_result comp \<Rightarrow> bool" where
  "fails m \<longleftrightarrow> (\<forall>w w' x. m w \<noteq> (Inr (Succeeded x), w'))"

definition exits_fail :: "staged comp \<Rightarrow> bool" where
  "exits_fail m \<longleftrightarrow> (\<forall>w w' x. m w \<noteq> (Inr (Inl (Succeeded x)), w'))"

lemma failsD: "fails m \<Longrightarrow> m w = (Inr (Succeeded x), w') \<Longrightarrow> False"
  by (simp add: fails_def)

lemma exits_failD: "exits_fail m \<Longrightarrow> m w = (Inr (Inl (Succeeded x)), w') \<Longrightarrow> False"
  by (simp add: exits_fail_def)

lemma fails_failed [simp]: "fails (failed f)"
  by (simp add: fails_def failed_def)

lemma fails_bind: "(\<And>x. fails (k x)) \<Longrightarrow> fails (bindc m k)"
  by (auto simp: fails_def bindc_eq_Inr)

lemma fails_catch: "fails m \<Longrightarrow> (\<And>e k. h e = Some k \<Longrightarrow> fails k) \<Longrightarrow> fails (catchc m h)"
  by (auto simp: fails_def catchc_eq_Inr)

lemma fails_persist [simp]: "fails (persist_execution_failure env r st kind code msg)"
  unfolding persist_execution_failure_def
  by (intro fails_catch fails_bind fails_failed) (auto simp: on_exn_def split: if_splits)

lemma fails_marks [simp]: "fails (mark_recovery_required env r code msg)" "fails (mark_verification_failed env r code msg)"
  by (simp_all add: mark_recovery_required_def mark_verification_failed_def)

lemma no_success [simp]: "failed f w \<noteq> (Inr (Succeeded x), w')"
  by (auto dest: failsD [OF fails_failed])

lemma no_success_recovery [simp]: "mark_recovery_required env r code msg w \<noteq> (Inr (Succeeded x), w')"
  by (auto dest: failsD [OF fails_marks(1)])

lemma exits_fail_early: "fails m \<Longrightarrow> exits_fail (early m)"
  by (auto simp: fails_def exits_fail_def early_def bindc_eq_Inr)

lemma exits_fail_pass_on [simp]: "exits_fail (pass_on r c)"
  by (simp add: exits_fail_def pass_on_def)

lemma exits_fail_bind: "(\<And>x. exits_fail (k x)) \<Longrightarrow> exits_fail (bindc m k)"
  by (auto simp: exits_fail_def bindc_eq_Inr)

lemma exits_fail_catch:
  "exits_fail m \<Longrightarrow> (\<And>e k. h e = Some k \<Longrightarrow> exits_fail k) \<Longrightarrow> exits_fail (catchc m h)"
  by (auto simp: exits_fail_def catchc_eq_Inr)

lemma exits_fail_handlers:
  "execution_handler env r x = Some k \<Longrightarrow> exits_fail k" "verification_handler env r x = Some k \<Longrightarrow> exits_fail k"
  by (auto simp: execution_handler_def verification_handler_def intro: exits_fail_early split: if_splits)

lemma exits_fail_stages:
  "exits_fail (stage_approved env p a r c)" "exits_fail (stage_executing env p e a r c)"
  "exits_fail (stage_verifying env p r c)"
  unfolding stage_approved_def stage_executing_def stage_verifying_def claim_execution_def record_receipt_def close_success_def
  by (auto intro!: exits_fail_catch exits_fail_bind exits_fail_early dest: exits_fail_handlers
      simp: on_exn_def split: option.splits if_splits)

lemma exits_fail_then: "exits_fail m \<Longrightarrow> (\<And>r c. exits_fail (k r c)) \<Longrightarrow> exits_fail (then_stage m k)"
  by (fastforce simp: exits_fail_def then_stage_def bindc_eq_Inr split: sum.splits)

section \<open>Later stages keep the stored run and checkpoint\<close>

lemma early_not_passed: "early m w = (Inr (Inr x), w') \<Longrightarrow> False"
  by (auto simp: early_def bindc_eq_Inr)

lemma handlers_exit:
  "execution_handler env r x = Some k \<Longrightarrow> k w = (Inr (Inr y), w') \<Longrightarrow> False"
  "verification_handler env r x = Some k \<Longrightarrow> k w = (Inr (Inr y), w') \<Longrightarrow> False"
  by (auto simp: execution_handler_def verification_handler_def split: if_splits dest: early_not_passed)

lemma obtain_receipt_store: "obtain_receipt env p e a i c w = (x, w') \<Longrightarrow> w_store w' = w_store w"
  by (auto simp: obtain_receipt_def bindc_def executor_get_receipt_def executor_execute_def Let_def
      split: option.splits prod.splits sum.splits)

lemma record_receipt_holds:
  assumes h: "store_holds w rid r c" and b: "bound_to p e a c"
    and rr: "record_receipt env p r c rc w = (Inr x, w')"
  shows "\<exists>r1 c1. x = Inr (r1, c1) \<and> store_holds w' rid r1 c1 \<and> bound_to p e a c1"
proof -
  have rid: "run_id r = rid" using store_holds_valid [OF h] by simp
  from rr obtain c1 w1 r1 w2 u where
    s: "(if cp_local_execution_receipt c = None then
          bindc (next_checkpoint env c WS_APPROVED
                   [(''phase'', ''LOCAL_2''), (''local_execution_receipt_hash'', lr_receipt_hash rc)]
                   (\<lambda>c. c\<lparr>cp_local_execution_receipt := Some rc\<rparr>)) (\<lambda>c'. save_cp env c' (cp_version c))
        else ret c) w = (Inr c1, w1)"
    and m: "move_run env rid WS_VERIFYING WS_EXECUTING (run_version r) None None w1 = (Inr r1, w2)"
    and ev: "append_event env r1 AET_EXECUTION_ACKNOWLEDGED (lr_receipt_hash rc)
               [(''proposal_id'', uuid_str (rp_proposal_id p))] w2 = (Inr u, w')" and x: "x = Inr (r1, c1)"
    by (auto simp: record_receipt_def bindc_eq_Inr pass_on_def rid)
  have h1: "store_holds w1 rid r c1 \<and> bound_to p e a c1"
  proof (cases "cp_local_execution_receipt c")
    case None
    let ?f = "\<lambda>c. c\<lparr>cp_local_execution_receipt := Some rc\<rparr>"
    from s None obtain c' w0 where n: "next_checkpoint env c WS_APPROVED
          [(''phase'', ''LOCAL_2''), (''local_execution_receipt_hash'', lr_receipt_hash rc)] ?f w = (Inr c', w0)"
        "save_cp env c' (cp_version c) w0 = (Inr c1, w1)" by (auto simp: bindc_eq_Inr)
    from save_next_holds [OF h n] next_checkpoint_fields [OF n(1)] b show ?thesis by (simp add: bound_to_def)
  next
    case (Some y)
    with s h b show ?thesis by simp
  qed
  from move_run_holds [OF conjunct1 [OF h1] m] append_event_holds [OF _ ev] h1 x show ?thesis by blast
qed

lemma stage_executing_holds:
  assumes h: "store_holds w rid r c" and b: "bound_to p e a c"
    and st: "stage_executing env p e a r c w = (Inr (Inr (r1, c1)), w')"
  shows "store_holds w' rid r1 c1 \<and> bound_to p e a c1"
proof (cases "run_state r = WS_EXECUTING")
  case False
  with st h b show ?thesis by (simp add: stage_executing_def pass_on_def)
next
  case True
  with st obtain i rc w1 where i: "obtain_receipt env p e a i c w = (Inr rc, w1)"
    and rr: "record_receipt env p r c rc w1 = (Inr (Inr (r1, c1)), w')"
    by (auto simp: stage_executing_def catchc_eq_Inr bindc_eq_Inr split: option.splits
        dest: early_not_passed handlers_exit)
  have "store_holds w1 rid r c" using h obtain_receipt_store [OF i] by (rule store_holds_frame)
  from record_receipt_holds [OF this b rr] show ?thesis by auto
qed

lemma obtain_verification_holds:
  assumes h: "store_holds w rid r c" and b: "bound_to p e a c"
    and ov: "obtain_verification env rc c w = (Inr (v, c1), w')"
  shows "store_holds w' rid r c1 \<and> bound_to p e a c1"
proof (cases "cp_local_verification c")
  case (Some y)
  with ov h b show ?thesis by (simp add: obtain_verification_def)
next
  case None
  let ?f = "\<lambda>c. c\<lparr>cp_local_verification := Some v\<rparr>"
  obtain c' w1 w2 where ve: "executor_verify env rc w = (Inr v, w1)"
    and n: "next_checkpoint env c WS_APPROVED [(''phase'', ''LOCAL_2''), (''local_verification_hash'', lv_verification_hash v)]
              ?f w1 = (Inr c', w2)" "save_cp env c' (cp_version c) w2 = (Inr c1, w')"
    using ov None by (auto simp: obtain_verification_def bindc_eq_Inr)
  have "store_holds w1 rid r c" using h ve by (auto simp: executor_verify_def intro: store_holds_frame)
  from save_next_holds [OF this n] next_checkpoint_fields [OF n(1)] b show ?thesis by (simp add: bound_to_def)
qed

lemma close_success_holds:
  assumes h: "store_holds w rid r c" and b: "bound_to p e a c"
    and cs: "close_success env p r v c w = (Inr x, w')"
  shows "\<exists>r1 c1. x = Inr (r1, c1) \<and> store_holds w' rid r1 c1 \<and> bound_to p e a c1"
proof -
  have rid: "run_id r = rid" using store_holds_valid [OF h] by simp
  from cs obtain r1 w1 c' w2 c2 w3 u where
    m: "move_run env rid WS_SUCCESS_WITH_EVIDENCE WS_VERIFYING (run_version r) None (Some (rp_proposal_id p)) w = (Inr r1, w1)"
    and n: "next_checkpoint env c WS_SUCCESS_WITH_EVIDENCE
              [(''phase'', ''LOCAL_2''), (''local_outcome'', ''verified'')] (\<lambda>c. c) w1 = (Inr c', w2)"
      "save_cp env c' (cp_version c) w2 = (Inr c2, w3)"
    and ev: "append_event env r1 AET_VERIFICATION_RECORDED (lv_verification_hash v)
              [(''proposal_id'', uuid_str (rp_proposal_id p))] w3 = (Inr u, w')" and x: "x = Inr (r1, c2)"
    by (auto simp: close_success_def bindc_eq_Inr pass_on_def rid)
  have h1: "store_holds w1 rid r1 c" using move_run_holds [OF h m] by simp
  have h2: "store_holds w3 rid r1 c2" "bound_to p e a c2"
    using save_next_holds [OF h1 n] next_checkpoint_fields [OF n(1)] b by (simp_all add: bound_to_def)
  from append_event_holds [OF h2(1) ev] h2(2) x show ?thesis by blast
qed

lemma stage_verifying_holds:
  assumes h: "store_holds w rid r c" and b: "bound_to p e a c"
    and st: "stage_verifying env p r c w = (Inr (Inr (r1, c1)), w')"
  shows "store_holds w' rid r1 c1 \<and> bound_to p e a c1"
proof (cases "run_state r = WS_VERIFYING")
  case False
  with st h b show ?thesis by (simp add: stage_verifying_def pass_on_def)
next
  case True
  with st obtain rc v c2 w1 where o: "obtain_verification env rc c w = (Inr (v, c2), w1)"
    and cs: "close_success env p r v c2 w1 = (Inr (Inr (r1, c1)), w')"
    by (auto simp: stage_verifying_def catchc_eq_Inr bindc_eq_Inr split: option.splits
        dest: early_not_passed handlers_exit)
  note g = obtain_verification_holds [OF h b o]
  from close_success_holds [OF conjunct1 [OF g] conjunct2 [OF g] cs] show ?thesis by auto
qed


section \<open>Completions\<close>

text \<open>A completion comes out of the branch that did not fail.\<close>

lemma succeeds_after_failed:
  "bindc m (\<lambda>x. case x of Inl f \<Rightarrow> failed f | Inr y \<Rightarrow> k y) w = (Inr (Succeeded z), w') \<longleftrightarrow>
     (\<exists>y w1. m w = (Inr (Inr y), w1) \<and> k y w1 = (Inr (Succeeded z), w'))"
proof -
  have "(\<exists>x w1. m w = (Inr x, w1) \<and> (case x of Inl f \<Rightarrow> failed f | Inr y \<Rightarrow> k y) w1 = (Inr (Succeeded z), w'))
      \<longleftrightarrow> (\<exists>y w1. m w = (Inr (Inr y), w1) \<and> k y w1 = (Inr (Succeeded z), w'))"
    by (auto simp: failed_def split: sum.split_asm)
  then show ?thesis by (simp add: bindc_eq_Inr)
qed

lemma passed_stage:
  "then_stage m k w = (Inr (Inr y), w') \<longleftrightarrow>
     (\<exists>r c w1. m w = (Inr (Inr (r, c)), w1) \<and> k r c w1 = (Inr (Inr y), w'))"
proof -
  have "(\<exists>x w1. m w = (Inr x, w1) \<and> (case x of Inl res \<Rightarrow> ret (Inl res) | Inr (r, c) \<Rightarrow> k r c) w1 = (Inr (Inr y), w'))
      \<longleftrightarrow> (\<exists>r c w1. m w = (Inr (Inr (r, c)), w1) \<and> k r c w1 = (Inr (Inr y), w'))"
    by (auto split: sum.split_asm)
  then show ?thesis by (simp add: then_stage_def bindc_eq_Inr)
qed

lemma completed_stages:
  assumes "finish m w = (Inr (Succeeded x), w')" "exits_fail m"
  shows "\<exists>r c w1. m w = (Inr (Inr (r, c)), w1) \<and> completed_from_checkpoint r c False w1 = (Inr (Succeeded x), w')"
proof -
  obtain y w1 where m: "m w = (Inr y, w1)"
    and k: "(case y of Inl res \<Rightarrow> ret res | Inr (r, c) \<Rightarrow> completed_from_checkpoint r c False) w1 = (Inr (Succeeded x), w')"
    using assms(1) unfolding finish_def bindc_eq_Inr by blast
  show ?thesis using m k exits_failD [OF assms(2)] by (cases y) auto
qed

definition completion_stored :: "world \<Rightarrow> uuid \<Rightarrow> string \<Rightarrow> execution_completion \<Rightarrow> bool" where
  "completion_stored w rid actor x \<longleftrightarrow>
     (\<exists>r c. store_holds w rid r c \<and> run_state r = ec_final_state x \<and> ec_run_id x = rid \<and> valid_completion x
        \<and> cp_local_approval c = Some (ec_approval x) \<and> la_actor_session_id (ec_approval x) = actor
        \<and> ec_decision x = la_decision (ec_approval x)
        \<and> (ec_final_state x = WS_SUCCESS_WITH_EVIDENCE \<longrightarrow>
              ec_decision x = AD_APPROVED \<and> cp_local_execution_receipt c = ec_receipt x
              \<and> cp_local_verification c = ec_verification x))"

lemma completed_from_checkpoint_stored:
  assumes "store_holds w rid r c" "bound_to p e a c" "la_actor_session_id a = actor" "la_decision a = AD_APPROVED"
    and "completed_from_checkpoint r c b w = (Inr (Succeeded x), w')"
  shows "completion_stored w' rid actor x"
  using assms store_holds_valid [OF assms(1)]
  by (auto simp: completed_from_checkpoint_def bound_to_def bindc_eq_Inr completion_stored_def failed_def result_simps
      split: if_splits)

lemma resume_stages_stored:
  assumes h: "store_holds w rid r c" "bound_to p e a c" and ok: "la_actor_session_id a = actor" "la_decision a = AD_APPROVED"
    and st: "resume_stages env p e a r c w = (Inr (Succeeded x), w')"
  shows "completion_stored w' rid actor x"
proof -
  let ?s1 = "stage_approved env p a r c"
  let ?s2 = "then_stage ?s1 (stage_executing env p e a)"
  let ?s3 = "then_stage ?s2 (stage_verifying env p)"
  have nf: "exits_fail ?s3" "exits_fail ?s2" by (intro exits_fail_then exits_fail_stages)+
  obtain r3 c3 w3 where s3: "?s3 w = (Inr (Inr (r3, c3)), w3)"
    and fin: "completed_from_checkpoint r3 c3 False w3 = (Inr (Succeeded x), w')"
    using completed_stages [OF st [unfolded resume_stages_def] nf(1)] by blast
  obtain r2 c2 w2 where s2: "?s2 w = (Inr (Inr (r2, c2)), w2)"
    and v: "stage_verifying env p r2 c2 w2 = (Inr (Inr (r3, c3)), w3)"
    using s3 [unfolded passed_stage [of ?s2]] by blast
  obtain r1 c1 w1 where s1: "?s1 w = (Inr (Inr (r1, c1)), w1)"
    and ex: "stage_executing env p e a r1 c1 w1 = (Inr (Inr (r2, c2)), w2)"
    using s2 [unfolded passed_stage] by blast
  note h1 = stage_approved_holds [OF h s1]
  note h2 = stage_executing_holds [OF conjunct1 [OF h1] conjunct2 [OF h1] ex]
  note h3 = stage_verifying_holds [OF conjunct1 [OF h2] conjunct2 [OF h2] v]
  show ?thesis using completed_from_checkpoint_stored [OF _ _ ok fin] h3 by blast
qed

lemma resume_approved_stored:
  assumes h: "store_holds w rid r c" "bound_to p e a c" and ok: "la_actor_session_id a = actor" "la_decision a = AD_APPROVED"
    and rs: "resume_approved env p e a r c w = (Inr (Succeeded x), w')"
  shows "completion_stored w' rid actor x"
proof -
  obtain r1 c1 w1 where
    ap: "(if run_state r = WS_AWAITING_APPROVAL then apply_decision_state env r c a else ret (Inr (r, c))) w
           = (Inr (Inr (r1, c1)), w1)"
    and un: "resume_unexpired env p e a r1 c1 w1 = (Inr (Succeeded x), w')"
    using rs by (auto simp: resume_approved_def succeeds_after_failed)
  have h1: "store_holds w1 rid r1 c1" "bound_to p e a c1"
    using ap h apply_decision_state_holds [OF h, of env r1 c1 w1] by (auto split: if_splits)
  obtain now w2 where c: "clock env w1 = (Inr now, w2)" and st: "resume_stages env p e a r1 c1 w2 = (Inr (Succeeded x), w')"
    using un by (auto simp: resume_unexpired_def bindc_eq_Inr split: if_splits)
  have "store_holds w2 rid r1 c1" using h1(1) clock_frame [OF c] by (blast intro: store_holds_frame)
  from resume_stages_stored [OF this h1(2) ok st] show ?thesis .
qed

lemma resume_denied_stored:
  assumes h: "store_holds w rid r c" "bound_to p e a c" and ok: "la_actor_session_id a = actor" "la_decision a = AD_DENIED"
    and rs: "resume_denied env r c p a w = (Inr (Succeeded x), w')"
  shows "completion_stored w' rid actor x"
proof -
  obtain r1 c1 where ap: "apply_decision_state env r c a w = (Inr (Inr (r1, c1)), w')"
    and x: "x = \<lparr>ec_run_id = run_id r, ec_proposal_id = rp_proposal_id p, ec_decision = la_decision a,
                 ec_final_state = run_state r1, ec_approval = a, ec_receipt = None, ec_verification = None,
                 ec_reconciled = (run_state r = WS_DENIED_BY_HUMAN)\<rparr>" and v: "valid_completion x"
    using rs unfolding resume_denied_def succeeds_after_failed by (auto simp: bindc_eq_Inr result_simps)
  from apply_decision_state_holds [OF h ap] have "store_holds w' rid r1 c1" "bound_to p e a c1" by simp_all
  moreover have "run_id r = rid" using store_holds_valid [OF h(1)] by simp
  moreover have "ec_final_state x \<noteq> WS_SUCCESS_WITH_EVIDENCE" using v x ok by (auto simp: valid_completion_def)
  ultimately show ?thesis using x v ok by (auto simp: completion_stored_def bound_to_def)
qed

lemma resume_succeeded_stored:
  assumes h: "store_holds w rid r c" "bound_to p e a c" and ok: "la_actor_session_id a = actor" "la_decision a = AD_APPROVED"
    and rs: "resume_succeeded env r c w = (Inr (Succeeded x), w')"
  shows "completion_stored w' rid actor x"
proof (cases "cp_last_safe_state c = WS_SUCCESS_WITH_EVIDENCE")
  case True
  with rs have "completed_from_checkpoint r c True w = (Inr (Succeeded x), w')"
    by (auto simp: resume_succeeded_def bindc_eq_Inr)
  from completed_from_checkpoint_stored [OF h ok this] show ?thesis .
next
  case False
  with rs obtain c' w1 c2 w2 where n: "next_checkpoint env c WS_SUCCESS_WITH_EVIDENCE
          [(''phase'', ''LOCAL_2''), (''local_outcome'', ''verified'')] (\<lambda>c. c) w = (Inr c', w1)"
        "save_cp env c' (cp_version c) w1 = (Inr c2, w2)"
    and fin: "completed_from_checkpoint r c2 True w2 = (Inr (Succeeded x), w')"
    by (auto simp: resume_succeeded_def succeeds_after_failed bindc_eq_Inr catchc_eq_Inr on_exn_def split: if_splits)
  have "store_holds w2 rid r c2" "bound_to p e a c2"
    using save_next_holds [OF h(1) n] next_checkpoint_fields [OF n(1)] h(2) by (simp_all add: bound_to_def)
  from completed_from_checkpoint_stored [OF this ok fin] show ?thesis .
qed

text \<open>Property C2. Whatever happened before and whatever fails during the call: when resume reports a completion,
  the repository durably holds the run in the reported final state with the decision of the resuming operator; a
  reported success is of an approved proposal, with the receipt and the linked verification of the stored
  checkpoint.\<close>

theorem resume_completion_is_durable:
  assumes inv: "store_inv (w_store w)" and rs: "resume env rid actor w = (Inr (Succeeded x), w')"
  shows "\<exists>r c. store_holds w' rid r c \<and> run_state r = ec_final_state x \<and> ec_run_id x = rid
      \<and> cp_local_approval c = Some (ec_approval x) \<and> la_actor_session_id (ec_approval x) = actor
      \<and> ec_decision x = la_decision (ec_approval x)
      \<and> (ec_final_state x = WS_SUCCESS_WITH_EVIDENCE \<longrightarrow> ec_decision x = AD_APPROVED
            \<and> (\<exists>rc v. cp_local_execution_receipt c = Some rc \<and> cp_local_verification c = Some v
                 \<and> ec_receipt x = Some rc \<and> ec_verification x = Some v
                 \<and> lr_run_id rc = rid \<and> lr_proposal_id rc = ec_proposal_id x \<and> lv_receipt_hash v = lr_receipt_hash rc))"
proof -
  obtain r c e p a w1 where l: "load_run env rid w = (Inr (Inr (r, c, e, p)), w1)" and a: "cp_local_approval c = Some a"
    and d: "resume_decided env actor p e a r c w1 = (Inr (Succeeded x), w')"
    using rs unfolding resume_def succeeds_after_failed by (auto split: option.splits)
  have h: "store_holds w1 rid r c" "bound_to p e a c" using load_run_holds [OF inv l] a by (simp_all add: bound_to_def)
  have actor: "la_actor_session_id a = actor" using d by (auto simp: resume_decided_def bindc_eq_Inr split: if_splits)
  have "completion_stored w' rid actor x"
    using d actor h resume_denied_stored [OF h actor] resume_succeeded_stored [OF h actor] resume_approved_stored [OF h actor]
    by (cases "la_decision a") (auto simp: resume_decided_def split: if_splits)
  then obtain r2 c2 where "store_holds w' rid r2 c2" "run_state r2 = ec_final_state x" and x: "ec_run_id x = rid"
      "valid_completion x" "cp_local_approval c2 = Some (ec_approval x)" "la_actor_session_id (ec_approval x) = actor"
      "ec_decision x = la_decision (ec_approval x)"
    and s: "ec_final_state x = WS_SUCCESS_WITH_EVIDENCE \<Longrightarrow> ec_decision x = AD_APPROVED
        \<and> cp_local_execution_receipt c2 = ec_receipt x \<and> cp_local_verification c2 = ec_verification x"
    unfolding completion_stored_def by blast
  moreover have "\<exists>rc v. ec_receipt x = Some rc \<and> ec_verification x = Some v \<and> lr_run_id rc = rid
        \<and> lr_proposal_id rc = ec_proposal_id x \<and> lv_receipt_hash v = lr_receipt_hash rc"
    if "ec_final_state x = WS_SUCCESS_WITH_EVIDENCE"
    using s [OF that] x(1,2) by (auto simp: valid_completion_def split: option.splits)
  ultimately show ?thesis by metis
qed

section \<open>Decisions\<close>

lemma record_decision_holds:
  assumes h: "store_holds w rid r c" and rd: "record_decision env c a w = (Inr (Inr c1), w')"
  shows "store_holds w' rid r c1 \<and> cp_local_approval c1 = Some a
    \<and> cp_local_approval_request c1 = cp_local_approval_request c
    \<and> cp_remediation_proposal c1 = cp_remediation_proposal c \<and> cp_resource_evidence c1 = cp_resource_evidence c"
proof -
  let ?f = "\<lambda>c. c\<lparr>cp_local_approval := Some a\<rparr>"
  obtain c' w1 where n: "next_checkpoint env c WS_AWAITING_APPROVAL
        [(''phase'', ''LOCAL_2''), (''local_decision_hash'', la_decision_hash a)] ?f w = (Inr c', w1)"
      "save_cp env c' (cp_version c) w1 = (Inr c1, w')"
    using rd by (auto simp: record_decision_def catchc_eq_Inr bindc_eq_Inr on_exn_def split: if_splits)
  from save_next_holds [OF h n] next_checkpoint_fields [OF n(1)] show ?thesis by simp
qed

lemma audit_decision_holds:
  assumes "store_holds w rid r c" "audit_decision env r1 p q a actor w = (Inr None, w')"
  shows "store_holds w' rid r c"
  using assms append_event_holds [OF assms(1)]
  by (auto simp: audit_decision_def catchc_eq_Inr bindc_eq_Inr on_exn_def split: if_splits)

definition decision_stored :: "world \<Rightarrow> decision_request \<Rightarrow> string \<Rightarrow> approval_resolution \<Rightarrow> bool" where
  "decision_stored w d actor x \<longleftrightarrow>
     (\<exists>r c q a. store_holds w (dr_run_id d) r c \<and> cp_local_approval_request c = Some q
        \<and> decision_matches_request d actor q \<and> cp_local_approval c = Some a \<and> la_decision a = dr_decision d
        \<and> la_request_hash a = dr_request_hash d \<and> la_decision_nonce_hash a = sha256_text (dr_decision_nonce d)
        \<and> rs_decision x = dr_decision d \<and> rs_decision_hash x = la_decision_hash a
        \<and> (run_state r = decision_state (dr_decision d)
           \<or> dr_decision d = AD_APPROVED \<and> run_state r \<in> APPROVED_DECISION_DOWNSTREAM_STATES))"

lemma resolution_fields:
  "resolution r (Some a) b = Inr x \<Longrightarrow> rs_decision x = la_decision a \<and> rs_decision_hash x = la_decision_hash a"
  by (auto simp: resolution_def result_simps)

lemma replay_decision_stored:
  assumes h: "store_holds w (dr_run_id d) r c" "bound_to p e a c" and q: "cp_local_approval_request c = Some q"
    and m: "decision_matches_request d actor q"
    and rp: "replay_decision env d r c a w = (Inr (Succeeded x), w')"
  shows "decision_stored w' d actor x"
proof -
  have s: "la_request_hash a = dr_request_hash d" "la_decision a = dr_decision d"
      "la_decision_nonce_hash a = sha256_text (dr_decision_nonce d)"
    using rp by (auto simp: replay_decision_def split: if_splits)
  have "bindc (apply_decision_state env r c a) (\<lambda>x. case x of Inl f \<Rightarrow> failed f
      | Inr (final_run, _) \<Rightarrow> bindc (lift (resolution final_run (Some a) True)) (\<lambda>y. ret (Succeeded y))) w = (Inr (Succeeded x), w')"
    using rp by (auto simp: replay_decision_def split: if_splits)
  then obtain r1 c1 where ap: "apply_decision_state env r c a w = (Inr (Inr (r1, c1)), w')"
    and x: "resolution r1 (Some a) True = Inr x"
    unfolding succeeds_after_failed by (auto simp: bindc_eq_Inr)
  show ?thesis
    unfolding decision_stored_def
    using apply_decision_state_holds [OF h ap] resolution_fields [OF x] s q m unfolding bound_to_def by metis
qed

lemma fresh_decision_stored:
  assumes h: "store_holds w (dr_run_id d) r c" "cp_remediation_proposal c = Some p" "cp_resource_evidence c = Some e"
    and q: "cp_local_approval_request c = Some q" and m: "decision_matches_request d actor q"
    and fd: "fresh_decision env d actor r c p q w = (Inr (Succeeded x), w')"
  shows "decision_stored w' d actor x"
proof -
  obtain now w1 a w2 where k: "clock env w = (Inr now, w1)" and a: "LocalApprovalDecision_create q (dr_decision d) now = Inr a"
    and rest: "bindc (record_decision env c a) (\<lambda>s. case s of
         Inl f \<Rightarrow> failed f
       | Inr dc \<Rightarrow>
           bindc (apply_decision_state env r dc a) (\<lambda>x. case x of
             Inl f \<Rightarrow> failed f
           | Inr (final_run, final_cp) \<Rightarrow>
               bindc (audit_decision env final_run p q a actor) (\<lambda>z. case z of
                 Some f \<Rightarrow> failed f
               | None \<Rightarrow>
                   bindc (lift (resolution final_run (cp_local_approval final_cp) False)) (\<lambda>y. ret (Succeeded y))))) w1
         = (Inr (Succeeded x), w')"
    using fd by (auto simp: fresh_decision_def bindc_eq_Inr split: if_splits)
  obtain dc w2 r1 c1 w3 where rd: "record_decision env c a w1 = (Inr (Inr dc), w2)"
    and ap: "apply_decision_state env r dc a w2 = (Inr (Inr (r1, c1)), w3)"
    and au: "audit_decision env r1 p q a actor w3 = (Inr None, w')"
    and x: "resolution r1 (cp_local_approval c1) False = Inr x"
    using rest unfolding succeeds_after_failed by (auto simp: bindc_eq_Inr succeeds_after_failed split: option.splits)
  have "store_holds w1 (dr_run_id d) r c" using h(1) clock_frame [OF k] by (blast intro: store_holds_frame)
  note h2 = record_decision_holds [OF this rd]
  have "bound_to p e a dc" using h2 h(2,3) by (simp add: bound_to_def)
  note h3 = apply_decision_state_holds [OF conjunct1 [OF h2] this ap]
  have f: "la_decision a = dr_decision d" "la_request_hash a = lq_request_hash q" "la_decision_nonce_hash a = lq_decision_nonce_hash q"
    using a by (auto simp: LocalApprovalDecision_create_def Let_def result_simps)
  have "store_holds w' (dr_run_id d) r1 c1" using audit_decision_holds [OF conjunct1 [OF h3] au] .
  moreover have c1: "cp_local_approval c1 = Some a" "cp_local_approval_request c1 = Some q"
    using h2 h3 q by (simp_all add: bound_to_def)
  moreover have "rs_decision x = la_decision a \<and> rs_decision_hash x = la_decision_hash a"
    using resolution_fields x c1(1) by simp
  ultimately show ?thesis
    unfolding decision_stored_def using h3 f m unfolding decision_matches_request_def by metis
qed

text \<open>Property C3. When deciding reports a resolution, the repository durably holds the decision the operator made:
  it answers the stored challenge of this very operator (request, proposal, evidence and nonce), it is the decision
  that was asked for, and the run stands in the state of that decision or, for an approval that was decided
  earlier, further on its way.\<close>

theorem decide_is_durable:
  assumes inv: "store_inv (w_store w)" and dc: "decide env d actor w = (Inr (Succeeded x), w')"
  shows "\<exists>r c q a. store_holds w' (dr_run_id d) r c \<and> cp_local_approval_request c = Some q
      \<and> decision_matches_request d actor q \<and> cp_local_approval c = Some a \<and> la_decision a = dr_decision d
      \<and> la_request_hash a = dr_request_hash d \<and> la_decision_nonce_hash a = sha256_text (dr_decision_nonce d)
      \<and> rs_decision x = dr_decision d \<and> rs_decision_hash x = la_decision_hash a
      \<and> (run_state r = decision_state (dr_decision d)
         \<or> dr_decision d = AD_APPROVED \<and> run_state r \<in> APPROVED_DECISION_DOWNSTREAM_STATES)"
proof -
  obtain r c e p w1 where l: "load_run env (dr_run_id d) w = (Inr (Inr (r, c, e, p)), w1)"
    and k0: "(case cp_local_approval_request c of
            None \<Rightarrow>
              failed (failure FK_RECOVERY_REQUIREMENT ''LOCAL_APPROVAL_REQUEST_MISSING''
                        ''No durable local approval challenge exists'')
          | Some q \<Rightarrow>
              if \<not> decision_matches_request d actor q then
                bindc (audit_policy_denial env r p ''LOCAL_APPROVAL_BINDING_MISMATCH'') (\<lambda>_.
                failed (failure FK_POLICY_DENIAL ''LOCAL_APPROVAL_BINDING_MISMATCH''
                          ''Local decision does not match the durable proposal challenge''))
              else (case cp_local_approval c of
                      Some existing \<Rightarrow> replay_decision env d r c existing
                    | None \<Rightarrow> fresh_decision env d actor r c p q)) w1 = (Inr (Succeeded x), w')"
    using dc unfolding decide_def succeeds_after_failed by auto
  obtain q where q: "cp_local_approval_request c = Some q" and m: "decision_matches_request d actor q"
    and k: "(case cp_local_approval c of Some existing \<Rightarrow> replay_decision env d r c existing
              | None \<Rightarrow> fresh_decision env d actor r c p q) w1 = (Inr (Succeeded x), w')"
    using k0 by (cases "cp_local_approval_request c") (auto simp: bindc_eq_Inr split: if_splits)
  note h = load_run_holds [OF inv l]
  have "decision_stored w' d actor x"
  proof (cases "cp_local_approval c")
    case None
    with k h q m fresh_decision_stored show ?thesis by auto
  next
    case (Some a)
    then have "bound_to p e a c" using h by (simp add: bound_to_def)
    with k h q m Some replay_decision_stored show ?thesis by auto
  qed
  then show ?thesis by (simp add: decision_stored_def)
qed

section \<open>Sequences of calls\<close>

text \<open>Over any sequence of workflow calls, whatever the operators ask for and wherever reading,
  writing or synchronising fails, the repository stays well-formed and only grows.\<close>

theorem workflow_calls_keep_history:
  assumes "store_image (w_store w) s"
  shows "\<exists>t. store_image (w_store (foldl (workflow_step env) w calls)) t \<and> extends s t"
  using durable_calls.workflow_steps_keep [of w env calls] assms by (simp add: store_ext_def)

text \<open>Over any sequence of workflow calls the executor stays sound: its file can be read back and is
  well-formed, and every effect it counts has its receipt.\<close>

theorem workflow_calls_keep_executor:
  assumes "px_ok (en_initial_resources env) (w_executor w)"
  shows "px_ok (en_initial_resources env) (w_executor (foldl (workflow_step env) w calls))"
  using executor_calls.workflow_steps_keep [of env w calls] assms by (simp add: executor_kept_def)

section \<open>An expired run in a terminal state\<close>

text \<open>The expiry branch of resume moves the run to recovery without asking whether it can still move:
  for an approved run that already failed for good, a resume after the proposal's expiry ends in an uncaught
  transition error instead of a typed failure.\<close>

theorem expired_terminal_run_raises:
  assumes "repo_load (w_store w) = Inr s" "get_run s rid = Some r" "get_checkpoint s rid = Some c"
    and "load_bound r c = Inr (r, c, e, p)" "run_id r = rid" "cp_local_approval c = Some a"
    and "la_decision a = AD_APPROVED" "la_actor_session_id a = actor"
    and "ALLOWED_WORKFLOW_TRANSITIONS (run_state r) = []" "run_state r \<noteq> WS_SUCCESS_WITH_EVIDENCE"
    and io: "\<And>n. en_store_io env n = IoOk" and late: "\<And>n. dt_micros (rp_expires_at p) < en_clock env n"
  shows "fst (resume env rid actor w) = Inl WorkflowTransitionError"
proof -
  have l: "load_run env rid w = (Inr (Inr (r, c, e, p)), w\<lparr>w_store_uses := w_store_uses w + 2\<rparr>)"
    using assms(1-4) io
    by (simp add: load_run_def catchc_def bindc_def store_read_def repo_get_run_def repo_get_checkpoint_def repo_read_def ret_def)
  have n: "run_state r \<noteq> WS_AWAITING_APPROVAL" "run_state r \<noteq> WS_RECOVERY_REQUIRED" using assms(9) by auto
  have t: "transition_run_snapshot rid WS_RECOVERY_REQUIRED (run_state r) (run_version r) u None None s = Inl WorkflowTransitionError" for u
    using assms(2,9)
    by (simp add: transition_run_snapshot_def decision_guard_def success_guard_def transition_run_def
        validate_workflow_transition_def ensure_def)
  show ?thesis
    using l n t assms(1,5-8,10) io late
    by (simp add: resume_def bindc_def resume_decided_def resume_approved_def resume_unexpired_def ret_def clock_def
        mark_recovery_required_def persist_execution_failure_def move_run_def store_write_def repo_transition_run_def
        repo_mutate_def catchc_def on_exn_def is_storage_error_def)
qed

end
