(* ===== verification/NZ_Scenario.thy ===== *)
theory NZ_Scenario
  imports NZ_Workflow_Completion
begin

text \<open>
  A concrete run through the local workflow: the unattached address of the shipped fixtures, the
  evidence of its inspection, the proposal to release it, the challenge, the operator's approval,
  the execution intent and the receipt. The records are the ones the create functions of the
  contracts build; their digests stay symbolic. The scenario meets the hypotheses of the theorems
  of the components and instantiates them.
\<close>

section \<open>The records\<close>

definition sc_rid :: uuid where "sc_rid = 0x01900000000070008000000000000001"
definition sc_tid :: uuid where "sc_tid = 0x01900000000070008000000000000002"
definition sc_cid :: uuid where "sc_cid = 0x01900000000070008000000000000003"
definition sc_pid :: uuid where "sc_pid = 0x01900000000070008000000000000004"
definition sc_qid :: uuid where "sc_qid = 0x01900000000070008000000000000005"
definition sc_eid :: uuid where "sc_eid = 0x01900000000070008000000000000006"

lemma sc_ids [simp]: "uuid7 sc_rid" "uuid7 sc_tid" "uuid7 sc_cid" "uuid7 sc_pid" "uuid7 sc_qid" "uuid7 sc_eid"
  by code_simp+

definition sc_eip :: cloud_resource where
  "sc_eip = hd default_mock_resources"

definition sc_actor :: string where "sc_actor = ''operator-1''"
definition sc_nonce :: string where "sc_nonce = ''0123456789abcdef''"

definition sc_budget :: budget_counters where
  "sc_budget = \<lparr>max_turns = 20, max_tokens = 100000, max_elapsed_seconds = 600, turns_used = 0, tokens_used = 0,
                elapsed_milliseconds_used = 0\<rparr>"

definition sc_run :: "workflow_state \<Rightarrow> run" where
  "sc_run st = \<lparr>run_id = sc_rid, trace_id = sc_tid, correlation_id = sc_cid,
     run_idempotency_key = ''run-key-0123456789'', run_state = st, run_created_at = utc 0, run_updated_at = utc 100,
     run_budget = sc_budget, run_version = 5\<rparr>"

lemma sc_run_sel [simp]:
  "run_id (sc_run st) = sc_rid" "run_state (sc_run st) = st" "run_version (sc_run st) = 5"
  "trace_id (sc_run st) = sc_tid" "correlation_id (sc_run st) = sc_cid" "run_updated_at (sc_run st) = utc 100"
  by (simp_all add: sc_run_def)

lemma sc_key_ok: "idempotency_key ''run-key-0123456789''"
  by code_simp

lemma sc_run_valid [simp]: "valid_run (sc_run st)"
  by (simp add: valid_run_def sc_run_def sc_key_ok valid_budget_def sc_budget_def)

definition sc_provenance :: resource_provenance where
  "sc_provenance = \<lparr>pv_run_id = sc_rid, pv_trace_id = sc_tid, pv_correlation_id = sc_cid, pv_adapter = ''portable'',
     pv_resource_type = CRT_ELASTIC_IP, pv_resource_id = MOCK_UNATTACHED_EIP_ID,
     pv_observed_fields = [''association_id''], pv_observed_at = utc 10\<rparr>"

lemma sc_text [simp]:
  "short_identifier ''portable''" "short_identifier MOCK_UNATTACHED_EIP_ID" "non_empty_text ''association_id''"
  "short_identifier ''allocation_id''" "non_empty_text ''Release the unattached address''" "short_identifier sc_actor"
  by code_simp+

lemma sc_eip_valid [simp]: "valid_resource sc_eip"
  by code_simp

lemma sc_eip_eq:
  "sc_eip = ElasticIpResource
     \<lparr>eip_id = MOCK_UNATTACHED_EIP_ID, eip_region = MOCK_REGION, eip_public_ip = ''198.51.100.42'',
      eip_association_id = None, eip_tags = [(''Environment'', ''hackathon''), (''Owner'', ''platform'')]\<rparr>"
  by (simp add: sc_eip_def default_mock_resources_def)

lemma sc_provenance_valid [simp]: "valid_provenance sc_provenance"
  by (simp add: valid_provenance_def sc_provenance_def)

definition sc_evidence0 :: resource_evidence where
  "sc_evidence0 = \<lparr>ev_run_id = sc_rid, ev_trace_id = sc_tid, ev_correlation_id = sc_cid, ev_resource = sc_eip,
     ev_findings = [CF_UNATTACHED_ELASTIC_IP], ev_provenance = sc_provenance, ev_observed_at = utc 10,
     ev_evidence_hash = ZERO_HASH\<rparr>"

definition sc_evidence :: resource_evidence where
  "sc_evidence = sc_evidence0\<lparr>ev_evidence_hash := digest (evidence_payload sc_evidence0)\<rparr>"

lemma sc_evidence_valid [simp]: "valid_evidence sc_evidence"
  by (simp add: valid_evidence_def sc_evidence_def sc_evidence0_def evidence_payload_def)
     (simp add: sc_provenance_def sc_eip_eq)

definition sc_proposal0 :: remediation_proposal where
  "sc_proposal0 = \<lparr>rp_proposal_id = sc_pid, rp_run_id = sc_rid, rp_correlation_id = sc_cid,
     rp_operation_type = RO_RELEASE_ELASTIC_IP, rp_target_resource_type = CRT_ELASTIC_IP,
     rp_target_resource_id = MOCK_UNATTACHED_EIP_ID,
     rp_normalized_parameters = [(''allocation_id'', JStr MOCK_UNATTACHED_EIP_ID)],
     rp_authority_class = AG_PLAN_AND_CONFIRM, rp_evidence_hash = ev_evidence_hash sc_evidence,
     rp_evidence_fingerprint = stable_fingerprint sc_evidence, rp_risk_summary = ''Release the unattached address'',
     rp_created_at = utc 20, rp_expires_at = utc 1000, rp_proposal_hash = ZERO_HASH, rp_status = PS_AWAITING_APPROVAL,
     rp_version = 2\<rparr>"

definition sc_proposal :: remediation_proposal where
  "sc_proposal = sc_proposal0\<lparr>rp_proposal_hash := digest (action_payload sc_proposal0)\<rparr>"

lemma sc_proposal_valid [simp]: "valid_remediation_proposal sc_proposal"
  by (simp add: valid_remediation_proposal_def sc_proposal_def sc_proposal0_def action_payload_def sc_evidence_def
      stable_fingerprint_def)

definition sc_request0 :: local_approval_request where
  "sc_request0 = \<lparr>lq_request_id = sc_qid, lq_proposal_id = sc_pid, lq_run_id = sc_rid, lq_correlation_id = sc_cid,
     lq_proposal_hash = rp_proposal_hash sc_proposal, lq_evidence_hash = rp_evidence_hash sc_proposal,
     lq_proposal_version = 2, lq_operation_type = RO_RELEASE_ELASTIC_IP, lq_target_resource_type = CRT_ELASTIC_IP,
     lq_target_resource_id = MOCK_UNATTACHED_EIP_ID, lq_actor_session_id = sc_actor,
     lq_decision_nonce_hash = sha256_text sc_nonce, lq_requested_at = utc 30, lq_expires_at = utc 900,
     lq_request_hash = ZERO_HASH\<rparr>"

definition sc_request :: local_approval_request where
  "sc_request = sc_request0\<lparr>lq_request_hash := digest (request_binding_payload sc_request0)\<rparr>"

lemma sc_digests [simp]:
  "sha256_digest (rp_proposal_hash sc_proposal)" "sha256_digest (rp_evidence_hash sc_proposal)"
  by (simp_all add: sc_proposal_def sc_proposal0_def sc_evidence_def)

lemma sc_request_valid [simp]: "valid_request sc_request"
  by (simp add: valid_request_def sc_request_def sc_request0_def request_binding_payload_def)

definition sc_approval0 :: "approval_decision \<Rightarrow> local_approval" where
  "sc_approval0 d = \<lparr>la_request_id = sc_qid, la_proposal_id = sc_pid, la_run_id = sc_rid,
     la_request_hash = lq_request_hash sc_request, la_proposal_hash = rp_proposal_hash sc_proposal,
     la_evidence_hash = rp_evidence_hash sc_proposal, la_proposal_version = 2, la_decision = d,
     la_actor_session_id = sc_actor, la_decision_nonce_hash = sha256_text sc_nonce, la_decided_at = utc 40,
     la_decision_hash = ZERO_HASH\<rparr>"

definition sc_approval :: "approval_decision \<Rightarrow> local_approval" where
  "sc_approval d = (sc_approval0 d)\<lparr>la_decision_hash := digest (decision_binding_payload (sc_approval0 d))\<rparr>"

lemma sc_approval_valid [simp]: "valid_local_approval (sc_approval d)"
  by (simp add: valid_local_approval_def sc_approval_def sc_approval0_def decision_binding_payload_def sc_request_def)


definition sc_intent0 :: local_intent where
  "sc_intent0 = \<lparr>li_run_id = sc_rid, li_proposal_id = sc_pid, li_proposal_hash = rp_proposal_hash sc_proposal,
     li_evidence_hash = rp_evidence_hash sc_proposal, li_decision_hash = la_decision_hash (sc_approval AD_APPROVED),
     li_operation_type = RO_RELEASE_ELASTIC_IP, li_target_resource_type = CRT_ELASTIC_IP,
     li_target_resource_id = MOCK_UNATTACHED_EIP_ID, li_idempotency_key = local_exec_key sc_proposal,
     li_registered_at = utc 50, li_intent_hash = ZERO_HASH\<rparr>"

definition sc_intent :: local_intent where
  "sc_intent = sc_intent0\<lparr>li_intent_hash := digest (intent_binding_payload sc_intent0)\<rparr>"

lemma hex_identifier_tail: "hex_lower c \<Longrightarrow> identifier_tail c"
  by (auto simp: identifier_tail_def hex_lower_def ascii_alnum_def char_between_def)

lemma sc_exec_key [simp]: "idempotency_key (local_exec_key sc_proposal)"
proof -
  have "sha256_digest (rp_proposal_hash sc_proposal)" by simp
  then have "length (rp_proposal_hash sc_proposal) = 64" "list_all identifier_tail (rp_proposal_hash sc_proposal)"
    by (auto simp: sha256_digest_def list_all_iff hex_identifier_tail)
  moreover have "ascii_alnum (CHR ''l'')" "list_all identifier_tail ''ocal-exec:''" by code_simp+
  ultimately show ?thesis by (simp add: idempotency_key_def local_exec_key_def identifier_shape_def)
qed

lemma sc_decision_digest [simp]: "sha256_digest (la_decision_hash (sc_approval d))"
  by (simp add: sc_approval_def)

lemma sc_intent_valid [simp]: "valid_intent sc_intent"
  by (simp add: valid_intent_def sc_intent_def sc_intent0_def intent_binding_payload_def)

definition sc_receipt0 :: local_receipt where
  "sc_receipt0 = \<lparr>lr_run_id = sc_rid, lr_proposal_id = sc_pid, lr_proposal_hash = rp_proposal_hash sc_proposal,
     lr_evidence_hash = rp_evidence_hash sc_proposal, lr_decision_hash = la_decision_hash (sc_approval AD_APPROVED),
     lr_intent_hash = li_intent_hash sc_intent, lr_idempotency_key = local_exec_key sc_proposal,
     lr_operation_type = RO_RELEASE_ELASTIC_IP, lr_target_resource_type = CRT_ELASTIC_IP,
     lr_target_resource_id = MOCK_UNATTACHED_EIP_ID, lr_before_resource = sc_eip, lr_after_resource = None,
     lr_executed_at = utc 60, lr_receipt_hash = ZERO_HASH\<rparr>"

definition sc_receipt :: local_receipt where
  "sc_receipt = sc_receipt0\<lparr>lr_receipt_hash := digest (receipt_payload sc_receipt0)\<rparr>"

lemma sc_intent_digest [simp]: "sha256_digest (li_intent_hash sc_intent)"
  by (simp add: sc_intent_def)

lemma sc_receipt_valid [simp]: "valid_receipt sc_receipt"
proof -
  have "receipt_effect_ok sc_receipt" "resource_type sc_eip = CRT_ELASTIC_IP" "resource_id sc_eip = MOCK_UNATTACHED_EIP_ID"
    by (simp_all add: receipt_effect_ok_def sc_receipt_def sc_receipt0_def sc_eip_eq)
  then show ?thesis by (simp add: valid_receipt_def) (simp add: sc_receipt_def sc_receipt0_def receipt_payload_def)
qed

definition sc_verification0 :: local_verification where
  "sc_verification0 = \<lparr>lv_run_id = sc_rid, lv_proposal_id = sc_pid, lv_receipt_hash = lr_receipt_hash sc_receipt,
     lv_operation_type = RO_RELEASE_ELASTIC_IP, lv_target_resource_type = CRT_ELASTIC_IP,
     lv_target_resource_id = MOCK_UNATTACHED_EIP_ID, lv_observed_absent = True, lv_observed_resource = None,
     lv_verified_at = utc 70, lv_verification_hash = ZERO_HASH\<rparr>"

definition sc_verification :: local_verification where
  "sc_verification = sc_verification0\<lparr>lv_verification_hash := digest (verification_payload sc_verification0)\<rparr>"

lemma sc_receipt_digest [simp]: "sha256_digest (lr_receipt_hash sc_receipt)"
  by (simp add: sc_receipt_def)

lemma sc_verification_valid [simp]: "valid_local_verification sc_verification"
  by (simp add: valid_local_verification_def sc_verification_def sc_verification0_def verification_payload_def)

section \<open>The execution\<close>

definition sc_inventory :: inventory where
  "sc_inventory = initial_snapshot default_mock_resources"

definition sc_inventory_after :: inventory where
  "sc_inventory_after = \<lparr>pi_resources = dict_del (key_of sc_eip) (pi_resources sc_inventory),
     pi_receipts = [(local_exec_key sc_proposal, sc_receipt)]\<rparr>"

lemma sc_inventory_get:
  "dict_get (pi_resources sc_inventory) (CRT_ELASTIC_IP, MOCK_UNATTACHED_EIP_ID, MOCK_REGION) = Some sc_eip"
  by code_simp

lemmas sc_records = sc_proposal_def sc_proposal0_def sc_evidence_def sc_evidence0_def sc_approval_def sc_approval0_def
  sc_intent_def sc_intent0_def sc_receipt_def sc_receipt0_def

lemma sc_binding: "validate_execution_binding sc_proposal sc_evidence (sc_approval AD_APPROVED) sc_intent = Inr ()"
proof -
  have "stable_fingerprint sc_evidence = rp_evidence_fingerprint sc_proposal"
    by (simp add: sc_proposal_def sc_proposal0_def)
  moreover have "local_exec_key sc_proposal = li_idempotency_key sc_intent" by (simp add: sc_intent_def sc_intent0_def)
  ultimately show ?thesis
    by (simp add: validate_execution_binding_def ensure_def)
       (simp add: sc_intent_def sc_intent0_def sc_approval_def sc_approval0_def sc_proposal_def sc_proposal0_def
         sc_evidence_def sc_evidence0_def)
qed

lemma sc_executes:
  "portable_execute (\<lambda>_. None) sc_proposal sc_evidence (sc_approval AD_APPROVED) sc_intent (utc 60) sc_inventory
     = Inr (sc_inventory_after, sc_receipt, True)"
proof -
  have none: "get_receipt (li_idempotency_key sc_intent) sc_inventory = None"
    by (simp add: get_receipt_def sc_inventory_def initial_snapshot_def)
  have key: "target_key sc_proposal sc_evidence = (CRT_ELASTIC_IP, MOCK_UNATTACHED_EIP_ID, MOCK_REGION)"
    "key_of sc_eip = (CRT_ELASTIC_IP, MOCK_UNATTACHED_EIP_ID, MOCK_REGION)"
    by (simp_all add: target_key_def key_of_def sc_proposal_def sc_proposal0_def sc_evidence_def sc_evidence0_def sc_eip_eq)
  have res: "ev_resource sc_evidence = sc_eip" by (simp add: sc_evidence_def sc_evidence0_def)
  have ef: "effect_of (\<lambda>_. None) sc_proposal sc_eip = Inr None"
    by (simp add: effect_of_def release_effect_def sc_eip_eq sc_proposal_def sc_proposal0_def ensure_def)
  have ik: "li_idempotency_key sc_intent = local_exec_key sc_proposal" by (simp add: sc_intent_def sc_intent0_def)
  have "sc_receipt0 = \<lparr>lr_run_id = rp_run_id sc_proposal, lr_proposal_id = rp_proposal_id sc_proposal,
       lr_proposal_hash = rp_proposal_hash sc_proposal, lr_evidence_hash = rp_evidence_hash sc_proposal,
       lr_decision_hash = la_decision_hash (sc_approval AD_APPROVED), lr_intent_hash = li_intent_hash sc_intent,
       lr_idempotency_key = local_exec_key sc_proposal, lr_operation_type = rp_operation_type sc_proposal,
       lr_target_resource_type = rp_target_resource_type sc_proposal,
       lr_target_resource_id = rp_target_resource_id sc_proposal, lr_before_resource = sc_eip, lr_after_resource = None,
       lr_executed_at = utc 60, lr_receipt_hash = ZERO_HASH\<rparr>"
    by (simp add: sc_receipt0_def) (simp add: sc_proposal_def sc_proposal0_def)
  then have "build_receipt sc_proposal (sc_approval AD_APPROVED) sc_intent sc_eip None (utc 60)
      = validated valid_receipt (sc_receipt0\<lparr>lr_receipt_hash := digest (receipt_payload sc_receipt0)\<rparr>)"
    unfolding build_receipt_def Let_def ik by simp
  also have "\<dots> = Inr sc_receipt" using sc_receipt_valid by (simp add: validated_def sc_receipt_def)
  finally have "build_receipt sc_proposal (sc_approval AD_APPROVED) sc_intent sc_eip None (utc 60) = Inr sc_receipt" .
  with none key res ef ik sc_inventory_get sc_binding show ?thesis
    by (simp add: portable_execute_def execute_image_fresh sc_inventory_after_def put_effect_def)
       (simp add: sc_inventory_def initial_snapshot_def)
qed

section \<open>Checkpoints and images\<close>

definition sc_checkpoint ::
  "workflow_state \<Rightarrow> approval_decision \<Rightarrow> local_intent option \<Rightarrow> local_receipt option \<Rightarrow> local_verification option \<Rightarrow> checkpoint" where
  "sc_checkpoint st d i r v =
     \<lparr>cp_run_id = sc_rid, cp_last_safe_state = st, cp_resume_metadata = [], cp_tool_result_hashes = [],
      cp_resource_evidence = Some sc_evidence, cp_remediation_proposal = Some sc_proposal,
      cp_local_approval_request = Some sc_request, cp_local_approval = Some (sc_approval d),
      cp_local_execution_intent = i, cp_local_execution_receipt = r, cp_local_verification = v,
      cp_created_at = utc 80, cp_version = 3\<rparr>"

lemma sc_evidence_sel [simp]:
  "ev_run_id sc_evidence = sc_rid" "ev_correlation_id sc_evidence = sc_cid" "ev_resource sc_evidence = sc_eip"
  "sha256_digest (ev_evidence_hash sc_evidence)"
  by (simp_all add: sc_evidence_def sc_evidence0_def)

lemma sc_proposal_sel [simp]:
  "rp_run_id sc_proposal = sc_rid" "rp_correlation_id sc_proposal = sc_cid" "rp_proposal_id sc_proposal = sc_pid"
  "rp_version sc_proposal = 2" "rp_operation_type sc_proposal = RO_RELEASE_ELASTIC_IP"
  "rp_target_resource_type sc_proposal = CRT_ELASTIC_IP" "rp_target_resource_id sc_proposal = MOCK_UNATTACHED_EIP_ID"
  "rp_expires_at sc_proposal = utc 1000" "rp_status sc_proposal = PS_AWAITING_APPROVAL"
  "rp_evidence_hash sc_proposal = ev_evidence_hash sc_evidence"
  by (simp_all add: sc_proposal_def sc_proposal0_def)

lemma sc_request_sel [simp]:
  "lq_run_id sc_request = sc_rid" "lq_correlation_id sc_request = sc_cid" "lq_proposal_id sc_request = sc_pid"
  "lq_proposal_hash sc_request = rp_proposal_hash sc_proposal" "lq_evidence_hash sc_request = rp_evidence_hash sc_proposal"
  "lq_proposal_version sc_request = 2" "lq_operation_type sc_request = RO_RELEASE_ELASTIC_IP"
  "lq_target_resource_type sc_request = CRT_ELASTIC_IP" "lq_target_resource_id sc_request = MOCK_UNATTACHED_EIP_ID"
  "lq_request_id sc_request = sc_qid" "lq_actor_session_id sc_request = sc_actor"
  "lq_decision_nonce_hash sc_request = sha256_text sc_nonce" "lq_requested_at sc_request = utc 30"
  "lq_expires_at sc_request = utc 900"
  by (simp_all add: sc_request_def sc_request0_def)

lemma sc_approval_sel [simp]:
  "la_run_id (sc_approval d) = sc_rid" "la_request_id (sc_approval d) = sc_qid"
  "la_request_hash (sc_approval d) = lq_request_hash sc_request" "la_proposal_id (sc_approval d) = sc_pid"
  "la_proposal_hash (sc_approval d) = rp_proposal_hash sc_proposal"
  "la_evidence_hash (sc_approval d) = rp_evidence_hash sc_proposal" "la_proposal_version (sc_approval d) = 2"
  "la_actor_session_id (sc_approval d) = sc_actor" "la_decision_nonce_hash (sc_approval d) = sha256_text sc_nonce"
  "la_decided_at (sc_approval d) = utc 40" "la_decision (sc_approval d) = d"
  by (simp_all add: sc_approval_def sc_approval0_def)

lemma sc_intent_sel [simp]:
  "li_run_id sc_intent = sc_rid" "li_proposal_id sc_intent = sc_pid"
  "li_proposal_hash sc_intent = rp_proposal_hash sc_proposal" "li_evidence_hash sc_intent = rp_evidence_hash sc_proposal"
  "li_decision_hash sc_intent = la_decision_hash (sc_approval AD_APPROVED)"
  "li_operation_type sc_intent = RO_RELEASE_ELASTIC_IP" "li_target_resource_type sc_intent = CRT_ELASTIC_IP"
  "li_target_resource_id sc_intent = MOCK_UNATTACHED_EIP_ID" "li_idempotency_key sc_intent = local_exec_key sc_proposal"
  "li_registered_at sc_intent = utc 50"
  by (simp_all add: sc_intent_def sc_intent0_def)

lemma sc_receipt_sel [simp]:
  "lr_run_id sc_receipt = sc_rid" "lr_proposal_id sc_receipt = sc_pid"
  "lr_proposal_hash sc_receipt = rp_proposal_hash sc_proposal" "lr_evidence_hash sc_receipt = rp_evidence_hash sc_proposal"
  "lr_decision_hash sc_receipt = la_decision_hash (sc_approval AD_APPROVED)"
  "lr_intent_hash sc_receipt = li_intent_hash sc_intent" "lr_idempotency_key sc_receipt = local_exec_key sc_proposal"
  "lr_operation_type sc_receipt = RO_RELEASE_ELASTIC_IP" "lr_target_resource_type sc_receipt = CRT_ELASTIC_IP"
  "lr_target_resource_id sc_receipt = MOCK_UNATTACHED_EIP_ID" "lr_executed_at sc_receipt = utc 60"
  "lr_after_resource sc_receipt = None"
  by (simp_all add: sc_receipt_def sc_receipt0_def)

lemma sc_verification_sel [simp]:
  "lv_run_id sc_verification = sc_rid" "lv_proposal_id sc_verification = sc_pid"
  "lv_receipt_hash sc_verification = lr_receipt_hash sc_receipt" "lv_operation_type sc_verification = RO_RELEASE_ELASTIC_IP"
  "lv_target_resource_type sc_verification = CRT_ELASTIC_IP"
  "lv_target_resource_id sc_verification = MOCK_UNATTACHED_EIP_ID" "lv_observed_resource sc_verification = None"
  "lv_verified_at sc_verification = utc 70"
  by (simp_all add: sc_verification_def sc_verification0_def)

lemma sc_checkpoint_sel [simp]:
  "cp_run_id (sc_checkpoint st d i r v) = sc_rid" "cp_last_safe_state (sc_checkpoint st d i r v) = st"
  "cp_resource_evidence (sc_checkpoint st d i r v) = Some sc_evidence"
  "cp_remediation_proposal (sc_checkpoint st d i r v) = Some sc_proposal"
  "cp_local_approval_request (sc_checkpoint st d i r v) = Some sc_request"
  "cp_local_approval (sc_checkpoint st d i r v) = Some (sc_approval d)"
  "cp_local_execution_intent (sc_checkpoint st d i r v) = i" "cp_local_execution_receipt (sc_checkpoint st d i r v) = r"
  "cp_local_verification (sc_checkpoint st d i r v) = v" "cp_version (sc_checkpoint st d i r v) = 3"
  by (simp_all add: sc_checkpoint_def)

text \<open>The stages of the checkpoint: decided, intent registered, completed.\<close>

definition sc_stage :: "local_intent option \<Rightarrow> local_receipt option \<Rightarrow> local_verification option \<Rightarrow> approval_decision \<Rightarrow> bool" where
  "sc_stage i r v d \<longleftrightarrow> (i, r, v) = (None, None, None)
     \<or> d = AD_APPROVED \<and> (i, r, v) \<in> {(Some sc_intent, None, None), (Some sc_intent, Some sc_receipt, Some sc_verification)}"

lemma sc_checkpoint_valid:
  assumes "sc_stage i r v d" "st \<notin> {WS_EXECUTING, WS_VERIFYING}"
  shows "valid_checkpoint (sc_checkpoint st d i r v)"
proof -
  let ?c = "sc_checkpoint st d i r v"
  have "proposal_bound ?c" "request_bound ?c" "approval_bound ?c"
    by (simp_all add: proposal_bound_def request_bound_def approval_bound_def)
  moreover have "intent_bound ?c" "receipt_bound ?c" "verification_bound ?c"
    using assms(1) by (auto simp: sc_stage_def intent_bound_def receipt_bound_def verification_bound_def)
  ultimately show ?thesis using assms
    by (auto simp: valid_checkpoint_def sc_stage_def sc_checkpoint_def)
qed

definition sc_image :: "run \<Rightarrow> checkpoint \<Rightarrow> domain_snapshot" where
  "sc_image r c = DomainSnapshot_new\<lparr>ds_runs := [(sc_rid, r)], ds_checkpoints := [(sc_rid, c)]\<rparr>"

lemma sc_image_get [simp]:
  "get_run (sc_image r c) = [sc_rid \<mapsto> r]" "get_checkpoint (sc_image r c) = [sc_rid \<mapsto> c]"
  "get_proposal (sc_image r c) = Map.empty" "get_approval (sc_image r c) = Map.empty"
  by (auto simp: sc_image_def getters DomainSnapshot_new_def fun_eq_iff)

lemma sc_image_inv:
  assumes "valid_run r" "run_id r = sc_rid" "valid_checkpoint c" "cp_run_id c = sc_rid"
  shows "snapshot_inv (sc_image r c)" "references_ok (sc_image r c)" "store_limits (sc_image r c)"
  using assms
  by (auto simp: snapshot_inv_def snapshot_typed_def truth_linked_def sc_image_def DomainSnapshot_new_def keyed_def
      pydict.every_def count_audit_events_def references_ok_def getters store_limits_def MAX_SNAPSHOT_RECORDS_def
      MAX_DURABLE_RUNS_def)

lemma sc_image_load:
  assumes "valid_run r" "run_id r = sc_rid" "valid_checkpoint c" "cp_run_id c = sc_rid"
  shows "repo_load (Some (export_snapshot (sc_image r c))) = Inr (sc_image r c)"
  using sc_image_inv [OF assms]
  by (simp add: repo_load_def from_export reload_def by_key_def sc_image_def DomainSnapshot_new_def)

end
