(* ===== verification/NZ_Witnesses.thy ===== *)
theory NZ_Witnesses
  imports NZ_Scenario
begin

text \<open>The theorems of the components at concrete inputs: the records, images and worlds of the scenario meet their
  hypotheses.\<close>

section \<open>The world of the scenario\<close>

definition sc_env :: "(nat \<Rightarrow> int) \<Rightarrow> (nat \<Rightarrow> io) \<Rightarrow> environment" where
  "sc_env clk io = \<lparr>en_clock = clk, en_request_id = (\<lambda>_. sc_qid), en_event_id = (\<lambda>_. sc_eid), en_nonce = (\<lambda>_. sc_nonce),
     en_request_ttl_seconds = 300, en_store_io = io, en_executor_io = (\<lambda>_. IoOk), en_lax_int = (\<lambda>_. None),
     en_initial_resources = default_mock_resources\<rparr>"

definition sc_world :: "run \<Rightarrow> checkpoint \<Rightarrow> world" where
  "sc_world r c = \<lparr>w_store = Some (export_snapshot (sc_image r c)), w_executor = px_new, w_ticks = 0, w_ids = 0,
     w_store_uses = 0, w_executor_uses = 0, w_plan_calls = 0\<rparr>"

lemma sc_env_sel [simp]:
  "en_clock (sc_env clk io) = clk" "en_store_io (sc_env clk io) = io" "en_executor_io (sc_env clk io) = (\<lambda>_. IoOk)"
  "en_lax_int (sc_env clk io) = (\<lambda>_. None)" "en_initial_resources (sc_env clk io) = default_mock_resources"
  by (simp_all add: sc_env_def)

lemma sc_world_sel [simp]:
  "w_store (sc_world r c) = Some (export_snapshot (sc_image r c))" "w_executor (sc_world r c) = px_new"
  "w_ticks (sc_world r c) = 0" "w_store_uses (sc_world r c) = 0" "w_executor_uses (sc_world r c) = 0"
  by (simp_all add: sc_world_def)

lemma sc_store_inv:
  assumes "sc_stage i r v d" "st \<notin> {WS_EXECUTING, WS_VERIFYING}"
  shows "store_inv (w_store (sc_world (sc_run rst) (sc_checkpoint st d i r v)))"
  using sc_image_inv(1) [OF sc_run_valid _ sc_checkpoint_valid [OF assms]] by (auto simp: store_inv_def)

lemma sc_load_any:
  assumes st: "sc_stage i r v d" "st \<notin> {WS_EXECUTING, WS_VERIFYING}"
    and io: "io (w_store_uses w) = IoOk" "io (Suc (w_store_uses w)) = IoOk"
    and w: "w_store w = Some (export_snapshot (sc_image (sc_run rst) (sc_checkpoint st d i r v)))"
  shows "load_run (sc_env clk io) sc_rid w
    = (Inr (Inr (sc_run rst, sc_checkpoint st d i r v, sc_evidence, sc_proposal)), w\<lparr>w_store_uses := w_store_uses w + 2\<rparr>)"
proof -
  note l = sc_image_load [OF sc_run_valid _ sc_checkpoint_valid [OF st], of rst, simplified]
  have "load_bound (sc_run rst) (sc_checkpoint st d i r v) = Inr (sc_run rst, sc_checkpoint st d i r v, sc_evidence, sc_proposal)"
    by (simp add: load_bound_def) (simp add: sc_evidence_def sc_evidence0_def)
  with l io w show ?thesis
    by (simp add: load_run_def catchc_def bindc_def store_read_def repo_get_run_def repo_get_checkpoint_def repo_read_def
        ret_def)
qed

lemma sc_load:
  assumes "sc_stage i r v d" "st \<notin> {WS_EXECUTING, WS_VERIFYING}" "io 0 = IoOk" "io 1 = IoOk"
  shows "load_run (sc_env clk io) sc_rid (sc_world (sc_run rst) (sc_checkpoint st d i r v))
    = (Inr (Inr (sc_run rst, sc_checkpoint st d i r v, sc_evidence, sc_proposal)),
       (sc_world (sc_run rst) (sc_checkpoint st d i r v))\<lparr>w_store_uses := 2\<rparr>)"
  using sc_load_any [OF assms(1,2), of io "sc_world (sc_run rst) (sc_checkpoint st d i r v)"] assms(3,4)
  by (simp add: numeral_2_eq_2)

section \<open>An execution that takes effect\<close>

definition sc_executing :: world where
  "sc_executing = sc_world (sc_run WS_EXECUTING) (sc_checkpoint WS_APPROVED AD_APPROVED (Some sc_intent) None None)"

definition sc_running :: environment where
  "sc_running = sc_env (\<lambda>_. 60) (\<lambda>_. IoOk)"

lemma sc_mock_load: "portable_load default_mock_resources None = Inr sc_inventory"
  by (simp add: portable_load_def sc_inventory_def)

lemma sc_execute_file:
  assumes "w_executor w = px_new"
  shows "executor_execute sc_running sc_proposal sc_evidence (sc_approval AD_APPROVED) sc_intent w
    = (Inr sc_receipt, w\<lparr>w_executor := px_new\<lparr>px_file := portable_write sc_inventory_after, px_execute_calls := 1,
         px_mutation_calls := 1\<rparr>, w_ticks := w_ticks w + 1, w_executor_uses := w_executor_uses w + 1\<rparr>)"
proof -
  have "execute_image (\<lambda>_. None) sc_proposal sc_evidence (sc_approval AD_APPROVED) sc_intent (utc 60) sc_inventory
      = Inr (sc_inventory_after, sc_receipt, True)"
    using sc_executes sc_binding by (simp add: portable_execute_def)
  with assms show ?thesis
    by (simp add: executor_execute_def PortableExecutor_execute_def sc_running_def sc_binding portable_read_def px_new_def
        sc_mock_load)
qed

lemma passes_through:
  "bindc (ret (Inr (r, c))) (\<lambda>x. case x of Inl res \<Rightarrow> ret (Inl res) | Inr (r, c) \<Rightarrow> k r c) w = k r c w"
  by (simp add: bindc_def ret_def)

lemma sc_resume_effect:
  assumes "resume sc_running sc_rid sc_actor w = (res, w')" "w_store w = w_store sc_executing" "w_executor w = px_new"
  shows "w_executor w' = px_new\<lparr>px_file := portable_write sc_inventory_after, px_execute_calls := 1, px_mutation_calls := 1\<rparr>"
proof -
  let ?c = "sc_checkpoint WS_APPROVED AD_APPROVED (Some sc_intent) None None"
  let ?r = "sc_run WS_EXECUTING"
  let ?a = "sc_approval AD_APPROVED"
  let ?w = "w\<lparr>w_store_uses := w_store_uses w + 2, w_ticks := w_ticks w + 1\<rparr>"
  have "load_run sc_running sc_rid w = (Inr (Inr (?r, ?c, sc_evidence, sc_proposal)), w\<lparr>w_store_uses := w_store_uses w + 2\<rparr>)"
    unfolding sc_running_def using assms(2) by (intro sc_load_any) (simp_all add: sc_stage_def sc_executing_def)
  with assms(1) have st: "resume_stages sc_running sc_proposal sc_evidence ?a ?r ?c ?w = (res, w')"
    by (simp add: resume_def bindc_def resume_decided_def resume_approved_def resume_unexpired_def clock_def ret_def
        sc_running_def)
  obtain y w1 where s1: "then_stage (then_stage (stage_approved sc_running sc_proposal ?a ?r ?c)
        (stage_executing sc_running sc_proposal sc_evidence ?a)) (stage_verifying sc_running sc_proposal) ?w = (y, w1)"
      "w_executor w' = w_executor w1"
    using finish_quiet [OF st [unfolded resume_stages_def]] by blast
  obtain y2 w2 where s2: "then_stage (stage_approved sc_running sc_proposal ?a ?r ?c)
        (stage_executing sc_running sc_proposal sc_evidence ?a) ?w = (y2, w2)" "w_executor w1 = w_executor w2"
    using then_stage_quiet [OF s1(1) quiet.keeps_stage_verifying] by blast
  have s3: "catchc (bindc (obtain_receipt sc_running sc_proposal sc_evidence ?a sc_intent ?c)
        (record_receipt sc_running sc_proposal ?r ?c)) (execution_handler sc_running ?r) ?w = (y2, w2)"
    using s2(1) by (simp add: then_stage_def stage_approved_def stage_executing_def pass_on_def passes_through)
  obtain z w3 where s4: "obtain_receipt sc_running sc_proposal sc_evidence ?a sc_intent ?c ?w = (z, w3)"
      "w_executor w2 = w_executor w3"
    using bind_then_quiet [OF s3 quiet.keeps_record_receipt] quiet.keeps_execution_handler by blast
  have "executor_get_receipt sc_running (local_exec_key sc_proposal) ?w
      = (Inr None, ?w\<lparr>w_executor_uses := w_executor_uses w + 1\<rparr>)"
    using assms(3)
    by (simp add: executor_get_receipt_def PortableExecutor_get_receipt_def portable_read_def sc_running_def
        px_new_def sc_mock_load sc_inventory_def initial_snapshot_def get_receipt_def)
  with s4(1) have "w_executor w3 = px_new\<lparr>px_file := portable_write sc_inventory_after, px_execute_calls := 1, px_mutation_calls := 1\<rparr>"
    using sc_execute_file [of "?w\<lparr>w_executor_uses := w_executor_uses w + 1\<rparr>"] assms(3)
    by (auto simp: obtain_receipt_def bindc_def)
  with s1(2) s2(2) s4(2) show ?thesis by simp
qed



section \<open>Completions and decisions\<close>

definition sc_completed :: world where
  "sc_completed = sc_world (sc_run WS_SUCCESS_WITH_EVIDENCE)
     (sc_checkpoint WS_SUCCESS_WITH_EVIDENCE AD_APPROVED (Some sc_intent) (Some sc_receipt) (Some sc_verification))"

definition sc_completion :: execution_completion where
  "sc_completion = \<lparr>ec_run_id = sc_rid, ec_proposal_id = sc_pid, ec_decision = AD_APPROVED,
     ec_final_state = WS_SUCCESS_WITH_EVIDENCE, ec_approval = sc_approval AD_APPROVED, ec_receipt = Some sc_receipt,
     ec_verification = Some sc_verification, ec_reconciled = True\<rparr>"

lemma sc_completion_valid: "valid_completion sc_completion"
  by (simp add: valid_completion_def sc_completion_def)

lemma sc_resume_completed:
  "resume sc_running sc_rid sc_actor sc_completed = (Inr (Succeeded sc_completion), sc_completed\<lparr>w_store_uses := 2\<rparr>)"
proof -
  have "load_run sc_running sc_rid sc_completed = (Inr (Inr (sc_run WS_SUCCESS_WITH_EVIDENCE,
        sc_checkpoint WS_SUCCESS_WITH_EVIDENCE AD_APPROVED (Some sc_intent) (Some sc_receipt) (Some sc_verification),
        sc_evidence, sc_proposal)), sc_completed\<lparr>w_store_uses := 2\<rparr>)"
    unfolding sc_running_def sc_completed_def by (rule sc_load) (simp_all add: sc_stage_def)
  with sc_completion_valid show ?thesis
    by (simp add: resume_def bindc_def resume_decided_def resume_succeeded_def ret_def completed_from_checkpoint_def
        lift_def validated_def sc_completion_def)
qed

theorem resume_completion_is_durable_witness:
  "\<exists>r c rc v. store_holds (sc_completed\<lparr>w_store_uses := 2\<rparr>) sc_rid r c \<and> run_state r = WS_SUCCESS_WITH_EVIDENCE
      \<and> cp_local_approval c = Some (ec_approval sc_completion)
      \<and> cp_local_execution_receipt c = Some rc \<and> cp_local_verification c = Some v
      \<and> ec_receipt sc_completion = Some rc \<and> ec_verification sc_completion = Some v
      \<and> lv_receipt_hash v = lr_receipt_hash rc"
proof -
  have "store_inv (w_store sc_completed)"
    unfolding sc_completed_def by (rule sc_store_inv) (simp_all add: sc_stage_def)
  from resume_completion_is_durable [OF this sc_resume_completed] show ?thesis by (auto simp: sc_completion_def)
qed

definition sc_decided :: world where
  "sc_decided = sc_world (sc_run WS_APPROVED) (sc_checkpoint WS_APPROVED AD_APPROVED None None None)"

definition sc_decision :: decision_request where
  "sc_decision = \<lparr>dr_request_id = sc_qid, dr_run_id = sc_rid, dr_proposal_id = sc_pid,
     dr_request_hash = lq_request_hash sc_request, dr_proposal_hash = rp_proposal_hash sc_proposal,
     dr_evidence_hash = ev_evidence_hash sc_evidence, dr_proposal_version = 2, dr_decision = AD_APPROVED,
     dr_decision_nonce = sc_nonce\<rparr>"

lemma sc_decision_sel [simp]:
  "dr_request_id sc_decision = sc_qid" "dr_run_id sc_decision = sc_rid" "dr_proposal_id sc_decision = sc_pid"
  "dr_request_hash sc_decision = lq_request_hash sc_request" "dr_proposal_hash sc_decision = rp_proposal_hash sc_proposal"
  "dr_evidence_hash sc_decision = ev_evidence_hash sc_evidence" "dr_proposal_version sc_decision = 2"
  "dr_decision sc_decision = AD_APPROVED" "dr_decision_nonce sc_decision = sc_nonce"
  by (simp_all add: sc_decision_def)

definition sc_resolution :: approval_resolution where
  "sc_resolution = \<lparr>rs_run_id = sc_rid, rs_proposal_id = sc_pid, rs_request_id = sc_qid,
     rs_request_hash = lq_request_hash sc_request, rs_decision_hash = la_decision_hash (sc_approval AD_APPROVED),
     rs_decision = AD_APPROVED, rs_final_state = WS_APPROVED, rs_reconciled = True\<rparr>"

lemma sc_decide_replayed:
  "decide sc_running sc_decision sc_actor sc_decided = (Inr (Succeeded sc_resolution), sc_decided\<lparr>w_store_uses := 2\<rparr>)"
proof -
  have l: "load_run sc_running sc_rid sc_decided = (Inr (Inr (sc_run WS_APPROVED,
        sc_checkpoint WS_APPROVED AD_APPROVED None None None, sc_evidence, sc_proposal)), sc_decided\<lparr>w_store_uses := 2\<rparr>)"
    unfolding sc_running_def sc_decided_def by (rule sc_load) (simp_all add: sc_stage_def)
  have "valid_resolution sc_resolution"
    by (simp add: valid_resolution_def sc_resolution_def) (simp add: sc_request_def)
  then have "resolution (sc_run WS_APPROVED) (Some (sc_approval AD_APPROVED)) True = Inr sc_resolution"
    by (simp add: resolution_def validated_def sc_resolution_def decision_state_def)
  moreover have "decision_matches_request sc_decision sc_actor sc_request"
    by (simp add: decision_matches_request_def)
  ultimately show ?thesis using l
    by (simp add: decide_def bindc_def replay_decision_def apply_decision_state_def decision_state_def Let_def
        APPROVED_DECISION_DOWNSTREAM_STATES_def catchc_def ret_def lift_def)
qed

theorem decide_is_durable_witness:
  "\<exists>r c q a. store_holds (sc_decided\<lparr>w_store_uses := 2\<rparr>) (dr_run_id sc_decision) r c \<and> cp_local_approval_request c = Some q
      \<and> decision_matches_request sc_decision sc_actor q \<and> cp_local_approval c = Some a
      \<and> la_decision a = dr_decision sc_decision
      \<and> la_request_hash a = dr_request_hash sc_decision
      \<and> la_decision_nonce_hash a = sha256_text (dr_decision_nonce sc_decision)
      \<and> rs_decision sc_resolution = dr_decision sc_decision \<and> rs_decision_hash sc_resolution = la_decision_hash a
      \<and> (run_state r = decision_state (dr_decision sc_decision)
         \<or> dr_decision sc_decision = AD_APPROVED \<and> run_state r \<in> APPROVED_DECISION_DOWNSTREAM_STATES)"
proof (rule decide_is_durable)
  show "store_inv (w_store sc_decided)"
    unfolding sc_decided_def by (rule sc_store_inv) (simp_all add: sc_stage_def)
qed (rule sc_decide_replayed)

theorem workflow_calls_keep_history_witness:
  "\<exists>t. store_image (w_store (foldl (workflow_step sc_running) sc_decided
         [Decide sc_decision sc_actor, Resume sc_rid sc_actor])) t
      \<and> extends (sc_image (sc_run WS_APPROVED) (sc_checkpoint WS_APPROVED AD_APPROVED None None None)) t"
proof (rule workflow_calls_keep_history)
  have "valid_checkpoint (sc_checkpoint WS_APPROVED AD_APPROVED None None None)"
    by (rule sc_checkpoint_valid) (simp_all add: sc_stage_def)
  from sc_image_inv(1) [OF sc_run_valid _ this, of WS_APPROVED] show "store_image (w_store sc_decided)
     (sc_image (sc_run WS_APPROVED) (sc_checkpoint WS_APPROVED AD_APPROVED None None None))"
    by (simp add: store_image_def sc_decided_def)
qed


theorem workflow_calls_keep_executor_witness:
  "px_ok (en_initial_resources sc_running) (w_executor (foldl (workflow_step sc_running) sc_executing
     [Resume sc_rid sc_actor, Resume sc_rid sc_actor]))"
proof (rule workflow_calls_keep_executor)
  show "px_ok (en_initial_resources sc_running) (w_executor sc_executing)"
    using px_ok_new [OF default_mock_resources_ok] by (simp add: sc_running_def sc_executing_def)
qed

section \<open>Durable truth\<close>

definition sc_verified :: domain_snapshot where
  "sc_verified = sc_image (sc_run WS_VERIFYING)
     (sc_checkpoint WS_APPROVED AD_APPROVED (Some sc_intent) (Some sc_receipt) (Some sc_verification))"

definition sc_awaiting :: domain_snapshot where
  "sc_awaiting = sc_image (sc_run WS_AWAITING_APPROVAL) (sc_checkpoint WS_AWAITING_APPROVAL AD_APPROVED None None None)"

lemma sc_truth_inv: "snapshot_inv sc_verified" "snapshot_inv sc_awaiting"
proof -
  have "valid_checkpoint (sc_checkpoint WS_APPROVED AD_APPROVED (Some sc_intent) (Some sc_receipt) (Some sc_verification))"
    "valid_checkpoint (sc_checkpoint WS_AWAITING_APPROVAL AD_APPROVED None None None)"
    by (rule sc_checkpoint_valid; simp add: sc_stage_def)+
  then show "snapshot_inv sc_verified" "snapshot_inv sc_awaiting"
    using sc_image_inv(1) by (simp_all add: sc_verified_def sc_awaiting_def)
qed

definition sc_moved :: "workflow_state \<Rightarrow> run" where
  "sc_moved st = (sc_run st)\<lparr>run_updated_at := utc 200, run_version := 6\<rparr>"

lemma sc_moved_valid: "valid_run (sc_moved st)"
  by (simp add: valid_run_def sc_moved_def sc_run_def sc_key_ok valid_budget_def sc_budget_def)

lemma sc_transition:
  assumes "st \<in> set (ALLOWED_WORKFLOW_TRANSITIONS old)"
  shows "transition_run (sc_run old) st (utc 200) = Inr (sc_moved st)"
  using assms sc_moved_valid [of st] by (simp add: transition_run_eq) (simp add: sc_moved_def sc_run_def)

lemma sc_success_step:
  "\<exists>t. transition_run_snapshot sc_rid WS_SUCCESS_WITH_EVIDENCE WS_VERIFYING 5 (utc 200) None (Some sc_pid) sc_verified
     = Inr (t, sc_moved WS_SUCCESS_WITH_EVIDENCE)"
  by (simp add: transition_run_snapshot_def sc_verified_def decision_guard_def success_guard_def local_proof_valid_def
      sc_transition)

theorem success_needs_approved_and_verified_action_witness:
  "WS_VERIFYING = WS_VERIFYING \<and> (\<exists>pid. Some sc_pid = Some pid \<and> (provider_proof sc_verified sc_rid pid \<or> checkpoint_proof sc_verified sc_rid pid))"
  using success_needs_approved_and_verified_action [OF sc_truth_inv(1)] sc_success_step by blast

lemma sc_approve_step:
  "\<exists>t. transition_run_snapshot sc_rid WS_APPROVED WS_AWAITING_APPROVAL 5 (utc 200) (Some sc_pid) None sc_awaiting
     = Inr (t, sc_moved WS_APPROVED)"
  by (simp add: transition_run_snapshot_def sc_awaiting_def decision_guard_def success_guard_def local_decision_valid_def
      sc_transition)

theorem decision_transition_needs_human_decision_witness:
  "\<exists>pid. Some sc_pid = Some pid \<and> (provider_decision sc_awaiting sc_rid pid AD_APPROVED \<or> checkpoint_decision sc_awaiting sc_rid pid AD_APPROVED)"
proof -
  obtain t where "transition_run_snapshot sc_rid WS_APPROVED WS_AWAITING_APPROVAL 5 (utc 200) (Some sc_pid) None sc_awaiting
     = Inr (t, sc_moved WS_APPROVED)" using sc_approve_step by blast
  from decision_transition_needs_human_decision [OF sc_truth_inv(2) _ this] show ?thesis by simp
qed

definition sc_target :: action_target where
  "sc_target = \<lparr>at_resource_id = MOCK_CLEAN_INSTANCE_ID, at_sandbox_scope = ''sandbox'',
     at_required_tag_key = ''AIOACloudOpsSandbox'', at_required_tag_value = ''true''\<rparr>"

definition sc_action :: action_proposal where
  "sc_action = \<lparr>ap_proposal_id = sc_pid, ap_run_id = sc_rid, ap_action = CAP_STOP_SANDBOX_INSTANCE, ap_target = sc_target,
     ap_expected_precondition = \<lparr>pre_instance_state = OIS_RUNNING, pre_observed_at = utc 10, pre_evidence_hash = ZERO_HASH\<rparr>,
     ap_authority = AG_PLAN_AND_CONFIRM, ap_state = PS_AWAITING_APPROVAL, ap_evidence_hash = ZERO_HASH,
     ap_created_at = utc 20\<rparr>"

definition sc_provider_approval :: approval where
  "sc_provider_approval = \<lparr>appr_proposal_id = sc_pid, appr_run_id = sc_rid, appr_action = CAP_STOP_SANDBOX_INSTANCE,
     appr_target = sc_target, appr_evidence_hash = ZERO_HASH, appr_interrupt_id = ''interrupt-1'',
     appr_request_hash = ZERO_HASH, appr_decision = AD_APPROVED, appr_decided_at = utc 30,
     appr_actor_session_id = sc_actor, appr_decision_nonce = sc_nonce\<rparr>"

definition sc_provider :: domain_snapshot where
  "sc_provider = DomainSnapshot_new\<lparr>ds_runs := [(sc_rid, sc_run WS_AWAITING_APPROVAL)], ds_proposals := [(sc_pid, sc_action)],
     ds_approvals := [(sc_pid, sc_provider_approval)]\<rparr>"

theorem approval_recorded_once_witness:
  "create_approval sc_provider_approval sc_provider = Inr (sc_provider, sc_provider_approval)
   \<and> sc_provider = sc_provider \<and> sc_provider_approval = sc_provider_approval"
proof -
  have g: "get_approval sc_provider (appr_proposal_id sc_provider_approval) = Some sc_provider_approval"
    by (simp add: get_approval_def sc_provider_def sc_provider_approval_def)
  have "create_approval sc_provider_approval sc_provider = Inr (sc_provider, sc_provider_approval)"
    by (simp add: create_approval_def getters sc_provider_def sc_provider_approval_def sc_action_def
        validate_approval_binding_def ensure_def)
  with approval_recorded_once [OF g this] show ?thesis by blast
qed

section \<open>The repository\<close>

theorem seal_open_roundtrip_witness:
  "open_local_payload (JObj [(''integrity_version'', JInt 1), (''payload'', JObj [(''a'', JInt 1)]), (''payload_type'', JStr ''state''),
       (''payload_sha256'', JStr (digest (envelope_material (JObj [(''a'', JInt 1)]) ''state'')))]) ''state''
     = Inr (JObj [(''a'', JInt 1)], digest (envelope_material (JObj [(''a'', JInt 1)]) ''state''))"
proof (rule seal_open_roundtrip)
  have "payload_type_ok ''state''" by code_simp
  then show "seal_local_payload (JObj [(''a'', JInt 1)]) ''state'' = Inr (JObj [(''integrity_version'', JInt 1),
       (''payload'', JObj [(''a'', JInt 1)]), (''payload_type'', JStr ''state''),
       (''payload_sha256'', JStr (digest (envelope_material (JObj [(''a'', JInt 1)]) ''state'')))])"
    by (simp add: seal_local_payload_def is_mapping_def)
qed

lemma sc_verified_ok: "references_ok sc_verified" "store_limits sc_verified"
  by (auto simp: sc_verified_def references_ok_def store_limits_def sc_image_def DomainSnapshot_new_def getters
      MAX_SNAPSHOT_RECORDS_def)


definition sc_first_run :: run where
  "sc_first_run = (sc_run WS_RECEIVED)\<lparr>run_version := 1\<rparr>"

definition sc_first_image :: domain_snapshot where
  "sc_first_image = DomainSnapshot_new\<lparr>ds_runs := [(sc_rid, sc_first_run)]\<rparr>"

lemma sc_first_step: "durable_step DomainSnapshot_new (CreateRun sc_first_run) = Inr sc_first_image"
  by (simp add: durable_step_def valid_run_def sc_first_run_def sc_run_def sc_key_ok valid_budget_def sc_budget_def
      image_def create_run_def DomainSnapshot_new_def MAX_DURABLE_RUNS_def sc_first_image_def ensure_def)

lemma sc_first_load:
  "repo_load (foldl repo_step None ([] @ [(IoOk, CreateRun sc_first_run), (IoWriteFails, CreateRun sc_first_run)])) = Inr sc_first_image"
proof -
  have i: "snapshot_inv sc_first_image"
    using durable_step_good [OF snapshot_inv_new sc_first_step] by (simp add: good_step_def)
  have "store_limits sc_first_image" "references_ok sc_first_image" "reload sc_first_image = sc_first_image"
    by (simp_all add: sc_first_image_def DomainSnapshot_new_def store_limits_def references_ok_def MAX_SNAPSHOT_RECORDS_def
        reload_def by_key_def)
  then have l: "repo_load (Some (export_snapshot sc_first_image)) = Inr sc_first_image"
    using from_export [OF i] by (simp add: repo_load_def)
  have s1: "repo_step None (IoOk, CreateRun sc_first_run) = Some (export_snapshot sc_first_image)"
    by (simp add: repo_step_def repo_mutate_def repo_load_def sc_first_step)
  have "repo_step (Some (export_snapshot sc_first_image)) (IoWriteFails, CreateRun sc_first_run) = Some (export_snapshot sc_first_image)"
    by (simp add: repo_step_def repo_mutate_def split: sum.splits)
  with s1 l show ?thesis by simp
qed

theorem store_is_append_only_under_faults_witness:
  "snapshot_inv DomainSnapshot_new \<and> snapshot_inv sc_first_image \<and> extends DomainSnapshot_new sc_first_image"
proof (rule store_is_append_only_under_faults [OF _ sc_first_load])
  show "repo_load (foldl repo_step None []) = Inr DomainSnapshot_new" by (simp add: repo_load_def)
qed

definition sc_orphan :: checkpoint where
  "sc_orphan = (sc_checkpoint WS_APPROVED AD_APPROVED None None None)\<lparr>cp_version := 1\<rparr>"

lemma sc_orphan_valid: "valid_checkpoint sc_orphan"
  using sc_checkpoint_valid [of None None None AD_APPROVED WS_APPROVED]
  by (simp add: sc_stage_def sc_orphan_def valid_checkpoint_def proposal_bound_def request_bound_def approval_bound_def
      intent_bound_def receipt_bound_def verification_bound_def)


definition sc_next_checkpoint :: checkpoint where
  "sc_next_checkpoint = (sc_checkpoint WS_APPROVED AD_APPROVED None None None)\<lparr>cp_version := 4\<rparr>"

theorem stale_writers_are_rejected_witness:
  "\<exists>t t2. save_checkpoint sc_next_checkpoint (Some 3) sc_awaiting = Inr (t, sc_next_checkpoint)
    \<and> transition_run_snapshot sc_rid WS_APPROVED WS_AWAITING_APPROVAL 5 (utc 200) (Some sc_pid) None sc_awaiting
        = Inr (t2, sc_moved WS_APPROVED)
    \<and> (\<exists>e. save_checkpoint sc_next_checkpoint (Some 3) t = Inl e)
    \<and> (\<exists>e. transition_run_snapshot sc_rid WS_RECOVERY_REQUIRED WS_AWAITING_APPROVAL 5 (utc 300) None None t2 = Inl e)"
proof -
  have "\<exists>t. save_checkpoint sc_next_checkpoint (Some 3) sc_awaiting = Inr (t, sc_next_checkpoint)"
    by (simp add: save_checkpoint_def sc_awaiting_def sc_next_checkpoint_def ensure_def)
  then obtain t where t: "save_checkpoint sc_next_checkpoint (Some 3) sc_awaiting = Inr (t, sc_next_checkpoint)" by blast
  obtain t2 where t2: "transition_run_snapshot sc_rid WS_APPROVED WS_AWAITING_APPROVAL 5 (utc 200) (Some sc_pid) None sc_awaiting
     = Inr (t2, sc_moved WS_APPROVED)" using sc_approve_step by blast
  from stale_writers_are_rejected [OF t refl t2, of WS_RECOVERY_REQUIRED WS_AWAITING_APPROVAL "utc 300" None None] t t2
  show ?thesis by blast
qed

section \<open>The executor\<close>

theorem execution_replay_is_stable_witness:
  "portable_execute (\<lambda>_. None) sc_proposal sc_evidence (sc_approval AD_APPROVED) sc_intent (utc 90) sc_inventory_after
     = Inr (sc_inventory_after, sc_receipt, False)"
  by (rule execution_replay_is_stable [OF sc_executes])

theorem execution_effect_is_confined_witness:
  "la_decision (sc_approval AD_APPROVED) = AD_APPROVED
    \<and> dict_get (pi_resources sc_inventory) (target_key sc_proposal sc_evidence) = Some (ev_resource sc_evidence)
    \<and> dict_get (pi_resources sc_inventory_after) (target_key sc_proposal sc_evidence) = lr_after_resource sc_receipt
    \<and> dict_get (pi_resources sc_inventory_after) (CRT_SECURITY_GROUP, MOCK_UNSAFE_SECURITY_GROUP_ID, MOCK_REGION)
        = dict_get (pi_resources sc_inventory) (CRT_SECURITY_GROUP, MOCK_UNSAFE_SECURITY_GROUP_ID, MOCK_REGION)"
proof -
  have "(CRT_SECURITY_GROUP, MOCK_UNSAFE_SECURITY_GROUP_ID, MOCK_REGION) \<noteq> target_key sc_proposal sc_evidence"
    by (simp add: target_key_def)
  with execution_effect_is_confined [OF sc_executes] show ?thesis by blast
qed

theorem applied_execution_verifies_witness:
  "\<exists>v. verify sc_receipt (utc 70) sc_inventory_after = Inr v \<and> assert_linked_verification sc_receipt v = Inr ()
     \<and> lv_observed_resource v = lr_after_resource sc_receipt \<and> lv_observed_absent v = (lr_after_resource sc_receipt = None)
     \<and> lv_verified_at v = utc 70"
proof (rule applied_execution_verifies [OF _ sc_executes])
  show "inventory_inv sc_inventory" unfolding sc_inventory_def by (rule inventory_inv_initial [OF default_mock_resources_ok])
qed simp


section \<open>An expired run\<close>

theorem expired_terminal_run_raises_witness:
  "fst (resume (sc_env (\<lambda>_. 2000) (\<lambda>_. IoOk)) sc_rid sc_actor
     (sc_world (sc_run WS_EXECUTION_FAILED) (sc_checkpoint WS_APPROVED AD_APPROVED None None None))) = Inl WorkflowTransitionError"
proof (rule expired_terminal_run_raises [where a = "sc_approval AD_APPROVED"])
  have "valid_checkpoint (sc_checkpoint WS_APPROVED AD_APPROVED None None None)"
    by (rule sc_checkpoint_valid) (simp_all add: sc_stage_def)
  from sc_image_load [OF sc_run_valid _ this, of WS_EXECUTION_FAILED] show "repo_load (w_store (sc_world (sc_run WS_EXECUTION_FAILED)
      (sc_checkpoint WS_APPROVED AD_APPROVED None None None)))
      = Inr (sc_image (sc_run WS_EXECUTION_FAILED) (sc_checkpoint WS_APPROVED AD_APPROVED None None None))" by simp
  show "load_bound (sc_run WS_EXECUTION_FAILED) (sc_checkpoint WS_APPROVED AD_APPROVED None None None)
      = Inr (sc_run WS_EXECUTION_FAILED, sc_checkpoint WS_APPROVED AD_APPROVED None None None, sc_evidence, sc_proposal)"
    by (simp add: load_bound_def) (simp add: sc_evidence_def sc_evidence0_def)
qed simp_all

end
