(* ===== verification/NZ_Investigation.thy ===== *)
theory NZ_Investigation
  imports NZ_Executor
begin

text \<open>
  Reading a resource and planning its remediation: \<^verbatim>\<open>investigation.py\<close> and \<^verbatim>\<open>policy.py\<close>.
  The provider is an argument (what \<^verbatim>\<open>get_resource\<close> gives or raises for a query). The
  output of a planning model is untrusted text; reading it with \<^verbatim>\<open>json.loads\<close> and the
  candidate contract is an argument too, which gives the candidate up to what Python's equality
  tells apart, with dictionaries sorted by key. The theorems show that the local policy alone
  decides the plan and that a planned action, carried out on the resource it was planned for,
  leaves a resource without findings.
\<close>

section \<open>Query of a resource\<close>

definition REQUIRED_EC2_TAGS :: "string list" where
  "REQUIRED_EC2_TAGS = [''Environment'', ''Owner'']"

definition PUBLIC_CIDR :: string where
  "PUBLIC_CIDR = ''0.0.0.0/0''"

fun findings :: "cloud_resource \<Rightarrow> cloud_finding list" where
  "findings (ElasticIpResource r) = (if eip_association_id r = None then [CF_UNATTACHED_ELASTIC_IP] else [CF_CLEAN])"
| "findings (SecurityGroupResource r) =
     (if list_ex (\<lambda>rule. cidr_ipv4 rule = PUBLIC_CIDR) (sg_inbound_rules r)
      then [CF_OVERLY_PERMISSIVE_INGRESS] else [CF_CLEAN])"
| "findings (Ec2Resource r) =
     (if \<not> list_all (\<lambda>k. k \<in> set (map fst (ec2_tags r))) REQUIRED_EC2_TAGS
      then [CF_REQUIRED_TAGS_MISSING] else [CF_CLEAN])"

definition failed_as :: "failure_kind \<Rightarrow> string \<Rightarrow> string \<Rightarrow> bool \<Rightarrow> 'a control_result" where
  "failed_as kind code message retryable =
     Failed \<lparr>f_kind = kind, f_code = code, f_message = message, f_retryable = retryable\<rparr>"

definition resource_fields :: "cloud_resource \<Rightarrow> string list" where
  "resource_fields r = (case resource_json r of JObj kvs \<Rightarrow> sort (map fst kvs) | _ \<Rightarrow> [])"

definition query_provenance :: "string \<Rightarrow> cloud_resource \<Rightarrow> run \<Rightarrow> datetime \<Rightarrow> resource_provenance" where
  "query_provenance adapter res r observed_at =
     \<lparr>pv_run_id = run_id r, pv_trace_id = trace_id r, pv_correlation_id = correlation_id r, pv_adapter = adapter,
      pv_resource_type = resource_type res, pv_resource_id = resource_id res,
      pv_observed_fields = resource_fields res, pv_observed_at = observed_at\<rparr>"

definition QueryResource_execute ::
  "(resource_query \<Rightarrow> exn + cloud_resource) \<Rightarrow> string \<Rightarrow> resource_query \<Rightarrow> run \<Rightarrow> datetime
   \<Rightarrow> exn + resource_evidence control_result" where
  "QueryResource_execute provider adapter q r observed_at =
     (if \<not> valid_resource_query q then
        Inr (failed_as FK_VALIDATION_FAILURE ''RESOURCE_QUERY_INVALID'' ''Resource query is missing or malformed'' False)
      else case provider q of
        Inl CloudResourceNotFoundError \<Rightarrow>
          Inr (failed_as FK_NOT_FOUND ''RESOURCE_NOT_FOUND'' ''Requested resource was not found'' False)
      | Inl CloudAdapterUnavailableError \<Rightarrow>
          Inr (failed_as FK_TOOL_ADAPTER_FAILURE ''CLOUD_ADAPTER_UNAVAILABLE''
                 ''Cloud inventory adapter is unavailable'' True)
      | Inl _ \<Rightarrow>
          Inr (failed_as FK_TOOL_ADAPTER_FAILURE ''CLOUD_ADAPTER_INVALID_RESPONSE''
                 ''Cloud inventory adapter returned an invalid result'' False)
      | Inr res \<Rightarrow>
          ebind (validated valid_provenance (query_provenance adapter res r observed_at)) (\<lambda>prov.
          (case ResourceEvidence_create r res (findings res) prov observed_at of
             Inl _ \<Rightarrow>
               Inr (failed_as FK_TOOL_ADAPTER_FAILURE ''RESOURCE_EVIDENCE_INVALID''
                      ''Normalized resource evidence failed validation'' False)
           | Inr e \<Rightarrow> Inr (Succeeded e))))"

section \<open>The local remediation policy\<close>

record model_plan_candidate =
  mc_disposition :: plan_disposition
  mc_operation_type :: "remediation_operation option"
  mc_target_resource_type :: "cloud_resource_type option"
  mc_target_resource_id :: "string option"
  mc_normalized_parameters :: "(string \<times> json) list option"
  mc_claimed_authority :: "authority_gate option"

definition valid_candidate :: "model_plan_candidate \<Rightarrow> bool" where
  "valid_candidate c \<longleftrightarrow>
     optional_ok short_identifier (mc_target_resource_id c)
     \<and> optional_ok (\<lambda>kvs. list_all short_identifier (map fst kvs) \<and> json_ok (JObj kvs)) (mc_normalized_parameters c)
     \<and> (if mc_disposition c = PD_NO_ACTION
        then mc_operation_type c = None \<and> mc_target_resource_type c = None \<and> mc_target_resource_id c = None
             \<and> mc_normalized_parameters c = None \<and> mc_claimed_authority c = None
        else mc_operation_type c \<noteq> None \<and> mc_target_resource_type c \<noteq> None \<and> mc_target_resource_id c \<noteq> None
             \<and> mc_normalized_parameters c \<noteq> None \<and> mc_claimed_authority c \<noteq> None)"

definition no_action_candidate :: model_plan_candidate where
  "no_action_candidate =
     \<lparr>mc_disposition = PD_NO_ACTION, mc_operation_type = None, mc_target_resource_type = None,
      mc_target_resource_id = None, mc_normalized_parameters = None, mc_claimed_authority = None\<rparr>"

definition action_candidate ::
  "plan_disposition \<Rightarrow> remediation_operation \<Rightarrow> cloud_resource_type \<Rightarrow> string \<Rightarrow> (string \<times> json) list \<Rightarrow> authority_gate
   \<Rightarrow> model_plan_candidate" where
  "action_candidate d operation ty target params authority =
     \<lparr>mc_disposition = d, mc_operation_type = Some operation, mc_target_resource_type = Some ty,
      mc_target_resource_id = Some target, mc_normalized_parameters = Some params,
      mc_claimed_authority = Some authority\<rparr>"

definition required_tag_value :: "string \<Rightarrow> string" where
  "required_tag_value k = (if k = ''Environment'' then ''hackathon'' else ''platform'')"

definition canonical_model_candidate :: "resource_evidence \<Rightarrow> exn + model_plan_candidate" where
  "canonical_model_candidate e =
     (if ev_findings e = [CF_CLEAN] then validated valid_candidate no_action_candidate
      else if ev_findings e = [CF_UNATTACHED_ELASTIC_IP] then
        validated valid_candidate
          (action_candidate PD_PROPOSAL RO_RELEASE_ELASTIC_IP CRT_ELASTIC_IP (resource_id (ev_resource e))
             [(''allocation_id'', JStr (resource_id (ev_resource e)))] AG_PLAN_AND_CONFIRM)
      else if ev_findings e = [CF_OVERLY_PERMISSIVE_INGRESS] then
        (case ev_resource e of
           SecurityGroupResource g \<Rightarrow>
             (let unsafe_rules = map rule_json (filter (\<lambda>rule. cidr_ipv4 rule = PUBLIC_CIDR) (sg_inbound_rules g))
              in if unsafe_rules = [] then Inl ValueError
                 else validated valid_candidate
                        (action_candidate PD_PROPOSAL RO_REVOKE_PUBLIC_INGRESS CRT_SECURITY_GROUP (sg_id g)
                           [(''ingress_rules'', JArr unsafe_rules), (''security_group_id'', JStr (sg_id g))]
                           AG_PLAN_AND_CONFIRM))
         | _ \<Rightarrow> Inl ValueError)
      else if ev_findings e = [CF_REQUIRED_TAGS_MISSING] then
        (case ev_resource e of
           Ec2Resource i \<Rightarrow>
             (let missing = filter (\<lambda>k. k \<notin> set (map fst (ec2_tags i))) REQUIRED_EC2_TAGS
              in validated valid_candidate
                   (action_candidate PD_NON_EXECUTABLE_RECOMMENDATION RO_APPLY_REQUIRED_TAGS CRT_EC2_INSTANCE (ec2_id i)
                      [(''tags'', JObj (map (\<lambda>k. (k, JStr (required_tag_value k))) missing))] AG_NEVER_AUTONOMOUS))
         | _ \<Rightarrow> Inl ValueError)
      else Inl ValueError)"

fun risk_text :: "remediation_operation \<Rightarrow> string" where
  "risk_text RO_RELEASE_ELASTIC_IP = ''Releasing an address is destructive and requires exact human approval''"
| "risk_text RO_REVOKE_PUBLIC_INGRESS = ''Changing ingress can disrupt access and requires exact human approval''"
| "risk_text RO_APPLY_REQUIRED_TAGS = ''Tag mutation is recommendation-only under the current hard policy''"

text \<open>The length of the UTF-8 encoding of a text.\<close>

definition utf8_length :: "string \<Rightarrow> nat" where
  "utf8_length s = length (utf8 s)"

definition planned_proposal ::
  "resource_evidence \<Rightarrow> model_plan_candidate \<Rightarrow> uuid \<Rightarrow> datetime \<Rightarrow> exn + remediation_plan control_result" where
  "planned_proposal e expected pid created_at =
     (case (mc_operation_type expected, mc_normalized_parameters expected, mc_claimed_authority expected) of
        (Some operation, Some params, Some authority) \<Rightarrow>
          (case RemediationProposal_create pid e operation params authority (risk_text operation) created_at
                  (plus_seconds created_at 86400) of
             Inl _ \<Rightarrow>
               Inr (failed_as FK_VALIDATION_FAILURE ''PROPOSAL_CONTRACT_INVALID''
                      ''Evidence-bound proposal failed canonical validation'' False)
           | Inr p \<Rightarrow>
               ebind (validated valid_plan
                        \<lparr>plan_disposition_of = mc_disposition expected, plan_evidence_hash = ev_evidence_hash e,
                         plan_proposal = Some p, plan_reason = risk_text operation\<rparr>) (\<lambda>pl. Inr (Succeeded pl)))
      | _ \<Rightarrow>
          Inr (failed_as FK_POLICY_DENIAL ''REMEDIATION_POLICY_INCOMPLETE''
                 ''Local remediation policy did not resolve exact action data'' False))"

definition PlanRemediation_execute ::
  "(string \<Rightarrow> model_plan_candidate option) \<Rightarrow> resource_evidence \<Rightarrow> string \<Rightarrow> uuid \<Rightarrow> datetime
   \<Rightarrow> exn + remediation_plan control_result" where
  "PlanRemediation_execute read_candidate e model_output pid created_at =
     (if \<not> valid_evidence e then
        Inr (failed_as FK_VALIDATION_FAILURE ''PLAN_EVIDENCE_INVALID''
               ''PlanRemediation requires validated resource evidence'' False)
      else if py_strip model_output = [] then
        Inr (failed_as FK_VALIDATION_FAILURE ''MODEL_PLAN_INVALID'' ''Model plan output must be non-empty JSON'' False)
      else case (if 8192 < utf8_length model_output then None else read_candidate model_output) of
        None \<Rightarrow>
          Inr (failed_as FK_VALIDATION_FAILURE ''MODEL_PLAN_INVALID''
                 ''Model plan output failed strict validation'' False)
      | Some candidate \<Rightarrow>
          (case canonical_model_candidate e of
             Inl _ \<Rightarrow>
               Inr (failed_as FK_POLICY_DENIAL ''REMEDIATION_POLICY_UNSUPPORTED''
                      ''Observed findings are outside the local remediation policy'' False)
           | Inr expected \<Rightarrow>
               if candidate \<noteq> expected then
                 Inr (failed_as FK_POLICY_DENIAL ''MODEL_PLAN_POLICY_MISMATCH''
                        ''Model plan does not match evidence-bound local policy'' False)
               else if mc_disposition expected = PD_NO_ACTION then
                 ebind (validated valid_plan
                          \<lparr>plan_disposition_of = PD_NO_ACTION, plan_evidence_hash = ev_evidence_hash e,
                           plan_proposal = None, plan_reason = ''Resource is compliant; no remediation is warranted''\<rparr>)
                   (\<lambda>pl. Inr (Succeeded pl))
               else planned_proposal e expected pid created_at))"

text \<open>\<^verbatim>\<open>PortableAdvisor.create_plan\<close>: the canonical candidate, written as JSON without its absent fields by the
  contract's serializer.\<close>

definition PortableAdvisor_create_plan :: "(model_plan_candidate \<Rightarrow> string) \<Rightarrow> resource_evidence \<Rightarrow> exn + string" where
  "PortableAdvisor_create_plan model_dump_json e = ebind (canonical_model_candidate e) (\<lambda>c. Inr (model_dump_json c))"

section \<open>The local policy alone decides\<close>

lemma failed_as_neq [simp]: "failed_as k c m b \<noteq> Succeeded x" "Succeeded x \<noteq> failed_as k c m b"
  by (simp_all add: failed_as_def)

lemma identifier_prefixed_hex:
  assumes "prefixed_hex p s" "identifier_shape p" "length p \<le> 200"
  shows "short_identifier s"
proof -
  have s: "s = p @ drop (length p) s" using assms(1) by (metis append_take_drop_id prefixed_hex_def)
  obtain h where h: "s = p @ h" "length h \<le> 17" "list_all hex_lower h"
    using assms(1) s by (auto simp: prefixed_hex_def Let_def)
  have "list_all identifier_tail h"
    using h(3) by (auto simp: list_all_iff hex_lower_def identifier_tail_def ascii_alnum_def ascii_digit_def char_between_def)
  with h assms(2,3) show ?thesis
    by (cases p) (auto simp: short_identifier_def identifier_shape_def)
qed

lemma valid_resource_identifier: "valid_resource r \<Longrightarrow> short_identifier (resource_id r)"
  by (cases r) (auto intro!: identifier_prefixed_hex simp: identifier_shape_def identifier_tail_def ascii_alnum_def
      ascii_digit_def char_between_def)

lemma resource_fields_eq:
  "resource_fields (Ec2Resource x) = [''instance_type'', ''region'', ''resource_id'', ''resource_type'', ''state'', ''tags'']"
  "resource_fields (ElasticIpResource y) = [''association_id'', ''public_ip'', ''region'', ''resource_id'', ''resource_type'', ''tags'']"
  "resource_fields (SecurityGroupResource z) =
     [''inbound_rules'', ''outbound_rules'', ''region'', ''resource_id'', ''resource_type'', ''tags'', ''vpc_id'']"
  by (simp_all add: resource_fields_def)

lemma valid_query_provenance:
  assumes "valid_run r" "valid_resource res" "short_identifier adapter" "is_utc t"
  shows "valid_provenance (query_provenance adapter res r t)"
proof -
  have "resource_fields res \<noteq> [] \<and> list_all non_empty_text (resource_fields res)
        \<and> sort (remdups (resource_fields res)) = resource_fields res"
    by (cases res) (simp_all add: resource_fields_eq non_empty_text_def py_strip_def py_space_def)
  with assms show ?thesis
    by (simp add: valid_provenance_def query_provenance_def valid_run_def valid_resource_identifier)
qed

lemma findings_single: "\<exists>f. findings res = [f]"
  by (cases res) auto

lemma query_findings:
  "QueryResource_execute provider adapter q r t = Inr (Succeeded e) \<Longrightarrow> ev_findings e = findings (ev_resource e)"
  by (auto simp: QueryResource_execute_def ResourceEvidence_create_def result_simps Let_def
      split: if_splits sum.splits exn.splits)

text \<open>A successful query carries exactly what the provider returned for the query, with the findings of
  that resource, stamped with the identity of the run and the time of the observation, and is a valid
  evidence record.\<close>

theorem query_evidence_is_faithful:
  assumes "QueryResource_execute provider adapter q r t = Inr (Succeeded e)"
  shows "valid_resource_query q \<and> provider q = Inr (ev_resource e) \<and> valid_evidence e
         \<and> ev_findings e = findings (ev_resource e) \<and> ev_run_id e = run_id r \<and> ev_trace_id e = trace_id r
         \<and> ev_correlation_id e = correlation_id r \<and> ev_observed_at e = t
         \<and> pv_adapter (ev_provenance e) = adapter"
  using assms
  by (auto simp: QueryResource_execute_def ResourceEvidence_create_def result_simps query_provenance_def Let_def
      split: if_splits sum.splits exn.splits)

lemma query_succeeds:
  assumes "valid_resource_query q" "provider q = Inr res" "valid_resource res" "valid_run r"
    "short_identifier adapter" "is_utc t"
  shows "\<exists>e. QueryResource_execute provider adapter q r t = Inr (Succeeded e)"
proof -
  obtain f where f: "findings res = [f]" using findings_single by blast
  have "valid_provenance (query_provenance adapter res r t)" using assms by (simp add: valid_query_provenance)
  then have "\<exists>e. ResourceEvidence_create r res (findings res) (query_provenance adapter res r t) t = Inr e"
    using assms f
    by (simp add: ResourceEvidence_create_def Let_def result_simps valid_evidence_def valid_run_def query_provenance_def
        evidence_payload_def)
  then show ?thesis using assms \<open>valid_provenance _\<close> by (auto simp: QueryResource_execute_def validated_def)
qed

lemma canonical_candidate_valid: "canonical_model_candidate e = Inr c \<Longrightarrow> valid_candidate c"
  by (auto simp: canonical_model_candidate_def result_simps Let_def split: if_splits cloud_resource.splits)

lemma plan_accepted_iff:
  "PlanRemediation_execute read_candidate e out pid t = Inr (Succeeded pl) \<longleftrightarrow>
     valid_evidence e \<and> py_strip out \<noteq> [] \<and> utf8_length out \<le> 8192
     \<and> (\<exists>c. read_candidate out = Some c \<and> canonical_model_candidate e = Inr c
          \<and> (if mc_disposition c = PD_NO_ACTION
             then valid_plan pl \<and> pl = \<lparr>plan_disposition_of = PD_NO_ACTION, plan_evidence_hash = ev_evidence_hash e,
                     plan_proposal = None, plan_reason = ''Resource is compliant; no remediation is warranted''\<rparr>
             else planned_proposal e c pid t = Inr (Succeeded pl)))"
  by (auto simp: PlanRemediation_execute_def result_simps split: if_splits option.splits sum.splits)

text \<open>An untrusted model cannot influence a plan: whatever two models answer, and however their
  answers are read, if both are accepted for the same evidence then the plans are the same.\<close>

theorem plan_is_independent_of_model:
  assumes "PlanRemediation_execute read1 e out1 pid t = Inr (Succeeded pl1)"
    and "PlanRemediation_execute read2 e out2 pid t = Inr (Succeeded pl2)"
  shows "pl1 = pl2"
  using assms by (auto simp: plan_accepted_iff split: if_splits)

lemma created_proposal_fields:
  assumes "RemediationProposal_create pid e operation params authority risk t u = Inr p"
  shows "valid_remediation_proposal p" "rp_operation_type p = operation" "rp_normalized_parameters p = params"
    "rp_authority_class p = authority" "rp_target_resource_type p = resource_type (ev_resource e)"
    "rp_target_resource_id p = resource_id (ev_resource e)" "rp_run_id p = ev_run_id e"
    "rp_correlation_id p = ev_correlation_id e" "rp_evidence_hash p = ev_evidence_hash e"
    "rp_evidence_fingerprint p = stable_fingerprint e" "rp_proposal_id p = pid" "rp_risk_summary p = risk"
    "rp_status p = PS_PROPOSED" "rp_version p = 1" "rp_created_at p = t" "rp_expires_at p = u"
  using assms by (auto simp: RemediationProposal_create_def result_simps Let_def)

lemma planned_proposal_created:
  assumes "planned_proposal e c pid t = Inr (Succeeded pl)"
  obtains p where "plan_proposal pl = Some p" "valid_plan pl" "plan_disposition_of pl = mc_disposition c"
    "plan_evidence_hash pl = ev_evidence_hash e"
    "mc_operation_type c = Some (rp_operation_type p)"
    "mc_normalized_parameters c = Some (rp_normalized_parameters p)"
    "mc_claimed_authority c = Some (rp_authority_class p)"
    "RemediationProposal_create pid e (rp_operation_type p) (rp_normalized_parameters p) (rp_authority_class p)
       (risk_text (rp_operation_type p)) t (plus_seconds t 86400) = Inr p"
proof -
  from assms obtain operation params authority p where c: "mc_operation_type c = Some operation"
    "mc_normalized_parameters c = Some params" "mc_claimed_authority c = Some authority"
    and p: "RemediationProposal_create pid e operation params authority (risk_text operation) t (plus_seconds t 86400) = Inr p"
    and pl: "valid_plan pl" "pl = \<lparr>plan_disposition_of = mc_disposition c, plan_evidence_hash = ev_evidence_hash e,
               plan_proposal = Some p, plan_reason = risk_text operation\<rparr>"
    by (auto simp: planned_proposal_def result_simps split: option.splits sum.splits)
  show ?thesis
    by (rule that [of p]) (use c p pl created_proposal_fields(2-4) [OF p] in simp_all)
qed

lemma candidate_cases:
  assumes "canonical_model_candidate e = Inr c"
  obtains "ev_findings e = [CF_CLEAN]" "c = no_action_candidate"
  | "ev_findings e = [CF_UNATTACHED_ELASTIC_IP]"
    "c = action_candidate PD_PROPOSAL RO_RELEASE_ELASTIC_IP CRT_ELASTIC_IP (resource_id (ev_resource e))
           [(''allocation_id'', JStr (resource_id (ev_resource e)))] AG_PLAN_AND_CONFIRM"
  | g where "ev_findings e = [CF_OVERLY_PERMISSIVE_INGRESS]" "ev_resource e = SecurityGroupResource g"
    "filter (\<lambda>rule. cidr_ipv4 rule = PUBLIC_CIDR) (sg_inbound_rules g) \<noteq> []"
    "c = action_candidate PD_PROPOSAL RO_REVOKE_PUBLIC_INGRESS CRT_SECURITY_GROUP (sg_id g)
           [(''ingress_rules'', JArr (map rule_json (filter (\<lambda>rule. cidr_ipv4 rule = PUBLIC_CIDR) (sg_inbound_rules g)))),
            (''security_group_id'', JStr (sg_id g))] AG_PLAN_AND_CONFIRM"
  | i where "ev_findings e = [CF_REQUIRED_TAGS_MISSING]" "ev_resource e = Ec2Resource i"
    "c = action_candidate PD_NON_EXECUTABLE_RECOMMENDATION RO_APPLY_REQUIRED_TAGS CRT_EC2_INSTANCE (ec2_id i)
           [(''tags'', JObj (map (\<lambda>k. (k, JStr (required_tag_value k)))
                         (filter (\<lambda>k. k \<notin> set (map fst (ec2_tags i))) REQUIRED_EC2_TAGS)))] AG_NEVER_AUTONOMOUS"
  using assms
  by (auto simp: canonical_model_candidate_def result_simps Let_def split: if_splits cloud_resource.splits)

lemmas candidate_simps = no_action_candidate_def action_candidate_def

lemma candidate_shape:
  assumes "canonical_model_candidate e = Inr c"
  shows "mc_disposition c = PD_NO_ACTION \<longleftrightarrow> ev_findings e = [CF_CLEAN]"
    "mc_disposition c = PD_PROPOSAL \<Longrightarrow>
       mc_claimed_authority c = Some AG_PLAN_AND_CONFIRM \<and> mc_operation_type c \<noteq> Some RO_APPLY_REQUIRED_TAGS"
    "mc_disposition c = PD_NON_EXECUTABLE_RECOMMENDATION \<Longrightarrow> mc_claimed_authority c = Some AG_NEVER_AUTONOMOUS"
  using assms by (auto elim!: candidate_cases simp: candidate_simps)

lemma accepted_plan_valid:
  "PlanRemediation_execute read_candidate e out pid t = Inr (Succeeded pl) \<Longrightarrow> valid_plan pl"
  by (auto simp: plan_accepted_iff elim: planned_proposal_created split: if_splits)

text \<open>Property C29. What a plan may contain: no action exactly for a clean resource; otherwise one inert proposal (status
  PROPOSED, version 1, expiring after 24 hours) bound to the run, the evidence and its resource, whose operation
  and authority are those of the fixed table; a proposal that may be executed always requires a human
  confirmation, and applying tags is never executable.\<close>

theorem accepted_plan_is_bound_and_inert:
  assumes "PlanRemediation_execute read_candidate e out pid t = Inr (Succeeded pl)"
  shows "valid_plan pl \<and> plan_evidence_hash pl = ev_evidence_hash e
         \<and> (plan_disposition_of pl = PD_NO_ACTION \<longleftrightarrow> ev_findings e = [CF_CLEAN])
         \<and> (case plan_proposal pl of
              None \<Rightarrow> plan_disposition_of pl = PD_NO_ACTION
            | Some p \<Rightarrow> rp_run_id p = ev_run_id e \<and> rp_evidence_hash p = ev_evidence_hash e
                        \<and> rp_evidence_fingerprint p = stable_fingerprint e
                        \<and> rp_target_resource_type p = resource_type (ev_resource e)
                        \<and> rp_target_resource_id p = resource_id (ev_resource e)
                        \<and> rp_status p = PS_PROPOSED \<and> rp_version p = 1 \<and> rp_expires_at p = plus_seconds t 86400
                        \<and> operation_policy (rp_operation_type p) = (rp_target_resource_type p, rp_authority_class p)
                        \<and> (plan_disposition_of pl = PD_PROPOSAL \<longleftrightarrow>
                             rp_authority_class p = AG_PLAN_AND_CONFIRM \<and> rp_operation_type p \<noteq> RO_APPLY_REQUIRED_TAGS))"
proof -
  from assms obtain c where c: "canonical_model_candidate e = Inr c"
    and d: "if mc_disposition c = PD_NO_ACTION
             then valid_plan pl \<and> pl = \<lparr>plan_disposition_of = PD_NO_ACTION, plan_evidence_hash = ev_evidence_hash e,
                     plan_proposal = None, plan_reason = ''Resource is compliant; no remediation is warranted''\<rparr>
             else planned_proposal e c pid t = Inr (Succeeded pl)"
    by (auto simp: plan_accepted_iff)
  show ?thesis
  proof (cases "mc_disposition c = PD_NO_ACTION")
    case True
    with d candidate_shape(1) [OF c] show ?thesis by auto
  next
    case False
    with d have "planned_proposal e c pid t = Inr (Succeeded pl)" by simp
    then obtain p where "plan_proposal pl = Some p" "valid_plan pl" "plan_disposition_of pl = mc_disposition c"
        "plan_evidence_hash pl = ev_evidence_hash e" "mc_operation_type c = Some (rp_operation_type p)"
        "mc_claimed_authority c = Some (rp_authority_class p)"
      and cr: "RemediationProposal_create pid e (rp_operation_type p) (rp_normalized_parameters p) (rp_authority_class p)
                 (risk_text (rp_operation_type p)) t (plus_seconds t 86400) = Inr p"
      by (rule planned_proposal_created)
    moreover note created_proposal_fields [OF cr]
    ultimately show ?thesis using False candidate_shape [OF c]
      by (cases "mc_disposition c") (auto simp: valid_remediation_proposal_def)
  qed
qed

section \<open>Planning always answers\<close>

lemma risk_text_ok: "non_empty_text (risk_text operation)"
  by (cases operation) (simp_all add: non_empty_text_def py_strip_def py_space_def)

lemma compliant_text_ok: "non_empty_text ''Resource is compliant; no remediation is warranted''"
  by (simp add: non_empty_text_def py_strip_def py_space_def)

lemma planned_proposal_total:
  assumes "canonical_model_candidate e = Inr c" "valid_evidence e" "mc_disposition c \<noteq> PD_NO_ACTION"
  shows "planned_proposal e c pid t \<noteq> Inl x"
proof
  assume raised: "planned_proposal e c pid t = Inl x"
  then obtain operation params authority p where c: "mc_operation_type c = Some operation"
      "mc_normalized_parameters c = Some params" "mc_claimed_authority c = Some authority"
    and p: "RemediationProposal_create pid e operation params authority (risk_text operation) t (plus_seconds t 86400) = Inr p"
    and bad: "\<not> valid_plan \<lparr>plan_disposition_of = mc_disposition c, plan_evidence_hash = ev_evidence_hash e,
               plan_proposal = Some p, plan_reason = risk_text operation\<rparr>"
    by (auto simp: planned_proposal_def result_simps split: option.splits sum.splits)
  have "sha256_digest (ev_evidence_hash e)" using assms(2) by (simp add: valid_evidence_def)
  with bad assms(3) candidate_shape [OF assms(1)] c created_proposal_fields [OF p] risk_text_ok show False
    by (cases "mc_disposition c") (auto simp: valid_plan_def)
qed

text \<open>Planning never raises: for every evidence, model output and reading of it the result is a plan or
  a typed failure.\<close>

theorem planning_never_raises: "PlanRemediation_execute read_candidate e out pid t \<noteq> Inl x"
proof
  assume "PlanRemediation_execute read_candidate e out pid t = Inl x"
  then obtain c where v: "valid_evidence e" and c: "canonical_model_candidate e = Inr c"
    and "if mc_disposition c = PD_NO_ACTION
         then \<not> valid_plan \<lparr>plan_disposition_of = PD_NO_ACTION, plan_evidence_hash = ev_evidence_hash e,
                plan_proposal = None, plan_reason = ''Resource is compliant; no remediation is warranted''\<rparr>
         else planned_proposal e c pid t = Inl x"
    by (auto simp: PlanRemediation_execute_def result_simps split: if_splits option.splits sum.splits)
  with planned_proposal_total [OF c v, of pid t x] compliant_text_ok show False
    by (auto simp: valid_plan_def valid_evidence_def split: if_splits)
qed

lemma valid_evidenceD:
  assumes "valid_evidence e"
  shows "uuid7 (ev_run_id e)" "uuid7 (ev_correlation_id e)" "valid_resource (ev_resource e)"
    "sha256_digest (ev_evidence_hash e)" "short_identifier (resource_id (ev_resource e))"
proof -
  show "valid_resource (ev_resource e)" using assms unfolding valid_evidence_def by blast
  then show "short_identifier (resource_id (ev_resource e))" by (rule valid_resource_identifier)
  show "uuid7 (ev_run_id e)" "uuid7 (ev_correlation_id e)" "sha256_digest (ev_evidence_hash e)"
    using assms unfolding valid_evidence_def by blast+
qed

lemma rule_json_ok: "json_ok (rule_json r)"
  by (auto simp: rule_json_def opt_json_def split: option.splits)

lemma canonical_candidate_exists:
  assumes v: "valid_evidence e" and f: "ev_findings e = findings (ev_resource e)"
  shows "\<exists>c. canonical_model_candidate e = Inr c"
proof -
  have id: "short_identifier (resource_id (ev_resource e))"
    using v by (rule valid_evidenceD)
  have keys: "short_identifier ''allocation_id'' \<and> short_identifier ''ingress_rules''
              \<and> short_identifier ''security_group_id'' \<and> short_identifier ''tags''"
    by (simp add: short_identifier_def identifier_shape_def identifier_tail_def ascii_alnum_def ascii_digit_def
        char_between_def)
  have tags: "distinct (filter P REQUIRED_EC2_TAGS)" for P by (simp add: REQUIRED_EC2_TAGS_def)
  show ?thesis using id keys f tags
    by (cases "ev_resource e")
      (auto simp: canonical_model_candidate_def validated_def valid_candidate_def candidate_simps Let_def rule_json_ok
        list_ex_iff filter_empty_conv comp_def)
qed

lemma created_proposal_exists:
  assumes c: "canonical_model_candidate e = Inr c" and v: "valid_evidence e" and f: "ev_findings e = findings (ev_resource e)"
    and "mc_disposition c \<noteq> PD_NO_ACTION" "uuid7 pid" "is_utc t"
    and mc: "mc_operation_type c = Some operation" "mc_normalized_parameters c = Some params" "mc_claimed_authority c = Some authority"
  shows "\<exists>p. RemediationProposal_create pid e operation params authority (risk_text operation) t (plus_seconds t 86400) = Inr p"
proof -
  have pol: "(resource_type (ev_resource e), authority) = operation_policy operation"
    using c mc f by (cases "ev_resource e") (auto elim!: candidate_cases simp: candidate_simps split: if_splits)
  have par: "params \<noteq> [] \<and> json_ok (JObj params) \<and> (\<forall>k \<in> set (map fst params). short_identifier k)"
    using c mc canonical_candidate_valid [OF c]
    by (auto elim!: candidate_cases simp: candidate_simps valid_candidate_def)
  from pol par assms(5,6) risk_text_ok valid_evidenceD [OF v] show ?thesis
    by (simp add: RemediationProposal_create_def Let_def result_simps valid_remediation_proposal_def action_payload_def
        stable_fingerprint_def)
qed

text \<open>The local advisor is always understood: when the contract's text form of the canonical candidate is
  read back as that candidate, and fits the bounds, then the advisor's answer for evidence of a query is
  accepted and gives a plan.\<close>

theorem advisor_plan_is_accepted:
  assumes v: "valid_evidence e" and f: "ev_findings e = findings (ev_resource e)" and "uuid7 pid" "is_utc t"
    and codec: "\<And>c. canonical_model_candidate e = Inr c \<Longrightarrow>
                  read_candidate (model_dump_json c) = Some c \<and> py_strip (model_dump_json c) \<noteq> []
                  \<and> utf8_length (model_dump_json c) \<le> 8192"
  shows "\<exists>out pl. PortableAdvisor_create_plan model_dump_json e = Inr out
                  \<and> PlanRemediation_execute read_candidate e out pid t = Inr (Succeeded pl)"
proof -
  obtain c where c: "canonical_model_candidate e = Inr c" using canonical_candidate_exists [OF v f] by blast
  have "\<exists>pl. PlanRemediation_execute read_candidate e (model_dump_json c) pid t = Inr (Succeeded pl)"
  proof (cases "mc_disposition c = PD_NO_ACTION")
    case True
    then show ?thesis using c codec [OF c] v compliant_text_ok
      by (auto simp: plan_accepted_iff valid_plan_def valid_evidence_def)
  next
    case False
    with canonical_candidate_valid [OF c] obtain operation params authority
      where mc: "mc_operation_type c = Some operation" "mc_normalized_parameters c = Some params"
        "mc_claimed_authority c = Some authority"
      by (auto simp: valid_candidate_def)
    with created_proposal_exists [OF c v f False assms(3,4)] obtain p where
      "RemediationProposal_create pid e operation params authority (risk_text operation) t (plus_seconds t 86400) = Inr p"
      by blast
    with mc have "planned_proposal e c pid t =
        ebind (validated valid_plan \<lparr>plan_disposition_of = mc_disposition c, plan_evidence_hash = ev_evidence_hash e,
                 plan_proposal = Some p, plan_reason = risk_text operation\<rparr>) (\<lambda>pl. Inr (Succeeded pl))"
      by (simp add: planned_proposal_def)
    moreover have "planned_proposal e c pid t \<noteq> Inl x" for x by (rule planned_proposal_total [OF c v False])
    ultimately have "\<exists>pl. planned_proposal e c pid t = Inr (Succeeded pl)" by (auto simp: validated_def split: if_splits)
    then show ?thesis using c codec [OF c] v False by (auto simp: plan_accepted_iff)
  qed
  then show ?thesis using c by (auto simp: PortableAdvisor_create_plan_def)
qed

section \<open>A planned action removes the finding\<close>

text \<open>A rule written into a proposal is read back by the executor as the rule it was, when integers are read as
  themselves.\<close>

lemma rule_of_rule_json:
  assumes "valid_rule r" "\<And>n. lax_int (JInt n) = Some n"
  shows "rule_of_json lax_int (rule_json r) = Inr r"
  using assms
  by (cases r) (auto simp: rule_of_json_def rule_json_def text_field_def port_field_def opt_json_def valid_rule_def
      split: option.splits)

lemma traverse_rule_json:
  assumes "list_all valid_rule rs" "\<And>n. lax_int (JInt n) = Some n"
  shows "traverse (rule_of_json lax_int) (map rule_json rs) = Inr rs"
  using assms(1) by (induction rs) (simp_all add: rule_of_rule_json [OF _ assms(2)])

lemma filter_partition_length: "length (filter (\<lambda>x. \<not> P x) xs) + length (filter P xs) = length xs"
  using sum_length_filter_compl [of P xs] by simp

lemma distinct_length_card: "length xs = card (set xs) \<longleftrightarrow> distinct xs"
  using card_distinct [of xs] distinct_card [of xs] by metis

text \<open>Property C30. The planner and the executor agree: for evidence of a query and an accepted executable plan,
  releasing an unattached address always takes effect; revoking takes effect exactly when no public rule
  occurs twice, and then what is left is the group with precisely its non-public rules, on which a new query
  finds nothing.\<close>

theorem planned_action_removes_finding:
  assumes lax: "\<And>n. lax_int (JInt n) = Some n"
    and f: "ev_findings e = findings (ev_resource e)"
    and plan: "PlanRemediation_execute read_candidate e out pid t = Inr (Succeeded pl)"
    and p: "plan_disposition_of pl = PD_PROPOSAL" "plan_proposal pl = Some p"
  shows "case ev_resource e of
           ElasticIpResource a \<Rightarrow> effect_of lax_int p (ev_resource e) = Inr None
         | SecurityGroupResource g \<Rightarrow>
             (let after = SecurityGroupResource (g\<lparr>sg_inbound_rules := filter (\<lambda>r. cidr_ipv4 r \<noteq> PUBLIC_CIDR) (sg_inbound_rules g)\<rparr>)
              in effect_of lax_int p (ev_resource e) =
                   (if distinct (filter (\<lambda>r. cidr_ipv4 r = PUBLIC_CIDR) (sg_inbound_rules g))
                    then Inr (Some after) else Inl PortablePolicyError)
                 \<and> findings after = [CF_CLEAN])
         | Ec2Resource i \<Rightarrow> False"
proof -
  from plan obtain c where v: "valid_evidence e" and c: "canonical_model_candidate e = Inr c"
    and pp: "planned_proposal e c pid t = Inr (Succeeded pl)"
    using p(2) by (auto simp: plan_accepted_iff split: if_splits)
  from pp p obtain d: "mc_disposition c = PD_PROPOSAL" "mc_operation_type c = Some (rp_operation_type p)"
      "mc_normalized_parameters c = Some (rp_normalized_parameters p)"
      "rp_target_resource_id p = resource_id (ev_resource e)"
    by (elim planned_proposal_created) (auto dest: created_proposal_fields(6))
  show ?thesis
  proof (cases "ev_resource e")
    case (Ec2Resource i)
    with c d(1) f show ?thesis by (auto elim!: candidate_cases simp: candidate_simps split: if_splits)
  next
    case (ElasticIpResource a)
    with c d f show ?thesis
      by (auto elim!: candidate_cases simp: candidate_simps effect_of_def release_effect_def split: if_splits)
  next
    case (SecurityGroupResource g)
    let ?bad = "filter (\<lambda>r. cidr_ipv4 r = PUBLIC_CIDR) (sg_inbound_rules g)"
    let ?good = "filter (\<lambda>r. cidr_ipv4 r \<noteq> PUBLIC_CIDR) (sg_inbound_rules g)"
    have op: "rp_operation_type p = RO_REVOKE_PUBLIC_INGRESS" and ne: "?bad \<noteq> []"
      and params: "rp_normalized_parameters p =
        [(''ingress_rules'', JArr (map rule_json ?bad)), (''security_group_id'', JStr (sg_id g))]"
      using c d f SecurityGroupResource by (auto elim!: candidate_cases simp: candidate_simps split: if_splits)
    have "list_all valid_rule ?bad"
      using valid_evidenceD(3) [OF v] SecurityGroupResource by (auto simp: list_all_iff)
    then have tr: "traverse (rule_of_json lax_int) (map rule_json ?bad) = Inr ?bad" by (rule traverse_rule_json [OF _ lax])
    have rem: "filter (\<lambda>r. r \<notin> set ?bad) (sg_inbound_rules g) = ?good" by (auto intro: filter_cong)
    have all: "list_all (\<lambda>r. r \<in> set (sg_inbound_rules g)) ?bad" by (simp add: list_all_iff)
    have len: "int (length ?good) = int (length (sg_inbound_rules g)) - int (card (set ?bad)) \<longleftrightarrow> distinct ?bad"
      using filter_partition_length [of "\<lambda>r. cidr_ipv4 r = PUBLIC_CIDR" "sg_inbound_rules g"] distinct_length_card [of ?bad]
      by linarith
    have "effect_of lax_int p (ev_resource e) =
            ebind (ensure (int (length ?good) = int (length (sg_inbound_rules g)) - int (card (set ?bad))) PortablePolicyError)
              (\<lambda>_. Inr (Some (SecurityGroupResource (g\<lparr>sg_inbound_rules := ?good\<rparr>))))"
      using op SecurityGroupResource params d(4) ne
      by (simp add: effect_of_def revoke_effect_def tr rem all Let_def del: set_filter)
    also have "\<dots> = (if distinct ?bad then Inr (Some (SecurityGroupResource (g\<lparr>sg_inbound_rules := ?good\<rparr>)))
                       else Inl PortablePolicyError)"
      by (simp only: len ensure_def ebind_Inr ebind_Inl split: if_split) blast
    finally show ?thesis using SecurityGroupResource by (simp add: list_ex_iff Let_def)
  qed
qed

end
