(* ===== verification/NZ_Planning.thy ===== *)
theory NZ_Planning
  imports NZ_Workflow_Completion NZ_Investigation
begin

text \<open>
  The investigation workflow, \<^verbatim>\<open>planning.py\<close>: from a received run to evidence, a plan and the
  durable approval boundary. It runs in the same worlds as the execution workflow and shares its
  repository, its clock and its identifier factories; the resource reader looks at the executor's
  inventory file. What the planning model answers at its n-th call is an argument, as is the
  reading of its text, the rounding of an interval to milliseconds, which the code computes in
  floating point, and \<^verbatim>\<open>str\<close> of a JSON value that is not text.
\<close>

section \<open>Messages\<close>

record investigation_completion =
  ic_run_id :: uuid
  ic_trace_id :: uuid
  ic_correlation_id :: uuid
  ic_evidence :: resource_evidence
  ic_plan :: remediation_plan
  ic_final_state :: workflow_state
  ic_public_state :: execution_state
  ic_approval_status :: approval_status
  ic_reconciled :: bool

text \<open>\<^verbatim>\<open>RemediationProposal.authorizes_execution\<close> is the literal \<^verbatim>\<open>False\<close> of the contract, so the two checks of
  it never reject.\<close>

definition valid_investigation_completion :: "investigation_completion \<Rightarrow> bool" where
  "valid_investigation_completion c \<longleftrightarrow>
     uuid7 (ic_run_id c) \<and> uuid7 (ic_trace_id c) \<and> uuid7 (ic_correlation_id c)
     \<and> ic_final_state c \<in> {WS_AWAITING_APPROVAL, WS_NO_ACTION_REQUIRED, WS_RECOMMENDATION_ONLY}
     \<and> ev_run_id (ic_evidence c) = ic_run_id c \<and> ev_trace_id (ic_evidence c) = ic_trace_id c
     \<and> ev_correlation_id (ic_evidence c) = ic_correlation_id c
     \<and> plan_evidence_hash (ic_plan c) = ev_evidence_hash (ic_evidence c)
     \<and> (if ic_final_state c = WS_AWAITING_APPROVAL
        then ic_public_state c = ES_PENDING \<and> ic_approval_status c = AS_PENDING_APPROVAL
             \<and> plan_disposition_of (ic_plan c) = PD_PROPOSAL
             \<and> (case plan_proposal (ic_plan c) of None \<Rightarrow> False | Some p \<Rightarrow> rp_status p = PS_AWAITING_APPROVAL)
        else ic_public_state c = ES_SUCCESS \<and> ic_approval_status c = AS_NOT_REQUIRED)"

datatype model_reply =
    ModelText string
  | ModelProviderTimeoutError
  | ModelProviderNonRetryableError
  | ModelProviderRetryableError
  | ModelProviderError
  | ModelOtherException

record planning_environment =
  pe_env :: environment
  pe_proposal_id :: "nat \<Rightarrow> uuid"
  pe_create_plan :: "nat \<Rightarrow> resource_evidence \<Rightarrow> model_reply"
  pe_read_candidate :: "string \<Rightarrow> model_plan_candidate option"
  pe_milliseconds :: "int \<Rightarrow> int"
  pe_py_str :: "json \<Rightarrow> string"

definition budget_json :: "budget_counters \<Rightarrow> json" where
  "budget_json b = JObj
     [(''elapsed_milliseconds_used'', JInt (elapsed_milliseconds_used b)),
      (''max_elapsed_seconds'', JInt (max_elapsed_seconds b)), (''max_tokens'', JInt (max_tokens b)),
      (''max_turns'', JInt (max_turns b)), (''tokens_used'', JInt (tokens_used b)), (''turns_used'', JInt (turns_used b))]"

definition run_json :: "run \<Rightarrow> json" where
  "run_json r = JObj
     [(''budget'', budget_json (run_budget r)), (''correlation_id'', JStr (uuid_str (correlation_id r))),
      (''created_at'', JStr (iso_json (run_created_at r))), (''idempotency_key'', JStr (run_idempotency_key r)),
      (''run_id'', JStr (uuid_str (run_id r))), (''state'', JStr (workflow_state_value (run_state r))),
      (''trace_id'', JStr (uuid_str (trace_id r))), (''updated_at'', JStr (iso_json (run_updated_at r))),
      (''version'', JInt (run_version r))]"

section \<open>Steps of the workflow\<close>

type_synonym investigation_result = "investigation_completion control_result"

definition proposal_id_factory :: "planning_environment \<Rightarrow> uuid comp" where
  "proposal_id_factory env w = (Inr (pe_proposal_id env (w_ids w)), w\<lparr>w_ids := w_ids w + 1\<rparr>)"

definition query_resource :: "planning_environment \<Rightarrow> resource_query \<Rightarrow> run \<Rightarrow> datetime \<Rightarrow> resource_evidence control_result comp" where
  "query_resource env q r observed_at w =
     (let io = en_executor_io (pe_env env) (w_executor_uses w);
          initial = en_initial_resources (pe_env env)
      in (QueryResource_execute (\<lambda>q. PortableResourceReader_get_resource io initial q (px_file (w_executor w)))
            ''persistent-local-mock-aws'' q r observed_at,
          w\<lparr>w_executor_uses := w_executor_uses w + 1\<rparr>))"

definition create_plan :: "planning_environment \<Rightarrow> resource_evidence \<Rightarrow> model_reply comp" where
  "create_plan env e w = (Inr (pe_create_plan env (w_plan_calls w) e), w\<lparr>w_plan_calls := w_plan_calls w + 1\<rparr>)"

definition planning_transition :: "planning_environment \<Rightarrow> run \<Rightarrow> workflow_state \<Rightarrow> run comp" where
  "planning_transition env r next_state =
     move_run (pe_env env) (run_id r) next_state (run_state r) (run_version r) None None"

definition planning_event ::
  "planning_environment \<Rightarrow> run \<Rightarrow> audit_event_type \<Rightarrow> string \<Rightarrow> string \<Rightarrow> (string \<times> string) list \<Rightarrow> unit comp" where
  "planning_event env r ty payload_hash source metadata =
     bindc (event_id_factory (pe_env env)) (\<lambda>eid.
     bindc (clock (pe_env env)) (\<lambda>now.
     bindc (lift (validated valid_audit_event
              \<lparr>ae_event_id = eid, ae_run_id = run_id r, ae_type = ty, ae_timestamp = now,
               ae_source = source, ae_tool_name = None, ae_model_id = None,
               ae_redacted_payload_hash = payload_hash,
               ae_metadata = foldl (\<lambda>d kv. dict_set (fst kv) (snd kv) d)
                 [(''trace_id'', uuid_str (trace_id r)), (''correlation_id'', uuid_str (correlation_id r))] metadata\<rparr>)) (\<lambda>ev.
     bindc (store_write (pe_env env) (\<lambda>io. repo_append_audit_event io ev)) (\<lambda>_. ret ()))))"

definition planning_checkpoint ::
  "planning_environment \<Rightarrow> run \<Rightarrow> workflow_state \<Rightarrow> (string \<times> json) list \<Rightarrow> (string \<times> string) list
   \<Rightarrow> resource_evidence \<Rightarrow> remediation_proposal option \<Rightarrow> int \<Rightarrow> int option \<Rightarrow> checkpoint comp" where
  "planning_checkpoint env r st metadata hashes e p version expected_version =
     bindc (clock (pe_env env)) (\<lambda>now.
     bindc (lift (validated valid_checkpoint
              \<lparr>cp_run_id = run_id r, cp_last_safe_state = st, cp_resume_metadata = metadata,
               cp_tool_result_hashes = hashes, cp_resource_evidence = Some e, cp_remediation_proposal = p,
               cp_local_approval_request = None, cp_local_approval = None, cp_local_execution_intent = None,
               cp_local_execution_receipt = None, cp_local_verification = None, cp_created_at = now,
               cp_version = version\<rparr>)) (\<lambda>c.
     store_write (pe_env env) (\<lambda>io. repo_save_checkpoint io c expected_version)))"

text \<open>A try block whose handler returns from the method with a failure, or goes on with another value.\<close>

definition attempt :: "(exn \<Rightarrow> bool) \<Rightarrow> 'f \<Rightarrow> 'a comp \<Rightarrow> ('f + 'a) comp" where
  "attempt caught f m = catchc (bindc m (\<lambda>x. ret (Inr x))) (on_exn caught (ret (Inl f)))"

definition persist_failure :: "planning_environment \<Rightarrow> run \<Rightarrow> failure_detail \<Rightarrow> investigation_result comp" where
  "persist_failure env r f =
     catchc (bindc (planning_transition env r (workflow_state_for_failure f)) (\<lambda>_. failed f))
       (on_exn is_storage_error (failed (storage_failure ''Typed local failure could not be persisted'')))"

definition completion :: "run \<Rightarrow> resource_evidence \<Rightarrow> remediation_plan \<Rightarrow> bool \<Rightarrow> exn + investigation_completion" where
  "completion r e pl reconciled =
     (let pending = (run_state r = WS_AWAITING_APPROVAL)
      in validated valid_investigation_completion
           \<lparr>ic_run_id = run_id r, ic_trace_id = trace_id r, ic_correlation_id = correlation_id r, ic_evidence = e,
            ic_plan = pl, ic_final_state = run_state r,
            ic_public_state = (if pending then ES_PENDING else ES_SUCCESS),
            ic_approval_status = (if pending then AS_PENDING_APPROVAL else AS_NOT_REQUIRED),
            ic_reconciled = reconciled\<rparr>)"

definition plan_hash :: "resource_evidence \<Rightarrow> remediation_plan \<Rightarrow> string" where
  "plan_hash e pl = (case plan_proposal pl of None \<Rightarrow> ev_evidence_hash e | Some p \<Rightarrow> rp_proposal_hash p)"

definition save_terminal ::
  "planning_environment \<Rightarrow> run \<Rightarrow> resource_evidence \<Rightarrow> remediation_plan \<Rightarrow> workflow_state \<Rightarrow> audit_event_type \<Rightarrow> run comp" where
  "save_terminal env r e pl target_state event_type =
     bindc (planning_transition env r target_state) (\<lambda>current.
     bindc (planning_checkpoint env current target_state
              [(''phase'', JStr ''LOCAL_1''),
               (''plan_disposition'', JStr (plan_disposition_value (plan_disposition_of pl))),
               (''reason'', JStr (plan_reason pl))]
              [(''plan_remediation'', plan_hash e pl), (''query_resource'', ev_evidence_hash e)]
              e (plan_proposal pl) 2 (Some 1)) (\<lambda>_.
     bindc (planning_event env current event_type (plan_hash e pl) ''plan-remediation'' []) (\<lambda>_.
     ret current)))"

definition complete_safe_terminal ::
  "planning_environment \<Rightarrow> run \<Rightarrow> resource_evidence \<Rightarrow> remediation_plan \<Rightarrow> workflow_state \<Rightarrow> audit_event_type
   \<Rightarrow> investigation_result comp" where
  "complete_safe_terminal env r e pl target_state event_type =
     bindc (attempt is_storage_error (storage_failure ''Safe terminal plan persistence failed'')
              (save_terminal env r e pl target_state event_type)) (\<lambda>x.
     case x of
       Inl f \<Rightarrow> failed f
     | Inr current \<Rightarrow> bindc (lift (completion current e pl False)) (\<lambda>c. ret (Succeeded c)))"

definition awaiting_approval :: "remediation_proposal \<Rightarrow> remediation_proposal" where
  "awaiting_approval p = p\<lparr>rp_status := PS_AWAITING_APPROVAL, rp_version := rp_version p + 1\<rparr>"

definition save_protected ::
  "planning_environment \<Rightarrow> run \<Rightarrow> resource_evidence \<Rightarrow> remediation_proposal \<Rightarrow> (run \<times> remediation_proposal) comp" where
  "save_protected env r e proposal =
     bindc (planning_transition env r WS_REMEDIATION_PROPOSED) (\<lambda>proposed.
     bindc (lift (validated valid_remediation_proposal (awaiting_approval proposal))) (\<lambda>p.
     bindc (planning_checkpoint env proposed WS_AWAITING_APPROVAL
              [(''phase'', JStr ''LOCAL_1''), (''proposal_hash'', JStr (rp_proposal_hash p)),
               (''proposal_id'', JStr (uuid_str (rp_proposal_id p)))]
              [(''plan_remediation'', rp_proposal_hash p), (''query_resource'', ev_evidence_hash e)]
              e (Some p) 2 (Some 1)) (\<lambda>_.
     bindc (planning_transition env proposed WS_AWAITING_APPROVAL) (\<lambda>current.
     bindc (planning_event env current AET_REMEDIATION_PLANNED (rp_proposal_hash p) ''plan-remediation''
              [(''proposal_id'', uuid_str (rp_proposal_id p)),
               (''authority'', authority_gate_value (rp_authority_class p))]) (\<lambda>_.
     bindc (planning_event env current AET_APPROVAL_REQUESTED (rp_proposal_hash p) ''local-approval-boundary''
              [(''proposal_id'', uuid_str (rp_proposal_id p))]) (\<lambda>_.
     ret (current, p)))))))"

definition complete_protected ::
  "planning_environment \<Rightarrow> run \<Rightarrow> resource_evidence \<Rightarrow> remediation_plan \<Rightarrow> remediation_proposal \<Rightarrow> investigation_result comp" where
  "complete_protected env r e pl proposal =
     bindc (attempt is_value_error (storage_failure ''Protected proposal persistence or transition failed'')
              (save_protected env r e proposal)) (\<lambda>x.
     case x of
       Inl f \<Rightarrow> failed f
     | Inr (current, p) \<Rightarrow>
         bindc (lift (completion current e (pl\<lparr>plan_proposal := Some p\<rparr>) False)) (\<lambda>c. ret (Succeeded c)))"

definition metadata_text :: "(string \<times> json) list \<Rightarrow> string \<Rightarrow> (json \<Rightarrow> string) \<Rightarrow> string \<Rightarrow> string" where
  "metadata_text md k py_str missing =
     (case map_of md k of None \<Rightarrow> missing | Some (JStr s) \<Rightarrow> s | Some v \<Rightarrow> py_str v)"

definition reconciled_plan :: "(json \<Rightarrow> string) \<Rightarrow> run \<Rightarrow> checkpoint \<Rightarrow> resource_evidence \<Rightarrow> failure_detail + (exn + remediation_plan)" where
  "reconciled_plan py_str r c e =
     (if run_state r = WS_NO_ACTION_REQUIRED then
        Inr (validated valid_plan
          \<lparr>plan_disposition_of = PD_NO_ACTION, plan_evidence_hash = ev_evidence_hash e, plan_proposal = None,
           plan_reason = metadata_text (cp_resume_metadata c) ''reason'' py_str ''No action required''\<rparr>)
      else case cp_remediation_proposal c of
        None \<Rightarrow> Inl (failure FK_RECOVERY_REQUIREMENT ''LOCAL_PROPOSAL_MISSING''
                       ''Terminal local run has no durable proposal'')
      | Some p \<Rightarrow>
          Inr (validated valid_plan
            \<lparr>plan_disposition_of = (if run_state r = WS_AWAITING_APPROVAL then PD_PROPOSAL else PD_NON_EXECUTABLE_RECOMMENDATION),
             plan_evidence_hash = ev_evidence_hash e, plan_proposal = Some p, plan_reason = rp_risk_summary p\<rparr>))"

definition reconcile :: "planning_environment \<Rightarrow> run \<Rightarrow> investigation_result comp" where
  "reconcile env r =
     (if run_state r \<notin> {WS_AWAITING_APPROVAL, WS_NO_ACTION_REQUIRED, WS_RECOMMENDATION_ONLY} then
        failed (failure FK_RECOVERY_REQUIREMENT ''LOCAL_RUN_ALREADY_ACTIVE''
                  ''Existing local run requires explicit recovery'')
      else
        bindc (attempt (\<lambda>e. e = StorageDependencyError) (storage_failure ''Local completion checkpoint is unavailable'')
                 (store_read (pe_env env) (\<lambda>io. repo_get_checkpoint io (run_id r)))) (\<lambda>x.
        case x of
          Inl f \<Rightarrow> failed f
        | Inr None \<Rightarrow> failed (failure FK_RECOVERY_REQUIREMENT ''LOCAL_CHECKPOINT_MISSING''
                              ''Terminal local run has no complete checkpoint'')
        | Inr (Some c) \<Rightarrow>
            (case cp_resource_evidence c of
               None \<Rightarrow> failed (failure FK_RECOVERY_REQUIREMENT ''LOCAL_CHECKPOINT_MISSING''
                                ''Terminal local run has no complete checkpoint'')
             | Some e \<Rightarrow>
                 (case reconciled_plan (pe_py_str env) r c e of
                    Inl f \<Rightarrow> failed f
                  | Inr pl \<Rightarrow>
                      bindc (lift pl) (\<lambda>pl.
                      catchc (bindc (lift (completion r e pl True)) (\<lambda>x. ret (Succeeded x)))
                        (on_exn is_value_error
                           (failed (failure FK_RECOVERY_REQUIREMENT ''LOCAL_CHECKPOINT_INVALID''
                                      ''Terminal local checkpoint is internally inconsistent''))))))))"

definition find_run :: "planning_environment \<Rightarrow> uuid \<Rightarrow> string \<Rightarrow> (failure_detail + run option) comp" where
  "find_run env rid message =
     attempt (\<lambda>e. e = StorageDependencyError) (storage_failure message) (store_read (pe_env env) (\<lambda>io. repo_get_run io rid))"

definition reconcile_raced :: "planning_environment \<Rightarrow> run \<Rightarrow> investigation_result comp" where
  "reconcile_raced env r =
     bindc (find_run env (run_id r) ''Local run reconciliation is unavailable'') (\<lambda>y.
     case y of
       Inl f \<Rightarrow> failed f
     | Inr None \<Rightarrow> failed (storage_failure ''Local run creation conflicted'')
     | Inr (Some raced) \<Rightarrow> reconcile env raced)"

definition start_run :: "planning_environment \<Rightarrow> run \<Rightarrow> (investigation_result + run) comp" where
  "start_run env r =
     catchc
       (bindc (store_write (pe_env env) (\<lambda>io. repo_create_run io r)) (\<lambda>current.
        bindc (planning_event env current AET_RUN_CREATED (digest (run_json r)) ''local-nz-control'' []) (\<lambda>_.
        ret (Inr current))))
       (\<lambda>x. if x = StorageConflictError then Some (bindc (reconcile_raced env r) (\<lambda>z. ret (Inl z)))
            else if x = StorageDependencyError then
              Some (bindc (failed (storage_failure ''Local run creation is unavailable'')) (\<lambda>z. ret (Inl z)))
            else None)"

text \<open>The try block around the evidence: a failure is recorded on the run as far as it got.\<close>

definition record_evidence :: "planning_environment \<Rightarrow> run \<Rightarrow> resource_evidence \<Rightarrow> (run + run) comp" where
  "record_evidence env r e =
     bindc (attempt is_storage_error r
       (bindc (planning_event env r AET_RESOURCE_QUERIED (ev_evidence_hash e) ''query-resource''
                 [(''resource_id'', resource_id (ev_resource e)),
                  (''resource_type'', cloud_resource_type_value (resource_type (ev_resource e)))]) (\<lambda>_.
        planning_transition env r WS_EVIDENCE_READY))) (\<lambda>x.
     case x of
       Inl r \<Rightarrow> ret (Inl r)
     | Inr current \<Rightarrow>
         attempt is_storage_error current
           (bindc (planning_checkpoint env current WS_EVIDENCE_READY [(''phase'', JStr ''LOCAL_1'')]
                     [(''query_resource'', ev_evidence_hash e)] e None 1 None) (\<lambda>_. ret current)))"

fun model_failure :: "model_reply \<Rightarrow> failure_detail option" where
  "model_failure (ModelText _) = None"
| "model_failure ModelProviderTimeoutError =
     Some (failure FK_PROVIDER_FAILURE ''MODEL_PROVIDER_TIMEOUT'' ''Model provider exhausted its bounded response time'')"
| "model_failure ModelProviderNonRetryableError =
     Some (failure FK_PROVIDER_FAILURE ''MODEL_PROVIDER_NON_RETRYABLE_FAILURE'' ''Model provider returned a permanent failure'')"
| "model_failure ModelProviderRetryableError =
     Some \<lparr>f_kind = FK_PROVIDER_FAILURE, f_code = ''MODEL_PROVIDER_RETRYABLE_FAILURE'',
           f_message = ''Model provider returned a retryable failure'', f_retryable = True\<rparr>"
| "model_failure ModelProviderError =
     Some \<lparr>f_kind = FK_PROVIDER_FAILURE, f_code = ''MODEL_PROVIDER_FAILED'',
           f_message = ''Model provider is unavailable'', f_retryable = True\<rparr>"
| "model_failure ModelOtherException =
     Some (failure FK_PROVIDER_FAILURE ''MODEL_PROVIDER_INVALID_FAILURE'' ''Model provider failed outside its typed contract'')"

definition advice_budget :: "planning_environment \<Rightarrow> run \<Rightarrow> string \<Rightarrow> datetime \<Rightarrow> budget_counters" where
  "advice_budget env r raw_plan now =
     (run_budget r)\<lparr>turns_used := turns_used (run_budget r) + 1,
        tokens_used := tokens_used (run_budget r) + int (utf8_length raw_plan),
        elapsed_milliseconds_used := max 0 (pe_milliseconds env (dt_micros now - dt_micros (run_created_at r)))\<rparr>"

definition account_advice :: "planning_environment \<Rightarrow> run \<Rightarrow> string \<Rightarrow> (investigation_result + run) comp" where
  "account_advice env r raw_plan =
     bindc (clock (pe_env env)) (\<lambda>now.
     case validated valid_budget (advice_budget env r raw_plan now) of
       Inl _ \<Rightarrow>
         bindc (persist_failure env r (failure FK_BUDGET_EXHAUSTION ''NATIVE_ADVISORY_BUDGET_EXHAUSTED''
                  ''Local advisory output or elapsed time exceeded the run budget'')) (\<lambda>z. ret (Inl z))
     | Inr budget \<Rightarrow>
         bindc (attempt is_storage_error (storage_failure ''Native advisory budget could not be persisted'')
                  (bindc (clock (pe_env env)) (\<lambda>updated_at.
                   store_write (pe_env env) (\<lambda>io. repo_update_run_budget io (run_id r) budget (run_version r) updated_at)))) (\<lambda>x.
         case x of Inl f \<Rightarrow> bindc (failed f) (\<lambda>z. ret (Inl z)) | Inr current \<Rightarrow> ret (Inr current)))"

definition finish_plan ::
  "planning_environment \<Rightarrow> run \<Rightarrow> resource_evidence \<Rightarrow> remediation_plan control_result \<Rightarrow> investigation_result comp" where
  "finish_plan env r e result =
     (case result of
        Failed f \<Rightarrow>
          bindc (attempt is_storage_error (storage_failure ''Rejected model plan audit is unavailable'')
            (planning_event env r AET_MODEL_OUTPUT_REJECTED (ev_evidence_hash e) ''local-plan-policy''
               [(''failure_code'', f_code f)])) (\<lambda>x.
          case x of Inl g \<Rightarrow> failed g | Inr _ \<Rightarrow> persist_failure env r f)
      | Succeeded pl \<Rightarrow>
          if plan_disposition_of pl = PD_NO_ACTION then
            complete_safe_terminal env r e pl WS_NO_ACTION_REQUIRED AET_NO_ACTION_RECORDED
          else if plan_disposition_of pl = PD_NON_EXECUTABLE_RECOMMENDATION then
            complete_safe_terminal env r e pl WS_RECOMMENDATION_ONLY AET_RECOMMENDATION_RECORDED
          else case plan_proposal pl of
            None \<Rightarrow> persist_failure env r (failure FK_POLICY_DENIAL ''PROTECTED_PROPOSAL_INVALID''
                      ''Protected plan did not produce inert proposal data'')
          | Some p \<Rightarrow> complete_protected env r e pl p)"

definition plan_from_evidence :: "planning_environment \<Rightarrow> run \<Rightarrow> resource_evidence \<Rightarrow> investigation_result comp" where
  "plan_from_evidence env r e =
     bindc (create_plan env e) (\<lambda>reply.
     case reply of
       ModelText raw_plan \<Rightarrow>
         bindc (account_advice env r raw_plan) (\<lambda>x.
         case x of
           Inl result \<Rightarrow> ret result
         | Inr current \<Rightarrow>
             bindc (proposal_id_factory env) (\<lambda>pid.
             bindc (clock (pe_env env)) (\<lambda>created_at.
             bindc (lift (PlanRemediation_execute (pe_read_candidate env) e raw_plan pid created_at)) (\<lambda>result.
             finish_plan env current e result))))
     | _ \<Rightarrow> persist_failure env r (the (model_failure reply)))"

definition investigate_received :: "planning_environment \<Rightarrow> resource_query \<Rightarrow> run \<Rightarrow> investigation_result comp" where
  "investigate_received env q r =
     (if run_state r \<noteq> WS_RECEIVED then
        failed (failure FK_RECOVERY_REQUIREMENT ''LOCAL_RUN_STATE_INVALID'' ''Local flow can start only from RECEIVED'')
      else
        bindc (attempt is_storage_error (storage_failure ''Durable INVESTIGATING transition failed'')
                 (planning_transition env r WS_INVESTIGATING)) (\<lambda>x.
        case x of
          Inl f \<Rightarrow> failed f
        | Inr current \<Rightarrow>
            bindc (clock (pe_env env)) (\<lambda>observed_at.
            bindc (query_resource env q current observed_at) (\<lambda>result.
            case result of
              Failed f \<Rightarrow> persist_failure env current f
            | Succeeded e \<Rightarrow>
                bindc (record_evidence env current e) (\<lambda>y.
                case y of
                  Inl r \<Rightarrow> persist_failure env r
                     \<lparr>f_kind = FK_STORAGE_FAILURE, f_code = ''EVIDENCE_PERSISTENCE_FAILED'',
                      f_message = ''Resource evidence could not be persisted'', f_retryable = True\<rparr>
                | Inr r \<Rightarrow> plan_from_evidence env r e)))))"

text \<open>\<^verbatim>\<open>InvestigationWorkflow.execute\<close>.\<close>

definition investigate :: "planning_environment \<Rightarrow> run \<Rightarrow> resource_query \<Rightarrow> investigation_result comp" where
  "investigate env r q =
     bindc (find_run env (run_id r) ''Local run lookup is unavailable'') (\<lambda>x.
     case x of
       Inl f \<Rightarrow> failed f
     | Inr (Some current) \<Rightarrow> if current \<noteq> r then reconcile env current else investigate_received env q current
     | Inr None \<Rightarrow>
         bindc (start_run env r) (\<lambda>y.
         case y of Inl result \<Rightarrow> ret result | Inr current \<Rightarrow> investigate_received env q current))"

end
