(* ===== verification/NZ_Planning_Safety.thy ===== *)
theory NZ_Planning_Safety
  imports NZ_Planning
begin

text \<open>
  The investigation workflow keeps what the execution workflow keeps (history of the store, the
  executor's file), never touches the executor, and reports only what the repository durably
  holds. The first part extends the locale of store relations by the three writes that only an
  investigation makes; the second is a small program logic over worlds with a readable store.
\<close>

section \<open>Relations kept by an investigation\<close>

locale planning_relation = store_relation +
  assumes create_step: "valid_run r \<Longrightarrow> keeps R (store_write env (\<lambda>io. repo_create_run io r))"
    and budget_step: "keeps R (store_write env (\<lambda>io. repo_update_run_budget io rid b v u))"
    and checkpoint_step: "valid_checkpoint c \<Longrightarrow> keeps R (store_write env (\<lambda>io. repo_save_checkpoint io c ev))"
begin

lemma keeps_planning_transition: "keeps R (planning_transition env r st)"
  unfolding planning_transition_def by (rule move_step)

lemma keeps_planning_event: "keeps R (planning_event env r ty h src md)"
  unfolding planning_event_def
  by (intro keeps_bindc_gives [where P = valid_audit_event and m = "lift _"] keeps_rules event_step)
     (auto simp: gives_def result_simps)

lemma keeps_planning_checkpoint: "keeps R (planning_checkpoint env r st md hs e p v ev)"
  unfolding planning_checkpoint_def
  by (intro keeps_bindc_gives [where P = valid_checkpoint and m = "lift _"] keeps_rules checkpoint_step)
     (auto simp: gives_def result_simps)

lemma keeps_planning_sources:
  "keeps R (proposal_id_factory env)" "keeps R (query_resource env q r t)" "keeps R (create_plan env e)"
  by (auto simp: keeps_def proposal_id_factory_def query_resource_def create_plan_def Let_def
      intro: ids_step executor_uses_step plan_calls_step refl)

lemmas keeps_planning = keeps_planning_transition keeps_planning_event keeps_planning_checkpoint keeps_planning_sources
  keeps_ret keeps_lift keeps_failed keeps_clock keeps_store_read keeps_bindc keeps_catchc

lemma keeps_persist_planning: "keeps R (persist_failure env r f)"
  unfolding persist_failure_def
  by (intro keeps_planning) (auto simp: on_exn_def intro!: keeps_failed split: if_splits)

lemma keeps_attempt: "keeps R m \<Longrightarrow> keeps R (attempt E f m)"
  unfolding attempt_def by (intro keeps_catchc keeps_bindc keeps_ret) (auto simp: on_exn_def keeps_ret split: if_splits)

lemma keeps_saves: "keeps R (save_terminal env r e pl st ty)" "keeps R (save_protected env r e p)"
  unfolding save_terminal_def save_protected_def by (intro keeps_planning)+

lemma keeps_complete_safe: "keeps R (complete_safe_terminal env r e pl st ty)"
  unfolding complete_safe_terminal_def
  by (intro keeps_bindc keeps_attempt keeps_saves) (auto intro!: keeps_planning split: sum.splits)

lemma keeps_complete_protected: "keeps R (complete_protected env r e pl p)"
  unfolding complete_protected_def
  by (intro keeps_bindc keeps_attempt keeps_saves) (auto intro!: keeps_planning split: sum.splits)

lemma keeps_reconcile: "keeps R (reconcile env r)"
  unfolding reconcile_def
  by (auto simp: on_exn_def intro!: keeps_planning keeps_attempt split: if_splits sum.splits option.splits)

lemma keeps_find_run: "keeps R (find_run env rid msg)"
  unfolding find_run_def by (intro keeps_attempt keeps_store_read)

lemma keeps_start_run: "valid_run r \<Longrightarrow> keeps R (start_run env r)"
  unfolding start_run_def reconcile_raced_def
  by (intro keeps_catchc keeps_bindc create_step)
     (auto intro!: keeps_planning keeps_reconcile keeps_find_run split: if_splits sum.splits option.splits)

lemma keeps_record_evidence: "keeps R (record_evidence env r e)"
  unfolding record_evidence_def
  by (intro keeps_bindc keeps_attempt keeps_planning) (auto intro!: keeps_planning keeps_attempt split: sum.splits)

lemma keeps_account_advice: "keeps R (account_advice env r raw)"
  unfolding account_advice_def
  by (intro keeps_bindc keeps_clock)
     (auto intro!: keeps_planning keeps_persist_planning keeps_attempt budget_step split: sum.splits)

lemma keeps_finish_plan: "keeps R (finish_plan env r e result)"
  unfolding finish_plan_def
  by (auto intro!: keeps_planning keeps_persist_planning keeps_attempt keeps_complete_safe keeps_complete_protected
      split: control_result.splits sum.splits option.splits)

lemma keeps_plan_from_evidence: "keeps R (plan_from_evidence env r e)"
  unfolding plan_from_evidence_def
  by (intro keeps_bindc keeps_planning_sources)
     (auto intro!: keeps_planning keeps_persist_planning keeps_account_advice keeps_finish_plan
       split: model_reply.splits sum.splits)

lemma keeps_investigate_received: "keeps R (investigate_received env q r)"
  unfolding investigate_received_def
  by (auto intro!: keeps_planning keeps_attempt keeps_persist_planning keeps_record_evidence keeps_plan_from_evidence
      split: sum.splits control_result.splits)

lemma keeps_investigate: "valid_run r \<Longrightarrow> keeps R (investigate env r q)"
  unfolding investigate_def
  by (auto intro!: keeps_planning keeps_find_run keeps_start_run keeps_reconcile keeps_investigate_received
      split: sum.splits option.splits)

end

interpretation quiet_planning: planning_relation same_executor
  by unfold_locales (auto intro: same_executor_store_write)

interpretation durable_planning: planning_relation store_ext
proof
  fix env :: environment and r :: run assume "valid_run r"
  then show "keeps store_ext (store_write env (\<lambda>io. repo_create_run io r))"
    unfolding repo_create_run_def by (intro store_ext_mutate) (rule create_run_step)
next
  show "keeps store_ext (store_write env (\<lambda>io. repo_update_run_budget io rid b v u))" for env rid b v u
    unfolding repo_update_run_budget_def by (intro store_ext_mutate) (rule update_run_budget_step)
next
  fix env :: environment and c :: checkpoint and ev assume "valid_checkpoint c"
  then show "keeps store_ext (store_write env (\<lambda>io. repo_save_checkpoint io c ev))"
    unfolding repo_save_checkpoint_def by (intro store_ext_mutate) (rule save_checkpoint_step)
qed

section \<open>A program logic over readable stores\<close>

definition triple :: "(world \<Rightarrow> bool) \<Rightarrow> 'a comp \<Rightarrow> ('a \<Rightarrow> world \<Rightarrow> bool) \<Rightarrow> bool" where
  "triple P m Q \<longleftrightarrow> (\<forall>w x w'. store_inv (w_store w) \<longrightarrow> P w \<longrightarrow> m w = (Inr x, w') \<longrightarrow> Q x w')"

lemma tripleI: "(\<And>w x w'. store_inv (w_store w) \<Longrightarrow> P w \<Longrightarrow> m w = (Inr x, w') \<Longrightarrow> Q x w') \<Longrightarrow> triple P m Q"
  by (simp add: triple_def)

lemma tripleD: "triple P m Q \<Longrightarrow> store_inv (w_store w) \<Longrightarrow> P w \<Longrightarrow> m w = (Inr x, w') \<Longrightarrow> Q x w'"
  by (simp add: triple_def)

lemma triple_conseq: "triple P m Q \<Longrightarrow> (\<And>w. P' w \<Longrightarrow> P w) \<Longrightarrow> (\<And>x w. Q x w \<Longrightarrow> Q' x w) \<Longrightarrow> triple P' m Q'"
  unfolding triple_def by blast

lemma triple_ret: "(\<And>w. P w \<Longrightarrow> Q x w) \<Longrightarrow> triple P (ret x) Q"
  by (simp add: triple_def)

lemma triple_lift: "(\<And>x w. r = Inr x \<Longrightarrow> P w \<Longrightarrow> Q x w) \<Longrightarrow> triple P (lift r) Q"
  by (auto simp: triple_def)

lemma ext_readable: "store_ext w w' \<Longrightarrow> store_inv (w_store w) \<Longrightarrow> store_inv (w_store w')"
  unfolding store_inv_image store_ext_def by blast

lemma triple_bind:
  assumes "keeps store_ext m" "triple P m Q" "\<And>x. triple (Q x) (k x) R"
  shows "triple P (bindc m k) R"
proof (rule tripleI)
  fix w y w' assume inv: "store_inv (w_store w)" and "P w" and "bindc m k w = (Inr y, w')"
  then obtain x w1 where 1: "m w = (Inr x, w1)" "k x w1 = (Inr y, w')" by (auto simp: bindc_eq_Inr)
  from tripleD [OF assms(2) inv \<open>P w\<close> 1(1)] ext_readable [OF keepsD [OF assms(1) 1(1)] inv]
  show "R y w'" using tripleD [OF assms(3)] 1(2) by blast
qed

lemma triple_catch:
  assumes "keeps store_ext m" "triple P m Q" "\<And>e k. h e = Some k \<Longrightarrow> triple (\<lambda>_. True) k Q"
  shows "triple P (catchc m h) Q"
proof (rule tripleI)
  fix w y w' assume inv: "store_inv (w_store w)" and P: "P w" and "catchc m h w = (Inr y, w')"
  then consider "m w = (Inr y, w')" | e w1 k where "m w = (Inl e, w1)" "h e = Some k" "k w1 = (Inr y, w')"
    by (auto simp: catchc_eq_Inr)
  then show "Q y w'"
  proof cases
    case 1 then show ?thesis by (rule tripleD [OF assms(2) inv P])
  next
    case 2
    then show ?thesis using tripleD [OF assms(3) ext_readable [OF keepsD [OF assms(1)] inv]] by blast
  qed
qed

lemma attempt_eq_Inr:
  "attempt E f m w = (Inr y, w') \<longleftrightarrow>
     (\<exists>x. y = Inr x \<and> m w = (Inr x, w')) \<or> (\<exists>e. m w = (Inl e, w') \<and> E e \<and> y = Inl f)"
  by (auto simp: attempt_def catchc_def bindc_def ret_def on_exn_def split: prod.splits sum.splits option.splits)

lemma case_sum_run:
  "(case x of Inl a \<Rightarrow> f a | Inr b \<Rightarrow> g b) w = z \<longleftrightarrow> (\<exists>a. x = Inl a \<and> f a w = z) \<or> (\<exists>b. x = Inr b \<and> g b w = z)"
  by (cases x) auto

lemma case_result_run:
  "(case x of Succeeded a \<Rightarrow> f a | Failed b \<Rightarrow> g b) w = z \<longleftrightarrow>
     (\<exists>a. x = Succeeded a \<and> f a w = z) \<or> (\<exists>b. x = Failed b \<and> g b w = z)"
  by (cases x) auto

lemma case_option_run:
  "(case x of None \<Rightarrow> f | Some b \<Rightarrow> g b) w = z \<longleftrightarrow> (x = None \<and> f w = z) \<or> (\<exists>b. x = Some b \<and> g b w = z)"
  by (cases x) auto

lemmas run_simps = bindc_eq_Inr attempt_eq_Inr case_sum_run case_result_run case_option_run

text \<open>Results of interest are the successful ones.\<close>

definition on_success :: "('a \<Rightarrow> world \<Rightarrow> bool) \<Rightarrow> 'a control_result \<Rightarrow> world \<Rightarrow> bool" where
  "on_success Q x w = (case x of Succeeded c \<Rightarrow> Q c w | Failed _ \<Rightarrow> True)"

lemma triple_failed: "triple P (failed f) (on_success Q)"
  by (simp add: triple_def failed_def on_success_def)

lemma triple_persist: "triple P (persist_failure env r f) (on_success Q)"
  unfolding triple_def persist_failure_def
  by (auto simp: on_success_def failed_def catchc_eq_Inr bindc_eq_Inr on_exn_def split: if_splits)

section \<open>The writes and reads of an investigation\<close>

definition run_held :: "world \<Rightarrow> uuid \<Rightarrow> run \<Rightarrow> bool" where
  "run_held w rid r \<longleftrightarrow> (\<exists>t. store_image (w_store w) t \<and> get_run t rid = Some r)"

lemma run_held_id: "run_held w rid r \<Longrightarrow> run_id r = rid \<and> valid_run r"
  unfolding run_held_def store_image_def by (blast dest: get_run_valid)

lemma read_same_answers:
  assumes "store_inv (w_store w)" "store_read env (\<lambda>io. repo_read io op) w = (Inr x, w')"
  obtains s t where "op s = Inr x" "same_answers t s" "store_image (w_store w') t" "w_store w' = w_store w"
proof -
  obtain t where t: "store_image (w_store w) t" using assms(1) by (auto simp: store_inv_image)
  obtain s where s: "repo_load (w_store w) = Inr s" "op s = Inr x" and w': "w_store w' = w_store w"
    using assms(2) by (auto simp: store_read_def repo_read_def result_simps split: if_splits)
  from image_load [OF t s(1)] s w' t show ?thesis by (intro that [of s t]) auto
qed

lemma triple_read_run:
  "triple P (store_read env (\<lambda>io. repo_get_run io rid)) (\<lambda>x w. \<forall>r. x = Some r \<longrightarrow> run_held w rid r)"
proof (rule tripleI)
  fix w x w' assume "store_inv (w_store w)" "store_read env (\<lambda>io. repo_get_run io rid) w = (Inr x, w')"
  then obtain s t where "Inr (get_run s rid) = (Inr x :: exn + run option)" "same_answers t s" "store_image (w_store w') t"
    unfolding repo_get_run_def by (rule read_same_answers) auto
  then show "\<forall>r. x = Some r \<longrightarrow> run_held w' rid r" by (auto simp: run_held_def same_answers_def)
qed

lemma triple_read_checkpoint:
  "triple (\<lambda>w. run_held w rid r) (store_read env (\<lambda>io. repo_get_checkpoint io rid))
     (\<lambda>x w. \<forall>c. x = Some c \<longrightarrow> store_holds w rid r c)"
proof (rule tripleI)
  fix w x w' assume inv: "store_inv (w_store w)" and h: "run_held w rid r"
    and rd: "store_read env (\<lambda>io. repo_get_checkpoint io rid) w = (Inr x, w')"
  from h obtain t where t: "store_image (w_store w) t" "get_run t rid = Some r" by (auto simp: run_held_def)
  from rd obtain s where s: "repo_load (w_store w) = Inr s" "get_checkpoint s rid = x" and w': "w_store w' = w_store w"
    by (auto simp: store_read_def repo_get_checkpoint_def repo_read_def result_simps split: if_splits)
  from image_load [OF t(1) s(1)] s t w' show "\<forall>c. x = Some c \<longrightarrow> store_holds w' rid r c"
    by (auto simp: store_holds_def same_answers_def)
qed

lemma transition_image:
  assumes "store_image (w_store w) s" "planning_transition env r st w = (Inr r', w')"
  obtains r0 t where "get_run s (run_id r) = Some r0" "get_run t (run_id r) = Some r'" "run_state r' = st"
    "run_id r' = run_id r" "get_checkpoint t = get_checkpoint s" "store_image (w_store w') t"
proof -
  obtain now w1 where w1: "w_store w1 = w_store w"
    and wr: "store_write (pe_env env) (\<lambda>io. repo_mutate io
               (transition_run_snapshot (run_id r) st (run_state r) (run_version r) now None None)) w1 = (Inr r', w')"
    using assms(2)
    by (auto simp: planning_transition_def move_run_def bindc_eq_Inr repo_transition_run_def dest: clock_frame)
  have im: "store_image (w_store w1) s" using assms(1) w1 by simp
  obtain s0 t where h: "same_answers s s0"
      "transition_run_snapshot (run_id r) st (run_state r) (run_version r) now None None s0 = Inr (t, r')"
      "store_image (w_store w') t"
    using write_image [OF im wr] transition_run_snapshot_step by blast
  from truth.move_sets [OF h(2)] obtain r0 where r0: "get_run s0 (run_id r) = Some r0" "transition_run r0 st now = Inr r'"
      "get_run t (run_id r) = Some r'" "get_checkpoint t = get_checkpoint s0" by auto
  have "run_id r0 = run_id r" using run_held_id [of w1 "run_id r" r0] im r0(1) h(1)
    by (auto simp: run_held_def same_answers_def)
  with r0(2) have "run_state r' = st" "run_id r' = run_id r" by (auto simp: transition_run_eq)
  with r0 h show ?thesis by (intro that [of r0 t]) (auto simp: same_answers_def)
qed

lemma triple_transition:
  "triple P (planning_transition env r st) (\<lambda>r' w. run_held w (run_id r) r' \<and> run_state r' = st \<and> run_id r' = run_id r)"
proof (rule tripleI)
  fix w r' w' assume "store_inv (w_store w)" and mv: "planning_transition env r st w = (Inr r', w')"
  then obtain s where s: "store_image (w_store w) s" by (auto simp: store_inv_image)
  from transition_image [OF s mv] show "run_held w' (run_id r) r' \<and> run_state r' = st \<and> run_id r' = run_id r"
    by (metis run_held_def)
qed

lemma triple_transition_holds:
  "triple (\<lambda>w. store_holds w (run_id r) r0 c) (planning_transition env r st)
     (\<lambda>r' w. store_holds w (run_id r) r' c \<and> run_state r' = st \<and> run_id r' = run_id r)"
proof (rule tripleI)
  fix w r' w' assume "store_holds w (run_id r) r0 c" and mv: "planning_transition env r st w = (Inr r', w')"
  then obtain s where s: "store_image (w_store w) s" "get_checkpoint s (run_id r) = Some c" by (auto simp: store_holds_def)
  from transition_image [OF s(1) mv] s(2)
  show "store_holds w' (run_id r) r' c \<and> run_state r' = st \<and> run_id r' = run_id r"
    by (metis store_holds_def)
qed

lemma triple_event:
  "triple (\<lambda>w. store_holds w rid r c) (planning_event env r0 ty h src md) (\<lambda>_ w. store_holds w rid r c)"
proof (rule tripleI)
  fix w u w' assume "store_holds w rid r c" and pe: "planning_event env r0 ty h src md w = (Inr u, w')"
  then obtain s where s: "store_image (w_store w) s" "get_run s rid = Some r" "get_checkpoint s rid = Some c"
    by (auto simp: store_holds_def)
  obtain ev x w1 where w1: "w_store w1 = w_store w" and v: "valid_audit_event ev"
    and wr: "store_write (pe_env env) (\<lambda>io. repo_mutate io (append_audit_event ev)) w1 = (Inr x, w')"
    using pe
    by (auto simp: planning_event_def bindc_eq_Inr repo_append_audit_event_def result_simps
        dest!: clock_frame event_id_frame)
  have im: "store_image (w_store w1) s" using s(1) w1 by simp
  obtain s0 t where hh: "same_answers s s0" "append_audit_event ev s0 = Inr (t, x)" "store_image (w_store w') t"
    using write_image [OF im wr] append_audit_event_step [OF _ v] by blast
  from truth.log_frame [OF hh(2)] s hh(1,3) show "store_holds w' rid r c" by (auto simp: store_holds_def same_answers_def)
qed

lemma triple_checkpoint:
  "triple (\<lambda>w. run_held w (run_id r) r0) (planning_checkpoint env r st md hs e p v ev)
     (\<lambda>c w. store_holds w (run_id r) r0 c \<and> cp_resource_evidence c = Some e \<and> cp_remediation_proposal c = p
            \<and> cp_last_safe_state c = st \<and> valid_checkpoint c)"
proof (rule tripleI)
  fix w c w' assume "run_held w (run_id r) r0" and pc: "planning_checkpoint env r st md hs e p v ev w = (Inr c, w')"
  then obtain s where s: "store_image (w_store w) s" "get_run s (run_id r) = Some r0" by (auto simp: run_held_def)
  obtain d w1 where w1: "w_store w1 = w_store w" and d: "valid_checkpoint d" "cp_run_id d = run_id r"
      "cp_resource_evidence d = Some e" "cp_remediation_proposal d = p" "cp_last_safe_state d = st"
    and wr: "store_write (pe_env env) (\<lambda>io. repo_mutate io (save_checkpoint d ev)) w1 = (Inr c, w')"
    using pc by (auto simp: planning_checkpoint_def bindc_eq_Inr repo_save_checkpoint_def result_simps dest!: clock_frame)
  have im: "store_image (w_store w1) s" using s(1) w1 by simp
  obtain s0 t where h: "same_answers s s0" "save_checkpoint d ev s0 = Inr (t, c)" "store_image (w_store w') t"
    using write_image [OF im wr] save_checkpoint_step [OF _ d(1)] by blast
  with truth.save_sets [OF h(2)] s(2) d
  show "store_holds w' (run_id r) r0 c \<and> cp_resource_evidence c = Some e \<and> cp_remediation_proposal c = p
        \<and> cp_last_safe_state c = st \<and> valid_checkpoint c"
    by (auto simp: store_holds_def same_answers_def)
qed

section \<open>What a completed investigation guarantees\<close>

definition investigation_stored :: "world \<Rightarrow> investigation_completion \<Rightarrow> bool" where
  "investigation_stored w c \<longleftrightarrow>
     (\<exists>r cp. store_holds w (ic_run_id c) r cp \<and> run_state r = ic_final_state c
        \<and> cp_resource_evidence cp = Some (ic_evidence c)
        \<and> (ic_final_state c \<noteq> WS_NO_ACTION_REQUIRED \<longrightarrow>
             cp_remediation_proposal cp = plan_proposal (ic_plan c) \<and> plan_proposal (ic_plan c) \<noteq> None))"

definition planned_by_policy :: "planning_environment \<Rightarrow> resource_evidence \<Rightarrow> remediation_plan \<Rightarrow> bool" where
  "planned_by_policy env e pl \<longleftrightarrow>
     ev_findings e = findings (ev_resource e)
     \<and> (\<exists>out pid t. PlanRemediation_execute (pe_read_candidate env) e out pid t = Inr (Succeeded pl))"

definition investigation_sound :: "planning_environment \<Rightarrow> uuid \<Rightarrow> investigation_completion \<Rightarrow> world \<Rightarrow> bool" where
  "investigation_sound env rid c w \<longleftrightarrow>
     ic_run_id c = rid \<and> valid_investigation_completion c \<and> investigation_stored w c
     \<and> (\<not> ic_reconciled c \<longrightarrow>
          (\<exists>pl. planned_by_policy env (ic_evidence c) pl
             \<and> ic_plan c = (if ic_final_state c = WS_AWAITING_APPROVAL
                            then pl\<lparr>plan_proposal := map_option awaiting_approval (plan_proposal pl)\<rparr> else pl)))"

lemma completion_fields:
  assumes "completion r e pl b = Inr c"
  shows "valid_investigation_completion c" "ic_run_id c = run_id r" "ic_evidence c = e" "ic_plan c = pl"
    "ic_final_state c = run_state r" "ic_reconciled c = b"
  using assms by (auto simp: completion_def Let_def result_simps)

lemmas triple_keeps = durable_planning.keeps_planning durable_planning.keeps_start_run durable_planning.keeps_record_evidence
  durable_planning.keeps_account_advice durable_planning.keeps_persist_planning durable_planning.keeps_saves
  durable_planning.keeps_attempt durable_planning.keeps_find_run durable_planning.keeps_reconcile

lemma triple_attempt:
  assumes "keeps store_ext m" "triple P m Q"
  shows "triple P (attempt E f m) (\<lambda>x w. \<forall>y. x = Inr y \<longrightarrow> Q y w)"
  unfolding attempt_def
  by (intro triple_catch triple_bind [OF assms] triple_ret triple_keeps assms)
     (auto simp: on_exn_def intro!: triple_ret split: if_splits)

lemma readable_after: "keeps store_ext m \<Longrightarrow> m w = (x, w') \<Longrightarrow> store_inv (w_store w) \<Longrightarrow> store_inv (w_store w')"
  by (blast intro: ext_readable dest: keepsD)

lemmas readable_transition = readable_after [OF durable_planning.keeps_planning_transition]
lemmas readable_checkpoint = readable_after [OF durable_planning.keeps_planning_checkpoint]
lemmas readable_event = readable_after [OF durable_planning.keeps_planning_event]

definition plan_stored :: "uuid \<Rightarrow> workflow_state \<Rightarrow> resource_evidence \<Rightarrow> remediation_proposal option \<Rightarrow> run \<Rightarrow> world \<Rightarrow> bool" where
  "plan_stored rid st e p cur w \<longleftrightarrow>
     run_id cur = rid \<and> run_state cur = st
     \<and> (\<exists>cp. store_holds w rid cur cp \<and> cp_resource_evidence cp = Some e \<and> cp_remediation_proposal cp = p)"

lemma triple_save_terminal: "triple P (save_terminal env r e pl st ty) (plan_stored (run_id r) st e (plan_proposal pl))"
proof (rule tripleI)
  fix w cur w' assume inv: "store_inv (w_store w)" and "save_terminal env r e pl st ty w = (Inr cur, w')"
  then obtain w1 c w2 u md hs h src where
    1: "planning_transition env r st w = (Inr cur, w1)" and
    2: "planning_checkpoint env cur st md hs e (plan_proposal pl) 2 (Some 1) w1 = (Inr c, w2)" and
    3: "planning_event env cur ty h src [] w2 = (Inr u, w')"
    by (auto simp: save_terminal_def bindc_eq_Inr)
  have h1: "run_held w1 (run_id r) cur \<and> run_state cur = st \<and> run_id cur = run_id r"
    by (rule tripleD [OF triple_transition inv _ 1]) simp
  have i1: "store_inv (w_store w1)" by (rule readable_transition [OF 1 inv])
  have h2: "store_holds w2 (run_id cur) cur c \<and> cp_resource_evidence c = Some e \<and> cp_remediation_proposal c = plan_proposal pl
            \<and> cp_last_safe_state c = st \<and> valid_checkpoint c"
    by (rule tripleD [OF triple_checkpoint i1 _ 2]) (use h1 in simp)
  have i2: "store_inv (w_store w2)" by (rule readable_checkpoint [OF 2 i1])
  have "store_holds w' (run_id cur) cur c" by (rule tripleD [OF triple_event i2 _ 3]) (use h2 in simp)
  with h1 h2 show "plan_stored (run_id r) st e (plan_proposal pl) cur w'" by (auto simp: plan_stored_def)
qed

lemma triple_save_protected:
  "triple P (save_protected env r e p)
     (\<lambda>(cur, p'). \<lambda>w. p' = awaiting_approval p \<and> plan_stored (run_id r) WS_AWAITING_APPROVAL e (Some p') cur w)"
proof (rule tripleI)
  fix w x w' assume inv: "store_inv (w_store w)" and "save_protected env r e p w = (Inr x, w')"
  then obtain r1 w1 c w2 cur w3 u w4 v md hs h1 h2 s1 s2 m1 m2 where
    1: "planning_transition env r WS_REMEDIATION_PROPOSED w = (Inr r1, w1)" and
    2: "planning_checkpoint env r1 WS_AWAITING_APPROVAL md hs e (Some (awaiting_approval p)) 2 (Some 1) w1 = (Inr c, w2)" and
    3: "planning_transition env r1 WS_AWAITING_APPROVAL w2 = (Inr cur, w3)" and
    4: "planning_event env cur AET_REMEDIATION_PLANNED h1 s1 m1 w3 = (Inr u, w4)" and
    5: "planning_event env cur AET_APPROVAL_REQUESTED h2 s2 m2 w4 = (Inr v, w')" and x: "x = (cur, awaiting_approval p)"
    by (auto simp: save_protected_def bindc_eq_Inr result_simps)
  have a1: "run_held w1 (run_id r) r1 \<and> run_state r1 = WS_REMEDIATION_PROPOSED \<and> run_id r1 = run_id r"
    by (rule tripleD [OF triple_transition inv _ 1]) simp
  have i1: "store_inv (w_store w1)" by (rule readable_transition [OF 1 inv])
  have a2: "store_holds w2 (run_id r1) r1 c \<and> cp_resource_evidence c = Some e \<and> cp_remediation_proposal c = Some (awaiting_approval p)
            \<and> cp_last_safe_state c = WS_AWAITING_APPROVAL \<and> valid_checkpoint c"
    by (rule tripleD [OF triple_checkpoint i1 _ 2]) (use a1 in simp)
  have i2: "store_inv (w_store w2)" by (rule readable_checkpoint [OF 2 i1])
  have a3: "store_holds w3 (run_id r1) cur c \<and> run_state cur = WS_AWAITING_APPROVAL \<and> run_id cur = run_id r1"
    using tripleD [OF triple_transition_holds i2 _ 3] a2 by blast
  have i3: "store_inv (w_store w3)" by (rule readable_transition [OF 3 i2])
  have a4: "store_holds w4 (run_id r1) cur c" by (rule tripleD [OF triple_event i3 _ 4]) (use a3 in simp)
  have i4: "store_inv (w_store w4)" by (rule readable_event [OF 4 i3])
  have "store_holds w' (run_id r1) cur c" by (rule tripleD [OF triple_event i4 _ 5]) (use a4 in simp)
  with a1 a2 a3 x
  show "(\<lambda>(cur, p'). \<lambda>w. p' = awaiting_approval p \<and> plan_stored (run_id r) WS_AWAITING_APPROVAL e (Some p') cur w) x w'"
    by (auto simp: plan_stored_def)
qed

definition planned :: "planning_environment \<Rightarrow> investigation_completion \<Rightarrow> bool" where
  "planned env c \<longleftrightarrow>
     (\<exists>pl. planned_by_policy env (ic_evidence c) pl
        \<and> ic_plan c = (if ic_final_state c = WS_AWAITING_APPROVAL
                       then pl\<lparr>plan_proposal := map_option awaiting_approval (plan_proposal pl)\<rparr> else pl))"

lemma report_sound:
  assumes "completion cur e pl b = Inr c" "plan_stored rid st e p cur w"
    and "st \<noteq> WS_NO_ACTION_REQUIRED \<Longrightarrow> p = plan_proposal pl \<and> p \<noteq> None"
    and "b \<or> planned env c"
  shows "investigation_sound env rid c w"
proof -
  from assms(2) obtain cp where cp: "run_id cur = rid" "run_state cur = st" "store_holds w rid cur cp"
      "cp_resource_evidence cp = Some e" "cp_remediation_proposal cp = p" by (auto simp: plan_stored_def)
  have "investigation_stored w c"
    unfolding investigation_stored_def using cp completion_fields [OF assms(1)] assms(3) by metis
  with cp completion_fields [OF assms(1)] assms(4) show ?thesis
    unfolding investigation_sound_def planned_def by blast
qed

lemma triple_reported:
  assumes "\<And>c w. P w \<Longrightarrow> completion cur e pl b = Inr c \<Longrightarrow> investigation_sound env rid c w"
  shows "triple P (bindc (lift (completion cur e pl b)) (\<lambda>c. ret (Succeeded c))) (on_success (investigation_sound env rid))"
  by (rule triple_bind [where Q = "\<lambda>c w. investigation_sound env rid c w"])
     (auto intro!: triple_keeps triple_lift triple_ret assms simp: on_success_def)

lemma triple_complete_safe:
  assumes pl: "planned_by_policy env e pl" and st: "st \<in> {WS_NO_ACTION_REQUIRED, WS_RECOMMENDATION_ONLY}"
    and p: "st = WS_RECOMMENDATION_ONLY \<Longrightarrow> plan_proposal pl \<noteq> None"
  shows "triple P (complete_safe_terminal env r e pl st ty) (on_success (investigation_sound env (run_id r)))"
  unfolding complete_safe_terminal_def
proof (rule triple_bind [OF _ triple_attempt [OF _ triple_save_terminal]])
  fix x :: "failure_detail + run"
  show "triple (\<lambda>w. \<forall>y. x = Inr y \<longrightarrow> plan_stored (run_id r) st e (plan_proposal pl) y w)
          (case x of Inl f \<Rightarrow> failed f | Inr cur \<Rightarrow> bindc (lift (completion cur e pl False)) (\<lambda>c. ret (Succeeded c)))
          (on_success (investigation_sound env (run_id r)))"
  proof (cases x)
    case (Inr cur)
    have "investigation_sound env (run_id r) c w"
      if h: "plan_stored (run_id r) st e (plan_proposal pl) cur w" and c: "completion cur e pl False = Inr c" for c w
    proof (rule report_sound [OF c h])
      show "False \<or> planned env c"
        using completion_fields [OF c] h st pl by (auto simp: planned_def plan_stored_def)
    qed (use st p in auto)
    with Inr show ?thesis by (auto intro: triple_reported)
  qed (simp add: triple_failed)
qed (intro triple_keeps)+

lemma triple_complete_protected:
  assumes pl: "planned_by_policy env e pl" and p: "plan_proposal pl = Some p"
  shows "triple P (complete_protected env r e pl p) (on_success (investigation_sound env (run_id r)))"
  unfolding complete_protected_def
proof (rule triple_bind [OF _ triple_attempt [OF _ triple_save_protected]])
  fix x :: "failure_detail + run \<times> remediation_proposal"
  let ?post = "\<lambda>y w. (\<lambda>(cur, p'). \<lambda>w. p' = awaiting_approval p
                  \<and> plan_stored (run_id r) WS_AWAITING_APPROVAL e (Some p') cur w) y w"
  show "triple (\<lambda>w. \<forall>y. x = Inr y \<longrightarrow> ?post y w)
          (case x of Inl f \<Rightarrow> failed f
           | Inr (cur, p) \<Rightarrow> bindc (lift (completion cur e (pl\<lparr>plan_proposal := Some p\<rparr>) False)) (\<lambda>c. ret (Succeeded c)))
          (on_success (investigation_sound env (run_id r)))"
  proof (cases x)
    case (Inr y)
    obtain cur p' where y: "y = (cur, p')" by (cases y)
    have "investigation_sound env (run_id r) c w"
      if h: "plan_stored (run_id r) WS_AWAITING_APPROVAL e (Some p') cur w" and p': "p' = awaiting_approval p"
        and c: "completion cur e (pl\<lparr>plan_proposal := Some p'\<rparr>) False = Inr c" for c w
    proof (rule report_sound [OF c h])
      have "ic_final_state c = WS_AWAITING_APPROVAL" using completion_fields [OF c] h by (simp add: plan_stored_def)
      then show "False \<or> planned env c"
        using completion_fields [OF c] pl p p' unfolding planned_def by (auto intro!: exI [of _ pl])
    qed auto
    with Inr y show ?thesis by (auto intro: triple_reported)
  qed (simp add: triple_failed)
qed (intro triple_keeps)+

lemma reconciled_plan_proposal:
  assumes "reconciled_plan py_str r c e = Inr (Inr pl)" "run_state r \<noteq> WS_NO_ACTION_REQUIRED"
  shows "plan_proposal pl = cp_remediation_proposal c \<and> plan_proposal pl \<noteq> None"
  using assms by (auto simp: reconciled_plan_def result_simps split: option.splits)

lemma triple_reconcile:
  "triple (\<lambda>w. run_held w (run_id r) r) (reconcile env r) (on_success (investigation_sound env (run_id r)))"
proof (rule tripleI)
  fix w x w' assume inv: "store_inv (w_store w)" and held: "run_held w (run_id r) r" and rc: "reconcile env r w = (Inr x, w')"
  show "on_success (investigation_sound env (run_id r)) x w'"
  proof (cases x)
    case (Succeeded c)
    with rc obtain cp w1 e pl where rd: "store_read (pe_env env) (\<lambda>io. repo_get_checkpoint io (run_id r)) w = (Inr (Some cp), w1)"
      and e: "cp_resource_evidence cp = Some e" and pl: "reconciled_plan (pe_py_str env) r cp e = Inr (Inr pl)"
      and c: "completion r e pl True = Inr c" and w': "w' = w1"
      by (auto simp: reconcile_def attempt_def bindc_eq_Inr catchc_eq_Inr on_exn_def failed_def
          split: if_splits option.splits sum.splits)
    have "store_holds w1 (run_id r) r cp" using tripleD [OF triple_read_checkpoint inv held rd] by simp
    then have "plan_stored (run_id r) (run_state r) e (cp_remediation_proposal cp) r w'"
      using e w' by (auto simp: plan_stored_def)
    then have "investigation_sound env (run_id r) c w'"
      by (rule report_sound [OF c]) (use reconciled_plan_proposal [OF pl] in metis, simp)
    with Succeeded show ?thesis by (simp add: on_success_def)
  qed (simp add: on_success_def)
qed

lemma triple_find_run:
  "triple P (find_run env rid msg) (\<lambda>x w. \<forall>y. x = Inr y \<longrightarrow> (\<forall>r. y = Some r \<longrightarrow> run_held w rid r))"
  unfolding find_run_def by (rule triple_attempt [OF _ triple_read_run]) (intro triple_keeps)

lemma triple_reconcile_held:
  "triple (\<lambda>w. run_held w rid r) (reconcile env r) (on_success (investigation_sound env rid))"
proof (rule tripleI)
  fix w x w' assume a: "store_inv (w_store w)" "run_held w rid r" "reconcile env r w = (Inr x, w')"
  moreover from run_held_id [OF a(2)] have "run_id r = rid" by simp
  ultimately show "on_success (investigation_sound env rid) x w'" using tripleD [OF triple_reconcile] by blast
qed

lemma triple_finish_plan:
  assumes "ev_findings e = findings (ev_resource e)"
    and "PlanRemediation_execute (pe_read_candidate env) e out pid t = Inr result"
  shows "triple P (finish_plan env r e result) (on_success (investigation_sound env (run_id r)))"
proof (cases result)
  case (Failed f)
  show ?thesis
    unfolding finish_plan_def Failed control_result.case
  proof (intro triple_bind [where Q = "\<lambda>_ _. True"] triple_keeps)
    show "triple (\<lambda>_. True) (case x of Inl g \<Rightarrow> failed g | Inr _ \<Rightarrow> persist_failure env r f)
            (on_success (investigation_sound env (run_id r)))" for x :: "failure_detail + unit"
      by (cases x) (simp_all add: triple_failed triple_persist)
  qed (simp add: triple_def)
next
  case (Succeeded pl)
  with assms have pl: "planned_by_policy env e pl" unfolding planned_by_policy_def by blast
  have "valid_plan pl" using assms(2) Succeeded by (auto dest: accepted_plan_valid)
  then show ?thesis
    unfolding finish_plan_def using Succeeded pl
    by (cases "plan_disposition_of pl")
       (auto intro!: triple_complete_safe triple_complete_protected triple_persist simp: valid_plan_def split: option.splits)
qed

lemma triple_account_advice:
  "triple P (account_advice env r raw)
     (\<lambda>x w. case x of Inl res \<Rightarrow> on_success (investigation_sound env (run_id r)) res w | Inr r' \<Rightarrow> run_id r' = run_id r)"
proof (rule tripleI)
  fix w x w' assume inv: "store_inv (w_store w)" and aa: "account_advice env r raw w = (Inr x, w')"
  show "case x of Inl res \<Rightarrow> on_success (investigation_sound env (run_id r)) res w' | Inr r' \<Rightarrow> run_id r' = run_id r"
  proof (cases x)
    case (Inl res)
    with aa have "\<nexists>c. res = Succeeded c"
      by (auto simp: account_advice_def run_simps failed_def catchc_eq_Inr persist_failure_def on_exn_def split: if_splits)
    with Inl show ?thesis by (cases res) (auto simp: on_success_def)
  next
    case (Inr r')
    with aa obtain w1 b u where "w_store w1 = w_store w"
      and wr: "store_write (pe_env env) (\<lambda>io. repo_mutate io (update_run_budget (run_id r) b (run_version r) u)) w1 = (Inr r', w')"
      by (auto simp: account_advice_def run_simps failed_def repo_update_run_budget_def dest!: clock_frame)
    with inv obtain s where im: "store_image (w_store w1) s" by (auto simp: store_inv_image)
    obtain s0 t where up: "same_answers s s0" "update_run_budget (run_id r) b (run_version r) u s0 = Inr (t, r')"
      using write_image [OF im wr] update_run_budget_step by blast
    then obtain r0 where "get_run s (run_id r) = Some r0" "run_id r' = run_id r0"
      by (auto simp: update_run_budget_def result_simps same_answers_def split: option.splits)
    with run_held_id [of w1 "run_id r" r0] im Inr show ?thesis by (auto simp: run_held_def)
  qed
qed

lemma triple_plan_from_evidence:
  assumes f: "ev_findings e = findings (ev_resource e)"
  shows "triple P (plan_from_evidence env r e) (on_success (investigation_sound env (run_id r)))"
proof (rule tripleI)
  fix w x w' assume inv: "store_inv (w_store w)" and pf: "plan_from_evidence env r e w = (Inr x, w')"
  show "on_success (investigation_sound env (run_id r)) x w'"
  proof (cases "pe_create_plan env (w_plan_calls w) e")
    case (ModelText raw)
    with pf obtain y w1 where aa: "account_advice env r raw (w\<lparr>w_plan_calls := Suc (w_plan_calls w)\<rparr>) = (Inr y, w1)"
      and rest: "(case y of Inl result \<Rightarrow> ret result
           | Inr current \<Rightarrow>
             bindc (proposal_id_factory env) (\<lambda>pid.
             bindc (clock (pe_env env)) (\<lambda>created_at.
             bindc (lift (PlanRemediation_execute (pe_read_candidate env) e raw pid created_at)) (\<lambda>result.
             finish_plan env current e result)))) w1 = (Inr x, w')"
      by (auto simp: plan_from_evidence_def bindc_eq_Inr create_plan_def)
    have inv1: "store_inv (w_store w1)"
      by (rule readable_after [OF durable_planning.keeps_account_advice aa]) (simp add: inv)
    have post: "case y of Inl res \<Rightarrow> on_success (investigation_sound env (run_id r)) res w1 | Inr r' \<Rightarrow> run_id r' = run_id r"
      by (rule tripleD [OF triple_account_advice _ _ aa]) (simp_all add: inv)
    show ?thesis
    proof (cases y)
      case (Inr r')
      with rest obtain result where
        plan: "PlanRemediation_execute (pe_read_candidate env) e raw (pe_proposal_id env (w_ids w1))
                 (utc (en_clock (pe_env env) (w_ticks w1))) = Inr result"
        and fin: "finish_plan env r' e result (w1\<lparr>w_ids := Suc (w_ids w1), w_ticks := Suc (w_ticks w1)\<rparr>) = (Inr x, w')"
        by (auto simp: bindc_eq_Inr proposal_id_factory_def clock_def)
      from tripleD [OF triple_finish_plan [OF f plan, where P = "\<lambda>_. True"] _ _ fin] inv1 post Inr show ?thesis by simp
    qed (use post rest in auto)
  qed (use pf inv tripleD [OF triple_persist [where P = "\<lambda>_. True"], of "w\<lparr>w_plan_calls := Suc (w_plan_calls w)\<rparr>"]
       in \<open>auto simp: plan_from_evidence_def bindc_eq_Inr create_plan_def\<close>)
qed

lemma record_evidence_id:
  "triple P (record_evidence env r e) (\<lambda>x w. case x of Inl _ \<Rightarrow> True | Inr r' \<Rightarrow> run_id r' = run_id r)"
proof (rule tripleI)
  fix w x w' assume inv: "store_inv (w_store w)" and re: "record_evidence env r e w = (Inr x, w')"
  show "case x of Inl _ \<Rightarrow> True | Inr r' \<Rightarrow> run_id r' = run_id r"
  proof (cases x)
    case (Inr r')
    with re obtain w1 w2 u h src md where
      1: "planning_event env r AET_RESOURCE_QUERIED h src md w = (Inr u, w1)" and
      2: "planning_transition env r WS_EVIDENCE_READY w1 = (Inr r', w2)"
      by (auto simp: record_evidence_def run_simps)
    from tripleD [OF triple_transition readable_event [OF 1 inv] _ 2] Inr show ?thesis by simp
  qed simp
qed

lemma no_success_planning [simp]: "persist_failure env r f w \<noteq> (Inr (Succeeded c), w')"
  by (auto simp: persist_failure_def failed_def catchc_eq_Inr bindc_eq_Inr on_exn_def split: if_splits)

lemma triple_received: "triple P (investigate_received env q r) (on_success (investigation_sound env (run_id r)))"
proof (rule tripleI)
  fix w x w' assume inv: "store_inv (w_store w)" and iv: "investigate_received env q r w = (Inr x, w')"
  show "on_success (investigation_sound env (run_id r)) x w'"
  proof (cases x)
    case (Succeeded c)
    with iv obtain r1 w1 e t w2 w3 r2 w4 where
      1: "planning_transition env r WS_INVESTIGATING w = (Inr r1, w1)" and
      c: "clock (pe_env env) w1 = (Inr t, w2)" and
      2: "query_resource env q r1 t w2 = (Inr (Succeeded e), w3)" and
      3: "record_evidence env r1 e w3 = (Inr (Inr r2), w4)" and
      4: "plan_from_evidence env r2 e w4 = (Inr (Succeeded c), w')"
      by (auto simp: investigate_received_def run_simps split: if_splits)
    have f: "ev_findings e = findings (ev_resource e)"
      using 2 by (auto simp: query_resource_def Let_def dest: query_findings)
    have st: "w_store w3 = w_store w1" using 2 clock_frame [OF c] by (auto simp: query_resource_def Let_def)
    have i1: "store_inv (w_store w1)" by (rule readable_transition [OF 1 inv])
    with st have i3: "store_inv (w_store w3)" by simp
    have r1: "run_id r1 = run_id r" using tripleD [OF triple_transition inv _ 1, where P = "\<lambda>_. True"] by simp
    have r2: "run_id r2 = run_id r1" using tripleD [OF record_evidence_id i3 _ 3, where P = "\<lambda>_. True"] by simp
    have i4: "store_inv (w_store w4)" by (rule readable_after [OF durable_planning.keeps_record_evidence 3 i3])
    have "on_success (investigation_sound env (run_id r2)) (Succeeded c) w'"
      by (rule tripleD [OF triple_plan_from_evidence [OF f, where P = "\<lambda>_. True"] i4 _ 4]) simp
    with Succeeded r1 r2 show ?thesis by simp
  qed (simp add: on_success_def)
qed

lemma reconcile_raced_sound:
  "triple P (reconcile_raced env r) (on_success (investigation_sound env (run_id r)))"
  unfolding reconcile_raced_def
proof (rule triple_bind [OF durable_planning.keeps_find_run triple_find_run])
  fix x :: "failure_detail + run option"
  show "triple (\<lambda>w. \<forall>y. x = Inr y \<longrightarrow> (\<forall>r'. y = Some r' \<longrightarrow> run_held w (run_id r) r'))
          (case x of Inl f \<Rightarrow> failed f | Inr None \<Rightarrow> failed (storage_failure ''Local run creation conflicted'')
           | Inr (Some raced) \<Rightarrow> reconcile env raced) (on_success (investigation_sound env (run_id r)))"
    by (auto intro: triple_failed triple_conseq [OF triple_reconcile_held] split: sum.split option.split)
qed

lemma created_run: "store_write env (\<lambda>io. repo_create_run io r) w = (Inr cur, w') \<Longrightarrow> cur = r"
  by (auto simp: store_write_def repo_create_run_def repo_mutate_def create_run_def result_simps Let_def
      split: prod.splits sum.splits if_splits)

lemma triple_start_run:
  assumes v: "valid_run r"
  shows "triple P (start_run env r)
     (\<lambda>x w. case x of Inl res \<Rightarrow> on_success (investigation_sound env (run_id r)) res w | Inr cur \<Rightarrow> cur = r)"
    (is "triple P _ ?Q")
  unfolding start_run_def
proof (rule triple_catch)
  let ?body = "bindc (store_write (pe_env env) (\<lambda>io. repo_create_run io r)) (\<lambda>current.
        bindc (planning_event env current AET_RUN_CREATED (digest (run_json r)) ''local-nz-control'' []) (\<lambda>_.
        ret (Inr current)))"
  show "keeps store_ext ?body" by (intro triple_keeps durable_planning.create_step v)
  show "triple P ?body ?Q" by (rule tripleI) (auto simp: bindc_eq_Inr dest: created_run)
  fix e and k :: "(investigation_result + run) comp"
  assume "(if e = StorageConflictError then Some (bindc (reconcile_raced env r) (\<lambda>z. ret (Inl z)))
      else if e = StorageDependencyError then
        Some (bindc (failed (storage_failure ''Local run creation is unavailable'')) (\<lambda>z. ret (Inl z)))
      else None) = Some k"
  then consider "k = bindc (reconcile_raced env r) (\<lambda>z. ret (Inl z))"
    | "k = bindc (failed (storage_failure ''Local run creation is unavailable'')) (\<lambda>z. ret (Inl z))"
    by (auto split: if_splits)
  then show "triple (\<lambda>_. True) k ?Q"
  proof cases
    case 1
    show ?thesis unfolding 1
      by (rule tripleI) (auto simp: bindc_eq_Inr dest!: tripleD [OF reconcile_raced_sound [where P = "\<lambda>_. True"]])
  next
    case 2
    show ?thesis unfolding 2 by (rule tripleI) (auto simp: bindc_eq_Inr failed_def on_success_def)
  qed
qed

lemma triple_investigate:
  assumes v: "valid_run r"
  shows "triple P (investigate env r q) (on_success (investigation_sound env (run_id r)))"
  unfolding investigate_def
proof (rule triple_bind [OF durable_planning.keeps_find_run triple_find_run])
  fix x :: "failure_detail + run option"
  have start: "triple P' (bindc (start_run env r) (\<lambda>y. case y of Inl result \<Rightarrow> ret result
                 | Inr current \<Rightarrow> investigate_received env q current)) (on_success (investigation_sound env (run_id r)))" for P'
  proof (rule triple_bind [OF durable_planning.keeps_start_run [OF v] triple_start_run [OF v]])
    fix y :: "investigation_result + run"
    show "triple (\<lambda>w. case y of Inl res \<Rightarrow> on_success (investigation_sound env (run_id r)) res w | Inr cur \<Rightarrow> cur = r)
            (case y of Inl result \<Rightarrow> ret result | Inr current \<Rightarrow> investigate_received env q current)
            (on_success (investigation_sound env (run_id r)))"
      by (cases y) (auto intro: triple_ret tripleI dest: tripleD [OF triple_received [where P = "\<lambda>_. True"]])
  qed
  have held: "triple (\<lambda>w. run_held w (run_id r) cur) (reconcile env cur) (on_success (investigation_sound env (run_id r)))" for cur
    by (rule triple_reconcile_held)
  show "triple (\<lambda>w. \<forall>y. x = Inr y \<longrightarrow> (\<forall>r'. y = Some r' \<longrightarrow> run_held w (run_id r) r'))
          (case x of Inl f \<Rightarrow> failed f
           | Inr None \<Rightarrow> bindc (start_run env r) (\<lambda>y. case y of Inl result \<Rightarrow> ret result | Inr current \<Rightarrow> investigate_received env q current)
           | Inr (Some current) \<Rightarrow> if current \<noteq> r then reconcile env current else investigate_received env q current)
          (on_success (investigation_sound env (run_id r)))"
    by (auto intro: triple_failed start triple_conseq [OF held] triple_received split: sum.split option.split)
qed

text \<open>Property C28. An investigation that reports a completion has stored it: the repository holds the run in the
  reported state with a checkpoint of the reported evidence and, unless no action is needed, of the reported
  proposal; and a completion that was not reconciled from an earlier call carries the plan of the local policy
  for the findings of the observed resource, with the proposal waiting for approval.\<close>

theorem investigation_completion_is_durable:
  assumes "valid_run r" "store_inv (w_store w)" "investigate env r q w = (Inr (Succeeded c), w')"
  shows "investigation_sound env (run_id r) c w'"
  using tripleD [OF triple_investigate [OF assms(1), where P = "\<lambda>_. True"] assms(2) _ assms(3)] by (simp add: on_success_def)

text \<open>An investigation never changes the protected inventory and never loses history: whatever the model
  answers and wherever input and output fails, the executor and its file are untouched and the store only
  grows.\<close>

theorem investigation_is_read_only:
  assumes "valid_run r" "investigate env r q w = (x, w')"
  shows "w_executor w' = w_executor w
         \<and> (\<forall>s. store_image (w_store w) s \<longrightarrow> (\<exists>t. store_image (w_store w') t \<and> extends s t))"
  using keepsD [OF quiet_planning.keeps_investigate [OF assms(1)] assms(2)]
    keepsD [OF durable_planning.keeps_investigate [OF assms(1)] assms(2)]
  by (simp add: same_executor_def store_ext_def)

end
