(* ===== verification/Provenance.thy ===== *)
theory Provenance
  imports NZ_Vocabulary
begin

text \<open>
  The append-only provenance ledger of the core, \<^verbatim>\<open>tools/provenance.py\<close>: a log of JSON records,
  each with the hash of its payload and of its predecessor. Entries read back from the log are
  arbitrary JSON values; \<^verbatim>\<open>str\<close> of a value that is not text is an argument. The theorems show
  that what is appended verifies, and that a verified chain is determined by its length and its
  terminal hash up to collisions of SHA-256: a log cannot be edited, reordered or cut in the middle
  without changing its terminal hash.
\<close>

section \<open>Hashes and entries\<close>

definition GENESIS_PREV_HASH :: string where
  "GENESIS_PREV_HASH = replicate 64 CHR ''0''"

definition hash_payload :: "json \<Rightarrow> string" where
  "hash_payload payload = sha256_text (dumps_raw payload)"

definition hash_entry :: "string \<Rightarrow> string \<Rightarrow> string \<Rightarrow> string \<Rightarrow> string" where
  "hash_entry timestamp event_type payload_hash prev_hash =
     sha256_text (dumps_raw (JObj
       [(''timestamp'', JStr timestamp), (''event_type'', JStr event_type),
        (''payload_hash'', JStr payload_hash), (''prev_hash'', JStr prev_hash)]))"

fun is_dict :: "json \<Rightarrow> bool" where
  "is_dict (JObj _) = True"
| "is_dict _ = False"

text \<open>\<^verbatim>\<open>d.get(key)\<close> on a dictionary, \<^verbatim>\<open>None\<close> when absent.\<close>

fun jget :: "json \<Rightarrow> string \<Rightarrow> json" where
  "jget (JObj kvs) k = (case map_of kvs k of None \<Rightarrow> JNull | Some v \<Rightarrow> v)"
| "jget _ k = JNull"

text \<open>\<^verbatim>\<open>isinstance(x, str) and x.strip()\<close>.\<close>

fun given_text :: "json \<Rightarrow> bool" where
  "given_text (JStr s) = (py_strip s \<noteq> [])"
| "given_text _ = False"

fun text_of :: "json \<Rightarrow> string" where
  "text_of (JStr s) = s"
| "text_of _ = []"

definition latest_hash :: "(json \<Rightarrow> string) \<Rightarrow> json list \<Rightarrow> exn + string" where
  "latest_hash py_str entries =
     (if entries = [] then Inr GENESIS_PREV_HASH
      else case last entries of
             JObj kvs \<Rightarrow>
               Inr (case map_of kvs ''entry_hash'' of
                      None \<Rightarrow> GENESIS_PREV_HASH | Some (JStr s) \<Rightarrow> s | Some v \<Rightarrow> py_str v)
           | _ \<Rightarrow> Inl AttributeError)"

definition provenance_record :: "string \<Rightarrow> string \<Rightarrow> string \<Rightarrow> json \<Rightarrow> json" where
  "provenance_record timestamp event_type prev_hash payload = JObj
     [(''timestamp'', JStr timestamp), (''event_type'', JStr event_type), (''payload_hash'', JStr (hash_payload payload)),
      (''prev_hash'', JStr prev_hash),
      (''entry_hash'', JStr (hash_entry timestamp event_type (hash_payload payload) prev_hash)),
      (''payload'', payload)]"

text \<open>The record \<^verbatim>\<open>append_event\<close> writes after the given entries.\<close>

definition append_event_record :: "(json \<Rightarrow> string) \<Rightarrow> datetime \<Rightarrow> json list \<Rightarrow> string \<Rightarrow> json \<Rightarrow> exn + json" where
  "append_event_record py_str now entries event_type payload =
     ebind (ensure (py_strip event_type \<noteq> []) ValueError) (\<lambda>_.
     ebind (ensure (is_dict payload) TypeError) (\<lambda>_.
     ebind (latest_hash py_str entries) (\<lambda>prev_hash.
     Inr (provenance_record (isoformat now) (py_strip event_type) prev_hash payload))))"

section \<open>Verification of a chain\<close>

record provenance_verification =
  vr_ok :: bool
  vr_entry_count :: nat
  vr_terminal_hash :: string
  vr_issues :: "string list"

definition issue :: "nat \<Rightarrow> string \<Rightarrow> string" where
  "issue index message = ''entry['' @ dec_digits index @ '']: '' @ message"

definition computed_payload_hash :: "json \<Rightarrow> string" where
  "computed_payload_hash entry =
     (if is_dict (jget entry ''payload'') then hash_payload (jget entry ''payload'') else [])"

definition entry_hashable :: "json \<Rightarrow> bool" where
  "entry_hashable entry \<longleftrightarrow>
     given_text (jget entry ''timestamp'') \<and> given_text (jget entry ''event_type'')
     \<and> given_text (jget entry ''prev_hash'') \<and> computed_payload_hash entry \<noteq> []"

definition expected_entry_hash :: "json \<Rightarrow> string" where
  "expected_entry_hash entry =
     hash_entry (text_of (jget entry ''timestamp'')) (py_strip (text_of (jget entry ''event_type'')))
       (computed_payload_hash entry) (text_of (jget entry ''prev_hash''))"

definition entry_issues :: "nat \<Rightarrow> string \<Rightarrow> json \<Rightarrow> string list" where
  "entry_issues index previous_hash entry =
     (if index = 0 \<and> jget entry ''prev_hash'' \<noteq> JStr GENESIS_PREV_HASH
      then [issue index ''first entry prev_hash must be genesis'']
      else if 0 < index \<and> jget entry ''prev_hash'' \<noteq> JStr previous_hash then [issue index ''prev_hash mismatch'']
      else [])
     @ (if \<not> is_dict (jget entry ''payload'') then [issue index ''payload is not a dictionary'']
        else if jget entry ''payload_hash'' \<noteq> JStr (computed_payload_hash entry) then [issue index ''payload_hash mismatch'']
        else [])
     @ (if \<not> given_text (jget entry ''timestamp'') then [issue index ''missing timestamp''] else [])
     @ (if \<not> given_text (jget entry ''event_type'') then [issue index ''missing event_type''] else [])
     @ (if \<not> given_text (jget entry ''prev_hash'') then [issue index ''missing prev_hash''] else [])
     @ (if \<not> given_text (jget entry ''entry_hash'') then [issue index ''missing entry_hash''] else [])
     @ (if entry_hashable entry
           \<and> (case jget entry ''entry_hash'' of JStr s \<Rightarrow> py_strip s \<noteq> expected_entry_hash entry | _ \<Rightarrow> False)
        then [issue index ''entry_hash mismatch''] else [])"

text \<open>The hash the next entry must point to.\<close>

definition entry_link :: "json \<Rightarrow> string \<Rightarrow> string" where
  "entry_link entry previous_hash =
     (if entry_hashable entry then expected_entry_hash entry
      else if given_text (jget entry ''entry_hash'') then py_strip (text_of (jget entry ''entry_hash''))
      else previous_hash)"

text \<open>The loop of \<^verbatim>\<open>verify_provenance_chain\<close>. The previous and the terminal hash start equal and are always
  assigned together, so one accumulator stands for both.\<close>

fun verify_from :: "nat \<Rightarrow> string \<Rightarrow> json list \<Rightarrow> string list \<times> string" where
  "verify_from index previous_hash [] = ([], previous_hash)"
| "verify_from index previous_hash (entry # entries) =
     (if \<not> is_dict entry then
        (let (issues, terminal) = verify_from (index + 1) previous_hash entries
         in (issue index ''not a dictionary'' # issues, terminal))
      else
        (let (issues, terminal) = verify_from (index + 1) (entry_link entry previous_hash) entries
         in (entry_issues index previous_hash entry @ issues, terminal)))"

definition verify_provenance_chain :: "json list \<Rightarrow> provenance_verification" where
  "verify_provenance_chain entries =
     (let (issues, terminal) = verify_from 0 GENESIS_PREV_HASH entries
      in \<lparr>vr_ok = (issues = []), vr_entry_count = length entries, vr_terminal_hash = terminal, vr_issues = issues\<rparr>)"

text \<open>\<^verbatim>\<open>append_many\<close>, with the reading of the clock at each event; the log it leaves, or what was raised.\<close>

fun append_many :: "(json \<Rightarrow> string) \<Rightarrow> json list \<Rightarrow> (datetime \<times> string \<times> json) list \<Rightarrow> exn + json list" where
  "append_many py_str entries [] = Inr entries"
| "append_many py_str entries ((now, event_type, payload) # events) =
     ebind (append_event_record py_str now entries event_type payload) (\<lambda>r.
     append_many py_str (entries @ [r]) events)"

section \<open>Appended events verify\<close>

lemma all_dropWhile: "list_all P (dropWhile P s) \<longleftrightarrow> list_all P s"
  by (induction s) auto

lemma py_strip_Nil: "py_strip s = [] \<longleftrightarrow> list_all py_space s"
proof -
  have "py_strip s = [] \<longleftrightarrow> list_all py_space (dropWhile py_space s)"
    by (simp only: py_strip_def rev_is_Nil_conv dropWhile_eq_Nil_conv list_all_iff set_rev)
  then show ?thesis by (simp only: all_dropWhile)
qed

lemma isoformat_given: "py_strip (isoformat d) \<noteq> []"
  by (auto simp: py_strip_Nil isoformat_def iso_base_def Let_def py_space_def split: prod.splits)

lemma stripped_idem: "py_strip (py_strip s) = py_strip s"
proof -
  have "dropWhile py_space (py_strip s) = py_strip s"
  proof (cases "py_strip s")
    case (Cons c cs)
    let ?t = "dropWhile py_space s"
    obtain u where u: "?t = py_strip s @ u"
      by (metis py_strip_def rev_append rev_rev_ident takeWhile_dropWhile_id)
    with Cons have "\<not> py_space c" by (metis append_Cons dropWhile_eq_Cons_conv)
    with Cons show ?thesis by simp
  qed simp
  then show ?thesis by (simp add: py_strip_def)
qed

lemma sha_text_given: "py_strip (sha256_text s) \<noteq> []"
proof -
  have "hd (sha256_text s) \<in> set (sha256_text s)" using sha256_text_shape(1) [of s] by (cases "sha256_text s") auto
  moreover have "hex_lower (hd (sha256_text s))" using calculation sha256_text_shape(2) by blast
  then have "\<not> py_space (hd (sha256_text s))" by (auto simp: hex_lower_def ascii_digit_def char_between_def py_space_def)
  ultimately show ?thesis by (auto simp: py_strip_Nil list_all_iff)
qed

lemma no_space_stripped: "list_all (\<lambda>c. \<not> py_space c) s \<Longrightarrow> py_strip s = s"
proof -
  have "dropWhile py_space t = t" if "list_all (\<lambda>c. \<not> py_space c) t" for t using that by (cases t) auto
  then show "list_all (\<lambda>c. \<not> py_space c) s \<Longrightarrow> py_strip s = s" by (simp add: py_strip_def)
qed

lemma sha_text_stripped [simp]: "py_strip (sha256_text s) = sha256_text s"
  using sha256_text_shape(2) [of s]
  by (intro no_space_stripped) (auto simp: list_all_iff hex_lower_def ascii_digit_def char_between_def py_space_def)

lemma genesis_stripped [simp]: "py_strip GENESIS_PREV_HASH = GENESIS_PREV_HASH" "GENESIS_PREV_HASH \<noteq> []"
  by (auto simp: GENESIS_PREV_HASH_def py_space_def list_all_iff intro!: no_space_stripped)

lemma hash_texts [simp]: "py_strip (hash_payload p) = hash_payload p" "py_strip (hash_entry t e q r) = hash_entry t e q r"
  "hash_payload p \<noteq> []" "hash_entry t e q r \<noteq> []"
  using sha_text_given by (simp_all add: hash_payload_def hash_entry_def)

lemma verify_from_snoc:
  assumes "verify_from i h es = ([], t)" "is_dict e" "entry_issues (i + length es) t e = []"
  shows "verify_from i h (es @ [e]) = ([], entry_link e t)"
  using assms
  by (induction es arbitrary: i h) (auto simp: Let_def split: prod.splits if_splits)

text \<open>A log written only by the store: it verifies, and its last entry carries its hash exactly.\<close>

definition own_log :: "json list \<Rightarrow> string \<Rightarrow> bool" where
  "own_log es t \<longleftrightarrow>
     verify_from 0 GENESIS_PREV_HASH es = ([], t) \<and> py_strip t \<noteq> []
     \<and> (es \<noteq> [] \<longrightarrow> is_dict (last es) \<and> jget (last es) ''entry_hash'' = JStr t)"

lemma own_log_empty: "own_log [] GENESIS_PREV_HASH"
  by (simp add: own_log_def)

lemma own_log_latest: "own_log es t \<Longrightarrow> latest_hash py_str es = Inr t"
  by (auto simp: own_log_def latest_hash_def split: json.splits option.splits)

lemma record_fields:
  "jget (provenance_record ts ty h p) ''timestamp'' = JStr ts" "jget (provenance_record ts ty h p) ''event_type'' = JStr ty"
  "jget (provenance_record ts ty h p) ''payload_hash'' = JStr (hash_payload p)"
  "jget (provenance_record ts ty h p) ''prev_hash'' = JStr h"
  "jget (provenance_record ts ty h p) ''entry_hash'' = JStr (hash_entry ts ty (hash_payload p) h)"
  "jget (provenance_record ts ty h p) ''payload'' = p" "is_dict (provenance_record ts ty h p)"
  by (simp_all add: provenance_record_def)

lemma own_log_append:
  assumes own: "own_log es t" and ap: "append_event_record py_str now es ty p = Inr r"
  shows "own_log (es @ [r]) (hash_entry (isoformat now) (py_strip ty) (hash_payload p) t)"
proof -
  from ap own_log_latest [OF own, of py_str]
  have r: "r = provenance_record (isoformat now) (py_strip ty) t p" and ty: "py_strip ty \<noteq> []" and d: "is_dict p"
    by (auto simp: append_event_record_def result_simps)
  have c: "computed_payload_hash r = hash_payload p" using d by (simp add: r computed_payload_hash_def record_fields)
  have h: "entry_hashable r"
    using own ty by (simp add: entry_hashable_def c) (simp add: r record_fields isoformat_given stripped_idem own_log_def)
  have x: "expected_entry_hash r = hash_entry (isoformat now) (py_strip ty) (hash_payload p) t"
    by (simp add: expected_entry_hash_def c) (simp add: r record_fields stripped_idem)
  have g: "es = [] \<Longrightarrow> t = GENESIS_PREV_HASH" using own by (auto simp: own_log_def)
  have "entry_issues (0 + length es) t r = []"
    using h x c d g unfolding entry_issues_def entry_hashable_def
    by (auto simp: r record_fields)
  then have "verify_from 0 GENESIS_PREV_HASH (es @ [r]) = ([], entry_link r t)"
    using own by (intro verify_from_snoc) (auto simp: own_log_def r record_fields)
  then show ?thesis using h x by (simp add: own_log_def entry_link_def) (simp add: r record_fields)
qed

lemma append_many_own:
  assumes "own_log es t" "append_many py_str es events = Inr es'"
  shows "(\<exists>t'. own_log es' t') \<and> (\<exists>new. es' = es @ new \<and> length new = length events)"
  using assms
proof (induction events arbitrary: es t)
  case (Cons ev events)
  obtain now ty p where ev: "ev = (now, ty, p)" by (cases ev)
  with Cons.prems(2) obtain r where r: "append_event_record py_str now es ty p = Inr r"
    and rest: "append_many py_str (es @ [r]) events = Inr es'" by (auto simp: result_simps)
  from Cons.IH [OF own_log_append [OF Cons.prems(1) r] rest] show ?case by auto
qed auto

lemma verify_own_log:
  "verify_provenance_chain es = \<lparr>vr_ok = True, vr_entry_count = length es, vr_terminal_hash = t, vr_issues = []\<rparr>"
  if "own_log es t"
  using that by (simp add: verify_provenance_chain_def own_log_def)

text \<open>Whatever sequence of events is appended to an empty log, at whatever times, the log verifies, keeps
  every earlier entry in place and has one entry per event.\<close>

theorem appended_log_verifies:
  assumes "append_many py_str [] events = Inr es"
  shows "vr_ok (verify_provenance_chain es) \<and> vr_entry_count (verify_provenance_chain es) = length events
         \<and> (\<forall>k \<le> length events. append_many py_str [] (take k events) = Inr (take k es))"
proof -
  have own: "\<exists>t. own_log es t" "length es = length events"
    using append_many_own [OF own_log_empty assms] by auto
  have "append_many py_str es0 (take k evs) = Inr (take (length es0 + k) es1)"
    if "append_many py_str es0 evs = Inr es1" "k \<le> length evs" "\<exists>t. own_log es0 t" for es0 evs es1 k
    using that
  proof (induction evs arbitrary: es0 k)
    case (Cons ev evs)
    obtain now ty p where ev: "ev = (now, ty, p)" by (cases ev)
    with Cons.prems(1) obtain r where r: "append_event_record py_str now es0 ty p = Inr r"
      and rest: "append_many py_str (es0 @ [r]) evs = Inr es1" by (auto simp: result_simps)
    have o: "\<exists>t. own_log (es0 @ [r]) t" using Cons.prems(3) own_log_append [OF _ r] by blast
    show ?case
    proof (cases k)
      case 0
      from Cons.prems(3) obtain t where "own_log es0 t" by blast
      from append_many_own [OF this Cons.prems(1)] 0 show ?thesis by auto
    next
      case (Suc j)
      with Cons.IH [OF rest _ o, of j] Cons.prems(2) r ev show ?thesis by simp
    qed
  qed simp
  from this [of "[]" events es] assms own_log_empty own show ?thesis
    by (auto simp: verify_own_log)
qed

section \<open>Tampering changes the terminal hash\<close>

text \<open>The texts whose hashes bind a chain: its payloads, and per entry the time, type, payload hash and previous
  hash.\<close>

definition payload_text :: "json \<Rightarrow> string" where
  "payload_text entry = dumps_raw (jget entry ''payload'')"

definition header_text :: "json \<Rightarrow> string" where
  "header_text entry = dumps_raw (JObj
     [(''timestamp'', jget entry ''timestamp''), (''event_type'', JStr (py_strip (text_of (jget entry ''event_type'')))),
      (''payload_hash'', jget entry ''payload_hash''), (''prev_hash'', jget entry ''prev_hash'')])"

text \<open>Two entries that record the same event at the same place of the chain.\<close>

definition same_event :: "json \<Rightarrow> json \<Rightarrow> bool" where
  "same_event a b \<longleftrightarrow>
     jget a ''timestamp'' = jget b ''timestamp''
     \<and> py_strip (text_of (jget a ''event_type'')) = py_strip (text_of (jget b ''event_type''))
     \<and> jget a ''payload_hash'' = jget b ''payload_hash'' \<and> jget a ''prev_hash'' = jget b ''prev_hash''
     \<and> canon (jget a ''payload'') = canon (jget b ''payload'')"

lemma canon_header:
  "canon (JObj [(''timestamp'', JStr a), (''event_type'', JStr b), (''payload_hash'', JStr c), (''prev_hash'', JStr d)]) =
   JObj [(''event_type'', JStr b), (''payload_hash'', JStr c), (''prev_hash'', JStr d), (''timestamp'', JStr a)]"
  by simp

lemma verified_entry:
  assumes "entry_issues i h e = []"
  shows "entry_hashable e" "jget e ''prev_hash'' = JStr (if i = 0 then GENESIS_PREV_HASH else h)"
    "jget e ''payload_hash'' = JStr (hash_payload (jget e ''payload''))" "expected_entry_hash e = sha256_text (header_text e)"
    "\<exists>ts. jget e ''timestamp'' = JStr ts"
proof -
  show h: "entry_hashable e" "jget e ''prev_hash'' = JStr (if i = 0 then GENESIS_PREV_HASH else h)"
    and p: "jget e ''payload_hash'' = JStr (hash_payload (jget e ''payload''))"
    using assms unfolding entry_issues_def entry_hashable_def computed_payload_hash_def by (auto split: if_splits)
  show ts: "\<exists>ts. jget e ''timestamp'' = JStr ts"
    using h(1) by (cases "jget e ''timestamp''") (auto simp: entry_hashable_def)
  show "expected_entry_hash e = sha256_text (header_text e)"
    using ts h p by (auto simp: expected_entry_hash_def header_text_def hash_entry_def computed_payload_hash_def entry_hashable_def
        split: if_splits)
qed

lemma verify_from_snocD:
  assumes "verify_from i h (es @ [e]) = ([], t)"
  shows "\<exists>t0. verify_from i h es = ([], t0) \<and> is_dict e \<and> entry_issues (i + length es) t0 e = [] \<and> t = entry_link e t0"
  using assms
proof (induction es arbitrary: i h)
  case (Cons d es)
  then obtain h' where v: "verify_from (i + 1) h' (es @ [e]) = ([], t)" and d: "is_dict d" "entry_issues i h d = []"
    and h': "h' = entry_link d h"
    by (auto simp: Let_def split: prod.splits if_splits)
  from Cons.IH [OF v] d h' show ?case by auto
qed (auto simp: Let_def split: prod.splits if_splits)

lemma same_event_by_hash:
  assumes a: "entry_issues i g a = []" and b: "entry_issues i g' b = []"
    and eq: "expected_entry_hash a = expected_entry_hash b"
    and inj: "sha256_text (header_text a) = sha256_text (header_text b) \<longrightarrow> header_text a = header_text b"
      "sha256_text (payload_text a) = sha256_text (payload_text b) \<longrightarrow> payload_text a = payload_text b"
  shows "same_event a b"
proof -
  note A = verified_entry [OF a] and B = verified_entry [OF b]
  obtain ta tb where t: "jget a ''timestamp'' = JStr ta" "jget b ''timestamp'' = JStr tb" using A(5) B(5) by blast
  have "header_text a = header_text b" using eq inj(1) A(4) B(4) by simp
  then have h: "jget a ''timestamp'' = jget b ''timestamp''"
      "py_strip (text_of (jget a ''event_type'')) = py_strip (text_of (jget b ''event_type''))"
      "jget a ''payload_hash'' = jget b ''payload_hash''" "jget a ''prev_hash'' = jget b ''prev_hash''"
    unfolding header_text_def t A(2,3) B(2,3) by (auto dest!: dumps_raw_inj simp: canon_header)
  from h(3) A(3) B(3) have "sha256_text (payload_text a) = sha256_text (payload_text b)"
    by (simp add: payload_text_def hash_payload_def)
  with inj(2) have "canon (jget a ''payload'') = canon (jget b ''payload'')"
    by (auto simp: payload_text_def dest: dumps_raw_inj)
  with h show ?thesis by (simp add: same_event_def)
qed

lemma chains_with_same_end:
  assumes "verify_from 0 GENESIS_PREV_HASH es = ([], t)" "verify_from 0 GENESIS_PREV_HASH es' = ([], t)"
    and "length es = length es'"
    and "\<And>a b. a \<in> set es \<Longrightarrow> b \<in> set es' \<Longrightarrow> sha256_text (header_text a) = sha256_text (header_text b) \<Longrightarrow> header_text a = header_text b"
    and "\<And>a b. a \<in> set es \<Longrightarrow> b \<in> set es' \<Longrightarrow> sha256_text (payload_text a) = sha256_text (payload_text b) \<Longrightarrow> payload_text a = payload_text b"
  shows "list_all2 same_event es es'"
  using assms
proof (induction es arbitrary: es' t rule: rev_induct)
  case (snoc e es)
  from snoc.prems(3) obtain fs f where es': "es' = fs @ [f]" and len: "length fs = length es"
    by (cases es' rule: rev_cases) auto
  from verify_from_snocD [OF snoc.prems(1)] obtain t1 where
    1: "verify_from 0 GENESIS_PREV_HASH es = ([], t1)" "entry_issues (length es) t1 e = []" "t = entry_link e t1" by auto
  from verify_from_snocD [OF snoc.prems(2) [unfolded es']] obtain t2 where
    2: "verify_from 0 GENESIS_PREV_HASH fs = ([], t2)" "entry_issues (length es) t2 f = []" "t = entry_link f t2" using len by auto
  have same: "same_event e f"
  proof (rule same_event_by_hash [OF 1(2) 2(2)])
    show "expected_entry_hash e = expected_entry_hash f"
      using 1(3) 2(3) verified_entry(1) [OF 1(2)] verified_entry(1) [OF 2(2)] by (simp add: entry_link_def)
  qed (use snoc.prems(4,5) es' in auto)
  have "list_all2 same_event es fs"
  proof (cases "es = []")
    case False
    then have "t1 = t2"
      using same verified_entry(2) [OF 1(2)] verified_entry(2) [OF 2(2)] by (simp add: same_event_def)
    with 1 2 len snoc.prems(4,5) es' show ?thesis by (intro snoc.IH [OF 1(1), of fs]) auto
  qed (use len in simp)
  with same es' show ?case by (auto intro!: list_all2_appendI)
qed simp

text \<open>Property C31. A verified log is determined by its length and its terminal hash: if two logs verify with the same
  count and the same terminal hash, and no two of their headers and no two of their payloads collide under
  SHA-256, then they record the same events in the same order. A log cannot be edited, reordered or have an
  entry replaced without either failing verification or changing its terminal hash.\<close>

theorem provenance_is_tamper_evident:
  assumes "vr_ok (verify_provenance_chain es)" "vr_ok (verify_provenance_chain es')"
    and "vr_entry_count (verify_provenance_chain es) = vr_entry_count (verify_provenance_chain es')"
    and "vr_terminal_hash (verify_provenance_chain es) = vr_terminal_hash (verify_provenance_chain es')"
    and "inj_on sha256_text (header_text ` (set es \<union> set es'))" "inj_on sha256_text (payload_text ` (set es \<union> set es'))"
  shows "list_all2 same_event es es'"
proof (rule chains_with_same_end)
  show "verify_from 0 GENESIS_PREV_HASH es = ([], vr_terminal_hash (verify_provenance_chain es))"
    "verify_from 0 GENESIS_PREV_HASH es' = ([], vr_terminal_hash (verify_provenance_chain es))"
    using assms(1,2,4) by (auto simp: verify_provenance_chain_def split: prod.splits)
  show "length es = length es'" using assms(3) by (auto simp: verify_provenance_chain_def Let_def split: prod.splits)
qed (use assms(5,6) in \<open>auto dest: inj_onD\<close>)

end
