(* ===== verification/NZ_Evidence_Link.thy ===== *)
theory NZ_Evidence_Link
  imports NZ_Repository Provenance
begin

text \<open>
  The service's link to the core ledger, \<^verbatim>\<open>provenance.py\<close> of the CloudOps package: removal of
  private fields, the provenance log with its sealed head, the check before every operation and the
  append. The log is its list of lines, a line being a JSON value or a torn write; the head file
  is the sealed count and terminal hash. Faults of the file system are an argument of each call.
  The theorems show that a failed append is never silently adopted: the next check fails closed.
\<close>

section \<open>Public evidence\<close>

definition PRIVATE_FIELDS :: "string set" where
  "PRIVATE_FIELDS = {''decision_nonce'', ''decision_nonce_hash'', ''actor_session_id'', ''authorization'', ''token'', ''credential''}"

fun public_evidence :: "json \<Rightarrow> json" where
  "public_evidence (JObj kvs) =
     JObj (map (\<lambda>kv. (fst kv, public_evidence (snd kv))) (filter (\<lambda>kv. fst kv \<notin> PRIVATE_FIELDS) kvs))"
| "public_evidence (JArr vs) = JArr (map public_evidence vs)"
| "public_evidence v = v"

text \<open>The keys that occur at any depth of a value.\<close>

fun json_keys :: "json \<Rightarrow> string set" where
  "json_keys (JObj kvs) = fst ` set kvs \<union> (\<Union>kv \<in> set kvs. json_keys (snd kv))"
| "json_keys (JArr vs) = (\<Union>v \<in> set vs. json_keys v)"
| "json_keys v = {}"

definition MODULE_ID :: string where "MODULE_ID = ''nonzero-cloudops''"
definition CONTRACT_VERSION :: string where "CONTRACT_VERSION = ''nonzero-native-v1''"
definition JUDGE_SHA :: string where "JUDGE_SHA = ''4fafed8b1a877e55d96ddd9baea0a737fbeeaa4a''"

definition source_identity :: "(string \<times> json) list" where
  "source_identity = [(''module'', JStr MODULE_ID), (''contract_version'', JStr CONTRACT_VERSION), (''source_sha'', JStr JUDGE_SHA)]"

text \<open>\<^verbatim>\<open>{**a, **b}\<close>.\<close>

definition dict_merge :: "(string \<times> 'v) list \<Rightarrow> (string \<times> 'v) list \<Rightarrow> (string \<times> 'v) list" where
  "dict_merge a b = foldl (\<lambda>d kv. dict_set (fst kv) (snd kv) d) a b"

section \<open>Python equality of JSON values\<close>

text \<open>Dictionaries are compared without their order, and \<^verbatim>\<open>True\<close> equals 1.\<close>

fun py_norm :: "json \<Rightarrow> json" where
  "py_norm (JBool b) = JInt (if b then 1 else 0)"
| "py_norm (JArr vs) = JArr (map py_norm vs)"
| "py_norm (JObj kvs) = JObj (map (\<lambda>kv. (fst kv, py_norm (snd kv))) kvs)"
| "py_norm v = v"

definition py_eq :: "json \<Rightarrow> json \<Rightarrow> bool" where
  "py_eq a b \<longleftrightarrow> canon (py_norm a) = canon (py_norm b)"

section \<open>Text of a log line\<close>

text \<open>\<^verbatim>\<open>json.dumps\<close> with its default separators, in the order of the keys.\<close>

fun jtext :: "(char \<Rightarrow> string) \<Rightarrow> json \<Rightarrow> string" where
  "jtext esc JNull = ''null''"
| "jtext esc (JBool b) = (if b then ''true'' else ''false'')"
| "jtext esc (JInt i) = py_int_str i"
| "jtext esc (JStr s) = py_quote esc s"
| "jtext esc (JArr vs) = ''['' @ intersperse_text '', '' (map (jtext esc) vs) @ '']''"
| "jtext esc (JObj kvs) = ''{'' @ intersperse_text '', '' (map (\<lambda>kv. py_quote esc (fst kv) @ '': '' @ jtext esc (snd kv)) kvs) @ ''}''"

datatype log_line = Line json | Torn nat

text \<open>The bytes of a line with its newline; a torn line has the bytes that reached the file.\<close>

fun line_bytes :: "log_line \<Rightarrow> nat" where
  "line_bytes (Line v) = length (utf8 (jtext raw_escape v)) + 1"
| "line_bytes (Torn n) = n"

section \<open>The link\<close>

datatype nz_error = NonZeroError (nz_code: string) (nz_status: int)

record evidence_link =
  el_log :: "log_line list"
  el_head :: json
  el_max_bytes :: nat

datatype link_fault = LF_None | LF_Read | LF_Log "nat option" | LF_AfterLog | LF_AfterHead

definition log_size :: "evidence_link \<Rightarrow> nat" where
  "log_size l = sum_list (map line_bytes (el_log l))"

fun read_lines :: "log_line list \<Rightarrow> json list option" where
  "read_lines [] = Some []"
| "read_lines (Line v # ls) = map_option ((#) v) (read_lines ls)"
| "read_lines (Torn _ # ls) = None"

definition head_of :: "provenance_verification \<Rightarrow> json" where
  "head_of result = JObj (source_identity @
     [(''entry_count'', JInt (int (vr_entry_count result))), (''terminal_hash'', JStr (vr_terminal_hash result))])"

definition HEAD_TYPE :: string where "HEAD_TYPE = ''NONZERO_CORE_CHAIN_HEAD''"

definition identity_ok :: "json \<Rightarrow> bool" where
  "identity_ok event \<longleftrightarrow> list_all (\<lambda>kv. jget (jget event ''payload'') (fst kv) = snd kv) source_identity"

definition corrupt :: nz_error where
  "corrupt = NonZeroError ''NONZERO_PROVENANCE_CORRUPT'' 409"

definition link_check :: "link_fault \<Rightarrow> nat \<Rightarrow> evidence_link \<Rightarrow> nz_error + json list \<times> provenance_verification" where
  "link_check fault reserve l =
     (if fault = LF_Read then Inl corrupt
      else if el_max_bytes l < log_size l + reserve then Inl (NonZeroError ''NONZERO_EVIDENCE_QUOTA_EXCEEDED'' 409)
      else case read_lines (el_log l) of
        None \<Rightarrow> Inl corrupt
      | Some entries \<Rightarrow>
          (let result = verify_provenance_chain entries
           in if \<not> vr_ok result then Inl corrupt
              else if \<not> list_all identity_ok entries then Inl (NonZeroError ''NONZERO_SOURCE_IDENTITY_MISMATCH'' 409)
              else case open_local_payload (el_head l) HEAD_TYPE of
                     Inl _ \<Rightarrow> Inl corrupt
                   | Inr (head, _) \<Rightarrow>
                       if \<not> py_eq head (head_of result) then Inl (NonZeroError ''NONZERO_PROVENANCE_HEAD_MISMATCH'' 409)
                       else Inr (entries, result)))"

definition write_failed :: nz_error where
  "write_failed = NonZeroError ''NONZERO_PROVENANCE_WRITE_FAILED'' 503"

text \<open>A payload is a dictionary, so that the merge with the identity is defined.\<close>

definition link_payload :: "(string \<times> json) list \<Rightarrow> json" where
  "link_payload payload =
     (case public_evidence (JObj payload) of JObj kvs \<Rightarrow> JObj (dict_merge kvs source_identity) | v \<Rightarrow> v)"

definition link_append ::
  "(json \<Rightarrow> string) \<Rightarrow> link_fault \<Rightarrow> datetime \<Rightarrow> string \<Rightarrow> (string \<times> json) list \<Rightarrow> evidence_link
   \<Rightarrow> evidence_link \<times> (nz_error + unit)" where
  "link_append py_str fault now kind payload l =
     (case link_check fault 0 l of
        Inl e \<Rightarrow> (l, Inl e)
      | Inr (entries, _) \<Rightarrow>
          (case append_event_record py_str now entries kind (link_payload payload) of
             Inl _ \<Rightarrow> (l, Inl write_failed)
           | Inr r \<Rightarrow>
               (case fault of
                  LF_Log written \<Rightarrow>
                    (case written of None \<Rightarrow> l | Some n \<Rightarrow> l\<lparr>el_log := el_log l @ [Torn n]\<rparr>, Inl write_failed)
                | _ \<Rightarrow>
                    (let l' = l\<lparr>el_log := el_log l @ [Line r]\<rparr>;
                         result = verify_provenance_chain (entries @ [r])
                     in if fault = LF_AfterLog then (l', Inl write_failed)
                        else if \<not> vr_ok result then (l', Inl corrupt)
                        else case seal_local_payload (head_of result) HEAD_TYPE of
                               Inl _ \<Rightarrow> (l', Inl write_failed)
                             | Inr sealed \<Rightarrow>
                                 (l'\<lparr>el_head := sealed\<rparr>, if fault = LF_AfterHead then Inl write_failed else Inr ())))))"

text \<open>A newly admitted namespace: an empty log, anchored.\<close>

definition link_new :: "nat \<Rightarrow> nz_error + evidence_link" where
  "link_new max_bytes =
     (case seal_local_payload (head_of (verify_provenance_chain [])) HEAD_TYPE of
        Inl _ \<Rightarrow> Inl write_failed
      | Inr sealed \<Rightarrow> Inr \<lparr>el_log = [], el_head = sealed, el_max_bytes = max_bytes\<rparr>)"

section \<open>Nothing private is recorded\<close>

lemma public_evidence_keys: "json_keys (public_evidence v) \<subseteq> json_keys v - PRIVATE_FIELDS"
proof (induction v rule: public_evidence.induct)
  case (1 kvs)
  show ?case
  proof
    fix k assume "k \<in> json_keys (public_evidence (JObj kvs))"
    then obtain kv where kv: "kv \<in> set kvs" "fst kv \<notin> PRIVATE_FIELDS"
      and k: "k = fst kv \<or> k \<in> json_keys (public_evidence (snd kv))" by auto
    from kv have "json_keys (public_evidence (snd kv)) \<subseteq> json_keys (snd kv) - PRIVATE_FIELDS" by (intro 1) simp
    with k kv show "k \<in> json_keys (JObj kvs) - PRIVATE_FIELDS" by auto
  qed
next
  case (2 vs)
  then show ?case by simp blast
qed simp_all

lemma public_evidence_id: "json_keys v \<inter> PRIVATE_FIELDS = {} \<Longrightarrow> public_evidence v = v"
proof (induction v rule: public_evidence.induct)
  case (1 kvs)
  have "map (\<lambda>kv. (fst kv, public_evidence (snd kv))) kvs = kvs"
    by (rule map_idI) (use 1 in fastforce)
  moreover have "filter (\<lambda>kv. fst kv \<notin> PRIVATE_FIELDS) kvs = kvs" using 1(2) by (auto simp: filter_id_conv)
  ultimately show ?case by simp
next
  case (2 vs)
  then show ?case by (auto intro!: map_idI)
qed simp_all

lemma public_evidence_idem: "public_evidence (public_evidence v) = public_evidence v"
  using public_evidence_keys [of v] by (intro public_evidence_id) blast

text \<open>Public evidence contains no private field at any depth, adds nothing, and leaves a value without
  private fields as it is; in particular it is idempotent.\<close>

theorem public_evidence_hides_private_fields:
  "json_keys (public_evidence v) \<inter> PRIVATE_FIELDS = {} \<and> json_keys (public_evidence v) \<subseteq> json_keys v
   \<and> (json_keys v \<inter> PRIVATE_FIELDS = {} \<longleftrightarrow> public_evidence v = v)
   \<and> public_evidence (public_evidence v) = public_evidence v"
  using public_evidence_keys [of v] public_evidence_id [of v] public_evidence_id [of "public_evidence v"] by auto

lemma set_dict_set: "set (dict_set k v d) \<subseteq> insert (k, v) (set d)"
  by (induction d) auto

lemma set_dict_merge: "set (dict_merge a b) \<subseteq> set a \<union> set b"
proof (induction b arbitrary: a)
  case (Cons kv b)
  have "set (dict_merge a (kv # b)) \<subseteq> set (dict_set (fst kv) (snd kv) a) \<union> set b"
    using Cons [of "dict_set (fst kv) (snd kv) a"] by (simp add: dict_merge_def)
  with set_dict_set [of "fst kv" "snd kv" a] show ?case by auto
qed (simp add: dict_merge_def)

lemma json_keys_mono: "set a \<subseteq> set b \<union> set c \<Longrightarrow> json_keys (JObj a) \<subseteq> json_keys (JObj b) \<union> json_keys (JObj c)"
  unfolding json_keys.simps by blast

lemma subset_two_disjoint: "x \<subseteq> a \<union> b \<Longrightarrow> a \<inter> c = {} \<Longrightarrow> b \<inter> c = {} \<Longrightarrow> x \<inter> c = {}"
  by blast

lemma link_payload_keys: "json_keys (link_payload payload) \<inter> PRIVATE_FIELDS = {}"
proof -
  obtain kvs where kvs: "public_evidence (JObj payload) = JObj kvs" by simp
  have d: "json_keys (JObj kvs) \<inter> PRIVATE_FIELDS = {}" using public_evidence_keys [of "JObj payload"] unfolding kvs by blast
  have i: "json_keys (JObj source_identity) \<inter> PRIVATE_FIELDS = {}" by (simp add: source_identity_def PRIVATE_FIELDS_def)
  have l: "link_payload payload = JObj (dict_merge kvs source_identity)" unfolding link_payload_def kvs by simp
  have "json_keys (link_payload payload) \<subseteq> json_keys (JObj kvs) \<union> json_keys (JObj source_identity)"
    unfolding l by (rule json_keys_mono [OF set_dict_merge])
  from subset_two_disjoint [OF this d i] show ?thesis .
qed

section \<open>A failed append fails closed\<close>

lemma read_lines_append: "read_lines (ls @ [Line v]) = map_option (\<lambda>es. es @ [v]) (read_lines ls)"
  by (induction ls rule: read_lines.induct) (auto simp: option.map_comp comp_def)

lemma read_lines_torn: "read_lines (ls @ [Torn n]) = None"
  by (induction ls rule: read_lines.induct) auto

text \<open>A link whose log was written by appends alone and whose head is the seal of the whole log.\<close>

definition link_ok :: "evidence_link \<Rightarrow> json list \<Rightarrow> bool" where
  "link_ok l entries \<longleftrightarrow>
     read_lines (el_log l) = Some entries \<and> (\<exists>t. own_log entries t) \<and> list_all identity_ok entries
     \<and> seal_local_payload (head_of (verify_provenance_chain entries)) HEAD_TYPE = Inr (el_head l)"

text \<open>A link that no check accepts any more.\<close>

definition link_dead :: "evidence_link \<Rightarrow> bool" where
  "link_dead l \<longleftrightarrow> (\<forall>fault reserve. \<exists>e. link_check fault reserve l = Inl e)"

lemma py_eq_refl [simp]: "py_eq v v"
  by (simp add: py_eq_def)

lemma head_seals: "\<exists>sealed. seal_local_payload (head_of result) HEAD_TYPE = Inr sealed"
  by (simp add: seal_local_payload_def head_of_def is_mapping_def payload_type_ok_def HEAD_TYPE_def py_strip_def py_space_def)

lemma head_binds: "py_eq (head_of a) (head_of b) \<Longrightarrow> vr_entry_count a = vr_entry_count b \<and> vr_terminal_hash a = vr_terminal_hash b"
  by (simp add: py_eq_def head_of_def source_identity_def)

lemma link_ok_check:
  assumes "link_ok l entries" "fault \<noteq> LF_Read" "log_size l + reserve \<le> el_max_bytes l"
  shows "link_check fault reserve l = Inr (entries, verify_provenance_chain entries)"
proof -
  from assms(1) obtain t where t: "own_log entries t" by (auto simp: link_ok_def)
  from assms(1) have "open_local_payload (el_head l) HEAD_TYPE =
      Inr (head_of (verify_provenance_chain entries), digest (envelope_material (head_of (verify_provenance_chain entries)) HEAD_TYPE))"
    by (intro seal_opens) (simp add: link_ok_def)
  with assms verify_own_log [OF t] show ?thesis by (simp add: link_check_def link_ok_def Let_def)
qed

lemma link_ok_new: "link_new m = Inr l \<Longrightarrow> link_ok l []"
  using own_log_empty by (auto simp: link_new_def link_ok_def split: sum.splits)

lemma link_check_ok:
  "link_check fault reserve l = Inr (es, result) \<Longrightarrow>
     read_lines (el_log l) = Some es \<and> result = verify_provenance_chain es \<and> list_all identity_ok es \<and> fault \<noteq> LF_Read
     \<and> log_size l + reserve \<le> el_max_bytes l"
  by (auto simp: link_check_def Let_def split: if_splits option.splits sum.splits prod.splits)

lemma identity_payload: "identity_ok (provenance_record ts ty h (link_payload payload))"
  by (simp add: identity_ok_def source_identity_def record_fields link_payload_def dict_merge_def update_conv')

lemma link_payload_dict: "is_dict (link_payload payload)"
  by (simp add: link_payload_def)

lemma appended_record:
  assumes "own_log entries t" "append_event_record py_str now entries kind (link_payload payload) = Inr r"
  shows "r = provenance_record (isoformat now) (py_strip kind) t (link_payload payload)"
  using assms own_log_latest [OF assms(1), of py_str] by (auto simp: append_event_record_def result_simps)

lemma old_head_is_dead:
  assumes ok: "link_ok l entries" and lg: "el_log l' = el_log l @ [Line r]" and hd: "el_head l' = el_head l"
  shows "link_dead l'"
  unfolding link_dead_def
proof (intro allI)
  fix fault reserve
  have "\<not> py_eq (head_of (verify_provenance_chain entries)) (head_of (verify_provenance_chain (entries @ [r])))"
    by (auto dest!: head_binds simp: verify_provenance_chain_def Let_def split: prod.splits)
  moreover have "open_local_payload (el_head l') HEAD_TYPE =
      Inr (head_of (verify_provenance_chain entries), digest (envelope_material (head_of (verify_provenance_chain entries)) HEAD_TYPE))"
    using ok hd by (intro seal_opens) (simp add: link_ok_def)
  moreover have "read_lines (el_log l') = Some (entries @ [r])" using ok lg by (simp add: link_ok_def read_lines_append)
  ultimately show "\<exists>e. link_check fault reserve l' = Inl e"
    by (auto simp: link_check_def Let_def)
qed

lemma torn_is_dead: "el_log l' = ls @ [Torn n] \<Longrightarrow> link_dead l'"
  by (auto simp: link_dead_def link_check_def read_lines_torn)

lemma link_ok_append:
  assumes ok: "link_ok l entries" and ap: "append_event_record py_str now entries kind (link_payload payload) = Inr r"
    and seal: "seal_local_payload (head_of (verify_provenance_chain (entries @ [r]))) HEAD_TYPE = Inr sealed"
  shows "link_ok (l\<lparr>el_log := el_log l @ [Line r], el_head := sealed\<rparr>) (entries @ [r])"
proof -
  from ok obtain t where t: "own_log entries t" by (auto simp: link_ok_def)
  have "identity_ok r" using appended_record [OF t ap] identity_payload by simp
  with ok seal own_log_append [OF t ap] show ?thesis by (auto simp: link_ok_def read_lines_append)
qed

lemma link_append_cases:
  assumes ok: "link_ok l entries" and ap: "link_append py_str fault now kind payload l = (l', res)"
  obtains (unchanged) e where "l' = l" "res = Inl e"
  | (dead) ls e where "link_dead l'" "el_log l' = el_log l @ ls" "res = Inl e"
  | (written) t where "own_log entries t"
      "link_ok l' (entries @ [provenance_record (isoformat now) (py_strip kind) t (link_payload payload)])"
      "el_log l' = el_log l @ [Line (provenance_record (isoformat now) (py_strip kind) t (link_payload payload))]"
      "el_max_bytes l' = el_max_bytes l"
proof (cases "link_check fault 0 l")
  case (Inl e)
  with ap show ?thesis by (intro unchanged) (auto simp: link_append_def)
next
  case (Inr x)
  with link_check_ok [of fault 0 l] ok have es: "link_check fault 0 l = Inr (entries, snd x)"
    by (cases x) (auto simp: link_ok_def)
  from ok obtain t where t: "own_log entries t" by (auto simp: link_ok_def)
  show ?thesis
  proof (cases "append_event_record py_str now entries kind (link_payload payload)")
    case (Inl e)
    with ap es show ?thesis by (intro unchanged) (auto simp: link_append_def)
  next
    case (Inr r)
    have r: "r = provenance_record (isoformat now) (py_strip kind) t (link_payload payload)" by (rule appended_record [OF t Inr])
    obtain sealed where sealed: "seal_local_payload (head_of (verify_provenance_chain (entries @ [r]))) HEAD_TYPE = Inr sealed"
      using head_seals by blast
    have v: "vr_ok (verify_provenance_chain (entries @ [r]))" using verify_own_log [OF own_log_append [OF t Inr]] by simp
    consider (log_none) "fault = LF_Log None" | (torn) n where "fault = LF_Log (Some n)" | (cut) "fault = LF_AfterLog"
      | (full) "fault = LF_None \<or> fault = LF_AfterHead \<or> fault = LF_Read"
      by (metis link_fault.exhaust option.exhaust)
    then show ?thesis
    proof cases
      case log_none
      with ap es Inr show ?thesis by (intro unchanged) (auto simp: link_append_def)
    next
      case (torn n)
      with ap es Inr have "el_log l' = el_log l @ [Torn n]" "res = Inl write_failed" by (auto simp: link_append_def)
      then show ?thesis using torn_is_dead by (intro dead) auto
    next
      case cut
      with ap es Inr have "l' = l\<lparr>el_log := el_log l @ [Line r]\<rparr>" "res = Inl write_failed"
        by (auto simp: link_append_def Let_def)
      then show ?thesis using old_head_is_dead [OF ok] by (intro dead) auto
    next
      case full
      with ap es Inr v sealed have "l' = l\<lparr>el_log := el_log l @ [Line r], el_head := sealed\<rparr>"
        by (auto simp: link_append_def Let_def)
      with link_ok_append [OF ok Inr sealed] r t show ?thesis by (intro written) auto
    qed
  qed
qed

lemma link_append_dead: "link_dead l \<Longrightarrow> \<exists>e. link_append py_str fault now kind payload l = (l, Inl e)"
proof -
  assume "link_dead l"
  then obtain e where "link_check fault 0 l = Inl e" unfolding link_dead_def by blast
  then show ?thesis by (simp add: link_append_def)
qed

lemma link_append_log: "link_append py_str fault now kind payload l = (l', r) \<Longrightarrow> \<exists>rest. el_log l' = el_log l @ rest"
  by (auto simp: link_append_def Let_def split: sum.splits prod.splits link_fault.splits option.splits if_splits)


end
