(* ===== verification/NZ_Views.thy ===== *)
theory NZ_Views
  imports NZ_Planning_Safety NZ_Evidence_Link
begin

text \<open>
  The read models shown to an operator: the consistent read of one run
  (\<^verbatim>\<open>state/repository.py\<close>, \<^verbatim>\<open>read_run_snapshot\<close>), the public views of
  \<^verbatim>\<open>views.py\<close> and their projection in \<^verbatim>\<open>evidence.py\<close>, and the bound of
  \<^verbatim>\<open>execution.py\<close> on the size of an execution result. The digest of the stored file and the
  contract's JSON form of a run view are arguments.
\<close>

section \<open>Reading one run\<close>

record run_snapshot =
  sn_run :: "run option"
  sn_checkpoint :: "checkpoint option"
  sn_audit_events :: "audit_event list"
  sn_audit_event_count :: nat
  sn_snapshot_sha256 :: string

definition repo_read_run_snapshot :: "(snapshot_payload \<Rightarrow> string) \<Rightarrow> io \<Rightarrow> uuid \<Rightarrow> int \<Rightarrow> store \<Rightarrow> exn + run_snapshot" where
  "repo_read_run_snapshot file_digest io rid limit f =
     (if io = IoLoadFails then Inl StorageDependencyError
      else case f of
        None \<Rightarrow> Inl StorageDependencyError
      | Some payload \<Rightarrow>
          ebind (from_snapshot payload) (\<lambda>s.
          ebind (list_audit_events s rid limit) (\<lambda>events.
          Inr \<lparr>sn_run = get_run s rid, sn_checkpoint = get_checkpoint s rid, sn_audit_events = events,
               sn_audit_event_count = count_audit_events s rid, sn_snapshot_sha256 = file_digest payload\<rparr>)))"

section \<open>Views\<close>

datatype local_evidence_category =
    LEC_FACT
  | LEC_AGENT_INFERENCE
  | LEC_POLICY_DECISION
  | LEC_HUMAN_DECISION
  | LEC_ACTION
  | LEC_VERIFICATION
  | LEC_RECOVERY

record runtime_view =
  rt_model_id :: string
  rt_process_provider_calls :: nat
  rt_process_external_network_calls :: nat
  rt_process_sandbox_mutations :: nat

record approval_request_view =
  qv_request_id :: uuid
  qv_proposal_id :: uuid
  qv_proposal_hash :: string
  qv_evidence_hash :: string
  qv_proposal_version :: int
  qv_operation_type :: remediation_operation
  qv_target_resource_type :: cloud_resource_type
  qv_target_resource_id :: string
  qv_requested_at :: datetime
  qv_expires_at :: datetime
  qv_request_hash :: string

record approval_decision_view =
  dv_request_id :: uuid
  dv_proposal_id :: uuid
  dv_request_hash :: string
  dv_proposal_hash :: string
  dv_evidence_hash :: string
  dv_proposal_version :: int
  dv_decision :: approval_decision
  dv_decided_at :: datetime
  dv_decision_hash :: string

record execution_intent_view =
  iv_proposal_id :: uuid
  iv_proposal_hash :: string
  iv_evidence_hash :: string
  iv_decision_hash :: string
  iv_operation_type :: remediation_operation
  iv_target_resource_type :: cloud_resource_type
  iv_target_resource_id :: string
  iv_registered_at :: datetime
  iv_intent_hash :: string

record checkpoint_view =
  cv_last_safe_state :: workflow_state
  cv_version :: int
  cv_resource_evidence :: "resource_evidence option"
  cv_remediation_proposal :: "remediation_proposal option"
  cv_approval_request :: "approval_request_view option"
  cv_approval :: "approval_decision_view option"
  cv_execution_intent :: "execution_intent_view option"
  cv_execution_receipt :: "local_receipt option"
  cv_verification :: "local_verification option"

record audit_event_view =
  av_event_id :: uuid
  av_type :: audit_event_type
  av_category :: local_evidence_category
  av_summary :: string
  av_timestamp :: datetime
  av_source :: string
  av_redacted_payload_hash :: string
  av_metadata :: "(string \<times> string) list"

record local_run_view =
  vw_evidence_snapshot_sha256 :: string
  vw_run :: run
  vw_checkpoint :: "checkpoint_view option"
  vw_audit_events :: "audit_event_view list"
  vw_runtime :: runtime_view
  vw_run_sandbox_mutations :: nat
  vw_audit_event_count :: nat
  vw_audit_events_truncated :: bool

definition valid_run_view :: "(local_run_view \<Rightarrow> json) \<Rightarrow> local_run_view \<Rightarrow> bool" where
  "valid_run_view dump v \<longleftrightarrow>
     sha256_digest (vw_evidence_snapshot_sha256 v) \<and> vw_run_sandbox_mutations v \<le> 1 \<and> vw_audit_event_count v \<le> 1024
     \<and> length (vw_audit_events v) \<le> vw_audit_event_count v
     \<and> (vw_audit_events_truncated v \<longleftrightarrow> length (vw_audit_events v) < vw_audit_event_count v)
     \<and> \<not> contains_sensitive_material (dump v)"

section \<open>Projections\<close>

definition AGENT_INFERENCE_EVENTS :: "audit_event_type set" where
  "AGENT_INFERENCE_EVENTS =
     {AET_MODEL_OBSERVED, AET_PROPOSAL_CREATED, AET_REMEDIATION_PLANNED, AET_NO_ACTION_RECORDED, AET_RECOMMENDATION_RECORDED}"

definition POLICY_EVENTS :: "audit_event_type set" where
  "POLICY_EVENTS = {AET_POLICY_DENIED, AET_MODEL_OUTPUT_REJECTED, AET_BUDGET_EXHAUSTED, AET_BUDGET_UPDATED}"

definition HUMAN_EVENTS :: "audit_event_type set" where
  "HUMAN_EVENTS = {AET_APPROVAL_REQUESTED, AET_APPROVAL_RECORDED}"

definition ACTION_EVENTS :: "audit_event_type set" where
  "ACTION_EVENTS = {AET_IDEMPOTENCY_REGISTERED, AET_EXECUTION_REQUESTED, AET_EXECUTION_ACKNOWLEDGED}"

definition VERIFICATION_EVENTS :: "audit_event_type set" where
  "VERIFICATION_EVENTS = {AET_VERIFICATION_STARTED, AET_VERIFICATION_OBSERVED, AET_VERIFICATION_RECORDED}"

definition RECOVERY_EVENTS :: "audit_event_type set" where
  "RECOVERY_EVENTS = {AET_RECOVERY_CLASSIFIED, AET_RECOVERY_OBSERVED, AET_RECOVERY_COMPLETED, AET_RECOVERY_DEFERRED}"

definition PUBLIC_AUDIT_METADATA :: "string set" where
  "PUBLIC_AUDIT_METADATA =
     {''authority'', ''decision'', ''policy_code'', ''proposal_id'', ''request_id'', ''resource_id'', ''resource_type''}"

fun audit_event_type_value :: "audit_event_type \<Rightarrow> string" where
  "audit_event_type_value AET_RUN_CREATED = ''RUN_CREATED''"
| "audit_event_type_value AET_STATE_TRANSITIONED = ''STATE_TRANSITIONED''"
| "audit_event_type_value AET_PROPOSAL_CREATED = ''PROPOSAL_CREATED''"
| "audit_event_type_value AET_APPROVAL_REQUESTED = ''APPROVAL_REQUESTED''"
| "audit_event_type_value AET_APPROVAL_RECORDED = ''APPROVAL_RECORDED''"
| "audit_event_type_value AET_IDEMPOTENCY_REGISTERED = ''IDEMPOTENCY_REGISTERED''"
| "audit_event_type_value AET_EXECUTION_REQUESTED = ''EXECUTION_REQUESTED''"
| "audit_event_type_value AET_EXECUTION_ACKNOWLEDGED = ''EXECUTION_ACKNOWLEDGED''"
| "audit_event_type_value AET_VERIFICATION_STARTED = ''VERIFICATION_STARTED''"
| "audit_event_type_value AET_VERIFICATION_OBSERVED = ''VERIFICATION_OBSERVED''"
| "audit_event_type_value AET_CHECKPOINT_SAVED = ''CHECKPOINT_SAVED''"
| "audit_event_type_value AET_TOOL_OBSERVED = ''TOOL_OBSERVED''"
| "audit_event_type_value AET_MODEL_OBSERVED = ''MODEL_OBSERVED''"
| "audit_event_type_value AET_VERIFICATION_RECORDED = ''VERIFICATION_RECORDED''"
| "audit_event_type_value AET_RECOVERY_CLASSIFIED = ''RECOVERY_CLASSIFIED''"
| "audit_event_type_value AET_RECOVERY_OBSERVED = ''RECOVERY_OBSERVED''"
| "audit_event_type_value AET_RECOVERY_COMPLETED = ''RECOVERY_COMPLETED''"
| "audit_event_type_value AET_RECOVERY_DEFERRED = ''RECOVERY_DEFERRED''"
| "audit_event_type_value AET_POLICY_DENIED = ''POLICY_DENIED''"
| "audit_event_type_value AET_MODEL_OUTPUT_REJECTED = ''MODEL_OUTPUT_REJECTED''"
| "audit_event_type_value AET_BUDGET_UPDATED = ''BUDGET_UPDATED''"
| "audit_event_type_value AET_BUDGET_EXHAUSTED = ''BUDGET_EXHAUSTED''"
| "audit_event_type_value AET_RESOURCE_QUERIED = ''RESOURCE_QUERIED''"
| "audit_event_type_value AET_REMEDIATION_PLANNED = ''REMEDIATION_PLANNED''"
| "audit_event_type_value AET_NO_ACTION_RECORDED = ''NO_ACTION_RECORDED''"
| "audit_event_type_value AET_RECOMMENDATION_RECORDED = ''RECOMMENDATION_RECORDED''"

text \<open>\<^verbatim>\<open>str.title\<close> on ASCII text: the first letter after a non-letter stays upper case, the others become lower case.\<close>

definition upper_ascii :: "char \<Rightarrow> char" where
  "upper_ascii c = (if char_between CHR ''a'' CHR ''z'' c then char_of (of_char c - 32 :: nat) else c)"

definition ascii_letter :: "char \<Rightarrow> bool" where
  "ascii_letter c \<longleftrightarrow> char_between CHR ''a'' CHR ''z'' c \<or> char_between CHR ''A'' CHR ''Z'' c"

fun title_from :: "bool \<Rightarrow> string \<Rightarrow> string" where
  "title_from inside [] = []"
| "title_from inside (c # cs) = (if inside then lower_ascii c else upper_ascii c) # title_from (ascii_letter c) cs"

definition event_summary :: "audit_event_type \<Rightarrow> string" where
  "event_summary ty = title_from False (map (\<lambda>c. if c = CHR ''_'' then CHR '' '' else c) (audit_event_type_value ty))"

definition event_category :: "audit_event_type \<Rightarrow> local_evidence_category" where
  "event_category ty =
     (if ty \<in> AGENT_INFERENCE_EVENTS then LEC_AGENT_INFERENCE
      else if ty \<in> POLICY_EVENTS then LEC_POLICY_DECISION
      else if ty \<in> HUMAN_EVENTS then LEC_HUMAN_DECISION
      else if ty \<in> ACTION_EVENTS then LEC_ACTION
      else if ty \<in> VERIFICATION_EVENTS then LEC_VERIFICATION
      else if ty \<in> RECOVERY_EVENTS then LEC_RECOVERY
      else LEC_FACT)"

definition view_of_event :: "audit_event \<Rightarrow> audit_event_view" where
  "view_of_event e =
     \<lparr>av_event_id = ae_event_id e, av_type = ae_type e, av_category = event_category (ae_type e),
      av_summary = event_summary (ae_type e), av_timestamp = ae_timestamp e, av_source = ae_source e,
      av_redacted_payload_hash = ae_redacted_payload_hash e,
      av_metadata = filter (\<lambda>kv. fst kv \<in> PUBLIC_AUDIT_METADATA) (ae_metadata e)\<rparr>"

definition view_of_request :: "local_approval_request \<Rightarrow> approval_request_view" where
  "view_of_request q =
     \<lparr>qv_request_id = lq_request_id q, qv_proposal_id = lq_proposal_id q, qv_proposal_hash = lq_proposal_hash q,
      qv_evidence_hash = lq_evidence_hash q, qv_proposal_version = lq_proposal_version q,
      qv_operation_type = lq_operation_type q, qv_target_resource_type = lq_target_resource_type q,
      qv_target_resource_id = lq_target_resource_id q, qv_requested_at = lq_requested_at q,
      qv_expires_at = lq_expires_at q, qv_request_hash = lq_request_hash q\<rparr>"

definition view_of_approval :: "local_approval \<Rightarrow> approval_decision_view" where
  "view_of_approval a =
     \<lparr>dv_request_id = la_request_id a, dv_proposal_id = la_proposal_id a, dv_request_hash = la_request_hash a,
      dv_proposal_hash = la_proposal_hash a, dv_evidence_hash = la_evidence_hash a,
      dv_proposal_version = la_proposal_version a, dv_decision = la_decision a, dv_decided_at = la_decided_at a,
      dv_decision_hash = la_decision_hash a\<rparr>"

definition view_of_intent :: "local_intent \<Rightarrow> execution_intent_view" where
  "view_of_intent i =
     \<lparr>iv_proposal_id = li_proposal_id i, iv_proposal_hash = li_proposal_hash i, iv_evidence_hash = li_evidence_hash i,
      iv_decision_hash = li_decision_hash i, iv_operation_type = li_operation_type i,
      iv_target_resource_type = li_target_resource_type i, iv_target_resource_id = li_target_resource_id i,
      iv_registered_at = li_registered_at i, iv_intent_hash = li_intent_hash i\<rparr>"

definition view_of_checkpoint :: "checkpoint \<Rightarrow> checkpoint_view" where
  "view_of_checkpoint c =
     \<lparr>cv_last_safe_state = cp_last_safe_state c, cv_version = cp_version c,
      cv_resource_evidence = cp_resource_evidence c, cv_remediation_proposal = cp_remediation_proposal c,
      cv_approval_request = map_option view_of_request (cp_local_approval_request c),
      cv_approval = map_option view_of_approval (cp_local_approval c),
      cv_execution_intent = map_option view_of_intent (cp_local_execution_intent c),
      cv_execution_receipt = cp_local_execution_receipt c, cv_verification = cp_local_verification c\<rparr>"

text \<open>The process counters: how often the advisor was asked, and how often the executor changed the sandbox.\<close>

definition view_of_runtime :: "nat \<Rightarrow> nat \<Rightarrow> runtime_view" where
  "view_of_runtime plan_calls mutations =
     \<lparr>rt_model_id = ''core-native-deterministic-advisor-v1'', rt_process_provider_calls = plan_calls,
      rt_process_external_network_calls = 0, rt_process_sandbox_mutations = mutations\<rparr>"

definition run_view :: "(local_run_view \<Rightarrow> json) \<Rightarrow> runtime_view \<Rightarrow> run_snapshot \<Rightarrow> exn + local_run_view" where
  "run_view dump rt sn =
     (case sn_run sn of
        None \<Rightarrow> Inl TypeError
      | Some r \<Rightarrow>
          ebind (ensure (\<forall>c \<in> set_option (sn_checkpoint sn). cp_run_id c = run_id r) ValueError) (\<lambda>_.
          ebind (ensure (\<forall>e \<in> set (sn_audit_events sn). ae_run_id e = run_id r) ValueError) (\<lambda>_.
          validated (valid_run_view dump)
            \<lparr>vw_evidence_snapshot_sha256 = sn_snapshot_sha256 sn, vw_run = r,
             vw_checkpoint = map_option view_of_checkpoint (sn_checkpoint sn),
             vw_audit_events = map view_of_event (sn_audit_events sn), vw_runtime = rt,
             vw_run_sandbox_mutations =
               (case sn_checkpoint sn of Some c \<Rightarrow> (if cp_local_execution_receipt c \<noteq> None then 1 else 0) | None \<Rightarrow> 0),
             vw_audit_event_count = sn_audit_event_count sn,
             vw_audit_events_truncated = (length (sn_audit_events sn) < sn_audit_event_count sn)\<rparr>)))"

section \<open>A bound on the size of an execution result\<close>

definition json_bytes :: "json \<Rightarrow> nat" where
  "json_bytes v = length (jtext py_escape v)"

definition execution_result_upper_bound :: "checkpoint option \<Rightarrow> nat" where
  "execution_result_upper_bound c =
     8192
     + (case c of
          None \<Rightarrow> 0
        | Some c \<Rightarrow>
            (case cp_local_approval c of None \<Rightarrow> 0 | Some a \<Rightarrow> json_bytes (approval_json a))
            + (case cp_resource_evidence c of None \<Rightarrow> 0 | Some e \<Rightarrow> 3 * json_bytes (resource_json (ev_resource e))))"

end
