(* ===== verification/NZ_Routes.thy ===== *)
theory NZ_Routes
  imports NZ_Resources
begin

text \<open>
  The paths of the service's transport adapter: the text of a version 7 identifier, which the
  regular expressions of \<^verbatim>\<open>service.py\<close> accept, its value, and the routes of a method and a
  path. The theorem says that routing is exactly the inverse of writing a route.
\<close>

section \<open>Routes\<close>

datatype route =
    RouteReady
  | RouteRead uuid
  | RouteStart
  | RouteApprovalRequest uuid
  | RouteDecision uuid
  | RouteResume uuid

definition uuid_text :: "string \<Rightarrow> bool" where
  "uuid_text s \<longleftrightarrow>
     length s = 36 \<and> s ! 8 = CHR ''-'' \<and> s ! 13 = CHR ''-'' \<and> s ! 18 = CHR ''-'' \<and> s ! 23 = CHR ''-''
     \<and> s ! 14 = CHR ''7'' \<and> s ! 19 \<in> set ''89ab''
     \<and> list_all (\<lambda>i. i \<in> {8, 13, 18, 23} \<or> hex_lower (s ! i)) [0..<36]"

definition uuid_of_text :: "string \<Rightarrow> uuid" where
  "uuid_of_text s = foldl (\<lambda>u c. u * 16 + word_of_nat (unhex c)) 0 (filter (\<lambda>c. c \<noteq> CHR ''-'') s)"

definition RUNS_PREFIX :: string where
  "RUNS_PREFIX = ''/api/runs/''"

definition run_path :: "uuid \<Rightarrow> string" where
  "run_path rid = RUNS_PREFIX @ uuid_str rid"

definition write_route :: "string \<Rightarrow> uuid \<Rightarrow> route option" where
  "write_route action rid =
     (if action = ''/approval-request'' then Some (RouteApprovalRequest rid)
      else if action = ''/decision'' then Some (RouteDecision rid)
      else if action = ''/resume'' then Some (RouteResume rid)
      else None)"

definition route_of :: "string \<Rightarrow> string \<Rightarrow> route option" where
  "route_of http_method path =
     (let rest = drop (length RUNS_PREFIX) path; run_text = take 36 rest; action = drop 36 rest;
          under_runs = (take (length RUNS_PREFIX) path = RUNS_PREFIX \<and> uuid_text run_text)
      in if http_method = ''GET'' then
           (if path = ''/ready'' then Some RouteReady
            else if under_runs \<and> action = [] then Some (RouteRead (uuid_of_text run_text)) else None)
         else if http_method = ''POST'' then
           (if path = ''/api/runs'' then Some RouteStart
            else if under_runs then write_route action (uuid_of_text run_text) else None)
         else None)"

section \<open>The text of an identifier\<close>

text \<open>The hexadecimal digits of a number, most significant first, and the number they stand for.\<close>

definition nibbles :: "nat \<Rightarrow> nat \<Rightarrow> nat list" where
  "nibbles k n = map (\<lambda>i. n div 16 ^ (k - 1 - i) mod 16) [0..<k]"

definition number_of_nibbles :: "nat list \<Rightarrow> nat" where
  "number_of_nibbles ds = foldl (\<lambda>a d. a * 16 + d) 0 ds"

lemma nibbles_Suc: "nibbles (Suc k) n = nibbles k (n div 16) @ [n mod 16]"
proof -
  have "n div 16 ^ (k - i) = n div 16 div 16 ^ (k - Suc i)" if "i < k" for i
  proof -
    from that have "(16::nat) ^ (k - i) = 16 * 16 ^ (k - Suc i)" by (metis Suc_diff_Suc power_Suc)
    then show ?thesis by (simp add: div_mult2_eq)
  qed
  then show ?thesis by (auto simp: nibbles_def)
qed

lemma nibbles_number: "n < 16 ^ k \<Longrightarrow> number_of_nibbles (nibbles k n) = n"
proof (induction k arbitrary: n)
  case 0
  then show ?case by (simp add: nibbles_def number_of_nibbles_def)
next
  case (Suc k)
  then have "n div 16 < 16 ^ k" by (simp add: div_less_iff_less_mult mult.commute)
  from Suc.IH [OF this] show ?case by (simp add: nibbles_Suc number_of_nibbles_def)
qed

lemma number_nibbles:
  "list_all (\<lambda>d. d < 16) ds \<Longrightarrow> number_of_nibbles ds < 16 ^ length ds \<and> nibbles (length ds) (number_of_nibbles ds) = ds"
proof (induction ds rule: rev_induct)
  case Nil
  then show ?case by (simp add: nibbles_def number_of_nibbles_def)
next
  case (snoc d ds)
  then have "number_of_nibbles (ds @ [d]) = number_of_nibbles ds * 16 + d" "d < 16"
    by (simp_all add: number_of_nibbles_def)
  with snoc show ?case by (simp add: nibbles_Suc)
qed

lemma unat_mask_bits: "unat (and (drop_bit k u) (mask n)) = unat u div 2 ^ k mod 2 ^ n" for u :: uuid
  unfolding take_bit_eq_mask [symmetric] unsigned_take_bit_eq unat_drop_bit_eq
  by (simp add: drop_bit_eq_div take_bit_eq_mod)

lemma uuid_nibble_value: "uuid_nibble u i = unat u div 2 ^ (4 * (31 - i)) mod 16"
  using unat_mask_bits [of "4 * (31 - i)" u 4] by (simp add: uuid_nibble_def mask_eq_exp_minus_1)

lemma uuid_nibbles: "map (uuid_nibble u) [0..<32] = nibbles 32 (unat u)"
  by (simp add: nibbles_def uuid_nibble_value power_mult)

lemma uuid_of_text_number:
  "uuid_of_text s = word_of_nat (number_of_nibbles (map unhex (filter (\<lambda>c. c \<noteq> CHR ''-'') s)))"
proof -
  have "foldl (\<lambda>u c. u * 16 + word_of_nat (unhex c)) (word_of_nat a :: uuid) cs
      = word_of_nat (foldl (\<lambda>a d. a * 16 + d) a (map unhex cs))" for a cs
  proof (induction cs arbitrary: a)
    case (Cons c cs)
    have "(word_of_nat a * 16 + word_of_nat (unhex c) :: uuid) = word_of_nat (a * 16 + unhex c)" by simp
    with Cons [of "a * 16 + unhex c"] show ?case by (simp only: foldl_Cons list.map)
  qed simp
  from this [of 0] show ?thesis by (simp add: uuid_of_text_def number_of_nibbles_def)
qed

definition dashed :: "string \<Rightarrow> string" where
  "dashed h = take 8 h @ ''-'' @ take 4 (drop 8 h) @ ''-'' @ take 4 (drop 12 h) @ ''-''
     @ take 4 (drop 16 h) @ ''-'' @ drop 20 h"

lemma uuid_str_dashed: "uuid_str u = dashed (map hex_digit (nibbles 32 (unat u)))"
  by (simp add: uuid_str_def dashed_def uuid_nibbles [symmetric] comp_def Let_def)

lemma hex_not_dash: "hex_lower c \<Longrightarrow> c \<noteq> CHR ''-''"
  by (auto simp: hex_lower_def ascii_digit_def char_between_def)

lemma hex_digit_unhex: "hex_lower c \<Longrightarrow> unhex c < 16 \<and> hex_digit (unhex c) = c"
  by (auto simp: hex_lower_def ascii_digit_def char_between_def unhex_def hex_digit_def)

lemma filter_dashed: "list_all hex_lower h \<Longrightarrow> filter (\<lambda>c. c \<noteq> CHR ''-'') (dashed h) = h"
proof -
  assume "list_all hex_lower h"
  then have f: "filter (\<lambda>c. c \<noteq> CHR ''-'') ys = ys" if "set ys \<subseteq> set h" for ys
    using that by (intro filter_True) (auto simp: list_all_iff dest: hex_not_dash)
  have "take 4 (drop 16 h) @ drop 20 h = drop 16 h" "take 4 (drop 12 h) @ drop 16 h = drop 12 h"
    "take 4 (drop 8 h) @ drop 12 h = drop 8 h"
    using append_take_drop_id [of 4 "drop 16 h"] append_take_drop_id [of 4 "drop 12 h"] append_take_drop_id [of 4 "drop 8 h"]
    by simp_all
  then have "take 8 h @ take 4 (drop 8 h) @ take 4 (drop 12 h) @ take 4 (drop 16 h) @ drop 20 h = h" by simp
  moreover have "set (take n (drop m h)) \<subseteq> set h" "set (drop m h) \<subseteq> set h" "set (take n h) \<subseteq> set h" for n m
    by (meson order_trans set_take_subset set_drop_subset)+
  ultimately show ?thesis by (simp add: dashed_def f)
qed

lemma drop_take_nth: "m + k < length s \<Longrightarrow> drop m s = take k (drop m s) @ s ! (m + k) # drop (m + k + 1) s"
  using id_take_nth_drop [of k "drop m s"] by (simp add: add.commute)

lemma dashed_filter:
  assumes "uuid_text s"
  shows "list_all hex_lower (filter (\<lambda>c. c \<noteq> CHR ''-'') s) \<and> length (filter (\<lambda>c. c \<noteq> CHR ''-'') s) = 32
    \<and> dashed (filter (\<lambda>c. c \<noteq> CHR ''-'') s) = s"
proof -
  define a b c d e where "a = take 8 s" "b = take 4 (drop 9 s)" "c = take 4 (drop 14 s)" "d = take 4 (drop 19 s)"
    "e = drop 24 s"
  note parts = this
  from assms have l: "length s = 36" and dash: "s ! 8 = CHR ''-''" "s ! 13 = CHR ''-''" "s ! 18 = CHR ''-''" "s ! 23 = CHR ''-''"
    and hx: "\<And>i. i < 36 \<Longrightarrow> i \<notin> {8, 13, 18, 23} \<Longrightarrow> hex_lower (s ! i)"
    by (auto simp: uuid_text_def list_all_iff)
  have len: "length a = 8" "length b = 4" "length c = 4" "length d = 4" "length e = 12" using l by (simp_all add: parts)
  have "\<forall>x \<in> set (a @ b @ c @ d @ e). hex_lower x"
    unfolding set_append ball_Un using hx l by (auto simp: parts in_set_conv_nth)
  then have hs: "list_all hex_lower (a @ b @ c @ d @ e)" by (simp only: list_all_iff)
  have "s = a @ ''-'' @ b @ ''-'' @ c @ ''-'' @ d @ ''-'' @ e"
    using drop_take_nth [of 0 8 s] drop_take_nth [of 9 4 s] drop_take_nth [of 14 4 s] drop_take_nth [of 19 4 s] l dash
    by (simp add: parts)
  also have "\<dots> = dashed (a @ b @ c @ d @ e)" using len by (simp add: dashed_def)
  finally have s: "s = dashed (a @ b @ c @ d @ e)" .
  from filter_dashed [OF hs] hs len show ?thesis by (simp add: s)
qed

lemma dashed_nth:
  assumes "length h = 32" "i < 36"
  shows "dashed h ! i = (if i < 8 then h ! i else if i = 8 then CHR ''-'' else if i < 13 then h ! (i - 1)
     else if i = 13 then CHR ''-'' else if i < 18 then h ! (i - 2) else if i = 18 then CHR ''-''
     else if i < 23 then h ! (i - 3) else if i = 23 then CHR ''-'' else h ! (i - 4))"
proof -
  consider "i < 8" | "i = 8" | k where "i = 9 + k" "k < 4" | "i = 13" | k where "i = 14 + k" "k < 4" | "i = 18"
    | k where "i = 19 + k" "k < 4" | "i = 23" | k where "i = 24 + k" "k < 12"
  proof -
    have "i < 8 \<or> i = 8 \<or> (\<exists>k. i = 9 + k \<and> k < 4) \<or> i = 13 \<or> (\<exists>k. i = 14 + k \<and> k < 4) \<or> i = 18
        \<or> (\<exists>k. i = 19 + k \<and> k < 4) \<or> i = 23 \<or> (\<exists>k. i = 24 + k \<and> k < 12)" using assms(2) by presburger
    with that show ?thesis by blast
  qed
  then show ?thesis by cases (use assms in \<open>simp_all add: dashed_def nth_append\<close>)
qed

lemma uuid_text_dashed:
  assumes "length h = 32" "list_all hex_lower h"
  shows "uuid_text (dashed h) \<longleftrightarrow> h ! 12 = CHR ''7'' \<and> h ! 16 \<in> set ''89ab''"
proof -
  have "length (dashed h) = 36" using assms by (simp add: dashed_def)
  moreover have "\<forall>i \<in> set [0..<36]. i \<in> {8, 13, 18, 23} \<or> hex_lower (dashed h ! i)"
  proof
    fix i :: nat assume "i \<in> set [0..<36]"
    with assms show "i \<in> {8, 13, 18, 23} \<or> hex_lower (dashed h ! i)"
      by (simp add: dashed_nth list_all_length)
  qed
  ultimately show ?thesis using assms by (simp add: uuid_text_def dashed_nth list_all_iff)
qed

definition uuid_digits :: "uuid \<Rightarrow> string" where
  "uuid_digits u = map hex_digit (nibbles 32 (unat u))"

lemma uuid_digits_hex: "list_all hex_lower (uuid_digits u)" "length (uuid_digits u) = 32"
  by (auto simp: uuid_digits_def nibbles_def list_all_iff intro!: hex_lower_hex_digit)

lemma nibbles_small: "list_all (\<lambda>d. d < 16) (nibbles k n)"
  by (simp add: nibbles_def list_all_iff)

lemma unhex_digits: "list_all (\<lambda>d. d < 16) ds \<Longrightarrow> map unhex (map hex_digit ds) = ds"
  by (induction ds) (simp_all add: unhex_hex_digit)

lemma uuid_of_uuid_str: "uuid_of_text (uuid_str u) = u"
proof -
  have "filter (\<lambda>c. c \<noteq> CHR ''-'') (uuid_str u) = uuid_digits u"
    unfolding uuid_str_dashed using uuid_digits_hex filter_dashed by (simp add: uuid_digits_def)
  moreover have "map unhex (uuid_digits u) = nibbles 32 (unat u)"
    unfolding uuid_digits_def by (rule unhex_digits [OF nibbles_small])
  moreover have "unat u < 16 ^ 32" using unsigned_less [of u] by (simp add: power_mult [symmetric])
  ultimately show ?thesis by (simp add: uuid_of_text_number nibbles_number)
qed

lemma uuid_str_uuid_of:
  assumes "uuid_text s"
  shows "uuid_str (uuid_of_text s) = s"
proof -
  define h where "h = filter (\<lambda>c. c \<noteq> CHR ''-'') s"
  have h: "list_all hex_lower h" "length h = 32" "dashed h = s" using dashed_filter [OF assms] by (simp_all add: h_def)
  let ?ds = "map unhex h"
  have "list_all (\<lambda>d. d < 16) ?ds" using h(1) hex_digit_unhex by (auto simp: list_all_iff)
  from number_nibbles [OF this] h(2) have n: "number_of_nibbles ?ds < 16 ^ 32" "nibbles 32 (number_of_nibbles ?ds) = ?ds"
    by simp_all
  have "unat (uuid_of_text s) = number_of_nibbles ?ds"
    using n(1) by (simp add: uuid_of_text_number h_def unat_of_nat)
  moreover have "map hex_digit ?ds = h" using h(1) hex_digit_unhex by (auto simp: list_all_iff intro!: map_idI)
  ultimately show ?thesis using n(2) h(3) by (simp add: uuid_str_dashed)
qed

lemma uuid_text_str: "uuid_text (uuid_str u) \<longleftrightarrow> uuid7 u"
proof -
  have dig: "uuid_digits u ! i = hex_digit (uuid_nibble u i)" if "i < 32" for i
    using that by (simp add: uuid_digits_def uuid_nibbles [symmetric])
  have small: "uuid_nibble u i < 16" for i
    unfolding uuid_nibble_value by simp
  have quarter: "n div 4 mod 4 = n mod 16 div 4" for n :: nat using mod_mult2_eq [of n 4 4] by simp
  have seven: "hex_digit n = CHR ''7'' \<longleftrightarrow> n = 7" if "n < 16" for n
    using that unhex_hex_digit [OF that] by (auto simp: hex_digit_def unhex_def ascii_digit_def char_between_def char_of_eq)
  have variant: "hex_digit n \<in> set ''89ab'' \<longleftrightarrow> n \<in> {8, 9, 10, 11}" if "n < 16" for n
    using that unhex_hex_digit [OF that] by (auto simp: hex_digit_def unhex_def ascii_digit_def char_between_def char_of_eq)
  have "uuid_text (uuid_str u) \<longleftrightarrow> uuid_nibble u 12 = 7 \<and> uuid_nibble u 16 \<in> {8, 9, 10, 11}"
    unfolding uuid_str_dashed uuid_digits_def [symmetric] uuid_text_dashed [OF uuid_digits_hex(2,1)]
    using dig [of 12] dig [of 16] seven [OF small, of 12] variant [OF small, of 16] by (simp only:)
  moreover have "uuid_nibble u 12 = 7 \<longleftrightarrow> and (drop_bit 76 u) 15 = 7"
    by (simp add: uuid_nibble_def word_unat_eq_iff)
  moreover have "uuid_nibble u 16 \<in> {8, 9, 10, 11} \<longleftrightarrow> and (drop_bit 62 u) 3 = 2"
  proof -
    have "unat (and (drop_bit 62 u) 3) = unat u div 2 ^ 62 mod 4"
      using unat_mask_bits [of 62 u 2] by (simp add: mask_eq_exp_minus_1)
    also have "unat u div 2 ^ 62 = unat u div 2 ^ 60 div 4" by (simp add: div_mult2_eq [symmetric])
    also have "\<dots> mod 4 = unat u div 2 ^ 60 mod 16 div 4" by (rule quarter)
    finally have "unat (and (drop_bit 62 u) 3) = uuid_nibble u 16 div 4"
      using uuid_nibble_value [of u 16] by simp
    moreover have "and (drop_bit 62 u) 3 = 2 \<longleftrightarrow> unat (and (drop_bit 62 u) 3) = 2"
      by (simp add: word_unat_eq_iff)
    ultimately show ?thesis using small [of 16] by auto
  qed
  ultimately show ?thesis by (simp add: uuid7_def)
qed

section \<open>Routing inverts the writing of a route\<close>

fun route_request :: "route \<Rightarrow> string \<times> string" where
  "route_request RouteReady = (''GET'', ''/ready'')"
| "route_request (RouteRead rid) = (''GET'', run_path rid)"
| "route_request RouteStart = (''POST'', ''/api/runs'')"
| "route_request (RouteApprovalRequest rid) = (''POST'', run_path rid @ ''/approval-request'')"
| "route_request (RouteDecision rid) = (''POST'', run_path rid @ ''/decision'')"
| "route_request (RouteResume rid) = (''POST'', run_path rid @ ''/resume'')"

fun route_ok :: "route \<Rightarrow> bool" where
  "route_ok RouteReady = True"
| "route_ok RouteStart = True"
| "route_ok (RouteRead rid) = uuid7 rid"
| "route_ok (RouteApprovalRequest rid) = uuid7 rid"
| "route_ok (RouteDecision rid) = uuid7 rid"
| "route_ok (RouteResume rid) = uuid7 rid"

lemma uuid_str_length: "length (uuid_str u) = 36"
  using uuid_digits_hex(2) [of u] by (simp add: uuid_str_dashed dashed_def uuid_digits_def [symmetric])

lemma under_runs_path:
  "take (length RUNS_PREFIX) path = RUNS_PREFIX \<and> uuid_text (take 36 (drop (length RUNS_PREFIX) path)) \<longleftrightarrow>
     (\<exists>rid action. uuid7 rid \<and> path = run_path rid @ action)"
proof
  assume l: "take (length RUNS_PREFIX) path = RUNS_PREFIX \<and> uuid_text (take 36 (drop (length RUNS_PREFIX) path))"
  let ?t = "take 36 (drop (length RUNS_PREFIX) path)"
  have "path = RUNS_PREFIX @ ?t @ drop 36 (drop (length RUNS_PREFIX) path)"
    unfolding append_take_drop_id using l append_take_drop_id [of "length RUNS_PREFIX" path] by metis
  moreover have "uuid_str (uuid_of_text ?t) = ?t" using l uuid_str_uuid_of by blast
  moreover from this l have "uuid7 (uuid_of_text ?t)" using uuid_text_str by metis
  ultimately show "\<exists>rid action. uuid7 rid \<and> path = run_path rid @ action"
    unfolding run_path_def by (metis append_assoc)
next
  assume "\<exists>rid action. uuid7 rid \<and> path = run_path rid @ action"
  then show "take (length RUNS_PREFIX) path = RUNS_PREFIX \<and> uuid_text (take 36 (drop (length RUNS_PREFIX) path))"
    by (auto simp: run_path_def uuid_str_length uuid_text_str)
qed

lemma run_path_parts:
  "take (length RUNS_PREFIX) (run_path rid @ action) = RUNS_PREFIX"
  "take 36 (drop (length RUNS_PREFIX) (run_path rid @ action)) = uuid_str rid"
  "drop 36 (drop (length RUNS_PREFIX) (run_path rid @ action)) = action"
  by (simp_all add: run_path_def uuid_str_length)

lemma run_path_other: "run_path rid @ action \<noteq> ''/ready''" "run_path rid @ action \<noteq> ''/api/runs''"
  using uuid_str_length [of rid] by (auto simp: run_path_def RUNS_PREFIX_def)

lemma route_of_run:
  "route_of m (run_path rid @ action) =
     (if m = ''GET'' then (if uuid7 rid \<and> action = [] then Some (RouteRead rid) else None)
      else if m = ''POST'' then (if uuid7 rid then write_route action rid else None) else None)"
  unfolding route_of_def Let_def run_path_parts uuid_of_uuid_str uuid_text_str by (simp add: run_path_other)

lemma route_of_elsewhere:
  assumes "\<nexists>rid action. uuid7 rid \<and> path = run_path rid @ action"
  shows "route_of m path = (if m = ''GET'' \<and> path = ''/ready'' then Some RouteReady
           else if m = ''POST'' \<and> path = ''/api/runs'' then Some RouteStart else None)"
proof -
  have "\<not> (take (length RUNS_PREFIX) path = RUNS_PREFIX \<and> uuid_text (take 36 (drop (length RUNS_PREFIX) path)))"
    using assms under_runs_path by blast
  then show ?thesis unfolding route_of_def Let_def by auto
qed

lemma route_of_iff: "route_of m path = Some rt \<longleftrightarrow> route_ok rt \<and> route_request rt = (m, path)"
proof (cases "\<exists>rid action. uuid7 rid \<and> path = run_path rid @ action")
  case True
  then obtain rid action where p: "uuid7 rid" "path = run_path rid @ action" by blast
  have same: "run_path r @ a = run_path rid @ action \<longleftrightarrow> r = rid \<and> a = action" for r a
    using run_path_parts [of r a] run_path_parts [of rid action] uuid_of_uuid_str by metis
  have read: "run_path r = run_path rid @ action \<longleftrightarrow> r = rid \<and> [] = action" for r using same [of r "[]"] by simp
  show ?thesis
    using p(1) run_path_other [of rid action]
    by (cases rt) (auto simp: p(2) route_of_run write_route_def same read split: if_splits)
next
  case False
  then have n: "uuid7 rid \<Longrightarrow> path \<noteq> run_path rid @ action" for rid action by blast
  have "uuid7 rid \<Longrightarrow> run_path rid \<noteq> path" for rid using n [of rid "[]"] by auto
  moreover have "uuid7 rid \<Longrightarrow> run_path rid @ action \<noteq> path" for rid action using n by blast
  ultimately show ?thesis unfolding route_of_elsewhere [OF False] by (cases rt) auto
qed

lemma routing_unique: "route_of m path = Some rt \<Longrightarrow> route_ok rt \<and> route_request rt = (m, path)"
  by (simp add: route_of_iff)

text \<open>Routing is exactly the inverse of writing a route: a method and a path are routed to a route precisely
  when they are the method and the path of that route and its run identifier has version 7. No other spelling of
  an identifier or of an action reaches an operation.\<close>

theorem routing_inverts_paths: "route_of m path = Some rt \<longleftrightarrow> route_ok rt \<and> route_request rt = (m, path)"
  by (rule route_of_iff)

end
