(* ===== verification/NZ_Service.thy ===== *)
theory NZ_Service
  imports NZ_Views NZ_Routes
begin

text \<open>
  The service boundary, \<^verbatim>\<open>contract.py\<close> and \<^verbatim>\<open>service.py\<close>: configuration, availability, the
  guarded performance of an operation, the operations themselves, and the transport adapter that
  maps a method and a path to them. The state of the service is the world of the workflows, the
  link to the ledger and whether it was closed. The environment gives the configuration, the
  kill switch, the identity file, the faults of the ledger and the identifiers at each use, and
  the contracts' JSON forms of results.
\<close>

section \<open>Configuration\<close>

record module_config =
  cfg_enabled :: bool
  cfg_backend :: string
  cfg_aws_enabled :: bool
  cfg_request_ttl_seconds :: int
  cfg_max_runs :: int
  cfg_max_output_bytes :: int
  cfg_max_trace_bytes :: int

definition config_invalid :: nz_error where
  "config_invalid = NonZeroError ''NONZERO_CONFIG_INVALID'' 400"

definition CONFIG_DEFAULTS :: "(string \<times> json) list" where
  "CONFIG_DEFAULTS =
     [(''enabled'', JBool True), (''backend'', JStr ''portable''), (''aws_enabled'', JBool False),
      (''expected_source_sha'', JStr JUDGE_SHA), (''request_ttl_seconds'', JInt 600), (''max_runs'', JInt 64),
      (''max_output_bytes'', JInt 524288), (''max_trace_bytes'', JInt (32 * 1024 * 1024))]"

fun bounded_int :: "int \<Rightarrow> int \<Rightarrow> json \<Rightarrow> int option" where
  "bounded_int lower upper (JInt n) = (if lower \<le> n \<and> n \<le> upper then Some n else None)"
| "bounded_int lower upper _ = None"

text \<open>\<^verbatim>\<open>ModuleConfig.__post_init__\<close> on the values of its fields; a field value is a JSON value, so that
  \<^verbatim>\<open>type(x) is int\<close> is an integer that is not a boolean.\<close>

definition post_init :: "(string \<Rightarrow> json) \<Rightarrow> nz_error + module_config" where
  "post_init field =
     (case (field ''enabled'', field ''aws_enabled'') of
        (JBool enabled, JBool aws_enabled) \<Rightarrow>
          (case field ''backend'' of
             JStr backend \<Rightarrow>
               ebind (ensure (backend \<in> {''portable'', ''aws''}) config_invalid) (\<lambda>_.
               ebind (ensure (field ''expected_source_sha'' = JStr JUDGE_SHA)
                        (NonZeroError ''NONZERO_SOURCE_IDENTITY_MISMATCH'' 409)) (\<lambda>_.
               (case (bounded_int 60 3600 (field ''request_ttl_seconds''), bounded_int 1 128 (field ''max_runs''),
                      bounded_int 16384 1048576 (field ''max_output_bytes''),
                      bounded_int 1048576 (64 * 1024 * 1024) (field ''max_trace_bytes'')) of
                  (Some ttl, Some runs, Some out, Some tr) \<Rightarrow>
                    ebind (ensure (\<not> (backend = ''portable'' \<and> aws_enabled)) config_invalid) (\<lambda>_.
                    Inr \<lparr>cfg_enabled = enabled, cfg_backend = backend, cfg_aws_enabled = aws_enabled,
                         cfg_request_ttl_seconds = ttl, cfg_max_runs = runs, cfg_max_output_bytes = out,
                         cfg_max_trace_bytes = tr\<rparr>)
                | _ \<Rightarrow> Inl config_invalid)))
           | _ \<Rightarrow> Inl config_invalid)
      | _ \<Rightarrow> Inl config_invalid)"

datatype config_source =
    NoConfig
  | InvalidStartupConfig nz_error
  | ConfigObject module_config
  | ConfigDict "(string \<times> json) list"
  | ConfigOther

definition config_field :: "(string \<times> json) list \<Rightarrow> string \<Rightarrow> json" where
  "config_field given k = (case map_of (given @ CONFIG_DEFAULTS) k of None \<Rightarrow> JNull | Some v \<Rightarrow> v)"

definition config_fields :: "module_config \<Rightarrow> (string \<times> json) list" where
  "config_fields c =
     [(''enabled'', JBool (cfg_enabled c)), (''backend'', JStr (cfg_backend c)), (''aws_enabled'', JBool (cfg_aws_enabled c)),
      (''request_ttl_seconds'', JInt (cfg_request_ttl_seconds c)), (''max_runs'', JInt (cfg_max_runs c)),
      (''max_output_bytes'', JInt (cfg_max_output_bytes c)), (''max_trace_bytes'', JInt (cfg_max_trace_bytes c))]"

fun parse_config :: "config_source \<Rightarrow> nz_error + module_config" where
  "parse_config (InvalidStartupConfig e) = Inl e"
| "parse_config NoConfig = post_init (config_field [])"
| "parse_config (ConfigObject c) = ebind (post_init (config_field (config_fields c))) (\<lambda>_. Inr c)"
| "parse_config (ConfigDict kvs) =
     ebind (ensure (set (map fst kvs) \<subseteq> set (map fst CONFIG_DEFAULTS)) config_invalid) (\<lambda>_. post_init (config_field kvs))"
| "parse_config ConfigOther = Inl config_invalid"

definition snapshot_config :: "config_source \<Rightarrow> config_source" where
  "snapshot_config c = (case parse_config c of Inl e \<Rightarrow> InvalidStartupConfig e | Inr m \<Rightarrow> ConfigObject m)"

definition DEPENDENCIES :: "(string \<times> string) list" where
  "DEPENDENCIES = [(''pydantic'', ''2.13.4''), (''uuid6'', ''2025.0.1'')]"

definition config_code :: "config_source \<Rightarrow> string \<times> string" where
  "config_code c =
     (case parse_config c of
        Inl e \<Rightarrow> (nz_code e, ''portable'')
      | Inr m \<Rightarrow>
          (if \<not> cfg_enabled m then ''NONZERO_DISABLED''
           else if cfg_backend m = ''aws'' then
             (if cfg_aws_enabled m then ''NONZERO_AWS_BACKEND_NOT_CERTIFIED''
              else ''NONZERO_AWS_EXPLICIT_ENABLEMENT_REQUIRED'')
           else ''AVAILABLE'', cfg_backend m))"

record descriptor =
  md_available :: bool
  md_availability_code :: string
  md_missing_requirements :: "string list"
  md_mode :: string

text \<open>\<^verbatim>\<open>module_descriptor\<close>, its varying fields; whether Python is new enough and the installed versions are
  arguments.\<close>

definition module_descriptor :: "bool \<Rightarrow> (string \<Rightarrow> string option) \<Rightarrow> config_source \<Rightarrow> descriptor" where
  "module_descriptor python_ok installed c =
     (let (code0, backend) = config_code c;
          code1 = (if \<not> python_ok \<and> code0 = ''AVAILABLE'' then ''NONZERO_UNAVAILABLE_REQUIRES_PYTHON_3_11'' else code0);
          missing = (if python_ok then [] else [''python>=3.11''])
            @ map (\<lambda>d. fst d @ ''=='' @ snd d) (filter (\<lambda>d. installed (fst d) \<noteq> Some (snd d)) DEPENDENCIES);
          code2 = (if missing \<noteq> [] \<and> code1 = ''AVAILABLE'' then ''NONZERO_OPTIONAL_DEPENDENCIES_UNAVAILABLE'' else code1)
      in \<lparr>md_available = (code2 = ''AVAILABLE''), md_availability_code = code2, md_missing_requirements = missing,
          md_mode = backend\<rparr>)"

text \<open>Admission of a service: configuration, availability and the operator's identity.\<close>

definition service_admission ::
  "bool \<Rightarrow> (string \<Rightarrow> string option) \<Rightarrow> config_source \<Rightarrow> string \<Rightarrow> nz_error + module_config" where
  "service_admission python_ok installed c operator_id =
     ebind (parse_config c) (\<lambda>m.
     let d = module_descriptor python_ok installed (ConfigObject m)
     in ebind (ensure (md_available d) (NonZeroError (md_availability_code d) 503)) (\<lambda>_.
        ebind (ensure (short_identifier operator_id) config_invalid) (\<lambda>_. Inr m)))"

section \<open>The guarded performance of an operation\<close>

record service_env =
  se_planning :: planning_environment
  se_config :: module_config
  se_actor :: string
  se_run_id :: "nat \<Rightarrow> uuid"
  se_trace_id :: "nat \<Rightarrow> uuid"
  se_correlation_id :: "nat \<Rightarrow> uuid"
  se_kill_switch :: "nat \<Rightarrow> bool"
  se_identity_matches :: "nat \<Rightarrow> bool"
  se_link_fault :: "nat \<Rightarrow> link_fault"
  se_operation_id :: "nat \<Rightarrow> string"
  se_py_str :: "json \<Rightarrow> string"
  se_file_digest :: "snapshot_payload \<Rightarrow> string"
  se_dump_investigation :: "investigation_result \<Rightarrow> json"
  se_dump_view :: "local_run_view \<Rightarrow> json"
  se_dump_challenge :: "approval_challenge control_result \<Rightarrow> json"
  se_dump_resolution :: "approval_resolution control_result \<Rightarrow> json"
  se_dump_completion :: "execution_completion control_result \<Rightarrow> json"
  se_dump_ready :: "runtime_view \<Rightarrow> json"
  se_read_decision :: "(string \<times> json) list \<Rightarrow> decision_request option"

record service =
  sv_world :: world
  sv_link :: evidence_link
  sv_closed :: bool
  sv_uses :: nat

datatype call_error = Typed nz_error | Untyped exn

type_synonym 'a call = "world \<Rightarrow> (call_error + 'a) \<times> world"

definition untyped :: "'a comp \<Rightarrow> 'a call" where
  "untyped m w = (case m w of (Inl e, w') \<Rightarrow> (Inl (Untyped e), w') | (Inr x, w') \<Rightarrow> (Inr x, w'))"

definition unavailable :: nz_error where
  "unavailable = NonZeroError ''NONZERO_STATE_OR_OPERATION_UNAVAILABLE'' 503"

text \<open>No raw storage or provider exception crosses the boundary.\<close>

fun boundary_error :: "call_error \<Rightarrow> nz_error" where
  "boundary_error (Typed e) = e"
| "boundary_error (Untyped _) = unavailable"

definition evidence_append ::
  "service_env \<Rightarrow> string \<Rightarrow> (string \<times> json) list \<Rightarrow> service \<Rightarrow> (nz_error + unit) \<times> service" where
  "evidence_append env kind payload sv =
     (let now = utc (en_clock (pe_env (se_planning env)) (w_ticks (sv_world sv)));
          (l, r) = link_append (se_py_str env) (se_link_fault env (sv_uses sv)) now kind payload (sv_link sv)
      in (r, sv\<lparr>sv_link := l, sv_uses := sv_uses sv + 1,
                sv_world := (sv_world sv)\<lparr>w_ticks := w_ticks (sv_world sv) + 1\<rparr>\<rparr>))"

definition operation_entry :: "string \<Rightarrow> string \<Rightarrow> string \<Rightarrow> (string \<times> json) list" where
  "operation_entry operation_id operation path =
     [(''operation_id'', JStr operation_id), (''operation'', JStr operation), (''path'', JStr path)]"

text \<open>Before the call: admission, the kill switch, the identity, the reserve of the ledger and the preflight.\<close>

definition admitted ::
  "service_env \<Rightarrow> bool \<Rightarrow> bool \<Rightarrow> unit call option \<Rightarrow> service \<Rightarrow> (nz_error + unit) \<times> service" where
  "admitted env operator write preflight sv =
     (if \<not> operator then (Inl (NonZeroError ''NONZERO_OPERATOR_REQUIRED'' 403), sv)
      else if sv_closed sv then (Inl (NonZeroError ''NONZERO_SERVICE_CLOSED'' 503), sv)
      else if write \<and> se_kill_switch env (sv_uses sv) then (Inl (NonZeroError ''EPISTEMIC_KILL_SWITCH'' 403), sv)
      else if \<not> se_identity_matches env (sv_uses sv) then
        (Inl (NonZeroError ''NONZERO_SOURCE_IDENTITY_MISMATCH'' 409), sv)
      else
        (case link_check (se_link_fault env (sv_uses sv))
                (if write then 2 * nat (cfg_max_output_bytes (se_config env)) else 0) (sv_link sv) of
           Inl e \<Rightarrow> (Inl e, sv\<lparr>sv_uses := sv_uses sv + 1\<rparr>)
         | Inr _ \<Rightarrow>
             (let sv1 = sv\<lparr>sv_uses := sv_uses sv + 1\<rparr>
              in case preflight of
                   None \<Rightarrow> (Inr (), sv1)
                 | Some check \<Rightarrow>
                     (case check (sv_world sv1) of
                        (Inl e, w) \<Rightarrow> (Inl (boundary_error e), sv1\<lparr>sv_world := w\<rparr>)
                      | (Inr _, w) \<Rightarrow> (Inr (), sv1\<lparr>sv_world := w\<rparr>)))))"

definition intent_logged ::
  "service_env \<Rightarrow> string \<Rightarrow> string \<Rightarrow> string \<Rightarrow> bool \<Rightarrow> service \<Rightarrow> (nz_error + unit) \<times> service" where
  "intent_logged env operation_id operation path write sv =
     (if write then evidence_append env ''nonzero_operator_request'' (operation_entry operation_id operation path) sv
      else (Inr (), sv))"

definition result_logged ::
  "service_env \<Rightarrow> string \<Rightarrow> string \<Rightarrow> string \<Rightarrow> bool \<Rightarrow> json \<Rightarrow> service \<Rightarrow> (nz_error + unit) \<times> service" where
  "result_logged env operation_id operation path write rendered sv =
     (if int (json_bytes rendered) > cfg_max_output_bytes (se_config env) then
        (Inl (NonZeroError ''NONZERO_OUTPUT_LIMIT_EXCEEDED'' 409), sv)
      else if write then
        evidence_append env ''nonzero_operator_result''
          (operation_entry operation_id operation path @ [(''evidence'', public_evidence rendered)]) sv
      else (Inr (), sv))"

definition perform ::
  "service_env \<Rightarrow> string \<Rightarrow> string \<Rightarrow> 'a call \<Rightarrow> ('a \<Rightarrow> json) \<Rightarrow> bool \<Rightarrow> bool \<Rightarrow> unit call option \<Rightarrow> service
   \<Rightarrow> (nz_error + 'a) \<times> service" where
  "perform env operation path call render operator write preflight sv =
     (case admitted env operator write preflight sv of
        (Inl e, sv1) \<Rightarrow> (Inl e, sv1)
      | (Inr _, sv1) \<Rightarrow>
          (let operation_id = se_operation_id env (sv_uses sv1)
           in case intent_logged env operation_id operation path write sv1 of
                (Inl e, sv2) \<Rightarrow> (Inl e, sv2)
              | (Inr _, sv2) \<Rightarrow>
                  (case call (sv_world sv2) of
                     (Inl e, w) \<Rightarrow> (Inl (boundary_error e), sv2\<lparr>sv_world := w\<rparr>)
                   | (Inr result, w) \<Rightarrow>
                       (case result_logged env operation_id operation path write (render result) (sv2\<lparr>sv_world := w\<rparr>) of
                          (Inl e, sv3) \<Rightarrow> (Inl e, sv3)
                        | (Inr _, sv3) \<Rightarrow> (Inr result, sv3)))))"

section \<open>Operations\<close>

definition workflow_env :: "service_env \<Rightarrow> environment" where
  "workflow_env env = pe_env (se_planning env)"

definition START_BUDGET :: budget_counters where
  "START_BUDGET = \<lparr>max_turns = 8, max_tokens = 2048, max_elapsed_seconds = 60, turns_used = 0, tokens_used = 0,
     elapsed_milliseconds_used = 0\<rparr>"

definition new_run :: "service_env \<Rightarrow> run comp" where
  "new_run env w =
     (let rid = se_run_id env (w_ids w); tid = se_trace_id env (w_ids w); cid = se_correlation_id env (w_ids w)
      in bindc (clock (workflow_env env)) (\<lambda>now. lift (Run_new rid tid cid (''core/nonzero/'' @ uuid_str rid) now START_BUDGET))
           (w\<lparr>w_ids := w_ids w + 1\<rparr>))"

definition investigate_call :: "service_env \<Rightarrow> resource_query \<Rightarrow> investigation_result call" where
  "investigate_call env q w =
     (case store_read (workflow_env env) repo_run_count w of
        (Inl e, w1) \<Rightarrow> (Inl (Untyped e), w1)
      | (Inr n, w1) \<Rightarrow>
          if cfg_max_runs (se_config env) \<le> int n then (Inl (Typed (NonZeroError ''NONZERO_RUN_LIMIT_EXCEEDED'' 409)), w1)
          else untyped (bindc (new_run env) (\<lambda>r. investigate (se_planning env) r q)) w1)"

definition service_start :: "service_env \<Rightarrow> resource_query \<Rightarrow> bool \<Rightarrow> service \<Rightarrow> (nz_error + investigation_result) \<times> service" where
  "service_start env q operator sv =
     perform env ''investigate'' ''/api/runs'' (investigate_call env q) (se_dump_investigation env) operator True None sv"

definition view_call :: "service_env \<Rightarrow> uuid \<Rightarrow> local_run_view call" where
  "view_call env rid w =
     (case store_read (workflow_env env) (\<lambda>io. repo_read_run_snapshot (se_file_digest env) io rid 128) w of
        (Inl e, w1) \<Rightarrow> (Inl (Untyped e), w1)
      | (Inr sn, w1) \<Rightarrow>
          if sn_run sn = None then (Inl (Typed (NonZeroError ''NONZERO_RUN_NOT_FOUND'' 404)), w1)
          else (case run_view (se_dump_view env) (view_of_runtime (w_plan_calls w1) (nat (px_mutation_calls (w_executor w1)))) sn of
                  Inl e \<Rightarrow> (Inl (Untyped e), w1) | Inr v \<Rightarrow> (Inr v, w1)))"

definition invalid_run_id :: nz_error where
  "invalid_run_id = NonZeroError ''NONZERO_INVALID_RUN_ID'' 400"

definition service_inspect :: "service_env \<Rightarrow> uuid \<Rightarrow> bool \<Rightarrow> service \<Rightarrow> (nz_error + local_run_view) \<times> service" where
  "service_inspect env rid operator sv =
     (if \<not> uuid7 rid then (Inl invalid_run_id, sv)
      else perform env ''inspect'' (run_path rid) (view_call env rid) (se_dump_view env) operator False None sv)"

definition service_request_approval ::
  "service_env \<Rightarrow> uuid \<Rightarrow> bool \<Rightarrow> service \<Rightarrow> (nz_error + approval_challenge control_result) \<times> service" where
  "service_request_approval env rid operator sv =
     (if \<not> uuid7 rid then (Inl invalid_run_id, sv)
      else perform env ''request-approval'' (run_path rid @ ''/approval-request'')
             (untyped (request_approval (workflow_env env) rid (se_actor env))) (se_dump_challenge env) operator True None sv)"

definition service_decide ::
  "service_env \<Rightarrow> decision_request \<Rightarrow> bool \<Rightarrow> service \<Rightarrow> (nz_error + approval_resolution control_result) \<times> service" where
  "service_decide env d operator sv =
     perform env ''record-decision'' (run_path (dr_run_id d) @ ''/decision'')
       (untyped (decide (workflow_env env) d (se_actor env))) (se_dump_resolution env) operator True None sv"

definition check_execution_output :: "service_env \<Rightarrow> uuid \<Rightarrow> unit call" where
  "check_execution_output env rid w =
     (case store_read (workflow_env env) (\<lambda>io. repo_get_checkpoint io rid) w of
        (Inl e, w1) \<Rightarrow> (Inl (Untyped e), w1)
      | (Inr c, w1) \<Rightarrow>
          if cfg_max_output_bytes (se_config env) < int (execution_result_upper_bound c)
          then (Inl (Typed (NonZeroError ''NONZERO_EXECUTION_OUTPUT_BUDGET_INSUFFICIENT'' 409)), w1)
          else (Inr (), w1))"

definition service_resume ::
  "service_env \<Rightarrow> uuid \<Rightarrow> bool \<Rightarrow> bool \<Rightarrow> service \<Rightarrow> (nz_error + execution_completion control_result) \<times> service" where
  "service_resume env rid confirm_execution operator sv =
     (if \<not> uuid7 rid then (Inl invalid_run_id, sv)
      else if \<not> confirm_execution then (Inl (NonZeroError ''NONZERO_EXECUTION_CONFIRMATION_REQUIRED'' 400), sv)
      else perform env ''execute-approved-portable'' (run_path rid @ ''/resume'')
             (untyped (resume (workflow_env env) rid (se_actor env))) (se_dump_completion env) operator True
             (Some (check_execution_output env rid)) sv)"

definition ready_call :: "service_env \<Rightarrow> runtime_view call" where
  "ready_call env w =
     (case store_read (workflow_env env) (\<lambda>io. repo_read io (\<lambda>_. Inr ())) w of
        (Inl e, w1) \<Rightarrow> (Inl (Untyped e), w1)
      | (Inr _, w1) \<Rightarrow>
          (case portable_read (en_executor_io (workflow_env env) (w_executor_uses w1)) (en_initial_resources (workflow_env env))
                  (\<lambda>_. Inr ()) (px_file (w_executor w1)) of
             Inl e \<Rightarrow> (Inl (Untyped e), w1\<lparr>w_executor_uses := w_executor_uses w1 + 1\<rparr>)
           | Inr _ \<Rightarrow> (Inr (view_of_runtime (w_plan_calls w1) (nat (px_mutation_calls (w_executor w1)))),
                       w1\<lparr>w_executor_uses := w_executor_uses w1 + 1\<rparr>)))"

definition service_ready :: "service_env \<Rightarrow> bool \<Rightarrow> service \<Rightarrow> (nz_error + runtime_view) \<times> service" where
  "service_ready env operator sv =
     perform env ''ready'' ''/ready'' (ready_call env) (se_dump_ready env) operator False None sv"

definition service_trace ::
  "service_env \<Rightarrow> bool \<Rightarrow> service \<Rightarrow> (nz_error + json list \<times> provenance_verification) \<times> service" where
  "service_trace env operator sv =
     (if \<not> operator then (Inl (NonZeroError ''NONZERO_OPERATOR_REQUIRED'' 403), sv)
      else if sv_closed sv then (Inl (NonZeroError ''NONZERO_SERVICE_CLOSED'' 503), sv)
      else if \<not> se_identity_matches env (sv_uses sv) then
        (Inl (NonZeroError ''NONZERO_SOURCE_IDENTITY_MISMATCH'' 409), sv)
      else (link_check (se_link_fault env (sv_uses sv)) 0 (sv_link sv), sv\<lparr>sv_uses := sv_uses sv + 1\<rparr>))"

definition service_status :: "bool \<Rightarrow> (string \<Rightarrow> string option) \<Rightarrow> service_env \<Rightarrow> service \<Rightarrow> descriptor \<times> bool" where
  "service_status python_ok installed env sv =
     (let d = module_descriptor python_ok installed (ConfigObject (se_config env))
      in (if sv_closed sv then d\<lparr>md_available := False, md_availability_code := ''NONZERO_SERVICE_CLOSED''\<rparr> else d,
          sv_closed sv))"

definition service_close :: "service \<Rightarrow> service" where
  "service_close sv = sv\<lparr>sv_closed := True\<rparr>"

section \<open>The transport adapter\<close>

definition read_start :: "(string \<times> json) list \<Rightarrow> resource_query option" where
  "read_start kvs =
     (if set (map fst kvs) \<subseteq> {''resource_type'', ''resource_id''} then
        (case (map_of kvs ''resource_type'', map_of kvs ''resource_id'') of
           (Some (JStr ty), Some (JStr rid)) \<Rightarrow>
             (case find (\<lambda>t. cloud_resource_type_value t = ty) [CRT_EC2_INSTANCE, CRT_ELASTIC_IP, CRT_SECURITY_GROUP] of
                None \<Rightarrow> None
              | Some t \<Rightarrow>
                  (let q = \<lparr>rq_resource_type = t, rq_resource_id = rid, rq_region = ''eu-central-1''\<rparr>
                   in if valid_resource_query q then Some q else None))
         | _ \<Rightarrow> None)
      else None)"

definition read_resume :: "(string \<times> json) list \<Rightarrow> bool" where
  "read_resume kvs \<longleftrightarrow> set (map fst kvs) = {''confirm_execution''} \<and> map_of kvs ''confirm_execution'' = Some (JBool True)"

fun failure_status :: "failure_kind \<Rightarrow> int" where
  "failure_status FK_NOT_FOUND = 404"
| "failure_status FK_VALIDATION_FAILURE = 400"
| "failure_status FK_POLICY_DENIAL = 403"
| "failure_status FK_IDEMPOTENCY_CONFLICT = 409"
| "failure_status FK_RECOVERY_REQUIREMENT = 409"
| "failure_status FK_ILLEGAL_STATE_TRANSITION = 409"
| "failure_status FK_DEPENDENCY_UNAVAILABLE = 503"
| "failure_status FK_STORAGE_FAILURE = 503"
| "failure_status FK_PROVIDER_FAILURE = 503"
| "failure_status FK_TOOL_ADAPTER_FAILURE = 503"
| "failure_status _ = 422"

record challenge_view =
  hv_run_id :: uuid
  hv_request :: approval_request_view
  hv_proposal :: remediation_proposal
  hv_evidence :: resource_evidence
  hv_decision_nonce :: string

record completion_view =
  xv_run_id :: uuid
  xv_proposal_id :: uuid
  xv_decision :: approval_decision
  xv_final_state :: workflow_state
  xv_approval :: approval_decision_view
  xv_receipt :: "local_receipt option"
  xv_verification :: "local_verification option"
  xv_reconciled :: bool

definition view_of_challenge :: "approval_challenge \<Rightarrow> challenge_view" where
  "view_of_challenge c =
     \<lparr>hv_run_id = lq_run_id (ch_request c), hv_request = view_of_request (ch_request c), hv_proposal = ch_proposal c,
      hv_evidence = ch_evidence c, hv_decision_nonce = ch_decision_nonce c\<rparr>"

definition view_of_completion :: "execution_completion \<Rightarrow> completion_view" where
  "view_of_completion c =
     \<lparr>xv_run_id = ec_run_id c, xv_proposal_id = ec_proposal_id c, xv_decision = ec_decision c,
      xv_final_state = ec_final_state c, xv_approval = view_of_approval (ec_approval c), xv_receipt = ec_receipt c,
      xv_verification = ec_verification c, xv_reconciled = ec_reconciled c\<rparr>"

datatype response_body =
    ReadyBody runtime_view
  | RunBody local_run_view
  | InvestigationBody investigation_completion
  | ChallengeBody challenge_view
  | ResolutionBody approval_resolution
  | CompletionBody completion_view
  | FailureBody failure_detail
  | ErrorBody string

type_synonym response = "int \<times> response_body"

definition invalid_request :: nz_error where
  "invalid_request = NonZeroError ''NONZERO_INVALID_REQUEST'' 400"

definition respond :: "int \<Rightarrow> ('a \<Rightarrow> response_body) \<Rightarrow> 'a control_result \<Rightarrow> response" where
  "respond ok body result = (case result of Succeeded x \<Rightarrow> (ok, body x) | Failed f \<Rightarrow> (failure_status (f_kind f), FailureBody f))"

fun on_result :: "('a \<Rightarrow> response) \<Rightarrow> (nz_error + 'a) \<times> service \<Rightarrow> (nz_error + response) \<times> service" where
  "on_result f (Inl e, sv) = (Inl e, sv)"
| "on_result f (Inr x, sv) = (Inr (f x), sv)"

definition dispatch :: "service_env \<Rightarrow> route \<Rightarrow> (string \<times> json) list \<Rightarrow> bool \<Rightarrow> service \<Rightarrow> (nz_error + response) \<times> service" where
  "dispatch env rt payload operator sv =
     (case rt of
        RouteReady \<Rightarrow> on_result (\<lambda>v. (200, ReadyBody v)) (service_ready env operator sv)
      | RouteRead rid \<Rightarrow> on_result (\<lambda>v. (200, RunBody v)) (service_inspect env rid operator sv)
      | RouteStart \<Rightarrow>
          (case read_start payload of
             None \<Rightarrow> (Inl invalid_request, sv)
           | Some q \<Rightarrow> on_result (respond 201 InvestigationBody) (service_start env q operator sv))
      | RouteApprovalRequest rid \<Rightarrow>
          if payload \<noteq> [] then (Inl invalid_request, sv)
          else on_result (respond 200 (\<lambda>c. ChallengeBody (view_of_challenge c))) (service_request_approval env rid operator sv)
      | RouteDecision rid \<Rightarrow>
          (case se_read_decision env payload of
             None \<Rightarrow> (Inl invalid_request, sv)
           | Some d \<Rightarrow>
               if dr_run_id d \<noteq> rid then (Inl invalid_request, sv)
               else on_result (respond 200 ResolutionBody) (service_decide env d operator sv))
      | RouteResume rid \<Rightarrow>
          if \<not> read_resume payload then (Inl invalid_request, sv)
          else on_result (respond 200 (\<lambda>c. CompletionBody (view_of_completion c))) (service_resume env rid True operator sv))"

definition service_request ::
  "service_env \<Rightarrow> string \<Rightarrow> string \<Rightarrow> json option \<Rightarrow> bool \<Rightarrow> service \<Rightarrow> (nz_error + response) \<times> service" where
  "service_request env http_method path payload operator sv =
     (if \<not> operator then (Inl (NonZeroError ''NONZERO_OPERATOR_REQUIRED'' 403), sv)
      else case route_of http_method path of
        None \<Rightarrow> (Inl (NonZeroError ''NONZERO_ROUTE_NOT_ALLOWED'' 404), sv)
      | Some rt \<Rightarrow>
          if (http_method = ''GET'' \<and> payload \<noteq> None)
             \<or> (http_method = ''POST'' \<and> \<not> (\<exists>v \<in> set_option payload. is_dict v)) then (Inl invalid_request, sv)
          else if 16384 < json_bytes (case payload of None \<Rightarrow> JNull | Some v \<Rightarrow> v) then
            (Inl (NonZeroError ''NONZERO_REQUEST_TOO_LARGE'' 413), sv)
          else
            (case dispatch env rt (case payload of Some (JObj kvs) \<Rightarrow> kvs | _ \<Rightarrow> []) operator sv of
               (Inl e, sv1) \<Rightarrow> if nz_status e \<noteq> 400 then (Inl e, sv1) else (Inr (400, ErrorBody (nz_code e)), sv1)
             | (Inr r, sv1) \<Rightarrow> (Inr r, sv1)))"

end
