(* ===== verification/NZ_Service_Safety.thy ===== *)
theory NZ_Service_Safety
  imports NZ_Service
begin

text \<open>
  What the service boundary guarantees. The first part lifts relations between worlds to
  relations between services, once for all operations (locales \<^verbatim>\<open>service_relation\<close>,
  \<^verbatim>\<open>admitted_relation\<close> and \<^verbatim>\<open>operation_relation\<close>); the second follows the single path on which an
  operation can reach the protected executor, and shows that the ledger holds its intent first.
\<close>

section \<open>Relations kept by operations\<close>

definition keeps_call :: "(world \<Rightarrow> world \<Rightarrow> bool) \<Rightarrow> 'a call \<Rightarrow> bool" where
  "keeps_call R m \<longleftrightarrow> (\<forall>w x w'. m w = (x, w') \<longrightarrow> R w w')"

definition keeps_service :: "(service \<Rightarrow> service \<Rightarrow> bool) \<Rightarrow> (service \<Rightarrow> 'r \<times> service) \<Rightarrow> bool" where
  "keeps_service S m \<longleftrightarrow> (\<forall>sv x sv'. m sv = (x, sv') \<longrightarrow> S sv sv')"

lemma keeps_callD: "keeps_call R m \<Longrightarrow> m w = (x, w') \<Longrightarrow> R w w'"
  by (simp add: keeps_call_def)

lemma keeps_serviceD: "keeps_service S m \<Longrightarrow> m sv = (x, sv') \<Longrightarrow> S sv sv'"
  by (simp add: keeps_service_def)

lemma keeps_serviceI: "(\<And>sv x sv'. m sv = (x, sv') \<Longrightarrow> S sv sv') \<Longrightarrow> keeps_service S m"
  by (simp add: keeps_service_def)

lemma keeps_untyped: "keeps R m \<Longrightarrow> keeps_call R (untyped m)"
  by (auto simp: keeps_call_def untyped_def dest: keepsD split: prod.splits sum.splits)

definition used :: "service \<Rightarrow> service" where
  "used sv = sv\<lparr>sv_uses := sv_uses sv + 1\<rparr>"

lemma admitted_cases:
  assumes "admitted env operator write preflight sv = (x, sv')"
  obtains (refused) e where "x = Inl e" "sv' = sv"
    | (unlinked) e where "x = Inl e" "sv' = used sv"
    | (plain) "x = Inr ()" "sv' = used sv" "preflight = None"
    | (checked) check y w where "preflight = Some check" "check (sv_world sv) = (y, w)" "sv' = (used sv)\<lparr>sv_world := w\<rparr>"
        "x = (case y of Inl e \<Rightarrow> Inl (boundary_error e) | Inr _ \<Rightarrow> Inr ())"
proof -
  let ?link = "link_check (se_link_fault env (sv_uses sv)) (if write then 2 * nat (cfg_max_output_bytes (se_config env)) else 0) (sv_link sv)"
  have u: "sv\<lparr>sv_uses := sv_uses sv + 1\<rparr> = used sv" "sv_world (used sv) = sv_world sv" by (simp_all only: used_def service.select_convs service.update_convs service.surjective) (cases sv, simp)
  note ad = assms [unfolded admitted_def Let_def u]
  show ?thesis
  proof (cases "\<not> operator \<or> sv_closed sv \<or> (write \<and> se_kill_switch env (sv_uses sv)) \<or> \<not> se_identity_matches env (sv_uses sv)")
    case True
    then have "\<exists>e. x = Inl e \<and> sv' = sv" using ad by (auto split: if_splits)
    with refused show ?thesis by blast
  next
    case False
    then have ok: "(\<not> operator) = False" "sv_closed sv = False" "(write \<and> se_kill_switch env (sv_uses sv)) = False"
      "(\<not> se_identity_matches env (sv_uses sv)) = False" by blast+
    note ad = ad [unfolded ok if_False]
    show ?thesis
    proof (cases ?link)
      case (Inl e)
      with ad have "x = Inl e" "sv' = used sv" by simp_all
      then show ?thesis by (rule unlinked)
    next
      case (Inr v)
      show ?thesis
      proof (cases preflight)
        case None
        with Inr ad have "x = Inr ()" "sv' = used sv" by simp_all
        then show ?thesis using None by (rule plain)
      next
        case (Some check)
        obtain y w where y: "check (sv_world sv) = (y, w)" by fastforce
        with Inr Some ad have "sv' = (used sv)\<lparr>sv_world := w\<rparr>"
          "x = (case y of Inl e \<Rightarrow> Inl (boundary_error e) | Inr _ \<Rightarrow> Inr ())" by (cases y; simp)+
        with Some y show ?thesis by (rule checked)
      qed
    qed
  qed
qed

lemma perform_cases:
  assumes "perform env operation path call render operator write preflight sv = (r, sv')"
  obtains (refused) e where "admitted env operator write preflight sv = (Inl e, sv')" "r = Inl e"
    | (unlogged) e sv1 where "admitted env operator write preflight sv = (Inr (), sv1)"
        "intent_logged env (se_operation_id env (sv_uses sv1)) operation path write sv1 = (Inl e, sv')" "r = Inl e"
    | (failed) e sv1 sv2 w where "admitted env operator write preflight sv = (Inr (), sv1)"
        "intent_logged env (se_operation_id env (sv_uses sv1)) operation path write sv1 = (Inr (), sv2)"
        "call (sv_world sv2) = (Inl e, w)" "sv' = sv2\<lparr>sv_world := w\<rparr>" "r = Inl (boundary_error e)"
    | (returned) v z sv1 sv2 w where "admitted env operator write preflight sv = (Inr (), sv1)"
        "intent_logged env (se_operation_id env (sv_uses sv1)) operation path write sv1 = (Inr (), sv2)"
        "call (sv_world sv2) = (Inr v, w)"
        "result_logged env (se_operation_id env (sv_uses sv1)) operation path write (render v) (sv2\<lparr>sv_world := w\<rparr>) = (z, sv')"
        "r = (case z of Inl e \<Rightarrow> Inl e | Inr _ \<Rightarrow> Inr v)"
proof -
  obtain a sv1 where a: "admitted env operator write preflight sv = (a, sv1)" by fastforce
  let ?oid = "se_operation_id env (sv_uses sv1)"
  obtain i sv2 where i: "intent_logged env ?oid operation path write sv1 = (i, sv2)" by fastforce
  obtain y w where y: "call (sv_world sv2) = (y, w)" by fastforce
  note pf = assms [unfolded perform_def a Let_def prod.case]
  show ?thesis
  proof (cases a)
    case (Inl e)
    with pf a show ?thesis by (intro refused [of e]) auto
  next
    case a_ok: (Inr u)
    show ?thesis
    proof (cases i)
      case (Inl e)
      with pf a a_ok i show ?thesis by (intro unlogged [of sv1 e]) auto
    next
      case i_ok: (Inr u)
      show ?thesis
      proof (cases y)
        case (Inl e)
        with pf a a_ok i i_ok y show ?thesis by (intro failed [of sv1 sv2 e w]) auto
      next
        case (Inr v)
        obtain z sv3 where z: "result_logged env ?oid operation path write (render v) (sv2\<lparr>sv_world := w\<rparr>) = (z, sv3)" by fastforce
        with pf a a_ok i i_ok y Inr show ?thesis by (intro returned [of sv1 sv2 v w z]) (auto split: sum.splits)
      qed
    qed
  qed
qed

locale service_relation =
  fixes S :: "service \<Rightarrow> service \<Rightarrow> bool" and R :: "world \<Rightarrow> world \<Rightarrow> bool"
  assumes same: "S sv sv"
    and seq: "S sv sv1 \<Longrightarrow> S sv1 sv2 \<Longrightarrow> S sv sv2"
    and use_step: "S sv (sv\<lparr>sv_uses := n\<rparr>)"
    and close_step: "S sv (sv\<lparr>sv_closed := True\<rparr>)"
    and append_step: "evidence_append env kind payload sv = (r, sv') \<Longrightarrow> S sv sv'"
    and world_step: "R (sv_world sv) w \<Longrightarrow> S sv (sv\<lparr>sv_world := w\<rparr>)"
begin

lemma keeps_admitted:
  assumes p: "\<And>check. preflight = Some check \<Longrightarrow> keeps_call R check"
  shows "keeps_service S (admitted env operator write preflight)"
proof (rule keeps_serviceI)
  fix sv x sv' assume ad: "admitted env operator write preflight sv = (x, sv')"
  show "S sv sv'"
  using ad
  proof (cases rule: admitted_cases)
    case (checked check y w)
    have "S (used sv) sv'" using world_step [of "used sv" w] keeps_callD [OF p [OF checked(1)] checked(2)] checked(3)
      by (simp add: used_def)
    with use_step show ?thesis unfolding used_def by (rule seq)
  qed (auto simp: used_def intro: same use_step)
qed

lemma keeps_intent: "keeps_service S (intent_logged env oid operation path write)"
  by (auto intro!: keeps_serviceI simp: intent_logged_def intro: same append_step split: if_splits)

lemma keeps_result: "keeps_service S (result_logged env oid operation path write rendered)"
  by (auto intro!: keeps_serviceI simp: result_logged_def intro: same append_step split: if_splits)

lemma keeps_perform:
  assumes c: "keeps_call R call" and p: "\<And>check. preflight = Some check \<Longrightarrow> keeps_call R check"
  shows "keeps_service S (perform env operation path call render operator write preflight)"
proof (rule keeps_serviceI)
  fix sv x sv' assume "perform env operation path call render operator write preflight sv = (x, sv')"
  then show "S sv sv'"
  proof (cases rule: perform_cases)
    case (refused e)
    show ?thesis by (rule keeps_serviceD [OF keeps_admitted [OF p] refused(1)])
  next
    case (unlogged e sv1)
    show ?thesis by (rule seq [OF keeps_serviceD [OF keeps_admitted [OF p] unlogged(1)] keeps_serviceD [OF keeps_intent unlogged(2)]])
  next
    case (failed e sv1 sv2 w)
    have "S sv sv2" by (rule seq [OF keeps_serviceD [OF keeps_admitted [OF p] failed(1)] keeps_serviceD [OF keeps_intent failed(2)]])
    from seq [OF this world_step [OF keeps_callD [OF c failed(3)]]] show ?thesis by (simp add: failed(4))
  next
    case (returned v z sv1 sv2 w)
    have "S sv sv2" by (rule seq [OF keeps_serviceD [OF keeps_admitted [OF p] returned(1)] keeps_serviceD [OF keeps_intent returned(2)]])
    from seq [OF seq [OF this world_step [OF keeps_callD [OF c returned(3)]]] keeps_serviceD [OF keeps_result returned(4)]] show ?thesis .
  qed
qed

end

text \<open>Everything but the execution of an approved proposal.\<close>

locale admitted_relation = service_relation S R + planning_relation R
  for S :: "service \<Rightarrow> service \<Rightarrow> bool" and R :: "world \<Rightarrow> world \<Rightarrow> bool"
begin

lemma keeps_new_run: "keeps R (new_run env)" "gives valid_run (new_run env)"
proof -
  have k: "keeps R (bindc (clock (workflow_env env)) (\<lambda>now. lift (Run_new rid tid cid key now START_BUDGET)))" for rid tid cid key
    by (intro keeps_bindc keeps_clock keeps_lift)
  show "keeps R (new_run env)"
    unfolding keeps_def new_run_def Let_def by (auto intro: trans ids_step dest: keepsD [OF k])
  show "gives valid_run (new_run env)"
    by (auto simp: gives_def new_run_def Let_def bindc_eq_Inr Run_new_def result_simps)
qed

lemma keeps_investigate_call: "keeps_call R (investigate_call env q)"
  unfolding keeps_call_def
proof (intro allI impI)
  fix w x w' assume iv: "investigate_call env q w = (x, w')"
  obtain n w1 where n: "store_read (workflow_env env) repo_run_count w = (n, w1)" by fastforce
  have 1: "R w w1" by (rule keepsD [OF keeps_store_read n])
  have k: "keeps R (bindc (new_run env) (\<lambda>r. investigate (se_planning env) r q))"
    by (rule keeps_bindc_gives [OF keeps_new_run]) (rule keeps_investigate)
  from iv n 1 show "R w w'"
    by (auto simp: investigate_call_def split: sum.splits if_splits intro: trans [OF 1] keeps_callD [OF keeps_untyped [OF k]])
qed

lemma keeps_reads: "keeps_call R (view_call env rid)" "keeps_call R (check_execution_output env rid)" "keeps_call R (ready_call env)"
proof -
  have 1: "R w w1" if "store_read e op w = (n, w1)" for e w n w1 and op :: "io \<Rightarrow> store \<Rightarrow> exn + 'z"
    by (rule keepsD [OF keeps_store_read that])
  show "keeps_call R (view_call env rid)" "keeps_call R (check_execution_output env rid)" "keeps_call R (ready_call env)"
    unfolding keeps_call_def view_call_def check_execution_output_def ready_call_def
    by (auto split: prod.splits sum.splits if_splits dest!: 1 intro: trans executor_uses_step)
qed

lemmas keeps_calls = keeps_investigate_call keeps_reads keeps_untyped keeps_request_approval keeps_decide

lemma keeps_refusal: "(\<And>sv. m sv = (if b then (x, sv) else k sv)) \<Longrightarrow> keeps_service S k \<Longrightarrow> keeps_service S m"
  by (auto simp: keeps_service_def same)

lemma keeps_admitted_operations:
  "keeps_service S (service_start env q operator)"
  "keeps_service S (service_inspect env rid operator)"
  "keeps_service S (service_request_approval env rid operator)"
  "keeps_service S (service_decide env d operator)"
  "keeps_service S (service_ready env operator)"
  "keeps_service S (service_trace env operator)"
proof -
  show "keeps_service S (service_start env q operator)"
    unfolding service_start_def by (rule keeps_perform) (auto intro: keeps_calls)
  show "keeps_service S (service_ready env operator)"
    unfolding service_ready_def by (rule keeps_perform) (auto intro: keeps_calls)
  show "keeps_service S (service_decide env d operator)"
    unfolding service_decide_def by (rule keeps_perform) (auto intro: keeps_calls)
  show "keeps_service S (service_inspect env rid operator)"
    by (rule keeps_refusal [OF service_inspect_def keeps_perform]) (auto intro: keeps_calls)
  show "keeps_service S (service_request_approval env rid operator)"
    by (rule keeps_refusal [OF service_request_approval_def keeps_perform]) (auto intro: keeps_calls)
  show "keeps_service S (service_trace env operator)"
    by (auto intro!: keeps_serviceI simp: service_trace_def intro: same use_step split: if_splits)
qed

end

text \<open>And the execution: every operation, when the relation is also kept by the executor's own step.\<close>

locale operation_relation = admitted_relation S R + effect_relation R "workflow_env env"
  for S :: "service \<Rightarrow> service \<Rightarrow> bool" and R :: "world \<Rightarrow> world \<Rightarrow> bool" and env :: service_env
begin

lemma keeps_service_resume: "keeps_service S (service_resume env rid confirm operator)"
proof -
  have "keeps_service S (\<lambda>sv. if \<not> confirm then (Inl (NonZeroError ''NONZERO_EXECUTION_CONFIRMATION_REQUIRED'' 400), sv)
      else perform env ''execute-approved-portable'' (run_path rid @ ''/resume'')
             (untyped (resume (workflow_env env) rid (se_actor env))) (se_dump_completion env) operator True
             (Some (check_execution_output env rid)) sv)"
    by (rule keeps_refusal [OF HOL.refl keeps_perform]) (auto intro: keeps_calls keeps_resume)
  then show ?thesis by (rule keeps_refusal [OF service_resume_def])
qed

end

section \<open>Requests and sequences of calls\<close>

datatype service_call =
    CallStart resource_query bool
  | CallInspect uuid bool
  | CallRequestApproval uuid bool
  | CallDecide decision_request bool
  | CallResume uuid bool bool
  | CallReady bool
  | CallTrace bool
  | CallRequest string string "json option" bool
  | CallClose

fun service_step :: "service_env \<Rightarrow> service \<Rightarrow> service_call \<Rightarrow> service" where
  "service_step env sv (CallStart q operator) = snd (service_start env q operator sv)"
| "service_step env sv (CallInspect rid operator) = snd (service_inspect env rid operator sv)"
| "service_step env sv (CallRequestApproval rid operator) = snd (service_request_approval env rid operator sv)"
| "service_step env sv (CallDecide d operator) = snd (service_decide env d operator sv)"
| "service_step env sv (CallResume rid confirm operator) = snd (service_resume env rid confirm operator sv)"
| "service_step env sv (CallReady operator) = snd (service_ready env operator sv)"
| "service_step env sv (CallTrace operator) = snd (service_trace env operator sv)"
| "service_step env sv (CallRequest m path payload operator) = snd (service_request env m path payload operator sv)"
| "service_step env sv CallClose = service_close sv"

lemma on_result_service: "snd (on_result f r) = snd r"
  by (cases "(f, r)" rule: on_result.cases) auto

text \<open>A request is refused, or it is one of the operations.\<close>

lemma dispatch_cases:
  assumes "dispatch env rt payload operator sv = (x, sv')"
  obtains "sv' = sv"
    | "rt = RouteReady" "sv' = snd (service_ready env operator sv)"
    | rid where "rt = RouteRead rid" "sv' = snd (service_inspect env rid operator sv)"
    | q where "rt = RouteStart" "sv' = snd (service_start env q operator sv)"
    | rid where "rt = RouteApprovalRequest rid" "sv' = snd (service_request_approval env rid operator sv)"
    | rid d where "rt = RouteDecision rid" "sv' = snd (service_decide env d operator sv)"
    | rid where "rt = RouteResume rid" "read_resume payload" "sv' = snd (service_resume env rid True operator sv)"
proof -
  have "snd (dispatch env rt payload operator sv) = sv'" using assms by simp
  then show ?thesis
    by (cases rt) (auto simp: dispatch_def on_result_service split: option.splits if_splits intro: that)
qed

lemma request_cases:
  assumes "service_request env m path payload operator sv = (x, sv')"
  obtains "sv' = sv"
    | rt kvs y where "operator" "route_of m path = Some rt" "kvs = (case payload of Some (JObj kvs) \<Rightarrow> kvs | _ \<Rightarrow> [])"
        "dispatch env rt kvs operator sv = (y, sv')"
proof -
  have "sv' = sv \<or> (operator \<and> (\<exists>rt y. route_of m path = Some rt
          \<and> dispatch env rt (case payload of Some (JObj kvs) \<Rightarrow> kvs | _ \<Rightarrow> []) operator sv = (y, sv')))"
    using assms unfolding service_request_def by (auto split: option.splits if_splits prod.splits sum.splits)
  with that show ?thesis by blast
qed

context admitted_relation
begin

lemmas keeps_admitted_steps = keeps_admitted_operations [THEN keeps_serviceD, OF prod.collapse [symmetric]]

lemma dispatch_admitted:
  assumes "dispatch env rt payload operator sv = (x, sv')"
  shows "S sv sv' \<or> (\<exists>rid. rt = RouteResume rid \<and> read_resume payload \<and> sv' = snd (service_resume env rid True operator sv))"
  using assms by (cases rule: dispatch_cases) (simp_all add: same keeps_admitted_steps)

end

context operation_relation
begin

lemma service_step_keeps: "S sv (service_step env sv call)"
proof (cases call)
  case (CallRequest m path payload operator)
  obtain x sv' where r: "service_request env m path payload operator sv = (x, sv')" by fastforce
  have "S sv sv'" using r
  proof (cases rule: request_cases)
    case (2 rt kvs y)
    show ?thesis using dispatch_admitted [OF 2(4)] keeps_serviceD [OF keeps_service_resume prod.collapse [symmetric]] by blast
  qed (simp add: same)
  with CallRequest r show ?thesis by simp
next
  case (CallResume rid confirm operator)
  then show ?thesis using keeps_serviceD [OF keeps_service_resume prod.collapse [symmetric]] by simp
qed (simp_all add: keeps_admitted_steps service_close_def close_step)

lemma service_steps_keep: "S sv (foldl (service_step env) sv calls)"
  by (induction calls arbitrary: sv) (auto intro: same seq service_step_keeps)

end

section \<open>The relations of the service\<close>

lemma evidence_append_world:
  "evidence_append env kind payload sv = (r, sv') \<Longrightarrow>
     sv_world sv' = (sv_world sv)\<lparr>w_ticks := w_ticks (sv_world sv) + 1\<rparr> \<and> sv_closed sv' = sv_closed sv"
  by (auto simp: evidence_append_def Let_def split: prod.splits)

interpretation quiet_service: admitted_relation "\<lambda>sv sv'. same_executor (sv_world sv) (sv_world sv')" same_executor
  by unfold_locales (auto simp: same_executor_def dest: evidence_append_world)

lemma store_ext_world: "store_ext w w" "store_ext w (w\<lparr>w_ticks := n\<rparr>)"
  by (auto simp: store_ext_def)

interpretation durable_service: operation_relation "\<lambda>sv sv'. store_ext (sv_world sv) (sv_world sv')" store_ext env for env
  by unfold_locales (auto simp: store_ext_world dest!: evidence_append_world intro: durable_world.trans)

lemma executor_kept_quiet: "same_executor w w' \<Longrightarrow> executor_kept e w w'"
  by (simp add: same_executor_def executor_kept_def)

interpretation executor_planning: planning_relation "executor_kept e" for e
proof unfold_locales
  show "keeps (executor_kept e) (store_write env (\<lambda>io. repo_create_run io r))" for env r
    unfolding keeps_def by (auto dest!: keepsD [OF same_executor_store_write] intro: executor_kept_quiet)
qed (auto simp: keeps_def intro: executor_kept_quiet keepsD [OF same_executor_store_write])

interpretation executor_service:
  operation_relation "\<lambda>sv sv'. executor_kept (workflow_env env) (sv_world sv) (sv_world sv')" "executor_kept (workflow_env env)" env
  for env
  by unfold_locales (auto simp: executor_kept_def dest: evidence_append_world)

definition ledger_kept :: "service \<Rightarrow> service \<Rightarrow> bool" where
  "ledger_kept sv sv' \<longleftrightarrow>
     (\<forall>es. link_ok (sv_link sv) es \<longrightarrow>
        (\<exists>ls. el_log (sv_link sv') = el_log (sv_link sv) @ ls)
        \<and> ((\<exists>fs. link_ok (sv_link sv') (es @ fs)) \<or> link_dead (sv_link sv')))
     \<and> (link_dead (sv_link sv) \<longrightarrow> sv_link sv' = sv_link sv)"

lemma evidence_append_link:
  assumes "evidence_append env kind payload sv = (r, sv')"
  shows "\<exists>now. link_append (se_py_str env) (se_link_fault env (sv_uses sv)) now kind payload (sv_link sv) = (sv_link sv', r)"
  using assms by (auto simp: evidence_append_def Let_def split: prod.splits)

lemma ledger_append:
  assumes "evidence_append env kind payload sv = (r, sv')"
  shows "ledger_kept sv sv'"
proof -
  from evidence_append_link [OF assms] obtain now where
    ap: "link_append (se_py_str env) (se_link_fault env (sv_uses sv)) now kind payload (sv_link sv) = (sv_link sv', r)" by blast
  have "(\<exists>ls. el_log (sv_link sv') = el_log (sv_link sv) @ ls)
      \<and> ((\<exists>fs. link_ok (sv_link sv') (es @ fs)) \<or> link_dead (sv_link sv'))" if ok: "link_ok (sv_link sv) es" for es
    using ok ap
  proof (cases rule: link_append_cases)
    case (unchanged e)
    then show ?thesis using ok by (auto intro: exI [where x = "[]"])
  qed auto
  moreover have "sv_link sv' = sv_link sv" if "link_dead (sv_link sv)"
    using link_append_dead [OF that] ap by (metis prod.inject)
  ultimately show ?thesis unfolding ledger_kept_def by blast
qed

lemma ledger_same: "sv_link sv' = sv_link sv \<Longrightarrow> ledger_kept sv sv'"
  unfolding ledger_kept_def by (metis append_Nil2)

lemma ledger_seq:
  assumes "ledger_kept sv sv1" "ledger_kept sv1 sv2"
  shows "ledger_kept sv sv2"
proof -
  have "(\<exists>ls. el_log (sv_link sv2) = el_log (sv_link sv) @ ls)
      \<and> ((\<exists>fs. link_ok (sv_link sv2) (es @ fs)) \<or> link_dead (sv_link sv2))" if ok: "link_ok (sv_link sv) es" for es
  proof -
    from assms(1) ok obtain ls where ls: "el_log (sv_link sv1) = el_log (sv_link sv) @ ls"
      and st: "(\<exists>fs. link_ok (sv_link sv1) (es @ fs)) \<or> link_dead (sv_link sv1)" unfolding ledger_kept_def by blast
    from st show ?thesis
    proof
      assume "\<exists>fs. link_ok (sv_link sv1) (es @ fs)"
      then obtain fs where "link_ok (sv_link sv1) (es @ fs)" ..
      with assms(2) ls show ?thesis unfolding ledger_kept_def by (metis append_assoc)
    next
      assume "link_dead (sv_link sv1)"
      with assms(2) ls show ?thesis unfolding ledger_kept_def by metis
    qed
  qed
  moreover have "sv_link sv2 = sv_link sv" if "link_dead (sv_link sv)"
    using assms that unfolding ledger_kept_def by metis
  ultimately show ?thesis unfolding ledger_kept_def by blast
qed

interpretation any_planning: planning_relation "\<lambda>_ _. True"
  by unfold_locales (simp_all add: keeps_def)

interpretation ledger_service: operation_relation ledger_kept "\<lambda>_ _. True" env for env
  by unfold_locales (auto simp: keeps_def intro: ledger_same ledger_append ledger_seq)

text \<open>Property C24. Over any sequence of calls of the service, whatever is asked, by whomever and wherever the store, the
  executor's file or the ledger fails: the repository stays readable and only grows, the protected inventory
  stays well-formed with a receipt for every effect, and the ledger only grows; it verifies with its head, or no
  operation is accepted any more.\<close>

theorem service_calls_keep_truth:
  assumes "store_image (w_store (sv_world sv)) s" "px_ok (en_initial_resources (workflow_env env)) (w_executor (sv_world sv))"
    "link_ok (sv_link sv) es" "foldl (service_step env) sv calls = sv'"
  shows "(\<exists>t. store_image (w_store (sv_world sv')) t \<and> extends s t)
    \<and> px_ok (en_initial_resources (workflow_env env)) (w_executor (sv_world sv'))
    \<and> (\<exists>ls. el_log (sv_link sv') = el_log (sv_link sv) @ ls)
    \<and> ((\<exists>fs. link_ok (sv_link sv') (es @ fs)) \<or> link_dead (sv_link sv'))"
  using assms durable_service.service_steps_keep [of sv env calls] executor_service.service_steps_keep [of env sv calls]
    ledger_service.service_steps_keep [of sv env calls]
  unfolding store_ext_def executor_kept_def ledger_kept_def by blast

section \<open>The way to the protected executor\<close>

text \<open>An entry of the ledger about an operation on a path.\<close>

definition logged :: "json \<Rightarrow> string \<Rightarrow> string \<Rightarrow> string \<Rightarrow> string \<Rightarrow> bool" where
  "logged entry kind operation_id operation path \<longleftrightarrow>
     jget entry ''event_type'' = JStr kind
     \<and> jget (jget entry ''payload'') ''operation_id'' = JStr operation_id
     \<and> jget (jget entry ''payload'') ''operation'' = JStr operation
     \<and> jget (jget entry ''payload'') ''path'' = JStr path"

lemma link_append_success:
  assumes ok: "link_ok l es" and ap: "link_append py_str fault now kind payload l = (l', Inr u)"
  shows "\<exists>t. link_ok l' (es @ [provenance_record (isoformat now) (py_strip kind) t (link_payload payload)])
    \<and> el_log l' = el_log l @ [Line (provenance_record (isoformat now) (py_strip kind) t (link_payload payload))]"
  using ok ap by (cases rule: link_append_cases) auto

lemma operation_entry_logged:
  "logged (provenance_record ts (py_strip kind) t (link_payload (operation_entry oid operation path @ extra)))
     (py_strip kind) oid operation path"
  by (simp add: logged_def record_fields link_payload_def operation_entry_def PRIVATE_FIELDS_def dict_merge_def
      source_identity_def update_conv')

lemma kinds_stripped: "py_strip ''nonzero_operator_request'' = ''nonzero_operator_request''"
  "py_strip ''nonzero_operator_result'' = ''nonzero_operator_result''"
  by (rule no_space_stripped; simp add: py_space_def)+

lemma append_logged:
  assumes "link_ok (sv_link sv) es" "evidence_append env kind (operation_entry oid operation path @ extra) sv = (Inr u, sv')"
    "py_strip kind = kind"
  obtains ts t entry where
    "entry = provenance_record ts kind t (link_payload (operation_entry oid operation path @ extra))"
    "link_ok (sv_link sv') (es @ [entry])" "el_log (sv_link sv') = el_log (sv_link sv) @ [Line entry]"
    "logged entry kind oid operation path" "json_keys (jget entry ''payload'') \<inter> PRIVATE_FIELDS = {}"
proof -
  from evidence_append_link [OF assms(2)] obtain now where
    "link_append (se_py_str env) (se_link_fault env (sv_uses sv)) now kind (operation_entry oid operation path @ extra) (sv_link sv)
      = (sv_link sv', Inr u)" by blast
  from link_append_success [OF assms(1) this] obtain t where
    "link_ok (sv_link sv') (es @ [provenance_record (isoformat now) kind t (link_payload (operation_entry oid operation path @ extra))])"
    "el_log (sv_link sv') = el_log (sv_link sv)
       @ [Line (provenance_record (isoformat now) kind t (link_payload (operation_entry oid operation path @ extra)))]"
    unfolding assms(3) by blast
  with that [OF HOL.refl this] operation_entry_logged [of _ kind _ oid operation path extra] assms(3)
  show ?thesis by (simp add: record_fields link_payload_keys)
qed

lemma result_entry:
  assumes "link_ok (sv_link sv) es"
    "evidence_append env ''nonzero_operator_result'' (operation_entry oid operation path @ [(''evidence'', public_evidence e)]) sv = (Inr u, sv')"
  shows "\<exists>entry. link_ok (sv_link sv') (es @ [entry]) \<and> el_log (sv_link sv') = el_log (sv_link sv) @ [Line entry]
      \<and> logged entry ''nonzero_operator_result'' oid operation path
      \<and> jget (jget entry ''payload'') ''evidence'' = public_evidence e \<and> json_keys (jget entry ''payload'') \<inter> PRIVATE_FIELDS = {}"
proof (rule append_logged [OF assms kinds_stripped(2)])
  fix ts t entry
  assume en: "entry = provenance_record ts ''nonzero_operator_result'' t
       (link_payload (operation_entry oid operation path @ [(''evidence'', public_evidence e)]))"
    and st: "link_ok (sv_link sv') (es @ [entry])" "el_log (sv_link sv') = el_log (sv_link sv) @ [Line entry]"
      "logged entry ''nonzero_operator_result'' oid operation path" "json_keys (jget entry ''payload'') \<inter> PRIVATE_FIELDS = {}"
  have "jget (jget entry ''payload'') ''evidence'' = public_evidence (public_evidence e)"
    by (simp add: en record_fields link_payload_def operation_entry_def PRIVATE_FIELDS_def dict_merge_def
        source_identity_def update_conv')
  then show ?thesis using st by (auto simp: public_evidence_idem)
qed

lemma admitted_refuses:
  assumes "\<not> operator \<or> sv_closed sv \<or> (write \<and> se_kill_switch env (sv_uses sv)) \<or> \<not> se_identity_matches env (sv_uses sv)
      \<or> link_dead (sv_link sv)"
  shows "\<exists>e sv'. admitted env operator write preflight sv = (Inl e, sv') \<and> sv_world sv' = sv_world sv \<and> sv_link sv' = sv_link sv"
proof (cases "\<not> operator \<or> sv_closed sv \<or> (write \<and> se_kill_switch env (sv_uses sv)) \<or> \<not> se_identity_matches env (sv_uses sv)")
  case True
  then show ?thesis by (auto simp: admitted_def)
next
  case False
  with assms have "link_dead (sv_link sv)" by blast
  then obtain e where "link_check (se_link_fault env (sv_uses sv))
      (if write then 2 * nat (cfg_max_output_bytes (se_config env)) else 0) (sv_link sv) = Inl e"
    unfolding link_dead_def by blast
  with False show ?thesis by (auto simp: admitted_def)
qed

lemma admitted_link:
  assumes "admitted env operator write preflight sv = (r, sv')"
  shows "sv_link sv' = sv_link sv"
  using assms by (cases rule: admitted_cases) (auto simp: used_def)

lemma admitted_accepts:
  assumes "admitted env operator write preflight sv = (Inr u, sv')"
  shows "operator" "\<not> sv_closed sv" "write \<Longrightarrow> \<not> se_kill_switch env (sv_uses sv)" "se_identity_matches env (sv_uses sv)"
  using admitted_refuses [of operator sv "write" env preflight] assms by auto

lemma intent_is_logged:
  assumes "link_ok (sv_link sv) es" "intent_logged env oid operation path True sv = (Inr (), sv')"
  shows "\<exists>entry. link_ok (sv_link sv') (es @ [entry]) \<and> el_log (sv_link sv') = el_log (sv_link sv) @ [Line entry]
           \<and> logged entry ''nonzero_operator_request'' oid operation path"
proof -
  have "evidence_append env ''nonzero_operator_request'' (operation_entry oid operation path @ []) sv = (Inr (), sv')"
    using assms(2) by (simp add: intent_logged_def)
  from append_logged [OF assms(1) this kinds_stripped(1)] show ?thesis by blast
qed

text \<open>A call without the operator's admission, on a closed service, with another source identity, with a
  ledger that does not check, or a write under the kill switch returns an error and changes neither the world
  (repository, inventory, clock) nor the ledger.\<close>

theorem refused_call_changes_nothing:
  assumes "\<not> operator \<or> sv_closed sv \<or> (write \<and> se_kill_switch env (sv_uses sv)) \<or> \<not> se_identity_matches env (sv_uses sv)
      \<or> link_dead (sv_link sv)"
    "perform env operation path call render operator write preflight sv = (r, sv')"
  shows "(\<exists>e. r = Inl e) \<and> sv_world sv' = sv_world sv \<and> sv_link sv' = sv_link sv"
proof -
  from admitted_refuses [OF assms(1)] obtain e sv1 where
    "admitted env operator write preflight sv = (Inl e, sv1)" "sv_world sv1 = sv_world sv" "sv_link sv1 = sv_link sv" by blast
  with assms(2) show ?thesis by (auto simp: perform_def)
qed


lemma result_log:
  assumes "result_logged env oid operation path write rendered sv = (r, sv')"
  shows "\<exists>rest. el_log (sv_link sv') = el_log (sv_link sv) @ rest"
  using assms by (auto simp: result_logged_def dest!: evidence_append_link intro: link_append_log split: if_splits)

lemma resume_called:
  assumes ok: "link_ok (sv_link sv) es" "store_inv (w_store (sv_world sv))"
    and rs: "service_resume env rid confirm operator sv = (r, sv')"
    and ch: "w_executor (sv_world sv') \<noteq> w_executor (sv_world sv)"
  shows "confirm \<and> operator \<and> \<not> sv_closed sv \<and> \<not> se_kill_switch env (sv_uses sv) \<and> se_identity_matches env (sv_uses sv)
    \<and> (\<exists>oid intent rest. el_log (sv_link sv') = el_log (sv_link sv) @ Line intent # rest
         \<and> logged intent ''nonzero_operator_request'' oid ''execute-approved-portable'' (run_path rid @ ''/resume''))
    \<and> (\<exists>w w1. w_executor w = w_executor (sv_world sv) \<and> w_executor w1 = w_executor (sv_world sv')
         \<and> authorized_effect (workflow_env env) rid (se_actor env) w w1)"
proof -
  let ?pf = "Some (check_execution_output env rid)"
  have confirm: confirm and pf: "perform env ''execute-approved-portable'' (run_path rid @ ''/resume'')
             (untyped (resume (workflow_env env) rid (se_actor env))) (se_dump_completion env) operator True ?pf sv = (r, sv')"
    using rs ch by (auto simp: service_resume_def split: if_splits)
  have quiet: "\<And>check. ?pf = Some check \<Longrightarrow> keeps_call same_executor check" using quiet_service.keeps_reads(2) by blast
  have adm: "w_executor (sv_world sv1) = w_executor (sv_world sv)" if "admitted env operator True ?pf sv = (x, sv1)" for x sv1
    using keeps_serviceD [OF quiet_service.keeps_admitted [OF quiet] that] by (simp add: same_executor_def)
  have int: "w_executor (sv_world sv2) = w_executor (sv_world sv1)" if "intent_logged env oid op path True sv1 = (x, sv2)" for x oid op path sv1 sv2
    using keeps_serviceD [OF quiet_service.keeps_intent that] by (simp add: same_executor_def)
  have effect: ?thesis
    if a: "admitted env operator True ?pf sv = (Inr (), sv1)"
      and i: "intent_logged env oid ''execute-approved-portable'' (run_path rid @ ''/resume'') True sv1 = (Inr (), sv2)"
      and c: "untyped (resume (workflow_env env) rid (se_actor env)) (sv_world sv2) = (x, w)"
      and fin: "w_executor (sv_world sv') = w_executor w" "\<exists>rest. el_log (sv_link sv') = el_log (sv_link sv2) @ rest"
    for oid x sv1 sv2 w
  proof -
    have e2: "w_executor (sv_world sv2) = w_executor (sv_world sv)" using adm [OF a] int [OF i] by simp
    obtain y where y: "resume (workflow_env env) rid (se_actor env) (sv_world sv2) = (y, w)"
      using c by (auto simp: untyped_def split: prod.splits sum.splits)
    have "store_ext (sv_world sv) (sv_world sv2)"
      using durable_world.trans keeps_serviceD [OF durable_service.keeps_admitted a] keeps_serviceD [OF durable_service.keeps_intent i]
        durable_service.keeps_reads(2) by blast
    with ok(2) have "store_inv (w_store (sv_world sv2))" by (simp add: ext_readable)
    from resume_effect [OF this y] ch fin(1) e2
    have "authorized_effect (workflow_env env) rid (se_actor env) (sv_world sv2) w" by simp
    moreover have "link_ok (sv_link sv1) es" using ok(1) admitted_link [OF a] by simp
    from intent_is_logged [OF this i] obtain intent where
      "el_log (sv_link sv2) = el_log (sv_link sv) @ [Line intent]"
      "logged intent ''nonzero_operator_request'' oid ''execute-approved-portable'' (run_path rid @ ''/resume'')"
      unfolding admitted_link [OF a] by blast
    moreover from this(1) fin(2) obtain rest where "el_log (sv_link sv') = el_log (sv_link sv) @ Line intent # rest" by auto
    ultimately show ?thesis using confirm admitted_accepts [OF a] e2 fin(1) by metis
  qed
  from pf show ?thesis
  proof (cases rule: perform_cases)
    case (refused e)
    with adm ch show ?thesis by simp
  next
    case (unlogged e sv1)
    with adm [OF unlogged(1)] int [OF unlogged(2)] ch show ?thesis by simp
  next
    case (failed e sv1 sv2 w)
    show ?thesis by (rule effect [OF failed(1,2,3)]) (simp_all add: failed(4))
  next
    case (returned v z sv1 sv2 w)
    have "w_executor (sv_world sv') = w_executor w"
      using keeps_serviceD [OF quiet_service.keeps_result returned(4)] by (simp add: same_executor_def)
    moreover have "\<exists>rest. el_log (sv_link sv') = el_log (sv_link sv2) @ rest"
      using result_log [OF returned(4)] by simp
    ultimately show ?thesis by (rule effect [OF returned(1,2,3)])
  qed
qed

text \<open>Property C6. The protected inventory changes only through an admitted, confirmed and logged resume: if any request
  changes the executor, it was the operator's POST to the resume path of a version 7 run with the explicit
  confirmation, on an open service whose kill switch is off and whose identity matches, the ledger holds the
  intent, and the change is the effect of one authorised execution of that run by the service's operator.\<close>

theorem service_effect_is_admitted:
  assumes "link_ok (sv_link sv) es" "store_inv (w_store (sv_world sv))"
    "service_request env m path payload operator sv = (r, sv')"
    "w_executor (sv_world sv') \<noteq> w_executor (sv_world sv)"
  shows "operator \<and> \<not> sv_closed sv \<and> \<not> se_kill_switch env (sv_uses sv) \<and> se_identity_matches env (sv_uses sv)
    \<and> m = ''POST'' \<and> (\<exists>kvs. payload = Some (JObj kvs) \<and> map_of kvs ''confirm_execution'' = Some (JBool True))
    \<and> (\<exists>rid. uuid7 rid \<and> path = run_path rid @ ''/resume''
         \<and> (\<exists>oid intent rest. el_log (sv_link sv') = el_log (sv_link sv) @ Line intent # rest
              \<and> logged intent ''nonzero_operator_request'' oid ''execute-approved-portable'' path)
         \<and> (\<exists>w w1. w_executor w = w_executor (sv_world sv) \<and> w_executor w1 = w_executor (sv_world sv')
              \<and> authorized_effect (workflow_env env) rid (se_actor env) w w1))"
  using assms(3)
proof (cases rule: request_cases)
  case (2 rt kvs y)
  have "\<not> same_executor (sv_world sv) (sv_world sv')" using assms(4) by (simp add: same_executor_def)
  with quiet_service.dispatch_admitted [OF 2(4)] obtain rid where
    rt: "rt = RouteResume rid" "read_resume kvs" "sv' = snd (service_resume env rid True operator sv)" by blast
  then obtain x where "service_resume env rid True operator sv = (x, sv')" by (metis prod.collapse)
  note eff = resume_called [OF assms(1,2) this assms(4)]
  have "route_ok rt \<and> route_request rt = (m, path)" using routing_unique [OF 2(2)] .
  moreover have "\<exists>kvs. payload = Some (JObj kvs) \<and> map_of kvs ''confirm_execution'' = Some (JBool True)"
    using rt(2) 2(3) by (auto simp: read_resume_def split: option.splits json.splits)
  ultimately show ?thesis using eff rt(1) by auto
qed (use assms(4) in simp)

section \<open>A healthy service completes its writes\<close>

definition healthy :: "service_env \<Rightarrow> service \<Rightarrow> json list \<Rightarrow> string \<Rightarrow> bool" where
  "healthy env sv es t \<longleftrightarrow>
     \<not> sv_closed sv \<and> \<not> se_kill_switch env (sv_uses sv) \<and> se_identity_matches env (sv_uses sv)
     \<and> (\<forall>n. se_link_fault env n = LF_None) \<and> link_ok (sv_link sv) es \<and> own_log es t"

definition intent_entry :: "service_env \<Rightarrow> string \<Rightarrow> string \<Rightarrow> service \<Rightarrow> string \<Rightarrow> json" where
  "intent_entry env operation path sv t =
     provenance_record (isoformat (utc (en_clock (workflow_env env) (w_ticks (sv_world sv))))) ''nonzero_operator_request'' t
       (link_payload (operation_entry (se_operation_id env (sv_uses sv + 1)) operation path))"

lemma link_append_healthy:
  assumes "link_ok l es" "own_log es t" "log_size l \<le> el_max_bytes l" "py_strip kind = kind" "kind \<noteq> []"
  shows "\<exists>sealed. link_append py_str LF_None now kind payload l =
           (l\<lparr>el_log := el_log l @ [Line (provenance_record (isoformat now) kind t (link_payload payload))], el_head := sealed\<rparr>, Inr ())
         \<and> link_ok (l\<lparr>el_log := el_log l @ [Line (provenance_record (isoformat now) kind t (link_payload payload))], el_head := sealed\<rparr>)
             (es @ [provenance_record (isoformat now) kind t (link_payload payload)])"
proof -
  let ?r = "provenance_record (isoformat now) kind t (link_payload payload)"
  have ck: "link_check LF_None 0 l = Inr (es, verify_provenance_chain es)"
    using link_ok_check [OF assms(1), of LF_None 0] assms(3) by simp
  have r: "append_event_record py_str now es kind (link_payload payload) = Inr ?r"
    using assms(4,5) link_payload_dict [of payload] own_log_latest [OF assms(2), of py_str] by (simp add: append_event_record_def ensure_def)
  obtain sealed where sealed: "seal_local_payload (head_of (verify_provenance_chain (es @ [?r]))) HEAD_TYPE = Inr sealed"
    using head_seals by blast
  have v: "vr_ok (verify_provenance_chain (es @ [?r]))" using verify_own_log [OF own_log_append [OF assms(2) r]] by simp
  have "link_append py_str LF_None now kind payload l = (l\<lparr>el_log := el_log l @ [Line ?r], el_head := sealed\<rparr>, Inr ())"
    unfolding link_append_def by (simp add: ck r Let_def v sealed)
  with link_ok_append [OF assms(1) r sealed] show ?thesis by blast
qed

lemma evidence_append_healthy:
  assumes "link_ok (sv_link sv) es" "own_log es t" "log_size (sv_link sv) \<le> el_max_bytes (sv_link sv)"
    "se_link_fault env (sv_uses sv) = LF_None" "py_strip kind = kind" "kind \<noteq> []"
  obtains l r where
    "evidence_append env kind payload sv =
       (Inr (), sv\<lparr>sv_link := l, sv_uses := sv_uses sv + 1, sv_world := (sv_world sv)\<lparr>w_ticks := w_ticks (sv_world sv) + 1\<rparr>\<rparr>)"
    "r = provenance_record (isoformat (utc (en_clock (workflow_env env) (w_ticks (sv_world sv))))) kind t (link_payload payload)"
    "link_ok l (es @ [r])" "log_size l = log_size (sv_link sv) + line_bytes (Line r)" "el_max_bytes l = el_max_bytes (sv_link sv)"
proof -
  let ?now = "utc (en_clock (workflow_env env) (w_ticks (sv_world sv)))"
  let ?r = "provenance_record (isoformat ?now) kind t (link_payload payload)"
  obtain sealed where
    "link_append (se_py_str env) LF_None ?now kind payload (sv_link sv) =
       ((sv_link sv)\<lparr>el_log := el_log (sv_link sv) @ [Line ?r], el_head := sealed\<rparr>, Inr ())"
    "link_ok ((sv_link sv)\<lparr>el_log := el_log (sv_link sv) @ [Line ?r], el_head := sealed\<rparr>) (es @ [?r])"
    using link_append_healthy [OF assms(1,2,3,5,6), of "se_py_str env" ?now payload] by blast
  with assms(4) show ?thesis
    by (intro that [of "(sv_link sv)\<lparr>el_log := el_log (sv_link sv) @ [Line ?r], el_head := sealed\<rparr>" ?r])
       (simp_all add: evidence_append_def Let_def workflow_env_def log_size_def)
qed

lemma perform_healthy:
  assumes "healthy env sv es t"
    "log_size (sv_link sv) + 2 * nat (cfg_max_output_bytes (se_config env)) \<le> el_max_bytes (sv_link sv)"
    "log_size (sv_link sv) + line_bytes (Line (intent_entry env operation path sv t)) \<le> el_max_bytes (sv_link sv)"
    "call ((sv_world sv)\<lparr>w_ticks := w_ticks (sv_world sv) + 1\<rparr>) = (Inr v, w)"
    "int (json_bytes (render v)) \<le> cfg_max_output_bytes (se_config env)"
  shows "\<exists>sv' intent result. perform env operation path call render True True None sv = (Inr v, sv')
      \<and> sv_world sv' = w\<lparr>w_ticks := w_ticks w + 1\<rparr> \<and> link_ok (sv_link sv') (es @ [intent, result])"
proof -
  have h: "\<not> sv_closed sv" "\<not> se_kill_switch env (sv_uses sv)" "se_identity_matches env (sv_uses sv)"
    "\<And>n. se_link_fault env n = LF_None" "link_ok (sv_link sv) es" "own_log es t" using assms(1) by (simp_all add: healthy_def)
  let ?kind1 = "''nonzero_operator_request''" and ?kind2 = "''nonzero_operator_result''"
  let ?oid = "se_operation_id env (sv_uses sv + 1)"
  let ?sv1 = "sv\<lparr>sv_uses := sv_uses sv + 1\<rparr>"
  have ad: "admitted env True True None sv = (Inr (), ?sv1)"
    unfolding admitted_def using h link_ok_check [OF h(5), of LF_None "2 * nat (cfg_max_output_bytes (se_config env))"] assms(2)
    by (simp add: Let_def)
  obtain l r where i: "evidence_append env ?kind1 (operation_entry ?oid operation path) ?sv1 =
       (Inr (), ?sv1\<lparr>sv_link := l, sv_uses := sv_uses ?sv1 + 1, sv_world := (sv_world ?sv1)\<lparr>w_ticks := w_ticks (sv_world ?sv1) + 1\<rparr>\<rparr>)"
    "r = provenance_record (isoformat (utc (en_clock (workflow_env env) (w_ticks (sv_world ?sv1))))) ?kind1 t
           (link_payload (operation_entry ?oid operation path))"
    "link_ok l (es @ [r])" "log_size l = log_size (sv_link ?sv1) + line_bytes (Line r)" "el_max_bytes l = el_max_bytes (sv_link ?sv1)"
  proof (rule evidence_append_healthy [where sv = ?sv1 and env = env and payload = "operation_entry ?oid operation path" and kind = ?kind1])
    show "link_ok (sv_link ?sv1) es" "log_size (sv_link ?sv1) \<le> el_max_bytes (sv_link ?sv1)" using h(5) assms(2) by simp_all
  qed (use h kinds_stripped in auto)
  define sv2 where "sv2 = sv\<lparr>sv_link := l, sv_uses := sv_uses sv + 2, sv_world := w\<rparr>"
  have "r = intent_entry env operation path sv t" using i(2) by (simp add: intent_entry_def)
  then have size: "log_size l \<le> el_max_bytes l" using i(4,5) assms(3) by simp
  obtain t2 where t2: "own_log (es @ [r]) t2" using i(3) by (auto simp: link_ok_def)
  let ?result = "operation_entry ?oid operation path @ [(''evidence'', public_evidence (render v))]"
  obtain l2 r2 where ap: "evidence_append env ?kind2 ?result sv2 =
       (Inr (), sv2\<lparr>sv_link := l2, sv_uses := sv_uses sv2 + 1, sv_world := (sv_world sv2)\<lparr>w_ticks := w_ticks (sv_world sv2) + 1\<rparr>\<rparr>)"
    and ok: "link_ok l2 ((es @ [r]) @ [r2])"
  proof (rule evidence_append_healthy [where sv = sv2 and env = env and payload = ?result and kind = ?kind2])
    show "link_ok (sv_link sv2) (es @ [r])" "log_size (sv_link sv2) \<le> el_max_bytes (sv_link sv2)" "own_log (es @ [r]) t2"
      using i(3) size t2 by (simp_all add: sv2_def)
  qed (use h kinds_stripped in auto)
  have "perform env operation path call render True True None sv =
     (Inr v, sv2\<lparr>sv_link := l2, sv_uses := sv_uses sv2 + 1, sv_world := (sv_world sv2)\<lparr>w_ticks := w_ticks (sv_world sv2) + 1\<rparr>\<rparr>)"
    using assms(4,5) i(1) ap
    by (simp add: perform_def ad Let_def intent_logged_def result_logged_def sv2_def)
  moreover have "link_ok l2 (es @ [r, r2])" using ok by simp
  ultimately show ?thesis by (intro exI conjI) (auto simp: sv2_def)
qed


end
