(* ===== verification/NZ_Boundary.thy ===== *)
theory NZ_Boundary
  imports NZ_Service
begin

text \<open>
  What crosses the boundary of the service: which configurations are admitted, and what an
  operator sees of a run. The views are functions of the public part of the stored records, and
  a view of a run says truthfully whether its timeline is complete.
\<close>

section \<open>Configuration\<close>

definition config_ok :: "module_config \<Rightarrow> bool" where
  "config_ok m \<longleftrightarrow>
     cfg_backend m \<in> {''portable'', ''aws''} \<and> \<not> (cfg_backend m = ''portable'' \<and> cfg_aws_enabled m)
     \<and> cfg_request_ttl_seconds m \<in> {60..3600} \<and> cfg_max_runs m \<in> {1..128}
     \<and> cfg_max_output_bytes m \<in> {16384..1048576} \<and> cfg_max_trace_bytes m \<in> {1048576..67108864}"

lemma bounded_int_eq: "bounded_int lower upper v = Some n \<longleftrightarrow> v = JInt n \<and> n \<in> {lower..upper}"
  by (cases v) auto

lemma post_init_Inr:
  assumes "post_init field = Inr m"
  shows "field ''enabled'' = JBool (cfg_enabled m) \<and> field ''aws_enabled'' = JBool (cfg_aws_enabled m)
    \<and> field ''backend'' = JStr (cfg_backend m) \<and> field ''request_ttl_seconds'' = JInt (cfg_request_ttl_seconds m)
    \<and> field ''max_runs'' = JInt (cfg_max_runs m) \<and> field ''max_output_bytes'' = JInt (cfg_max_output_bytes m)
    \<and> field ''max_trace_bytes'' = JInt (cfg_max_trace_bytes m) \<and> config_ok m"
proof -
  obtain en where en: "field ''enabled'' = JBool en" using assms by (cases "field ''enabled''") (simp_all add: post_init_def)
  obtain aws where aws: "field ''aws_enabled'' = JBool aws"
    using assms by (cases "field ''aws_enabled''") (simp_all add: post_init_def en)
  obtain be where be: "field ''backend'' = JStr be"
    using assms by (cases "field ''backend''") (simp_all add: post_init_def en aws)
  note pi = assms [unfolded post_init_def en aws be prod.case json.case]
  obtain ttl runs out tr where n: "bounded_int 60 3600 (field ''request_ttl_seconds'') = Some ttl"
    "bounded_int 1 128 (field ''max_runs'') = Some runs" "bounded_int 16384 1048576 (field ''max_output_bytes'') = Some out"
    "bounded_int 1048576 (64 * 1024 * 1024) (field ''max_trace_bytes'') = Some tr"
    using pi by (auto simp only: ebind_eq_Inr split: option.splits prod.splits)
  from pi n have "be \<in> {''portable'', ''aws''}" "\<not> (be = ''portable'' \<and> aws)"
    "m = \<lparr>cfg_enabled = en, cfg_backend = be, cfg_aws_enabled = aws, cfg_request_ttl_seconds = ttl, cfg_max_runs = runs,
       cfg_max_output_bytes = out, cfg_max_trace_bytes = tr\<rparr>"
    by (simp_all add: result_simps del: bounded_int.simps)
  with n en aws be show ?thesis by (simp add: bounded_int_eq config_ok_def del: bounded_int.simps)
qed

lemma config_field_fields:
  "config_field (config_fields m) ''enabled'' = JBool (cfg_enabled m)"
  "config_field (config_fields m) ''aws_enabled'' = JBool (cfg_aws_enabled m)"
  "config_field (config_fields m) ''backend'' = JStr (cfg_backend m)"
  "config_field (config_fields m) ''expected_source_sha'' = JStr JUDGE_SHA"
  "config_field (config_fields m) ''request_ttl_seconds'' = JInt (cfg_request_ttl_seconds m)"
  "config_field (config_fields m) ''max_runs'' = JInt (cfg_max_runs m)"
  "config_field (config_fields m) ''max_output_bytes'' = JInt (cfg_max_output_bytes m)"
  "config_field (config_fields m) ''max_trace_bytes'' = JInt (cfg_max_trace_bytes m)"
  by (simp_all add: config_field_def config_fields_def CONFIG_DEFAULTS_def)

lemma post_init_fields: "config_ok m \<Longrightarrow> post_init (config_field (config_fields m)) = Inr m"
  by (auto simp: post_init_def config_ok_def config_field_fields ensure_def)

lemma post_init_kept: "post_init (config_field (config_fields c)) = Inr m \<Longrightarrow> m = c \<and> config_ok c"
proof -
  assume "post_init (config_field (config_fields c)) = Inr m"
  note f = post_init_Inr [OF this, unfolded config_field_fields json.inject]
  then have "m = c" by (intro module_config.equality) simp_all
  with f show ?thesis by simp
qed

lemma parse_config_ok: "parse_config c = Inr m \<Longrightarrow> config_ok m"
  by (cases c) (auto simp: result_simps dest: post_init_Inr post_init_kept)

lemma parse_config_again: "parse_config c = Inr m \<Longrightarrow> parse_config (ConfigObject m) = Inr m"
  by (simp add: post_init_fields parse_config_ok)

text \<open>An admitted configuration is the enabled portable backend without the remote provider, and every
  bound lies in its range; admission decides on an immutable snapshot: taking the snapshot again, of a valid or
  an invalid configuration, changes nothing.\<close>

theorem admitted_configuration_is_bounded:
  assumes "service_admission python_ok installed c operator_id = Inr m"
  shows "cfg_enabled m \<and> cfg_backend m = ''portable'' \<and> \<not> cfg_aws_enabled m \<and> config_ok m
    \<and> short_identifier operator_id \<and> snapshot_config c = ConfigObject m
    \<and> snapshot_config (snapshot_config c) = snapshot_config c"
proof -
  from assms have p: "parse_config c = Inr m" and s: "short_identifier operator_id"
    and d: "md_available (module_descriptor python_ok installed (ConfigObject m))"
    by (auto simp: service_admission_def Let_def result_simps)
  note again = parse_config_again [OF p]
  from d have "config_code (ConfigObject m) = (''AVAILABLE'', cfg_backend m)"
    by (auto simp: module_descriptor_def Let_def config_code_def again simp del: parse_config.simps split: if_splits)
  then have "cfg_enabled m \<and> cfg_backend m = ''portable''"
    using parse_config_ok [OF p] by (auto simp: config_code_def again config_ok_def simp del: parse_config.simps split: if_splits)
  moreover have "snapshot_config c = ConfigObject m" "snapshot_config (snapshot_config c) = snapshot_config c"
    by (simp_all add: snapshot_config_def p again del: parse_config.simps)
  ultimately show ?thesis using s parse_config_ok [OF p] by (auto simp: config_ok_def)
qed

section \<open>Views\<close>

text \<open>A record with its private part replaced: session, nonce hash, internal metadata.\<close>

definition scrub_request :: "string \<Rightarrow> local_approval_request \<Rightarrow> local_approval_request" where
  "scrub_request x q = q\<lparr>lq_actor_session_id := x, lq_decision_nonce_hash := x\<rparr>"

definition scrub_approval :: "string \<Rightarrow> local_approval \<Rightarrow> local_approval" where
  "scrub_approval x a = a\<lparr>la_actor_session_id := x, la_decision_nonce_hash := x\<rparr>"

definition scrub_intent :: "string \<Rightarrow> local_intent \<Rightarrow> local_intent" where
  "scrub_intent x i = i\<lparr>li_idempotency_key := x\<rparr>"

definition scrub_checkpoint :: "string \<Rightarrow> checkpoint \<Rightarrow> checkpoint" where
  "scrub_checkpoint x c =
     c\<lparr>cp_resume_metadata := [], cp_tool_result_hashes := [],
       cp_local_approval_request := map_option (scrub_request x) (cp_local_approval_request c),
       cp_local_approval := map_option (scrub_approval x) (cp_local_approval c),
       cp_local_execution_intent := map_option (scrub_intent x) (cp_local_execution_intent c)\<rparr>"

definition scrub_event :: "audit_event \<Rightarrow> audit_event" where
  "scrub_event e =
     e\<lparr>ae_tool_name := None, ae_model_id := None, ae_metadata := filter (\<lambda>kv. fst kv \<in> PUBLIC_AUDIT_METADATA) (ae_metadata e)\<rparr>"

definition scrub_snapshot :: "string \<Rightarrow> run_snapshot \<Rightarrow> run_snapshot" where
  "scrub_snapshot x sn =
     sn\<lparr>sn_checkpoint := map_option (scrub_checkpoint x) (sn_checkpoint sn),
        sn_audit_events := map scrub_event (sn_audit_events sn)\<rparr>"

lemma view_scrubbed_parts:
  "view_of_request (scrub_request x q) = view_of_request q" "view_of_approval (scrub_approval x a) = view_of_approval a"
  "view_of_intent (scrub_intent x i) = view_of_intent i"
  by (simp_all add: scrub_request_def scrub_approval_def scrub_intent_def view_of_request_def view_of_approval_def view_of_intent_def)

lemma view_scrubbed:
  "view_of_checkpoint (scrub_checkpoint x c) = view_of_checkpoint c" "view_of_event (scrub_event e) = view_of_event e"
  "cp_run_id (scrub_checkpoint x c) = cp_run_id c" "ae_run_id (scrub_event e) = ae_run_id e"
  "cp_local_execution_receipt (scrub_checkpoint x c) = cp_local_execution_receipt c"
  by (simp_all add: view_of_checkpoint_def scrub_checkpoint_def view_of_event_def scrub_event_def option.map_comp comp_def
      view_scrubbed_parts)

text \<open>The view of a run does not depend on the operator's session, the nonce hashes, the idempotency key,
  the resume metadata, the tool and model names or the internal audit metadata of the stored records.\<close>

theorem run_view_is_public: "run_view dump rt (scrub_snapshot x sn) = run_view dump rt sn"
proof (cases "sn_run sn")
  case None
  then show ?thesis by (simp add: run_view_def scrub_snapshot_def)
next
  case (Some r)
  have "view_of_event \<circ> scrub_event = view_of_event" by (rule ext) (simp add: view_scrubbed)
  then show ?thesis
    by (cases "sn_checkpoint sn") (simp_all add: run_view_def Some scrub_snapshot_def view_scrubbed)
qed

lemma count_of_run:
  "count_audit_events s rid = length (filter (\<lambda>kv. fst (fst kv) = rid) (ds_audit_events s))"
  by (simp add: count_audit_events_def filter_map comp_def)

lemma listed_events:
  assumes "list_audit_events s rid limit = Inr es"
  shows "length es = min (nat limit) (count_audit_events s rid)"
    and "set es \<subseteq> snd ` {kv \<in> set (ds_audit_events s). fst (fst kv) = rid}"
  using assms by (auto simp: list_audit_events_def result_simps count_of_run dest!: in_set_takeD)

text \<open>What an operator sees of a run is a projection of the stored image at one moment: the stored run, its
  checkpoint, and the oldest events of its timeline, at most 128, in order of time; and the view says truthfully
  how many there are and whether some are missing.\<close>

theorem run_view_is_truthful:
  assumes "repo_read_run_snapshot file_digest io rid 128 f = Inr sn" "run_view dump rt sn = Inr v"
  shows "\<exists>payload s. f = Some payload \<and> from_snapshot payload = Inr s \<and> get_run s rid = Some (vw_run v)
    \<and> vw_checkpoint v = map_option view_of_checkpoint (get_checkpoint s rid)
    \<and> vw_evidence_snapshot_sha256 v = file_digest payload
    \<and> vw_audit_event_count v = count_audit_events s rid
    \<and> length (vw_audit_events v) = min 128 (count_audit_events s rid)
    \<and> (vw_audit_events_truncated v \<longleftrightarrow> 128 < count_audit_events s rid)
    \<and> sorted (map (\<lambda>e. (dt_micros (av_timestamp e), uuid_str (av_event_id e))) (vw_audit_events v))"
proof -
  from assms(1) obtain payload s es where f: "f = Some payload" "from_snapshot payload = Inr s"
    and es: "list_audit_events s rid 128 = Inr es"
    and sn: "sn = \<lparr>sn_run = get_run s rid, sn_checkpoint = get_checkpoint s rid, sn_audit_events = es,
               sn_audit_event_count = count_audit_events s rid, sn_snapshot_sha256 = file_digest payload\<rparr>"
    by (auto simp: repo_read_run_snapshot_def result_simps split: if_splits option.splits)
  obtain r where r: "get_run s rid = Some r" using assms(2) by (auto simp: run_view_def sn split: option.splits)
  have v: "vw_run v = r" "vw_checkpoint v = map_option view_of_checkpoint (get_checkpoint s rid)"
    "vw_evidence_snapshot_sha256 v = file_digest payload" "vw_audit_event_count v = count_audit_events s rid"
    "vw_audit_events v = map view_of_event es" "vw_audit_events_truncated v \<longleftrightarrow> length es < count_audit_events s rid"
    using assms(2) by (auto simp: run_view_def sn r result_simps)
  let ?key = "\<lambda>e. (dt_micros (ae_timestamp e), uuid_str (ae_event_id e))"
  obtain xs where xs: "es = take 128 (sort_key ?key xs)"
    using es by (auto simp: list_audit_events_def result_simps)
  have "sorted (map ?key es)" unfolding xs take_map [symmetric] by (rule sorted_wrt_take) simp
  then have "sorted (map (\<lambda>e. (dt_micros (av_timestamp e), uuid_str (av_event_id e))) (vw_audit_events v))"
    by (simp add: v(5) comp_def view_of_event_def)
  with f r v listed_events(1) [OF es] show ?thesis by auto
qed

end
