(* ===== verification/NZ_Output_Bound.thy ===== *)
theory NZ_Output_Bound
  imports NZ_Service
begin

text \<open>
  The wire budget of an execution, \<^verbatim>\<open>execution_result_upper_bound\<close>: the JSON of every result a
  resume can report is at most the bound computed from the checkpoint before the dispatch. The
  first part measures JSON texts; the second bounds the texts of the fields of a result
  (identifiers, digests, timestamps, enumeration values); the theorem adds them up.
\<close>

section \<open>The size of a JSON text\<close>

fun joined :: "nat list \<Rightarrow> nat" where
  "joined [] = 0"
| "joined [n] = n"
| "joined (n # m # ns) = n + 2 + joined (m # ns)"

lemma length_intersperse: "length (intersperse_text sep xs) = (if length sep = 2 then joined (map length xs) else length (intersperse_text sep xs))"
  by (induction sep xs rule: intersperse_text.induct) auto

definition key_bytes :: "string \<Rightarrow> nat" where
  "key_bytes k = length (py_quote py_escape k)"

definition member_bytes :: "string \<times> json \<Rightarrow> nat" where
  "member_bytes kv = key_bytes (fst kv) + 2 + json_bytes (snd kv)"

lemma json_bytes_simps:
  "json_bytes JNull = 4" "json_bytes (JBool b) = (if b then 4 else 5)" "json_bytes (JStr s) = key_bytes s"
  "json_bytes (JArr vs) = 2 + joined (map json_bytes vs)" "json_bytes (JObj kvs) = 2 + joined (map member_bytes kvs)"
proof -
  have "length (intersperse_text '', '' xs) = joined (map length xs)" for xs using length_intersperse [of "'', ''" xs] by simp
  then show "json_bytes (JArr vs) = 2 + joined (map json_bytes vs)" "json_bytes (JObj kvs) = 2 + joined (map member_bytes kvs)"
    by (simp_all add: json_bytes_def [abs_def] comp_def member_bytes_def [abs_def] key_bytes_def)
qed (simp_all add: json_bytes_def key_bytes_def)

lemma joined_Cons_le: "joined (n # ns) \<le> n + 2 + joined ns"
  by (cases ns) auto

lemma joined_Cons_ge: "n + joined ns \<le> joined (n # ns)" "joined ns \<le> joined (n # ns)"
  by (cases ns; simp)+

lemma joined_mono: "list_all2 (\<le>) ms ns \<Longrightarrow> joined ms \<le> joined ns"
proof (induction ms arbitrary: ns rule: joined.induct)
  case (3 m m' ms)
  then obtain n n' ns' where "ns = n # n' # ns'" "m \<le> n" "list_all2 (\<le>) (m' # ms) (n' # ns')"
    by (auto simp: list_all2_Cons1)
  with 3(1) [of "n' # ns'"] show ?case by simp
next
  case (2 n)
  then show ?case by (auto simp: list_all2_Cons1)
qed simp

lemma joined_map_mono: "(\<And>x. x \<in> set xs \<Longrightarrow> f x \<le> g x) \<Longrightarrow> joined (map f xs) \<le> joined (map g xs)"
  by (rule joined_mono) (simp add: list_all2_conv_all_nth)

lemma joined_subseq: "subseq ms ns \<Longrightarrow> joined ms \<le> joined ns"
proof (induction rule: list_emb.induct)
  case (list_emb_Cons xs ys y)
  then show ?case using joined_Cons_ge(2) [of ys y] by simp
next
  case (list_emb_Cons2 x y xs ys)
  then show ?case by (cases xs; cases ys) auto
qed simp

lemma json_bytes_drop:
  assumes "\<And>kv. kv \<in> set kvs \<Longrightarrow> json_bytes (f (snd kv)) \<le> json_bytes (snd kv)"
  shows "json_bytes (JObj (map (\<lambda>kv. (fst kv, f (snd kv))) (filter P kvs))) \<le> json_bytes (JObj kvs)"
proof -
  let ?g = "\<lambda>kv. (fst kv, f (snd kv))"
  have "joined (map (\<lambda>kv. member_bytes (?g kv)) (filter P kvs)) \<le> joined (map member_bytes (filter P kvs))"
    by (rule joined_map_mono) (use assms in \<open>simp add: member_bytes_def\<close>)
  also have "\<dots> \<le> joined (map member_bytes kvs)" by (intro joined_subseq subseq_map subseq_filter_left)
  finally show ?thesis by (simp add: json_bytes_simps comp_def)
qed

text \<open>\<^verbatim>\<open>model_dump(mode="json", exclude_none=True)\<close>: a field without a value is left out.\<close>

fun exclude_none :: "json \<Rightarrow> json" where
  "exclude_none (JObj kvs) = JObj (map (\<lambda>kv. (fst kv, exclude_none (snd kv))) (filter (\<lambda>kv. snd kv \<noteq> JNull) kvs))"
| "exclude_none (JArr vs) = JArr (map exclude_none vs)"
| "exclude_none v = v"

lemma exclude_none_smaller: "json_bytes (exclude_none v) \<le> json_bytes v"
proof (induction v rule: exclude_none.induct)
  case (1 kvs)
  have "json_bytes (exclude_none (snd kv)) \<le> json_bytes (snd kv)" if "kv \<in> set kvs" for kv
  proof (cases "snd kv = JNull")
    case False
    with that show ?thesis by (intro 1) simp
  qed simp
  then show ?case using json_bytes_drop by simp
next
  case (2 vs)
  then have "joined (map (\<lambda>v. json_bytes (exclude_none v)) vs) \<le> joined (map json_bytes vs)"
    by (intro joined_map_mono) simp
  then show ?case by (simp add: json_bytes_simps comp_def)
qed simp_all

section \<open>Texts of bounded length\<close>

definition plain :: "char \<Rightarrow> bool" where
  "plain c \<longleftrightarrow> 32 \<le> (of_char c :: nat) \<and> (of_char c :: nat) \<le> 126 \<and> c \<noteq> dquote \<and> c \<noteq> backslash"

lemma plain_bytes: "list_all plain s \<Longrightarrow> key_bytes s = length s + 2"
proof -
  assume "list_all plain s"
  then have "length (concat (map py_escape s)) = length s"
    by (induction s) (auto simp: plain_def py_escape_def Let_def)
  then show ?thesis by (simp add: key_bytes_def py_quote_def)
qed

lemma plain_chars: "hex_lower c \<Longrightarrow> plain c" "ascii_digit c \<Longrightarrow> plain c" "ascii_alnum c \<Longrightarrow> plain c" "identifier_tail c \<Longrightarrow> plain c"
  by (auto simp: plain_def hex_lower_def ascii_digit_def ascii_alnum_def char_between_def identifier_tail_def dquote_def backslash_def)

lemma plain_literal: "plain c" if "c \<in> set ''abcdefghijklmnopqrstuvwxyzABCDEFGHIJKLMNOPQRSTUVWXYZ_-:.+''"
  using that by (auto simp: plain_def dquote_def backslash_def)

lemma digest_bytes: "sha256_digest s \<Longrightarrow> key_bytes s = 66"
  by (subst plain_bytes) (auto simp: sha256_digest_def list_all_iff intro: plain_chars)

lemma identifier_bytes: "identifier_shape s \<Longrightarrow> key_bytes s = length s + 2"
  by (rule plain_bytes) (auto simp: identifier_shape_def list_all_iff intro: plain_chars split: list.splits)

lemma uuid_bytes: "key_bytes (uuid_str u) = 38"
proof -
  have "list_all hex_lower (uuid_digits u)" by (rule uuid_digits_hex)
  then have "list_all plain (dashed (uuid_digits u))"
    by (auto simp: dashed_def list_all_iff plain_literal dest!: in_set_takeD in_set_dropD intro: plain_chars)
  then have "list_all plain (uuid_str u)" by (simp add: uuid_str_dashed uuid_digits_def)
  from plain_bytes [OF this] show ?thesis by (simp add: uuid_str_length)
qed

lemma dec_digits_short: "n < 10 ^ Suc k \<Longrightarrow> length (dec_digits n) \<le> Suc k"
proof (induction k arbitrary: n)
  case 0
  then show ?case by (simp add: dec_digits.simps [of n])
next
  case (Suc k)
  have "n div 10 < 10 ^ Suc k" using Suc.prems by (simp add: less_mult_imp_div_less)
  from Suc.IH [OF this] show ?case by (subst dec_digits.simps) simp
qed

lemma plain_zero: "plain CHR ''0''"
  by (simp add: plain_def dquote_def backslash_def)

lemma zero_pad_plain: "list_all plain (zero_pad w n)"
  using dec_digits_facts [of n] plain_chars(2) plain_zero
  by (auto simp: zero_pad_def Let_def list_all_iff)

lemma zero_pad_short: "n < 10 ^ Suc k \<Longrightarrow> length (zero_pad w n) \<le> max w (Suc k)"
  using dec_digits_short [of n k] by (simp add: zero_pad_def Let_def)

lemma zero_pad_le: "n < 10 ^ Suc k \<Longrightarrow> w \<le> l \<Longrightarrow> Suc k \<le> l \<Longrightarrow> length (zero_pad w n) \<le> l"
  using zero_pad_short [of n k w] by simp

text \<open>The instants a Python datetime can hold: the years 1 to 9999.\<close>

definition python_instant :: "int \<Rightarrow> bool" where
  "python_instant us \<longleftrightarrow> - 62135596800000000 \<le> us \<and> us < 253402300800000000"

lemma div_bounds: "0 < n \<Longrightarrow> x div n * n \<le> x \<and> x < x div n * n + n" for x n :: int
  by (smt (verit) div_mult_mod_eq pos_mod_bound pos_mod_sign)

lemmas div_num = div_bounds [OF zero_less_numeral]

lemma civil_day_small:
  fixes doe yoe doy mp c1 c2 c3 c4 c5 :: int
  assumes "0 \<le> doe" "doe < 146097"
    and q: "c1 * 1460 \<le> doe \<and> doe < c1 * 1460 + 1460" "c2 * 36524 \<le> doe \<and> doe < c2 * 36524 + 36524"
      "c3 * 146096 \<le> doe \<and> doe < c3 * 146096 + 146096"
    and yoe: "yoe * 365 \<le> doe - c1 + c2 - c3 \<and> doe - c1 + c2 - c3 < yoe * 365 + 365"
    and c: "c4 * 4 \<le> yoe \<and> yoe < c4 * 4 + 4" "c5 * 100 \<le> yoe \<and> yoe < c5 * 100 + 100"
    and doy: "doy = doe - (365 * yoe + c4 - c5)"
    and mp: "mp * 153 \<le> 5 * doy + 2 \<and> 5 * doy + 2 < mp * 153 + 153"
  shows "yoe \<le> 401" "mp \<le> 50"
proof -
  have c1: "0 \<le> c1" "c1 \<le> 101" "c2 \<le> 4" "0 \<le> c2" "0 \<le> c3" "c3 \<le> 1" using assms(1,2) q by linarith+
  then show yoe_small: "yoe \<le> 401" using yoe assms(2) by linarith
  have "- 2 \<le> yoe" using yoe assms(1) c1 by linarith
  then have "doy \<le> 1000" using yoe c c1 doy yoe_small by linarith
  then show "mp \<le> 50" using mp by linarith
qed

lemma civil_small:
  assumes "civil_from_days z0 = (y, m, d)" "- 719162 \<le> z0" "z0 \<le> 2932896"
  shows "y < 100000 \<and> m < 100 \<and> d < 100"
proof -
  define z where "z = z0 + 719468"
  define era where "era = z div 146097"
  define doe where "doe = z - era * 146097"
  define yoe where "yoe = (doe - doe div 1460 + doe div 36524 - doe div 146096) div 365"
  define doy where "doy = doe - (365 * yoe + yoe div 4 - yoe div 100)"
  define mp where "mp = (5 * doy + 2) div 153"
  define mm where "mm = (if mp < 10 then mp + 3 else mp - 9)"
  have civ: "y = nat (yoe + era * 400 + (if mm \<le> 2 then 1 else 0))" "m = nat mm" "d = nat (doy - (153 * mp + 2) div 5 + 1)"
    using assms(1) by (simp_all only: civil_from_days_def Let_def z_def [symmetric] era_def [symmetric] doe_def [symmetric]
        yoe_def [symmetric] doy_def [symmetric] mp_def [symmetric] mm_def [symmetric] prod.inject)
  have z: "z \<le> 3652364" using assms(3) by (simp add: z_def)
  have era: "era * 146097 \<le> z \<and> z < era * 146097 + 146097" unfolding era_def by (rule div_num)
  then have era24: "era \<le> 24" using z by linarith
  have doe: "0 \<le> doe" "doe < 146097" using era unfolding doe_def by linarith+
  have mp: "mp * 153 \<le> 5 * doy + 2 \<and> 5 * doy + 2 < mp * 153 + 153" unfolding mp_def by (rule div_num)
  have yoe: "yoe * 365 \<le> doe - doe div 1460 + doe div 36524 - doe div 146096
      \<and> doe - doe div 1460 + doe div 36524 - doe div 146096 < yoe * 365 + 365" unfolding yoe_def by (rule div_num)
  note small = civil_day_small [OF doe div_num div_num div_num yoe div_num div_num doy_def mp]
  have "mm < 100" using small(2) by (auto simp: mm_def)
  moreover have "(153 * mp + 2) div 5 * 5 \<le> 153 * mp + 2 \<and> 153 * mp + 2 < (153 * mp + 2) div 5 * 5 + 5" by (rule div_num)
  then have "doy - (153 * mp + 2) div 5 + 1 < 100" using mp by linarith
  moreover have "yoe + era * 400 + 1 < 100000" using small(1) era24 by linarith
  ultimately show ?thesis unfolding civ by auto
qed

lemma day_bounds: "us div 86400000000 * 86400000000 \<le> us \<and> us < us div 86400000000 * 86400000000 + 86400000000" for us :: int
  by (rule div_num)

lemma iso_base_short:
  assumes "python_instant us"
  shows "length (iso_base us) \<le> 27 \<and> list_all plain (iso_base us)"
proof -
  obtain y m d where c: "civil_from_days (us div 86400000000) = (y, m, d)" by (cases "civil_from_days (us div 86400000000)")
  have "- 719162 \<le> us div 86400000000" "us div 86400000000 \<le> 2932896"
    using assms day_bounds [of us] unfolding python_instant_def by linarith+
  from civil_small [OF c this] have ymd: "y < 10 ^ Suc 4" "m < 10 ^ Suc 1" "d < 10 ^ Suc 1" by simp_all
  define r where "r = us mod 86400000000"
  have r: "0 \<le> r" "r < 86400000000" by (simp_all add: r_def)
  define secs where "secs = r div 1000000"
  have "secs * 1000000 \<le> r \<and> r < secs * 1000000 + 1000000" unfolding secs_def by (rule div_num)
  then have secs: "secs < 86400" using r by linarith
  have "secs div 3600 * 3600 \<le> secs \<and> secs < secs div 3600 * 3600 + 3600" by (rule div_num)
  then have "secs div 3600 < 24" using secs by linarith
  moreover have "secs div 60 mod 60 < 60" "secs mod 60 < 60" "r mod 1000000 < 1000000" by simp_all
  ultimately
  have n: "nat (secs div 3600) < 10 ^ Suc 1" "nat (secs div 60 mod 60) < 10 ^ Suc 1" "nat (secs mod 60) < 10 ^ Suc 1"
    "nat (r mod 1000000) < 10 ^ Suc 5" by simp_all
  define Y M D H I S F where parts: "Y = zero_pad 4 y" "M = zero_pad 2 m" "D = zero_pad 2 d" "H = zero_pad 2 (nat (secs div 3600))"
    "I = zero_pad 2 (nat (secs div 60 mod 60))" "S = zero_pad 2 (nat (secs mod 60))" "F = zero_pad 6 (nat (r mod 1000000))"
  have "length Y \<le> 5" "length M \<le> 2" "length D \<le> 2" "length H \<le> 2" "length I \<le> 2" "length S \<le> 2" "length F \<le> 6"
    unfolding parts
    by (rule zero_pad_le [OF ymd(1)] zero_pad_le [OF ymd(2)] zero_pad_le [OF ymd(3)] zero_pad_le [OF n(1)] zero_pad_le [OF n(2)]
          zero_pad_le [OF n(3)] zero_pad_le [OF n(4)]; simp)+
  moreover have "\<exists>b. iso_base us = Y @ ''-'' @ M @ ''-'' @ D @ ''T'' @ H @ '':'' @ I @ '':'' @ S @ (if b then [] else ''.'' @ F)"
    unfolding iso_base_def Let_def c r_def [symmetric] secs_def [symmetric] prod.case parts by (rule exI) (rule refl)
  then obtain b where "iso_base us = Y @ ''-'' @ M @ ''-'' @ D @ ''T'' @ H @ '':'' @ I @ '':'' @ S @ (if b then [] else ''.'' @ F)" ..
  ultimately have "length (iso_base us) \<le> 27" by (cases b) simp_all
  moreover have lit: "list_all plain ''-''" "list_all plain ''T''" "list_all plain '':''" "list_all plain ''.''" "list_all plain []"
    by (simp_all add: plain_def dquote_def backslash_def)
  have "list_all plain (iso_base us)"
    unfolding iso_base_def Let_def c prod.case
    by (simp only: list_all_append zero_pad_plain lit simp_thms split: if_split)
  ultimately show ?thesis ..
qed

lemma iso_json_bytes: "python_instant (dt_micros t) \<Longrightarrow> key_bytes (iso_json t) \<le> 30"
proof -
  assume "python_instant (dt_micros t)"
  from iso_base_short [OF this] have "list_all plain (iso_json t)" "length (iso_json t) \<le> 28"
    by (simp_all add: iso_json_def plain_def dquote_def backslash_def)
  then show ?thesis by (simp add: plain_bytes)
qed

lemma resource_after_smaller:
  assumes "receipt_effect_ok r"
  shows "json_bytes (opt_json resource_json (lr_after_resource r)) \<le> json_bytes (resource_json (lr_before_resource r))"
proof (cases "lr_after_resource r")
  case None
  then show ?thesis by (cases "lr_before_resource r") (simp_all add: opt_json_def json_bytes_simps)
next
  case (Some a)
  with assms obtain b a' where ba: "lr_before_resource r = SecurityGroupResource b" "a = SecurityGroupResource a'"
    "sg_id a' = sg_id b" "sg_region a' = sg_region b" "sg_vpc_id a' = sg_vpc_id b"
    "sg_outbound_rules a' = sg_outbound_rules b" "sg_tags a' = sg_tags b" "subseq (sg_inbound_rules a') (sg_inbound_rules b)"
    by (auto simp: receipt_effect_ok_def ordered_subset_subseq split: remediation_operation.splits cloud_resource.splits)
  from joined_subseq [OF subseq_map [OF ba(8), of "\<lambda>x. json_bytes (rule_json x)"]]
  show ?thesis using ba by (simp add: Some opt_json_def json_bytes_simps member_bytes_def comp_def)
qed

section \<open>The JSON of a result\<close>

fun failure_kind_value :: "failure_kind \<Rightarrow> string" where
  "failure_kind_value FK_VALIDATION_FAILURE = ''VALIDATION_FAILURE''"
| "failure_kind_value FK_POLICY_DENIAL = ''POLICY_DENIAL''"
| "failure_kind_value FK_AMBIGUOUS_RESULT = ''AMBIGUOUS_RESULT''"
| "failure_kind_value FK_DEPENDENCY_UNAVAILABLE = ''DEPENDENCY_UNAVAILABLE''"
| "failure_kind_value FK_BUDGET_EXHAUSTION = ''BUDGET_EXHAUSTION''"
| "failure_kind_value FK_EXECUTION_FAILURE = ''EXECUTION_FAILURE''"
| "failure_kind_value FK_VERIFICATION_FAILURE = ''VERIFICATION_FAILURE''"
| "failure_kind_value FK_RECOVERY_REQUIREMENT = ''RECOVERY_REQUIREMENT''"
| "failure_kind_value FK_ILLEGAL_STATE_TRANSITION = ''ILLEGAL_STATE_TRANSITION''"
| "failure_kind_value FK_PROVIDER_FAILURE = ''PROVIDER_FAILURE''"
| "failure_kind_value FK_TOOL_ADAPTER_FAILURE = ''TOOL_ADAPTER_FAILURE''"
| "failure_kind_value FK_STORAGE_FAILURE = ''STORAGE_FAILURE''"
| "failure_kind_value FK_IDEMPOTENCY_CONFLICT = ''IDEMPOTENCY_CONFLICT''"
| "failure_kind_value FK_NOT_FOUND = ''NOT_FOUND''"
| "failure_kind_value FK_CONFIGURATION_ERROR = ''CONFIGURATION_ERROR''"

definition failure_json :: "failure_detail \<Rightarrow> json" where
  "failure_json f = JObj
     [(''kind'', JStr (failure_kind_value (f_kind f))), (''code'', JStr (f_code f)), (''message'', JStr (f_message f)),
      (''retryable'', JBool (f_retryable f))]"

definition receipt_json :: "local_receipt \<Rightarrow> json" where
  "receipt_json r = JObj
     [(''run_id'', JStr (uuid_str (lr_run_id r))), (''proposal_id'', JStr (uuid_str (lr_proposal_id r))),
      (''proposal_hash'', JStr (lr_proposal_hash r)), (''evidence_hash'', JStr (lr_evidence_hash r)),
      (''decision_hash'', JStr (lr_decision_hash r)), (''intent_hash'', JStr (lr_intent_hash r)),
      (''idempotency_key'', JStr (lr_idempotency_key r)),
      (''operation_type'', JStr (remediation_operation_value (lr_operation_type r))),
      (''target_resource_type'', JStr (cloud_resource_type_value (lr_target_resource_type r))),
      (''target_resource_id'', JStr (lr_target_resource_id r)),
      (''before_resource'', resource_json (lr_before_resource r)),
      (''after_resource'', opt_json resource_json (lr_after_resource r)),
      (''executed_at'', JStr (iso_json (lr_executed_at r))), (''receipt_hash'', JStr (lr_receipt_hash r))]"

definition verification_json :: "local_verification \<Rightarrow> json" where
  "verification_json v = JObj
     [(''run_id'', JStr (uuid_str (lv_run_id v))), (''proposal_id'', JStr (uuid_str (lv_proposal_id v))),
      (''receipt_hash'', JStr (lv_receipt_hash v)),
      (''operation_type'', JStr (remediation_operation_value (lv_operation_type v))),
      (''target_resource_type'', JStr (cloud_resource_type_value (lv_target_resource_type v))),
      (''target_resource_id'', JStr (lv_target_resource_id v)), (''observed_absent'', JBool (lv_observed_absent v)),
      (''observed_resource'', opt_json resource_json (lv_observed_resource v)),
      (''verified_at'', JStr (iso_json (lv_verified_at v))), (''verification_hash'', JStr (lv_verification_hash v))]"

definition completion_json :: "execution_completion \<Rightarrow> json" where
  "completion_json c = JObj
     [(''run_id'', JStr (uuid_str (ec_run_id c))), (''proposal_id'', JStr (uuid_str (ec_proposal_id c))),
      (''decision'', JStr (approval_decision_value (ec_decision c))),
      (''final_state'', JStr (workflow_state_value (ec_final_state c))), (''approval'', approval_json (ec_approval c)),
      (''receipt'', opt_json receipt_json (ec_receipt c)), (''verification'', opt_json verification_json (ec_verification c)),
      (''reconciled'', JBool (ec_reconciled c))]"

definition result_json :: "('a \<Rightarrow> json) \<Rightarrow> 'a control_result \<Rightarrow> json" where
  "result_json dump r =
     (case r of
        Succeeded x \<Rightarrow> JObj [(''status'', JStr ''SUCCESS''), (''value'', dump x), (''failure'', JNull)]
      | Failed f \<Rightarrow> JObj [(''status'', JStr ''FAILURE''), (''value'', JNull), (''failure'', failure_json f)])"

definition dump_execution_result :: "execution_completion control_result \<Rightarrow> json" where
  "dump_execution_result r = exclude_none (result_json completion_json r)"

section \<open>Every result fits\<close>

lemma plain_name: "list_all (\<lambda>c. char_between CHR ''a'' CHR ''z'' c \<or> char_between CHR ''A'' CHR ''Z'' c \<or> c = CHR ''_'' \<or> c = CHR '':'' \<or> ascii_digit c) s
    \<Longrightarrow> key_bytes s = length s + 2"
  by (rule plain_bytes) (auto simp: list_all_iff plain_def char_between_def ascii_digit_def dquote_def backslash_def)

lemma escape_short: "length (py_escape c) \<le> 6"
  by (simp add: py_escape_def Let_def)

lemma key_bytes_any: "key_bytes s \<le> 6 * length s + 2"
proof -
  have "length (concat (map py_escape s)) \<le> 6 * length s"
    by (induction s) (auto intro: order_trans [OF add_mono [OF escape_short]])
  then show ?thesis by (simp add: key_bytes_def py_quote_def)
qed

lemma operation_bytes: "key_bytes (remediation_operation_value op) \<le> 38"
  by (cases op) (simp_all add: plain_name char_between_def ascii_digit_def)

lemma resource_type_bytes: "key_bytes (cloud_resource_type_value ty) \<le> 30"
  by (cases ty) (simp_all add: plain_name char_between_def ascii_digit_def)

lemma decision_bytes: "key_bytes (approval_decision_value d) \<le> 10"
  by (cases d) (simp_all add: plain_name char_between_def ascii_digit_def)

lemma failure_kind_bytes: "key_bytes (failure_kind_value k) \<le> 30"
  by (cases k) (simp_all add: plain_name char_between_def ascii_digit_def)

lemmas value_bytes = operation_bytes resource_type_bytes decision_bytes failure_kind_bytes

lemma final_state_bytes: "st \<in> {WS_DENIED_BY_HUMAN, WS_SUCCESS_WITH_EVIDENCE} \<Longrightarrow> key_bytes (workflow_state_value st) \<le> 24"
  by (auto simp: plain_name char_between_def ascii_digit_def)

lemma failure_bytes:
  assumes "valid_failure_detail f"
  shows "json_bytes (failure_json f) \<le> 3500"
proof -
  have "key_bytes (f_code f) \<le> 258" "key_bytes (f_message f) \<le> 3074"
    using assms key_bytes_any [of "f_message f"]
    by (auto simp: valid_failure_detail_def short_identifier_def identifier_bytes non_empty_text_def)
  with value_bytes(4) [of "f_kind f"] show ?thesis
    by (simp add: failure_json_def json_bytes_simps member_bytes_def plain_name char_between_def)
qed

lemma receipt_bytes:
  assumes "valid_receipt r" "python_instant (dt_micros (lr_executed_at r))"
  shows "json_bytes (receipt_json r) \<le> 1600 + 2 * json_bytes (resource_json (lr_before_resource r))"
proof -
  have id: "key_bytes (lr_target_resource_id r) \<le> 258" "key_bytes (lr_idempotency_key r) \<le> 258"
    using assms(1) by (auto simp: valid_receipt_def short_identifier_def idempotency_key_def identifier_bytes)
  have h: "key_bytes (lr_proposal_hash r) = 66" "key_bytes (lr_evidence_hash r) = 66" "key_bytes (lr_decision_hash r) = 66"
    "key_bytes (lr_intent_hash r) = 66" "key_bytes (lr_receipt_hash r) = 66"
    using assms(1) by (simp_all add: valid_receipt_def digest_bytes)
  have a: "json_bytes (opt_json resource_json (lr_after_resource r)) \<le> json_bytes (resource_json (lr_before_resource r))"
    using assms(1) by (intro resource_after_smaller) (simp add: valid_receipt_def)
  from iso_json_bytes [OF assms(2)] id h a value_bytes(1) [of "lr_operation_type r"] value_bytes(2) [of "lr_target_resource_type r"]
  show ?thesis by (simp add: receipt_json_def json_bytes_simps member_bytes_def uuid_bytes plain_name char_between_def)
qed

lemma verification_bytes:
  assumes "valid_local_verification v" "python_instant (dt_micros (lv_verified_at v))"
  shows "json_bytes (verification_json v) \<le> 1000 + json_bytes (opt_json resource_json (lv_observed_resource v))"
proof -
  have id: "key_bytes (lv_target_resource_id v) \<le> 258"
    using assms(1) by (auto simp: valid_local_verification_def short_identifier_def identifier_bytes)
  have h: "key_bytes (lv_receipt_hash v) = 66" "key_bytes (lv_verification_hash v) = 66"
    using assms(1) by (simp_all add: valid_local_verification_def digest_bytes)
  from iso_json_bytes [OF assms(2)] id h value_bytes(1) [of "lv_operation_type v"] value_bytes(2) [of "lv_target_resource_type v"]
  show ?thesis by (simp add: verification_json_def json_bytes_simps member_bytes_def uuid_bytes plain_name char_between_def)
qed

lemma completion_bytes:
  assumes "valid_completion c" "ec_receipt c = Some r" "ec_verification c = Some v"
    "json_bytes (receipt_json r) \<le> m" "json_bytes (verification_json v) \<le> n"
  shows "json_bytes (completion_json c) \<le> 500 + json_bytes (approval_json (ec_approval c)) + m + n"
  using assms value_bytes(3) [of "ec_decision c"] final_state_bytes [of "ec_final_state c"]
  by (simp add: completion_json_def json_bytes_simps member_bytes_def uuid_bytes plain_name char_between_def opt_json_def
      valid_completion_def)

lemma denial_bytes:
  assumes "valid_completion c" "ec_decision c = AD_DENIED"
  shows "json_bytes (completion_json c) \<le> 500 + json_bytes (approval_json (ec_approval c))"
  using assms value_bytes(3) [of "ec_decision c"] final_state_bytes [of "ec_final_state c"]
  by (simp add: completion_json_def json_bytes_simps member_bytes_def uuid_bytes plain_name char_between_def opt_json_def
      valid_completion_def)

lemma result_bytes:
  "json_bytes (dump_execution_result (Succeeded c)) \<le> 80 + json_bytes (completion_json c)"
  "json_bytes (dump_execution_result (Failed f)) \<le> 80 + json_bytes (failure_json f)"
  unfolding dump_execution_result_def
  by (rule order_trans [OF exclude_none_smaller];
      simp add: result_json_def json_bytes_simps member_bytes_def plain_name char_between_def)+

text \<open>A completion about the resource the checkpoint's evidence holds: the receipt starts from it, the verification
  observed what the receipt left. The instants are instants of a Python datetime.\<close>

definition completion_about :: "checkpoint \<Rightarrow> execution_completion \<Rightarrow> bool" where
  "completion_about ck c \<longleftrightarrow>
     cp_local_approval ck = Some (ec_approval c)
     \<and> (case (ec_receipt c, ec_verification c) of
          (Some r, Some v) \<Rightarrow>
            (case cp_resource_evidence ck of None \<Rightarrow> False | Some e \<Rightarrow> lr_before_resource r = ev_resource e)
            \<and> lv_observed_resource v = lr_after_resource r
            \<and> python_instant (dt_micros (lr_executed_at r)) \<and> python_instant (dt_micros (lv_verified_at v))
        | _ \<Rightarrow> True)"

lemma approved_bytes:
  assumes "valid_completion c" "completion_about ck c" "ec_decision c \<noteq> AD_DENIED"
  obtains e where "cp_resource_evidence ck = Some e"
    "json_bytes (completion_json c) \<le> 3100 + json_bytes (approval_json (ec_approval c)) + 3 * json_bytes (resource_json (ev_resource e))"
proof -
  obtain r v where rv: "ec_receipt c = Some r" "ec_verification c = Some v" "valid_receipt r" "valid_local_verification v"
    using assms(1,3) by (auto simp: valid_completion_def split: option.splits)
  then obtain e where e: "cp_resource_evidence ck = Some e" "lr_before_resource r = ev_resource e"
      "lv_observed_resource v = lr_after_resource r"
      "python_instant (dt_micros (lr_executed_at r))" "python_instant (dt_micros (lv_verified_at v))"
    using assms(2) by (auto simp: completion_about_def split: option.splits)
  have "json_bytes (opt_json resource_json (lr_after_resource r)) \<le> json_bytes (resource_json (lr_before_resource r))"
    using rv(3) by (intro resource_after_smaller) (simp add: valid_receipt_def)
  then have "json_bytes (verification_json v) \<le> 1000 + json_bytes (resource_json (ev_resource e))"
    using verification_bytes [OF rv(4) e(5)] e(2,3) by simp
  moreover have "json_bytes (receipt_json r) \<le> 1600 + 2 * json_bytes (resource_json (ev_resource e))"
    using receipt_bytes [OF rv(3) e(4)] e(2) by simp
  ultimately have "json_bytes (completion_json c) \<le> 500 + json_bytes (approval_json (ec_approval c))
      + (1600 + 2 * json_bytes (resource_json (ev_resource e))) + (1000 + json_bytes (resource_json (ev_resource e)))"
    by (intro completion_bytes [OF assms(1) rv(1,2)])
  with e(1) that show ?thesis by simp
qed

text \<open>Property C27. The budget reserved before an execution is enough for every outcome: the JSON text of a typed failure,
  of a denial or of a completion about the checkpoint's resource, as the service measures it, is no longer than the
  bound computed from the checkpoint before the call, so a call that passed the preflight never fails the output
  limit after its effect.\<close>

theorem execution_result_fits_budget:
  assumes "case res of Succeeded c \<Rightarrow> valid_completion c \<and> completion_about ck c | Failed f \<Rightarrow> valid_failure_detail f"
  shows "json_bytes (dump_execution_result res) \<le> execution_result_upper_bound (Some ck)"
proof (cases res)
  case (Failed f)
  then have "json_bytes (failure_json f) \<le> 3500" using assms by (intro failure_bytes) simp
  then show ?thesis using result_bytes(2) [of f] Failed by (simp add: execution_result_upper_bound_def)
next
  case (Succeeded c)
  then have c: "valid_completion c" "completion_about ck c" using assms by simp_all
  then have a: "cp_local_approval ck = Some (ec_approval c)" by (simp add: completion_about_def)
  show ?thesis
  proof (cases "ec_decision c = AD_DENIED")
    case True
    from denial_bytes [OF c(1) this] result_bytes(1) [of c] show ?thesis
      by (simp add: Succeeded execution_result_upper_bound_def a)
  next
    case False
    obtain e where "cp_resource_evidence ck = Some e" "json_bytes (completion_json c)
        \<le> 3100 + json_bytes (approval_json (ec_approval c)) + 3 * json_bytes (resource_json (ev_resource e))"
      using approved_bytes [OF c False] by blast
    with result_bytes(1) [of c] show ?thesis by (simp add: Succeeded execution_result_upper_bound_def a)
  qed
qed

end
