(* ===== verification/NZ_Service_Witnesses.thy ===== *)
theory NZ_Service_Witnesses
  imports NZ_Witnesses NZ_Service_Safety NZ_Boundary NZ_Output_Bound
begin

text \<open>
  The theorems about planning, the ledger and the service at concrete inputs, over the records and worlds of
  the scenario.
\<close>

section \<open>Planning\<close>

lemma sc_evidence_findings: "ev_findings sc_evidence = findings (ev_resource sc_evidence)"
  by (simp add: sc_evidence_def sc_evidence0_def sc_eip_eq)

text \<open>The candidate the policy prescribes for the evidence of the scenario.\<close>

definition sc_candidate :: model_plan_candidate where
  "sc_candidate = action_candidate PD_PROPOSAL RO_RELEASE_ELASTIC_IP CRT_ELASTIC_IP MOCK_UNATTACHED_EIP_ID
     [(''allocation_id'', JStr MOCK_UNATTACHED_EIP_ID)] AG_PLAN_AND_CONFIRM"

lemma sc_canonical: "canonical_model_candidate sc_evidence = Inr sc_candidate"
  using canonical_candidate_exists [OF sc_evidence_valid sc_evidence_findings]
  by (auto simp: canonical_model_candidate_def sc_evidence_def sc_evidence0_def sc_eip_eq sc_candidate_def result_simps)

lemma sc_answers: "py_strip ''{}'' \<noteq> []" "utf8_length ''{}'' \<le> 8192" "py_strip ''plan'' \<noteq> []" "utf8_length ''plan'' \<le> 8192"
  by code_simp+

lemma sc_plan:
  assumes "py_strip out \<noteq> []" "utf8_length out \<le> 8192" "read_candidate out = Some sc_candidate"
  shows "\<exists>pl. PlanRemediation_execute read_candidate sc_evidence out sc_pid (utc 50) = Inr (Succeeded pl)
           \<and> plan_disposition_of pl = PD_PROPOSAL"
proof -
  have c: "mc_disposition sc_candidate = PD_PROPOSAL" "mc_operation_type sc_candidate = Some RO_RELEASE_ELASTIC_IP"
      "mc_normalized_parameters sc_candidate = Some [(''allocation_id'', JStr MOCK_UNATTACHED_EIP_ID)]"
      "mc_claimed_authority sc_candidate = Some AG_PLAN_AND_CONFIRM" by (simp_all add: sc_candidate_def action_candidate_def)
  from created_proposal_exists [OF sc_canonical sc_evidence_valid sc_evidence_findings _ _ _ c(2-4), of sc_pid "utc 50"]
  obtain p where p: "RemediationProposal_create sc_pid sc_evidence RO_RELEASE_ELASTIC_IP
      [(''allocation_id'', JStr MOCK_UNATTACHED_EIP_ID)] AG_PLAN_AND_CONFIRM (risk_text RO_RELEASE_ELASTIC_IP) (utc 50)
      (plus_seconds (utc 50) 86400) = Inr p" using c(1) by auto
  have "\<not> (\<exists>x. planned_proposal sc_evidence sc_candidate sc_pid (utc 50) = Inl x)"
    using planned_proposal_total [OF sc_canonical sc_evidence_valid] c(1) by auto
  then have "\<exists>pl. planned_proposal sc_evidence sc_candidate sc_pid (utc 50) = Inr (Succeeded pl) \<and> plan_disposition_of pl = PD_PROPOSAL"
    using p by (auto simp: planned_proposal_def c result_simps validated_def split: if_splits)
  then show ?thesis using assms c(1) by (simp add: plan_accepted_iff sc_canonical)
qed

lemmas sc_planned = sc_plan [OF sc_answers(1,2), where read_candidate = "\<lambda>_. Some sc_candidate", OF refl]

theorem plan_is_independent_of_model_witness:
  "\<exists>pl1 pl2. PlanRemediation_execute (\<lambda>_. Some sc_candidate) sc_evidence ''{}'' sc_pid (utc 50) = Inr (Succeeded pl1)
     \<and> PlanRemediation_execute (\<lambda>s. if s = ''plan'' then Some sc_candidate else None) sc_evidence ''plan'' sc_pid (utc 50)
         = Inr (Succeeded pl2)
     \<and> pl1 = pl2"
proof -
  obtain pl1 where 1: "PlanRemediation_execute (\<lambda>_. Some sc_candidate) sc_evidence ''{}'' sc_pid (utc 50) = Inr (Succeeded pl1)"
    using sc_planned by blast
  obtain pl2 where 2: "PlanRemediation_execute (\<lambda>s. if s = ''plan'' then Some sc_candidate else None) sc_evidence ''plan'' sc_pid (utc 50)
      = Inr (Succeeded pl2)" using sc_plan [OF sc_answers(3,4), of "\<lambda>s. if s = ''plan'' then Some sc_candidate else None"] by auto
  from plan_is_independent_of_model [OF 1 2] 1 2 show ?thesis by blast
qed

theorem accepted_plan_is_bound_and_inert_witness:
  "\<exists>pl p. PlanRemediation_execute (\<lambda>_. Some sc_candidate) sc_evidence ''{}'' sc_pid (utc 50) = Inr (Succeeded pl)
     \<and> plan_proposal pl = Some p \<and> rp_run_id p = ev_run_id sc_evidence \<and> rp_evidence_hash p = ev_evidence_hash sc_evidence
     \<and> rp_status p = PS_PROPOSED \<and> rp_expires_at p = plus_seconds (utc 50) 86400
     \<and> rp_authority_class p = AG_PLAN_AND_CONFIRM \<and> rp_operation_type p \<noteq> RO_APPLY_REQUIRED_TAGS"
proof -
  obtain pl where pl: "PlanRemediation_execute (\<lambda>_. Some sc_candidate) sc_evidence ''{}'' sc_pid (utc 50) = Inr (Succeeded pl)"
      "plan_disposition_of pl = PD_PROPOSAL" using sc_planned by blast
  from accepted_plan_is_bound_and_inert [OF pl(1)] pl show ?thesis by (auto split: option.splits)
qed

theorem advisor_plan_is_accepted_witness:
  "\<exists>out pl. PortableAdvisor_create_plan (\<lambda>_. ''{}'') sc_evidence = Inr out
     \<and> PlanRemediation_execute (\<lambda>_. Some sc_candidate) sc_evidence out sc_pid (utc 50) = Inr (Succeeded pl)"
  by (rule advisor_plan_is_accepted [OF sc_evidence_valid sc_evidence_findings])
     (simp_all add: sc_canonical sc_answers [simplified])

definition sc_lax_int :: "json \<Rightarrow> int option" where
  "sc_lax_int v = (case v of JInt n \<Rightarrow> Some n | _ \<Rightarrow> None)"

theorem planned_action_removes_finding_witness:
  "\<exists>pl p. PlanRemediation_execute (\<lambda>_. Some sc_candidate) sc_evidence ''{}'' sc_pid (utc 50) = Inr (Succeeded pl)
     \<and> plan_proposal pl = Some p \<and> effect_of sc_lax_int p sc_eip = Inr None"
proof -
  obtain pl where pl: "PlanRemediation_execute (\<lambda>_. Some sc_candidate) sc_evidence ''{}'' sc_pid (utc 50) = Inr (Succeeded pl)"
      "plan_disposition_of pl = PD_PROPOSAL" using sc_planned by blast
  then obtain p where p: "plan_proposal pl = Some p"
    by (auto simp: plan_accepted_iff sc_canonical planned_proposal_def result_simps sc_candidate_def action_candidate_def split: sum.splits)
  have lax: "\<And>n. sc_lax_int (JInt n) = Some n" by (simp add: sc_lax_int_def)
  have "ev_resource sc_evidence = sc_eip" by (simp add: sc_evidence_def sc_evidence0_def)
  with planned_action_removes_finding [OF lax sc_evidence_findings pl(1,2) p] pl(1) p show ?thesis by (simp add: sc_eip_eq)
qed

section \<open>The provenance log\<close>

definition sc_record :: json where
  "sc_record = provenance_record (isoformat (utc 0)) ''start'' GENESIS_PREV_HASH (JObj [(''a'', JInt 1)])"

lemma sc_append: "append_event_record (\<lambda>_. []) (utc 0) [] ''start'' (JObj [(''a'', JInt 1)]) = Inr sc_record"
proof -
  have "py_strip ''start'' = ''start''" by code_simp
  then show ?thesis
    using own_log_latest [OF own_log_empty, of "\<lambda>_. []"] by (simp add: append_event_record_def ensure_def sc_record_def)
qed

lemma sc_log: "append_many (\<lambda>_. []) [] [(utc 0, ''start'', JObj [(''a'', JInt 1)])] = Inr [sc_record]"
  by (simp add: sc_append)

theorem appended_log_verifies_witness:
  "vr_ok (verify_provenance_chain [sc_record]) \<and> vr_entry_count (verify_provenance_chain [sc_record]) = 1
   \<and> append_many (\<lambda>_. []) [] (take 0 [(utc 0, ''start'', JObj [(''a'', JInt 1)])]) = Inr (take 0 [sc_record])"
  using appended_log_verifies [OF sc_log] by auto

theorem provenance_is_tamper_evident_witness: "list_all2 same_event [sc_record] [sc_record]"
proof (rule provenance_is_tamper_evident)
  obtain t where "own_log [sc_record] t" using own_log_append [OF own_log_empty sc_append] by auto
  then show "vr_ok (verify_provenance_chain [sc_record])" "vr_ok (verify_provenance_chain [sc_record])"
    by (simp_all add: verify_own_log)
qed simp_all

definition sc_link :: "nat \<Rightarrow> evidence_link" where
  "sc_link m = (case link_new m of Inr l \<Rightarrow> l | Inl _ \<Rightarrow> \<lparr>el_log = [], el_head = JNull, el_max_bytes = 0\<rparr>)"

lemma sc_link_new: "link_new m = Inr (sc_link m)"
  using head_seals [of "verify_provenance_chain []"] by (auto simp: link_new_def sc_link_def split: sum.splits)

lemma sc_link_ok: "link_ok (sc_link m) []"
  using sc_link_new by (rule link_ok_new)

lemma sc_link_fields: "el_log (sc_link m) = []" "el_max_bytes (sc_link m) = m" "log_size (sc_link m) = 0"
proof -
  obtain sealed where "seal_local_payload (head_of (verify_provenance_chain [])) HEAD_TYPE = Inr sealed"
    using head_seals [of "verify_provenance_chain []"] by blast
  then show "el_log (sc_link m) = []" "el_max_bytes (sc_link m) = m" by (simp_all add: sc_link_def link_new_def)
  then show "log_size (sc_link m) = 0" by (simp add: log_size_def)
qed


section \<open>Configuration and views\<close>

theorem admitted_configuration_is_bounded_witness:
  "\<exists>m. service_admission True (map_of DEPENDENCIES) NoConfig sc_actor = Inr m \<and> cfg_backend m = ''portable'' \<and> config_ok m
     \<and> snapshot_config NoConfig = ConfigObject m"
proof -
  have "\<exists>m. service_admission True (map_of DEPENDENCIES) NoConfig sc_actor = Inr m"
    by (simp add: service_admission_def post_init_def config_field_def CONFIG_DEFAULTS_def ensure_def Let_def
        module_descriptor_def config_code_def config_fields_def DEPENDENCIES_def JUDGE_SHA_def)
  then obtain m where m: "service_admission True (map_of DEPENDENCIES) NoConfig sc_actor = Inr m" ..
  from admitted_configuration_is_bounded [OF m] m show ?thesis by blast
qed

text \<open>The stored image of a completed run, and its view.\<close>

definition sc_stored_checkpoint :: checkpoint where
  "sc_stored_checkpoint =
     sc_checkpoint WS_SUCCESS_WITH_EVIDENCE AD_APPROVED (Some sc_intent) (Some sc_receipt) (Some sc_verification)"

definition sc_stored :: domain_snapshot where
  "sc_stored = sc_image (sc_run WS_SUCCESS_WITH_EVIDENCE) sc_stored_checkpoint"

lemma sc_stored_loads: "from_snapshot (export_snapshot sc_stored) = Inr sc_stored"
proof -
  have "valid_checkpoint sc_stored_checkpoint"
    unfolding sc_stored_checkpoint_def by (rule sc_checkpoint_valid) (simp_all add: sc_stage_def)
  then have "repo_load (Some (export_snapshot sc_stored)) = Inr sc_stored"
    unfolding sc_stored_def by (intro sc_image_load) (simp_all add: sc_stored_checkpoint_def)
  then show ?thesis by (simp add: repo_load_def)
qed

lemma zero_hash_digest: "sha256_digest ZERO_HASH"
  by code_simp

lemma sc_view:
  "\<exists>sn v. repo_read_run_snapshot (\<lambda>_. ZERO_HASH) IoOk sc_rid 128 (Some (export_snapshot sc_stored)) = Inr sn
     \<and> run_view (\<lambda>_. JNull) (view_of_runtime 0 1) sn = Inr v"
proof -
  have e: "list_audit_events sc_stored sc_rid 128 = Inr []" "count_audit_events sc_stored sc_rid = 0"
    by (simp_all add: list_audit_events_def count_audit_events_def sc_stored_def sc_image_def DomainSnapshot_new_def ensure_def)
  have g: "get_run sc_stored sc_rid = Some (sc_run WS_SUCCESS_WITH_EVIDENCE)"
      "get_checkpoint sc_stored sc_rid = Some sc_stored_checkpoint" by (simp_all add: sc_stored_def)
  have "\<not> contains_sensitive_material JNull" by code_simp
  then show ?thesis
    by (simp add: repo_read_run_snapshot_def sc_stored_loads e g run_view_def ensure_def validated_def valid_run_view_def
        zero_hash_digest sc_stored_checkpoint_def)
qed

theorem run_view_is_truthful_witness:
  "\<exists>v :: local_run_view. vw_run v = sc_run WS_SUCCESS_WITH_EVIDENCE \<and> vw_audit_event_count v = 0 \<and> vw_audit_events v = []
     \<and> vw_checkpoint v = Some (view_of_checkpoint sc_stored_checkpoint) \<and> vw_evidence_snapshot_sha256 v = ZERO_HASH"
proof -
  obtain sn v where sn: "repo_read_run_snapshot (\<lambda>_. ZERO_HASH) IoOk sc_rid 128 (Some (export_snapshot sc_stored)) = Inr sn"
    and v: "run_view (\<lambda>_. JNull) (view_of_runtime 0 1) sn = Inr v" using sc_view by blast
  have "get_run sc_stored sc_rid = Some (vw_run v)" "vw_checkpoint v = map_option view_of_checkpoint (get_checkpoint sc_stored sc_rid)"
      "vw_evidence_snapshot_sha256 v = ZERO_HASH" "vw_audit_event_count v = count_audit_events sc_stored sc_rid"
      "length (vw_audit_events v) = min 128 (count_audit_events sc_stored sc_rid)"
    using run_view_is_truthful [OF sn v] by (auto simp: sc_stored_loads)
  moreover have "count_audit_events sc_stored sc_rid = 0"
    by (simp add: count_audit_events_def sc_stored_def sc_image_def DomainSnapshot_new_def)
  ultimately show ?thesis by (intro exI [where x = v]) (simp add: sc_stored_def)
qed

theorem execution_result_fits_budget_witness:
  "json_bytes (dump_execution_result (Succeeded sc_completion)) \<le> execution_result_upper_bound (Some sc_stored_checkpoint)"
proof (rule execution_result_fits_budget)
  have "completion_about sc_stored_checkpoint sc_completion"
    by (simp add: completion_about_def sc_completion_def sc_stored_checkpoint_def python_instant_def sc_receipt_def sc_receipt0_def
        sc_verification_def sc_verification0_def)
  with sc_completion_valid
  show "case Succeeded sc_completion of
      Succeeded c \<Rightarrow> valid_completion c \<and> completion_about sc_stored_checkpoint c | Failed f \<Rightarrow> valid_failure_detail f" by simp
qed

section \<open>Investigations\<close>

definition sc_planning :: planning_environment where
  "sc_planning = \<lparr>pe_env = sc_running, pe_proposal_id = (\<lambda>_. sc_pid), pe_create_plan = (\<lambda>_ _. ModelText ''{}''),
     pe_read_candidate = (\<lambda>_. Some sc_candidate), pe_milliseconds = (\<lambda>us. us div 1000), pe_py_str = (\<lambda>_. [])\<rparr>"

definition sc_query :: resource_query where
  "sc_query = \<lparr>rq_resource_type = CRT_ELASTIC_IP, rq_resource_id = MOCK_UNATTACHED_EIP_ID, rq_region = MOCK_REGION\<rparr>"

definition sc_waiting :: world where
  "sc_waiting = sc_world (sc_run WS_AWAITING_APPROVAL) (sc_checkpoint WS_AWAITING_APPROVAL AD_APPROVED None None None)"

lemma sc_reconciles:
  "\<exists>c w'. investigate sc_planning (sc_run WS_RECEIVED) sc_query sc_waiting = (Inr (Succeeded c), w') \<and> ic_reconciled c"
proof -
  let ?c = "sc_checkpoint WS_AWAITING_APPROVAL AD_APPROVED None None None"
  have "valid_checkpoint ?c" by (rule sc_checkpoint_valid) (simp_all add: sc_stage_def)
  from sc_image_load [OF sc_run_valid _ this] have l: "repo_load (Some (export_snapshot (sc_image (sc_run WS_AWAITING_APPROVAL) ?c)))
      = Inr (sc_image (sc_run WS_AWAITING_APPROVAL) ?c)" by simp
  have ne: "sc_run WS_AWAITING_APPROVAL \<noteq> sc_run WS_RECEIVED" by (simp add: sc_run_def)
  have p: "rp_status sc_proposal = PS_AWAITING_APPROVAL" "rp_evidence_hash sc_proposal = ev_evidence_hash sc_evidence"
      "non_empty_text (rp_risk_summary sc_proposal)" "rp_authority_class sc_proposal = AG_PLAN_AND_CONFIRM"
      "ev_trace_id sc_evidence = sc_tid"
    by (simp_all add: sc_proposal_def sc_proposal0_def sc_evidence_def sc_evidence0_def)
  show ?thesis using l ne p
    by (simp add: investigate_def find_run_def attempt_def catchc_def bindc_def ret_def store_read_def repo_get_run_def
        repo_get_checkpoint_def repo_read_def sc_planning_def sc_running_def sc_waiting_def reconcile_def reconciled_plan_def
        validated_def valid_plan_def lift_def completion_def Let_def valid_investigation_completion_def)
qed

theorem investigation_completion_is_durable_witness:
  "\<exists>c w'. investigate sc_planning (sc_run WS_RECEIVED) sc_query sc_waiting = (Inr (Succeeded c), w')
     \<and> ic_run_id c = sc_rid \<and> valid_investigation_completion c \<and> investigation_stored w' c"
proof -
  obtain c w' where i: "investigate sc_planning (sc_run WS_RECEIVED) sc_query sc_waiting = (Inr (Succeeded c), w')"
    using sc_reconciles by blast
  have "store_inv (w_store sc_waiting)" unfolding sc_waiting_def by (rule sc_store_inv) (simp_all add: sc_stage_def)
  from investigation_completion_is_durable [OF sc_run_valid this i] i show ?thesis
    by (auto simp: investigation_sound_def)
qed

theorem investigation_is_read_only_witness:
  "w_executor (snd (investigate sc_planning (sc_run WS_RECEIVED) sc_query sc_executing)) = px_new"
proof -
  have "investigate sc_planning (sc_run WS_RECEIVED) sc_query sc_executing =
      (fst (investigate sc_planning (sc_run WS_RECEIVED) sc_query sc_executing),
       snd (investigate sc_planning (sc_run WS_RECEIVED) sc_query sc_executing))" by simp
  from investigation_is_read_only [OF sc_run_valid this] show ?thesis by (simp add: sc_executing_def)
qed

section \<open>The service\<close>

definition sc_config :: module_config where
  "sc_config = \<lparr>cfg_enabled = True, cfg_backend = ''portable'', cfg_aws_enabled = False, cfg_request_ttl_seconds = 600,
     cfg_max_runs = 64, cfg_max_output_bytes = 524288, cfg_max_trace_bytes = 33554432\<rparr>"

definition sc_service_env :: service_env where
  "sc_service_env = \<lparr>se_planning = sc_planning, se_config = sc_config, se_actor = sc_actor, se_run_id = (\<lambda>_. sc_rid),
     se_trace_id = (\<lambda>_. sc_tid), se_correlation_id = (\<lambda>_. sc_cid), se_kill_switch = (\<lambda>_. False),
     se_identity_matches = (\<lambda>_. True), se_link_fault = (\<lambda>_. LF_None), se_operation_id = (\<lambda>_. ''00''),
     se_py_str = (\<lambda>_. []), se_file_digest = (\<lambda>_. ZERO_HASH), se_dump_investigation = (\<lambda>_. JNull),
     se_dump_view = (\<lambda>_. JNull), se_dump_challenge = (\<lambda>_. JNull), se_dump_resolution = (\<lambda>_. JNull),
     se_dump_completion = dump_execution_result, se_dump_ready = (\<lambda>_. JNull), se_read_decision = (\<lambda>_. None)\<rparr>"

definition sc_service :: "nat \<Rightarrow> world \<Rightarrow> service" where
  "sc_service m w = \<lparr>sv_world = w, sv_link = sc_link m, sv_closed = False, sv_uses = 0\<rparr>"

lemma sc_service_sel [simp]:
  "sv_world (sc_service m w) = w" "sv_link (sc_service m w) = sc_link m" "sv_closed (sc_service m w) = False"
  "sv_uses (sc_service m w) = 0" "workflow_env sc_service_env = sc_running" "se_actor sc_service_env = sc_actor"
  "se_config sc_service_env = sc_config" "se_link_fault sc_service_env = (\<lambda>_. LF_None)"
  "se_kill_switch sc_service_env = (\<lambda>_. False)" "se_identity_matches sc_service_env = (\<lambda>_. True)"
  "cfg_max_output_bytes sc_config = 524288"
  by (simp_all add: sc_service_def sc_service_env_def workflow_env_def sc_planning_def sc_config_def)

lemma sc_executing_inv: "store_inv (w_store sc_executing)"
  unfolding sc_executing_def by (rule sc_store_inv) (simp_all add: sc_stage_def)

theorem service_calls_keep_truth_witness:
  "\<exists>sv' ls. foldl (service_step sc_service_env) (sc_service 4000000 sc_executing)
       [CallResume sc_rid True True, CallRequest ''GET'' (run_path sc_rid) None True, CallClose] = sv'
     \<and> px_ok default_mock_resources (w_executor (sv_world sv')) \<and> el_log (sv_link sv') = el_log (sc_link 4000000) @ ls"
proof -
  let ?sv = "sc_service 4000000 sc_executing"
  obtain s where s: "store_image (w_store (sv_world ?sv)) s" using sc_executing_inv by (auto simp: store_inv_image)
  have "px_ok (en_initial_resources (workflow_env sc_service_env)) (w_executor (sv_world ?sv))"
    by (simp add: sc_running_def sc_executing_def px_ok_new default_mock_resources_ok)
  moreover have "link_ok (sv_link ?sv) []" by (simp add: sc_link_ok)
  ultimately show ?thesis
    using service_calls_keep_truth [OF s _ _ HOL.refl, of sc_service_env "[]"
        "[CallResume sc_rid True True, CallRequest ''GET'' (run_path sc_rid) None True, CallClose]"]
    by (simp add: sc_running_def)
qed

theorem refused_call_changes_nothing_witness:
  "\<exists>e sv'. perform sc_service_env ''inspect'' ''/x'' (\<lambda>w. (Inr (), w)) (\<lambda>_. JNull) False False None (sc_service 4000000 sc_executing)
       = (Inl e, sv') \<and> sv_world sv' = sc_executing \<and> sv_link sv' = sc_link 4000000"
proof -
  let ?p = "perform sc_service_env ''inspect'' ''/x'' (\<lambda>w. (Inr (), w)) (\<lambda>_. JNull) False False None (sc_service 4000000 sc_executing)"
  have "?p = (fst ?p, snd ?p)" by simp
  from refused_call_changes_nothing [OF _ this] show ?thesis by (cases ?p) auto
qed

text \<open>A ledger with room for the intent and the reserve.\<close>

definition sc_room :: nat where
  "sc_room = 2000000 + line_bytes (Line (intent_entry sc_service_env ''op'' ''/x'' (sc_service 0 sc_executing) GENESIS_PREV_HASH))"

lemma sc_write_assms:
  "healthy sc_service_env (sc_service sc_room sc_executing) [] GENESIS_PREV_HASH"
  "log_size (sv_link (sc_service sc_room sc_executing)) + 2 * nat (cfg_max_output_bytes (se_config sc_service_env))
     \<le> el_max_bytes (sv_link (sc_service sc_room sc_executing))"
  "log_size (sv_link (sc_service sc_room sc_executing))
     + line_bytes (Line (intent_entry sc_service_env ''op'' ''/x'' (sc_service sc_room sc_executing) GENESIS_PREV_HASH))
     \<le> el_max_bytes (sv_link (sc_service sc_room sc_executing))"
  "(\<lambda>w. (Inr (), w)) ((sv_world (sc_service sc_room sc_executing))\<lparr>w_ticks := w_ticks (sv_world (sc_service sc_room sc_executing)) + 1\<rparr>)
     = (Inr (), sc_executing\<lparr>w_ticks := 1\<rparr>)"
  "int (json_bytes ((\<lambda>_. JNull) ())) \<le> cfg_max_output_bytes (se_config sc_service_env)"
  by (simp_all add: healthy_def sc_link_ok own_log_empty sc_link_fields sc_room_def intent_entry_def json_bytes_simps)
     (simp add: sc_executing_def)



section \<open>A resume that takes effect\<close>

definition sc_resume_path :: string where
  "sc_resume_path = run_path sc_rid @ ''/resume''"

definition sc_confirmation :: "(string \<times> json) list" where
  "sc_confirmation = [(''confirm_execution'', JBool True)]"

lemma sc_approval_bytes: "json_bytes (approval_json (sc_approval AD_APPROVED)) \<le> 2000"
proof -
  have "key_bytes (iso_json (utc 40)) \<le> 30" by (rule iso_json_bytes) (simp add: python_instant_def)
  moreover have "key_bytes (la_request_hash (sc_approval AD_APPROVED)) = 66" "key_bytes (la_proposal_hash (sc_approval AD_APPROVED)) = 66"
    "key_bytes (la_evidence_hash (sc_approval AD_APPROVED)) = 66" "key_bytes (la_decision_hash (sc_approval AD_APPROVED)) = 66"
    "key_bytes (la_decision_nonce_hash (sc_approval AD_APPROVED)) = 66"
    using sc_approval_valid [of AD_APPROVED] by (simp_all add: valid_local_approval_def digest_bytes)
  moreover have "key_bytes sc_actor \<le> 258"
    using sc_text(6) by (simp add: short_identifier_def identifier_bytes)
  moreover have "la_actor_session_id (sc_approval AD_APPROVED) = sc_actor" "la_decided_at (sc_approval AD_APPROVED) = utc 40"
    "la_proposal_version (sc_approval AD_APPROVED) = 2" "la_decision (sc_approval AD_APPROVED) = AD_APPROVED"
    by (simp_all add: sc_approval_def sc_approval0_def)
  moreover have "json_bytes (JInt 2) = 1" by code_simp
  ultimately show ?thesis
    by (simp add: approval_json_def json_bytes_simps member_bytes_def uuid_bytes plain_name char_between_def)
qed

lemma sc_resource_bytes: "json_bytes (resource_json sc_eip) \<le> 2000"
  by code_simp

lemma sc_output_fits:
  "check_execution_output sc_service_env sc_rid sc_executing = (Inr (), sc_executing\<lparr>w_store_uses := 1\<rparr>)"
proof -
  let ?c = "sc_checkpoint WS_APPROVED AD_APPROVED (Some sc_intent) None None"
  have "valid_checkpoint ?c" by (rule sc_checkpoint_valid) (simp_all add: sc_stage_def)
  from sc_image_load [OF sc_run_valid _ this] have l: "repo_load (Some (export_snapshot (sc_image (sc_run WS_EXECUTING) ?c)))
      = Inr (sc_image (sc_run WS_EXECUTING) ?c)" by simp
  have "execution_result_upper_bound (Some ?c) \<le> 524288"
    using sc_approval_bytes sc_resource_bytes by (simp add: execution_result_upper_bound_def)
  then have "\<not> 524288 < int (execution_result_upper_bound (Some ?c))" by simp
  with l show ?thesis
    by (simp add: check_execution_output_def store_read_def repo_get_checkpoint_def repo_read_def sc_running_def
        sc_executing_def)
qed

lemma sc_service_resume:
  assumes "service_resume sc_service_env sc_rid True True (sc_service 4000000 sc_executing) = (r, sv')"
  shows "w_executor (sv_world sv') = px_new\<lparr>px_file := portable_write sc_inventory_after, px_execute_calls := 1, px_mutation_calls := 1\<rparr>"
proof -
  let ?sv = "sc_service 4000000 sc_executing"
  have pf: "perform sc_service_env ''execute-approved-portable'' sc_resume_path (untyped (resume sc_running sc_rid sc_actor))
      dump_execution_result True True (Some (check_execution_output sc_service_env sc_rid)) ?sv = (r, sv')"
    using assms by (simp add: service_resume_def sc_resume_path_def) (simp add: sc_service_env_def)
  have ck: "link_check LF_None 1048576 (sc_link 4000000) = Inr ([], verify_provenance_chain [])"
    by (rule link_ok_check [OF sc_link_ok]) (simp_all add: sc_link_fields)
  let ?sv1 = "?sv\<lparr>sv_uses := 1, sv_world := sc_executing\<lparr>w_store_uses := 1\<rparr>\<rparr>"
  have ad: "admitted sc_service_env True True (Some (check_execution_output sc_service_env sc_rid)) ?sv = (Inr (), ?sv1)"
    by (simp add: admitted_def ck sc_output_fits Let_def)
  obtain l where i: "intent_logged sc_service_env ''00'' ''execute-approved-portable'' sc_resume_path True ?sv1
      = (Inr (), ?sv1\<lparr>sv_link := l, sv_uses := 2, sv_world := sc_executing\<lparr>w_store_uses := 1, w_ticks := 1\<rparr>\<rparr>)"
  proof (rule evidence_append_healthy [where sv = ?sv1 and env = sc_service_env and es = "[]" and kind = "''nonzero_operator_request''"
        and payload = "operation_entry ''00'' ''execute-approved-portable'' sc_resume_path"])
    show "link_ok (sv_link ?sv1) []" "log_size (sv_link ?sv1) \<le> el_max_bytes (sv_link ?sv1)" by (simp_all add: sc_link_ok sc_link_fields)
    show "own_log [] GENESIS_PREV_HASH" by (rule own_log_empty)
  qed (use kinds_stripped in \<open>auto simp: intent_logged_def sc_executing_def numeral_2_eq_2\<close>)
  obtain x w where rs: "resume sc_running sc_rid sc_actor (sc_executing\<lparr>w_store_uses := 1, w_ticks := 1\<rparr>) = (x, w)" by fastforce
  from sc_resume_effect [OF this] have w: "w_executor w
      = px_new\<lparr>px_file := portable_write sc_inventory_after, px_execute_calls := 1, px_mutation_calls := 1\<rparr>"
    by (simp add: sc_executing_def)
  have oid: "se_operation_id sc_service_env n = ''00''" for n by (simp add: sc_service_env_def)
  have ut: "snd (untyped (resume sc_running sc_rid sc_actor) (sc_executing\<lparr>w_store_uses := 1, w_ticks := 1\<rparr>)) = w"
    using rs by (auto simp: untyped_def split: prod.splits sum.splits)
  from pf show ?thesis
  proof (cases rule: perform_cases)
    case (failed e sv1 sv2 w')
    with ad i ut w show ?thesis by (auto simp: oid)
  next
    case (returned v z sv1 sv2 w')
    have "w_executor (sv_world sv') = w_executor w'"
      using keeps_serviceD [OF quiet_service.keeps_result returned(4)] by (simp add: same_executor_def)
    moreover have "w' = w" using returned(1-3) ad i ut by (auto simp: oid)
    ultimately show ?thesis using w by simp
  qed (use ad i oid in auto)
qed

theorem service_effect_is_admitted_witness:
  "\<exists>r sv' oid intent rest w w1. service_request sc_service_env ''POST'' sc_resume_path (Some (JObj sc_confirmation)) True
       (sc_service 4000000 sc_executing) = (r, sv')
     \<and> el_log (sv_link sv') = Line intent # rest
     \<and> logged intent ''nonzero_operator_request'' oid ''execute-approved-portable'' sc_resume_path
     \<and> w_executor w = px_new \<and> w_executor w1 = w_executor (sv_world sv')
     \<and> authorized_effect sc_running sc_rid sc_actor w w1"
proof -
  let ?sv = "sc_service 4000000 sc_executing"
  obtain r sv' where rq: "service_request sc_service_env ''POST'' sc_resume_path (Some (JObj sc_confirmation)) True ?sv = (r, sv')"
    by fastforce
  obtain x sv2 where rs: "service_resume sc_service_env sc_rid True True ?sv = (x, sv2)" by fastforce
  have route: "route_of ''POST'' sc_resume_path = Some (RouteResume sc_rid)"
    by (simp add: route_of_iff sc_resume_path_def)
  have small: "\<not> 16384 < json_bytes (JObj sc_confirmation)"
    by (simp add: sc_confirmation_def json_bytes_simps member_bytes_def plain_name char_between_def)
  have "read_resume sc_confirmation" by (simp add: read_resume_def sc_confirmation_def)
  then have "sv' = sv2"
    using rq rs by (cases x) (auto simp: service_request_def route small dispatch_def split: if_splits)
  with sc_service_resume [OF rs] have "w_executor (sv_world sv') \<noteq> w_executor (sv_world ?sv)"
    by (simp add: sc_executing_def px_new_def)
  moreover have "link_ok (sv_link ?sv) []" "store_inv (w_store (sv_world ?sv))" by (simp_all add: sc_link_ok sc_executing_inv)
  ultimately obtain rid where rid: "sc_resume_path = run_path rid @ ''/resume''" "uuid7 rid"
    and eff: "\<exists>oid intent rest. el_log (sv_link sv') = el_log (sv_link ?sv) @ Line intent # rest
              \<and> logged intent ''nonzero_operator_request'' oid ''execute-approved-portable'' sc_resume_path"
      "\<exists>w w1. w_executor w = w_executor (sv_world ?sv) \<and> w_executor w1 = w_executor (sv_world sv')
              \<and> authorized_effect (workflow_env sc_service_env) rid (se_actor sc_service_env) w w1"
    using service_effect_is_admitted [OF _ _ rq] by blast
  have "route_of ''POST'' sc_resume_path = Some (RouteResume rid)"
    using rid by (simp add: route_of_iff)
  with route have "rid = sc_rid" by simp
  moreover have "w_executor (sv_world ?sv) = px_new" by (simp add: sc_executing_def)
  ultimately show ?thesis using rq eff by (simp add: sc_link_fields)
qed

end
