(* ===== verification/Kernel_Base.thy ===== *)
theory Kernel_Base
  imports Canonical_Json
begin

text \<open>
  The base of the memory kernel: its closed error codes (\<^verbatim>\<open>memory_patch/errors.py\<close>, the reasons
  of \<^verbatim>\<open>mission/governor.py\<close>) and its canonical digests (\<^verbatim>\<open>memory_patch/contracts/serialization.py\<close>).
  A digest is defined only when no text of the value is a machine-specific path.
\<close>

section \<open>Errors\<close>

datatype error_code =
    EC_INVALID_REQUEST | EC_ADMISSION_DENIED | EC_OWNER_DENIED | EC_BACKEND_UNCONFIGURED | EC_MODULE_CLOSED
  | EC_NOT_FOUND | EC_STATE_CONFLICT | EC_INTEGRITY_FAILED | EC_EVIDENCE_DENIED | EC_QUOTA_EXCEEDED
  | EC_IDEMPOTENCY_CONFLICT | EC_CHALLENGE_DENIED | EC_REVIEW_REQUIRED | EC_MIGRATION_DENIED | EC_TARGET_DENIED
  | EC_TRANSACTION_FAILED | EC_RETRY_EXHAUSTED | EC_RECOVERY_REQUIRED | EC_PROVENANCE_PENDING | EC_PROVENANCE_CORRUPT
  | EC_PROVIDER_DENIED | EC_ANN_UNAVAILABLE | EC_UNVERIFIED | EC_INTERNAL_ERROR

datatype governor_reason =
    GR_INVALID_AMOUNT | GR_INVALID_IDENTITY | GR_INVALID_DIGEST | GR_INVALID_POLICY | GR_INVALID_BINDINGS
  | GR_CLOCK_UNSAFE | GR_HISTORY_QUOTA | GR_INTEGRITY | GR_POLICY_BINDING | GR_BUDGET | GR_STALE_EPOCH
  | GR_INVALID_KILL | GR_INVALID_REQUEST | GR_MODEL_BINDING | GR_IDEMPOTENCY | GR_KILL | GR_OPEN | GR_HALF_OPEN
  | GR_REQUIRED | GR_STALE_RESERVATION | GR_NO_DISPATCH_PROOF | GR_DISPATCH_MARKER

text \<open>The exceptions of the kernel. \<^verbatim>\<open>GovernorError\<close> and \<^verbatim>\<open>CommitOutcomeUnknown\<close> are subclasses of
  \<^verbatim>\<open>MemoryPatchError\<close>; \<^verbatim>\<open>AdmissionError\<close>, \<^verbatim>\<open>ContractValidationError\<close> and \<^verbatim>\<open>IntegrityError\<close> are subclasses of
  \<^verbatim>\<open>ValueError\<close>; \<^verbatim>\<open>PyError\<close> is any other exception of Python.\<close>

datatype kernel_error =
    AdmissionError
  | ContractValidationError
  | IntegrityError
  | PyError
  | MemoryPatchError error_code
  | GovernorError governor_reason
  | CommitOutcomeUnknown

fun is_memory_patch_error :: "kernel_error \<Rightarrow> bool" where
  "is_memory_patch_error (MemoryPatchError _) = True"
| "is_memory_patch_error (GovernorError _) = True"
| "is_memory_patch_error CommitOutcomeUnknown = True"
| "is_memory_patch_error _ = False"

type_synonym 'a kernel = "kernel_error + 'a"

definition deny :: "bool \<Rightarrow> governor_reason \<Rightarrow> unit kernel" where
  "deny condition reason = ensure condition (GovernorError reason)"

lemma deny_eq [result_simps]: "deny b e = Inr u \<longleftrightarrow> b" "deny b e = Inl x \<longleftrightarrow> \<not> b \<and> x = GovernorError e"
  by (auto simp: deny_def result_simps)

lemma deny_simps [simp]: "deny True e = Inr ()" "deny False e = Inl (GovernorError e)"
  by (simp_all add: deny_def)

section \<open>Canonical digests\<close>

definition starts_with :: "string \<Rightarrow> string \<Rightarrow> bool" where
  "starts_with p s \<longleftrightarrow> take (length p) s = p"

text \<open>\<^verbatim>\<open>/home/\<close>, \<^verbatim>\<open>/media/\<close>, \<^verbatim>\<open>/Users/\<close>, and the two Windows directories under a drive with either slash.\<close>

definition ascii_letter :: "char \<Rightarrow> bool" where
  "ascii_letter c \<longleftrightarrow> ascii_alnum c \<and> \<not> ascii_digit c"

definition slash :: "char \<Rightarrow> bool" where
  "slash c \<longleftrightarrow> c = backslash \<or> c = CHR ''/''"

definition drive_path :: "string \<Rightarrow> bool" where
  "drive_path s \<longleftrightarrow>
     (case s of
        d # c # x # rest \<Rightarrow>
          ascii_letter d \<and> c = CHR '':'' \<and> slash x
          \<and> (\<exists>dir \<in> {''Users'', ''Documents and Settings''}.
                starts_with dir rest \<and> (case drop (length dir) rest of y # _ \<Rightarrow> slash y | [] \<Rightarrow> False))
      | _ \<Rightarrow> False)"

definition machine_path :: "string \<Rightarrow> bool" where
  "machine_path s \<longleftrightarrow>
     starts_with ''/home/'' s \<or> starts_with ''/media/'' s \<or> starts_with ''/Users/'' s \<or> drive_path s"

text \<open>Values are checked, keys are not.\<close>

fun canonical_ok :: "json \<Rightarrow> bool" where
  "canonical_ok (JStr s) = (\<not> machine_path s)"
| "canonical_ok (JArr vs) = list_all canonical_ok vs"
| "canonical_ok (JObj kvs) = list_all (\<lambda>kv. canonical_ok (snd kv)) kvs"
| "canonical_ok v = True"

definition canonical_sha256 :: "json \<Rightarrow> string kernel" where
  "canonical_sha256 v = (if canonical_ok v then Inr (sha256_text (dumps_raw v)) else Inl ContractValidationError)"

lemma canonical_sha256_eq [result_simps]:
  "canonical_sha256 v = Inr s \<longleftrightarrow> canonical_ok v \<and> s = sha256_text (dumps_raw v)"
  by (auto simp: canonical_sha256_def)

lemma canonical_sha256_inj:
  assumes "canonical_sha256 v = Inr s" "canonical_sha256 w = Inr s" "inj_on sha256_text {dumps_raw v, dumps_raw w}"
  shows "canon v = canon w"
proof -
  have "sha256_text (dumps_raw v) = sha256_text (dumps_raw w)" using assms(1,2) by (simp add: canonical_sha256_eq)
  then have "dumps_raw v = dumps_raw w" by (rule inj_onD [OF assms(3)]) simp_all
  then show ?thesis by (rule dumps_raw_inj)
qed

definition sha256_hex_text :: "string \<Rightarrow> bool" where
  "sha256_hex_text s \<longleftrightarrow> length s = 64 \<and> list_all hex_lower s"

lemma canonical_sha256_hex: "canonical_sha256 v = Inr s \<Longrightarrow> sha256_hex_text s"
  by (auto simp: result_simps sha256_hex_text_def sha256_text_shape list_all_iff)

text \<open>\<^verbatim>\<open>require_non_empty\<close>.\<close>

definition require_non_empty :: "string \<Rightarrow> unit kernel" where
  "require_non_empty value = ensure (py_strip value \<noteq> []) ContractValidationError"

definition require_sha256_hex :: "string \<Rightarrow> unit kernel" where
  "require_sha256_hex value = ensure (sha256_hex_text value) ContractValidationError"

definition opt_str :: "string option \<Rightarrow> json" where
  "opt_str v = (case v of None \<Rightarrow> JNull | Some s \<Rightarrow> JStr s)"

definition opt_int :: "int option \<Rightarrow> json" where
  "opt_int v = (case v of None \<Rightarrow> JNull | Some n \<Rightarrow> JInt n)"

end
