(* ===== verification/Core_Admission.thy ===== *)
theory Core_Admission
  imports Kernel_Base
begin

text \<open>
  The core's local admission, \<^verbatim>\<open>core_admission.py\<close>: the operator's assignment, principals with a
  single purpose and a lifetime of five minutes, sealed with a process-local key, and the check that
  every service makes before it acts. The theorem says that what the check accepts was issued by
  this core for exactly that purpose.
\<close>

section \<open>Assignments and principals\<close>

datatype core_capability =
    CC_READ | CC_CANDIDATE | CC_PROPOSE | CC_VALIDATE | CC_OWNER_APPROVAL | CC_COMMIT | CC_ACTIVATE | CC_MANAGE
  | CC_REVIEW | CC_EVIDENCE_CAPTURE | CC_MIGRATE

fun core_capability_value :: "core_capability \<Rightarrow> string" where
  "core_capability_value CC_READ = ''read''"
| "core_capability_value CC_CANDIDATE = ''candidate''"
| "core_capability_value CC_PROPOSE = ''propose''"
| "core_capability_value CC_VALIDATE = ''validate''"
| "core_capability_value CC_OWNER_APPROVAL = ''owner_approval''"
| "core_capability_value CC_COMMIT = ''commit''"
| "core_capability_value CC_ACTIVATE = ''activate''"
| "core_capability_value CC_MANAGE = ''manage''"
| "core_capability_value CC_REVIEW = ''review''"
| "core_capability_value CC_EVIDENCE_CAPTURE = ''evidence_capture''"
| "core_capability_value CC_MIGRATE = ''migrate''"

datatype core_actor = ACT_OWNER_HUMAN | ACT_HUMAN_REVIEWER | ACT_COMMIT_SERVICE | ACT_CRITIC

fun core_actor_value :: "core_actor \<Rightarrow> string" where
  "core_actor_value ACT_OWNER_HUMAN = ''owner_human''"
| "core_actor_value ACT_HUMAN_REVIEWER = ''human_reviewer''"
| "core_actor_value ACT_COMMIT_SERVICE = ''commit_service''"
| "core_actor_value ACT_CRITIC = ''critic''"

definition core_identity :: "string \<Rightarrow> bool" where
  "core_identity v \<longleftrightarrow>
     py_strip v \<noteq> [] \<and> length v \<le> 256 \<and> list_all (\<lambda>c. 32 \<le> (of_char c :: nat) \<and> (of_char c :: nat) \<noteq> 127) v"

record owner_scope =
  sc_tenant_id :: string
  sc_owner_id :: string
  sc_space_id :: string
  sc_slot_id :: string

definition valid_owner_scope :: "owner_scope \<Rightarrow> bool" where
  "valid_owner_scope s \<longleftrightarrow>
     core_identity (sc_tenant_id s) \<and> core_identity (sc_owner_id s) \<and> core_identity (sc_space_id s) \<and> core_identity (sc_slot_id s)"

definition scope_binding :: "owner_scope \<Rightarrow> json" where
  "scope_binding s = JArr [JStr (sc_tenant_id s), JStr (sc_owner_id s), JStr (sc_space_id s), JStr (sc_slot_id s)]"

text \<open>A frozen set of texts is a list without regard to order and repetition.\<close>

record owner_assignment =
  oa_scope :: owner_scope
  oa_capabilities :: "core_capability list"
  oa_hat_ids :: "string list"
  oa_model_binding_ids :: "string list"
  oa_revision :: int
  oa_operator_approved :: bool
  oa_hosted_multi_user :: bool

definition valid_owner_assignment :: "owner_assignment \<Rightarrow> bool" where
  "valid_owner_assignment a \<longleftrightarrow>
     oa_operator_approved a \<and> \<not> oa_hosted_multi_user a \<and> 1 \<le> oa_revision a
     \<and> length (oa_capabilities a) \<in> {1..128} \<and> length (oa_hat_ids a) \<in> {1..128} \<and> length (oa_model_binding_ids a) \<in> {1..128}
     \<and> list_all core_identity (oa_hat_ids a) \<and> list_all core_identity (oa_model_binding_ids a)"

record core_principal =
  pr_scope :: owner_scope
  pr_capability :: core_capability
  pr_actor :: core_actor
  pr_session :: string
  pr_revision :: int
  pr_hat_ids :: "string list"
  pr_model_binding_ids :: "string list"
  pr_issued_at :: datetime
  pr_expires_at :: datetime
  pr_seal :: "byte list"

record core_admission =
  ca_assignment :: "owner_assignment option"
  ca_seal_key :: "byte list"
  ca_session :: string
  ca_closed :: bool

section \<open>The seal\<close>

definition word_bytes :: "w32 \<Rightarrow> byte list" where
  "word_bytes w = map (\<lambda>i. ucast (drop_bit (8 * (3 - i)) w)) [0..<4]"

definition sha256_bytes :: "byte list \<Rightarrow> byte list" where
  "sha256_bytes m = concat (map word_bytes (sha_blocks (words_of (sha_pad m)) H256))"

text \<open>\<^verbatim>\<open>hmac.digest(key, message, sha256)\<close> for keys of at most one block.\<close>

definition hmac_sha256 :: "byte list \<Rightarrow> byte list \<Rightarrow> byte list" where
  "hmac_sha256 key m =
     (let k = key @ replicate (64 - length key) 0
      in sha256_bytes (map (\<lambda>b. xor b 0x5c) k @ sha256_bytes (map (\<lambda>b. xor b 0x36) k @ m)))"

text \<open>\<^verbatim>\<open>isoformat\<close> of a stamp with an offset in seconds, or a naive one.\<close>

definition stamp_text :: "datetime \<Rightarrow> string" where
  "stamp_text d =
     (case dt_offset d of
        None \<Rightarrow> iso_base (dt_micros d)
      | Some n \<Rightarrow>
          (let a = nat (abs n)
           in iso_base (dt_micros d + n * 1000000) @ (if n < 0 then ''-'' else ''+'') @ zero_pad 2 (a div 3600) @ '':''
              @ zero_pad 2 (a div 60 mod 60) @ (if a mod 60 = 0 then [] else '':'' @ zero_pad 2 (a mod 60))))"

definition sorted_texts :: "string list \<Rightarrow> json" where
  "sorted_texts xs = JArr (map JStr (sort (remdups xs)))"

definition principal_body :: "core_principal \<Rightarrow> json" where
  "principal_body p = JArr
     [scope_binding (pr_scope p), JStr (core_capability_value (pr_capability p)), JStr (core_actor_value (pr_actor p)),
      JStr (pr_session p), JInt (pr_revision p), sorted_texts (pr_hat_ids p), sorted_texts (pr_model_binding_ids p),
      JStr (stamp_text (pr_issued_at p)), JStr (stamp_text (pr_expires_at p))]"

definition principal_text :: "core_principal \<Rightarrow> string" where
  "principal_text p = jprint py_escape (principal_body p)"

definition signature :: "core_admission \<Rightarrow> core_principal \<Rightarrow> byte list" where
  "signature core p = hmac_sha256 (ca_seal_key core) (utf8 (principal_text p))"

section \<open>Issue and check\<close>

definition to_utc :: "datetime \<Rightarrow> datetime kernel" where
  "to_utc d = ebind (ensure (dt_offset d \<noteq> None) AdmissionError) (\<lambda>_. Inr (utc (dt_micros d)))"

definition issue_principal :: "core_admission \<Rightarrow> core_capability \<Rightarrow> core_actor \<Rightarrow> datetime \<Rightarrow> core_principal kernel" where
  "issue_principal core capability actor now =
     (case ca_assignment core of
        None \<Rightarrow> Inl AdmissionError
      | Some a \<Rightarrow>
          ebind (ensure (\<not> ca_closed core \<and> capability \<in> set (oa_capabilities a)) AdmissionError) (\<lambda>_.
          ebind (to_utc now) (\<lambda>stamp.
          let p = \<lparr>pr_scope = oa_scope a, pr_capability = capability, pr_actor = actor, pr_session = ca_session core,
                   pr_revision = oa_revision a, pr_hat_ids = oa_hat_ids a, pr_model_binding_ids = oa_model_binding_ids a,
                   pr_issued_at = stamp, pr_expires_at = plus_seconds stamp 300, pr_seal = []\<rparr>
          in Inr (p\<lparr>pr_seal := signature core p\<rparr>))))"

definition local_operator :: "core_admission \<Rightarrow> core_capability \<Rightarrow> datetime \<Rightarrow> core_principal kernel" where
  "local_operator core capability now =
     issue_principal core capability
       (if capability \<in> {CC_COMMIT, CC_ACTIVATE} then ACT_COMMIT_SERVICE
        else if capability = CC_REVIEW then ACT_HUMAN_REVIEWER else ACT_OWNER_HUMAN) now"

definition critic_candidate :: "core_admission \<Rightarrow> datetime \<Rightarrow> core_principal kernel" where
  "critic_candidate core now = issue_principal core CC_CANDIDATE ACT_CRITIC now"

text \<open>The comparison of a naive stamp with the clock raises \<^verbatim>\<open>TypeError\<close>, which is a denial as well.\<close>

definition within_lifetime :: "core_principal \<Rightarrow> datetime \<Rightarrow> bool" where
  "within_lifetime p now \<longleftrightarrow>
     dt_offset now \<noteq> None \<and> dt_offset (pr_issued_at p) \<noteq> None \<and> dt_offset (pr_expires_at p) \<noteq> None
     \<and> dt_micros (pr_issued_at p) \<le> dt_micros now \<and> dt_micros now < dt_micros (pr_expires_at p)"

definition require :: "core_admission \<Rightarrow> core_principal \<Rightarrow> core_capability \<Rightarrow> owner_scope option \<Rightarrow> datetime \<Rightarrow> owner_scope kernel" where
  "require core p capability scope now =
     (case ca_assignment core of
        None \<Rightarrow> Inl AdmissionError
      | Some a \<Rightarrow>
          if \<not> ca_closed core \<and> pr_capability p = capability \<and> pr_scope p = oa_scope a
             \<and> (scope = None \<or> scope = Some (pr_scope p))
             \<and> pr_revision p = oa_revision a \<and> pr_session p = ca_session core
             \<and> set (pr_hat_ids p) = set (oa_hat_ids a)
             \<and> set (pr_model_binding_ids p) = set (oa_model_binding_ids a)
             \<and> capability \<in> set (oa_capabilities a) \<and> within_lifetime p now \<and> pr_seal p = signature core p
             \<and> (capability = CC_OWNER_APPROVAL \<longrightarrow> pr_actor p = ACT_OWNER_HUMAN)
             \<and> (pr_actor p = ACT_CRITIC \<longrightarrow> capability = CC_CANDIDATE)
          then Inr (pr_scope p) else Inl AdmissionError)"

definition core_close :: "core_admission \<Rightarrow> core_admission" where
  "core_close core = core\<lparr>ca_closed := True, ca_seal_key := []\<rparr>"

section \<open>What the check accepts was issued\<close>

text \<open>The calls that issue principals: the operator's for a capability, the critic's, at a reading of the clock.\<close>

datatype issue_call = OperatorCall core_capability datetime | CriticCall datetime

fun issue_step :: "core_admission \<Rightarrow> issue_call \<Rightarrow> core_principal kernel" where
  "issue_step core (OperatorCall capability now) = local_operator core capability now"
| "issue_step core (CriticCall now) = critic_candidate core now"

definition issued :: "core_admission \<Rightarrow> issue_call list \<Rightarrow> core_principal set" where
  "issued core calls = {p. \<exists>call \<in> set calls. issue_step core call = Inr p}"

lemma core_values_inj:
  "core_capability_value c = core_capability_value d \<Longrightarrow> c = d" "core_actor_value x = core_actor_value y \<Longrightarrow> x = y"
  by (cases c; cases d; simp) (cases x; cases y; simp)

lemma sorted_texts_eq: "sorted_texts xs = sorted_texts ys \<Longrightarrow> set xs = set ys"
proof -
  assume "sorted_texts xs = sorted_texts ys"
  then have "sort (remdups xs) = sort (remdups ys)" by (simp add: sorted_texts_def inj_map_eq_map inj_def)
  then have "set (sort (remdups xs)) = set (sort (remdups ys))" by simp
  then show ?thesis by simp
qed

lemma principal_body_eq:
  assumes "principal_body p = principal_body q"
  shows "pr_scope p = pr_scope q \<and> pr_capability p = pr_capability q \<and> pr_actor p = pr_actor q \<and> pr_session p = pr_session q
    \<and> pr_revision p = pr_revision q \<and> set (pr_hat_ids p) = set (pr_hat_ids q)
    \<and> set (pr_model_binding_ids p) = set (pr_model_binding_ids q)
    \<and> stamp_text (pr_issued_at p) = stamp_text (pr_issued_at q) \<and> stamp_text (pr_expires_at p) = stamp_text (pr_expires_at q)"
  using assms by (auto simp: principal_body_def scope_binding_def dest: sorted_texts_eq core_values_inj intro: owner_scope.equality)

lemma issue_signed:
  assumes "issue_principal core capability actor now = Inr p"
  shows "pr_seal p = signature core p \<and> pr_capability p = capability \<and> pr_actor p = actor
    \<and> pr_expires_at p = plus_seconds (pr_issued_at p) 300 \<and> pr_issued_at p = utc (dt_micros now)"
  using assms
  by (auto simp: issue_principal_def Let_def result_simps to_utc_def signature_def principal_text_def principal_body_def split: option.splits)

text \<open>Property C23. What the check accepts for a capability was issued by this core for exactly that capability: a principal
  whose seal was copied from issued principals, however its fields were changed, agrees with one of them in scope,
  capability, actor, session, revision, hats, models and the text of its lifetime, unless the sealed texts collide
  under HMAC-SHA256; owner approval is only ever accepted from the human owner, and the critic's principal only
  for candidates.\<close>

theorem accepted_principal_was_issued:
  assumes "require core p capability scope now = Inr s" "pr_seal p \<in> pr_seal ` issued core calls"
    and "inj_on (\<lambda>t. hmac_sha256 (ca_seal_key core) (utf8 t)) (principal_text ` insert p (issued core calls))"
  shows "\<exists>q \<in> issued core calls. pr_capability q = capability \<and> pr_scope q = s \<and> pr_actor q = pr_actor p
    \<and> pr_session q = pr_session p \<and> pr_revision q = pr_revision p \<and> set (pr_hat_ids q) = set (pr_hat_ids p)
    \<and> set (pr_model_binding_ids q) = set (pr_model_binding_ids p)
    \<and> stamp_text (pr_issued_at q) = stamp_text (pr_issued_at p) \<and> stamp_text (pr_expires_at q) = stamp_text (pr_expires_at p)
    \<and> (capability = CC_OWNER_APPROVAL \<longrightarrow> pr_actor q = ACT_OWNER_HUMAN)
    \<and> (pr_actor q = ACT_CRITIC \<longrightarrow> capability = CC_CANDIDATE)"
proof -
  from assms(2) obtain q where q: "q \<in> issued core calls" "pr_seal p = pr_seal q" by blast
  then have "pr_seal q = signature core q"
    by (auto simp: issued_def local_operator_def critic_candidate_def elim!: issue_step.elims dest!: issue_signed [OF sym])
  moreover have r: "pr_seal p = signature core p" "pr_capability p = capability" "pr_scope p = s"
      "capability = CC_OWNER_APPROVAL \<longrightarrow> pr_actor p = ACT_OWNER_HUMAN" "pr_actor p = ACT_CRITIC \<longrightarrow> capability = CC_CANDIDATE"
    using assms(1) by (auto simp: require_def split: option.splits if_splits)
  ultimately have "hmac_sha256 (ca_seal_key core) (utf8 (principal_text p)) = hmac_sha256 (ca_seal_key core) (utf8 (principal_text q))"
    using q(2) by (simp add: signature_def)
  then have "principal_text p = principal_text q" using assms(3) q(1) by (auto dest: inj_onD)
  then have "principal_body p = principal_body q" by (auto simp: principal_text_def dest: ascii_text.jprint_inj)
  from principal_body_eq [OF this] q(1) r(2-5) show ?thesis by auto
qed

end
