(* ===== verification/Kernel_Transactions.thy ===== *)
theory Kernel_Transactions
  imports Core_Admission
begin

text \<open>
  The transaction runner of the memory kernel, \<^verbatim>\<open>memory_patch/persistence/ports.py\<close> and
  \<^verbatim>\<open>memory_patch/persistence/retry.py\<close>: at most ten attempts of one whole transaction, each under a fresh
  admission check before and after the callback, with the classification of every failure. The database and the
  callback are arguments; what the driver does in an attempt is a record of its faults.
\<close>

section \<open>Failures and retries\<close>

text \<open>What the driver raises: its own exception with the structured SQLSTATE it carries, or an exception of the kernel.\<close>

datatype driver_error = Driver "string option" | Kernel kernel_error

definition sqlstate_shape :: "string \<Rightarrow> bool" where
  "sqlstate_shape s \<longleftrightarrow> length s = 5 \<and> list_all (\<lambda>c. ascii_digit c \<or> char_between CHR ''A'' CHR ''Z'' c) s"

definition extract_sqlstate :: "driver_error \<Rightarrow> string option" where
  "extract_sqlstate e =
     (case e of Driver (Some s) \<Rightarrow> (if sqlstate_shape s then Some s else None) | _ \<Rightarrow> None)"

definition MAX_ATTEMPTS :: nat where
  "MAX_ATTEMPTS = 10"

text \<open>Milliseconds; an attempt outside the range is a configuration error.\<close>

definition backoff :: "nat \<Rightarrow> nat kernel" where
  "backoff attempt =
     (if attempt < 1 \<or> MAX_ATTEMPTS \<le> attempt then Inl PyError else Inr (min 1000 (10 * 2 ^ (attempt - 1))))"

text \<open>The exception that leaves the attempt, or \<^const>\<open>None\<close> for another attempt.\<close>

definition classify :: "bool \<Rightarrow> driver_error \<Rightarrow> kernel_error option" where
  "classify committing e =
     (if e = Kernel CommitOutcomeUnknown \<or> extract_sqlstate e = Some ''40003'' then Some CommitOutcomeUnknown
      else if extract_sqlstate e = Some ''40001'' then None
      else if committing then Some CommitOutcomeUnknown
      else case e of
             Kernel x \<Rightarrow> Some (if is_memory_patch_error x then x else MemoryPatchError EC_TRANSACTION_FAILED)
           | Driver _ \<Rightarrow> Some (MemoryPatchError EC_TRANSACTION_FAILED))"

section \<open>One attempt\<close>

text \<open>
  The clock at the two admission checks, and the faults: the adapter does not begin, one of its calls inside the
  callback fails, the commit fails although its effect may be durable, the rollback or the close fails. A
  serialization failure is a proof that nothing was committed.
\<close>

record attempt =
  at_first :: datetime
  at_second :: datetime
  at_begin :: "driver_error option"
  at_io :: "driver_error option"
  at_commit :: "(driver_error \<times> bool) option"
  at_cleanup :: bool

datatype 'a attempt_end = Finished 'a | Failed kernel_error | Again

definition failed_end :: "bool \<Rightarrow> bool \<Rightarrow> driver_error \<Rightarrow> 'a attempt_end" where
  "failed_end last_one committing e =
     (case classify committing e of
        Some x \<Rightarrow> Failed x
      | None \<Rightarrow> if last_one then Failed (MemoryPatchError EC_RETRY_EXHAUSTED) else Again)"

definition committed :: "attempt \<Rightarrow> 'a \<Rightarrow> 'db \<Rightarrow> 'db \<Rightarrow> (driver_error + 'a) \<times> 'db" where
  "committed at r db db' =
     (case at_commit at of
        None \<Rightarrow> (Inr r, db')
      | Some (e, durable) \<Rightarrow> (Inl e, if durable \<and> extract_sqlstate e \<noteq> Some ''40001'' then db' else db))"

text \<open>The statements of the \<^verbatim>\<open>try\<close> block after \<^verbatim>\<open>begin\<close>: whether the commit was reached, its end and the database.\<close>

definition transaction_body ::
    "core_admission \<Rightarrow> core_principal \<Rightarrow> core_capability \<Rightarrow> ('db \<Rightarrow> ('a \<times> 'db) kernel) \<Rightarrow> attempt \<Rightarrow> 'db
     \<Rightarrow> bool \<times> (driver_error + 'a) \<times> 'db" where
  "transaction_body core p purpose callback at db =
     (case at_io at of
        Some e \<Rightarrow> (False, Inl e, db)
      | None \<Rightarrow>
          (case callback db of
             Inl e \<Rightarrow> (False, Inl (Kernel e), db)
           | Inr (r, db') \<Rightarrow>
               (case require core p purpose (Some (pr_scope p)) (at_second at) of
                  Inl e \<Rightarrow> (False, Inl (Kernel e), db)
                | Inr _ \<Rightarrow> (True, committed at r db db'))))"

definition attempt_once ::
    "core_admission \<Rightarrow> core_principal \<Rightarrow> core_capability \<Rightarrow> ('db \<Rightarrow> ('a \<times> 'db) kernel) \<Rightarrow> bool \<Rightarrow> attempt \<Rightarrow> 'db
     \<Rightarrow> 'a attempt_end \<times> 'db" where
  "attempt_once core p purpose callback last_one at db =
     (case require core p purpose (Some (pr_scope p)) (at_first at) of
        Inl e \<Rightarrow> (Failed e, db)
      | Inr _ \<Rightarrow>
          (case at_begin at of
             Some e \<Rightarrow> (failed_end last_one False e, db)
           | None \<Rightarrow>
               (case transaction_body core p purpose callback at db of
                  (committing, outcome, db') \<Rightarrow>
                    (if at_cleanup at
                     then Failed (if committing then CommitOutcomeUnknown else MemoryPatchError EC_TRANSACTION_FAILED)
                     else case outcome of Inr r \<Rightarrow> Finished r | Inl e \<Rightarrow> failed_end last_one committing e,
                     db'))))"

section \<open>The runner\<close>

record runner =
  rn_core :: core_admission
  rn_configured :: bool
  rn_closed :: bool
  rn_in_transaction :: bool

text \<open>Attempt \<^term>\<open>k\<close> and the \<^term>\<open>n\<close> that are left with it; the result, the pauses and the database.\<close>

fun run_from ::
    "runner \<Rightarrow> core_principal \<Rightarrow> core_capability \<Rightarrow> ('db \<Rightarrow> ('a \<times> 'db) kernel) \<Rightarrow> (nat \<Rightarrow> attempt) \<Rightarrow> nat \<Rightarrow> nat \<Rightarrow> 'db
     \<Rightarrow> 'a kernel \<times> nat list \<times> 'db" where
  "run_from rn p purpose callback ats k 0 db = (Inl (MemoryPatchError EC_RETRY_EXHAUSTED), [], db)"
| "run_from rn p purpose callback ats k (Suc n) db =
     (case attempt_once (rn_core rn) p purpose callback (k = MAX_ATTEMPTS) (ats k) db of
        (Finished r, db') \<Rightarrow> (Inr r, [], db')
      | (Failed e, db') \<Rightarrow> (Inl e, [], db')
      | (Again, db') \<Rightarrow>
          (case backoff k of
             Inl e \<Rightarrow> (Inl e, [], db')
           | Inr ms \<Rightarrow>
               (case run_from rn p purpose callback ats (Suc k) n db' of (r, pauses, db'') \<Rightarrow> (r, ms # pauses, db''))))"

definition run_transaction ::
    "runner \<Rightarrow> core_principal \<Rightarrow> core_capability \<Rightarrow> ('db \<Rightarrow> ('a \<times> 'db) kernel) \<Rightarrow> (nat \<Rightarrow> attempt) \<Rightarrow> 'db
     \<Rightarrow> 'a kernel \<times> nat list \<times> 'db" where
  "run_transaction rn p purpose callback ats db =
     (if rn_closed rn then (Inl (MemoryPatchError EC_MODULE_CLOSED), [], db)
      else if \<not> rn_configured rn then (Inl (MemoryPatchError EC_BACKEND_UNCONFIGURED), [], db)
      else if rn_in_transaction rn then (Inl (MemoryPatchError EC_TRANSACTION_FAILED), [], db)
      else run_from rn p purpose callback ats 1 MAX_ATTEMPTS db)"

section \<open>What an attempt and a run leave behind\<close>

lemma classify_again: "classify committing e = None \<Longrightarrow> extract_sqlstate e = Some ''40001''"
  by (auto simp: classify_def split: if_splits driver_error.splits)

lemma failed_end_cases:
  "failed_end l c e = Again \<Longrightarrow> extract_sqlstate e = Some ''40001''" "failed_end l c e \<noteq> Finished x"
  "failed_end True c e \<noteq> Again"
  by (auto simp: failed_end_def dest: classify_again split: option.splits if_splits)

lemma failed_end_committing:
  "failed_end l True e = Failed x \<Longrightarrow> x = CommitOutcomeUnknown \<or> (x = MemoryPatchError EC_RETRY_EXHAUSTED \<and> extract_sqlstate e = Some ''40001'')"
  by (auto simp: failed_end_def classify_def split: option.splits if_splits)

lemma attempt_truthful:
  assumes "attempt_once core p purpose callback l at db = (out, db')"
  shows "case out of
           Finished r \<Rightarrow> callback db = Inr (r, db')
         | Failed e \<Rightarrow> db' = db \<or> e = CommitOutcomeUnknown \<and> (\<exists>r. callback db = Inr (r, db'))
         | Again \<Rightarrow> db' = db \<and> \<not> l"
  using assms
  by (auto simp: attempt_once_def transaction_body_def committed_def failed_end_cases split: sum.splits option.splits prod.splits
        if_splits attempt_end.splits dest: failed_end_cases(1) failed_end_committing)

text \<open>The pauses of the runner.\<close>

definition pause_schedule :: "nat list" where
  "pause_schedule = [10, 20, 40, 80, 160, 320, 640, 1000, 1000]"

lemma backoff_schedule: "1 \<le> k \<Longrightarrow> k < MAX_ATTEMPTS \<Longrightarrow> backoff k = Inr (pause_schedule ! (k - 1))"
proof -
  assume "1 \<le> k" "k < MAX_ATTEMPTS"
  then have "k \<in> {1, 2, 3, 4, 5, 6, 7, 8, 9}" by (auto simp: MAX_ATTEMPTS_def)
  then show ?thesis by (auto simp: backoff_def pause_schedule_def MAX_ATTEMPTS_def)
qed

lemma run_from_truthful:
  assumes "run_from rn p purpose callback ats k n db = (r, pauses, db')" "k + n = Suc MAX_ATTEMPTS" "1 \<le> k"
  shows "(case r of
            Inr x \<Rightarrow> callback db = Inr (x, db')
          | Inl e \<Rightarrow> db' = db \<or> e = CommitOutcomeUnknown \<and> (\<exists>x. callback db = Inr (x, db')))
        \<and> length pauses \<le> n - 1 \<and> pauses = take (length pauses) (drop (k - 1) pause_schedule)"
  using assms
proof (induction n arbitrary: k r pauses)
  case 0
  then show ?case by auto
next
  case (Suc n)
  obtain out d where a: "attempt_once (rn_core rn) p purpose callback (k = MAX_ATTEMPTS) (ats k) db = (out, d)" by fastforce
  note t = attempt_truthful [OF this]
  show ?case
  proof (cases out)
    case Again
    then have k: "d = db" "k < MAX_ATTEMPTS" "n \<noteq> 0" using t Suc.prems(2) by auto
    obtain r' ps d' where rec: "run_from rn p purpose callback ats (Suc k) n db = (r', ps, d')" by (metis prod_cases3)
    have eq: "r' = r" "pauses = (pause_schedule ! (k - 1)) # ps" "d' = db'"
      using Suc.prems(1) a rec k Suc.prems(3) by (simp_all add: Again backoff_schedule)
    have "k - 1 < length pause_schedule" using k Suc.prems(3) by (simp add: pause_schedule_def MAX_ATTEMPTS_def)
    then have d: "drop (k - 1) pause_schedule = (pause_schedule ! (k - 1)) # drop k pause_schedule"
      using Suc.prems(3) Cons_nth_drop_Suc [of "k - 1" pause_schedule] by simp
    have "Suc k + n = Suc MAX_ATTEMPTS" "1 \<le> Suc k" using Suc.prems(2) by simp_all
    note ih = Suc.IH [OF rec [unfolded eq(1,3)] this]
    then have "length ps \<le> n - 1" by blast
    then have "length pauses \<le> Suc n - 1" using k(3) eq(2) by simp
    moreover have "pauses = take (length pauses) (drop (k - 1) pause_schedule)" using ih unfolding eq(2) d by simp
    ultimately show ?thesis using ih by blast
  qed (use t a Suc.prems in auto)
qed

lemma run_transaction_truthful:
  assumes "run_transaction rn p purpose callback ats db = (r, pauses, db')"
  shows "(case r of
            Inr x \<Rightarrow> callback db = Inr (x, db')
          | Inl e \<Rightarrow> db' = db \<or> e = CommitOutcomeUnknown \<and> (\<exists>x. callback db = Inr (x, db')))
        \<and> length pauses \<le> 9 \<and> pauses = take (length pauses) [10, 20, 40, 80, 160, 320, 640, 1000, 1000]"
proof (cases "rn_closed rn \<or> \<not> rn_configured rn \<or> rn_in_transaction rn")
  case True
  with assms show ?thesis by (auto simp: run_transaction_def split: if_splits)
next
  case False
  with assms have "run_from rn p purpose callback ats 1 MAX_ATTEMPTS db = (r, pauses, db')" by (simp add: run_transaction_def)
  from run_from_truthful [OF this] show ?thesis by (auto simp: MAX_ATTEMPTS_def pause_schedule_def)
qed

text \<open>Property C22. What the runner returns is what happened: a result is the callback's on the database as it was, and its
  effect is committed exactly once; every error other than an unknown outcome leaves the database as it was; and the
  runner pauses at most nine times, by the schedule that doubles up to a second.\<close>

theorem runner_is_truthful:
  assumes "run_transaction rn p purpose callback ats db = (r, pauses, db')"
  shows "(case r of
            Inr x \<Rightarrow> callback db = Inr (x, db')
          | Inl e \<Rightarrow> db' = db \<or> e = CommitOutcomeUnknown \<and> (\<exists>x. callback db = Inr (x, db')))
        \<and> length pauses \<le> 9 \<and> pauses = take (length pauses) [10, 20, 40, 80, 160, 320, 640, 1000, 1000]"
  using assms by (rule run_transaction_truthful)

section \<open>What a client relies on\<close>

text \<open>
  The contract of a transaction port: a call is one callback on the database as it was; a result is the callback's and
  committed, an error left no trace unless its outcome is unknown. The clients are the governor and the jobs.
\<close>

locale transaction_port =
  fixes run :: "('db \<Rightarrow> ('a \<times> 'db) kernel) \<Rightarrow> 'db \<Rightarrow> 'a kernel \<times> 'db"
  assumes returned: "run callback db = (Inr r, db') \<Longrightarrow> callback db = Inr (r, db')"
    and failed: "run callback db = (Inl e, db') \<Longrightarrow> db' = db \<or> e = CommitOutcomeUnknown \<and> (\<exists>r. callback db = Inr (r, db'))"
begin

lemma effect:
  assumes "\<And>r d. callback db = Inr (r, d) \<Longrightarrow> Q r d" "run callback db = (x, db')"
  shows "case x of Inr r \<Rightarrow> Q r db' | Inl e \<Rightarrow> db' = db \<or> e = CommitOutcomeUnknown \<and> (\<exists>r. Q r db')"
  using assms returned [of callback db _ db'] failed [of callback db _ db'] by (cases x) auto

lemma trace:
  assumes "run callback db = (x, db')"
  shows "db' = db \<or> (\<exists>r. callback db = Inr (r, db'))"
  using assms returned [of callback db _ db'] failed [of callback db _ db'] by (cases x) auto

lemma refused:
  assumes "\<And>x. callback db \<noteq> Inr x"
  shows "\<exists>e. run callback db = (Inl e, db)"
proof -
  obtain x db' where run: "run callback db = (x, db')" by fastforce
  with returned [of callback db _ db'] failed [of callback db _ db'] assms show ?thesis by (cases x) auto
qed

end

section \<open>Transient failures are absorbed\<close>

definition transient :: "driver_error option \<Rightarrow> bool" where
  "transient e \<longleftrightarrow> (\<exists>x. e = Some x \<and> extract_sqlstate x = Some ''40001'')"

definition serialization_failure :: "attempt \<Rightarrow> bool" where
  "serialization_failure at \<longleftrightarrow>
     \<not> at_cleanup at
     \<and> (transient (at_begin at)
        \<or> at_begin at = None \<and> (transient (at_io at) \<or> at_io at = None \<and> transient (map_option fst (at_commit at))))"

text \<open>The principal passes both checks of the attempt.\<close>

definition stays_admitted :: "core_admission \<Rightarrow> core_principal \<Rightarrow> core_capability \<Rightarrow> attempt \<Rightarrow> bool" where
  "stays_admitted core p purpose at \<longleftrightarrow>
     (\<exists>s. require core p purpose (Some (pr_scope p)) (at_first at) = Inr s)
     \<and> (\<exists>s. require core p purpose (Some (pr_scope p)) (at_second at) = Inr s)"

definition clean :: "attempt \<Rightarrow> bool" where
  "clean at \<longleftrightarrow> at_begin at = None \<and> at_io at = None \<and> at_commit at = None \<and> \<not> at_cleanup at"

lemma classify_transient: "extract_sqlstate e = Some ''40001'' \<Longrightarrow> failed_end False c e = Again"
  by (auto simp: failed_end_def classify_def extract_sqlstate_def split: driver_error.splits)

lemma attempt_transient:
  assumes "serialization_failure at" "callback db = Inr v" "stays_admitted core p purpose at"
  shows "attempt_once core p purpose callback False at db = (Again, db)"
  using assms
  by (cases v) (auto simp: serialization_failure_def stays_admitted_def transient_def attempt_once_def transaction_body_def
      committed_def classify_transient)

lemma attempt_clean:
  assumes "clean at" "callback db = Inr (r, db')" "stays_admitted core p purpose at"
  shows "attempt_once core p purpose callback l at db = (Finished r, db')"
  using assms by (auto simp: clean_def stays_admitted_def attempt_once_def transaction_body_def committed_def)

lemma run_from_absorbs:
  assumes "\<And>i. k \<le> i \<Longrightarrow> i < m \<Longrightarrow> serialization_failure (ats i)" "clean (ats m)"
    and "callback db = Inr (r, db')" "k \<le> m" "m \<le> MAX_ATTEMPTS" "1 \<le> k" "k + n = Suc MAX_ATTEMPTS"
    and "\<And>i. k \<le> i \<Longrightarrow> i \<le> m \<Longrightarrow> stays_admitted (rn_core rn) p purpose (ats i)"
  shows "fst (run_from rn p purpose callback ats k n db) = Inr r \<and> snd (snd (run_from rn p purpose callback ats k n db)) = db'"
  using assms
proof (induction n arbitrary: k)
  case 0
  then show ?case by simp
next
  case (Suc n)
  show ?case
  proof (cases "k = m")
    case True
    then show ?thesis using Suc.prems attempt_clean [of "ats k" callback db r db' "rn_core rn" p purpose] by simp
  next
    case False
    then have k: "k < m" "k < MAX_ATTEMPTS" using Suc.prems by auto
    have "attempt_once (rn_core rn) p purpose callback False (ats k) db = (Again, db)"
      using Suc.prems k by (intro attempt_transient) auto
    moreover have "fst (run_from rn p purpose callback ats (Suc k) n db) = Inr r
        \<and> snd (snd (run_from rn p purpose callback ats (Suc k) n db)) = db'"
      using Suc.prems k by (intro Suc.IH) auto
    ultimately show ?thesis using k Suc.prems(6) by (auto simp: backoff_schedule split: prod.splits)
  qed
qed

text \<open>Up to nine serialization failures, wherever in the attempt they occur, are absorbed: if the principal stays
  admitted and an attempt among the ten is clean, the call returns the callback's result and commits its effect.\<close>

theorem transient_failures_are_absorbed:
  assumes "\<not> rn_closed rn" "rn_configured rn" "\<not> rn_in_transaction rn"
    and "\<And>i. 1 \<le> i \<Longrightarrow> i < m \<Longrightarrow> serialization_failure (ats i)" "clean (ats m)" "1 \<le> m" "m \<le> MAX_ATTEMPTS"
    and "\<And>i. 1 \<le> i \<Longrightarrow> i \<le> m \<Longrightarrow> stays_admitted (rn_core rn) p purpose (ats i)"
    and "callback db = Inr (r, db')"
  shows "\<exists>pauses. run_transaction rn p purpose callback ats db = (Inr r, pauses, db')"
  using run_from_absorbs [of 1 m ats callback db r db' MAX_ATTEMPTS rn p purpose] assms
  by (simp add: run_transaction_def prod_eq_iff)

end
