(* ===== verification/Kernel_Audit.thy ===== *)
theory Kernel_Audit
  imports Kernel_Transactions
begin

text \<open>
  The tables of one owner scope in the memory kernel and the three components that write them:
  \<^verbatim>\<open>memory_patch/contracts/records.py\<close> (audit events and their chain), \<^verbatim>\<open>memory_patch/audit.py\<close> (the domain
  audit with its outbox) and \<^verbatim>\<open>memory_patch/persistence/idempotency.py\<close> (operations that are executed once).
  A stored record is immutable; only the shapes that its writers produce are represented, the values in them are free.
\<close>

section \<open>Record kinds and who may write them\<close>

datatype record_kind =
    RK_SPACE | RK_PATCH | RK_CHALLENGE | RK_APPROVAL | RK_RECEIPT | RK_REVIEW | RK_SOURCE | RK_INGESTION | RK_SHARING
  | RK_AUDIT | RK_OUTBOX | RK_OPERATION | RK_LEARNING

fun write_kinds :: "core_capability \<Rightarrow> record_kind list" where
  "write_kinds CC_CANDIDATE = [RK_PATCH, RK_AUDIT, RK_OUTBOX, RK_OPERATION]"
| "write_kinds CC_PROPOSE = [RK_PATCH, RK_AUDIT, RK_OUTBOX, RK_OPERATION]"
| "write_kinds CC_VALIDATE = [RK_PATCH, RK_AUDIT, RK_OUTBOX, RK_OPERATION]"
| "write_kinds CC_OWNER_APPROVAL = [RK_PATCH, RK_CHALLENGE, RK_APPROVAL, RK_AUDIT, RK_OUTBOX, RK_OPERATION]"
| "write_kinds CC_COMMIT = [RK_PATCH, RK_RECEIPT, RK_AUDIT, RK_OUTBOX, RK_OPERATION]"
| "write_kinds CC_ACTIVATE = [RK_PATCH, RK_RECEIPT, RK_AUDIT, RK_OUTBOX, RK_OPERATION]"
| "write_kinds CC_MANAGE =
     [RK_SPACE, RK_PATCH, RK_SHARING, RK_REVIEW, RK_LEARNING, RK_AUDIT, RK_OUTBOX, RK_OPERATION]"
| "write_kinds CC_REVIEW = [RK_REVIEW, RK_AUDIT, RK_OUTBOX, RK_OPERATION]"
| "write_kinds CC_EVIDENCE_CAPTURE = [RK_SOURCE, RK_INGESTION, RK_AUDIT, RK_OUTBOX, RK_OPERATION]"
| "write_kinds _ = []"

section \<open>Audit events\<close>

datatype actor_type =
    AT_USER | AT_HUMAN_REVIEWER | AT_SYSTEM | AT_COMMIT_SERVICE | AT_KNOWLEDGE_KERNEL | AT_KNOWLEDGE_HAT
  | AT_KNOWLEDGE_HUB | AT_CRITIC_PROMPT_LOOP | AT_MODEL | AT_MODEL_VERIFIER | AT_MIGRATION_SERVICE

fun actor_type_value :: "actor_type \<Rightarrow> string" where
  "actor_type_value AT_USER = ''USER''"
| "actor_type_value AT_HUMAN_REVIEWER = ''HUMAN_REVIEWER''"
| "actor_type_value AT_SYSTEM = ''SYSTEM''"
| "actor_type_value AT_COMMIT_SERVICE = ''COMMIT_SERVICE''"
| "actor_type_value AT_KNOWLEDGE_KERNEL = ''KNOWLEDGE_KERNEL''"
| "actor_type_value AT_KNOWLEDGE_HAT = ''KNOWLEDGE_HAT''"
| "actor_type_value AT_KNOWLEDGE_HUB = ''KNOWLEDGE_HUB''"
| "actor_type_value AT_CRITIC_PROMPT_LOOP = ''CRITIC_PROMPT_LOOP''"
| "actor_type_value AT_MODEL = ''MODEL''"
| "actor_type_value AT_MODEL_VERIFIER = ''MODEL_VERIFIER''"
| "actor_type_value AT_MIGRATION_SERVICE = ''MIGRATION_SERVICE''"

record domain_event =
  av_audit_event_id :: string
  av_tenant_id :: string
  av_user_id :: "string option"
  av_kernel_run_id :: "string option"
  av_event_type :: string
  av_sequence_number :: int
  av_previous_event_hash :: "string option"
  av_resource_type :: string
  av_resource_id :: string
  av_state_before :: "string option"
  av_state_after :: "string option"
  av_actor_type :: actor_type
  av_actor_id :: string
  av_content_hashes :: "(string \<times> string) list"
  av_created_at :: datetime
  av_space_id :: "string option"
  av_payload_reference :: "string option"

definition CONTRACT_SCHEMA_VERSION :: string where
  "CONTRACT_SCHEMA_VERSION = ''1.0.0''"

text \<open>\<^verbatim>\<open>normalize_utc_timestamp\<close>: six digits of the second, always.\<close>

definition utc_text :: "datetime \<Rightarrow> string" where
  "utc_text d =
     (let us = dt_micros d
      in iso_base (us - us mod 1000000) @ ''.'' @ zero_pad 6 (nat (us mod 1000000)) @ ''Z'')"

definition domain_event_json :: "domain_event \<Rightarrow> json" where
  "domain_event_json e = JObj
     [(''schema_version'', JStr CONTRACT_SCHEMA_VERSION), (''audit_event_id'', JStr (av_audit_event_id e)),
      (''tenant_id'', JStr (av_tenant_id e)), (''user_id'', opt_str (av_user_id e)),
      (''kernel_run_id'', opt_str (av_kernel_run_id e)), (''event_type'', JStr (av_event_type e)),
      (''sequence_number'', JInt (av_sequence_number e)), (''previous_event_hash'', opt_str (av_previous_event_hash e)),
      (''resource_type'', JStr (av_resource_type e)), (''resource_id'', JStr (av_resource_id e)),
      (''state_before'', opt_str (av_state_before e)), (''state_after'', opt_str (av_state_after e)),
      (''actor_type'', JStr (actor_type_value (av_actor_type e))), (''actor_id'', JStr (av_actor_id e)),
      (''content_hashes'', JObj (map (\<lambda>(k, v). (k, JStr v)) (av_content_hashes e))),
      (''created_at'', JStr (utc_text (av_created_at e))), (''personal_memory_space_id'', opt_str (av_space_id e)),
      (''protected_payload_reference'', opt_str (av_payload_reference e))]"

text \<open>The payload of its record has the hash as well.\<close>

definition event_payload :: "domain_event \<Rightarrow> string \<Rightarrow> json" where
  "event_payload e h =
     (case domain_event_json e of JObj kvs \<Rightarrow> JObj (kvs @ [(''event_hash'', JStr h)]) | v \<Rightarrow> v)"

text \<open>\<^verbatim>\<open>compute_audit_event_hash\<close>.\<close>

definition event_hash :: "domain_event \<Rightarrow> string kernel" where
  "event_hash e = canonical_sha256 (domain_event_json e)"

definition not_blank :: "string \<Rightarrow> bool" where
  "not_blank s \<longleftrightarrow> py_strip s \<noteq> []"

definition not_blank_option :: "string option \<Rightarrow> bool" where
  "not_blank_option v \<longleftrightarrow> (case v of None \<Rightarrow> True | Some s \<Rightarrow> not_blank s)"

text \<open>\<^verbatim>\<open>AuditEvent.__post_init__\<close>; every failure is a \<^const>\<open>ContractValidationError\<close>.\<close>

definition domain_event_checks :: "domain_event \<Rightarrow> bool" where
  "domain_event_checks e \<longleftrightarrow>
     list_all not_blank [av_audit_event_id e, av_tenant_id e, av_event_type e, av_resource_type e, av_resource_id e, av_actor_id e]
     \<and> not_blank_option (av_user_id e) \<and> not_blank_option (av_kernel_run_id e)
     \<and> 0 \<le> av_sequence_number e
     \<and> (av_sequence_number e = 0 \<longrightarrow> av_previous_event_hash e = None)
     \<and> (0 < av_sequence_number e \<longrightarrow> (case av_previous_event_hash e of None \<Rightarrow> False | Some h \<Rightarrow> sha256_hex_text h))
     \<and> av_content_hashes e \<noteq> []
     \<and> list_all (\<lambda>(k, v). not_blank k \<and> sha256_hex_text v) (av_content_hashes e)
     \<and> not_blank_option (av_payload_reference e)
     \<and> (case av_payload_reference e of None \<Rightarrow> True | Some s \<Rightarrow> \<not> starts_with ''data:'' s)
     \<and> dt_offset (av_created_at e) \<noteq> None
     \<and> (case av_space_id e of None \<Rightarrow> True | Some s \<Rightarrow> av_user_id e \<noteq> None \<and> not_blank s)"

text \<open>Construction: the checks, then the hash, which fails on a machine-specific path.\<close>

definition make_event :: "domain_event \<Rightarrow> (domain_event \<times> string) kernel" where
  "make_event e =
     ebind (ensure (domain_event_checks e) ContractValidationError) (\<lambda>_.
     ebind (event_hash e) (\<lambda>h. Inr (e, h)))"

text \<open>
  \<^verbatim>\<open>verify_audit_chain\<close>. The hash of an event is a function of its fields here, so its recomputation for each
  event always agrees; \<^term>\<open>prev\<close> is the event before with its hash.
\<close>

fun chain_from :: "string list \<Rightarrow> (domain_event \<times> string) option \<Rightarrow> (domain_event \<times> string) list \<Rightarrow> unit kernel" where
  "chain_from seen prev [] = Inr ()"
| "chain_from seen prev ((e, h) # es) =
     ebind (ensure (av_audit_event_id e \<notin> set seen) IntegrityError) (\<lambda>_.
     ebind (ensure (case prev of
                      None \<Rightarrow> av_sequence_number e = 0 \<and> av_previous_event_hash e = None
                    | Some (p, ph) \<Rightarrow>
                        av_sequence_number e = av_sequence_number p + 1 \<and> av_previous_event_hash e = Some ph
                        \<and> av_tenant_id e = av_tenant_id p \<and> dt_micros (av_created_at p) \<le> dt_micros (av_created_at e))
              IntegrityError) (\<lambda>_.
     chain_from (av_audit_event_id e # seen) (Some (e, h)) es))"

definition verify_audit_chain :: "(domain_event \<times> string) list \<Rightarrow> unit kernel" where
  "verify_audit_chain es = chain_from [] None es"

section \<open>The tables\<close>

record audit_row =
  ar_id :: string
  ar_event :: domain_event
  ar_hash :: string

record outbox_row =
  ox_id :: string
  ox_state :: string
  ox_event_id :: string
  ox_event_digest :: string
  ox_operation_digest :: string
  ox_core_entry_hash :: "string option"

definition outbox_payload :: "outbox_row \<Rightarrow> json" where
  "outbox_payload r = JObj
     [(''state'', JStr (ox_state r)), (''event_id'', JStr (ox_event_id r)), (''event_digest'', JStr (ox_event_digest r)),
      (''operation_digest'', JStr (ox_operation_digest r)), (''proof_id'', JStr (ox_id r)),
      (''core_entry_hash'', opt_str (ox_core_entry_hash r))]"

record 'o operation_row =
  op_id :: string
  op_revision :: int
  op_kind :: string
  op_digest :: string
  op_outcome :: 'o

record 'o kernel_db =
  db_operations :: "'o operation_row list"
  db_audit :: "audit_row list"
  db_outbox :: "outbox_row list"

definition empty_db :: "'o kernel_db" where
  "empty_db = \<lparr>db_operations = [], db_audit = [], db_outbox = []\<rparr>"

text \<open>\<^verbatim>\<open>TransactionView.scan\<close> with the limit that every caller here uses; the primary key of the table is the identity.\<close>

definition SCAN_LIMIT :: nat where
  "SCAN_LIMIT = 1024"

definition scan_rows :: "('r \<Rightarrow> string) \<Rightarrow> 'r list \<Rightarrow> 'r list kernel" where
  "scan_rows key rows =
     (let rs = take SCAN_LIMIT rows
      in ebind (ensure (distinct (map key rs)) (MemoryPatchError EC_INTEGRITY_FAILED)) (\<lambda>_. Inr rs))"

text \<open>\<^verbatim>\<open>StoredRecord.__post_init__\<close> for a record of revision one, and \<^verbatim>\<open>TransactionView.insert\<close>.\<close>

definition owner_scope_json :: "owner_scope \<Rightarrow> json" where
  "owner_scope_json s = JObj
     [(''tenant_id'', JStr (sc_tenant_id s)), (''owner_id'', JStr (sc_owner_id s)), (''space_id'', JStr (sc_space_id s)),
      (''slot_id'', JStr (sc_slot_id s))]"

definition stored_record :: "owner_scope \<Rightarrow> string \<Rightarrow> json \<Rightarrow> unit kernel" where
  "stored_record scope ident payload =
     ebind (require_non_empty ident) (\<lambda>_.
     ebind (ensure (length ident \<le> 256) (MemoryPatchError EC_INVALID_REQUEST)) (\<lambda>_.
     ensure (canonical_ok (JStr ident) \<and> canonical_ok (owner_scope_json scope) \<and> canonical_ok payload)
       ContractValidationError))"

definition insert_checks :: "core_capability \<Rightarrow> record_kind \<Rightarrow> string list \<Rightarrow> string \<Rightarrow> unit kernel" where
  "insert_checks purpose kind present ident =
     ebind (ensure (kind \<in> set (write_kinds purpose)) (MemoryPatchError EC_ADMISSION_DENIED)) (\<lambda>_.
     ensure (ident \<notin> set present) (MemoryPatchError EC_STATE_CONFLICT))"

section \<open>The domain audit\<close>

definition decode_audit :: "owner_scope \<Rightarrow> audit_row \<Rightarrow> (domain_event \<times> string) kernel" where
  "decode_audit scope r =
     (case make_event (ar_event r) of
        Inl _ \<Rightarrow> Inl (MemoryPatchError EC_PROVENANCE_CORRUPT)
      | Inr (e, h) \<Rightarrow>
          if h = ar_hash r \<and> ar_id r = av_audit_event_id e \<and> av_tenant_id e = sc_tenant_id scope
             \<and> av_user_id e = Some (sc_owner_id scope) \<and> av_space_id e = Some (sc_space_id scope)
          then Inr (e, h) else Inl (MemoryPatchError EC_PROVENANCE_CORRUPT))"

definition domain_chain :: "owner_scope \<Rightarrow> 'o kernel_db \<Rightarrow> (domain_event \<times> string) list kernel" where
  "domain_chain scope db =
     ebind (scan_rows ar_id (db_audit db)) (\<lambda>rows.
     ebind (ensure (length rows < 1024) (MemoryPatchError EC_QUOTA_EXCEEDED)) (\<lambda>_.
     ebind (traverse (decode_audit scope) rows) (\<lambda>events.
     let events = sort_key (\<lambda>eh. av_sequence_number (fst eh)) events
     in case verify_audit_chain events of
          Inl _ \<Rightarrow> Inl (MemoryPatchError EC_PROVENANCE_CORRUPT)
        | Inr _ \<Rightarrow> Inr events)))"

record operation_binding =
  ob_idempotency_key :: string
  ob_operation_kind :: string
  ob_payload_digest :: string

definition operation_bind :: "string \<Rightarrow> string \<Rightarrow> json \<Rightarrow> operation_binding kernel" where
  "operation_bind k operation payload =
     ebind (canonical_sha256 payload) (\<lambda>d.
     ebind (require_non_empty k) (\<lambda>_.
     ebind (ensure (length k \<le> 128) (MemoryPatchError EC_INVALID_REQUEST)) (\<lambda>_.
     ebind (require_non_empty operation) (\<lambda>_.
     ebind (ensure (length operation \<le> 128) (MemoryPatchError EC_INVALID_REQUEST)) (\<lambda>_.
     Inr \<lparr>ob_idempotency_key = k, ob_operation_kind = operation, ob_payload_digest = d\<rparr>)))))"

definition operation_binding_json :: "operation_binding \<Rightarrow> json" where
  "operation_binding_json b = JObj
     [(''idempotency_key'', JStr (ob_idempotency_key b)), (''operation_kind'', JStr (ob_operation_kind b)),
      (''payload_digest'', JStr (ob_payload_digest b))]"

fun actor_of :: "core_actor \<Rightarrow> actor_type" where
  "actor_of ACT_OWNER_HUMAN = AT_USER"
| "actor_of ACT_HUMAN_REVIEWER = AT_HUMAN_REVIEWER"
| "actor_of ACT_COMMIT_SERVICE = AT_COMMIT_SERVICE"
| "actor_of ACT_CRITIC = AT_CRITIC_PROMPT_LOOP"

text \<open>\<^verbatim>\<open>build_audit_event\<close> for an event of the domain: the tenant is the principal's and the sequence the length of the chain.\<close>

definition next_event ::
    "core_principal \<Rightarrow> operation_binding \<Rightarrow> (domain_event \<times> string) list \<Rightarrow> string \<Rightarrow> string \<Rightarrow> string option \<Rightarrow> string
     \<Rightarrow> string \<Rightarrow> datetime \<Rightarrow> domain_event" where
  "next_event p op events event_id resource_id before after content stamp =
     \<lparr>av_audit_event_id = event_id, av_tenant_id = sc_tenant_id (pr_scope p), av_user_id = Some (sc_owner_id (pr_scope p)),
      av_kernel_run_id = None, av_event_type = ob_operation_kind op, av_sequence_number = int (length events),
      av_previous_event_hash = (if events = [] then None else Some (snd (last events))),
      av_resource_type = ''memory_patch_domain'', av_resource_id = resource_id, av_state_before = before,
      av_state_after = Some after, av_actor_type = actor_of (pr_actor p), av_actor_id = pr_session p,
      av_content_hashes = [(''content'', content), (''operation'', ob_payload_digest op)],
      av_created_at = (if events = [] \<or> dt_micros (av_created_at (fst (last events))) \<le> dt_micros stamp then stamp
                       else av_created_at (fst (last events))),
      av_space_id = Some (sc_space_id (pr_scope p)), av_payload_reference = None\<rparr>"

definition build_event ::
    "core_principal \<Rightarrow> operation_binding \<Rightarrow> (domain_event \<times> string) list \<Rightarrow> string \<Rightarrow> string \<Rightarrow> string option \<Rightarrow> string
     \<Rightarrow> string \<Rightarrow> datetime \<Rightarrow> (domain_event \<times> string) kernel" where
  "build_event p op events event_id resource_id before after content stamp =
     (let e = next_event p op events event_id resource_id before after content stamp
      in ebind (ensure (case events of [] \<Rightarrow> True
                        | _ \<Rightarrow> av_tenant_id e = av_tenant_id (fst (last events))
                             \<and> av_sequence_number e = av_sequence_number (fst (last events)) + 1)
           ContractValidationError) (\<lambda>_. make_event e))"

definition append_domain_event ::
    "core_principal \<Rightarrow> core_capability \<Rightarrow> operation_binding \<Rightarrow> string \<Rightarrow> string \<Rightarrow> string \<Rightarrow> string option \<Rightarrow> string
     \<Rightarrow> string \<Rightarrow> datetime \<Rightarrow> 'o kernel_db \<Rightarrow> 'o kernel_db kernel" where
  "append_domain_event p purpose op event_id proof_id resource_id before after content stamp db =
     ebind (domain_chain (pr_scope p) db) (\<lambda>events.
     ebind (ensure (dt_offset stamp \<noteq> None) ContractValidationError) (\<lambda>_.
     ebind (build_event p op events event_id resource_id before after content stamp) (\<lambda>(e, h).
     ebind (verify_audit_chain (events @ [(e, h)])) (\<lambda>_.
     ebind (stored_record (pr_scope p) event_id (event_payload e h)) (\<lambda>_.
     ebind (insert_checks purpose RK_AUDIT (map ar_id (db_audit db)) event_id) (\<lambda>_.
     ebind (canonical_sha256 (JObj [(''scope'', scope_binding (pr_scope p)), (''operation'', operation_binding_json op)])) (\<lambda>od.
     ebind (stored_record (pr_scope p) proof_id
        (outbox_payload \<lparr>ox_id = proof_id, ox_state = ''PENDING'', ox_event_id = event_id, ox_event_digest = h,
                         ox_operation_digest = od, ox_core_entry_hash = None\<rparr>)) (\<lambda>_.
     ebind (insert_checks purpose RK_OUTBOX (map ox_id (db_outbox db)) proof_id) (\<lambda>_.
     Inr (db\<lparr>db_audit := db_audit db @ [\<lparr>ar_id = event_id, ar_event = e, ar_hash = h\<rparr>],
             db_outbox := db_outbox db @ [\<lparr>ox_id = proof_id, ox_state = ''PENDING'', ox_event_id = event_id, ox_event_digest = h,
                            ox_operation_digest = od, ox_core_entry_hash = None\<rparr>]\<rparr>))))))))))"

section \<open>Operations that are executed once\<close>

definition read_operation :: "'o operation_row \<Rightarrow> operation_binding \<Rightarrow> 'o kernel" where
  "read_operation row binding =
     (if op_kind row = ob_operation_kind binding \<and> op_digest row = ob_payload_digest binding then Inr (op_outcome row)
      else Inl (MemoryPatchError EC_IDEMPOTENCY_CONFLICT))"

definition get_operation :: "'o kernel_db \<Rightarrow> string \<Rightarrow> 'o operation_row option" where
  "get_operation db ident = find (\<lambda>row. op_id row = ident) (db_operations db)"

definition execute_once ::
    "('o \<Rightarrow> json) \<Rightarrow> core_principal \<Rightarrow> core_capability \<Rightarrow> operation_binding \<Rightarrow> ('o kernel_db \<Rightarrow> ('o \<times> 'o kernel_db) kernel)
     \<Rightarrow> 'o kernel_db \<Rightarrow> ('o \<times> bool \<times> 'o kernel_db) kernel" where
  "execute_once render p purpose binding mutation db =
     (case get_operation db (ob_idempotency_key binding) of
        Some row \<Rightarrow> ebind (read_operation row binding) (\<lambda>outcome. Inr (outcome, True, db))
      | None \<Rightarrow>
          ebind (mutation db) (\<lambda>(outcome, db').
          ebind (stored_record (pr_scope p) (ob_idempotency_key binding)
             (JObj [(''operation_kind'', JStr (ob_operation_kind binding)), (''payload_digest'', JStr (ob_payload_digest binding)),
                    (''outcome'', render outcome)])) (\<lambda>_.
          ebind (insert_checks purpose RK_OPERATION (map op_id (db_operations db')) (ob_idempotency_key binding)) (\<lambda>_.
          Inr (outcome, False,
               db'\<lparr>db_operations := db_operations db' @
                 [\<lparr>op_id = ob_idempotency_key binding, op_revision = 1, op_kind = ob_operation_kind binding,
                   op_digest = ob_payload_digest binding, op_outcome = outcome\<rparr>]\<rparr>)))))"

text \<open>\<^verbatim>\<open>reconcile\<close>: never executes.\<close>

definition reconcile_operation :: "'o kernel_db \<Rightarrow> operation_binding \<Rightarrow> 'o kernel" where
  "reconcile_operation db binding =
     (case get_operation db (ob_idempotency_key binding) of
        None \<Rightarrow> Inl (MemoryPatchError EC_RECOVERY_REQUIRED)
      | Some row \<Rightarrow> read_operation row binding)"

section \<open>The chain after an append\<close>

lemma sort_key_snoc: "(\<And>y. y \<in> set xs \<Longrightarrow> f y \<le> f x) \<Longrightarrow> sort_key f (xs @ [x]) = sort_key f xs @ [x]"
proof (induction xs)
  case Nil
  then show ?case by simp
next
  case (Cons a xs)
  have "f a \<le> f x \<Longrightarrow> insort_key f a (ys @ [x]) = insort_key f a ys @ [x]" for ys by (induction ys) auto
  with Cons show ?case by simp
qed

lemma traverse_snoc: "traverse f (xs @ [x]) = ebind (traverse f xs) (\<lambda>ys. ebind (f x) (\<lambda>y. Inr (ys @ [y])))"
  by (induction xs) (auto simp: ebind_def split: sum.splits)

text \<open>The events of a verified chain are numbered from the start.\<close>

lemma chain_from_numbered:
  assumes "chain_from seen prev es = Inr ()"
  shows "map (\<lambda>eh. av_sequence_number (fst eh)) es
    = map (\<lambda>i. (case prev of None \<Rightarrow> 0 | Some (p, _) \<Rightarrow> av_sequence_number p + 1) + int i) [0..<length es]"
  using assms
proof (induction seen prev es rule: chain_from.induct)
  case (1 seen prev)
  then show ?case by simp
next
  case (2 seen prev e h es)
  then have tl: "map (\<lambda>eh. av_sequence_number (fst eh)) es = map (\<lambda>i. av_sequence_number e + 1 + int i) [0..<length es]"
    and hd: "av_sequence_number e = (case prev of None \<Rightarrow> 0 | Some (p, _) \<Rightarrow> av_sequence_number p + 1)"
    by (auto simp: result_simps split: option.splits)
  have "map (\<lambda>i. av_sequence_number e + int i) [0..<Suc (length es)]
      = av_sequence_number e # map (\<lambda>i. av_sequence_number e + 1 + int i) [0..<length es]"
    by (simp add: upt_conv_Cons map_Suc_upt [symmetric] algebra_simps del: upt_Suc)
  with tl hd show ?case by simp
qed

lemma verified_numbers:
  assumes "verify_audit_chain es = Inr ()" "eh \<in> set es"
  shows "av_sequence_number (fst eh) < int (length es)"
proof -
  have "av_sequence_number (fst eh) \<in> set (map (\<lambda>eh. av_sequence_number (fst eh)) es)" using assms(2) by auto
  also have "map (\<lambda>eh. av_sequence_number (fst eh)) es = map int [0..<length es]"
    using chain_from_numbered [of "[]" None es] assms(1) by (simp add: verify_audit_chain_def)
  finally show ?thesis by auto
qed

lemma scan_eq [result_simps]:
  "scan_rows key rows = Inr rs \<longleftrightarrow> rs = take SCAN_LIMIT rows \<and> distinct (map key rs)"
  by (auto simp: scan_rows_def Let_def result_simps)

lemma scan_all: "length rows \<le> SCAN_LIMIT \<Longrightarrow> scan_rows key rows = Inr rs \<longleftrightarrow> rs = rows \<and> distinct (map key rows)"
  by (auto simp: scan_eq)

lemma checked_eq [result_simps]:
  "(case (r :: 'e + unit) of Inl _ \<Rightarrow> Inl x | Inr _ \<Rightarrow> Inr v) = Inr w \<longleftrightarrow> r = Inr () \<and> w = v"
  by (cases r) auto

lemma domain_chain_eq:
  "domain_chain scope db = Inr events \<longleftrightarrow>
     length (db_audit db) < 1024 \<and> distinct (map ar_id (db_audit db))
     \<and> (\<exists>es. traverse (decode_audit scope) (db_audit db) = Inr es
            \<and> events = sort_key (\<lambda>eh. av_sequence_number (fst eh)) es \<and> verify_audit_chain events = Inr ())"
  by (auto simp: domain_chain_def result_simps Let_def SCAN_LIMIT_def)

lemma append_domain_event_shape:
  assumes "append_domain_event p purpose op event_id proof_id resource_id before after content stamp db = Inr db'"
  obtains events e h od where "domain_chain (pr_scope p) db = Inr events"
    "e = next_event p op events event_id resource_id before after content stamp" "make_event e = Inr (e, h)"
    "verify_audit_chain (events @ [(e, h)]) = Inr ()" "event_id \<notin> set (map ar_id (db_audit db))"
    "db' = db\<lparr>db_audit := db_audit db @ [\<lparr>ar_id = event_id, ar_event = e, ar_hash = h\<rparr>],
             db_outbox := db_outbox db @ [\<lparr>ox_id = proof_id, ox_state = ''PENDING'', ox_event_id = event_id, ox_event_digest = h,
                            ox_operation_digest = od, ox_core_entry_hash = None\<rparr>]\<rparr>"
    "RK_AUDIT \<in> set (write_kinds purpose)" "proof_id \<notin> set (map ox_id (db_outbox db))"
    "canonical_sha256 (JObj [(''scope'', scope_binding (pr_scope p)), (''operation'', operation_binding_json op)]) = Inr od"
proof -
  have "make_event e = Inr (f, h) \<Longrightarrow> f = e" for e f h by (auto simp: make_event_def result_simps)
  then show ?thesis using assms that
    by (fastforce simp: append_domain_event_def build_event_def insert_checks_def Let_def result_simps)
qed

lemma next_event_decodes:
  assumes "make_event e = Inr (e, h)" "e = next_event p op events event_id resource_id before after content stamp"
  shows "decode_audit (pr_scope p) \<lparr>ar_id = event_id, ar_event = e, ar_hash = h\<rparr> = Inr (e, h)"
  using assms(1) by (simp add: decode_audit_def assms(1)) (simp add: assms(2) next_event_def)

lemma chain_from_append:
  "chain_from seen prev (es @ fs)
   = ebind (chain_from seen prev es) (\<lambda>_. chain_from (rev (map (\<lambda>eh. av_audit_event_id (fst eh)) es) @ seen)
       (if es = [] then prev else Some (last es)) fs)"
  by (induction seen prev es rule: chain_from.induct) (auto simp: ebind_def ensure_def)

lemma created_times_ordered:
  assumes "chain_from seen prev (es @ [(e, h)]) = Inr ()" "x \<in> set es"
  shows "dt_micros (av_created_at (fst x)) \<le> dt_micros (av_created_at e)"
  using assms
proof (induction es arbitrary: e h x rule: rev_induct)
  case Nil
  then show ?case by simp
next
  case (snoc y ys)
  have "chain_from seen prev (ys @ [y]) = Inr ()" "dt_micros (av_created_at (fst y)) \<le> dt_micros (av_created_at e)"
    using snoc.prems(1) by (cases y; auto simp: chain_from_append result_simps split: option.splits prod.splits)+
  with snoc.IH [of "fst y" "snd y"] snoc.prems(2) show ?case by fastforce
qed

text \<open>The rows that an append adds, and the chain that is read afterwards.\<close>

lemma append_extends:
  assumes "append_domain_event p purpose op event_id proof_id resource_id before after content stamp db = Inr db'"
    and "length (db_audit db) < 1023"
  obtains events e h od where "domain_chain (pr_scope p) db = Inr events" "domain_chain (pr_scope p) db' = Inr (events @ [(e, h)])"
    "e = next_event p op events event_id resource_id before after content stamp" "make_event e = Inr (e, h)"
    "event_id \<notin> set (map ar_id (db_audit db))" "proof_id \<notin> set (map ox_id (db_outbox db))"
    "db' = db\<lparr>db_audit := db_audit db @ [\<lparr>ar_id = event_id, ar_event = e, ar_hash = h\<rparr>],
             db_outbox := db_outbox db @ [\<lparr>ox_id = proof_id, ox_state = ''PENDING'', ox_event_id = event_id, ox_event_digest = h,
                            ox_operation_digest = od, ox_core_entry_hash = None\<rparr>]\<rparr>"
    "canonical_sha256 (JObj [(''scope'', scope_binding (pr_scope p)), (''operation'', operation_binding_json op)]) = Inr od"
    "\<forall>x \<in> set events. dt_micros (av_created_at (fst x)) \<le> dt_micros (av_created_at e)"
proof -
  from append_domain_event_shape [OF assms(1)] obtain events e h od where
    c: "domain_chain (pr_scope p) db = Inr events" and e: "e = next_event p op events event_id resource_id before after content stamp"
    and m: "make_event e = Inr (e, h)" and v: "verify_audit_chain (events @ [(e, h)]) = Inr ()"
    and f: "event_id \<notin> set (map ar_id (db_audit db))" "proof_id \<notin> set (map ox_id (db_outbox db))"
    and od: "canonical_sha256 (JObj [(''scope'', scope_binding (pr_scope p)), (''operation'', operation_binding_json op)]) = Inr od"
    and db': "db' = db\<lparr>db_audit := db_audit db @ [\<lparr>ar_id = event_id, ar_event = e, ar_hash = h\<rparr>],
             db_outbox := db_outbox db @ [\<lparr>ox_id = proof_id, ox_state = ''PENDING'', ox_event_id = event_id, ox_event_digest = h,
                            ox_operation_digest = od, ox_core_entry_hash = None\<rparr>]\<rparr>" .
  from c obtain es where es: "traverse (decode_audit (pr_scope p)) (db_audit db) = Inr es"
      "events = sort_key (\<lambda>eh. av_sequence_number (fst eh)) es" "verify_audit_chain events = Inr ()"
      "distinct (map ar_id (db_audit db))" by (auto simp: domain_chain_eq)
  have "av_sequence_number (fst y) \<le> av_sequence_number e" if "y \<in> set es" for y
    using verified_numbers [OF es(3), of y] that es(2) by (simp add: e next_event_def)
  then have "sort_key (\<lambda>eh. av_sequence_number (fst eh)) (es @ [(e, h)]) = events @ [(e, h)]"
    unfolding es(2) by (intro sort_key_snoc) simp
  then have "domain_chain (pr_scope p) db' = Inr (events @ [(e, h)])"
    using es f v assms(2) next_event_decodes [OF m e] by (auto simp: domain_chain_eq db' traverse_snoc)
  moreover have "\<forall>x \<in> set events. dt_micros (av_created_at (fst x)) \<le> dt_micros (av_created_at e)"
    using v created_times_ordered unfolding verify_audit_chain_def by blast
  ultimately show thesis using that c e m f db' od by blast
qed


text \<open>The append itself has no quota of its own: the event it accepts as number 1024 makes the chain unreadable for every
  later reader and writer of the owner.\<close>

lemma append_at_quota_closes_chain:
  assumes "append_domain_event p purpose op event_id proof_id resource_id before after content stamp db = Inr db'"
    and "length (db_audit db) = 1023"
  shows "domain_chain (pr_scope p) db' = Inl (MemoryPatchError EC_QUOTA_EXCEEDED)
    \<and> (pr_scope q = pr_scope p \<longrightarrow>
         append_domain_event q purpose' op' event_id' proof_id' resource_id' before' after' content' stamp' db'
         = Inl (MemoryPatchError EC_QUOTA_EXCEEDED))"
proof -
  from append_domain_event_shape [OF assms(1)] obtain events e h od where
    "domain_chain (pr_scope p) db = Inr events" "event_id \<notin> set (map ar_id (db_audit db))"
    and db': "db_audit db' = db_audit db @ [\<lparr>ar_id = event_id, ar_event = e, ar_hash = h\<rparr>]"
    by (metis (no_types, lifting) kernel_db.select_convs(2) kernel_db.surjective kernel_db.update_convs(2,3))
  then have "distinct (map ar_id (db_audit db'))" "length (db_audit db') = 1024"
    using assms(2) by (auto simp: domain_chain_eq)
  then show ?thesis by (simp add: append_domain_event_def domain_chain_def scan_rows_def SCAN_LIMIT_def)
qed

end
