(* ===== verification/Governor_State.thy ===== *)
theory Governor_State
  imports Kernel_Audit
begin

text \<open>
  The data of \<^verbatim>\<open>mission/governor.py\<close>: the policy with its paired limits, reservations, provider circuits and the
  snapshot that holds them, the exposure of a snapshot with its budgets, and the validation every snapshot passes
  before it is written and after it is read. The theorem says that the running totals are the sums they stand for.
\<close>

section \<open>Amounts, identities and digests\<close>

definition MAX_AMOUNT :: int where
  "MAX_AMOUNT = 9223372036854775807"

definition GOVERNOR_KIND :: string where
  "GOVERNOR_KIND = ''aioa-dual-governor-v1''"

definition is_amount :: "int \<Rightarrow> bool" where
  "is_amount v \<longleftrightarrow> 0 \<le> v \<and> v \<le> MAX_AMOUNT"

definition amount :: "int \<Rightarrow> int kernel" where
  "amount v = ebind (deny (is_amount v) GR_INVALID_AMOUNT) (\<lambda>_. Inr v)"

definition identity_char :: "char \<Rightarrow> bool" where
  "identity_char c \<longleftrightarrow> ascii_alnum c \<or> c \<in> set ''_.:/-''"

definition is_identity :: "string \<Rightarrow> bool" where
  "is_identity s \<longleftrightarrow> (case s of [] \<Rightarrow> False | c # cs \<Rightarrow> ascii_alnum c \<and> length cs \<le> 179 \<and> list_all identity_char cs)"

definition check_identity :: "string \<Rightarrow> unit kernel" where
  "check_identity s = deny (is_identity s) GR_INVALID_IDENTITY"

definition check_digest :: "string \<Rightarrow> unit kernel" where
  "check_digest s = deny (sha256_hex_text s) GR_INVALID_DIGEST"

text \<open>A loop of checks, left at the first failure.\<close>

fun check_all :: "('a \<Rightarrow> unit kernel) \<Rightarrow> 'a list \<Rightarrow> unit kernel" where
  "check_all f [] = Inr ()"
| "check_all f (x # xs) = ebind (f x) (\<lambda>_. check_all f xs)"

lemma check_all_eq [result_simps]: "check_all f xs = Inr u \<longleftrightarrow> (\<forall>x \<in> set xs. f x = Inr ())"
  by (induction xs) (auto simp: result_simps)

lemma amount_eq [result_simps]: "amount v = Inr w \<longleftrightarrow> is_amount v \<and> w = v"
  "amount v = Inl e \<longleftrightarrow> \<not> is_amount v \<and> e = GovernorError GR_INVALID_AMOUNT"
  by (auto simp: amount_def result_simps)

lemma check_identity_eq [result_simps]: "check_identity s = Inr u \<longleftrightarrow> is_identity s"
  by (simp add: check_identity_def result_simps)

lemma check_digest_eq [result_simps]: "check_digest s = Inr u \<longleftrightarrow> sha256_hex_text s"
  by (simp add: check_digest_def result_simps)

section \<open>Policy\<close>

record governor_limits =
  gl_money_nano :: int
  gl_risk_units :: int

definition limits_json :: "governor_limits \<Rightarrow> json" where
  "limits_json l = JObj [(''money_nano'', JInt (gl_money_nano l)), (''risk_units'', JInt (gl_risk_units l))]"

record governor_policy =
  gp_scope :: owner_scope
  gp_deployment_id :: string
  gp_task_limit :: governor_limits
  gp_owner_provider_limit :: governor_limits
  gp_global_limit :: governor_limits
  gp_failure_threshold :: int
  gp_cooldown_seconds :: int
  gp_recovery_successes :: int
  gp_max_clock_step_seconds :: int

definition make_limits :: "int \<Rightarrow> int \<Rightarrow> governor_limits kernel" where
  "make_limits money risk =
     ebind (amount money) (\<lambda>_. ebind (amount risk) (\<lambda>_. Inr \<lparr>gl_money_nano = money, gl_risk_units = risk\<rparr>))"

definition make_policy :: "governor_policy \<Rightarrow> governor_policy kernel" where
  "make_policy p =
     ebind (check_identity (gp_deployment_id p)) (\<lambda>_.
     ebind (check_all (\<lambda>v. deny (1 \<le> v \<and> v \<le> 86400) GR_INVALID_POLICY)
        [gp_failure_threshold p, gp_cooldown_seconds p, gp_recovery_successes p, gp_max_clock_step_seconds p]) (\<lambda>_.
     ebind (deny (gp_cooldown_seconds p \<le> gp_max_clock_step_seconds p) GR_INVALID_POLICY) (\<lambda>_. Inr p)))"

definition policy_json :: "governor_policy \<Rightarrow> json" where
  "policy_json p = JObj
     [(''scope'', owner_scope_json (gp_scope p)), (''deployment_id'', JStr (gp_deployment_id p)),
      (''task_limit'', limits_json (gp_task_limit p)), (''owner_provider_limit'', limits_json (gp_owner_provider_limit p)),
      (''global_limit'', limits_json (gp_global_limit p)), (''failure_threshold'', JInt (gp_failure_threshold p)),
      (''cooldown_seconds'', JInt (gp_cooldown_seconds p)), (''recovery_successes'', JInt (gp_recovery_successes p)),
      (''max_clock_step_seconds'', JInt (gp_max_clock_step_seconds p))]"

definition policy_digest :: "governor_policy \<Rightarrow> string kernel" where
  "policy_digest p = canonical_sha256 (policy_json p)"

section \<open>Reservations and circuits\<close>

record reservation_request =
  rq_request_id :: string
  rq_task_id :: string
  rq_provider_id :: string
  rq_model_id :: string
  rq_request_digest :: string
  rq_money_nano :: int
  rq_risk_units :: int

text \<open>\<^verbatim>\<open>ReservationRequest.__post_init__\<close>.\<close>

definition check_request :: "reservation_request \<Rightarrow> unit kernel" where
  "check_request q =
     ebind (check_all check_identity [rq_request_id q, rq_task_id q, rq_provider_id q, rq_model_id q]) (\<lambda>_.
     ebind (check_digest (rq_request_digest q)) (\<lambda>_.
     ebind (amount (rq_money_nano q)) (\<lambda>_.
     ebind (amount (rq_risk_units q)) (\<lambda>_. Inr ()))))"

definition request_fields :: "reservation_request \<Rightarrow> (string \<times> json) list" where
  "request_fields q =
     [(''request_id'', JStr (rq_request_id q)), (''task_id'', JStr (rq_task_id q)), (''provider_id'', JStr (rq_provider_id q)),
      (''model_id'', JStr (rq_model_id q)), (''request_digest'', JStr (rq_request_digest q)),
      (''money_nano'', JInt (rq_money_nano q)), (''risk_units'', JInt (rq_risk_units q))]"

definition request_digest :: "reservation_request \<Rightarrow> string kernel" where
  "request_digest q = canonical_sha256 (JObj (request_fields q))"

datatype reservation_state = RS_RESERVED | RS_DISPATCHED | RS_UNKNOWN | RS_COMMITTED | RS_RELEASED

fun reservation_state_value :: "reservation_state \<Rightarrow> string" where
  "reservation_state_value RS_RESERVED = ''RESERVED''"
| "reservation_state_value RS_DISPATCHED = ''DISPATCHED''"
| "reservation_state_value RS_UNKNOWN = ''UNKNOWN''"
| "reservation_state_value RS_COMMITTED = ''COMMITTED''"
| "reservation_state_value RS_RELEASED = ''RELEASED''"

record no_dispatch_proof =
  np_kind :: string
  np_request_digest :: string
  np_epoch :: int
  np_version :: int

definition NO_DISPATCH_KIND :: string where
  "NO_DISPATCH_KIND = ''DURABLE_NO_DISPATCH_MARKER''"

record reservation =
  rv_request :: reservation_request
  rv_binding_digest :: string
  rv_epoch :: int
  rv_state :: reservation_state
  rv_evidence_digest :: "string option"
  rv_no_dispatch_proof :: "no_dispatch_proof option"

abbreviation rv_task_id :: "reservation \<Rightarrow> string" where "rv_task_id e \<equiv> rq_task_id (rv_request e)"
abbreviation rv_provider_id :: "reservation \<Rightarrow> string" where "rv_provider_id e \<equiv> rq_provider_id (rv_request e)"
abbreviation rv_money :: "reservation \<Rightarrow> int" where "rv_money e \<equiv> rq_money_nano (rv_request e)"
abbreviation rv_risk :: "reservation \<Rightarrow> int" where "rv_risk e \<equiv> rq_risk_units (rv_request e)"

definition proof_json :: "no_dispatch_proof \<Rightarrow> json" where
  "proof_json p = JObj
     [(''kind'', JStr (np_kind p)), (''request_digest'', JStr (np_request_digest p)), (''epoch'', JInt (np_epoch p)),
      (''version'', JInt (np_version p))]"

definition reservation_json :: "reservation \<Rightarrow> json" where
  "reservation_json e = JObj (request_fields (rv_request e) @
     [(''binding_digest'', JStr (rv_binding_digest e)), (''epoch'', JInt (rv_epoch e)),
      (''state'', JStr (reservation_state_value (rv_state e))), (''evidence_digest'', opt_str (rv_evidence_digest e)),
      (''no_dispatch_proof'', (case rv_no_dispatch_proof e of None \<Rightarrow> JNull | Some p \<Rightarrow> proof_json p))])"

datatype circuit_state = CIRCUIT_CLOSED | CIRCUIT_OPEN | CIRCUIT_HALF_OPEN

fun circuit_state_value :: "circuit_state \<Rightarrow> string" where
  "circuit_state_value CIRCUIT_CLOSED = ''CLOSED''"
| "circuit_state_value CIRCUIT_OPEN = ''OPEN''"
| "circuit_state_value CIRCUIT_HALF_OPEN = ''HALF_OPEN''"

record circuit =
  ck_state :: circuit_state
  ck_failures :: int
  ck_successes :: int
  ck_opened_at :: int
  ck_probe :: "string option"

definition new_circuit :: circuit where
  "new_circuit = \<lparr>ck_state = CIRCUIT_CLOSED, ck_failures = 0, ck_successes = 0, ck_opened_at = 0, ck_probe = None\<rparr>"

definition circuit_json :: "circuit \<Rightarrow> json" where
  "circuit_json c = JObj
     [(''state'', JStr (circuit_state_value (ck_state c))), (''failures'', JInt (ck_failures c)),
      (''successes'', JInt (ck_successes c)), (''opened_at'', JInt (ck_opened_at c)), (''probe'', opt_str (ck_probe c))]"

section \<open>The snapshot\<close>

text \<open>The three ceilings of a money policy; \<^const>\<open>None\<close> is no ceiling.\<close>

record money_limits =
  ml_task :: "int option"
  ml_owner_provider :: "int option"
  ml_global :: "int option"

record money_policy =
  mp_schema :: string
  mp_limits :: money_limits
  mp_request_id :: string
  mp_review_digest :: string

definition money_limits_json :: "money_limits \<Rightarrow> json" where
  "money_limits_json l = JObj
     [(''task_limit'', opt_int (ml_task l)), (''owner_provider_limit'', opt_int (ml_owner_provider l)),
      (''global_limit'', opt_int (ml_global l))]"

definition money_policy_json :: "money_policy \<Rightarrow> json" where
  "money_policy_json m = JObj
     [(''schema'', JStr (mp_schema m)), (''limits'', money_limits_json (mp_limits m)), (''request_id'', JStr (mp_request_id m)),
      (''review_digest'', JStr (mp_review_digest m))]"

record gov_state =
  gs_policy_digest :: string
  gs_version :: int
  gs_epoch :: int
  gs_kill :: bool
  gs_last_now :: "int option"
  gs_reservations :: "(string, reservation) dict"
  gs_circuits :: "(string, circuit) dict"
  gs_money_policy :: "money_policy option"

definition state_json :: "gov_state \<Rightarrow> json" where
  "state_json s = JObj (
     [(''schema'', JStr GOVERNOR_KIND), (''policy_digest'', JStr (gs_policy_digest s)), (''version'', JInt (gs_version s)),
      (''epoch'', JInt (gs_epoch s)), (''kill'', JBool (gs_kill s)), (''last_now'', opt_int (gs_last_now s)),
      (''reservations'', JObj (map (\<lambda>(k, e). (k, reservation_json e)) (gs_reservations s))),
      (''circuits'', JObj (map (\<lambda>(k, c). (k, circuit_json c)) (gs_circuits s)))]
     @ (case gs_money_policy s of None \<Rightarrow> [] | Some m \<Rightarrow> [(''money_policy'', money_policy_json m)]))"

definition state_digest :: "gov_state \<Rightarrow> string kernel" where
  "state_digest s = canonical_sha256 (state_json s)"

definition initial_state :: "governor_policy \<Rightarrow> gov_state kernel" where
  "initial_state pol =
     ebind (policy_digest pol) (\<lambda>d.
     Inr \<lparr>gs_policy_digest = d, gs_version = 0, gs_epoch = 0, gs_kill = False, gs_last_now = None,
          gs_reservations = [], gs_circuits = [], gs_money_policy = None\<rparr>)"

section \<open>Exposure and budgets\<close>

record bucket =
  bk_money :: int
  bk_risk :: int

definition zero_bucket :: bucket where
  "zero_bucket = \<lparr>bk_money = 0, bk_risk = 0\<rparr>"

record exposure =
  ex_global :: bucket
  ex_tasks :: "(string, bucket) dict"
  ex_owner_providers :: "(string, bucket) dict"

definition bucket_of :: "(string, bucket) dict \<Rightarrow> string \<Rightarrow> bucket" where
  "bucket_of d k = (case dict_get d k of None \<Rightarrow> zero_bucket | Some b \<Rightarrow> b)"

definition charge :: "reservation \<Rightarrow> bucket \<Rightarrow> bucket kernel" where
  "charge e b =
     ebind (amount (rv_money e)) (\<lambda>m. ebind (amount (bk_money b + m)) (\<lambda>m'.
     ebind (amount (rv_risk e)) (\<lambda>r. ebind (amount (bk_risk b + r)) (\<lambda>r'.
     Inr \<lparr>bk_money = m', bk_risk = r'\<rparr>))))"

fun exposure_from :: "exposure \<Rightarrow> reservation list \<Rightarrow> exposure kernel" where
  "exposure_from x [] = Inr x"
| "exposure_from x (e # es) =
     (if rv_state e = RS_RELEASED then exposure_from x es
      else ebind (charge e (ex_global x)) (\<lambda>g.
           ebind (charge e (bucket_of (ex_tasks x) (rv_task_id e))) (\<lambda>t.
           ebind (charge e (bucket_of (ex_owner_providers x) (rv_provider_id e))) (\<lambda>o'.
           exposure_from
             \<lparr>ex_global = g, ex_tasks = dict_set (rv_task_id e) t (ex_tasks x),
              ex_owner_providers = dict_set (rv_provider_id e) o' (ex_owner_providers x)\<rparr> es))))"

definition exposure_of :: "(string, reservation) dict \<Rightarrow> exposure kernel" where
  "exposure_of d =
     exposure_from \<lparr>ex_global = zero_bucket, ex_tasks = [], ex_owner_providers = []\<rparr> (map snd d)"

definition ceiling_ok :: "int option \<Rightarrow> int \<Rightarrow> bucket \<Rightarrow> bool" where
  "ceiling_ok ceil risk b \<longleftrightarrow> (case ceil of None \<Rightarrow> True | Some c \<Rightarrow> bk_money b \<le> c) \<and> bk_risk b \<le> risk"

definition money_ceiling :: "gov_state \<Rightarrow> (money_limits \<Rightarrow> int option) \<Rightarrow> governor_limits \<Rightarrow> int option" where
  "money_ceiling s field l =
     (case gs_money_policy s of None \<Rightarrow> Some (gl_money_nano l) | Some m \<Rightarrow> field (mp_limits m))"

definition budgets :: "governor_policy \<Rightarrow> gov_state \<Rightarrow> unit kernel" where
  "budgets pol s =
     ebind (exposure_of (gs_reservations s)) (\<lambda>x.
     ebind (deny (ceiling_ok (money_ceiling s ml_global (gp_global_limit pol)) (gl_risk_units (gp_global_limit pol)) (ex_global x))
        GR_BUDGET) (\<lambda>_.
     ebind (check_all (\<lambda>kb. deny (ceiling_ok (money_ceiling s ml_task (gp_task_limit pol))
        (gl_risk_units (gp_task_limit pol)) (snd kb)) GR_BUDGET) (ex_tasks x)) (\<lambda>_.
     check_all (\<lambda>kb. deny (ceiling_ok (money_ceiling s ml_owner_provider (gp_owner_provider_limit pol))
        (gl_risk_units (gp_owner_provider_limit pol)) (snd kb)) GR_BUDGET) (ex_owner_providers x))))"

section \<open>Validation\<close>

definition valid_proof :: "gov_state \<Rightarrow> reservation \<Rightarrow> bool" where
  "valid_proof s e \<longleftrightarrow>
     (if rv_state e = RS_RELEASED
      then (case rv_no_dispatch_proof e of
              None \<Rightarrow> False
            | Some p \<Rightarrow> np_kind p = NO_DISPATCH_KIND \<and> np_request_digest p = rq_request_digest (rv_request e)
                \<and> 1 \<le> np_version p \<and> np_version p \<le> gs_version s)
      else rv_no_dispatch_proof e = None)"

definition validate_reservation :: "gov_state \<Rightarrow> string \<times> reservation \<Rightarrow> unit kernel" where
  "validate_reservation s ke =
     (let e = snd ke; q = rv_request e in
      ebind (check_request q) (\<lambda>_.
      ebind (deny (fst ke = rq_request_id q) GR_INTEGRITY) (\<lambda>_.
      ebind (request_digest q) (\<lambda>d.
      ebind (deny (rv_binding_digest e = d \<and> 1 \<le> rv_epoch e \<and> rv_epoch e \<le> gs_epoch s) GR_INTEGRITY) (\<lambda>_.
      ebind (case rv_evidence_digest e of None \<Rightarrow> Inr () | Some h \<Rightarrow> check_digest h) (\<lambda>_.
      deny (valid_proof s e) GR_INTEGRITY))))))"

definition validate_circuit :: "gov_state \<Rightarrow> string \<times> circuit \<Rightarrow> unit kernel" where
  "validate_circuit s kc =
     (let c = snd kc in
      ebind (check_identity (fst kc)) (\<lambda>_.
      ebind (amount (ck_failures c)) (\<lambda>_. ebind (amount (ck_successes c)) (\<lambda>_. ebind (amount (ck_opened_at c)) (\<lambda>_.
      deny (case ck_probe c of None \<Rightarrow> True | Some i \<Rightarrow> i \<in> set (map fst (gs_reservations s))) GR_INTEGRITY)))))"

definition clock_value :: "int option \<Rightarrow> bool" where
  "clock_value v \<longleftrightarrow> (case v of None \<Rightarrow> False | Some n \<Rightarrow> 0 \<le> n \<and> n \<le> 9007199254740992)"

definition validate :: "governor_policy \<Rightarrow> gov_state \<Rightarrow> unit kernel" where
  "validate pol s =
     ebind (deny (1 \<le> gs_epoch s \<and> gs_epoch s \<le> MAX_AMOUNT \<and> clock_value (gs_last_now s)) GR_INTEGRITY) (\<lambda>_.
     ebind (deny (length (gs_reservations s) \<le> 128 \<and> length (gs_circuits s) \<le> 32) GR_HISTORY_QUOTA) (\<lambda>_.
     ebind (check_all (validate_reservation s) (gs_reservations s)) (\<lambda>_.
     ebind (check_all (validate_circuit s) (gs_circuits s)) (\<lambda>_.
     budgets pol s))))"

section \<open>The totals are sums\<close>

definition live :: "(string, reservation) dict \<Rightarrow> reservation list" where
  "live d = filter (\<lambda>e. rv_state e \<noteq> RS_RELEASED) (map snd d)"

text \<open>The two totals of a selection of reservations.\<close>

definition bucket_total :: "(reservation \<Rightarrow> bool) \<Rightarrow> reservation list \<Rightarrow> bucket" where
  "bucket_total P es = \<lparr>bk_money = sum_list (map rv_money (filter P es)), bk_risk = sum_list (map rv_risk (filter P es))\<rparr>"

definition amounts_ok :: "reservation list \<Rightarrow> bool" where
  "amounts_ok es \<longleftrightarrow>
     (\<forall>e \<in> set es. is_amount (rv_money e) \<and> is_amount (rv_risk e))
     \<and> is_amount (bk_money (bucket_total (\<lambda>_. True) es)) \<and> is_amount (bk_risk (bucket_total (\<lambda>_. True) es))"

text \<open>The running totals of a list of live reservations.\<close>

definition represents :: "exposure \<Rightarrow> reservation list \<Rightarrow> bool" where
  "represents x es \<longleftrightarrow>
     ex_global x = bucket_total (\<lambda>_. True) es
     \<and> (\<forall>t. bucket_of (ex_tasks x) t = bucket_total (\<lambda>e. rv_task_id e = t) es)
     \<and> (\<forall>o'. bucket_of (ex_owner_providers x) o' = bucket_total (\<lambda>e. rv_provider_id e = o') es)
     \<and> dict_ok (ex_tasks x) \<and> dict_ok (ex_owner_providers x)
     \<and> fst ` set (ex_tasks x) = rv_task_id ` set es \<and> fst ` set (ex_owner_providers x) = rv_provider_id ` set es"

lemma total_simps [simp]:
  "bucket_total P [] = zero_bucket"
  "bk_money (bucket_total P (es @ [e])) = bk_money (bucket_total P es) + (if P e then rv_money e else 0)"
  "bk_risk (bucket_total P (es @ [e])) = bk_risk (bucket_total P es) + (if P e then rv_risk e else 0)"
  by (simp_all add: bucket_total_def zero_bucket_def)

lemma bucket_eqI: "bk_money (a :: bucket) = bk_money b \<Longrightarrow> bk_risk a = bk_risk b \<Longrightarrow> a = b"
  by simp

lemma total_other: "\<not> P e \<Longrightarrow> bucket_total P (es @ [e]) = bucket_total P es"
  by (rule bucket_eqI) simp_all

lemma total_le:
  assumes "\<forall>e \<in> set es. is_amount (rv_money e) \<and> is_amount (rv_risk e)"
  shows "0 \<le> bk_money (bucket_total P es) \<and> bk_money (bucket_total P es) \<le> bk_money (bucket_total (\<lambda>_. True) es)
    \<and> 0 \<le> bk_risk (bucket_total P es) \<and> bk_risk (bucket_total P es) \<le> bk_risk (bucket_total (\<lambda>_. True) es)"
  using assms by (induction es) (auto simp: bucket_total_def is_amount_def)

lemma amounts_ok_prefix: "amounts_ok (es @ fs) \<Longrightarrow> amounts_ok es"
  using total_le [of fs "\<lambda>_. True"] total_le [of es "\<lambda>_. True"]
  by (auto simp: amounts_ok_def bucket_total_def is_amount_def)

lemma charge_total:
  assumes "P e" "\<forall>e \<in> set es. is_amount (rv_money e) \<and> is_amount (rv_risk e)"
  shows "amounts_ok (es @ [e]) \<Longrightarrow> charge e (bucket_total P es) = Inr (bucket_total P (es @ [e]))"
    and "charge e (bucket_total (\<lambda>_. True) es) = Inr b \<Longrightarrow> amounts_ok (es @ [e])"
proof -
  assume ok: "amounts_ok (es @ [e])"
  then have "\<forall>x \<in> set (es @ [e]). is_amount (rv_money x) \<and> is_amount (rv_risk x)" by (simp add: amounts_ok_def)
  from total_le [OF this, of P] ok have "is_amount (bk_money (bucket_total P (es @ [e])))" "is_amount (bk_risk (bucket_total P (es @ [e])))"
    by (auto simp: amounts_ok_def is_amount_def)
  then show "charge e (bucket_total P es) = Inr (bucket_total P (es @ [e]))"
    using ok assms(1) by (auto simp: charge_def amount_def amounts_ok_def intro!: bucket_eqI)
next
  show "charge e (bucket_total (\<lambda>_. True) es) = Inr b \<Longrightarrow> amounts_ok (es @ [e])"
    using assms(2) by (auto simp: charge_def result_simps amounts_ok_def)
qed

lemma charge_error: "charge e b = Inl x \<Longrightarrow> x = GovernorError GR_INVALID_AMOUNT"
  by (auto simp: charge_def result_simps)

lemma bucket_of_set: "bucket_of (dict_set k v d) k' = (if k' = k then v else bucket_of d k')"
  by (simp add: bucket_of_def)

lemma keys_dict_set: "fst ` set (dict_set k v d) = insert k (fst ` set d)"
  by (simp add: dom_map_of_conv_image_fst [symmetric] update_conv')

lemma exposure_from_exact:
  assumes "represents x es" "amounts_ok es"
  shows "if amounts_ok (es @ filter (\<lambda>e. rv_state e \<noteq> RS_RELEASED) fs)
    then \<exists>y. exposure_from x fs = Inr y \<and> represents y (es @ filter (\<lambda>e. rv_state e \<noteq> RS_RELEASED) fs)
    else exposure_from x fs = Inl (GovernorError GR_INVALID_AMOUNT)"
  using assms
proof (induction fs arbitrary: x es)
  case Nil
  then show ?case by simp
next
  case (Cons e fs)
  show ?case
  proof (cases "rv_state e = RS_RELEASED")
    case True
    with Cons show ?thesis by simp
  next
    case live: False
    have amounts: "\<forall>e \<in> set es. is_amount (rv_money e) \<and> is_amount (rv_risk e)" using Cons.prems(2) by (simp add: amounts_ok_def)
    have g: "ex_global x = bucket_total (\<lambda>_. True) es" using Cons.prems(1) by (simp add: represents_def)
    show ?thesis
    proof (cases "amounts_ok (es @ [e])")
      case True
      let ?x = "\<lparr>ex_global = bucket_total (\<lambda>_. True) (es @ [e]),
        ex_tasks = dict_set (rv_task_id e) (bucket_total (\<lambda>f. rv_task_id f = rv_task_id e) (es @ [e])) (ex_tasks x),
        ex_owner_providers = dict_set (rv_provider_id e) (bucket_total (\<lambda>f. rv_provider_id f = rv_provider_id e) (es @ [e]))
          (ex_owner_providers x)\<rparr>"
      have "exposure_from x (e # fs) = exposure_from ?x fs"
        using Cons.prems(1) live charge_total(1) [OF _ amounts True] by (simp add: g represents_def)
      moreover have "represents ?x (es @ [e])"
        using Cons.prems(1) by (auto simp: represents_def bucket_of_set keys_dict_set total_other)
      ultimately show ?thesis using Cons.IH [OF _ True, of ?x] live by (simp del: exposure_from.simps cong: if_cong)
    next
      case False
      then obtain y where "charge e (bucket_total (\<lambda>_. True) es) = Inl y"
        using charge_total(2) [of "\<lambda>_. True" e es, OF _ amounts] by (cases "charge e (bucket_total (\<lambda>_. True) es)") auto
      moreover from this have "y = GovernorError GR_INVALID_AMOUNT" by (rule charge_error)
      moreover have "\<not> amounts_ok (es @ e # filter (\<lambda>e. rv_state e \<noteq> RS_RELEASED) fs)"
        using False amounts_ok_prefix [of "es @ [e]"] by auto
      ultimately show ?thesis using live by (simp add: g)
    qed
  qed
qed

lemma exposure_exact:
  "if amounts_ok (live d) then \<exists>x. exposure_of d = Inr x \<and> represents x (live d)
   else exposure_of d = Inl (GovernorError GR_INVALID_AMOUNT)"
proof -
  have "amounts_ok []" by (simp add: amounts_ok_def zero_bucket_def is_amount_def MAX_AMOUNT_def)
  moreover have "represents \<lparr>ex_global = zero_bucket, ex_tasks = [], ex_owner_providers = []\<rparr> []"
    by (simp add: represents_def bucket_of_def)
  ultimately show ?thesis
    using exposure_from_exact [of "\<lparr>ex_global = zero_bucket, ex_tasks = [], ex_owner_providers = []\<rparr>" "[]" "map snd d"]
    by (simp add: exposure_of_def live_def cong: if_cong)
qed

text \<open>What the budgets are meant to say: every total over the live reservations is under its ceiling.\<close>

definition within_ceilings :: "governor_policy \<Rightarrow> gov_state \<Rightarrow> bool" where
  "within_ceilings pol s \<longleftrightarrow>
     (let es = live (gs_reservations s)
      in ceiling_ok (money_ceiling s ml_global (gp_global_limit pol)) (gl_risk_units (gp_global_limit pol)) (bucket_total (\<lambda>_. True) es)
         \<and> (\<forall>e \<in> set es.
               ceiling_ok (money_ceiling s ml_task (gp_task_limit pol)) (gl_risk_units (gp_task_limit pol))
                 (bucket_total (\<lambda>f. rv_task_id f = rv_task_id e) es)
               \<and> ceiling_ok (money_ceiling s ml_owner_provider (gp_owner_provider_limit pol))
                   (gl_risk_units (gp_owner_provider_limit pol)) (bucket_total (\<lambda>f. rv_provider_id f = rv_provider_id e) es)))"

lemma check_all_deny: "check_all (\<lambda>x. deny (P x) r) xs = (if \<forall>x \<in> set xs. P x then Inr () else Inl (GovernorError r))"
  by (induction xs) (auto simp: deny_def ensure_def)

lemma buckets_ok:
  assumes "dict_ok d" "fst ` set d = g ` set es" "\<forall>k. bucket_of d k = bucket_total (\<lambda>e. g e = k) es"
  shows "(\<forall>kb \<in> set d. Q (snd kb)) \<longleftrightarrow> (\<forall>e \<in> set es. Q (bucket_total (\<lambda>f. g f = g e) es))"
proof -
  have "snd kb = bucket_total (\<lambda>e. g e = fst kb) es" if "kb \<in> set d" for kb
  proof -
    have "dict_get d (fst kb) = Some (snd kb)" using that assms(1) by (simp add: map_of_is_SomeI)
    then show ?thesis using assms(3) by (simp add: bucket_of_def split: option.splits)
  qed
  then have "(\<forall>kb \<in> set d. Q (snd kb)) \<longleftrightarrow> (\<forall>k \<in> fst ` set d. Q (bucket_total (\<lambda>e. g e = k) es))" by auto
  then show ?thesis by (simp add: assms(2))
qed

lemma budgets_eq:
  "budgets pol s =
     (if \<not> amounts_ok (live (gs_reservations s)) then Inl (GovernorError GR_INVALID_AMOUNT)
      else if within_ceilings pol s then Inr () else Inl (GovernorError GR_BUDGET))"
proof (cases "amounts_ok (live (gs_reservations s))")
  case False
  with exposure_exact [of "gs_reservations s"] show ?thesis by (simp add: budgets_def)
next
  case True
  with exposure_exact [of "gs_reservations s"] obtain x where
    x: "exposure_of (gs_reservations s) = Inr x" "represents x (live (gs_reservations s))" by auto
  have t: "(\<forall>kb \<in> set (ex_tasks x). Q (snd kb)) \<longleftrightarrow>
      (\<forall>e \<in> set (live (gs_reservations s)). Q (bucket_total (\<lambda>f. rv_task_id f = rv_task_id e) (live (gs_reservations s))))" for Q
    using x(2) by (intro buckets_ok) (auto simp: represents_def)
  have o: "(\<forall>kb \<in> set (ex_owner_providers x). Q (snd kb)) \<longleftrightarrow>
      (\<forall>e \<in> set (live (gs_reservations s)). Q (bucket_total (\<lambda>f. rv_provider_id f = rv_provider_id e) (live (gs_reservations s))))" for Q
    using x(2) by (intro buckets_ok) (auto simp: represents_def)
  have "ex_global x = bucket_total (\<lambda>_. True) (live (gs_reservations s))" using x(2) by (simp add: represents_def)
  then show ?thesis using True
    by (cases "ceiling_ok (money_ceiling s ml_global (gp_global_limit pol)) (gl_risk_units (gp_global_limit pol)) (ex_global x)")
       (simp_all add: budgets_def x(1) check_all_deny t o within_ceilings_def Let_def ball_conj_distrib)
qed

text \<open>Property C20. The budget check, with its running totals in three dictionaries, is exactly the statement it stands for: it
  refuses an amount, or a sum over the live reservations, outside the range, then a total over all, over one task or
  over one provider that is above its ceiling, and accepts everything else; released reservations do not count.\<close>

theorem budgets_are_exact:
  "budgets pol s =
     (if \<not> amounts_ok (live (gs_reservations s)) then Inl (GovernorError GR_INVALID_AMOUNT)
      else if within_ceilings pol s then Inr () else Inl (GovernorError GR_BUDGET))"
  by (rule budgets_eq)

lemma budgets_within: "budgets pol s = Inr () \<longleftrightarrow> amounts_ok (live (gs_reservations s)) \<and> within_ceilings pol s"
  by (simp add: budgets_eq)

end
