(* ===== verification/Governor_Ops.thy ===== *)
theory Governor_Ops
  imports Governor_State
begin

text \<open>
  The transitions of \<^verbatim>\<open>CoreDualGovernor\<close> on a snapshot, one function per nested \<^verbatim>\<open>change\<close> or \<^verbatim>\<open>_..._state\<close>
  method of \<^verbatim>\<open>mission/governor.py\<close>. Each returns its result, the snapshot and whether it changed; the
  snapshot is a private copy that is dropped when a method raises.
\<close>

section \<open>Guards\<close>

definition check_epoch :: "gov_state \<Rightarrow> int \<Rightarrow> unit kernel" where
  "check_epoch s epoch = deny (epoch = gs_epoch s \<and> 0 < epoch) GR_STALE_EPOCH"

definition check_clock :: "governor_policy \<Rightarrow> gov_state \<Rightarrow> int \<Rightarrow> unit kernel" where
  "check_clock pol s now =
     deny (case gs_last_now s of None \<Rightarrow> True | Some p \<Rightarrow> 0 \<le> now - p \<and> now - p \<le> gp_max_clock_step_seconds pol)
       GR_CLOCK_UNSAFE"

definition forward_clock :: "gov_state \<Rightarrow> int \<Rightarrow> unit kernel" where
  "forward_clock s now = deny (case gs_last_now s of None \<Rightarrow> True | Some p \<Rightarrow> p \<le> now) GR_CLOCK_UNSAFE"

definition get_entry :: "gov_state \<Rightarrow> string \<Rightarrow> reservation kernel" where
  "get_entry s ident =
     (case dict_get (gs_reservations s) ident of None \<Rightarrow> Inl (GovernorError GR_REQUIRED) | Some e \<Rightarrow> Inr e)"

text \<open>\<^verbatim>\<open>state['circuits'][provider]\<close>.\<close>

definition get_circuit :: "gov_state \<Rightarrow> string \<Rightarrow> circuit kernel" where
  "get_circuit s provider = (case dict_get (gs_circuits s) provider of None \<Rightarrow> Inl PyError | Some c \<Rightarrow> Inr c)"

definition set_entry :: "string \<Rightarrow> reservation \<Rightarrow> gov_state \<Rightarrow> gov_state" where
  "set_entry ident e s = s\<lparr>gs_reservations := dict_set ident e (gs_reservations s)\<rparr>"

definition set_circuit :: "string \<Rightarrow> circuit \<Rightarrow> gov_state \<Rightarrow> gov_state" where
  "set_circuit provider c s = s\<lparr>gs_circuits := dict_set provider c (gs_circuits s)\<rparr>"

lemma guard_eq [result_simps]:
  "check_epoch s epoch = Inr u \<longleftrightarrow> epoch = gs_epoch s \<and> 0 < epoch"
  "check_clock pol s now = Inr u \<longleftrightarrow>
     (case gs_last_now s of None \<Rightarrow> True | Some p \<Rightarrow> 0 \<le> now - p \<and> now - p \<le> gp_max_clock_step_seconds pol)"
  "forward_clock s now = Inr u \<longleftrightarrow> (case gs_last_now s of None \<Rightarrow> True | Some p \<Rightarrow> p \<le> now)"
  "get_entry s ident = Inr e \<longleftrightarrow> dict_get (gs_reservations s) ident = Some e"
  "get_circuit s provider = Inr c \<longleftrightarrow> dict_get (gs_circuits s) provider = Some c"
  by (auto simp: check_epoch_def check_clock_def forward_clock_def get_entry_def get_circuit_def deny_eq
      split: option.splits)

section \<open>Epoch and kill switch\<close>

definition reopen :: "int \<Rightarrow> circuit \<Rightarrow> circuit" where
  "reopen now c =
     (if ck_state c = CIRCUIT_HALF_OPEN
      then c\<lparr>ck_state := CIRCUIT_OPEN, ck_opened_at := now, ck_probe := None, ck_successes := 0\<rparr> else c)"

definition start_epoch_state :: "gov_state \<Rightarrow> int \<Rightarrow> (int \<times> gov_state \<times> bool) kernel" where
  "start_epoch_state s now =
     ebind (forward_clock s now) (\<lambda>_.
     ebind (amount (gs_epoch s + 1)) (\<lambda>epoch.
     Inr (epoch, s\<lparr>gs_epoch := epoch, gs_circuits := map (\<lambda>(k, c). (k, reopen now c)) (gs_circuits s)\<rparr>, True)))"

definition set_kill_state :: "gov_state \<Rightarrow> bool \<Rightarrow> (bool \<times> gov_state \<times> bool) kernel" where
  "set_kill_state s active = Inr (active, s\<lparr>gs_kill := active\<rparr>, gs_kill s \<noteq> active)"

section \<open>Reservation\<close>

text \<open>An open circuit becomes half-open after the cooldown; a half-open one takes one probe.\<close>

definition admit_circuit :: "governor_policy \<Rightarrow> circuit \<Rightarrow> string \<Rightarrow> int \<Rightarrow> circuit kernel" where
  "admit_circuit pol c ident now =
     ebind (if ck_state c = CIRCUIT_OPEN
            then ebind (deny (gp_cooldown_seconds pol \<le> now - ck_opened_at c) GR_OPEN) (\<lambda>_.
                 Inr (c\<lparr>ck_state := CIRCUIT_HALF_OPEN, ck_probe := None, ck_successes := 0\<rparr>))
            else Inr c) (\<lambda>c.
     if ck_state c = CIRCUIT_HALF_OPEN
     then ebind (deny (ck_probe c = None) GR_HALF_OPEN) (\<lambda>_. Inr (c\<lparr>ck_probe := Some ident\<rparr>))
     else Inr c)"

definition circuit_or_new :: "gov_state \<Rightarrow> string \<Rightarrow> circuit" where
  "circuit_or_new s provider = (case dict_get (gs_circuits s) provider of None \<Rightarrow> new_circuit | Some c \<Rightarrow> c)"

definition reserve_state ::
    "governor_policy \<Rightarrow> gov_state \<Rightarrow> reservation_request \<Rightarrow> int \<Rightarrow> int \<Rightarrow> (reservation \<times> gov_state \<times> bool) kernel" where
  "reserve_state pol s q epoch now =
     ebind (request_digest q) (\<lambda>binding.
     ebind (check_epoch s epoch) (\<lambda>_.
     case dict_get (gs_reservations s) (rq_request_id q) of
       Some e \<Rightarrow> ebind (deny (rv_binding_digest e = binding) GR_IDEMPOTENCY) (\<lambda>_. Inr (e, s, False))
     | None \<Rightarrow>
         ebind (deny (\<not> gs_kill s) GR_KILL) (\<lambda>_.
         ebind (deny (length (gs_reservations s) < 128) GR_HISTORY_QUOTA) (\<lambda>_.
         ebind (deny (dict_get (gs_circuits s) (rq_provider_id q) \<noteq> None \<or> length (gs_circuits s) < 32) GR_HISTORY_QUOTA) (\<lambda>_.
         ebind (admit_circuit pol (circuit_or_new s (rq_provider_id q)) (rq_request_id q) now) (\<lambda>c.
         let e = \<lparr>rv_request = q, rv_binding_digest = binding, rv_epoch = epoch, rv_state = RS_RESERVED,
                  rv_evidence_digest = None, rv_no_dispatch_proof = None\<rparr>;
             s' = set_entry (rq_request_id q) e (set_circuit (rq_provider_id q) c s)
         in ebind (budgets pol s') (\<lambda>_. Inr (e, s', True))))))))"

section \<open>Dispatch\<close>

definition dispatch_state ::
    "governor_policy \<Rightarrow> gov_state \<Rightarrow> string \<Rightarrow> int \<Rightarrow> int \<Rightarrow> ((bool \<times> reservation \<times> bool) \<times> gov_state \<times> bool) kernel" where
  "dispatch_state pol s ident epoch now =
     ebind (check_epoch s epoch) (\<lambda>_.
     ebind (get_entry s ident) (\<lambda>e.
     if rv_state e \<noteq> RS_RESERVED then Inr ((False, e, True), s, False)
     else
       ebind (deny (rv_epoch e = epoch) GR_STALE_RESERVATION) (\<lambda>_.
       ebind (deny (\<not> gs_kill s) GR_KILL) (\<lambda>_.
       ebind (get_circuit s (rv_provider_id e)) (\<lambda>c.
       ebind (deny (ck_state c = CIRCUIT_CLOSED \<or> (ck_state c = CIRCUIT_HALF_OPEN \<and> ck_probe c = Some ident)) GR_OPEN) (\<lambda>_.
       ebind (check_clock pol s now) (\<lambda>_.
       ebind (budgets pol s) (\<lambda>_.
       let e' = e\<lparr>rv_state := RS_DISPATCHED\<rparr>
       in Inr ((True, e', False), set_entry ident e' s, True)))))))))"

section \<open>Release, unknown outcome and settlement\<close>

definition release_state :: "gov_state \<Rightarrow> string \<Rightarrow> int \<Rightarrow> (reservation \<times> gov_state \<times> bool) kernel" where
  "release_state s ident epoch =
     ebind (check_epoch s epoch) (\<lambda>_.
     ebind (get_entry s ident) (\<lambda>e.
     if rv_state e = RS_RELEASED then Inr (e, s, False)
     else
       ebind (deny (rv_state e = RS_RESERVED) GR_NO_DISPATCH_PROOF) (\<lambda>_.
       ebind (get_circuit s (rv_provider_id e)) (\<lambda>c.
       let e' = e\<lparr>rv_no_dispatch_proof := Some \<lparr>np_kind = NO_DISPATCH_KIND,
                    np_request_digest = rq_request_digest (rv_request e), np_epoch = epoch, np_version = gs_version s + 1\<rparr>,
                  rv_state := RS_RELEASED\<rparr>;
           c' = (if ck_probe c = Some ident then c\<lparr>ck_probe := None\<rparr> else c)
       in Inr (e', set_entry ident e' (set_circuit (rv_provider_id e) c' s), True)))))"

definition unknown_state ::
    "governor_policy \<Rightarrow> gov_state \<Rightarrow> string \<Rightarrow> int \<Rightarrow> string \<Rightarrow> int \<Rightarrow> (reservation \<times> gov_state \<times> bool) kernel" where
  "unknown_state pol s ident epoch evidence now =
     ebind (check_epoch s epoch) (\<lambda>_.
     ebind (get_entry s ident) (\<lambda>e.
     if rv_state e = RS_UNKNOWN
     then ebind (deny (rv_evidence_digest e = Some evidence) GR_IDEMPOTENCY) (\<lambda>_. Inr (e, s, False))
     else
       ebind (deny (rv_state e = RS_DISPATCHED) GR_DISPATCH_MARKER) (\<lambda>_.
       ebind (get_circuit s (rv_provider_id e)) (\<lambda>c.
       ebind (amount (ck_failures c + 1)) (\<lambda>n.
       let e' = e\<lparr>rv_state := RS_UNKNOWN, rv_evidence_digest := Some evidence\<rparr>;
           c1 = c\<lparr>ck_failures := n, ck_successes := 0\<rparr>;
           c' = (if ck_state c1 = CIRCUIT_HALF_OPEN \<or> gp_failure_threshold pol \<le> n
                 then c1\<lparr>ck_state := CIRCUIT_OPEN, ck_opened_at := now, ck_probe := None\<rparr> else c1)
       in Inr (e', set_entry ident e' (set_circuit (rv_provider_id e) c' s), True))))))"

definition settled_circuit :: "governor_policy \<Rightarrow> bool \<Rightarrow> string \<Rightarrow> circuit \<Rightarrow> circuit" where
  "settled_circuit pol was_unknown ident c =
     (if \<not> was_unknown \<and> ck_state c = CIRCUIT_HALF_OPEN \<and> ck_probe c = Some ident
      then (let c1 = c\<lparr>ck_probe := None, ck_successes := ck_successes c + 1\<rparr>
            in if gp_recovery_successes pol \<le> ck_successes c1
               then c1\<lparr>ck_state := CIRCUIT_CLOSED, ck_failures := 0, ck_successes := 0\<rparr> else c1)
      else if \<not> was_unknown \<and> ck_state c = CIRCUIT_CLOSED then c\<lparr>ck_failures := 0\<rparr> else c)"

definition settle_state ::
    "governor_policy \<Rightarrow> gov_state \<Rightarrow> string \<Rightarrow> int \<Rightarrow> string \<Rightarrow> (reservation \<times> gov_state \<times> bool) kernel" where
  "settle_state pol s ident epoch evidence =
     ebind (check_epoch s epoch) (\<lambda>_.
     ebind (get_entry s ident) (\<lambda>e.
     if rv_state e = RS_COMMITTED
     then ebind (deny (rv_evidence_digest e = Some evidence) GR_IDEMPOTENCY) (\<lambda>_. Inr (e, s, False))
     else
       ebind (deny (rv_state e \<in> {RS_DISPATCHED, RS_UNKNOWN}) GR_DISPATCH_MARKER) (\<lambda>_.
       ebind (get_circuit s (rv_provider_id e)) (\<lambda>c.
       let e' = e\<lparr>rv_state := RS_COMMITTED, rv_evidence_digest := Some evidence\<rparr>
       in Inr (e', set_entry ident e' (set_circuit (rv_provider_id e)
                 (settled_circuit pol (rv_state e = RS_UNKNOWN) ident c) s), True)))))"

section \<open>Money policy\<close>

record money_review =
  mr_schema :: string
  mr_request_id :: string
  mr_bootstrap_policy_digest :: string
  mr_expected_version :: int
  mr_expected_epoch :: int
  mr_limits :: money_limits
  mr_review_digest :: string

definition review_body :: "money_review \<Rightarrow> (string \<times> json) list" where
  "review_body r =
     [(''schema'', JStr (mr_schema r)), (''request_id'', JStr (mr_request_id r)),
      (''bootstrap_policy_digest'', JStr (mr_bootstrap_policy_digest r)), (''expected_version'', JInt (mr_expected_version r)),
      (''expected_epoch'', JInt (mr_expected_epoch r)), (''limits'', money_limits_json (mr_limits r))]"

definition review_json :: "money_review \<Rightarrow> json" where
  "review_json r = JObj (review_body r @ [(''review_digest'', JStr (mr_review_digest r))])"

definition unlimited :: "money_limits \<Rightarrow> bool" where
  "unlimited l \<longleftrightarrow> ml_task l = None \<and> ml_owner_provider l = None \<and> ml_global l = None"

text \<open>Limits are all absent or all amounts.\<close>

definition check_money_limits :: "money_limits \<Rightarrow> unit kernel" where
  "check_money_limits l =
     (if unlimited l then Inr ()
      else check_all (\<lambda>v. deny (case v of None \<Rightarrow> False | Some n \<Rightarrow> is_amount n) GR_INVALID_AMOUNT)
             [ml_task l, ml_owner_provider l, ml_global l])"

definition review_schema :: "bool \<Rightarrow> string" where
  "review_schema no_limit = (if no_limit then ''aioa.governor.money-review.v3'' else ''aioa.governor.money-review.v2'')"

definition policy_schema :: "bool \<Rightarrow> string" where
  "policy_schema no_limit = (if no_limit then ''aioa.governor.money-policy.v3'' else ''aioa.governor.money-policy.v2'')"

definition make_review :: "governor_policy \<Rightarrow> gov_state \<Rightarrow> money_limits \<Rightarrow> string \<Rightarrow> money_review kernel" where
  "make_review pol s limits request_id =
     ebind (check_identity request_id) (\<lambda>_.
     ebind (check_money_limits limits) (\<lambda>_.
     ebind (policy_digest pol) (\<lambda>d.
     let r = \<lparr>mr_schema = review_schema (unlimited limits), mr_request_id = request_id, mr_bootstrap_policy_digest = d,
              mr_expected_version = gs_version s, mr_expected_epoch = gs_epoch s, mr_limits = limits, mr_review_digest = []\<rparr>
     in ebind (canonical_sha256 (JObj (review_body r))) (\<lambda>h. Inr (r\<lparr>mr_review_digest := h\<rparr>)))))"

text \<open>\<^verbatim>\<open>canonical_json_bytes(review) == canonical_json_bytes(expected)\<close>.\<close>

definition same_canonical :: "json \<Rightarrow> json \<Rightarrow> bool kernel" where
  "same_canonical v w =
     ebind (ensure (canonical_ok v \<and> canonical_ok w) ContractValidationError) (\<lambda>_. Inr (dumps_raw v = dumps_raw w))"

definition check_review :: "governor_policy \<Rightarrow> gov_state \<Rightarrow> money_review \<Rightarrow> unit kernel" where
  "check_review pol s r =
     ebind (make_review pol s (mr_limits r) (mr_request_id r)) (\<lambda>expected.
     ebind (same_canonical (review_json r) (review_json expected)) (\<lambda>same.
     deny same GR_POLICY_BINDING))"

text \<open>The schema of the policy is the one of the review with \<^verbatim>\<open>money-review\<close> replaced by \<^verbatim>\<open>money-policy\<close>; at this
  point the review is known to have one of its two schemas.\<close>

definition policy_of_review :: "money_review \<Rightarrow> money_policy" where
  "policy_of_review r =
     \<lparr>mp_schema = policy_schema (mr_schema r = review_schema True), mp_limits = mr_limits r, mp_request_id = mr_request_id r,
      mp_review_digest = mr_review_digest r\<rparr>"

definition validate_money_transition :: "governor_policy \<Rightarrow> gov_state \<Rightarrow> gov_state \<Rightarrow> money_review option \<Rightarrow> unit kernel" where
  "validate_money_transition pol before after review =
     (case review of
        None \<Rightarrow> Inl (GovernorError GR_INTEGRITY)
      | Some r \<Rightarrow>
          ebind (check_review pol before r) (\<lambda>_.
          ebind (deny (case gs_last_now after of
                         None \<Rightarrow> False
                       | Some n \<Rightarrow> (case gs_last_now before of None \<Rightarrow> True | Some m \<Rightarrow> m \<le> n)) GR_CLOCK_UNSAFE) (\<lambda>_.
          let unchanged = before\<lparr>gs_money_policy := Some (policy_of_review r), gs_epoch := gs_epoch before + 1,
                gs_version := gs_version before + 1, gs_last_now := gs_last_now after\<rparr>
          in ebind (same_canonical (state_json after) (state_json unchanged)) (\<lambda>same.
             deny same GR_INTEGRITY))))"

text \<open>The state a money policy gives, before it is written.\<close>

definition money_state :: "governor_policy \<Rightarrow> gov_state \<Rightarrow> money_review \<Rightarrow> int \<Rightarrow> gov_state kernel" where
  "money_state pol s r now =
     ebind (check_review pol s r) (\<lambda>_.
     ebind (forward_clock s now) (\<lambda>_.
     let s' = s\<lparr>gs_epoch := gs_epoch s + 1, gs_money_policy := Some (policy_of_review r)\<rparr>
     in ebind (budgets pol s') (\<lambda>_. Inr s')))"

section \<open>What each transition does\<close>

lemma start_epoch_cases:
  assumes "start_epoch_state s now = Inr (e, t, b)"
  shows "b \<and> e = gs_epoch s + 1 \<and> t = s\<lparr>gs_epoch := e, gs_circuits := map (\<lambda>(k, c). (k, reopen now c)) (gs_circuits s)\<rparr>"
  using assms by (auto simp: start_epoch_state_def result_simps)

lemma set_kill_cases: "set_kill_state s active = Inr (r, t, b) \<Longrightarrow> t = s\<lparr>gs_kill := active\<rparr>"
  by (auto simp: set_kill_state_def)

definition new_entry :: "reservation_request \<Rightarrow> string \<Rightarrow> int \<Rightarrow> reservation" where
  "new_entry q binding epoch =
     \<lparr>rv_request = q, rv_binding_digest = binding, rv_epoch = epoch, rv_state = RS_RESERVED,
      rv_evidence_digest = None, rv_no_dispatch_proof = None\<rparr>"

lemma reserve_cases:
  assumes "reserve_state pol s q epoch now = Inr (e, t, b)"
  obtains "\<not> b" "t = s" "dict_get (gs_reservations s) (rq_request_id q) = Some e"
  | c d where "b" "dict_get (gs_reservations s) (rq_request_id q) = None" "\<not> gs_kill s" "epoch = gs_epoch s"
      "admit_circuit pol (circuit_or_new s (rq_provider_id q)) (rq_request_id q) now = Inr c" "request_digest q = Inr d"
      "e = new_entry q d epoch" "t = set_entry (rq_request_id q) e (set_circuit (rq_provider_id q) c s)" "budgets pol t = Inr ()"
proof (cases "dict_get (gs_reservations s) (rq_request_id q)")
  case None
  then show thesis using assms that(2) by (auto simp: reserve_state_def result_simps Let_def new_entry_def)
next
  case (Some x)
  then show thesis using assms that(1) by (auto simp: reserve_state_def result_simps)
qed

lemma dispatch_state_cases:
  assumes "dispatch_state pol s i epoch now = Inr ((go, e, again), t, b)"
  obtains "\<not> go" "\<not> b" "t = s"
  | e0 c where "go" "b" "dict_get (gs_reservations s) i = Some e0" "rv_state e0 = RS_RESERVED" "rv_epoch e0 = epoch" "epoch = gs_epoch s"
      "\<not> gs_kill s" "dict_get (gs_circuits s) (rv_provider_id e0) = Some c"
      "ck_state c = CIRCUIT_CLOSED \<or> ck_state c = CIRCUIT_HALF_OPEN \<and> ck_probe c = Some i"
      "check_clock pol s now = Inr ()" "budgets pol s = Inr ()" "e = e0\<lparr>rv_state := RS_DISPATCHED\<rparr>" "t = set_entry i e s"
proof (cases "dict_get (gs_reservations s) i")
  case None
  then show thesis using assms by (auto simp: dispatch_state_def result_simps)
next
  case (Some e0)
  show thesis
  proof (cases "rv_state e0 = RS_RESERVED")
    case True
    then show thesis using assms Some that(2) by (auto simp: dispatch_state_def result_simps Let_def)
  next
    case False
    then show thesis using assms Some that(1) by (auto simp: dispatch_state_def result_simps get_entry_def)
  qed
qed

definition released_entry :: "gov_state \<Rightarrow> int \<Rightarrow> reservation \<Rightarrow> reservation" where
  "released_entry s epoch e =
     e\<lparr>rv_no_dispatch_proof := Some \<lparr>np_kind = NO_DISPATCH_KIND, np_request_digest = rq_request_digest (rv_request e),
         np_epoch = epoch, np_version = gs_version s + 1\<rparr>,
       rv_state := RS_RELEASED\<rparr>"

text \<open>Release, unknown and settlement either change nothing or move one entry and its circuit.\<close>

lemma release_cases:
  assumes "release_state s i epoch = Inr (e, t, b)"
  obtains "\<not> b" "t = s"
  | e0 c where "b" "dict_get (gs_reservations s) i = Some e0" "rv_state e0 = RS_RESERVED"
      "dict_get (gs_circuits s) (rv_provider_id e0) = Some c" "e = released_entry s epoch e0"
      "t = set_entry i e (set_circuit (rv_provider_id e0) (if ck_probe c = Some i then c\<lparr>ck_probe := None\<rparr> else c) s)"
proof (cases "get_entry s i")
  case (Inl x)
  then show thesis using assms by (auto simp: release_state_def result_simps)
next
  case (Inr e0)
  show thesis
  proof (cases "rv_state e0 = RS_RELEASED")
    case True
    then show thesis using assms Inr that(1) by (auto simp: release_state_def result_simps)
  next
    case False
    then obtain c where "rv_state e0 = RS_RESERVED" "get_circuit s (rv_provider_id e0) = Inr c" "b" "e = released_entry s epoch e0"
      "t = set_entry i e (set_circuit (rv_provider_id e0) (if ck_probe c = Some i then c\<lparr>ck_probe := None\<rparr> else c) s)"
      using assms Inr by (auto simp: release_state_def result_simps Let_def released_entry_def)
    then show thesis using Inr that(2) by (auto simp: result_simps)
  qed
qed

definition failed_circuit :: "governor_policy \<Rightarrow> int \<Rightarrow> circuit \<Rightarrow> circuit" where
  "failed_circuit pol now c =
     (let c1 = c\<lparr>ck_failures := ck_failures c + 1, ck_successes := 0\<rparr>
      in if ck_state c1 = CIRCUIT_HALF_OPEN \<or> gp_failure_threshold pol \<le> ck_failures c + 1
         then c1\<lparr>ck_state := CIRCUIT_OPEN, ck_opened_at := now, ck_probe := None\<rparr> else c1)"

lemma unknown_cases:
  assumes "unknown_state pol s i epoch evidence now = Inr (e, t, b)"
  obtains "\<not> b" "t = s"
  | e0 c where "b" "dict_get (gs_reservations s) i = Some e0" "rv_state e0 = RS_DISPATCHED"
      "dict_get (gs_circuits s) (rv_provider_id e0) = Some c"
      "e = e0\<lparr>rv_state := RS_UNKNOWN, rv_evidence_digest := Some evidence\<rparr>"
      "t = set_entry i e (set_circuit (rv_provider_id e0) (failed_circuit pol now c) s)"
proof (cases "get_entry s i")
  case (Inl x)
  then show thesis using assms by (auto simp: unknown_state_def result_simps)
next
  case (Inr e0)
  show thesis
  proof (cases "rv_state e0 = RS_UNKNOWN")
    case True
    then show thesis using assms Inr that(1) by (auto simp: unknown_state_def result_simps)
  next
    case False
    then obtain c n where "rv_state e0 = RS_DISPATCHED" "get_circuit s (rv_provider_id e0) = Inr c" "n = ck_failures c + 1"
      "b" "e = e0\<lparr>rv_state := RS_UNKNOWN, rv_evidence_digest := Some evidence\<rparr>"
      "t = set_entry i e (set_circuit (rv_provider_id e0) (failed_circuit pol now c) s)"
      using assms Inr by (auto simp: unknown_state_def result_simps Let_def failed_circuit_def)
    then show thesis using Inr that(2) by (auto simp: result_simps)
  qed
qed

lemma settle_cases:
  assumes "settle_state pol s i epoch evidence = Inr (e, t, b)"
  obtains "\<not> b" "t = s"
  | e0 c where "b" "dict_get (gs_reservations s) i = Some e0" "rv_state e0 = RS_DISPATCHED \<or> rv_state e0 = RS_UNKNOWN"
      "dict_get (gs_circuits s) (rv_provider_id e0) = Some c"
      "e = e0\<lparr>rv_state := RS_COMMITTED, rv_evidence_digest := Some evidence\<rparr>"
      "t = set_entry i e (set_circuit (rv_provider_id e0) (settled_circuit pol (rv_state e0 = RS_UNKNOWN) i c) s)"
proof (cases "get_entry s i")
  case (Inl x)
  then show thesis using assms by (auto simp: settle_state_def result_simps)
next
  case (Inr e0)
  show thesis
  proof (cases "rv_state e0 = RS_COMMITTED")
    case True
    then show thesis using assms Inr that(1) by (auto simp: settle_state_def result_simps)
  next
    case False
    then obtain c where "rv_state e0 = RS_DISPATCHED \<or> rv_state e0 = RS_UNKNOWN" "get_circuit s (rv_provider_id e0) = Inr c"
      "b" "e = e0\<lparr>rv_state := RS_COMMITTED, rv_evidence_digest := Some evidence\<rparr>"
      "t = set_entry i e (set_circuit (rv_provider_id e0) (settled_circuit pol (rv_state e0 = RS_UNKNOWN) i c) s)"
      using assms Inr by (auto simp: settle_state_def result_simps Let_def)
    then show thesis using Inr that(2) by (auto simp: result_simps)
  qed
qed

lemma set_fields [simp]:
  "gs_reservations (set_entry i e s) = dict_set i e (gs_reservations s)" "gs_circuits (set_entry i e s) = gs_circuits s"
  "gs_circuits (set_circuit p c s) = dict_set p c (gs_circuits s)" "gs_reservations (set_circuit p c s) = gs_reservations s"
  "gs_policy_digest (set_entry i e s) = gs_policy_digest s" "gs_policy_digest (set_circuit p c s) = gs_policy_digest s"
  "gs_money_policy (set_entry i e s) = gs_money_policy s" "gs_money_policy (set_circuit p c s) = gs_money_policy s"
  "gs_version (set_entry i e s) = gs_version s" "gs_version (set_circuit p c s) = gs_version s"
  "gs_last_now (set_entry i e s) = gs_last_now s" "gs_last_now (set_circuit p c s) = gs_last_now s"
  "gs_epoch (set_entry i e s) = gs_epoch s" "gs_epoch (set_circuit p c s) = gs_epoch s"
  "gs_kill (set_entry i e s) = gs_kill s" "gs_kill (set_circuit p c s) = gs_kill s"
  by (simp_all add: set_entry_def set_circuit_def)

end
