(* ===== verification/Job_Contracts.thy ===== *)
theory Job_Contracts
  imports Governor_State
begin

text \<open>
  The data of the offline jobs of a mission, \<^verbatim>\<open>mission/job_contracts.py\<close> and the first part of \<^verbatim>\<open>mission/jobs.py\<close>:
  the envelope of a job, the claim of a worker, the stored job, and the advice that finishes one, with the payload
  contracts of \<^verbatim>\<open>jobs.py\<close> and \<^verbatim>\<open>service_guard/contracts.py\<close>. Jobs without a completion binding are modelled.
\<close>

section \<open>Envelopes\<close>

definition JOB_MODEL :: string where
  "JOB_MODEL = ''nvidia/Nemotron-3_5-Lightning''"

definition ADVICE_SCHEMA :: string where
  "ADVICE_SCHEMA = ''aioa-readonly-advice-v1''"

definition SERVICE_SCHEMA :: string where
  "SERVICE_SCHEMA = ''aioa-service-proposal-v1''"

definition JOB_KIND :: string where
  "JOB_KIND = ''aioa-offline-advisory-job-v1''"

text \<open>The digest of an envelope is a field that its constructor computes; here it is a function of the others.\<close>

record job_envelope =
  je_scope :: owner_scope
  je_task_id :: string
  je_request_id :: string
  je_request_digest :: string
  je_model_id :: string
  je_output_schema :: string
  je_max_output_tokens :: int
  je_request_timeout :: int
  je_deadline_at :: int
  je_money_nano :: int
  je_risk_units :: int

definition envelope_fields :: "job_envelope \<Rightarrow> (string \<times> json) list" where
  "envelope_fields e =
     [(''task_id'', JStr (je_task_id e)), (''request_id'', JStr (je_request_id e)),
      (''request_digest'', JStr (je_request_digest e)), (''model_id'', JStr (je_model_id e)),
      (''output_schema'', JStr (je_output_schema e)), (''max_output_tokens'', JInt (je_max_output_tokens e)),
      (''request_timeout'', JInt (je_request_timeout e)), (''deadline_at'', JInt (je_deadline_at e)),
      (''money_nano'', JInt (je_money_nano e)), (''risk_units'', JInt (je_risk_units e))]"

definition envelope_body :: "job_envelope \<Rightarrow> json" where
  "envelope_body e = JObj ((''scope'', owner_scope_json (je_scope e)) # envelope_fields e)"

definition envelope_digest :: "job_envelope \<Rightarrow> string" where
  "envelope_digest e = sha256_text (dumps_raw (envelope_body e))"

text \<open>\<^verbatim>\<open>JobEnvelope.__post_init__\<close>.\<close>

definition make_envelope :: "job_envelope \<Rightarrow> unit kernel" where
  "make_envelope e =
     ebind (check_all check_identity [je_task_id e, je_request_id e]) (\<lambda>_.
     ebind (check_digest (je_request_digest e)) (\<lambda>_.
     ebind (amount (je_money_nano e)) (\<lambda>_.
     ebind (amount (je_risk_units e)) (\<lambda>_.
     ebind (deny (je_model_id e = JOB_MODEL \<and> je_output_schema e \<in> {ADVICE_SCHEMA, SERVICE_SCHEMA}
              \<and> 1 \<le> je_max_output_tokens e \<and> je_max_output_tokens e \<le> 512
              \<and> 1 \<le> je_request_timeout e \<and> je_request_timeout e \<le> 30
              \<and> 0 < je_deadline_at e \<and> je_deadline_at e \<le> 9007199254740992) GR_INVALID_REQUEST) (\<lambda>_.
     ensure (canonical_ok (envelope_body e)) ContractValidationError)))))"

definition envelope_value :: "job_envelope \<Rightarrow> json" where
  "envelope_value e = JObj ((''scope'', scope_binding (je_scope e)) # envelope_fields e @
     [(''schema'', JStr ''aioa.offline-advisory-job.v1''), (''authority'', JStr ''NONE''), (''provider_id'', JStr ''nebius''),
      (''transport_scope'', JStr ''OFFLINE''), (''verification'', JStr ''UNVERIFIED''),
      (''envelope_digest'', JStr (envelope_digest e))])"

text \<open>\<^verbatim>\<open>as_dict\<close> and \<^verbatim>\<open>parse\<close>.\<close>

definition envelope_dict :: "job_envelope \<Rightarrow> unit kernel" where
  "envelope_dict e =
     ebind (make_envelope e) (\<lambda>_.
     ebind (ensure (canonical_ok (envelope_value e)) ContractValidationError) (\<lambda>_.
     deny (length (utf8 (dumps_raw (envelope_value e))) \<le> 4096) GR_INVALID_REQUEST))"

definition parse_envelope :: "job_envelope \<Rightarrow> unit kernel" where
  "parse_envelope e = ebind (ensure (valid_owner_scope (je_scope e)) AdmissionError) (\<lambda>_. make_envelope e)"

section \<open>Claims\<close>

record job_claim =
  jc_task_id :: string
  jc_envelope_digest :: string
  jc_worker_id :: string
  jc_fence :: int
  jc_governor_epoch :: int
  jc_lease_until :: int

definition make_claim :: "job_claim \<Rightarrow> unit kernel" where
  "make_claim c =
     ebind (check_identity (jc_task_id c)) (\<lambda>_.
     ebind (check_identity (jc_worker_id c)) (\<lambda>_.
     ebind (check_digest (jc_envelope_digest c)) (\<lambda>_.
     check_all (\<lambda>v. deny (1 \<le> v \<and> v \<le> 9007199254740992) GR_INVALID_REQUEST)
       [jc_fence c, jc_governor_epoch c, jc_lease_until c])))"

definition claim_json :: "job_claim \<Rightarrow> json" where
  "claim_json c = JObj
     [(''task_id'', JStr (jc_task_id c)), (''envelope_digest'', JStr (jc_envelope_digest c)),
      (''worker_id'', JStr (jc_worker_id c)), (''fence'', JInt (jc_fence c)), (''governor_epoch'', JInt (jc_governor_epoch c)),
      (''lease_until'', JInt (jc_lease_until c))]"

section \<open>Jobs\<close>

datatype job_state = JS_QUEUED | JS_CLAIMED | JS_STARTED | JS_UNKNOWN | JS_DONE

fun job_state_value :: "job_state \<Rightarrow> string" where
  "job_state_value JS_QUEUED = ''QUEUED''"
| "job_state_value JS_CLAIMED = ''CLAIMED''"
| "job_state_value JS_STARTED = ''STARTED''"
| "job_state_value JS_UNKNOWN = ''UNKNOWN''"
| "job_state_value JS_DONE = ''DONE''"

record job =
  jb_version :: int
  jb_envelope :: job_envelope
  jb_state :: job_state
  jb_claim :: "job_claim option"
  jb_result_digest :: "string option"
  jb_reservation_id :: string
  jb_last_now :: int

abbreviation jb_task_id :: "job \<Rightarrow> string" where "jb_task_id j \<equiv> je_task_id (jb_envelope j)"

definition job_json :: "job \<Rightarrow> json" where
  "job_json j = JObj
     [(''version'', JInt (jb_version j)), (''envelope'', envelope_value (jb_envelope j)),
      (''state'', JStr (job_state_value (jb_state j))),
      (''claim'', (case jb_claim j of None \<Rightarrow> JNull | Some c \<Rightarrow> claim_json c)),
      (''result_digest'', opt_str (jb_result_digest j)), (''reservation_id'', JStr (jb_reservation_id j)),
      (''last_now'', JInt (jb_last_now j))]"

definition job_option_json :: "job option \<Rightarrow> json" where
  "job_option_json v = (case v of None \<Rightarrow> JNull | Some j \<Rightarrow> job_json j)"

record job_outcome =
  jo_job :: job
  jo_prior_digest :: string

definition job_outcome_json :: "job_outcome \<Rightarrow> json" where
  "job_outcome_json o' = JObj [(''job'', job_json (jo_job o')), (''prior_digest'', JStr (jo_prior_digest o'))]"

section \<open>Advice\<close>

record provider_response =
  ps_request_id :: string
  ps_provider_request_id :: "string option"
  ps_model_id :: string
  ps_received_at :: int
  ps_finish_reason :: string
  ps_raw_size :: int
  ps_parsed_payload :: json
  ps_usage :: json
  ps_validation_result :: string
  ps_http_status :: int
  ps_safe_metadata :: json
  ps_authority :: string

definition response_json :: "provider_response \<Rightarrow> json" where
  "response_json r = JObj
     [(''request_id'', JStr (ps_request_id r)), (''provider_request_id'', opt_str (ps_provider_request_id r)),
      (''model_id'', JStr (ps_model_id r)), (''received_at'', JInt (ps_received_at r)),
      (''finish_reason'', JStr (ps_finish_reason r)), (''raw_size'', JInt (ps_raw_size r)),
      (''parsed_payload'', ps_parsed_payload r), (''usage'', ps_usage r),
      (''validation_result'', JStr (ps_validation_result r)), (''http_status'', JInt (ps_http_status r)),
      (''safe_metadata'', ps_safe_metadata r), (''authority'', JStr (ps_authority r))]"

definition response_digest :: "provider_response \<Rightarrow> string" where
  "response_digest r = sha256_text (dumps_raw (response_json r))"

text \<open>The checks of \<^verbatim>\<open>change_job\<close> before a job is finished.\<close>

definition check_response :: "provider_response \<Rightarrow> unit kernel" where
  "check_response r =
     ebind (deny (ps_authority r = ''ADVISORY_ONLY'' \<and> ps_validation_result r = ''VALID'' \<and> ps_finish_reason r = ''stop''
              \<and> ps_http_status r = 200 \<and> 0 \<le> ps_raw_size r \<and> ps_raw_size r \<le> 16384) GR_INVALID_REQUEST) (\<lambda>_.
     ebind (ensure (canonical_ok (response_json r)) ContractValidationError) (\<lambda>_.
     deny (length (utf8 (dumps_raw (response_json r))) \<le> 32768) GR_INVALID_REQUEST))"

definition text_value :: "json option \<Rightarrow> string option" where
  "text_value v = (case v of Some (JStr s) \<Rightarrow> Some s | _ \<Rightarrow> None)"

definition number_value :: "json option \<Rightarrow> int option" where
  "number_value v = (case v of Some (JInt n) \<Rightarrow> Some n | _ \<Rightarrow> None)"

definition flag_value :: "json option \<Rightarrow> bool" where
  "flag_value v = (case v of Some (JBool _) \<Rightarrow> True | _ \<Rightarrow> False)"

definition advice_payload :: "json \<Rightarrow> bool" where
  "advice_payload v =
     (case v of
        JObj kvs \<Rightarrow>
          set (map fst kvs) = {''summary'', ''needs_attention''}
          \<and> (case text_value (dict_get kvs ''summary'') of None \<Rightarrow> False | Some s \<Rightarrow> 1 \<le> length s \<and> length s \<le> 800)
          \<and> flag_value (dict_get kvs ''needs_attention'')
      | _ \<Rightarrow> False)"

definition logical_id :: "string \<Rightarrow> bool" where
  "logical_id s =
     (case s of
        [] \<Rightarrow> False
      | c # cs \<Rightarrow> ascii_alnum c \<and> length cs \<le> 127 \<and> list_all (\<lambda>d. ascii_alnum d \<or> d \<in> set ''._-'') cs)"

text \<open>\<^verbatim>\<open>parse_proposal\<close> of the service guard: its \<^verbatim>\<open>GuardError\<close> is a \<^verbatim>\<open>ValueError\<close>.\<close>

definition parse_proposal :: "json \<Rightarrow> unit kernel" where
  "parse_proposal v =
     ensure
       (case v of
          JObj kvs \<Rightarrow>
            set (map fst kvs) = {''target_id'', ''observed_mode'', ''expected_target_revision'', ''proposed_effect'',
                                 ''reason_summary'', ''needs_attention''}
            \<and> (case text_value (dict_get kvs ''observed_mode'') of None \<Rightarrow> False | Some m \<Rightarrow> m \<in> {''NORMAL'', ''MAINTENANCE''})
            \<and> (case number_value (dict_get kvs ''expected_target_revision'') of
                 None \<Rightarrow> False | Some n \<Rightarrow> 1 \<le> n \<and> n \<le> 9007199254740992)
            \<and> (case text_value (dict_get kvs ''proposed_effect'') of None \<Rightarrow> False | Some x \<Rightarrow> x \<in> {''SET_MAINTENANCE'', ''NONE''})
            \<and> (case text_value (dict_get kvs ''reason_summary'') of None \<Rightarrow> False | Some s \<Rightarrow> 1 \<le> length s \<and> length s \<le> 400)
            \<and> flag_value (dict_get kvs ''needs_attention'')
            \<and> (case text_value (dict_get kvs ''target_id'') of None \<Rightarrow> False | Some t \<Rightarrow> logical_id t)
        | _ \<Rightarrow> False) PyError"

definition check_payload :: "job_envelope \<Rightarrow> provider_response \<Rightarrow> unit kernel" where
  "check_payload e r =
     (if je_output_schema e = ADVICE_SCHEMA then deny (advice_payload (ps_parsed_payload r)) GR_INVALID_REQUEST
      else parse_proposal (ps_parsed_payload r))"

lemma sha256_text_hex [simp]: "sha256_hex_text (sha256_text t)"
  by (simp add: sha256_hex_text_def sha256_text_shape list_all_iff)

end
