(* ===== verification/Governor_Store.thy ===== *)
theory Governor_Store
  imports Complex_Main Governor_Ops Job_Contracts
begin

text \<open>
  The durable side of \<^verbatim>\<open>CoreDualGovernor\<close> and its public methods: the chain of snapshots kept as operation
  records, read and checked from the start by every call, the write of the next one together with its audit event,
  and each method as one transaction of the runner. The theorem says that the database implements the
  state machine of snapshots.
\<close>

section \<open>The stored chain\<close>

record governor_outcome =
  go_state :: gov_state
  go_prior_digest :: string
  go_policy_transition :: "money_review option"

text \<open>The outcomes of an operation table: those of the governor, of the jobs and of other components.\<close>

datatype stored_outcome = GovernorOutcome governor_outcome | JobOutcome job_outcome | OtherOutcome json

definition outcome_json :: "governor_outcome \<Rightarrow> json" where
  "outcome_json o' = JObj (
     [(''state'', state_json (go_state o')), (''prior_digest'', JStr (go_prior_digest o'))]
     @ (case go_policy_transition o' of None \<Rightarrow> [] | Some r \<Rightarrow> [(''policy_transition'', review_json r)]))"

fun stored_json :: "stored_outcome \<Rightarrow> json" where
  "stored_json (GovernorOutcome o') = outcome_json o'"
| "stored_json (JobOutcome o') = job_outcome_json o'"
| "stored_json (OtherOutcome v) = v"

type_synonym gov_db = "stored_outcome kernel_db"
type_synonym gov_row = "stored_outcome operation_row"

definition gov_key :: "governor_policy \<Rightarrow> int \<Rightarrow> string kernel" where
  "gov_key pol version = canonical_sha256
     (JArr [JStr GOVERNOR_KIND, owner_scope_json (gp_scope pol), JStr (gp_deployment_id pol), JInt version])"

text \<open>\<^verbatim>\<open>_load\<close>: the checks of one record, the order by version, and the replay.\<close>

definition check_row :: "governor_policy \<Rightarrow> gov_row \<Rightarrow> governor_outcome kernel" where
  "check_row pol row =
     (case op_outcome row of
        JobOutcome _ \<Rightarrow> Inl (GovernorError GR_INTEGRITY)
      | OtherOutcome _ \<Rightarrow> Inl (GovernorError GR_INTEGRITY)
      | GovernorOutcome o' \<Rightarrow>
          ebind (canonical_sha256 (outcome_json o')) (\<lambda>d.
          ebind (deny (op_digest row = d) GR_INTEGRITY) (\<lambda>_.
          ebind (policy_digest pol) (\<lambda>pd.
          ebind (deny (gs_policy_digest (go_state o') = pd) GR_POLICY_BINDING) (\<lambda>_.
          ebind (deny (1 \<le> gs_version (go_state o') \<and> gs_version (go_state o') \<le> 1023) GR_INTEGRITY) (\<lambda>_.
          ebind (gov_key pol (gs_version (go_state o'))) (\<lambda>k.
          ebind (deny (op_id row = k \<and> op_revision row = 1) GR_INTEGRITY) (\<lambda>_.
          Inr o'))))))))"

text \<open>One link: the outcome follows the current snapshot; the identities of the money policies so far, with its own.\<close>

definition check_link :: "governor_policy \<Rightarrow> gov_state \<Rightarrow> string list \<Rightarrow> governor_outcome \<Rightarrow> string list kernel" where
  "check_link pol current requests o' =
     ebind (deny (gs_version (go_state o') = gs_version current + 1) GR_INTEGRITY) (\<lambda>_.
     ebind (state_digest current) (\<lambda>d.
     ebind (deny (go_prior_digest o' = d) GR_INTEGRITY) (\<lambda>_.
     ebind (if gs_money_policy (go_state o') \<noteq> gs_money_policy current
            then ebind (validate_money_transition pol current (go_state o') (go_policy_transition o')) (\<lambda>_.
                 case go_policy_transition o' of
                   None \<Rightarrow> Inl PyError
                 | Some r \<Rightarrow> ebind (deny (mr_request_id r \<notin> set requests) GR_INTEGRITY) (\<lambda>_. Inr (mr_request_id r # requests)))
            else ebind (deny (go_policy_transition o' = None) GR_INTEGRITY) (\<lambda>_. Inr requests)) (\<lambda>requests'.
     ebind (validate pol (go_state o')) (\<lambda>_. Inr requests')))))"

fun replay :: "governor_policy \<Rightarrow> gov_state \<Rightarrow> string list \<Rightarrow> governor_outcome list \<Rightarrow> gov_state kernel" where
  "replay pol current requests [] = Inr current"
| "replay pol current requests (o' # os) =
     ebind (check_link pol current requests o') (\<lambda>requests'. replay pol (go_state o') requests' os)"

definition governor_rows :: "gov_db \<Rightarrow> gov_row list" where
  "governor_rows db = filter (\<lambda>row. op_kind row = GOVERNOR_KIND) (db_operations db)"

definition load_outcomes :: "governor_policy \<Rightarrow> gov_db \<Rightarrow> governor_outcome list kernel" where
  "load_outcomes pol db =
     ebind (scan_rows op_id (governor_rows db)) (\<lambda>rows.
     ebind (deny (length rows < 1024) GR_HISTORY_QUOTA) (\<lambda>_.
     ebind (traverse (check_row pol) rows) (\<lambda>os.
     Inr (sort_key (\<lambda>o'. gs_version (go_state o')) os))))"

definition load_state :: "governor_policy \<Rightarrow> gov_db \<Rightarrow> gov_state kernel" where
  "load_state pol db =
     ebind (load_outcomes pol db) (\<lambda>os.
     ebind (initial_state pol) (\<lambda>s. replay pol s [] os))"

section \<open>The write\<close>

text \<open>\<^verbatim>\<open>datetime.fromtimestamp(now, timezone.utc)\<close> fails after the year 9999.\<close>

definition MAX_TIMESTAMP :: int where
  "MAX_TIMESTAMP = 253402300799"

definition append_governor_event ::
    "core_principal \<Rightarrow> core_capability \<Rightarrow> operation_binding \<Rightarrow> gov_state \<Rightarrow> gov_state \<Rightarrow> int \<Rightarrow> gov_db \<Rightarrow> gov_db kernel" where
  "append_governor_event p purpose binding before s now db =
     ebind (state_digest s) (\<lambda>content.
     ebind (ensure (now \<le> MAX_TIMESTAMP) PyError) (\<lambda>_.
     append_domain_event p purpose binding (''governor-'' @ ob_idempotency_key binding)
       (''governor-outbox-'' @ ob_idempotency_key binding) (ob_idempotency_key binding)
       (Some (py_int_str (gs_version before))) (py_int_str (gs_version s)) content (utc (now * 1000000)) db))"

definition write_state ::
    "governor_policy \<Rightarrow> core_principal \<Rightarrow> core_capability \<Rightarrow> gov_state \<Rightarrow> gov_state \<Rightarrow> int \<Rightarrow> money_review option \<Rightarrow> gov_db
     \<Rightarrow> gov_db kernel" where
  "write_state pol p purpose before changed now transition db =
     (let s = changed\<lparr>gs_version := gs_version before + 1, gs_last_now := Some now\<rparr> in
      ebind (validate pol s) (\<lambda>_.
      ebind (state_digest before) (\<lambda>prior.
      ebind (case transition of None \<Rightarrow> Inr () | Some _ \<Rightarrow> validate_money_transition pol before s transition) (\<lambda>_.
      let o' = \<lparr>go_state = s, go_prior_digest = prior, go_policy_transition = transition\<rparr> in
      ebind (gov_key pol (gs_version s)) (\<lambda>k.
      ebind (operation_bind k GOVERNOR_KIND (outcome_json o')) (\<lambda>binding.
      ebind (execute_once stored_json p purpose binding
         (\<lambda>db. ebind (append_governor_event p purpose binding before s now db) (\<lambda>db'. Inr (GovernorOutcome o', db'))) db)
        (\<lambda>(_, _, db'). Inr db')))))))"

section \<open>Methods\<close>

record governor =
  gv_core :: core_admission
  gv_runner :: runner
  gv_policy :: governor_policy

text \<open>One reading of the injected clock: a number, or something else.\<close>

type_synonym clock_reading = "rat option"

definition read_now :: "clock_reading \<Rightarrow> int kernel" where
  "read_now v =
     (case v of
        None \<Rightarrow> Inl (GovernorError GR_CLOCK_UNSAFE)
      | Some x \<Rightarrow> ebind (deny (0 \<le> x \<and> x \<le> 9007199254740992) GR_CLOCK_UNSAFE) (\<lambda>_. Inr \<lfloor>x\<rfloor>))"

text \<open>
  What a call meets: its principal, the admission clock at the two checks before the transaction, the governor's
  clock at its two readings, the attempts of the runner, and the answers of the authority check of a money policy.
\<close>

record call_env =
  ce_principal :: core_principal
  ce_require :: "datetime \<times> datetime"
  ce_now :: "clock_reading \<times> clock_reading"
  ce_attempts :: "nat \<Rightarrow> attempt"
  ce_authority :: "kernel_error option \<times> kernel_error option"

definition gov_require :: "governor \<Rightarrow> core_principal \<Rightarrow> core_capability \<Rightarrow> datetime \<Rightarrow> unit kernel" where
  "gov_require gv p purpose now =
     ebind (require (gv_core gv) p purpose (Some (gp_scope (gv_policy gv))) now) (\<lambda>_. Inr ())"

text \<open>The clock rule of \<^verbatim>\<open>_change\<close>: reconciliation under the kill switch accepts any pause.\<close>

datatype clock_rule = NoClock | StepClock | ReconcileClock

definition rule_clock :: "governor_policy \<Rightarrow> clock_rule \<Rightarrow> gov_state \<Rightarrow> int \<Rightarrow> unit kernel" where
  "rule_clock pol rule s now =
     (case rule of
        NoClock \<Rightarrow> Inr ()
      | StepClock \<Rightarrow> check_clock pol s now
      | ReconcileClock \<Rightarrow> if gs_kill s then forward_clock s now else check_clock pol s now)"

text \<open>What \<^verbatim>\<open>_change\<close> does to a snapshot: the result and the snapshot that is written, if any.\<close>

definition change_step ::
    "governor_policy \<Rightarrow> clock_rule \<Rightarrow> (gov_state \<Rightarrow> ('a \<times> gov_state \<times> bool) kernel) \<Rightarrow> int \<Rightarrow> gov_state
     \<Rightarrow> ('a \<times> (gov_state \<times> int) option) kernel" where
  "change_step pol rule change now before =
     ebind (rule_clock pol rule before now) (\<lambda>_.
     ebind (change before) (\<lambda>(r, s, changed).
     Inr (r, if changed then Some (s, max now (case gs_last_now s of None \<Rightarrow> 0 | Some n \<Rightarrow> n)) else None)))"

definition change_callback ::
    "governor_policy \<Rightarrow> core_principal \<Rightarrow> core_capability \<Rightarrow> clock_rule \<Rightarrow> (gov_state \<Rightarrow> ('a \<times> gov_state \<times> bool) kernel) \<Rightarrow> int
     \<Rightarrow> gov_db \<Rightarrow> ('a \<times> gov_db) kernel" where
  "change_callback pol p purpose rule change now db =
     ebind (load_state pol db) (\<lambda>before.
     ebind (change_step pol rule change now before) (\<lambda>(r, out).
     case out of
       None \<Rightarrow> Inr (r, db)
     | Some (s, stamp) \<Rightarrow> ebind (write_state pol p purpose before s stamp None db) (\<lambda>db'. Inr (r, db'))))"

definition run_call ::
    "governor \<Rightarrow> call_env \<Rightarrow> core_capability \<Rightarrow> (gov_db \<Rightarrow> ('a \<times> gov_db) kernel) \<Rightarrow> gov_db \<Rightarrow> 'a kernel \<times> gov_db" where
  "run_call gv env purpose callback db =
     (case run_transaction (gv_runner gv) (ce_principal env) purpose callback (ce_attempts env) db of
        (r, _, db') \<Rightarrow> (r, db'))"

interpretation port: transaction_port "run_call gv env purpose" for gv env purpose
proof unfold_locales
  fix callback :: "gov_db \<Rightarrow> ('b \<times> gov_db) kernel" and db r db' e
  obtain x pauses d where run: "run_transaction (gv_runner gv) (ce_principal env) purpose callback (ce_attempts env) db = (x, pauses, d)"
    by (metis prod_cases3)
  note t = run_transaction_truthful [OF this]
  show "callback db = Inr (r, db')" if "run_call gv env purpose callback db = (Inr r, db')"
    using that run t by (simp add: run_call_def)
  show "db' = db \<or> e = CommitOutcomeUnknown \<and> (\<exists>r. callback db = Inr (r, db'))"
    if "run_call gv env purpose callback db = (Inl e, db')"
    using that run t by (simp add: run_call_def)
qed

text \<open>\<^verbatim>\<open>_change\<close>: admission, the second reading of the clock, the transaction.\<close>

definition gov_change ::
    "governor \<Rightarrow> call_env \<Rightarrow> core_capability \<Rightarrow> clock_rule \<Rightarrow> (gov_state \<Rightarrow> ('a \<times> gov_state \<times> bool) kernel) \<Rightarrow> gov_db
     \<Rightarrow> 'a kernel \<times> gov_db" where
  "gov_change gv env purpose rule change db =
     (case ebind (gov_require gv (ce_principal env) purpose (snd (ce_require env))) (\<lambda>_. read_now (snd (ce_now env))) of
        Inl e \<Rightarrow> (Inl e, db)
      | Inr now \<Rightarrow> run_call gv env purpose (change_callback (gv_policy gv) (ce_principal env) purpose rule change now) db)"

text \<open>A method that checks its arguments first.\<close>

definition guarded :: "'b kernel \<Rightarrow> ('b \<Rightarrow> gov_db \<Rightarrow> 'a kernel \<times> gov_db) \<Rightarrow> gov_db \<Rightarrow> 'a kernel \<times> gov_db" where
  "guarded checks body db = (case checks of Inl e \<Rightarrow> (Inl e, db) | Inr v \<Rightarrow> body v db)"

definition start_epoch :: "governor \<Rightarrow> call_env \<Rightarrow> gov_db \<Rightarrow> int kernel \<times> gov_db" where
  "start_epoch gv env =
     guarded (read_now (fst (ce_now env))) (\<lambda>now.
       gov_change gv env CC_MANAGE NoClock (\<lambda>s. start_epoch_state s now))"

definition set_kill :: "governor \<Rightarrow> call_env \<Rightarrow> bool \<Rightarrow> gov_db \<Rightarrow> bool kernel \<times> gov_db" where
  "set_kill gv env active =
     gov_change gv env CC_MANAGE (if active then NoClock else StepClock) (\<lambda>s. set_kill_state s active)"

definition reserve :: "governor \<Rightarrow> call_env \<Rightarrow> reservation_request \<Rightarrow> int \<Rightarrow> gov_db \<Rightarrow> reservation kernel \<times> gov_db" where
  "reserve gv env q epoch =
     guarded
       (ebind (gov_require gv (ce_principal env) CC_COMMIT (fst (ce_require env))) (\<lambda>_.
        ebind (check_request q) (\<lambda>_.
        ebind (request_digest q) (\<lambda>_.
        ebind (deny (rq_model_id q \<in> set (pr_model_binding_ids (ce_principal env))) GR_MODEL_BINDING) (\<lambda>_.
        read_now (fst (ce_now env)))))))
       (\<lambda>now. gov_change gv env CC_COMMIT StepClock (\<lambda>s. reserve_state (gv_policy gv) s q epoch now))"

definition dispatch_commit ::
    "governor \<Rightarrow> call_env \<Rightarrow> string \<Rightarrow> int \<Rightarrow> gov_db \<Rightarrow> (bool \<times> reservation \<times> bool) kernel \<times> gov_db" where
  "dispatch_commit gv env ident epoch =
     guarded (ebind (check_identity ident) (\<lambda>_. read_now (fst (ce_now env)))) (\<lambda>now.
       gov_change gv env CC_COMMIT StepClock (\<lambda>s. dispatch_state (gv_policy gv) s ident epoch now))"

definition release_not_dispatched ::
    "governor \<Rightarrow> call_env \<Rightarrow> string \<Rightarrow> int \<Rightarrow> gov_db \<Rightarrow> reservation kernel \<times> gov_db" where
  "release_not_dispatched gv env ident epoch =
     guarded (check_identity ident) (\<lambda>_.
       gov_change gv env CC_COMMIT ReconcileClock (\<lambda>s. release_state s ident epoch))"

definition mark_unknown ::
    "governor \<Rightarrow> call_env \<Rightarrow> string \<Rightarrow> int \<Rightarrow> string \<Rightarrow> gov_db \<Rightarrow> reservation kernel \<times> gov_db" where
  "mark_unknown gv env ident epoch evidence =
     guarded (ebind (check_identity ident) (\<lambda>_. ebind (check_digest evidence) (\<lambda>_. read_now (fst (ce_now env))))) (\<lambda>now.
       gov_change gv env CC_COMMIT ReconcileClock (\<lambda>s. unknown_state (gv_policy gv) s ident epoch evidence now))"

definition settle ::
    "governor \<Rightarrow> call_env \<Rightarrow> string \<Rightarrow> int \<Rightarrow> string \<Rightarrow> gov_db \<Rightarrow> reservation kernel \<times> gov_db" where
  "settle gv env ident epoch evidence =
     guarded (ebind (check_identity ident) (\<lambda>_. check_digest evidence)) (\<lambda>_.
       gov_change gv env CC_COMMIT ReconcileClock (\<lambda>s. settle_state (gv_policy gv) s ident epoch evidence))"

section \<open>Reading and money policy\<close>

definition inspect :: "governor \<Rightarrow> call_env \<Rightarrow> gov_db \<Rightarrow> (gov_state \<times> exposure) kernel \<times> gov_db" where
  "inspect gv env =
     guarded (gov_require gv (ce_principal env) CC_READ (fst (ce_require env))) (\<lambda>_.
       run_call gv env CC_READ (\<lambda>db.
         ebind (load_state (gv_policy gv) db) (\<lambda>s.
         ebind (exposure_of (gs_reservations s)) (\<lambda>x. Inr ((s, x), db)))))"

definition money_policy_review ::
    "governor \<Rightarrow> call_env \<Rightarrow> money_limits \<Rightarrow> string \<Rightarrow> gov_db \<Rightarrow> money_review kernel \<times> gov_db" where
  "money_policy_review gv env limits request_id =
     guarded (gov_require gv (ce_principal env) CC_READ (fst (ce_require env))) (\<lambda>_.
       run_call gv env CC_READ (\<lambda>db.
         ebind (load_state (gv_policy gv) db) (\<lambda>s.
         ebind (make_review (gv_policy gv) s limits request_id) (\<lambda>r. Inr (r, db)))))"

definition authority :: "kernel_error option \<Rightarrow> unit kernel" where
  "authority v = (case v of None \<Rightarrow> Inr () | Some e \<Rightarrow> Inl e)"

text \<open>The transition of the chain with the identity of a request, in the order of the scan.\<close>

definition prior_transition :: "gov_db \<Rightarrow> string \<Rightarrow> money_review option" where
  "prior_transition db request_id =
     find (\<lambda>r. mr_request_id r = request_id)
       (concat (map (\<lambda>row. case op_outcome row of
                             GovernorOutcome o' \<Rightarrow> (case go_policy_transition o' of None \<Rightarrow> [] | Some r \<Rightarrow> [r])
                           | JobOutcome _ \<Rightarrow> []
                           | OtherOutcome _ \<Rightarrow> []) (governor_rows db)))"

definition money_callback ::
    "governor_policy \<Rightarrow> core_principal \<Rightarrow> kernel_error option \<times> kernel_error option \<Rightarrow> money_review \<Rightarrow> int \<Rightarrow> gov_db
     \<Rightarrow> ((bool \<times> int \<times> int) \<times> gov_db) kernel" where
  "money_callback pol p checks review now db =
     ebind (authority (fst checks)) (\<lambda>_.
     ebind (load_state pol db) (\<lambda>before.
     case prior_transition db (mr_request_id review) of
       Some r \<Rightarrow>
         ebind (same_canonical (review_json r) (review_json review)) (\<lambda>same.
         ebind (deny same GR_IDEMPOTENCY) (\<lambda>_. Inr ((True, gs_epoch before, gs_version before), db)))
     | None \<Rightarrow>
         ebind (money_state pol before review now) (\<lambda>s.
         ebind (authority (snd checks)) (\<lambda>_.
         ebind (write_state pol p CC_MANAGE before s (max now (case gs_last_now before of None \<Rightarrow> 0 | Some n \<Rightarrow> n)) (Some review) db)
           (\<lambda>db'. Inr ((False, gs_epoch s, gs_version before + 1), db'))))))"

definition apply_money_policy ::
    "governor \<Rightarrow> call_env \<Rightarrow> money_review \<Rightarrow> gov_db \<Rightarrow> (bool \<times> int \<times> int) kernel \<times> gov_db" where
  "apply_money_policy gv env review =
     guarded (ebind (gov_require gv (ce_principal env) CC_MANAGE (fst (ce_require env))) (\<lambda>_. read_now (fst (ce_now env)))) (\<lambda>now.
       run_call gv env CC_MANAGE
         (money_callback (gv_policy gv) (ce_principal env) (ce_authority env) review now))"

end
