(* ===== verification/Governor_Refinement.thy ===== *)
theory Governor_Refinement
  imports Governor_Store
begin

text \<open>
  The database of the governor implements its state machine: what a write stores is what the next load returns, and
  every method, whatever fails in its transaction, either leaves the snapshot as it was or makes one step of the
  machine. The machine is the relation \<open>gov_step\<close> over the transitions of snapshots.
\<close>

section \<open>Canonical equality\<close>

lemma canon_members:
  assumes "canon (JObj xs) = canon (JObj ys)" "(k, v) \<in> set xs"
  shows "\<exists>w. (k, w) \<in> set ys \<and> canon w = canon v"
proof -
  let ?f = "\<lambda>kv :: string \<times> json. (fst kv, canon (snd kv))"
  from assms(1) have "set (sort_key fst (map ?f xs)) = set (sort_key fst (map ?f ys))" by simp
  then have eq: "?f ` set xs = ?f ` set ys" by simp
  have "?f (k, v) \<in> ?f ` set xs" using assms(2) by (rule imageI)
  then have "?f (k, v) \<in> ?f ` set ys" unfolding eq .
  then obtain kw where "kw \<in> set ys" "?f (k, v) = ?f kw" by (rule imageE)
  then have "(k, snd kw) \<in> set ys \<and> canon (snd kw) = canon v" by (metis fst_conv prod.collapse snd_conv)
  then show ?thesis by blast
qed

lemma same_canonical_eq [result_simps]:
  "same_canonical v w = Inr b \<longleftrightarrow> canonical_ok v \<and> canonical_ok w \<and> b = (dumps_raw v = dumps_raw w)"
  by (auto simp: same_canonical_def result_simps)

lemma money_policy_request_id:
  assumes "canon (money_policy_json m) = canon (money_policy_json n)"
  shows "mp_request_id m = mp_request_id n"
  using canon_members [OF assms [unfolded money_policy_json_def], of "''request_id''" "JStr (mp_request_id m)"] by auto

lemma state_json_money:
  assumes "dumps_raw (state_json s) = dumps_raw (state_json t)" "gs_money_policy t = Some n"
  shows "\<exists>m. gs_money_policy s = Some m \<and> mp_request_id m = mp_request_id n"
proof -
  have c: "canon (state_json t) = canon (state_json s)" using dumps_raw_inj [OF assms(1)] by simp
  have "\<exists>m. gs_money_policy s = Some m \<and> canon (money_policy_json m) = canon (money_policy_json n)"
    using canon_members [OF c [unfolded state_json_def], of "''money_policy''" "money_policy_json n"]
    by (cases "gs_money_policy s") (auto simp: assms(2))
  then show ?thesis using money_policy_request_id by blast
qed

section \<open>The replay of a stored chain\<close>

lemma load_state_eq:
  "load_state pol db = Inr s \<longleftrightarrow>
     length (governor_rows db) < 1024 \<and> distinct (map op_id (governor_rows db))
     \<and> (\<exists>os s0. traverse (check_row pol) (governor_rows db) = Inr os \<and> initial_state pol = Inr s0
            \<and> replay pol s0 [] (sort_key (\<lambda>o'. gs_version (go_state o')) os) = Inr s)"
  by (auto simp: load_state_def load_outcomes_def result_simps SCAN_LIMIT_def)

text \<open>The identity of the money policy that an outcome brings, if any.\<close>

definition transition_ids :: "governor_outcome \<Rightarrow> string list" where
  "transition_ids o' = (case go_policy_transition o' of None \<Rightarrow> [] | Some r \<Rightarrow> [mr_request_id r])"

lemma check_link_facts:
  assumes "check_link pol s requests o' = Inr requests'"
  shows "gs_version (go_state o') = gs_version s + 1" "requests' = transition_ids o' @ requests"
    "validate pol (go_state o') = Inr ()"
    "gs_money_policy (go_state o') = gs_money_policy s
     \<or> (\<exists>r m. go_policy_transition o' = Some r \<and> gs_money_policy (go_state o') = Some m \<and> mp_request_id m = mr_request_id r)"
proof -
  show "gs_version (go_state o') = gs_version s + 1" "validate pol (go_state o') = Inr ()"
    using assms by (auto simp: check_link_def result_simps)
  show "requests' = transition_ids o' @ requests"
    using assms by (auto simp: check_link_def result_simps transition_ids_def split: if_splits option.splits)
  show "gs_money_policy (go_state o') = gs_money_policy s
     \<or> (\<exists>r m. go_policy_transition o' = Some r \<and> gs_money_policy (go_state o') = Some m \<and> mp_request_id m = mr_request_id r)"
  proof (cases "gs_money_policy (go_state o') = gs_money_policy s")
    case False
    then obtain r where r: "go_policy_transition o' = Some r"
        "validate_money_transition pol s (go_state o') (Some r) = Inr ()"
      using assms by (auto simp: check_link_def result_simps split: option.splits)
    then have "\<exists>t. gs_money_policy t = Some (policy_of_review r) \<and> dumps_raw (state_json (go_state o')) = dumps_raw (state_json t)"
      by (auto simp: validate_money_transition_def result_simps Let_def intro!: exI [of _ "s\<lparr>gs_money_policy := Some (policy_of_review r),
           gs_epoch := gs_epoch s + 1, gs_version := gs_version s + 1, gs_last_now := gs_last_now (go_state o')\<rparr>"])
    then obtain m where "gs_money_policy (go_state o') = Some m" "mp_request_id m = mp_request_id (policy_of_review r)"
      using state_json_money by blast
    with r(1) show ?thesis by (simp add: policy_of_review_def)
  qed simp
qed

lemma replay_facts:
  assumes "replay pol s requests os = Inr t"
  shows "gs_version t = gs_version s + int (length os)"
    "o' \<in> set os \<Longrightarrow> gs_version s < gs_version (go_state o') \<and> gs_version (go_state o') \<le> gs_version t"
    "os \<noteq> [] \<Longrightarrow> validate pol t = Inr () \<and> t = go_state (last os)"
    "(case gs_money_policy t of None \<Rightarrow> True
      | Some m \<Rightarrow> gs_money_policy s = Some m \<or> mp_request_id m \<in> set (concat (map transition_ids os)))"
  using assms
proof (induction os arbitrary: s requests)
  case (Cons o1 os)
  {
    case 1
    then show ?case using Cons.IH(1) by (auto simp: result_simps dest: check_link_facts(1))
  next
    case 2
    then show ?case using Cons.IH(1,2) by (fastforce simp: result_simps dest: check_link_facts(1))
  next
    case 3
    then obtain requests' where l: "check_link pol s requests o1 = Inr requests'" "replay pol (go_state o1) requests' os = Inr t"
      by (auto simp: result_simps)
    show ?case
    proof (cases "os = []")
      case True
      with l check_link_facts(3) [OF l(1)] show ?thesis by simp
    next
      case False
      with Cons.IH(3) [OF False l(2)] show ?thesis by auto
    qed
  next
    case 4
    then obtain requests' where l: "check_link pol s requests o1 = Inr requests'" "replay pol (go_state o1) requests' os = Inr t"
      by (auto simp: result_simps)
    from check_link_facts(4) [OF l(1)] Cons.IH(4) [OF l(2)] show ?case
      by (auto simp: transition_ids_def split: option.splits)
  }
qed (auto split: option.splits)

lemma replay_snoc:
  "replay pol s requests (os @ [o']) =
     ebind (replay pol s requests os) (\<lambda>t.
     ebind (check_link pol t (concat (map transition_ids (rev os)) @ requests) o') (\<lambda>_. Inr (go_state o')))"
proof (induction os arbitrary: s requests)
  case Nil
  then show ?case by simp
next
  case (Cons o1 os)
  show ?case
  proof (cases "check_link pol s requests o1")
    case (Inr requests')
    with Cons.IH [of "go_state o1" requests'] check_link_facts(2) [OF Inr] show ?thesis by simp
  qed simp
qed

section \<open>A write is read back\<close>

definition stamped :: "gov_state \<Rightarrow> gov_state \<Rightarrow> int \<Rightarrow> gov_state" where
  "stamped before s now = s\<lparr>gs_version := gs_version before + 1, gs_last_now := Some now\<rparr>"

definition new_outcome :: "gov_state \<Rightarrow> string \<Rightarrow> money_review option \<Rightarrow> governor_outcome" where
  "new_outcome s prior transition = \<lparr>go_state = s, go_prior_digest = prior, go_policy_transition = transition\<rparr>"

lemma get_operation_row: "get_operation db k = Some row \<Longrightarrow> row \<in> set (db_operations db) \<and> op_id row = k"
  by (auto simp: get_operation_def find_Some_iff)

lemma append_keeps_operations:
  "append_domain_event p purpose op event_id proof_id resource_id before after content stamp db = Inr db' \<Longrightarrow>
   db_operations db' = db_operations db"
  by (erule append_domain_event_shape) simp

lemma execute_once_shape:
  assumes "execute_once render p purpose binding mutation db = Inr (x, replayed, db')"
    and "\<And>row. row \<in> set (db_operations db) \<Longrightarrow> op_kind row = ob_operation_kind binding \<Longrightarrow> op_id row \<noteq> ob_idempotency_key binding"
    and "\<And>y d. mutation db = Inr (y, d) \<Longrightarrow> y = outcome \<and> db_operations d = db_operations db"
  shows "ob_idempotency_key binding \<notin> op_id ` set (db_operations db)
    \<and> RK_OPERATION \<in> set (write_kinds purpose)
    \<and> db_operations db' = db_operations db @
         [\<lparr>op_id = ob_idempotency_key binding, op_revision = 1, op_kind = ob_operation_kind binding,
           op_digest = ob_payload_digest binding, op_outcome = outcome\<rparr>]"
proof (cases "get_operation db (ob_idempotency_key binding)")
  case None
  then have "ob_idempotency_key binding \<notin> op_id ` set (db_operations db)" by (auto simp: get_operation_def find_None_iff)
  then show ?thesis using assms(1) None assms(3)
    by (auto simp: execute_once_def result_simps insert_checks_def dest!: assms(3))
next
  case (Some row)
  with get_operation_row [OF Some] assms(2) [of row] have False
    using assms(1) by (auto simp: execute_once_def result_simps read_operation_def split: if_splits)
  then show ?thesis ..
qed

lemma operation_bind_eq:
  "operation_bind k kind v = Inr b \<Longrightarrow>
   canonical_sha256 v = Inr (ob_payload_digest b) \<and> ob_idempotency_key b = k \<and> ob_operation_kind b = kind"
  by (auto simp: operation_bind_def result_simps)

lemma write_state_shape:
  assumes "write_state pol p purpose before changed now transition db = Inr db'"
    and "\<And>k. gov_key pol (gs_version before + 1) = Inr k \<Longrightarrow> k \<notin> op_id ` set (governor_rows db)"
  shows "\<exists>k d prior. validate pol (stamped before changed now) = Inr () \<and> state_digest before = Inr prior
    \<and> (transition \<noteq> None \<longrightarrow> validate_money_transition pol before (stamped before changed now) transition = Inr ())
    \<and> gov_key pol (gs_version before + 1) = Inr k
    \<and> canonical_sha256 (outcome_json (new_outcome (stamped before changed now) prior transition)) = Inr d
    \<and> k \<notin> op_id ` set (db_operations db)
    \<and> db_operations db' = db_operations db @
        [\<lparr>op_id = k, op_revision = 1, op_kind = GOVERNOR_KIND, op_digest = d,
          op_outcome = GovernorOutcome (new_outcome (stamped before changed now) prior transition)\<rparr>]"
proof -
  from assms(1) obtain prior k binding x replayed where
    v: "validate pol (stamped before changed now) = Inr ()" "state_digest before = Inr prior"
      "transition \<noteq> None \<longrightarrow> validate_money_transition pol before (stamped before changed now) transition = Inr ()"
      "gov_key pol (gs_version before + 1) = Inr k"
      "operation_bind k GOVERNOR_KIND (outcome_json (new_outcome (stamped before changed now) prior transition)) = Inr binding"
    and e: "execute_once stored_json p purpose binding
       (\<lambda>db. ebind (append_governor_event p purpose binding before (stamped before changed now) now db)
          (\<lambda>db'. Inr (GovernorOutcome (new_outcome (stamped before changed now) prior transition), db'))) db
       = Inr (x, replayed, db')"
    by (auto simp: write_state_def Let_def result_simps stamped_def [symmetric] new_outcome_def [symmetric] split: option.splits)
       (auto simp: stamped_def)
  note b = operation_bind_eq [OF v(5)]
  have "op_id row \<noteq> ob_idempotency_key binding"
    if "row \<in> set (db_operations db)" "op_kind row = ob_operation_kind binding" for row
  proof -
    have "row \<in> set (governor_rows db)" using that b by (simp add: governor_rows_def)
    then have "op_id row \<in> op_id ` set (governor_rows db)" by (rule imageI)
    with assms(2) [OF v(4)] b show ?thesis by auto
  qed
  note once = execute_once_shape [OF e this, of "GovernorOutcome (new_outcome (stamped before changed now) prior transition)"]
  have "ob_idempotency_key binding \<notin> op_id ` set (db_operations db)
    \<and> RK_OPERATION \<in> set (write_kinds purpose)
    \<and> db_operations db' = db_operations db @
         [\<lparr>op_id = ob_idempotency_key binding, op_revision = 1, op_kind = ob_operation_kind binding,
           op_digest = ob_payload_digest binding,
           op_outcome = GovernorOutcome (new_outcome (stamped before changed now) prior transition)\<rparr>]"
    by (rule once) (auto simp: append_governor_event_def result_simps dest: append_keeps_operations)
  with v b show ?thesis by (intro exI [of _ k] exI [of _ "ob_payload_digest binding"] exI [of _ prior]) simp
qed

lemma load_versions:
  assumes "load_state pol db = Inr s"
  shows "gs_version s = int (length (governor_rows db))" "gs_version s \<le> 1023"
    "row \<in> set (governor_rows db) \<Longrightarrow> \<exists>v. 1 \<le> v \<and> v \<le> gs_version s \<and> gov_key pol v = Inr (op_id row)"
    "policy_digest pol = Inr (gs_policy_digest s)"
    "gs_version s \<noteq> 0 \<Longrightarrow> validate pol s = Inr ()"
proof -
  from assms obtain os s0 where l: "length (governor_rows db) < 1024" "traverse (check_row pol) (governor_rows db) = Inr os"
      "initial_state pol = Inr s0" "replay pol s0 [] (sort_key (\<lambda>o'. gs_version (go_state o')) os) = Inr s"
    by (auto simp: load_state_eq)
  have s0: "gs_version s0 = 0" "policy_digest pol = Inr (gs_policy_digest s0)"
    using l(3) by (auto simp: initial_state_def result_simps)
  have len: "length os = length (governor_rows db)" and
    row: "\<And>i. i < length (governor_rows db) \<Longrightarrow> check_row pol (governor_rows db ! i) = Inr (os ! i)"
    using traverse_Inr_eq [OF l(2)] by auto
  show v: "gs_version s = int (length (governor_rows db))" using replay_facts(1) [OF l(4)] s0 len by simp
  then show "gs_version s \<le> 1023" using l(1) by simp
  have checked: "1 \<le> gs_version (go_state o') \<and> gov_key pol (gs_version (go_state o')) = Inr (op_id r)
      \<and> gs_policy_digest (go_state o') = gs_policy_digest s0" if "check_row pol r = Inr o'" for r o'
    using that s0(2) by (auto simp: check_row_def result_simps split: stored_outcome.splits)
  show "\<exists>v. 1 \<le> v \<and> v \<le> gs_version s \<and> gov_key pol v = Inr (op_id row)" if "row \<in> set (governor_rows db)"
  proof -
    from that obtain i where i: "i < length (governor_rows db)" "row = governor_rows db ! i" by (auto simp: in_set_conv_nth)
    then have "os ! i \<in> set (sort_key (\<lambda>o'. gs_version (go_state o')) os)" using len by simp
    from replay_facts(2) [OF l(4) this] checked [OF row [OF i(1)]] i(2) show ?thesis by auto
  qed
  have pd: "gs_policy_digest (go_state o') = gs_policy_digest s0" if "o' \<in> set os" for o'
  proof -
    from that obtain i where i: "i < length (governor_rows db)" "o' = os ! i" using len by (auto simp: in_set_conv_nth)
    with checked [OF row [OF i(1)]] show ?thesis by simp
  qed
  show "policy_digest pol = Inr (gs_policy_digest s)"
  proof (cases "os = []")
    case True
    then show ?thesis using l(4) s0(2) by simp
  next
    case False
    then have ne: "sort_key (\<lambda>o'. gs_version (go_state o')) os \<noteq> []" by (metis length_0_conv length_sort)
    then have "last (sort_key (\<lambda>o'. gs_version (go_state o')) os) \<in> set os" using last_in_set [OF ne] by simp
    with replay_facts(3) [OF l(4) ne] pd s0(2) show ?thesis by auto
  qed
  show "validate pol s = Inr ()" if "gs_version s \<noteq> 0"
    using that replay_facts(3) [OF l(4)] replay_facts(1) [OF l(4)] s0(1) by fastforce
qed

text \<open>The keys of the versions that a chain uses are different: no collision of SHA-256 among them.\<close>

definition keys_distinct :: "governor_policy \<Rightarrow> int \<Rightarrow> bool" where
  "keys_distinct pol n \<longleftrightarrow> inj_on (gov_key pol) {1..n}"

lemma fresh_key:
  assumes "load_state pol db = Inr s" "keys_distinct pol (gs_version s + 1)" "gov_key pol (gs_version s + 1) = Inr k"
  shows "k \<notin> op_id ` set (governor_rows db)"
proof
  assume "k \<in> op_id ` set (governor_rows db)"
  then obtain row where "row \<in> set (governor_rows db)" "k = op_id row" by blast
  with load_versions(3) [OF assms(1)] obtain v where v: "1 \<le> v" "v \<le> gs_version s" "gov_key pol v = Inr k" by blast
  with assms(3) have "gov_key pol v = gov_key pol (gs_version s + 1)" by simp
  then have "v = gs_version s + 1" by (rule inj_onD [OF assms(2) [unfolded keys_distinct_def]]) (use v in auto)
  with v(2) show False by simp
qed

text \<open>The transition that a write records is the change of the money policy, under an identity the chain has not seen.\<close>

definition transition_fits :: "gov_state \<Rightarrow> gov_state \<Rightarrow> gov_db \<Rightarrow> money_review option \<Rightarrow> bool" where
  "transition_fits before changed db transition \<longleftrightarrow>
     (case transition of
        None \<Rightarrow> gs_money_policy changed = gs_money_policy before
      | Some r \<Rightarrow> gs_money_policy changed = Some (policy_of_review r) \<and> prior_transition db (mr_request_id r) = None)"

lemma prior_transition_none:
  assumes "prior_transition db i = None" "traverse (check_row pol) (governor_rows db) = Inr os"
  shows "i \<notin> set (concat (map transition_ids os))"
proof
  assume "i \<in> set (concat (map transition_ids os))"
  then obtain o' where "o' \<in> set os" "i \<in> set (transition_ids o')" by auto
  then obtain r where o': "o' \<in> set os" "go_policy_transition o' = Some r" "mr_request_id r = i"
    by (cases "go_policy_transition o'") (auto simp: transition_ids_def)
  then obtain row where "row \<in> set (governor_rows db)" "check_row pol row = Inr o'"
    using traverse_Inr_eq [OF assms(2)] by (metis in_set_conv_nth)
  then have "op_outcome row = GovernorOutcome o'" by (auto simp: check_row_def result_simps split: stored_outcome.splits)
  with o' \<open>row \<in> set (governor_rows db)\<close> assms(1) show False
    by (force simp: prior_transition_def find_None_iff)
qed

lemma set_sort_concat: "set (concat (map f (rev (sort_key g os)))) = set (concat (map f os))"
  by auto

text \<open>A write after a load: the next load returns the snapshot that was written, unless the chain is full.\<close>

lemma write_then_load:
  assumes l: "load_state pol db = Inr before" and w: "write_state pol p purpose before changed now transition db = Inr db'"
    and k: "keys_distinct pol (gs_version before + 1)" and t: "transition_fits before changed db transition"
    and pd: "gs_policy_digest changed = gs_policy_digest before"
  shows "load_state pol db' =
    (if gs_version before < 1023 then Inr (stamped before changed now) else Inl (GovernorError GR_HISTORY_QUOTA))"
proof -
  let ?s = "stamped before changed now"
  from write_state_shape [OF w fresh_key [OF l k]] obtain key d prior where
    v: "validate pol ?s = Inr ()" "state_digest before = Inr prior"
      "transition \<noteq> None \<longrightarrow> validate_money_transition pol before ?s transition = Inr ()"
      "gov_key pol (gs_version before + 1) = Inr key"
      "canonical_sha256 (outcome_json (new_outcome ?s prior transition)) = Inr d" "key \<notin> op_id ` set (db_operations db)"
    and db': "db_operations db' = db_operations db @ [\<lparr>op_id = key, op_revision = 1, op_kind = GOVERNOR_KIND, op_digest = d,
          op_outcome = GovernorOutcome (new_outcome ?s prior transition)\<rparr>]" by blast
  let ?o = "new_outcome ?s prior transition"
  let ?row = "\<lparr>op_id = key, op_revision = 1, op_kind = GOVERNOR_KIND, op_digest = d, op_outcome = GovernorOutcome ?o\<rparr>"
  have rows: "governor_rows db' = governor_rows db @ [?row]" by (simp add: governor_rows_def db')
  have ids: "distinct (map op_id (governor_rows db'))"
    using l v(6) by (auto simp: rows load_state_eq) (auto simp: governor_rows_def)
  show ?thesis
  proof (cases "gs_version before < 1023")
    case False
    with load_versions(1,2) [OF l] have "length (governor_rows db') = 1024" by (simp add: rows)
    with ids False show ?thesis by (simp add: load_state_def load_outcomes_def scan_rows_def SCAN_LIMIT_def Let_def)
  next
    case True
    from l obtain os s0 where os: "traverse (check_row pol) (governor_rows db) = Inr os" "initial_state pol = Inr s0"
        "replay pol s0 [] (sort_key (\<lambda>o'. gs_version (go_state o')) os) = Inr before" by (auto simp: load_state_eq)
    have row: "check_row pol ?row = Inr ?o"
      using v True load_versions [OF l] pd by (simp add: check_row_def new_outcome_def stamped_def)
    have "gs_version (go_state o') \<le> gs_version ?s" if "o' \<in> set os" for o'
      using replay_facts(2) [OF os(3), of o'] that by (simp add: stamped_def)
    then have sorted: "sort_key (\<lambda>o'. gs_version (go_state o')) (os @ [?o]) = sort_key (\<lambda>o'. gs_version (go_state o')) os @ [?o]"
      by (intro sort_key_snoc) (simp add: new_outcome_def)
    let ?ids = "concat (map transition_ids (rev (sort_key (\<lambda>o'. gs_version (go_state o')) os)))"
    have "gs_money_policy s0 = None" using os(2) by (auto simp: initial_state_def result_simps)
    then have seen: "gs_money_policy before = Some m \<Longrightarrow> mp_request_id m \<in> set ?ids" for m
      using replay_facts(4) [OF os(3)] by simp
    have link: "check_link pol before ?ids ?o = Inr (transition_ids ?o @ ?ids)"
    proof (cases transition)
      case None
      then show ?thesis using v t by (simp add: check_link_def new_outcome_def transition_ids_def transition_fits_def stamped_def)
    next
      case (Some r)
      have "mr_request_id r \<notin> set ?ids" using prior_transition_none [OF _ os(1)] t Some by (simp add: transition_fits_def)
      moreover from this have "gs_money_policy ?s \<noteq> gs_money_policy before"
        using seen [of "policy_of_review r"] t Some by (auto simp: transition_fits_def stamped_def) (auto simp: policy_of_review_def)
      ultimately show ?thesis
        using v Some by (simp add: check_link_def new_outcome_def transition_ids_def) (simp add: stamped_def)
    qed
    have "replay pol s0 [] (sort_key (\<lambda>o'. gs_version (go_state o')) (os @ [?o])) = Inr ?s"
      unfolding sorted by (simp add: replay_snoc os(3) link del: replay.simps) (simp add: new_outcome_def)
    with os(1,2) row ids True load_versions(1) [OF l] show ?thesis
      by (auto simp: load_state_eq rows traverse_snoc)
  qed
qed

section \<open>The machine of snapshots\<close>

datatype gov_call =
    StartEpoch
  | SetKill bool
  | Reserve reservation_request int
  | Dispatch string int
  | Release string int
  | MarkUnknown string int string
  | Settle string int string
  | ApplyMoney money_review
  | Inspect
  | ReviewMoney money_limits string

datatype gov_result =
    REpoch int
  | RKill bool
  | REntry reservation
  | RDispatch bool reservation bool
  | RMoney bool int int
  | RInspect gov_state exposure
  | RReview money_review

definition as_result :: "('a \<Rightarrow> gov_result) \<Rightarrow> 'a kernel \<times> gov_db \<Rightarrow> gov_result kernel \<times> gov_db" where
  "as_result f out = (case out of (r, db) \<Rightarrow> (ebind r (\<lambda>x. Inr (f x)), db))"

fun governor_call :: "governor \<Rightarrow> call_env \<Rightarrow> gov_call \<Rightarrow> gov_db \<Rightarrow> gov_result kernel \<times> gov_db" where
  "governor_call gv env StartEpoch db = as_result REpoch (start_epoch gv env db)"
| "governor_call gv env (SetKill active) db = as_result RKill (set_kill gv env active db)"
| "governor_call gv env (Reserve q epoch) db = as_result REntry (reserve gv env q epoch db)"
| "governor_call gv env (Dispatch i epoch) db =
     as_result (\<lambda>(now, e, again). RDispatch now e again) (dispatch_commit gv env i epoch db)"
| "governor_call gv env (Release i epoch) db = as_result REntry (release_not_dispatched gv env i epoch db)"
| "governor_call gv env (MarkUnknown i epoch evidence) db = as_result REntry (mark_unknown gv env i epoch evidence db)"
| "governor_call gv env (Settle i epoch evidence) db = as_result REntry (settle gv env i epoch evidence db)"
| "governor_call gv env (ApplyMoney review) db =
     as_result (\<lambda>(again, epoch, version). RMoney again epoch version) (apply_money_policy gv env review db)"
| "governor_call gv env Inspect db = as_result (\<lambda>(s, x). RInspect s x) (inspect gv env db)"
| "governor_call gv env (ReviewMoney limits i) db = as_result RReview (money_policy_review gv env limits i db)"

text \<open>One change of the snapshot, at the second reading of the clock.\<close>

definition makes ::
    "governor_policy \<Rightarrow> clock_rule \<Rightarrow> (gov_state \<Rightarrow> ('a \<times> gov_state \<times> bool) kernel) \<Rightarrow> int \<Rightarrow> gov_state \<Rightarrow> 'a \<Rightarrow> gov_state \<Rightarrow> bool" where
  "makes pol rule change now s r s' \<longleftrightarrow>
     (\<exists>out. change_step pol rule change now s = Inr (r, out)
        \<and> (case out of
              None \<Rightarrow> s' = s
            | Some (t, stamp) \<Rightarrow> s' = stamped s t stamp \<and> validate pol s' = Inr ()))"

text \<open>A step at the two readings of the clock.\<close>

inductive gov_step :: "governor_policy \<Rightarrow> int \<Rightarrow> int \<Rightarrow> gov_state \<Rightarrow> gov_call \<Rightarrow> gov_result \<Rightarrow> gov_state \<Rightarrow> bool"
  for pol n1 n2 s where
  step_epoch: "makes pol NoClock (\<lambda>s. start_epoch_state s n1) n2 s e s' \<Longrightarrow> gov_step pol n1 n2 s StartEpoch (REpoch e) s'"
| step_kill: "makes pol (if active then NoClock else StepClock) (\<lambda>s. set_kill_state s active) n2 s b s'
    \<Longrightarrow> gov_step pol n1 n2 s (SetKill active) (RKill b) s'"
| step_reserve: "makes pol StepClock (\<lambda>s. reserve_state pol s q epoch n1) n2 s e s' \<Longrightarrow> check_request q = Inr ()
    \<Longrightarrow> gov_step pol n1 n2 s (Reserve q epoch) (REntry e) s'"
| step_dispatch: "makes pol StepClock (\<lambda>s. dispatch_state pol s i epoch n1) n2 s (now, e, again) s'
    \<Longrightarrow> gov_step pol n1 n2 s (Dispatch i epoch) (RDispatch now e again) s'"
| step_release: "makes pol ReconcileClock (\<lambda>s. release_state s i epoch) n2 s e s'
    \<Longrightarrow> gov_step pol n1 n2 s (Release i epoch) (REntry e) s'"
| step_unknown: "makes pol ReconcileClock (\<lambda>s. unknown_state pol s i epoch evidence n1) n2 s e s'
    \<Longrightarrow> gov_step pol n1 n2 s (MarkUnknown i epoch evidence) (REntry e) s'"
| step_settle: "makes pol ReconcileClock (\<lambda>s. settle_state pol s i epoch evidence) n2 s e s'
    \<Longrightarrow> gov_step pol n1 n2 s (Settle i epoch evidence) (REntry e) s'"
| step_money: "money_state pol s review n1 = Inr t \<Longrightarrow>
    s' = stamped s t (max n1 (case gs_last_now s of None \<Rightarrow> 0 | Some n \<Rightarrow> n)) \<Longrightarrow> validate pol s' = Inr ()
    \<Longrightarrow> gov_step pol n1 n2 s (ApplyMoney review) (RMoney False (gs_epoch t) (gs_version s + 1)) s'"
| step_money_again: "gov_step pol n1 n2 s (ApplyMoney review) (RMoney True (gs_epoch s) (gs_version s)) s"
| step_inspect: "exposure_of (gs_reservations s) = Inr x \<Longrightarrow> gov_step pol n1 n2 s Inspect (RInspect s x) s"
| step_review: "make_review pol s limits i = Inr r \<Longrightarrow> gov_step pol n1 n2 s (ReviewMoney limits i) (RReview r) s"

inductive_cases dispatch_stepE: "gov_step pol n1 n2 s (Dispatch i epoch) r s'"

section \<open>The database implements the machine\<close>

definition reading :: "clock_reading \<Rightarrow> int" where
  "reading v = (case read_now v of Inr n \<Rightarrow> n | Inl _ \<Rightarrow> 0)"

text \<open>The database holds a snapshot, or the snapshot before was the last that the chain has room for.\<close>

definition holds :: "governor_policy \<Rightarrow> gov_db \<Rightarrow> gov_state \<Rightarrow> gov_state \<Rightarrow> bool" where
  "holds pol db before s \<longleftrightarrow>
     load_state pol db = Inr s
     \<or> gs_version before = 1023 \<and> gs_version s = 1024 \<and> load_state pol db = Inl (GovernorError GR_HISTORY_QUOTA)"

definition sound_callback ::
    "governor_policy \<Rightarrow> int \<Rightarrow> int \<Rightarrow> gov_state \<Rightarrow> gov_call \<Rightarrow> gov_db \<Rightarrow> ('a \<Rightarrow> gov_result) \<Rightarrow> (gov_db \<Rightarrow> ('a \<times> gov_db) kernel) \<Rightarrow> bool" where
  "sound_callback pol n1 n2 s c db f callback \<longleftrightarrow>
     (\<forall>x db'. callback db = Inr (x, db') \<longrightarrow> (\<exists>s'. holds pol db' s s' \<and> gov_step pol n1 n2 s c (f x) s'))"

text \<open>The changes keep what only a write or a money policy sets.\<close>

definition tame :: "(gov_state \<Rightarrow> ('a \<times> gov_state \<times> bool) kernel) \<Rightarrow> bool" where
  "tame change \<longleftrightarrow>
     (\<forall>s r t b. change s = Inr (r, t, b) \<longrightarrow>
        gs_policy_digest t = gs_policy_digest s \<and> gs_money_policy t = gs_money_policy s
        \<and> gs_version t = gs_version s \<and> gs_last_now t = gs_last_now s)"

lemma tameI:
  assumes "\<And>s r t b. change s = Inr (r, t, b) \<Longrightarrow>
    gs_policy_digest t = gs_policy_digest s \<and> gs_money_policy t = gs_money_policy s
    \<and> gs_version t = gs_version s \<and> gs_last_now t = gs_last_now s"
  shows "tame change"
  using assms unfolding tame_def by blast

lemma changes_tame:
  "tame (\<lambda>s. start_epoch_state s n)" "tame (\<lambda>s. set_kill_state s active)" "tame (\<lambda>s. reserve_state pol s q epoch n)"
  "tame (\<lambda>s. dispatch_state pol s i epoch n)" "tame (\<lambda>s. release_state s i epoch)"
  "tame (\<lambda>s. unknown_state pol s i epoch evidence n)" "tame (\<lambda>s. settle_state pol s i epoch evidence)"
  by (rule tameI, auto dest: start_epoch_cases set_kill_cases elim: reserve_cases dispatch_state_cases release_cases unknown_cases settle_cases)+

lemma stamped_version [simp]: "gs_version (stamped before s now) = gs_version before + 1"
  by (simp add: stamped_def)

lemma write_holds:
  assumes "load_state pol db = Inr s" "write_state pol p purpose s t now transition db = Inr db'"
    "keys_distinct pol (gs_version s + 1)" "transition_fits s t db transition" "gs_policy_digest t = gs_policy_digest s"
  shows "holds pol db' s (stamped s t now) \<and> validate pol (stamped s t now) = Inr ()"
proof -
  have "validate pol (stamped s t now) = Inr ()" using write_state_shape [OF assms(2) fresh_key [OF assms(1,3)]] by blast
  with write_then_load [OF assms] load_versions(2) [OF assms(1)] show ?thesis by (auto simp: holds_def split: if_splits)
qed

lemma change_sound:
  assumes "load_state pol db = Inr s" "keys_distinct pol (gs_version s + 1)" "tame change"
    and step: "\<And>x s'. makes pol rule change n2 s x s' \<Longrightarrow> gov_step pol n1 n2 s c (f x) s'"
  shows "sound_callback pol n1 n2 s c db f (change_callback pol p purpose rule change n2)"
  unfolding sound_callback_def
proof (intro allI impI)
  fix x db'
  assume cb: "change_callback pol p purpose rule change n2 db = Inr (x, db')"
  then obtain y out where y: "change_step pol rule change n2 s = Inr (y, out)"
      "(case out of None \<Rightarrow> Inr (y, db) | Some (t, stamp) \<Rightarrow>
          ebind (write_state pol p purpose s t stamp None db) (\<lambda>db'. Inr (y, db'))) = Inr (x, db')"
    using assms(1) by (auto simp: change_callback_def result_simps)
  then have "y = x" by (auto simp: result_simps split: option.splits prod.splits)
  note out = y [unfolded this]
  show "\<exists>s'. holds pol db' s s' \<and> gov_step pol n1 n2 s c (f x) s'"
  proof (cases out)
    case None
    with out assms(1) step [of x s] show ?thesis by (auto simp: makes_def holds_def)
  next
    case (Some ts)
    obtain t stamp where ts: "ts = (t, stamp)" by fastforce
    then obtain b where "change s = Inr (x, t, b)" using out(1) Some by (auto simp: change_step_def result_simps split: if_splits)
    with assms(3) have "gs_policy_digest t = gs_policy_digest s" "transition_fits s t db None"
      by (auto simp: tame_def transition_fits_def)
    moreover have "write_state pol p purpose s t stamp None db = Inr db'" using out(2) Some ts by (auto simp: result_simps)
    ultimately have "holds pol db' s (stamped s t stamp) \<and> validate pol (stamped s t stamp) = Inr ()"
      using write_holds [OF assms(1)] assms(2) by blast
    with out(1) Some ts step [of x "stamped s t stamp"] show ?thesis by (auto simp: makes_def)
  qed
qed

lemma review_binding_facts:
  assumes "money_state pol s r now = Inr t"
  shows "gs_money_policy t = Some (policy_of_review r)" "gs_policy_digest t = gs_policy_digest s"
    "gs_epoch t = gs_epoch s + 1"
  using assms by (auto simp: money_state_def result_simps Let_def)

lemma money_sound:
  assumes "load_state pol db = Inr s" "keys_distinct pol (gs_version s + 1)"
  shows "sound_callback pol n1 n2 s (ApplyMoney review) db (\<lambda>(again, epoch, version). RMoney again epoch version)
    (money_callback pol p checks review n1)"
  unfolding sound_callback_def
proof (intro allI impI)
  fix x db'
  assume cb: "money_callback pol p checks review n1 db = Inr (x, db')"
  show "\<exists>s'. holds pol db' s s' \<and>
    gov_step pol n1 n2 s (ApplyMoney review) (case x of (again, epoch, version) \<Rightarrow> RMoney again epoch version) s'"
  proof (cases "prior_transition db (mr_request_id review)")
    case (Some r)
    with cb assms(1) show ?thesis by (auto simp: money_callback_def result_simps holds_def intro: step_money_again)
  next
    case None
    then obtain t where t: "money_state pol s review n1 = Inr t" "x = (False, gs_epoch t, gs_version s + 1)"
        "write_state pol p CC_MANAGE s t (max n1 (case gs_last_now s of None \<Rightarrow> 0 | Some n \<Rightarrow> n)) (Some review) db = Inr db'"
      using cb assms(1) by (auto simp: money_callback_def result_simps)
    have "transition_fits s t db (Some review)" using None review_binding_facts(1) [OF t(1)] by (simp add: transition_fits_def)
    from write_holds [OF assms(1) t(3) assms(2) this review_binding_facts(2) [OF t(1)]] t(1,2) show ?thesis
      by (auto intro: step_money)
  qed
qed

text \<open>A call is a callback run by the runner, or an error before the transaction.\<close>

definition call_holds :: "governor_policy \<Rightarrow> int \<Rightarrow> int \<Rightarrow> gov_state \<Rightarrow> gov_call \<Rightarrow> gov_db \<Rightarrow> gov_result kernel \<times> gov_db \<Rightarrow> bool" where
  "call_holds pol n1 n2 s c db out \<longleftrightarrow>
     (case out of (r, db') \<Rightarrow>
        \<exists>s'. holds pol db' s s' \<and>
          (case r of
             Inr x \<Rightarrow> gov_step pol n1 n2 s c x s'
           | Inl e \<Rightarrow> db' = db \<and> s' = s \<or> e = CommitOutcomeUnknown \<and> (\<exists>x. gov_step pol n1 n2 s c x s')))"

lemma run_call_holds:
  assumes "load_state (gv_policy gv) db = Inr s" "sound_callback (gv_policy gv) n1 n2 s c db f callback"
  shows "call_holds (gv_policy gv) n1 n2 s c db (as_result f (run_call gv env purpose callback db))"
proof -
  obtain x db' where run: "run_call gv env purpose callback db = (x, db')" by fastforce
  have sound: "callback db = Inr (r, d) \<Longrightarrow> \<exists>s'. holds (gv_policy gv) d s s' \<and> gov_step (gv_policy gv) n1 n2 s c (f r) s'" for r d
    using assms(2) by (simp add: sound_callback_def)
  from port.effect [where Q = "\<lambda>r d. \<exists>s'. holds (gv_policy gv) d s s' \<and> gov_step (gv_policy gv) n1 n2 s c (f r) s'", OF sound run]
    assms(1) show ?thesis
    by (cases x) (auto simp: call_holds_def as_result_def run holds_def)
qed

lemma call_holds_error:
  "load_state pol db = Inr s \<Longrightarrow> call_holds pol n1 n2 s c db (as_result f (Inl e, db))"
  by (auto simp: call_holds_def as_result_def holds_def)

lemma gov_change_holds:
  assumes "load_state (gv_policy gv) db = Inr s" "keys_distinct (gv_policy gv) (gs_version s + 1)" "tame change"
    and "\<And>x s'. makes (gv_policy gv) rule change (reading (snd (ce_now env))) s x s' \<Longrightarrow>
      gov_step (gv_policy gv) n1 (reading (snd (ce_now env))) s c (f x) s'"
  shows "call_holds (gv_policy gv) n1 (reading (snd (ce_now env))) s c db (as_result f (gov_change gv env purpose rule change db))"
proof (cases "ebind (gov_require gv (ce_principal env) purpose (snd (ce_require env))) (\<lambda>_. read_now (snd (ce_now env)))")
  case (Inl e)
  then show ?thesis using call_holds_error [OF assms(1)] by (simp add: gov_change_def)
next
  case (Inr now)
  then have "reading (snd (ce_now env)) = now" by (auto simp: result_simps reading_def)
  with Inr run_call_holds [OF assms(1) change_sound [OF assms]] show ?thesis by (simp add: gov_change_def)
qed

lemma guarded_holds:
  assumes "load_state pol db = Inr s" "\<And>v. checks = Inr v \<Longrightarrow> call_holds pol n1 n2 s c db (as_result f (body v db))"
  shows "call_holds pol n1 n2 s c db (as_result f (guarded checks body db))"
  using assms call_holds_error [OF assms(1)] by (auto simp: guarded_def split: sum.splits)

lemma read_now_reading: "read_now v = Inr n \<Longrightarrow> reading v = n"
  by (simp add: reading_def)

lemma governor_call_holds:
  assumes "load_state (gv_policy gv) db = Inr s" "keys_distinct (gv_policy gv) (gs_version s + 1)"
  shows "call_holds (gv_policy gv) (reading (fst (ce_now env))) (reading (snd (ce_now env))) s c db (governor_call gv env c db)"
proof (cases c)
  case StartEpoch
  then show ?thesis using assms
    by (auto simp: start_epoch_def intro!: guarded_holds gov_change_holds changes_tame step_epoch dest!: read_now_reading)
next
  case (SetKill active)
  then show ?thesis using assms by (auto simp: set_kill_def intro!: gov_change_holds changes_tame step_kill)
next
  case (Reserve q epoch)
  then show ?thesis using assms
    by (auto simp: reserve_def result_simps intro!: guarded_holds gov_change_holds changes_tame step_reserve dest!: read_now_reading)
next
  case (Dispatch i epoch)
  then show ?thesis using assms
    by (auto simp: dispatch_commit_def result_simps intro!: guarded_holds gov_change_holds changes_tame step_dispatch dest!: read_now_reading)
next
  case (Release i epoch)
  then show ?thesis using assms
    by (auto simp: release_not_dispatched_def intro!: guarded_holds gov_change_holds changes_tame step_release)
next
  case (MarkUnknown i epoch evidence)
  then show ?thesis using assms
    by (auto simp: mark_unknown_def result_simps intro!: guarded_holds gov_change_holds changes_tame step_unknown dest!: read_now_reading)
next
  case (Settle i epoch evidence)
  then show ?thesis using assms by (auto simp: settle_def intro!: guarded_holds gov_change_holds changes_tame step_settle)
next
  case (ApplyMoney review)
  then show ?thesis using assms
    by (auto simp: apply_money_policy_def result_simps intro!: guarded_holds run_call_holds money_sound dest!: read_now_reading)
next
  case Inspect
  then show ?thesis using assms
    by (auto simp: inspect_def sound_callback_def result_simps holds_def intro!: guarded_holds run_call_holds step_inspect)
next
  case (ReviewMoney limits i)
  then show ?thesis using assms
    by (auto simp: money_policy_review_def sound_callback_def result_simps holds_def intro!: guarded_holds run_call_holds step_review)
qed


text \<open>A chain that cannot be read stays so, and no method answers.\<close>

lemma unreadable_callback:
  assumes "load_state pol db = Inl e"
  shows "change_callback pol p purpose rule change n db = Inl e" "money_callback pol p checks review n db = Inr x \<Longrightarrow> False"
  using assms by (auto simp: change_callback_def money_callback_def result_simps)

lemmas run_call_fails = port.refused

lemma guarded_fails: "(\<And>v. \<exists>e. body v db = (Inl e, db)) \<Longrightarrow> \<exists>e. guarded checks body db = (Inl e, db)"
  by (auto simp: guarded_def split: sum.splits)

lemma gov_change_fails:
  assumes "load_state (gv_policy gv) db = Inl e"
  shows "\<exists>e. gov_change gv env purpose rule change db = (Inl e, db)"
proof -
  have "\<exists>e. run_call gv env purpose (change_callback (gv_policy gv) (ce_principal env) purpose rule change n) db = (Inl e, db)" for n
    by (rule run_call_fails) (simp add: unreadable_callback(1) [OF assms])
  then show ?thesis by (auto simp: gov_change_def split: sum.splits)
qed

lemma as_result_fails: "\<exists>e. out = (Inl e, db) \<Longrightarrow> \<exists>e. as_result f out = (Inl e, db)"
  by (auto simp: as_result_def)

lemma unreadable_call:
  assumes "load_state (gv_policy gv) db = Inl e"
  shows "\<exists>e. governor_call gv env c db = (Inl e, db)"
  using assms
  by (cases c)
     (auto simp: start_epoch_def set_kill_def reserve_def dispatch_commit_def release_not_dispatched_def mark_unknown_def
        settle_def apply_money_policy_def inspect_def money_policy_review_def result_simps
      intro!: as_result_fails guarded_fails gov_change_fails run_call_fails dest: unreadable_callback(2))

section \<open>Sequences of calls\<close>

fun governor_calls :: "governor \<Rightarrow> (gov_call \<times> call_env) list \<Rightarrow> gov_db \<Rightarrow> gov_result kernel list \<times> gov_db" where
  "governor_calls gv [] db = ([], db)"
| "governor_calls gv ((c, env) # calls) db =
     (case governor_call gv env c db of (r, db1) \<Rightarrow>
        (case governor_calls gv calls db1 of (rs, db2) \<Rightarrow> (r # rs, db2)))"

text \<open>The runs of the machine behind a sequence of calls: a call with a result is a step; a call that failed is a step
  whose result was lost, or none.\<close>

inductive gov_trace ::
    "governor_policy \<Rightarrow> gov_state \<Rightarrow> (gov_call \<times> (int \<times> int) \<times> gov_result option) list \<Rightarrow> gov_state \<Rightarrow> bool" for pol where
  trace_nil: "gov_trace pol s [] s"
| trace_step: "gov_step pol n1 n2 s c r s1 \<Longrightarrow> gov_trace pol s1 tr s' \<Longrightarrow> gov_trace pol s ((c, (n1, n2), Some r) # tr) s'"
| trace_lost: "gov_step pol n1 n2 s c r s1 \<Longrightarrow> gov_trace pol s1 tr s' \<Longrightarrow> gov_trace pol s ((c, (n1, n2), None) # tr) s'"
| trace_failed: "gov_trace pol s tr s' \<Longrightarrow> gov_trace pol s ((c, n, None) # tr) s'"

definition trace_of :: "(gov_call \<times> call_env) list \<Rightarrow> gov_result kernel list \<Rightarrow> (gov_call \<times> (int \<times> int) \<times> gov_result option) list" where
  "trace_of calls rs =
     map2 (\<lambda>(c, env) r. (c, (reading (fst (ce_now env)), reading (snd (ce_now env))), case r of Inl _ \<Rightarrow> None | Inr x \<Rightarrow> Some x)) calls rs"

lemma step_version:
  assumes "gov_step pol n1 n2 s c r s'"
  shows "gs_version s \<le> gs_version s' \<and> gs_version s' \<le> gs_version s + 1"
  using assms by cases (auto simp: makes_def stamped_def split: option.splits)

lemma keys_distinct_mono: "keys_distinct pol n \<Longrightarrow> m \<le> n \<Longrightarrow> keys_distinct pol m"
  by (auto simp: keys_distinct_def intro: inj_on_subset)

lemma unreadable_calls:
  assumes "load_state (gv_policy gv) db = Inl e" "governor_calls gv calls db = (rs, db')"
  shows "db' = db \<and> gov_trace (gv_policy gv) s (trace_of calls rs) s \<and> length rs = length calls"
  using assms(2)
proof (induction calls arbitrary: rs)
  case Nil
  then show ?case by (simp add: trace_of_def trace_nil)
next
  case (Cons ce calls)
  obtain c env where ce: "ce = (c, env)" by fastforce
  obtain e' where "governor_call gv env c db = (Inl e', db)" using unreadable_call [OF assms(1)] by blast
  with Cons.prems ce obtain rs' where "governor_calls gv calls db = (rs', db')" "rs = Inl e' # rs'" by (auto split: prod.splits)
  with Cons.IH ce show ?case by (auto simp: trace_of_def intro: trace_failed)
qed

lemma governor_calls_trace:
  assumes "load_state (gv_policy gv) db = Inr s" "keys_distinct (gv_policy gv) (gs_version s + int (length calls))"
    and "governor_calls gv calls db = (rs, db')"
  shows "\<exists>s'. gov_trace (gv_policy gv) s (trace_of calls rs) s' \<and> length rs = length calls
    \<and> (load_state (gv_policy gv) db' = Inr s' \<or> load_state (gv_policy gv) db' = Inl (GovernorError GR_HISTORY_QUOTA))"
  using assms
proof (induction calls arbitrary: s db rs)
  case Nil
  then show ?case by (auto simp: trace_of_def intro: trace_nil)
next
  case (Cons ce calls)
  obtain c env where ce: "ce = (c, env)" by fastforce
  obtain r db1 rs' where call: "governor_call gv env c db = (r, db1)" and rest: "governor_calls gv calls db1 = (rs', db')"
    and rs: "rs = r # rs'" using Cons.prems(3) ce by (auto split: prod.splits)
  let ?n1 = "reading (fst (ce_now env))" and ?n2 = "reading (snd (ce_now env))" and ?pol = "gv_policy gv"
  have "keys_distinct ?pol (gs_version s + 1)" using Cons.prems(2) by (rule keys_distinct_mono) simp
  from governor_call_holds [OF Cons.prems(1) this, of env c] call obtain s1 where h: "holds ?pol db1 s s1"
    and st: "case r of Inr x \<Rightarrow> gov_step ?pol ?n1 ?n2 s c x s1
      | Inl e \<Rightarrow> db1 = db \<and> s1 = s \<or> e = CommitOutcomeUnknown \<and> (\<exists>x. gov_step ?pol ?n1 ?n2 s c x s1)"
    by (auto simp: call_holds_def)
  have "\<exists>s'. gov_trace ?pol s1 (trace_of calls rs') s' \<and> length rs' = length calls
      \<and> (load_state ?pol db' = Inr s' \<or> load_state ?pol db' = Inl (GovernorError GR_HISTORY_QUOTA))"
  proof (cases "load_state ?pol db1 = Inr s1")
    case True
    have "gs_version s1 \<le> gs_version s + 1" using st step_version by (fastforce split: sum.splits)
    then have "keys_distinct ?pol (gs_version s1 + int (length calls))"
      using Cons.prems(2) by (elim keys_distinct_mono) simp
    from Cons.IH [OF True this rest] show ?thesis .
  next
    case False
    then have "load_state ?pol db1 = Inl (GovernorError GR_HISTORY_QUOTA)" using h by (simp add: holds_def)
    with unreadable_calls [OF this rest, of s1] this show ?thesis by auto
  qed
  then show ?case using st by (auto simp: trace_of_def rs ce split: sum.splits intro: trace_step trace_lost trace_failed)
qed

end
