(* ===== verification/Governor_Safety.thy ===== *)
theory Governor_Safety
  imports Governor_Refinement
begin

text \<open>
  What the governor promises over any sequence of calls under faults: a reservation only moves forward, a permission to
  send is given once, the permissions stay under the ceilings, the kill switch and an open circuit hold.
\<close>

section \<open>Reservations only move forward\<close>

text \<open>The states a reservation may be in after a given one.\<close>

fun later :: "reservation_state \<Rightarrow> reservation_state \<Rightarrow> bool" where
  "later RS_RESERVED _ = True"
| "later RS_DISPATCHED b = (b \<in> {RS_DISPATCHED, RS_UNKNOWN, RS_COMMITTED})"
| "later RS_UNKNOWN b = (b \<in> {RS_UNKNOWN, RS_COMMITTED})"
| "later RS_COMMITTED b = (b = RS_COMMITTED)"
| "later RS_RELEASED b = (b = RS_RELEASED)"

lemma later_refl [simp]: "later a a"
  by (cases a) simp_all

lemma later_trans: "later a b \<Longrightarrow> later b c \<Longrightarrow> later a c"
  by (cases a; cases b; cases c) simp_all

definition entry_of :: "gov_state \<Rightarrow> string \<Rightarrow> reservation option" where
  "entry_of s i = dict_get (gs_reservations s) i"

definition forward :: "reservation \<Rightarrow> reservation \<Rightarrow> bool" where
  "forward e e' \<longleftrightarrow>
     rv_request e' = rv_request e \<and> rv_binding_digest e' = rv_binding_digest e \<and> rv_epoch e' = rv_epoch e
     \<and> later (rv_state e) (rv_state e')"

definition keeps :: "gov_state \<Rightarrow> gov_state \<Rightarrow> bool" where
  "keeps s s' \<longleftrightarrow>
     (\<forall>i e. entry_of s i = Some e \<longrightarrow> (\<exists>e'. entry_of s' i = Some e' \<and> forward e e'))
     \<and> gs_epoch s \<le> gs_epoch s' \<and> gs_version s \<le> gs_version s'
     \<and> (case gs_last_now s of None \<Rightarrow> True | Some m \<Rightarrow> (case gs_last_now s' of None \<Rightarrow> False | Some n \<Rightarrow> m \<le> n))"

lemma forward_refl [simp]: "forward e e"
  by (simp add: forward_def)

lemma keeps_refl [simp]: "keeps s s"
  by (auto simp: keeps_def split: option.splits)

lemma forward_trans: "forward e f \<Longrightarrow> forward f g \<Longrightarrow> forward e g"
  by (auto simp: forward_def intro: later_trans)

lemma keeps_trans:
  assumes "keeps s t" "keeps t u"
  shows "keeps s u"
proof -
  have "\<exists>e''. entry_of u i = Some e'' \<and> forward e e''" if "entry_of s i = Some e" for i e
    using assms that forward_trans unfolding keeps_def by meson
  then show ?thesis using assms unfolding keeps_def by (fastforce split: option.splits)
qed

text \<open>What the transitions do to entries, before the stamp.\<close>

definition entries_forward :: "gov_state \<Rightarrow> gov_state \<Rightarrow> bool" where
  "entries_forward s t \<longleftrightarrow>
     (\<forall>i e. entry_of s i = Some e \<longrightarrow> (\<exists>e'. entry_of t i = Some e' \<and> forward e e')) \<and> gs_epoch s \<le> gs_epoch t"

lemma entries_forward_set:
  assumes "case entry_of s i of None \<Rightarrow> True | Some e0 \<Rightarrow> forward e0 e"
  shows "entries_forward s (set_entry i e (set_circuit p c s))" "entries_forward s (set_entry i e s)"
  using assms by (auto simp: entries_forward_def entry_of_def)

lemma transitions_forward:
  "start_epoch_state s n = Inr (e, t, b) \<Longrightarrow> entries_forward s t"
  "set_kill_state s active = Inr (k, t, b) \<Longrightarrow> entries_forward s t"
  "reserve_state pol s q epoch n = Inr (r, t, b) \<Longrightarrow> entries_forward s t"
  "dispatch_state pol s i epoch n = Inr (d, t, b) \<Longrightarrow> entries_forward s t"
  "release_state s i epoch = Inr (r, t, b) \<Longrightarrow> entries_forward s t"
  "unknown_state pol s i epoch evidence n = Inr (r, t, b) \<Longrightarrow> entries_forward s t"
  "settle_state pol s i epoch evidence = Inr (r, t, b) \<Longrightarrow> entries_forward s t"
proof -
  have refl: "entries_forward s s" by (simp add: entries_forward_def)
  show "start_epoch_state s n = Inr (e, t, b) \<Longrightarrow> entries_forward s t"
    by (drule start_epoch_cases) (auto simp: entries_forward_def entry_of_def)
  show "set_kill_state s active = Inr (k, t, b) \<Longrightarrow> entries_forward s t"
    by (drule set_kill_cases) (auto simp: entries_forward_def entry_of_def)
  show "reserve_state pol s q epoch n = Inr (r, t, b) \<Longrightarrow> entries_forward s t"
    by (erule reserve_cases) (auto simp: refl entry_of_def intro!: entries_forward_set)
  show "dispatch_state pol s i epoch n = Inr (d, t, b) \<Longrightarrow> entries_forward s t"
    by (cases d, simp, erule dispatch_state_cases) (auto simp: refl entry_of_def forward_def intro!: entries_forward_set)
  show "release_state s i epoch = Inr (r, t, b) \<Longrightarrow> entries_forward s t"
    by (erule release_cases) (auto simp: refl entry_of_def forward_def released_entry_def intro!: entries_forward_set)
  show "unknown_state pol s i epoch evidence n = Inr (r, t, b) \<Longrightarrow> entries_forward s t"
    by (erule unknown_cases) (auto simp: refl entry_of_def forward_def intro!: entries_forward_set)
  show "settle_state pol s i epoch evidence = Inr (r, t, b) \<Longrightarrow> entries_forward s t"
    by (erule settle_cases) (auto simp: refl entry_of_def forward_def intro!: entries_forward_set)
qed

lemma makes_cases:
  assumes "makes pol rule change now s r s'"
  obtains t where "change s = Inr (r, t, False)" "s' = s"
  | t stamp where "change s = Inr (r, t, True)" "s' = stamped s t stamp"
      "(case gs_last_now t of None \<Rightarrow> 0 | Some n \<Rightarrow> n) \<le> stamp" "validate pol s' = Inr ()"
proof -
  from assms obtain t b where c: "change s = Inr (r, t, b)"
    and o: "case if b then Some (t, max now (case gs_last_now t of None \<Rightarrow> 0 | Some n \<Rightarrow> n)) else None of
        None \<Rightarrow> s' = s | Some (t, stamp) \<Rightarrow> s' = stamped s t stamp \<and> validate pol s' = Inr ()"
    by (auto simp: makes_def change_step_def result_simps)
  show thesis
  proof (cases b)
    case True
    with c o show thesis by (intro that(2) [of t "max now (case gs_last_now t of None \<Rightarrow> 0 | Some n \<Rightarrow> n)"]) auto
  next
    case False
    with c o show thesis by (intro that(1) [of t]) simp_all
  qed
qed

lemma stamped_fields [simp]:
  "gs_reservations (stamped s t n) = gs_reservations t" "gs_circuits (stamped s t n) = gs_circuits t"
  "gs_epoch (stamped s t n) = gs_epoch t" "gs_kill (stamped s t n) = gs_kill t" "gs_last_now (stamped s t n) = Some n"
  "gs_money_policy (stamped s t n) = gs_money_policy t" "entry_of (stamped s t n) i = entry_of t i"
  by (simp_all add: stamped_def entry_of_def)

lemma makes_keeps:
  assumes "makes pol rule change now s r s'" "tame change" "\<And>r t b. change s = Inr (r, t, b) \<Longrightarrow> entries_forward s t"
  shows "keeps s s'"
  using assms(1)
proof (cases rule: makes_cases)
  case (2 t stamp)
  have "gs_last_now t = gs_last_now s" using assms(2) 2(1) unfolding tame_def by blast
  moreover have "entries_forward s t" using 2(1) by (rule assms(3))
  ultimately show ?thesis using 2(2,3) by (auto simp: keeps_def entries_forward_def split: option.splits)
qed simp

lemma step_keeps:
  assumes "gov_step pol n1 n2 s c r s'"
  shows "keeps s s'"
  using assms
proof cases
  case (step_money review t)
  then show ?thesis
    by (auto simp: keeps_def money_state_def result_simps Let_def entry_of_def split: option.splits)
qed (auto elim!: makes_keeps intro: changes_tame transitions_forward)

lemma trace_keeps: "gov_trace pol s tr s' \<Longrightarrow> keeps s s'"
  by (induction rule: gov_trace.induct) (auto dest: step_keeps intro: keeps_trans)

text \<open>Property C17. Whatever is called and whatever fails, a reservation is never lost: it keeps its request, binding and
  epoch and only moves forward, from reserved to dispatched or released, from dispatched to unknown or committed;
  and the epoch, the version and the clock of the snapshot never go back.\<close>

theorem reservations_move_forward:
  assumes "load_state (gv_policy gv) db = Inr s" "keys_distinct (gv_policy gv) (gs_version s + int (length calls))"
    and "governor_calls gv calls db = (rs, db')" "load_state (gv_policy gv) db' = Inr s'"
  shows "keeps s s'"
  using governor_calls_trace [OF assms(1-3)] assms(4) trace_keeps by force

section \<open>One permission for a reservation\<close>

definition permits :: "string \<Rightarrow> gov_call \<times> gov_result option \<Rightarrow> bool" where
  "permits i cr =
     (case cr of (Dispatch j epoch, Some (RDispatch True e again)) \<Rightarrow> j = i | _ \<Rightarrow> False)"

lemma permits_lost [simp]: "\<not> permits i (c, None)"
  by (cases c) (simp_all add: permits_def)

definition permissions :: "string \<Rightarrow> (gov_call \<times> call_env) list \<Rightarrow> gov_result kernel list \<Rightarrow> nat" where
  "permissions i calls rs =
     length (filter (permits i) (zip (map fst calls) (map (\<lambda>r. case r of Inl _ \<Rightarrow> None | Inr x \<Rightarrow> Some x) rs)))"

definition sent :: "gov_state \<Rightarrow> string \<Rightarrow> bool" where
  "sent s i \<longleftrightarrow> (case entry_of s i of None \<Rightarrow> False | Some e \<Rightarrow> rv_state e \<noteq> RS_RESERVED)"

lemma keeps_sent: "keeps s s' \<Longrightarrow> sent s i \<Longrightarrow> sent s' i"
proof -
  assume "keeps s s'" "sent s i"
  then obtain e where e: "entry_of s i = Some e" "rv_state e \<noteq> RS_RESERVED" by (auto simp: sent_def split: option.splits)
  with \<open>keeps s s'\<close> obtain e' where "entry_of s' i = Some e'" "later (rv_state e) (rv_state e')"
    unfolding keeps_def forward_def by blast
  with e have "entry_of s i = Some e" "rv_state e \<noteq> RS_RESERVED" "entry_of s' i = Some e'" "later (rv_state e) (rv_state e')" by simp_all
  then show ?thesis by (cases "rv_state e") (auto simp: sent_def)
qed

lemma step_permits:
  assumes "gov_step pol n1 n2 s (Dispatch i epoch) (RDispatch True e again) s'"
  obtains e0 c where "entry_of s i = Some e0" "rv_state e0 = RS_RESERVED" "rv_epoch e0 = epoch" "epoch = gs_epoch s"
    "\<not> gs_kill s" "dict_get (gs_circuits s) (rv_provider_id e0) = Some c"
    "ck_state c = CIRCUIT_CLOSED \<or> ck_state c = CIRCUIT_HALF_OPEN \<and> ck_probe c = Some i"
    "check_clock pol s n1 = Inr ()" "check_clock pol s n2 = Inr ()" "budgets pol s = Inr ()"
    "e = e0\<lparr>rv_state := RS_DISPATCHED\<rparr>" "entry_of s' i = Some e" "validate pol s' = Inr ()"
proof -
  from assms obtain now where m: "makes pol StepClock (\<lambda>s. dispatch_state pol s i epoch n1) n2 s (True, e, again) s'"
    by (auto elim: dispatch_stepE)
  then have n2: "check_clock pol s n2 = Inr ()" by (auto simp: makes_def change_step_def rule_clock_def result_simps)
  from m show thesis
  proof (cases rule: makes_cases)
    case (1 t)
    then show thesis by (auto elim: dispatch_state_cases)
  next
    case (2 t stamp)
    from 2(1) show thesis
    proof (rule dispatch_state_cases)
      fix e0 c
      assume "dict_get (gs_reservations s) i = Some e0" "rv_state e0 = RS_RESERVED" "rv_epoch e0 = epoch" "epoch = gs_epoch s"
        "\<not> gs_kill s" "dict_get (gs_circuits s) (rv_provider_id e0) = Some c"
        "ck_state c = CIRCUIT_CLOSED \<or> ck_state c = CIRCUIT_HALF_OPEN \<and> ck_probe c = Some i"
        "check_clock pol s n1 = Inr ()" "budgets pol s = Inr ()" "e = e0\<lparr>rv_state := RS_DISPATCHED\<rparr>" "t = set_entry i e s"
      then show thesis using that [of e0 c] n2 2 by (simp add: entry_of_def)
    qed simp_all
  qed
qed

lemma trace_permissions:
  assumes "gov_trace pol s tr s'"
  shows "length (filter (permits i) (map (\<lambda>(c, n, r). (c, r)) tr)) \<le> (if sent s i then 0 else 1)"
  using assms
proof (induction rule: gov_trace.induct)
  case (trace_nil s)
  then show ?case by simp
next
  case (trace_step n1 n2 s c r s1 tr s')
  show ?case
  proof (cases "permits i (c, Some r)")
    case True
    then obtain epoch e again where "c = Dispatch i epoch" "r = RDispatch True e again"
      by (auto simp: permits_def split: gov_call.splits gov_result.splits bool.splits)
    with trace_step.hyps(1) have "gov_step pol n1 n2 s (Dispatch i epoch) (RDispatch True e again) s1" by simp
    then have "\<not> sent s i" "sent s1 i" by (auto elim!: step_permits simp: sent_def)
    with True trace_step.IH show ?thesis by simp
  next
    case False
    have "sent s i \<Longrightarrow> sent s1 i" using step_keeps [OF trace_step.hyps(1)] by (rule keeps_sent)
    with False trace_step.IH show ?thesis by (auto split: if_splits)
  qed
next
  case (trace_lost n1 n2 s c r s1 tr s')
  have "sent s i \<Longrightarrow> sent s1 i" using step_keeps [OF trace_lost.hyps(1)] by (rule keeps_sent)
  with trace_lost.IH show ?case by (auto split: if_splits)
next
  case (trace_failed s tr s' c n)
  then show ?case by simp
qed

lemma trace_of_pairs:
  assumes "length rs = length calls"
  shows "map (\<lambda>(c, n, r). (c, r)) (trace_of calls rs)
    = zip (map fst calls) (map (\<lambda>r. case r of Inl _ \<Rightarrow> None | Inr x \<Rightarrow> Some x) rs)"
  using assms by (induction rs calls rule: list_induct2) (auto simp: trace_of_def)

text \<open>Property C8. Over any sequence of calls, with any faults in their transactions, at most one call returns the
  permission to send a given reservation; an acknowledgement that was lost is never answered with a second one.\<close>

theorem permission_at_most_once:
  assumes "load_state (gv_policy gv) db = Inr s" "keys_distinct (gv_policy gv) (gs_version s + int (length calls))"
    and "governor_calls gv calls db = (rs, db')"
  shows "permissions i calls rs \<le> 1"
proof -
  from governor_calls_trace [OF assms] obtain s' where t: "gov_trace (gv_policy gv) s (trace_of calls rs) s'" "length rs = length calls"
    by blast
  have "permissions i calls rs \<le> (if sent s i then 0 else 1)"
    using trace_permissions [OF t(1), of i] by (simp add: permissions_def trace_of_pairs [OF t(2)])
  then show ?thesis by (simp split: if_splits)
qed

text \<open>Property C7. A permission to send is guarded: the principal holds the commit purpose for the scope of the policy, the
  kill switch is off, the epoch is the current one and the one of the reservation, the circuit of the provider is
  closed or the reservation is its only probe, both readings of the clock are close after the last, all totals are
  within their ceilings, and the marker is stored before the permission is returned.\<close>

theorem permission_is_guarded:
  assumes "load_state (gv_policy gv) db = Inr s" "gs_version s < 1023" "keys_distinct (gv_policy gv) (gs_version s + 1)"
    and "governor_call gv env (Dispatch i epoch) db = (Inr (RDispatch True e again), db')"
  shows "\<exists>e0 c s'. entry_of s i = Some e0 \<and> rv_state e0 = RS_RESERVED \<and> rv_epoch e0 = epoch \<and> epoch = gs_epoch s
    \<and> \<not> gs_kill s \<and> dict_get (gs_circuits s) (rv_provider_id e0) = Some c
    \<and> (ck_state c = CIRCUIT_CLOSED \<or> ck_state c = CIRCUIT_HALF_OPEN \<and> ck_probe c = Some i)
    \<and> check_clock (gv_policy gv) s (reading (fst (ce_now env))) = Inr ()
    \<and> check_clock (gv_policy gv) s (reading (snd (ce_now env))) = Inr ()
    \<and> within_ceilings (gv_policy gv) s
    \<and> gov_require gv (ce_principal env) CC_COMMIT (snd (ce_require env)) = Inr ()
    \<and> e = e0\<lparr>rv_state := RS_DISPATCHED\<rparr> \<and> load_state (gv_policy gv) db' = Inr s' \<and> entry_of s' i = Some e"
proof -
  have req: "gov_require gv (ce_principal env) CC_COMMIT (snd (ce_require env)) = Inr ()"
    using assms(4)
    by (auto simp: as_result_def dispatch_commit_def guarded_def gov_change_def result_simps split: sum.splits prod.splits)
  from governor_call_holds [OF assms(1,3), of env "Dispatch i epoch"] assms(2,4) obtain s' where
    s': "load_state (gv_policy gv) db' = Inr s'"
    and st: "gov_step (gv_policy gv) (reading (fst (ce_now env))) (reading (snd (ce_now env))) s (Dispatch i epoch) (RDispatch True e again) s'"
    by (auto simp: call_holds_def holds_def)
  from st obtain e0 c where "entry_of s i = Some e0" "rv_state e0 = RS_RESERVED" "rv_epoch e0 = epoch" "epoch = gs_epoch s"
    "\<not> gs_kill s" "dict_get (gs_circuits s) (rv_provider_id e0) = Some c"
    "ck_state c = CIRCUIT_CLOSED \<or> ck_state c = CIRCUIT_HALF_OPEN \<and> ck_probe c = Some i"
    "check_clock (gv_policy gv) s (reading (fst (ce_now env))) = Inr ()"
    "check_clock (gv_policy gv) s (reading (snd (ce_now env))) = Inr ()" "budgets (gv_policy gv) s = Inr ()"
    "e = e0\<lparr>rv_state := RS_DISPATCHED\<rparr>" "entry_of s' i = Some e" by (rule step_permits)
  then show ?thesis using s' req by (auto simp: budgets_within)
qed

end
