(* ===== verification/Governor_Bounds.thy ===== *)
theory Governor_Bounds
  imports Governor_Safety
begin

text \<open>
  What the permissions of any sequence of calls add up to, and what stops them: the totals stay under the ceilings,
  the kill switch and an open circuit give none.
\<close>

section \<open>The permissions of a run\<close>

definition permission_of :: "gov_result option \<Rightarrow> reservation list" where
  "permission_of r = (case r of Some (RDispatch True e again) \<Rightarrow> [e] | _ \<Rightarrow> [])"

definition permitted :: "gov_result kernel list \<Rightarrow> reservation list" where
  "permitted rs = concat (map (\<lambda>r. case r of Inl _ \<Rightarrow> [] | Inr x \<Rightarrow> permission_of (Some x)) rs)"

definition trace_permitted :: "(gov_call \<times> (int \<times> int) \<times> gov_result option) list \<Rightarrow> reservation list" where
  "trace_permitted tr = concat (map (\<lambda>(c, n, r). permission_of r) tr)"

lemma permission_of_simps [simp]: "permission_of None = []" "permission_of (Some (RDispatch True e again)) = [e]"
  by (simp_all add: permission_of_def)

lemma permission_of_cases: "permission_of r = [] \<or> (\<exists>e again. r = Some (RDispatch True e again))"
  by (auto simp: permission_of_def split: option.splits gov_result.splits bool.splits)

lemma trace_permitted_simps [simp]:
  "trace_permitted [] = []" "trace_permitted ((c, n, r) # tr) = permission_of r @ trace_permitted tr"
  by (simp_all add: trace_permitted_def)

lemma permitted_trace: "length rs = length calls \<Longrightarrow> permitted rs = trace_permitted (trace_of calls rs)"
  by (induction rs calls rule: list_induct2) (auto simp: permitted_def trace_of_def split: sum.splits)

abbreviation entry_id :: "reservation \<Rightarrow> string" where
  "entry_id e \<equiv> rq_request_id (rv_request e)"

definition ids_ok :: "gov_state \<Rightarrow> bool" where
  "ids_ok s \<longleftrightarrow> (\<forall>i e. entry_of s i = Some e \<longrightarrow> entry_id e = i)"

lemma validate_ids: "validate pol s = Inr () \<Longrightarrow> ids_ok s"
  by (auto simp: validate_def validate_reservation_def result_simps ids_ok_def entry_of_def Let_def dest!: map_of_SomeD)

lemma load_ids: "load_state pol db = Inr s \<Longrightarrow> ids_ok s"
proof -
  assume l: "load_state pol db = Inr s"
  show ?thesis
  proof (cases "gs_version s = 0")
    case True
    with load_versions(1) [OF l] have "governor_rows db = []" by simp
    with l have "initial_state pol = Inr s" by (auto simp: load_state_eq)
    then show ?thesis by (auto simp: initial_state_def result_simps ids_ok_def entry_of_def)
  next
    case False
    from validate_ids [OF load_versions(5) [OF l this]] show ?thesis .
  qed
qed

inductive_cases permit_stepE: "gov_step pol n1 n2 s c (RDispatch True e again) s'"

lemma permit_step:
  assumes "gov_step pol n1 n2 s c (RDispatch True e again) s'"
  shows "\<exists>i epoch. c = Dispatch i epoch \<and> gov_step pol n1 n2 s (Dispatch i epoch) (RDispatch True e again) s'"
  using assms by (cases rule: permit_stepE) (use assms in auto)

lemma step_validated: "gov_step pol n1 n2 s c r s' \<Longrightarrow> s' = s \<or> validate pol s' = Inr ()"
  by (erule gov_step.cases) (auto elim: makes_cases)

lemma step_ids: "gov_step pol n1 n2 s c r s' \<Longrightarrow> ids_ok s \<Longrightarrow> ids_ok s'"
  using step_validated validate_ids by blast

text \<open>The reservations with a permission are different ones, were not sent before, and stay charged.\<close>

definition charged :: "gov_state \<Rightarrow> reservation \<Rightarrow> bool" where
  "charged s e \<longleftrightarrow>
     (\<exists>e'. entry_of s (entry_id e) = Some e' \<and> rv_request e' = rv_request e \<and> rv_state e' \<notin> {RS_RESERVED, RS_RELEASED})"

lemma keeps_charged:
  assumes "keeps s s'" "entry_of s i = Some e" "rv_state e = RS_DISPATCHED" "entry_id e = i"
  shows "charged s' e"
proof -
  from assms(1,2) obtain e' where "entry_of s' i = Some e'" "forward e e'" unfolding keeps_def by blast
  then show ?thesis using assms(3,4) by (auto simp: charged_def forward_def)
qed

lemma trace_charged:
  assumes "gov_trace pol s tr s'" "ids_ok s"
  shows "distinct (map entry_id (trace_permitted tr))
    \<and> (\<forall>e \<in> set (trace_permitted tr). charged s' e \<and> \<not> sent s (entry_id e))"
  using assms
proof (induction rule: gov_trace.induct)
  case (trace_step n1 n2 s c r s1 tr s')
  have k: "keeps s s1" using trace_step.hyps(1) by (rule step_keeps)
  note ih = trace_step.IH [OF step_ids [OF trace_step.hyps(1) trace_step.prems]]
  from permission_of_cases [of "Some r"] show ?case
  proof
    assume "permission_of (Some r) = []"
    with ih k show ?thesis by (auto dest: keeps_sent)
  next
    assume "\<exists>e again. Some r = Some (RDispatch True e again)"
    then obtain e again where r: "r = RDispatch True e again" by blast
    with permit_step trace_step.hyps(1) obtain i epoch where
      "gov_step pol n1 n2 s (Dispatch i epoch) (RDispatch True e again) s1" by blast
    then obtain e0 where e: "entry_of s i = Some e0" "rv_state e0 = RS_RESERVED" "e = e0\<lparr>rv_state := RS_DISPATCHED\<rparr>"
        "entry_of s1 i = Some e" by (rule step_permits)
    then have i: "entry_id e = i" using trace_step.prems by (auto simp: ids_ok_def)
    have "charged s' e"
      using keeps_charged [OF trace_keeps [OF trace_step.hyps(2)] e(4) _ i] by (simp add: e(3))
    moreover have "\<not> sent s i" "sent s1 i" using e by (auto simp: sent_def)
    ultimately show ?thesis using ih k i by (auto simp: r dest: keeps_sent)
  qed
next
  case (trace_lost n1 n2 s c r s1 tr s')
  then show ?case using step_ids step_keeps keeps_sent by (simp, blast)
qed simp_all

section \<open>The permissions stay under the ceilings\<close>

lemma live_sum:
  assumes "dict_ok d"
  shows "sum_list (map f (live d)) = (\<Sum>k \<in> {k \<in> fst ` set d. rv_state (the (map_of d k)) \<noteq> RS_RELEASED}. f (the (map_of d k)))"
  using assms
proof (induction d)
  case Nil
  then show ?case by (simp add: live_def)
next
  case (Cons kv d)
  obtain k v where kv: "kv = (k, v)" by fastforce
  have k: "k \<notin> fst ` set d" using Cons.prems kv by simp
  let ?S = "{j \<in> fst ` set d. rv_state (the (map_of d j)) \<noteq> RS_RELEASED}"
  have "{j \<in> fst ` set (kv # d). rv_state (the (map_of (kv # d) j)) \<noteq> RS_RELEASED}
      = (if rv_state v = RS_RELEASED then ?S else insert k ?S)" using k kv by auto
  moreover have "(\<Sum>j \<in> ?S. f (the (map_of (kv # d) j))) = (\<Sum>j \<in> ?S. f (the (map_of d j)))"
    using k kv by (intro sum.cong) auto
  moreover have "k \<notin> ?S" using k by simp
  ultimately show ?case using Cons kv by (auto simp: live_def)
qed

lemma charged_sum:
  fixes f :: "reservation \<Rightarrow> int"
  assumes "dict_ok (gs_reservations s)" "distinct (map entry_id es)" "\<forall>e \<in> set es. charged s e"
    and "\<And>e e'. rv_request e = rv_request e' \<Longrightarrow> f e = f e'" "\<forall>e \<in> set (live (gs_reservations s)). 0 \<le> f e"
  shows "sum_list (map f es) \<le> sum_list (map f (live (gs_reservations s)))"
proof -
  let ?g = "\<lambda>i. f (the (map_of (gs_reservations s) i))"
  let ?S = "{k \<in> fst ` set (gs_reservations s). rv_state (the (map_of (gs_reservations s) k)) \<noteq> RS_RELEASED}"
  have "f e = ?g (entry_id e)" if "e \<in> set es" for e
  proof -
    obtain e' where e': "map_of (gs_reservations s) (entry_id e) = Some e'" "rv_request e' = rv_request e"
      using assms(3) \<open>e \<in> set es\<close> by (auto simp: charged_def entry_of_def)
    from assms(4) [of e e'] show ?thesis by (simp add: e')
  qed
  then have "map f es = map ?g (map entry_id es)" by simp
  then have "sum_list (map f es) = sum ?g (set (map entry_id es))" by (simp only: sum.distinct_set_conv_list [OF assms(2)])
  also have "\<dots> \<le> sum ?g ?S"
  proof (rule sum_mono2)
    show "set (map entry_id es) \<subseteq> ?S"
    proof
      fix i
      assume "i \<in> set (map entry_id es)"
      with assms(3) obtain e' where "map_of (gs_reservations s) i = Some e'" "rv_state e' \<notin> {RS_RESERVED, RS_RELEASED}"
        by (auto simp: charged_def entry_of_def)
      then show "i \<in> ?S" by (auto dest: map_of_SomeD intro: rev_image_eqI)
    qed
  next
    fix k
    assume "k \<in> ?S - set (map entry_id es)"
    then obtain v where "(k, v) \<in> set (gs_reservations s)" "rv_state (the (map_of (gs_reservations s) k)) \<noteq> RS_RELEASED" by auto
    then have "v \<in> set (live (gs_reservations s))" "map_of (gs_reservations s) k = Some v"
      using assms(1) by (auto simp: live_def map_of_is_SomeI intro!: image_eqI [of v snd "(k, v)"])
    with assms(5) show "0 \<le> ?g k" by simp
  qed simp
  also have "\<dots> = sum_list (map f (live (gs_reservations s)))" by (rule live_sum [OF assms(1), symmetric])
  finally show ?thesis .
qed

lemma transition_dict_ok:
  "reserve_state pol s q epoch n = Inr (r, t, b) \<Longrightarrow> dict_ok (gs_reservations s) \<Longrightarrow> dict_ok (gs_reservations t)"
  "dispatch_state pol s i epoch n = Inr (d, t, b) \<Longrightarrow> dict_ok (gs_reservations s) \<Longrightarrow> dict_ok (gs_reservations t)"
  "release_state s i epoch = Inr (r, t, b) \<Longrightarrow> dict_ok (gs_reservations s) \<Longrightarrow> dict_ok (gs_reservations t)"
  "unknown_state pol s i epoch evidence n = Inr (r, t, b) \<Longrightarrow> dict_ok (gs_reservations s) \<Longrightarrow> dict_ok (gs_reservations t)"
  "settle_state pol s i epoch evidence = Inr (r, t, b) \<Longrightarrow> dict_ok (gs_reservations s) \<Longrightarrow> dict_ok (gs_reservations t)"
  by (erule reserve_cases, simp_all) (cases d, simp, erule dispatch_state_cases, simp_all,
      erule release_cases, simp_all, erule unknown_cases, simp_all, erule settle_cases, simp_all)

lemma step_dict_ok:
  assumes "gov_step pol n1 n2 s c r s'" "dict_ok (gs_reservations s)"
  shows "dict_ok (gs_reservations s')"
  using assms(1)
proof cases
  case (step_money review t)
  then show ?thesis using assms(2) by (auto simp: money_state_def result_simps Let_def)
qed (use assms(2) in \<open>auto elim!: makes_cases dest: start_epoch_cases set_kill_cases transition_dict_ok\<close>)

lemma trace_dict_ok: "gov_trace pol s tr s' \<Longrightarrow> dict_ok (gs_reservations s) \<Longrightarrow> dict_ok (gs_reservations s')"
  by (induction rule: gov_trace.induct) (auto dest: step_dict_ok)

lemma trace_validated: "gov_trace pol s tr s' \<Longrightarrow> s' = s \<or> validate pol s' = Inr ()"
  by (induction rule: gov_trace.induct) (auto dest: step_validated)

text \<open>Property C16. The permissions of any sequence of calls stay within the budget: their money and their risk add up to no
  more than what the live reservations of the snapshot at the end hold, and those totals, over all, per task and per
  provider, are within the ceilings in force.\<close>

theorem permissions_stay_within_ceilings:
  assumes "load_state (gv_policy gv) db = Inr s" "keys_distinct (gv_policy gv) (gs_version s + int (length calls))"
    and "dict_ok (gs_reservations s)"
    and "governor_calls gv calls db = (rs, db')" "load_state (gv_policy gv) db' = Inr s'"
  shows "permitted rs = []
    \<or> sum_list (map rv_money (permitted rs)) \<le> bk_money (bucket_total (\<lambda>_. True) (live (gs_reservations s')))
      \<and> sum_list (map rv_risk (permitted rs)) \<le> bk_risk (bucket_total (\<lambda>_. True) (live (gs_reservations s')))
      \<and> within_ceilings (gv_policy gv) s'"
proof -
  from governor_calls_trace [OF assms(1,2,4)] assms(5) have
    t: "gov_trace (gv_policy gv) s (trace_of calls rs) s'" "length rs = length calls" by auto
  from trace_charged [OF t(1) load_ids [OF assms(1)]] have
    c: "distinct (map entry_id (permitted rs))" "\<forall>e \<in> set (permitted rs). charged s' e"
    by (auto simp: permitted_trace [OF t(2)])
  have d: "dict_ok (gs_reservations s')" using trace_dict_ok [OF t(1) assms(3)] .
  show ?thesis
  proof (cases "permitted rs = []")
    case False
    then obtain e where "charged s' e" using c(2) by (cases "permitted rs") auto
    then have "gs_version s' \<noteq> 0 \<or> gs_reservations s' \<noteq> []" by (auto simp: charged_def entry_of_def)
    moreover have "gs_reservations s' = []" if "gs_version s' = 0"
    proof -
      from that load_versions(1) [OF assms(5)] have "governor_rows db' = []" by simp
      with assms(5) show ?thesis by (auto simp: load_state_eq initial_state_def result_simps)
    qed
    ultimately have "validate (gv_policy gv) s' = Inr ()" using load_versions(5) [OF assms(5)] by blast
    then have b: "amounts_ok (live (gs_reservations s'))" "within_ceilings (gv_policy gv) s'"
      by (auto simp: validate_def result_simps budgets_within)
    then have "sum_list (map rv_money (permitted rs)) \<le> sum_list (map rv_money (live (gs_reservations s')))"
        "sum_list (map rv_risk (permitted rs)) \<le> sum_list (map rv_risk (live (gs_reservations s')))"
      by (auto intro!: charged_sum [OF d c] simp: amounts_ok_def is_amount_def)
    then show ?thesis using b(2) by (simp add: bucket_total_def)
  qed simp
qed

section \<open>The kill switch\<close>

definition stays_killed :: "gov_state \<Rightarrow> gov_state \<Rightarrow> bool" where
  "stays_killed s s' \<longleftrightarrow> gs_kill s' \<and> (\<forall>i. entry_of s i = None \<longrightarrow> entry_of s' i = None)"

lemma killed_step:
  assumes "gov_step pol n1 n2 s c r s'" "gs_kill s" "c \<noteq> SetKill False"
  shows "stays_killed s s' \<and> permission_of (Some r) = []"
  using assms(1)
proof cases
  case (step_money review t)
  then show ?thesis
    using assms(2) by (auto simp: stays_killed_def money_state_def result_simps Let_def permission_of_def entry_of_def)
next
  case (step_dispatch i epoch now e again)
  then have "\<not> now" using assms(2) by (auto elim!: makes_cases dispatch_state_cases)
  with step_dispatch assms(2) show ?thesis
    by (auto simp: stays_killed_def permission_of_def elim!: makes_cases dispatch_state_cases)
qed (use assms(2,3) in \<open>auto simp: stays_killed_def permission_of_def entry_of_def set_kill_state_def elim!: makes_cases reserve_cases
      release_cases unknown_cases settle_cases dest!: start_epoch_cases\<close>)

lemma killed_trace:
  assumes "gov_trace pol s tr s'" "gs_kill s" "\<forall>(c, n, r) \<in> set tr. c \<noteq> SetKill False"
  shows "stays_killed s s' \<and> trace_permitted tr = []"
  using assms
proof (induction rule: gov_trace.induct)
  case (trace_step n1 n2 s c r s1 tr s')
  then show ?case using killed_step [OF trace_step.hyps(1)] by (auto simp: stays_killed_def)
next
  case (trace_lost n1 n2 s c r s1 tr s')
  then show ?case using killed_step [OF trace_lost.hyps(1)] by (auto simp: stays_killed_def)
qed (auto simp: stays_killed_def)

lemma trace_of_calls: "\<forall>ce \<in> set calls. P (fst ce) (reading (fst (ce_now (snd ce)))) \<Longrightarrow>
    \<forall>(c, n, r) \<in> set (trace_of calls rs). P c (fst n)"
  by (auto simp: trace_of_def dest!: set_zip_leftD)

text \<open>While the kill switch is on and nobody turns it off, no call gives a permission and no new reservation is
  taken, whatever else is called and whatever fails.\<close>

theorem killed_governor_permits_nothing:
  assumes "load_state (gv_policy gv) db = Inr s" "keys_distinct (gv_policy gv) (gs_version s + int (length calls))"
    and "gs_kill s" "SetKill False \<notin> fst ` set calls"
    and "governor_calls gv calls db = (rs, db')" "load_state (gv_policy gv) db' = Inr s'"
  shows "permitted rs = [] \<and> gs_kill s' \<and> (\<forall>i. entry_of s i = None \<longrightarrow> entry_of s' i = None)"
proof -
  from governor_calls_trace [OF assms(1,2,5)] assms(6) have
    t: "gov_trace (gv_policy gv) s (trace_of calls rs) s'" "length rs = length calls" by auto
  have "\<forall>(c, n, r) \<in> set (trace_of calls rs). c \<noteq> SetKill False"
    using trace_of_calls [of calls "\<lambda>c n. c \<noteq> SetKill False" rs] assms(4) by force
  from killed_trace [OF t(1) assms(3) this] show ?thesis by (simp add: permitted_trace [OF t(2)] stays_killed_def)
qed

section \<open>An open circuit\<close>

definition opened_since :: "gov_state \<Rightarrow> string \<Rightarrow> int \<Rightarrow> bool" where
  "opened_since s p t \<longleftrightarrow> (\<exists>c. dict_get (gs_circuits s) p = Some c \<and> ck_state c = CIRCUIT_OPEN \<and> t \<le> ck_opened_at c)"

lemma open_step:
  assumes "gov_step pol n1 n2 s c r s'" "opened_since s p t" "t \<le> n1" "n1 < t + gp_cooldown_seconds pol"
  shows "opened_since s' p t \<and> (\<forall>e \<in> set (permission_of (Some r)). rv_provider_id e \<noteq> p)"
  using assms(1)
proof cases
  case (step_epoch e)
  then show ?thesis using assms(2)
    by (auto simp: opened_since_def permission_of_def map_of_map reopen_def elim!: makes_cases dest!: start_epoch_cases)
next
  case (step_kill active b)
  then show ?thesis using assms(2) by (auto simp: opened_since_def permission_of_def elim!: makes_cases dest!: set_kill_cases)
next
  case (step_reserve q epoch e)
  then show ?thesis using assms(2-4)
    by (auto simp: opened_since_def permission_of_def admit_circuit_def circuit_or_new_def result_simps elim!: makes_cases reserve_cases
        split: if_splits)
next
  case (step_dispatch i epoch now e again)
  then show ?thesis using assms(2) by (auto simp: opened_since_def permission_of_def elim!: makes_cases dispatch_state_cases)
next
  case (step_release i epoch e)
  then show ?thesis using assms(2) by (auto simp: opened_since_def permission_of_def elim!: makes_cases release_cases)
next
  case (step_unknown i epoch evidence e)
  then show ?thesis using assms(2-4)
    by (auto simp: opened_since_def permission_of_def failed_circuit_def Let_def elim!: makes_cases unknown_cases)
next
  case (step_settle i epoch evidence e)
  then show ?thesis using assms(2)
    by (auto simp: opened_since_def permission_of_def settled_circuit_def elim!: makes_cases settle_cases)
next
  case (step_money review u)
  then show ?thesis using assms(2) by (auto simp: opened_since_def permission_of_def money_state_def result_simps Let_def)
qed (use assms(2) in \<open>auto simp: permission_of_def\<close>)

lemma open_trace:
  assumes "gov_trace pol s tr s'" "opened_since s p t" "\<forall>(c, n, r) \<in> set tr. t \<le> fst n \<and> fst n < t + gp_cooldown_seconds pol"
  shows "opened_since s' p t \<and> (\<forall>e \<in> set (trace_permitted tr). rv_provider_id e \<noteq> p)"
  using assms
proof (induction rule: gov_trace.induct)
  case (trace_step n1 n2 s c r s1 tr s')
  then show ?case using open_step [OF trace_step.hyps(1)] by auto
next
  case (trace_lost n1 n2 s c r s1 tr s')
  then show ?case using open_step [OF trace_lost.hyps(1)] by auto
qed auto

text \<open>A provider whose circuit opened gets no permission before the cooldown has passed: as long as the clock of
  the calls reads less than the cooldown after the opening, the circuit stays open and no call permits a reservation
  of that provider.\<close>

theorem open_circuit_waits_for_cooldown:
  assumes "load_state (gv_policy gv) db = Inr s" "keys_distinct (gv_policy gv) (gs_version s + int (length calls))"
    and "dict_get (gs_circuits s) p = Some c" "ck_state c = CIRCUIT_OPEN"
    and "\<forall>ce \<in> set calls. ck_opened_at c \<le> reading (fst (ce_now (snd ce)))
          \<and> reading (fst (ce_now (snd ce))) < ck_opened_at c + gp_cooldown_seconds (gv_policy gv)"
    and "governor_calls gv calls db = (rs, db')" "load_state (gv_policy gv) db' = Inr s'"
  shows "(\<forall>e \<in> set (permitted rs). rv_provider_id e \<noteq> p)
    \<and> (\<exists>c'. dict_get (gs_circuits s') p = Some c' \<and> ck_state c' = CIRCUIT_OPEN \<and> ck_opened_at c \<le> ck_opened_at c')"
proof -
  from governor_calls_trace [OF assms(1,2,6)] assms(7) have
    t: "gov_trace (gv_policy gv) s (trace_of calls rs) s'" "length rs = length calls" by auto
  have "\<forall>(d, n, r) \<in> set (trace_of calls rs). ck_opened_at c \<le> fst n \<and> fst n < ck_opened_at c + gp_cooldown_seconds (gv_policy gv)"
    by (rule trace_of_calls [where P = "\<lambda>d n. ck_opened_at c \<le> n \<and> n < ck_opened_at c + gp_cooldown_seconds (gv_policy gv)"]) (rule assms(5))
  moreover have "opened_since s p (ck_opened_at c)" using assms(3,4) by (auto simp: opened_since_def)
  ultimately show ?thesis using open_trace [OF t(1), of p "ck_opened_at c"] by (simp add: permitted_trace [OF t(2)] opened_since_def)
qed

end
