(* ===== verification/Governor_Liveness.thy ===== *)
theory Governor_Liveness
  imports Governor_Bounds
begin

text \<open>
  The other direction: on a readable database with room in its chain and its audit, a healthy call succeeds. The
  theorem is about the permission to send, the method that everything else prepares.
\<close>

section \<open>Texts that are no machine paths\<close>

lemma not_machine_path:
  assumes "s = a # b # r" "a \<noteq> CHR ''/''" "\<not> ascii_letter a \<or> b \<noteq> CHR '':''"
  shows "\<not> machine_path s"
  using assms by (auto simp: machine_path_def starts_with_def drive_path_def split: list.splits)

lemma hex_text_split: "sha256_hex_text h \<Longrightarrow> \<exists>a b r. h = a # b # r \<and> hex_lower a \<and> hex_lower b"
  by (cases h; cases "tl h") (auto simp: sha256_hex_text_def)

lemma hex_not_special: "hex_lower c \<Longrightarrow> c \<noteq> CHR ''/'' \<and> c \<noteq> CHR '':'' \<and> \<not> py_space c"
  by (auto simp: hex_lower_def ascii_digit_def char_between_def py_space_def)

lemma digit_not_special: "ascii_digit c \<Longrightarrow> c \<noteq> CHR ''/'' \<and> c \<noteq> CHR '':'' \<and> \<not> ascii_letter c"
  by (auto simp: ascii_digit_def char_between_def ascii_letter_def)

lemma hex_text_canonical [simp]: "sha256_hex_text h \<Longrightarrow> \<not> machine_path h"
proof -
  assume "sha256_hex_text h"
  then obtain a b r where h: "h = a # b # r" "hex_lower a" "hex_lower b" using hex_text_split by blast
  from not_machine_path [OF h(1)] hex_not_special [OF h(2)] hex_not_special [OF h(3)] show ?thesis by simp
qed

lemma not_blank_Cons: "\<not> py_space a \<Longrightarrow> not_blank (a # r)"
proof -
  assume a: "\<not> py_space a"
  then have "dropWhile py_space (a # r) = a # r" by simp
  moreover have "dropWhile py_space (rev r @ [a]) \<noteq> []" using a by (induction "rev r") auto
  ultimately show ?thesis by (simp add: not_blank_def py_strip_def)
qed

lemma hex_text_not_blank [simp]: "sha256_hex_text h \<Longrightarrow> not_blank h"
  by (drule hex_text_split) (auto intro: not_blank_Cons dest: hex_not_special)

lemma require_non_empty_eq [result_simps]: "require_non_empty s = Inr u \<longleftrightarrow> not_blank s"
  by (simp add: require_non_empty_def not_blank_def result_simps)

lemma prefixed_text:
  "\<not> machine_path (''governor-'' @ k)" "\<not> machine_path (''governor-outbox-'' @ k)"
  "not_blank (''governor-'' @ k)" "not_blank (''governor-outbox-'' @ k)"
proof -
  show "\<not> machine_path (''governor-'' @ k)" by (rule not_machine_path [of _ "CHR ''g''" "CHR ''o''" "''vernor-'' @ k"]) simp_all
  show "\<not> machine_path (''governor-outbox-'' @ k)"
    by (rule not_machine_path [of _ "CHR ''g''" "CHR ''o''" "''vernor-outbox-'' @ k"]) simp_all
  show "not_blank (''governor-'' @ k)" "not_blank (''governor-outbox-'' @ k)"
    by (simp_all add: not_blank_Cons py_space_def)
qed

lemma digits_canonical:
  assumes "s \<noteq> []" "\<forall>c \<in> set (take 2 s). ascii_digit c"
  shows "\<not> machine_path s"
proof (cases s)
  case (Cons a t)
  show ?thesis
  proof (cases t)
    case Nil
    then show ?thesis using Cons assms digit_not_special by (auto simp: machine_path_def starts_with_def drive_path_def)
  next
    case (Cons b r)
    with \<open>s = a # t\<close> assms(2) have "ascii_digit a" "s = a # b # r" by auto
    from not_machine_path [OF this(2)] digit_not_special [OF this(1)] show ?thesis by simp
  qed
qed (use assms in simp)

lemma int_text_canonical: "0 \<le> n \<Longrightarrow> \<not> machine_path (py_int_str n)"
  using dec_digits_facts [of "nat n"] by (intro digits_canonical) (auto simp: py_int_str_def dest: in_set_takeD)

lemma zero_pad_digits: "\<forall>c \<in> set (zero_pad w n). ascii_digit c" "w \<le> length (zero_pad w n)"
  using dec_digits_facts [of n] by (auto simp: zero_pad_def Let_def ascii_digit_def char_between_def)

lemma utc_text_canonical: "\<not> machine_path (utc_text d)"
proof -
  have "\<exists>y r. iso_base us = zero_pad 4 y @ r" for us
  proof -
    obtain y m dd where c: "civil_from_days (us div 86400000000) = (y, m, dd)" by (metis prod_cases3)
    show ?thesis unfolding iso_base_def Let_def c prod.case by blast
  qed
  then obtain y r where "iso_base (dt_micros d - dt_micros d mod 1000000) = zero_pad 4 y @ r" by blast
  then have "utc_text d = zero_pad 4 y @ r @ ''.'' @ zero_pad 6 (nat (dt_micros d mod 1000000)) @ ''Z''"
    unfolding utc_text_def Let_def by (simp only: append_assoc)
  then obtain r where y: "utc_text d = zero_pad 4 y @ r" by blast
  obtain a b t where z: "zero_pad 4 y = a # b # t"
    using zero_pad_digits(2) [of 4 y] by (cases "zero_pad 4 y"; cases "tl (zero_pad 4 y)") auto
  have "ascii_digit a" "ascii_digit b" using zero_pad_digits(1) [of 4 y] z by auto
  then show ?thesis using y z by (intro digits_canonical) auto
qed

section \<open>The audit accepts the next event\<close>

text \<open>The audit chain is readable and the identities of the next version are free.\<close>

definition audit_room :: "governor_policy \<Rightarrow> int \<Rightarrow> gov_db \<Rightarrow> bool" where
  "audit_room pol version db \<longleftrightarrow>
     (\<exists>events. domain_chain (gp_scope pol) db = Inr events)
     \<and> (\<forall>k. gov_key pol version = Inr k \<longrightarrow>
          k \<notin> op_id ` set (db_operations db) \<and> ''governor-'' @ k \<notin> ar_id ` set (db_audit db) \<and> ''governor-outbox-'' @ k \<notin> ox_id ` set (db_outbox db))"

lemma decoded_event:
  assumes "decode_audit scope r = Inr (e, h)"
  shows "av_audit_event_id e = ar_id r" "av_tenant_id e = sc_tenant_id scope" "sha256_hex_text h" "domain_event_checks e"
  using assms
  by (auto simp: decode_audit_def make_event_def result_simps event_hash_def split: sum.splits if_splits
      intro: canonical_sha256_hex)

lemma chain_events:
  assumes "domain_chain scope db = Inr events" "eh \<in> set events"
  shows "av_tenant_id (fst eh) = sc_tenant_id scope" "sha256_hex_text (snd eh)" "domain_event_checks (fst eh)"
    "av_audit_event_id (fst eh) \<in> ar_id ` set (db_audit db)"
proof -
  from assms(1) obtain es where es: "traverse (decode_audit scope) (db_audit db) = Inr es" "set events = set es"
    by (auto simp: domain_chain_eq)
  then obtain i where i: "i < length (db_audit db)" "decode_audit scope (db_audit db ! i) = Inr eh"
    using traverse_Inr_eq [OF es(1)] assms(2) by (metis in_set_conv_nth)
  then have d: "decode_audit scope (db_audit db ! i) = Inr (fst eh, snd eh)" by simp
  from decoded_event [OF d] i(1) show "av_tenant_id (fst eh) = sc_tenant_id scope" "sha256_hex_text (snd eh)"
    "domain_event_checks (fst eh)" "av_audit_event_id (fst eh) \<in> ar_id ` set (db_audit db)" by auto
qed

lemma chain_numbers:
  assumes "verify_audit_chain events = Inr ()" "events \<noteq> []"
  shows "av_sequence_number (fst (last events)) = int (length events) - 1"
proof -
  have "map (\<lambda>eh. av_sequence_number (fst eh)) events = map int [0..<length events]"
    using chain_from_numbered [of "[]" None events] assms(1) by (simp add: verify_audit_chain_def)
  then have "last (map (\<lambda>eh. av_sequence_number (fst eh)) events) = last (map int [0..<length events])" by simp
  then show ?thesis using assms(2) by (simp add: last_map last_upt of_nat_diff Suc_leI)
qed

definition scope_texts :: "owner_scope \<Rightarrow> string list" where
  "scope_texts s = [sc_tenant_id s, sc_owner_id s, sc_space_id s, sc_slot_id s]"

lemma static_texts [simp]:
  "\<not> machine_path CONTRACT_SCHEMA_VERSION" "\<not> machine_path ''memory_patch_domain''" "\<not> machine_path (actor_type_value a)"
  "\<not> machine_path GOVERNOR_KIND" "not_blank GOVERNOR_KIND" "\<not> machine_path ''PENDING''"
proof -
  show "\<not> machine_path CONTRACT_SCHEMA_VERSION" "\<not> machine_path ''memory_patch_domain''" "\<not> machine_path GOVERNOR_KIND"
    "not_blank GOVERNOR_KIND" "\<not> machine_path ''PENDING''" by code_simp+
  show "\<not> machine_path (actor_type_value a)" by (induct a; code_simp)
qed

lemma canonical_sha256_exists: "canonical_ok v \<Longrightarrow> \<exists>h. canonical_sha256 v = Inr h \<and> sha256_hex_text h"
  using canonical_sha256_hex [of v "sha256_text (dumps_raw v)"] by (simp add: canonical_sha256_def)

text \<open>A principal whose texts may be stored.\<close>

definition storable :: "core_principal \<Rightarrow> bool" where
  "storable p \<longleftrightarrow>
     list_all (\<lambda>t. not_blank t \<and> \<not> machine_path t) (pr_session p # scope_texts (pr_scope p))"

lemma append_succeeds:
  assumes c: "domain_chain (pr_scope p) db = Inr events" and p: "storable p"
    and id: "event_id \<notin> ar_id ` set (db_audit db)" "not_blank event_id" "\<not> machine_path event_id" "length event_id \<le> 256"
    and pid: "proof_id \<notin> ox_id ` set (db_outbox db)" "not_blank proof_id" "\<not> machine_path proof_id" "length proof_id \<le> 256"
    and r: "not_blank resource_id" "\<not> machine_path resource_id" "\<forall>t. before = Some t \<longrightarrow> \<not> machine_path t" "\<not> machine_path after"
    and d: "sha256_hex_text content" "sha256_hex_text (ob_payload_digest op)"
    and k: "not_blank (ob_operation_kind op)" "\<not> machine_path (ob_operation_kind op)" "\<not> machine_path (ob_idempotency_key op)"
    and o': "dt_offset stamp \<noteq> None" "purpose \<in> {CC_COMMIT, CC_MANAGE}"
  shows "\<exists>db'. append_domain_event p purpose op event_id proof_id resource_id before after content stamp db = Inr db'
    \<and> db_operations db' = db_operations db"
proof -
  let ?e = "next_event p op events event_id resource_id before after content stamp"
  have last: "events \<noteq> [] \<Longrightarrow> last events \<in> set events" by simp
  have ver: "verify_audit_chain events = Inr ()" using c by (auto simp: domain_chain_eq)
  have stamp: "dt_offset (av_created_at ?e) \<noteq> None"
    using o'(1) chain_events(3) [OF c last] by (auto simp: next_event_def domain_event_checks_def)
  have s: "not_blank (pr_session p)" "\<not> machine_path (pr_session p)" "list_all not_blank (scope_texts (pr_scope p))"
      "list_all (\<lambda>t. \<not> machine_path t) (scope_texts (pr_scope p))"
    using p by (auto simp: storable_def list_all_iff)
  have checks: "domain_event_checks ?e"
    using s id r d k stamp chain_events(2) [OF c last]
    by (auto simp: next_event_def domain_event_checks_def not_blank_option_def scope_texts_def not_blank_Cons py_space_def)
  have prev: "events \<noteq> [] \<Longrightarrow> \<not> machine_path (snd (last events))" using chain_events(2) [OF c last] by simp
  have json: "canonical_ok (domain_event_json ?e)"
    using s id r d k utc_text_canonical prev
    by (auto simp: next_event_def domain_event_json_def opt_str_def scope_texts_def static_texts split: option.splits)
  then obtain h where h: "event_hash ?e = Inr h" "sha256_hex_text h"
    using canonical_sha256_exists unfolding event_hash_def by blast
  have make: "make_event ?e = Inr (?e, h)" using checks h by (simp add: make_event_def)
  have tenant: "events \<noteq> [] \<Longrightarrow> av_tenant_id (fst (last events)) = sc_tenant_id (pr_scope p)"
    using chain_events(1) [OF c last] by simp
  have build: "build_event p op events event_id resource_id before after content stamp = Inr (?e, h)"
  proof -
    have "case events of [] \<Rightarrow> True
        | _ \<Rightarrow> av_tenant_id ?e = av_tenant_id (fst (last events)) \<and> av_sequence_number ?e = av_sequence_number (fst (last events)) + 1"
      using tenant chain_numbers [OF ver] by (cases "events = []") (auto simp: next_event_def split: list.splits)
    then show ?thesis using make by (simp add: build_event_def Let_def)
  qed
  have fresh: "event_id \<notin> (\<lambda>eh. av_audit_event_id (fst eh)) ` set events" using chain_events(4) [OF c] id(1) by fastforce
  have chain: "verify_audit_chain (events @ [(?e, h)]) = Inr ()"
    using ver fresh tenant chain_numbers [OF ver]
    by (auto simp: verify_audit_chain_def chain_from_append next_event_def split: prod.splits)
  have payload: "canonical_ok (event_payload ?e h)" using json h(2) by (simp add: event_payload_def domain_event_json_def)
  have scope: "canonical_ok (owner_scope_json (pr_scope p))" "canonical_ok (scope_binding (pr_scope p))"
    using s by (simp_all add: owner_scope_json_def scope_binding_def scope_texts_def)
  obtain od where od: "canonical_sha256 (JObj [(''scope'', scope_binding (pr_scope p)), (''operation'', operation_binding_json op)]) = Inr od"
      "sha256_hex_text od"
    using canonical_sha256_exists [of "JObj [(''scope'', scope_binding (pr_scope p)), (''operation'', operation_binding_json op)]"]
      scope k d by (auto simp: operation_binding_json_def)
  have kinds: "RK_AUDIT \<in> set (write_kinds purpose)" "RK_OUTBOX \<in> set (write_kinds purpose)" using o'(2) by auto
  show ?thesis
    using c o'(1) build chain payload scope od kinds id pid h
    by (simp add: append_domain_event_def stored_record_def insert_checks_def require_non_empty_def not_blank_def
        outbox_payload_def opt_str_def static_texts)
qed

section \<open>A write succeeds\<close>

lemma policy_canonical:
  "policy_digest pol = Inr d \<Longrightarrow> canonical_ok (owner_scope_json (gp_scope pol)) \<and> \<not> machine_path (gp_deployment_id pol)
    \<and> sha256_hex_text d"
  by (auto simp: policy_digest_def result_simps policy_json_def)

lemma load_canonical:
  assumes "load_state pol db = Inr s"
  shows "canonical_ok (state_json s)"
proof (cases "gs_version s = 0")
  case True
  with load_versions(1) [OF assms] have "governor_rows db = []" by simp
  with assms have "initial_state pol = Inr s" by (auto simp: load_state_eq)
  then show ?thesis using policy_canonical by (auto simp: initial_state_def result_simps state_json_def opt_int_def)
next
  case False
  from assms obtain os s0 where l: "traverse (check_row pol) (governor_rows db) = Inr os"
      "initial_state pol = Inr s0" "replay pol s0 [] (sort_key (\<lambda>o'. gs_version (go_state o')) os) = Inr s"
    by (auto simp: load_state_eq)
  have "os \<noteq> []" using False l by (auto simp: initial_state_def result_simps)
  then have ne: "sort_key (\<lambda>o'. gs_version (go_state o')) os \<noteq> []" by (metis length_0_conv length_sort)
  with replay_facts(3) [OF l(3) ne] obtain o' where o': "o' \<in> set os" "s = go_state o'"
    using last_in_set [OF ne] by auto
  then obtain i where "check_row pol (governor_rows db ! i) = Inr o'" using traverse_Inr_eq [OF l(1)] by (metis in_set_conv_nth)
  then show ?thesis using o'(2) by (auto simp: check_row_def result_simps outcome_json_def split: stored_outcome.splits)
qed

lemma key_exists:
  assumes "policy_digest pol = Inr d"
  shows "\<exists>k. gov_key pol v = Inr k \<and> sha256_hex_text k"
  unfolding gov_key_def by (rule canonical_sha256_exists) (use policy_canonical [OF assms] in simp)

lemma write_succeeds:
  assumes l: "load_state pol db = Inr before" "keys_distinct pol (gs_version before + 1)"
    and room: "audit_room pol (gs_version before + 1) db"
    and v: "validate pol (stamped before t now) = Inr ()" "canonical_ok (state_json (stamped before t now))"
    and p: "storable p" "pr_scope p = gp_scope pol" "purpose \<in> {CC_COMMIT, CC_MANAGE}" and now: "now \<le> MAX_TIMESTAMP"
  shows "\<exists>db'. write_state pol p purpose before t now None db = Inr db'"
proof -
  let ?s = "stamped before t now"
  obtain prior where prior: "state_digest before = Inr prior" "sha256_hex_text prior"
    using canonical_sha256_exists [OF load_canonical [OF l(1)]] unfolding state_digest_def by blast
  obtain k where k: "gov_key pol (gs_version before + 1) = Inr k" "sha256_hex_text k"
    using key_exists [OF load_versions(4) [OF l(1)]] by blast
  let ?o = "new_outcome ?s prior None"
  have oc: "canonical_ok (outcome_json ?o)" using v(2) prior(2) by (simp add: outcome_json_def new_outcome_def)
  then obtain d where d: "canonical_sha256 (outcome_json ?o) = Inr d" "sha256_hex_text d" using canonical_sha256_exists by blast
  let ?b = "\<lparr>ob_idempotency_key = k, ob_operation_kind = GOVERNOR_KIND, ob_payload_digest = d\<rparr>"
  have len: "length k = 64" using k(2) by (simp add: sha256_hex_text_def)
  have bind: "operation_bind k GOVERNOR_KIND (outcome_json ?o) = Inr ?b"
    using d k(2) len by (simp add: operation_bind_def require_non_empty_def not_blank_def [symmetric] GOVERNOR_KIND_def)
      (simp add: not_blank_Cons py_space_def)
  have fresh: "k \<notin> op_id ` set (governor_rows db)" by (rule fresh_key [OF l k(1)])
  obtain content where content: "state_digest ?s = Inr content" "sha256_hex_text content"
    using canonical_sha256_exists [OF v(2)] unfolding state_digest_def by blast
  obtain events where c: "domain_chain (pr_scope p) db = Inr events" using room p(2) by (auto simp: audit_room_def)
  have "0 \<le> gs_version before" using load_versions(1) [OF l(1)] by simp
  then obtain db1 where app: "append_governor_event p purpose ?b before ?s now db = Inr db1" "db_operations db1 = db_operations db"
    using append_succeeds [OF c p(1), of "''governor-'' @ k" "''governor-outbox-'' @ k" k "Some (py_int_str (gs_version before))"
        "py_int_str (gs_version ?s)" content ?b "utc (now * 1000000)" purpose] room k content d now p(3) len prefixed_text int_text_canonical
    by (auto simp: append_governor_event_def audit_room_def utc_def)
  have free: "k \<notin> op_id ` set (db_operations db)" using room k(1) by (simp add: audit_room_def)
  then have "get_operation db k = None" by (auto simp: get_operation_def find_None_iff)
  moreover have "canonical_ok (owner_scope_json (pr_scope p))" using policy_canonical [OF load_versions(4) [OF l(1)]] p(2) by simp
  ultimately show ?thesis
    using free v prior k bind app oc d p(3) len
    by (auto simp: write_state_def Let_def stamped_def [symmetric] new_outcome_def [symmetric] execute_once_def stored_record_def
        insert_checks_def require_non_empty_def not_blank_def [symmetric])
qed

section \<open>A dispatch keeps the snapshot valid\<close>

lemma live_requests:
  assumes "dict_get d i = Some e" "rv_request e' = rv_request e" "rv_state e \<noteq> RS_RELEASED" "rv_state e' \<noteq> RS_RELEASED"
  shows "map rv_request (live (dict_set i e' d)) = map rv_request (live d)"
  using assms by (induction d) (auto simp: live_def split: if_splits)

lemma bucket_total_requests:
  assumes "map rv_request es = map rv_request fs" "\<And>e f. rv_request e = rv_request f \<Longrightarrow> P e = P f"
  shows "bucket_total P es = bucket_total P fs"
proof -
  have "length es = length fs" using assms(1) by (rule map_eq_imp_length_eq)
  then have "map rv_request (filter P es) = map rv_request (filter P fs)"
    using assms(1)
  proof (induction es fs rule: list_induct2)
    case (Cons e es f fs)
    then show ?case using assms(2) [of e f] by simp
  qed simp
  then have "map (\<lambda>q. g q) (map rv_request (filter P es)) = map (\<lambda>q. g q) (map rv_request (filter P fs))" for g :: "_ \<Rightarrow> int"
    by simp
  then show ?thesis by (simp add: bucket_total_def comp_def)
qed

lemma budgets_requests:
  assumes "map rv_request (live (gs_reservations t)) = map rv_request (live (gs_reservations s))"
    "gs_money_policy t = gs_money_policy s" "budgets pol s = Inr ()"
  shows "budgets pol t = Inr ()"
proof -
  have r: "\<exists>f \<in> set (live (gs_reservations s)). rv_request f = rv_request e" if "e \<in> set (live (gs_reservations t))" for e
  proof -
    from that have "rv_request e \<in> set (map rv_request (live (gs_reservations t)))" by simp
    then show ?thesis unfolding assms(1) by auto
  qed
  have tot: "bucket_total P (live (gs_reservations t)) = bucket_total P (live (gs_reservations s))"
    if "\<And>e f. rv_request e = rv_request f \<Longrightarrow> P e = P f" for P by (rule bucket_total_requests [OF assms(1) that])
  have c: "money_ceiling t f l = money_ceiling s f l" for f l by (simp add: money_ceiling_def assms(2))
  have b: "amounts_ok (live (gs_reservations s))" "within_ceilings pol s" using assms(3) by (simp_all add: budgets_within)
  have "amounts_ok (live (gs_reservations t))"
    using b(1) r tot [of "\<lambda>_. True"] unfolding amounts_ok_def by (metis (no_types, lifting))
  moreover have "within_ceilings pol t"
    unfolding within_ceilings_def Let_def
  proof (intro conjI ballI)
    show "ceiling_ok (money_ceiling t ml_global (gp_global_limit pol)) (gl_risk_units (gp_global_limit pol))
        (bucket_total (\<lambda>_. True) (live (gs_reservations t)))"
      using b(2) tot [of "\<lambda>_. True"] by (simp add: within_ceilings_def c Let_def)
    fix e
    assume "e \<in> set (live (gs_reservations t))"
    with r obtain f where f: "f \<in> set (live (gs_reservations s))" "rv_request f = rv_request e" by blast
    then show "ceiling_ok (money_ceiling t ml_task (gp_task_limit pol)) (gl_risk_units (gp_task_limit pol))
          (bucket_total (\<lambda>f. rv_task_id f = rv_task_id e) (live (gs_reservations t)))"
      and "ceiling_ok (money_ceiling t ml_owner_provider (gp_owner_provider_limit pol)) (gl_risk_units (gp_owner_provider_limit pol))
          (bucket_total (\<lambda>f. rv_provider_id f = rv_provider_id e) (live (gs_reservations t)))"
      using b(2) tot [of "\<lambda>f. rv_task_id f = rv_task_id e"] tot [of "\<lambda>f. rv_provider_id f = rv_provider_id e"]
      by (auto simp: within_ceilings_def c Let_def dest!: bspec [of _ _ f])
  qed
  ultimately show ?thesis by (simp add: budgets_within)
qed

lemma dict_set_members: "kv \<in> set (dict_set k v d) \<Longrightarrow> kv = (k, v) \<or> kv \<in> set d"
  by (induction d) (auto split: if_splits)

lemma validate_dispatch:
  assumes v: "validate pol s = Inr ()" and e: "entry_of s i = Some e" "rv_state e = RS_RESERVED"
    and n: "0 \<le> now" "now \<le> 9007199254740992"
  shows "validate pol (stamped s (set_entry i (e\<lparr>rv_state := RS_DISPATCHED\<rparr>) s) now) = Inr ()"
proof -
  let ?e = "e\<lparr>rv_state := RS_DISPATCHED\<rparr>"
  let ?t = "stamped s (set_entry i ?e s) now"
  have old: "validate_reservation s (i, e) = Inr ()"
    using v e(1) by (auto simp: validate_def result_simps entry_of_def dest: map_of_SomeD)
  have vp: "valid_proof s f \<Longrightarrow> valid_proof ?t f" for f by (auto simp: valid_proof_def stamped_def split: if_splits option.splits)
  have "validate_reservation ?t (i, ?e) = Inr ()"
    using old e(2) by (auto simp: validate_reservation_def result_simps Let_def valid_proof_def)
  moreover have "validate_reservation ?t ke = Inr ()" if "ke \<in> set (gs_reservations s)" for ke
  proof -
    have "validate_reservation s ke = Inr ()" using v that by (simp add: validate_def result_simps)
    then show ?thesis using vp by (auto simp: validate_reservation_def result_simps Let_def)
  qed
  ultimately have "\<forall>ke \<in> set (gs_reservations ?t). validate_reservation ?t ke = Inr ()" by (auto dest: dict_set_members)
  moreover have "\<forall>kc \<in> set (gs_circuits ?t). validate_circuit ?t kc = Inr ()"
    using v by (auto simp: validate_def result_simps validate_circuit_def Let_def keys_dict_set split: option.splits)
  moreover have "budgets pol ?t = Inr ()"
  proof (rule budgets_requests)
    show "map rv_request (live (gs_reservations ?t)) = map rv_request (live (gs_reservations s))"
      using live_requests [of "gs_reservations s" i e ?e] e by (simp add: entry_of_def)
    show "budgets pol s = Inr ()" using v by (simp add: validate_def result_simps)
  qed simp
  moreover have "length (gs_reservations ?t) = length (gs_reservations s)" using e(1) by (simp add: entry_of_def alist_length_update)
  ultimately show ?thesis using v n by (simp add: validate_def result_simps clock_value_def)
qed

lemma canonical_dispatch:
  assumes "canonical_ok (state_json s)" "entry_of s i = Some e"
  shows "canonical_ok (state_json (stamped s (set_entry i (e\<lparr>rv_state := RS_DISPATCHED\<rparr>) s) now))"
proof -
  let ?e = "e\<lparr>rv_state := RS_DISPATCHED\<rparr>"
  have old: "canonical_ok (reservation_json f)" if "(k, f) \<in> set (gs_reservations s)" for k f
    using assms(1) that by (auto simp: state_json_def list_all_iff)
  have "(i, e) \<in> set (gs_reservations s)" using assms(2) by (auto simp: entry_of_def dest: map_of_SomeD)
  moreover have "\<not> machine_path ''DISPATCHED''" by code_simp
  ultimately have "canonical_ok (reservation_json ?e)" using old [of i e] by (auto simp: reservation_json_def request_fields_def)
  with old have "\<forall>(k, f) \<in> set (dict_set i ?e (gs_reservations s)). canonical_ok (reservation_json f)"
    by (auto dest: dict_set_members)
  with assms(1) show ?thesis
    by (auto simp: state_json_def list_all_iff stamped_def opt_int_def split: option.splits)
qed

section \<open>A healthy dispatch succeeds\<close>

text \<open>The call reaches a commit: the runner is open, the principal stays admitted, and after at most nine serialization
  failures an attempt goes through.\<close>

definition commits :: "governor \<Rightarrow> call_env \<Rightarrow> core_capability \<Rightarrow> bool" where
  "commits gv env purpose \<longleftrightarrow>
     \<not> rn_closed (gv_runner gv) \<and> rn_configured (gv_runner gv) \<and> \<not> rn_in_transaction (gv_runner gv)
     \<and> (\<exists>m. 1 \<le> m \<and> m \<le> MAX_ATTEMPTS \<and> (\<forall>i. 1 \<le> i \<longrightarrow> i < m \<longrightarrow> serialization_failure (ce_attempts env i))
          \<and> clean (ce_attempts env m)
          \<and> (\<forall>i. 1 \<le> i \<longrightarrow> i \<le> m \<longrightarrow> stays_admitted (rn_core (gv_runner gv)) (ce_principal env) purpose (ce_attempts env i)))"

lemma run_call_commits:
  assumes "commits gv env purpose" "callback db = Inr (r, db')"
  shows "run_call gv env purpose callback db = (Inr r, db')"
proof -
  from assms(1) obtain m where r: "\<not> rn_closed (gv_runner gv)" "rn_configured (gv_runner gv)" "\<not> rn_in_transaction (gv_runner gv)"
    and m: "1 \<le> m" "m \<le> MAX_ATTEMPTS" "\<And>i. 1 \<le> i \<Longrightarrow> i < m \<Longrightarrow> serialization_failure (ce_attempts env i)"
      "clean (ce_attempts env m)"
      "\<And>i. 1 \<le> i \<Longrightarrow> i \<le> m \<Longrightarrow> stays_admitted (rn_core (gv_runner gv)) (ce_principal env) purpose (ce_attempts env i)"
    unfolding commits_def by blast
  let ?run = "run_from (gv_runner gv) (ce_principal env) purpose callback (ce_attempts env) 1 MAX_ATTEMPTS db"
  have "fst ?run = Inr r \<and> snd (snd ?run) = db'"
    by (rule run_from_absorbs [where m = m]) (use m assms(2) in simp_all)
  then show ?thesis using r by (simp add: run_call_def run_transaction_def case_prod_beta)
qed

lemma loaded_entry:
  assumes "load_state pol db = Inr s" "entry_of s i = Some e"
  shows "validate pol s = Inr ()" "is_identity i"
proof -
  have "gs_version s \<noteq> 0"
  proof
    assume "gs_version s = 0"
    with load_versions(1) [OF assms(1)] have "governor_rows db = []" by simp
    with assms(1) have "initial_state pol = Inr s" by (auto simp: load_state_eq)
    with assms(2) show False by (auto simp: initial_state_def result_simps entry_of_def)
  qed
  then show v: "validate pol s = Inr ()" by (rule load_versions(5) [OF assms(1)])
  have "(i, e) \<in> set (gs_reservations s)" using assms(2) by (auto simp: entry_of_def dest: map_of_SomeD)
  then have "validate_reservation s (i, e) = Inr ()" using v by (simp add: validate_def result_simps)
  then show "is_identity i" by (simp add: validate_reservation_def Let_def result_simps check_request_def)
qed

lemma dispatch_permitted:
  assumes "load_state (gv_policy gv) db = Inr s" "gs_version s < 1023" "keys_distinct (gv_policy gv) (gs_version s + 1)"
    and "audit_room (gv_policy gv) (gs_version s + 1) db" "storable (ce_principal env)"
    and "pr_scope (ce_principal env) = gp_scope (gv_policy gv)"
    and "gov_require gv (ce_principal env) CC_COMMIT (snd (ce_require env)) = Inr ()" "commits gv env CC_COMMIT"
    and "read_now (fst (ce_now env)) = Inr n1" "check_clock (gv_policy gv) s n1 = Inr ()"
    and "read_now (snd (ce_now env)) = Inr n2" "check_clock (gv_policy gv) s n2 = Inr ()" "n2 \<le> MAX_TIMESTAMP"
    and "entry_of s i = Some e" "rv_state e = RS_RESERVED" "rv_epoch e = gs_epoch s" "\<not> gs_kill s"
    and "dict_get (gs_circuits s) (rv_provider_id e) = Some c" "ck_state c = CIRCUIT_CLOSED"
  shows "\<exists>db' s'. governor_call gv env (Dispatch i (gs_epoch s)) db =
      (Inr (RDispatch True (e\<lparr>rv_state := RS_DISPATCHED\<rparr>) False), db')
    \<and> load_state (gv_policy gv) db' = Inr s' \<and> entry_of s' i = Some (e\<lparr>rv_state := RS_DISPATCHED\<rparr>)"
proof -
  let ?pol = "gv_policy gv" and ?e = "e\<lparr>rv_state := RS_DISPATCHED\<rparr>"
  let ?t = "set_entry i ?e s"
  note v = loaded_entry [OF assms(1,14)]
  have b: "budgets ?pol s = Inr ()" "1 \<le> gs_epoch s" "clock_value (gs_last_now s)" using v(1) by (simp_all add: validate_def result_simps)
  then obtain l where l: "gs_last_now s = Some l" "0 \<le> l" by (auto simp: clock_value_def split: option.splits)
  with assms(12) have n2: "max n2 l = n2" "0 \<le> n2" by (simp_all add: result_simps)
  have big: "n2 \<le> 9007199254740992" using assms(13) by (simp add: MAX_TIMESTAMP_def)
  have step: "dispatch_state ?pol s i (gs_epoch s) n1 = Inr ((True, ?e, False), ?t, True)"
    using assms(10,14-19) b by (simp add: dispatch_state_def Let_def result_simps entry_of_def get_entry_def check_epoch_def get_circuit_def)
  have "validate ?pol (stamped s ?t n2) = Inr ()" using validate_dispatch [OF v(1) assms(14,15) n2(2) big] .
  moreover have "canonical_ok (state_json (stamped s ?t n2))" by (rule canonical_dispatch [OF load_canonical [OF assms(1)] assms(14)])
  ultimately obtain db' where w: "write_state ?pol (ce_principal env) CC_COMMIT s ?t n2 None db = Inr db'"
    using write_succeeds [OF assms(1,3,4) _ _ assms(5,6) _ assms(13), of ?t CC_COMMIT] by auto
  have cb: "change_callback ?pol (ce_principal env) CC_COMMIT StepClock (\<lambda>t. dispatch_state ?pol t i (gs_epoch s) n1) n2 db
      = Inr ((True, ?e, False), db')"
    using assms(1,12) step w l n2(1) by (simp add: change_callback_def change_step_def rule_clock_def)
  have "dispatch_commit gv env i (gs_epoch s) db = (Inr (True, ?e, False), db')"
    using v(2) assms(7,9,11) run_call_commits [OF assms(8), of "change_callback ?pol (ce_principal env) CC_COMMIT StepClock
        (\<lambda>t. dispatch_state ?pol t i (gs_epoch s) n1) n2", OF cb]
    by (simp add: dispatch_commit_def guarded_def gov_change_def check_identity_def)
  moreover have "load_state ?pol db' = Inr (stamped s ?t n2)"
    using write_then_load [OF assms(1) w assms(3)] assms(2) by (simp add: transition_fits_def)
  ultimately show ?thesis by (auto simp: as_result_def entry_of_def)
qed

text \<open>Property C18. A healthy dispatch is permitted and stored: on a database that loads and has room, with a principal admitted
  for the commit purpose, sound readings of the clock and an attempt that commits, a reservation of the current epoch
  in the state RESERVED, the kill switch off and the circuit of its provider closed, the call returns the
  permission and the marker is in the snapshot that the next call loads.\<close>

theorem healthy_dispatch_succeeds:
  assumes "load_state (gv_policy gv) db = Inr s" "gs_version s < 1023" "keys_distinct (gv_policy gv) (gs_version s + 1)"
    and "audit_room (gv_policy gv) (gs_version s + 1) db" "storable (ce_principal env)"
    and "pr_scope (ce_principal env) = gp_scope (gv_policy gv)"
    and "gov_require gv (ce_principal env) CC_COMMIT (snd (ce_require env)) = Inr ()" "commits gv env CC_COMMIT"
    and "read_now (fst (ce_now env)) = Inr n1" "check_clock (gv_policy gv) s n1 = Inr ()"
    and "read_now (snd (ce_now env)) = Inr n2" "check_clock (gv_policy gv) s n2 = Inr ()" "n2 \<le> MAX_TIMESTAMP"
    and "entry_of s i = Some e" "rv_state e = RS_RESERVED" "rv_epoch e = gs_epoch s" "\<not> gs_kill s"
    and "dict_get (gs_circuits s) (rv_provider_id e) = Some c" "ck_state c = CIRCUIT_CLOSED"
  shows "\<exists>db' s'. governor_call gv env (Dispatch i (gs_epoch s)) db =
      (Inr (RDispatch True (e\<lparr>rv_state := RS_DISPATCHED\<rparr>) False), db')
    \<and> load_state (gv_policy gv) db' = Inr s' \<and> entry_of s' i = Some (e\<lparr>rv_state := RS_DISPATCHED\<rparr>)"
  using assms by (rule dispatch_permitted)

end
