(* ===== verification/Governor_Scenario.thy ===== *)
theory Governor_Scenario
  imports Governor_Liveness
begin

text \<open>
  A concrete governor with a stored snapshot that holds one reservation, an open circuit of another provider and a
  switch, on which the instances of the theorems are shown. The keys of its first two versions are
  evaluated through SHA-256; every other digest stays symbolic.
\<close>

section \<open>The governor and its principal\<close>

definition gx_scope :: owner_scope where
  "gx_scope = \<lparr>sc_tenant_id = ''t'', sc_owner_id = ''o'', sc_space_id = ''s'', sc_slot_id = ''x''\<rparr>"

definition gx_policy :: governor_policy where
  "gx_policy = \<lparr>gp_scope = gx_scope, gp_deployment_id = ''d'',
     gp_task_limit = \<lparr>gl_money_nano = 100, gl_risk_units = 10\<rparr>,
     gp_owner_provider_limit = \<lparr>gl_money_nano = 100, gl_risk_units = 10\<rparr>,
     gp_global_limit = \<lparr>gl_money_nano = 150, gl_risk_units = 10\<rparr>,
     gp_failure_threshold = 3, gp_cooldown_seconds = 30, gp_recovery_successes = 2, gp_max_clock_step_seconds = 120\<rparr>"

definition gx_core :: core_admission where
  "gx_core = \<lparr>ca_assignment = Some \<lparr>oa_scope = gx_scope, oa_capabilities = [CC_READ, CC_COMMIT, CC_MANAGE], oa_hat_ids = [''hat''],
       oa_model_binding_ids = [''model''], oa_revision = 1, oa_operator_approved = True, oa_hosted_multi_user = False\<rparr>,
     ca_seal_key = [1, 2, 3], ca_session = ''session'', ca_closed = False\<rparr>"

definition gx_unsealed :: core_principal where
  "gx_unsealed = \<lparr>pr_scope = gx_scope, pr_capability = CC_COMMIT, pr_actor = ACT_COMMIT_SERVICE, pr_session = ''session'',
     pr_revision = 1, pr_hat_ids = [''hat''], pr_model_binding_ids = [''model''], pr_issued_at = utc 0,
     pr_expires_at = plus_seconds (utc 0) 300, pr_seal = []\<rparr>"

definition gx_principal :: core_principal where
  "gx_principal = gx_unsealed\<lparr>pr_seal := signature gx_core gx_unsealed\<rparr>"

definition gx_governor :: governor where
  "gx_governor = \<lparr>gv_core = gx_core,
     gv_runner = \<lparr>rn_core = gx_core, rn_configured = True, rn_closed = False, rn_in_transaction = False\<rparr>,
     gv_policy = gx_policy\<rparr>"

text \<open>The first attempt meets a serialization failure at its commit, every later one goes through.\<close>

definition gx_attempts :: "nat \<Rightarrow> attempt" where
  "gx_attempts k = \<lparr>at_first = utc 1000, at_second = utc 2000, at_begin = None, at_io = None,
     at_commit = (if k = 1 then Some (Driver (Some ''40001''), True) else None), at_cleanup = False\<rparr>"

definition gx_env :: call_env where
  "gx_env = \<lparr>ce_principal = gx_principal, ce_require = (utc 500, utc 600), ce_now = (Some 1010, Some (2023 / 2)),
     ce_attempts = gx_attempts, ce_authority = (None, None)\<rparr>"

lemma gx_issued: "issue_step gx_core (OperatorCall CC_COMMIT (utc 0)) = Inr gx_principal"
  by (simp add: local_operator_def issue_principal_def gx_core_def to_utc_def utc_def gx_principal_def gx_unsealed_def
      result_simps plus_seconds_def)

lemma signature_seal [simp]: "signature core (p\<lparr>pr_seal := x\<rparr>) = signature core p"
  by (simp add: signature_def principal_text_def principal_body_def)

lemma gx_principal_fields [simp]:
  "pr_scope gx_principal = gx_scope" "pr_capability gx_principal = CC_COMMIT" "pr_actor gx_principal = ACT_COMMIT_SERVICE"
  "pr_session gx_principal = ''session''" "pr_revision gx_principal = 1" "pr_hat_ids gx_principal = [''hat'']"
  "pr_model_binding_ids gx_principal = [''model'']" "pr_issued_at gx_principal = utc 0"
  "pr_expires_at gx_principal = plus_seconds (utc 0) 300" "pr_seal gx_principal = signature gx_core gx_principal"
  by (simp_all add: gx_principal_def) (simp_all add: gx_unsealed_def)

lemma gx_require:
  assumes "dt_offset now \<noteq> None" "0 \<le> dt_micros now" "dt_micros now < 300000000"
  shows "require gx_core gx_principal CC_COMMIT (Some gx_scope) now = Inr gx_scope"
proof -
  have "within_lifetime gx_principal now" using assms by (simp add: within_lifetime_def utc_def plus_seconds_def)
  moreover obtain a where "ca_assignment gx_core = Some a" "oa_scope a = gx_scope" "oa_revision a = 1" "oa_hat_ids a = [''hat'']"
    "oa_model_binding_ids a = [''model'']" "CC_COMMIT \<in> set (oa_capabilities a)" "\<not> ca_closed gx_core" "ca_session gx_core = ''session''"
    by (simp add: gx_core_def)
  ultimately show ?thesis by (simp add: require_def)
qed

lemma gx_admitted: "stays_admitted gx_core gx_principal CC_COMMIT (gx_attempts k)"
  using gx_require [of "utc 1000"] gx_require [of "utc 2000"]
  by (simp add: stays_admitted_def gx_attempts_def utc_def)

lemma gx_attempts_facts: "serialization_failure (gx_attempts 1)" "clean (gx_attempts 2)"
  by (simp_all add: serialization_failure_def gx_attempts_def transient_def extract_sqlstate_def sqlstate_shape_def ascii_digit_def
      char_between_def clean_def)

lemma gx_commits: "commits gx_governor gx_env CC_COMMIT"
  unfolding commits_def
proof (intro conjI exI [of _ 2] allI impI)
  fix i :: nat
  assume "1 \<le> i" "i < 2"
  then have "i = 1" by simp
  then show "serialization_failure (ce_attempts gx_env i)" using gx_attempts_facts(1) by (simp add: gx_env_def)
qed (use gx_admitted gx_attempts_facts(2) in \<open>simp_all add: gx_env_def gx_governor_def MAX_ATTEMPTS_def\<close>)

section \<open>The stored snapshot\<close>

definition gx_request :: reservation_request where
  "gx_request = \<lparr>rq_request_id = ''q1'', rq_task_id = ''task'', rq_provider_id = ''p1'', rq_model_id = ''model'',
     rq_request_digest = replicate 64 CHR ''a'', rq_money_nano = 60, rq_risk_units = 4\<rparr>"

definition gx_entry :: reservation where
  "gx_entry = \<lparr>rv_request = gx_request, rv_binding_digest = sha256_text (dumps_raw (JObj (request_fields gx_request))), rv_epoch = 1,
     rv_state = RS_RESERVED, rv_evidence_digest = None, rv_no_dispatch_proof = None\<rparr>"

definition gx_open :: circuit where
  "gx_open = \<lparr>ck_state = CIRCUIT_OPEN, ck_failures = 3, ck_successes = 0, ck_opened_at = 1000, ck_probe = None\<rparr>"

definition gx_initial :: gov_state where
  "gx_initial = \<lparr>gs_policy_digest = sha256_text (dumps_raw (policy_json gx_policy)), gs_version = 0, gs_epoch = 0, gs_kill = False,
     gs_last_now = None, gs_reservations = [], gs_circuits = [], gs_money_policy = None\<rparr>"

definition gx_state :: "bool \<Rightarrow> gov_state" where
  "gx_state kill = \<lparr>gs_policy_digest = sha256_text (dumps_raw (policy_json gx_policy)), gs_version = 1, gs_epoch = 1, gs_kill = kill,
     gs_last_now = Some 1000, gs_reservations = [(''q1'', gx_entry)], gs_circuits = [(''p1'', new_circuit), (''p2'', gx_open)],
     gs_money_policy = None\<rparr>"

text \<open>A database whose only row is the first snapshot of the chain.\<close>

definition first_outcome :: "gov_state \<Rightarrow> governor_outcome" where
  "first_outcome s = \<lparr>go_state = s, go_prior_digest = sha256_text (dumps_raw (state_json gx_initial)), go_policy_transition = None\<rparr>"

definition gx_key :: "int \<Rightarrow> string" where
  "gx_key v = sha256_text (dumps_raw (JArr [JStr GOVERNOR_KIND, owner_scope_json gx_scope, JStr ''d'', JInt v]))"

definition first_row :: "gov_state \<Rightarrow> gov_row" where
  "first_row s = \<lparr>op_id = gx_key 1, op_revision = 1, op_kind = GOVERNOR_KIND,
     op_digest = sha256_text (dumps_raw (outcome_json (first_outcome s))), op_outcome = GovernorOutcome (first_outcome s)\<rparr>"

definition first_db :: "gov_state \<Rightarrow> gov_db" where
  "first_db s = \<lparr>db_operations = [first_row s], db_audit = [], db_outbox = []\<rparr>"

definition gx_db :: "bool \<Rightarrow> gov_db" where
  "gx_db kill = first_db (gx_state kill)"

text \<open>The texts of the scenario are no paths.\<close>

lemma gx_texts [simp]:
  "\<not> machine_path ''t''" "\<not> machine_path ''o''" "\<not> machine_path ''s''" "\<not> machine_path ''x''" "\<not> machine_path ''d''"
  "\<not> machine_path ''q1''" "\<not> machine_path ''task''" "\<not> machine_path ''p1''" "\<not> machine_path ''p2''" "\<not> machine_path ''model''"
  "\<not> machine_path ''session''" "\<not> machine_path ''CLOSED''" "\<not> machine_path ''OPEN''" "\<not> machine_path ''RESERVED''"
  by code_simp+

lemma gx_digest [simp]: "sha256_hex_text (replicate 64 CHR ''a'')"
  by code_simp

lemma gx_scope_canonical: "canonical_ok (owner_scope_json gx_scope)"
  by (simp add: owner_scope_json_def gx_scope_def)

lemma gx_keys: "gov_key gx_policy v = Inr (gx_key v)"
  using gx_scope_canonical
  by (simp add: gov_key_def canonical_sha256_def gx_key_def gx_policy_def)

lemma gx_policy_digest: "policy_digest gx_policy = Inr (sha256_text (dumps_raw (policy_json gx_policy)))"
  using gx_scope_canonical by (simp add: policy_digest_def canonical_sha256_def policy_json_def) (simp add: gx_policy_def limits_json_def)

lemma gx_initial_state: "initial_state gx_policy = Inr gx_initial"
  by (simp add: initial_state_def gx_policy_digest gx_initial_def)

lemma gx_initial_canonical: "canonical_ok (state_json gx_initial)"
  by (simp add: state_json_def gx_initial_def opt_int_def)

lemma gx_request_canonical: "list_all (\<lambda>kv. canonical_ok (snd kv)) (request_fields gx_request)"
  by (simp add: request_fields_def gx_request_def)

lemma gx_entry_canonical: "canonical_ok (reservation_json gx_entry)"
  using gx_request_canonical by (simp add: reservation_json_def gx_entry_def opt_str_def)

lemma gx_state_canonical: "canonical_ok (state_json (gx_state kill))"
  using gx_entry_canonical
  by (simp add: state_json_def gx_state_def opt_int_def circuit_json_def new_circuit_def gx_open_def opt_str_def)

lemma gx_identities [simp]: "is_identity ''q1''" "is_identity ''task''" "is_identity ''p1''" "is_identity ''p2''" "is_identity ''model''"
  by code_simp+

lemma gx_valid_entry: "validate_reservation (gx_state kill) (''q1'', gx_entry) = Inr ()"
  using gx_request_canonical
  by (simp add: validate_reservation_def gx_entry_def result_simps check_request_def request_digest_def valid_proof_def)
     (simp add: gx_request_def gx_state_def is_amount_def MAX_AMOUNT_def)

lemma gx_totals: "bucket_total P [gx_entry] = (if P gx_entry then \<lparr>bk_money = 60, bk_risk = 4\<rparr> else \<lparr>bk_money = 0, bk_risk = 0\<rparr>)"
  by (simp add: bucket_total_def gx_entry_def gx_request_def)

lemma gx_budgets: "budgets gx_policy (gx_state kill) = Inr ()"
proof -
  have "live (gs_reservations (gx_state kill)) = [gx_entry]" by (simp add: gx_state_def live_def gx_entry_def)
  moreover have "gs_money_policy (gx_state kill) = None" by (simp add: gx_state_def)
  moreover have "rv_money gx_entry = 60" "rv_risk gx_entry = 4" by (simp_all add: gx_entry_def gx_request_def)
  ultimately show ?thesis
    by (simp add: budgets_within amounts_ok_def within_ceilings_def gx_totals is_amount_def MAX_AMOUNT_def ceiling_ok_def money_ceiling_def
        gx_policy_def)
qed

lemma gx_valid: "validate gx_policy (gx_state kill) = Inr ()"
proof -
  have "validate_circuit (gx_state kill) (''p1'', new_circuit) = Inr ()" "validate_circuit (gx_state kill) (''p2'', gx_open) = Inr ()"
    by (simp_all add: validate_circuit_def result_simps new_circuit_def gx_open_def is_amount_def MAX_AMOUNT_def)
  then show ?thesis
    using gx_valid_entry gx_budgets
    by (simp add: validate_def result_simps) (simp add: gx_state_def MAX_AMOUNT_def clock_value_def)
qed

lemma first_load:
  assumes "validate gx_policy s = Inr ()" "canonical_ok (state_json s)" "gs_version s = 1" "gs_money_policy s = None"
    and "gs_policy_digest s = sha256_text (dumps_raw (policy_json gx_policy))"
  shows "load_state gx_policy (first_db s) = Inr s"
proof -
  have rows: "governor_rows (first_db s) = [first_row s]" by (simp add: governor_rows_def first_db_def first_row_def)
  have oc: "canonical_ok (outcome_json (first_outcome s))" using assms(2) by (simp add: outcome_json_def first_outcome_def)
  have row: "check_row gx_policy (first_row s) = Inr (first_outcome s)"
    using oc gx_keys assms(3-5)
    by (simp add: check_row_def first_row_def gx_policy_digest result_simps) (simp add: first_outcome_def)
  have link: "check_link gx_policy gx_initial [] (first_outcome s) = Inr []"
    using gx_initial_canonical assms
    by (simp add: check_link_def first_outcome_def state_digest_def result_simps) (simp add: gx_initial_def)
  show ?thesis
    by (simp add: load_state_eq rows row gx_initial_state result_simps link) (simp add: first_outcome_def)
qed

lemma gx_load: "load_state gx_policy (gx_db kill) = Inr (gx_state kill)"
  unfolding gx_db_def
  by (rule first_load [OF gx_valid gx_state_canonical]) (simp_all add: gx_state_def)

section \<open>Two keys of the chain\<close>

text \<open>The texts of the two keys differ in one character of their second block.\<close>

definition gx_key_text :: "int \<Rightarrow> string" where
  "gx_key_text v = dumps_raw (JArr [JStr GOVERNOR_KIND, owner_scope_json gx_scope, JStr ''d'', JInt v])"

lemma first_block:
  "sha_block [1528979817, 1868639588, 1969318957, 1735358053, 1919840114, 762720546, 746267247, 2003723634,
      1600742434, 975335202, 740455276, 1869897577, 1679964706, 2015505442, 1936744803, 1700751716] H256
   = [1905649069, 586227046, 3678623204, 2157465160, 468569951, 2458445124, 2222096273, 1741057197]"
  by code_simp

lemma second_block_1:
  "sha_block [574235251, 573317748, 1701732718, 1952409956, 574235252, 578628642, 1679961137, 1568669696, 0, 0, 0, 0, 0, 0, 0, 744]
      [1905649069, 586227046, 3678623204, 2157465160, 468569951, 2458445124, 2222096273, 1741057197]
   = [2860698843, 2660319686, 937168065, 621238792, 3403965700, 146819671, 1785156333, 2771025372]"
  by code_simp

lemma second_block_2:
  "sha_block [574235251, 573317748, 1701732718, 1952409956, 574235252, 578628642, 1679961138, 1568669696, 0, 0, 0, 0, 0, 0, 0, 744]
      [1905649069, 586227046, 3678623204, 2157465160, 468569951, 2458445124, 2222096273, 1741057197]
   = [2760288368, 3303919784, 3542300483, 763984501, 1785020669, 3274302629, 3944249198, 2582125950]"
  by code_simp

lemma key_words:
  "words_of (sha_pad (utf8 (gx_key_text 1))) =
     [1528979817, 1868639588, 1969318957, 1735358053, 1919840114, 762720546, 746267247, 2003723634,
      1600742434, 975335202, 740455276, 1869897577, 1679964706, 2015505442, 1936744803, 1700751716,
      574235251, 573317748, 1701732718, 1952409956, 574235252, 578628642, 1679961137, 1568669696, 0, 0, 0, 0, 0, 0, 0, 744]"
  "words_of (sha_pad (utf8 (gx_key_text 2))) =
     [1528979817, 1868639588, 1969318957, 1735358053, 1919840114, 762720546, 746267247, 2003723634,
      1600742434, 975335202, 740455276, 1869897577, 1679964706, 2015505442, 1936744803, 1700751716,
      574235251, 573317748, 1701732718, 1952409956, 574235252, 578628642, 1679961138, 1568669696, 0, 0, 0, 0, 0, 0, 0, 744]"
  by code_simp+

lemma two_blocks:
  assumes "length a = 16" "length b = 16"
  shows "sha_blocks (a @ b) hs = sha_block b (sha_block a hs)"
  using assms by (simp add: sha_blocks.simps [of "a @ b"] sha_blocks.simps [of b] sha_blocks.simps [of "[]"])

lemma key_digests:
  "sha_blocks (words_of (sha_pad (utf8 (gx_key_text 1)))) H256
   = [2860698843, 2660319686, 937168065, 621238792, 3403965700, 146819671, 1785156333, 2771025372]"
  "sha_blocks (words_of (sha_pad (utf8 (gx_key_text 2)))) H256
   = [2760288368, 3303919784, 3542300483, 763984501, 1785020669, 3274302629, 3944249198, 2582125950]"
  using two_blocks [of "[1528979817, 1868639588, 1969318957, 1735358053, 1919840114, 762720546, 746267247, 2003723634,
      1600742434, 975335202, 740455276, 1869897577, 1679964706, 2015505442, 1936744803, 1700751716]"
      "[574235251, 573317748, 1701732718, 1952409956, 574235252, 578628642, 1679961137, 1568669696, 0, 0, 0, 0, 0, 0, 0, 744]" H256]
    two_blocks [of "[1528979817, 1868639588, 1969318957, 1735358053, 1919840114, 762720546, 746267247, 2003723634,
      1600742434, 975335202, 740455276, 1869897577, 1679964706, 2015505442, 1936744803, 1700751716]"
      "[574235251, 573317748, 1701732718, 1952409956, 574235252, 578628642, 1679961138, 1568669696, 0, 0, 0, 0, 0, 0, 0, 744]" H256]
  unfolding first_block second_block_1 second_block_2 key_words by simp_all

lemma hex_word_differs: "hex_word 2860698843 \<noteq> hex_word 2760288368"
  by code_simp

lemma gx_keys_differ: "gx_key 1 \<noteq> gx_key 2"
proof
  assume "gx_key 1 = gx_key 2"
  then have "take 8 (gx_key 1) = take 8 (gx_key 2)" by simp
  then show False using hex_word_differs
    by (simp add: gx_key_def gx_key_text_def [symmetric] sha256_text_def sha256_hex_def key_digests hex_word_shape)
qed

lemma gx_keys_distinct: "n \<le> 2 \<Longrightarrow> keys_distinct gx_policy n"
proof -
  assume "n \<le> 2"
  have "keys_distinct gx_policy 2" unfolding keys_distinct_def
  proof (rule inj_onI)
    fix v w :: int
    assume "v \<in> {1..2}" "w \<in> {1..2}" "gov_key gx_policy v = gov_key gx_policy w"
    then have "v = 1 \<or> v = 2" "w = 1 \<or> w = 2" "gx_key v = gx_key w" by (auto simp: gx_keys)
    then show "v = w" using gx_keys_differ by auto
  qed
  then show ?thesis using \<open>n \<le> 2\<close> by (rule keys_distinct_mono)
qed

section \<open>The dispatch of the stored reservation\<close>

definition gx_dispatched :: reservation where
  "gx_dispatched = gx_entry\<lparr>rv_state := RS_DISPATCHED\<rparr>"

lemma gx_room: "audit_room gx_policy 2 (gx_db kill)"
  using gx_keys_differ
  by (auto simp: audit_room_def gx_db_def first_db_def first_row_def gx_keys domain_chain_eq verify_audit_chain_def intro!: exI [of _ "[]"])

lemma gx_healthy:
  "load_state (gv_policy gx_governor) (gx_db False) = Inr (gx_state False)" "gs_version (gx_state False) < 1023"
  "keys_distinct (gv_policy gx_governor) (gs_version (gx_state False) + 1)"
  "audit_room (gv_policy gx_governor) (gs_version (gx_state False) + 1) (gx_db False)" "storable (ce_principal gx_env)"
  "pr_scope (ce_principal gx_env) = gp_scope (gv_policy gx_governor)"
  "gov_require gx_governor (ce_principal gx_env) CC_COMMIT (snd (ce_require gx_env)) = Inr ()" "commits gx_governor gx_env CC_COMMIT"
  "read_now (fst (ce_now gx_env)) = Inr 1010" "check_clock (gv_policy gx_governor) (gx_state False) 1010 = Inr ()"
  "read_now (snd (ce_now gx_env)) = Inr 1011" "check_clock (gv_policy gx_governor) (gx_state False) 1011 = Inr ()"
  "(1011 :: int) \<le> MAX_TIMESTAMP"
  "entry_of (gx_state False) ''q1'' = Some gx_entry" "rv_state gx_entry = RS_RESERVED" "rv_epoch gx_entry = gs_epoch (gx_state False)"
  "\<not> gs_kill (gx_state False)" "dict_get (gs_circuits (gx_state False)) (rv_provider_id gx_entry) = Some new_circuit"
  "ck_state new_circuit = CIRCUIT_CLOSED"
proof -
  have pol: "gv_policy gx_governor = gx_policy" by (simp add: gx_governor_def)
  have st: "gs_version (gx_state False) = 1" "gs_last_now (gx_state False) = Some 1000" "gs_epoch (gx_state False) = 1"
    "\<not> gs_kill (gx_state False)" "gs_reservations (gx_state False) = [(''q1'', gx_entry)]"
    "gs_circuits (gx_state False) = [(''p1'', new_circuit), (''p2'', gx_open)]" by (simp_all add: gx_state_def)
  have en: "rv_state gx_entry = RS_RESERVED" "rv_epoch gx_entry = 1" "rv_provider_id gx_entry = ''p1''"
    by (simp_all add: gx_entry_def gx_request_def)
  have env: "ce_principal gx_env = gx_principal" "ce_require gx_env = (utc 500, utc 600)" "ce_now gx_env = (Some 1010, Some (2023 / 2))"
    by (simp_all add: gx_env_def)
  show "load_state (gv_policy gx_governor) (gx_db False) = Inr (gx_state False)" by (simp add: pol gx_load)
  show "gs_version (gx_state False) < 1023" by (simp add: st)
  show "keys_distinct (gv_policy gx_governor) (gs_version (gx_state False) + 1)" by (simp add: pol st gx_keys_distinct)
  show "audit_room (gv_policy gx_governor) (gs_version (gx_state False) + 1) (gx_db False)" using gx_room by (simp add: pol st)
  show "storable (ce_principal gx_env)"
    by (simp add: storable_def env scope_texts_def) (simp add: gx_scope_def not_blank_Cons py_space_def)
  show "pr_scope (ce_principal gx_env) = gp_scope (gv_policy gx_governor)" by (simp add: env pol gx_policy_def)
  show "gov_require gx_governor (ce_principal gx_env) CC_COMMIT (snd (ce_require gx_env)) = Inr ()"
    using gx_require [of "utc 600"] by (simp add: gov_require_def env pol gx_governor_def gx_policy_def utc_def)
  show "commits gx_governor gx_env CC_COMMIT" by (rule gx_commits)
  have half: "\<lfloor>2023 / 2 :: rat\<rfloor> = 1011" by (rule floor_unique) simp_all
  show "read_now (fst (ce_now gx_env)) = Inr 1010" "read_now (snd (ce_now gx_env)) = Inr 1011"
    by (simp_all add: read_now_def env half)
  show "check_clock (gv_policy gx_governor) (gx_state False) 1010 = Inr ()"
    "check_clock (gv_policy gx_governor) (gx_state False) 1011 = Inr ()"
    by (simp_all add: result_simps st pol) (simp_all add: gx_policy_def)
  show "(1011 :: int) \<le> MAX_TIMESTAMP" by (simp add: MAX_TIMESTAMP_def)
  show "entry_of (gx_state False) ''q1'' = Some gx_entry" by (simp add: entry_of_def st)
  show "rv_state gx_entry = RS_RESERVED" "rv_epoch gx_entry = gs_epoch (gx_state False)" "\<not> gs_kill (gx_state False)" by (simp_all add: st en)
  show "dict_get (gs_circuits (gx_state False)) (rv_provider_id gx_entry) = Some new_circuit" by (simp add: st en)
  show "ck_state new_circuit = CIRCUIT_CLOSED" by (simp add: new_circuit_def)
qed

lemma gx_dispatch:
  obtains db' s' where "governor_call gx_governor gx_env (Dispatch ''q1'' 1) (gx_db False) = (Inr (RDispatch True gx_dispatched False), db')"
    "load_state gx_policy db' = Inr s'" "entry_of s' ''q1'' = Some gx_dispatched"
proof -
  have e: "gs_epoch (gx_state False) = 1" "gv_policy gx_governor = gx_policy" by (simp_all add: gx_state_def gx_governor_def)
  from dispatch_permitted [OF gx_healthy] show thesis using that unfolding e gx_dispatched_def by blast
qed

lemma gx_calls:
  obtains db' s' where
    "governor_calls gx_governor [(Dispatch ''q1'' 1, gx_env)] (gx_db False) = ([Inr (RDispatch True gx_dispatched False)], db')"
    "load_state gx_policy db' = Inr s'" "entry_of s' ''q1'' = Some gx_dispatched"
  using gx_dispatch by (metis (no_types, lifting) case_prod_conv governor_calls.simps)

end
