(* ===== verification/Governor_Witnesses.thy ===== *)
theory Governor_Witnesses
  imports Governor_Scenario
begin

text \<open>
  The instances of the theorems on the core admission, the memory kernel and the governor at the concrete scenario.
\<close>

lemma accepted_principal_was_issued_witness:
  "\<exists>q \<in> issued gx_core [OperatorCall CC_COMMIT (utc 0)]. pr_capability q = CC_COMMIT \<and> pr_scope q = gx_scope"
proof -
  have issued: "issued gx_core [OperatorCall CC_COMMIT (utc 0)] = {gx_principal}" using gx_issued by (auto simp: issued_def)
  have req: "require gx_core gx_principal CC_COMMIT (Some gx_scope) (utc 500) = Inr gx_scope"
    by (rule gx_require) (simp_all add: utc_def)
  from accepted_principal_was_issued [OF this, of "[OperatorCall CC_COMMIT (utc 0)]"] show ?thesis
    unfolding issued by auto
qed

text \<open>A counter as the database.\<close>

definition gx_count :: "nat \<Rightarrow> (nat \<times> nat) kernel" where
  "gx_count n = Inr (n, n + 1)"

lemma gx_count_run:
  "run_transaction (gv_runner gx_governor) gx_principal CC_COMMIT gx_count gx_attempts 7 = (Inr 7, [10], 8)"
proof -
  have core: "rn_core (gv_runner gx_governor) = gx_core" by (simp add: gx_governor_def)
  have count: "gx_count 7 = Inr (7, 8)" by (simp add: gx_count_def)
  have a: "attempt_once gx_core gx_principal CC_COMMIT gx_count False (gx_attempts 1) 7 = (Again, 7)"
    using gx_attempts_facts(1) count gx_admitted by (rule attempt_transient)
  have b: "attempt_once gx_core gx_principal CC_COMMIT gx_count False (gx_attempts 2) 7 = (Finished 7, 8)"
    using gx_attempts_facts(2) count gx_admitted by (rule attempt_clean)
  have ten: "MAX_ATTEMPTS = Suc (Suc 8)" "(1 :: nat) \<noteq> MAX_ATTEMPTS" "(2 :: nat) \<noteq> MAX_ATTEMPTS" "backoff 1 = Inr 10"
    by (simp_all add: MAX_ATTEMPTS_def backoff_def)
  have "run_from (gv_runner gx_governor) gx_principal CC_COMMIT gx_count gx_attempts 2 (Suc 8) 7 = (Inr 7, [], 8)"
    unfolding run_from.simps core by (simp add: ten(3) b)
  then have "run_from (gv_runner gx_governor) gx_principal CC_COMMIT gx_count gx_attempts 1 (Suc (Suc 8)) 7 = (Inr 7, [10], 8)"
    unfolding run_from.simps(2) [of _ _ _ _ _ 1] core Suc_1 by (simp add: ten(2,4) a del: One_nat_def run_from.simps)
  then show ?thesis unfolding run_transaction_def ten(1) by (simp add: gx_governor_def)
qed

lemma runner_is_truthful_witness:
  "(\<exists>r pauses n. run_transaction (gv_runner gx_governor) gx_principal CC_COMMIT gx_count gx_attempts 7 = (Inr r, pauses, n)
     \<and> gx_count 7 = Inr (r, n) \<and> pauses = [10])"
  using runner_is_truthful [OF gx_count_run] gx_count_run by simp

lemma transient_failures_are_absorbed_witness:
  "\<exists>pauses. run_transaction (gv_runner gx_governor) gx_principal CC_COMMIT gx_count gx_attempts 7 = (Inr 7, pauses, 8)"
proof (rule transient_failures_are_absorbed [of _ 2])
  show "serialization_failure (gx_attempts i)" if "1 \<le> i" "i < 2" for i
  proof -
    have "i = 1" using that by simp
    then show ?thesis using gx_attempts_facts(1) by simp
  qed
  show "clean (gx_attempts 2)" by (rule gx_attempts_facts(2))
  show "stays_admitted (rn_core (gv_runner gx_governor)) gx_principal CC_COMMIT (gx_attempts i)" if "1 \<le> i" "i \<le> 2" for i
    using gx_admitted by (simp add: gx_governor_def)
qed (simp_all add: gx_governor_def gx_count_def MAX_ATTEMPTS_def)

definition gx_operation :: operation_binding where
  "gx_operation = \<lparr>ob_idempotency_key = ''q1'', ob_operation_kind = ''task'', ob_payload_digest = replicate 64 CHR ''a''\<rparr>"

lemma gx_append:
  obtains db' where "append_domain_event gx_principal CC_COMMIT gx_operation ''q1'' ''p1'' ''task'' (Some ''t'') ''o''
      (replicate 64 CHR ''a'') (utc 5) (empty_db :: nat kernel_db) = Inr db'"
proof -
  have "domain_chain (pr_scope gx_principal) (empty_db :: nat kernel_db) = Inr []"
    by (auto simp: domain_chain_eq empty_db_def verify_audit_chain_def)
  moreover have "storable gx_principal"
    by (simp add: storable_def scope_texts_def) (simp add: gx_scope_def not_blank_Cons py_space_def)
  ultimately have "\<exists>db'. append_domain_event gx_principal CC_COMMIT gx_operation ''q1'' ''p1'' ''task'' (Some ''t'') ''o''
      (replicate 64 CHR ''a'') (utc 5) (empty_db :: nat kernel_db) = Inr db' \<and> db_operations db' = db_operations (empty_db :: nat kernel_db)"
    using not_blank_Cons [of "CHR ''q''" "''1''"] not_blank_Cons [of "CHR ''p''" "''1''"] not_blank_Cons [of "CHR ''t''" "''ask''"]
      gx_digest gx_texts
    by (intro append_succeeds) (simp_all add: empty_db_def gx_operation_def utc_def py_space_def)
  then show thesis using that by blast
qed


section \<open>The governor\<close>

lemma gx_policy_of: "gv_policy gx_governor = gx_policy"
  by (simp add: gx_governor_def)

lemma gx_version: "gs_version (gx_state kill) = 1"
  by (simp add: gx_state_def)


lemma gx_keys_for_one: "keys_distinct (gv_policy gx_governor) (gs_version (gx_state kill) + int (length [x]))"
  by (simp add: gx_policy_of gx_version gx_keys_distinct)

lemma reservations_move_forward_witness:
  "\<exists>rs db' s'. governor_calls gx_governor [(Dispatch ''q1'' 1, gx_env)] (gx_db False) = (rs, db')
    \<and> load_state gx_policy db' = Inr s' \<and> entry_of s' ''q1'' = Some gx_dispatched \<and> keeps (gx_state False) s'"
proof -
  obtain db' s' where c: "governor_calls gx_governor [(Dispatch ''q1'' 1, gx_env)] (gx_db False) = ([Inr (RDispatch True gx_dispatched False)], db')"
    "load_state gx_policy db' = Inr s'" "entry_of s' ''q1'' = Some gx_dispatched" by (rule gx_calls)
  from reservations_move_forward [OF gx_healthy(1) gx_keys_for_one c(1)] c show ?thesis unfolding gx_policy_of by blast
qed

lemma permission_at_most_once_witness:
  "\<exists>rs db'. governor_calls gx_governor [(Dispatch ''q1'' 1, gx_env)] (gx_db False) = (rs, db')
    \<and> rs = [Inr (RDispatch True gx_dispatched False)] \<and> permissions ''q1'' [(Dispatch ''q1'' 1, gx_env)] rs \<le> 1"
proof -
  obtain db' where c: "governor_calls gx_governor [(Dispatch ''q1'' 1, gx_env)] (gx_db False) = ([Inr (RDispatch True gx_dispatched False)], db')"
    by (rule gx_calls)
  from permission_at_most_once [OF gx_healthy(1) gx_keys_for_one c] c show ?thesis by blast
qed

lemma permission_is_guarded_witness:
  "\<exists>db'. governor_call gx_governor gx_env (Dispatch ''q1'' 1) (gx_db False) = (Inr (RDispatch True gx_dispatched False), db')
    \<and> within_ceilings gx_policy (gx_state False) \<and> \<not> gs_kill (gx_state False)
    \<and> gov_require gx_governor gx_principal CC_COMMIT (utc 600) = Inr ()"
proof -
  obtain db' where d: "governor_call gx_governor gx_env (Dispatch ''q1'' 1) (gx_db False) = (Inr (RDispatch True gx_dispatched False), db')"
    by (rule gx_dispatch)
  have env: "ce_principal gx_env = gx_principal" "snd (ce_require gx_env) = utc 600" by (simp_all add: gx_env_def)
  from permission_is_guarded [OF gx_healthy(1-3) d] d show ?thesis unfolding gx_policy_of env by blast
qed

lemma permissions_stay_within_ceilings_witness:
  "\<exists>rs db' s'. governor_calls gx_governor [(Dispatch ''q1'' 1, gx_env)] (gx_db False) = (rs, db')
    \<and> load_state gx_policy db' = Inr s' \<and> permitted rs = [gx_dispatched] \<and> rv_money gx_dispatched = 60
    \<and> within_ceilings gx_policy s'"
proof -
  obtain db' s' where c: "governor_calls gx_governor [(Dispatch ''q1'' 1, gx_env)] (gx_db False) = ([Inr (RDispatch True gx_dispatched False)], db')"
    "load_state gx_policy db' = Inr s'" by (rule gx_calls)
  have d: "dict_ok (gs_reservations (gx_state False))" by (simp add: gx_state_def)
  have p: "permitted [Inr (RDispatch True gx_dispatched False)] = [gx_dispatched]" by (simp add: permitted_def)
  from permissions_stay_within_ceilings [OF gx_healthy(1) gx_keys_for_one d c(1)] c p show ?thesis
    unfolding gx_policy_of by (auto simp: gx_dispatched_def gx_entry_def gx_request_def)
qed

text \<open>With the kill switch on the same call is refused.\<close>

lemma gx_killed:
  obtains rs db' s' where "governor_calls gx_governor [(Dispatch ''q1'' 1, gx_env)] (gx_db True) = (rs, db')"
    "load_state gx_policy db' = Inr s'"
proof -
  obtain rs db' where c: "governor_calls gx_governor [(Dispatch ''q1'' 1, gx_env)] (gx_db True) = (rs, db')" by fastforce
  obtain r where g: "governor_call gx_governor gx_env (Dispatch ''q1'' 1) (gx_db True) = (r, db')" using c by (auto split: prod.splits)
  have l: "load_state (gv_policy gx_governor) (gx_db True) = Inr (gx_state True)" by (simp add: gx_policy_of gx_load)
  have k: "keys_distinct (gv_policy gx_governor) (gs_version (gx_state True) + 1)" by (simp add: gx_policy_of gx_version gx_keys_distinct)
  from governor_call_holds [OF l k, of gx_env "Dispatch ''q1'' 1"] g obtain s' where "load_state gx_policy db' = Inr s'"
    by (auto simp: call_holds_def holds_def gx_version gx_policy_of)
  with c that show thesis by blast
qed

lemma killed_governor_permits_nothing_witness:
  "\<exists>rs db' s'. governor_calls gx_governor [(Dispatch ''q1'' 1, gx_env)] (gx_db True) = (rs, db')
    \<and> load_state gx_policy db' = Inr s' \<and> permitted rs = [] \<and> gs_kill s'"
proof -
  obtain rs db' s' where c: "governor_calls gx_governor [(Dispatch ''q1'' 1, gx_env)] (gx_db True) = (rs, db')"
    "load_state gx_policy db' = Inr s'" by (rule gx_killed)
  have l: "load_state (gv_policy gx_governor) (gx_db True) = Inr (gx_state True)" by (simp add: gx_policy_of gx_load)
  have k: "gs_kill (gx_state True)" by (simp add: gx_state_def)
  have n: "SetKill False \<notin> fst ` set [(Dispatch ''q1'' 1, gx_env)]" by simp
  have "load_state (gv_policy gx_governor) db' = Inr s'" using c(2) by (simp add: gx_policy_of)
  from killed_governor_permits_nothing [OF l gx_keys_for_one k n c(1) this] c show ?thesis by blast
qed

lemma open_circuit_waits_for_cooldown_witness:
  "\<exists>rs db' s' c'. governor_calls gx_governor [(Dispatch ''q1'' 1, gx_env)] (gx_db False) = (rs, db')
    \<and> load_state gx_policy db' = Inr s' \<and> permitted rs = [gx_dispatched]
    \<and> dict_get (gs_circuits s') ''p2'' = Some c' \<and> ck_state c' = CIRCUIT_OPEN"
proof -
  obtain db' s' where c: "governor_calls gx_governor [(Dispatch ''q1'' 1, gx_env)] (gx_db False) = ([Inr (RDispatch True gx_dispatched False)], db')"
    "load_state gx_policy db' = Inr s'" by (rule gx_calls)
  have o': "dict_get (gs_circuits (gx_state False)) ''p2'' = Some gx_open" "ck_state gx_open = CIRCUIT_OPEN"
    by (simp_all add: gx_state_def gx_open_def)
  have n: "\<forall>ce \<in> set [(Dispatch ''q1'' 1, gx_env)]. ck_opened_at gx_open \<le> reading (fst (ce_now (snd ce)))
          \<and> reading (fst (ce_now (snd ce))) < ck_opened_at gx_open + gp_cooldown_seconds (gv_policy gx_governor)"
    using gx_healthy(9) by (simp add: reading_def) (simp add: gx_open_def gx_governor_def gx_policy_def)
  have p: "permitted [Inr (RDispatch True gx_dispatched False)] = [gx_dispatched]" by (simp add: permitted_def)
  from open_circuit_waits_for_cooldown [OF gx_healthy(1) gx_keys_for_one o' n c(1)] c p show ?thesis
    unfolding gx_policy_of by blast
qed

lemma healthy_dispatch_succeeds_witness:
  "\<exists>db' s'. governor_call gx_governor gx_env (Dispatch ''q1'' (gs_epoch (gx_state False))) (gx_db False) =
      (Inr (RDispatch True (gx_entry\<lparr>rv_state := RS_DISPATCHED\<rparr>) False), db')
    \<and> load_state (gv_policy gx_governor) db' = Inr s' \<and> entry_of s' ''q1'' = Some (gx_entry\<lparr>rv_state := RS_DISPATCHED\<rparr>)"
  by (rule healthy_dispatch_succeeds [OF gx_healthy])

end
