(* ===== verification/Job_Ops.thy ===== *)
theory Job_Ops
  imports Governor_Safety
begin

text \<open>
  The offline jobs of \<^verbatim>\<open>mission/jobs.py\<close>: the chain of versions of each task in the operation table, read together
  with its audit events, the write of the next version, and \<^verbatim>\<open>change_job\<close> with its seven actions. An action changes
  the snapshot of the governor and the job in one transaction. Jobs without a completion binding are modelled.
\<close>

section \<open>The stored jobs\<close>

definition job_key :: "governor_policy \<Rightarrow> string \<Rightarrow> int \<Rightarrow> string kernel" where
  "job_key pol task version = canonical_sha256
     (JArr [JStr JOB_KIND, owner_scope_json (gp_scope pol), JStr (gp_deployment_id pol), JStr task, JInt version])"

definition reservation_id :: "governor_policy \<Rightarrow> string \<Rightarrow> string kernel" where
  "reservation_id pol task = ebind (job_key pol task 0) (\<lambda>k. Inr (''job-'' @ k))"

text \<open>The audit event and the outbox record of a stored version.\<close>

definition check_job_audit :: "governor_policy \<Rightarrow> gov_db \<Rightarrow> gov_row \<Rightarrow> job \<Rightarrow> unit kernel" where
  "check_job_audit pol db row j =
     (case (find (\<lambda>r. ar_id r = ''job-'' @ op_id row) (db_audit db), find (\<lambda>r. ox_id r = ''job-outbox-'' @ op_id row) (db_outbox db)) of
        (Some ar, Some ox) \<Rightarrow>
          ebind (decode_audit (gp_scope pol) ar) (\<lambda>(e, h).
          ebind (canonical_sha256 (job_json j)) (\<lambda>content.
          ebind (canonical_sha256 (JObj [(''scope'', scope_binding (gp_scope pol)),
              (''operation'', operation_binding_json \<lparr>ob_idempotency_key = op_id row, ob_operation_kind = JOB_KIND,
                 ob_payload_digest = op_digest row\<rparr>)])) (\<lambda>od.
          deny (av_resource_id e = op_id row \<and> av_event_type e = JOB_KIND
                \<and> map_of (av_content_hashes e) ''content'' = Some content
                \<and> map_of (av_content_hashes e) ''operation'' = Some (op_digest row)
                \<and> ox_state ox \<in> {''PENDING'', ''PUBLISHED''} \<and> ox_event_id ox = ''job-'' @ op_id row
                \<and> ox_event_digest ox = h \<and> ox_operation_digest ox = od) GR_INTEGRITY)))
      | _ \<Rightarrow> Inl (GovernorError GR_INTEGRITY))"

definition check_job_claim :: "job \<Rightarrow> unit kernel" where
  "check_job_claim j =
     (case jb_claim j of
        None \<Rightarrow> deny (jb_state j = JS_QUEUED) GR_INTEGRITY
      | Some c \<Rightarrow> ebind (make_claim c) (\<lambda>_.
          deny (jc_task_id c = jb_task_id j \<and> jc_envelope_digest c = envelope_digest (jb_envelope j)) GR_INTEGRITY))"

definition check_job_row :: "governor_policy \<Rightarrow> gov_db \<Rightarrow> gov_row \<Rightarrow> job_outcome kernel" where
  "check_job_row pol db row =
     (case op_outcome row of
        GovernorOutcome _ \<Rightarrow> Inl (GovernorError GR_INTEGRITY)
      | OtherOutcome _ \<Rightarrow> Inl (GovernorError GR_INTEGRITY)
      | JobOutcome o' \<Rightarrow>
          (let j = jo_job o' in
           ebind (canonical_sha256 (job_outcome_json o')) (\<lambda>d.
           ebind (deny (op_digest row = d) GR_INTEGRITY) (\<lambda>_.
           ebind (parse_envelope (jb_envelope j)) (\<lambda>_.
           ebind (deny (1 \<le> jb_version j \<and> jb_version j \<le> 128 \<and> 0 \<le> jb_last_now j \<and> jb_last_now j \<le> 9007199254740992
                    \<and> je_scope (jb_envelope j) = gp_scope pol) GR_INTEGRITY) (\<lambda>_.
           ebind (job_key pol (jb_task_id j) (jb_version j)) (\<lambda>k.
           ebind (reservation_id pol (jb_task_id j)) (\<lambda>rid.
           ebind (deny (op_id row = k \<and> jb_reservation_id j = rid) GR_INTEGRITY) (\<lambda>_.
           ebind (check_job_claim j) (\<lambda>_.
           ebind (deny ((jb_result_digest j \<noteq> None) = (jb_state j = JS_DONE)) GR_INTEGRITY) (\<lambda>_.
           ebind (case jb_result_digest j of None \<Rightarrow> Inr () | Some h \<Rightarrow> check_digest h) (\<lambda>_.
           ebind (check_job_audit pol db row j) (\<lambda>_. Inr o')))))))))))))"

text \<open>The versions of one task follow each other.\<close>

fun job_replay :: "job option \<Rightarrow> job_outcome list \<Rightarrow> job option kernel" where
  "job_replay current [] = Inr current"
| "job_replay current (o' # os) =
     ebind (deny (jb_version (jo_job o') = (case current of None \<Rightarrow> 1 | Some j \<Rightarrow> jb_version j + 1)) GR_INTEGRITY) (\<lambda>_.
     ebind (canonical_sha256 (job_option_json current)) (\<lambda>d.
     ebind (deny (jo_prior_digest o' = d) GR_INTEGRITY) (\<lambda>_.
     ebind (case current of
              None \<Rightarrow> Inr ()
            | Some j \<Rightarrow>
                ebind (canonical_sha256 (envelope_value (jb_envelope (jo_job o')))) (\<lambda>a.
                ebind (canonical_sha256 (envelope_value (jb_envelope j))) (\<lambda>b.
                deny (a = b \<and> jb_last_now j \<le> jb_last_now (jo_job o')) GR_INTEGRITY))) (\<lambda>_.
     job_replay (Some (jo_job o')) os))))"

definition job_rows :: "gov_db \<Rightarrow> gov_row list" where
  "job_rows db = filter (\<lambda>row. op_kind row = JOB_KIND) (db_operations db)"

definition load_jobs :: "governor_policy \<Rightarrow> gov_db \<Rightarrow> job_outcome list kernel" where
  "load_jobs pol db =
     ebind (domain_chain (gp_scope pol) db) (\<lambda>_.
     ebind (scan_rows op_id (db_operations db)) (\<lambda>rows.
     ebind (deny (length rows < 1024) GR_HISTORY_QUOTA) (\<lambda>_.
     traverse (check_job_row pol db) (filter (\<lambda>row. op_kind row = JOB_KIND) rows))))"

definition load_job :: "governor_policy \<Rightarrow> gov_db \<Rightarrow> string \<Rightarrow> job option kernel" where
  "load_job pol db task =
     ebind (load_jobs pol db) (\<lambda>os.
     job_replay None (sort_key (\<lambda>o'. jb_version (jo_job o')) (filter (\<lambda>o'. jb_task_id (jo_job o') = task) os)))"

section \<open>The write\<close>

definition append_job_event ::
    "core_principal \<Rightarrow> core_capability \<Rightarrow> operation_binding \<Rightarrow> job option \<Rightarrow> job \<Rightarrow> int \<Rightarrow> gov_db \<Rightarrow> gov_db kernel" where
  "append_job_event p purpose binding before j now db =
     ebind (canonical_sha256 (job_json j)) (\<lambda>content.
     ebind (ensure (now \<le> MAX_TIMESTAMP) PyError) (\<lambda>_.
     append_domain_event p purpose binding (''job-'' @ ob_idempotency_key binding)
       (''job-outbox-'' @ ob_idempotency_key binding) (ob_idempotency_key binding)
       (map_option (\<lambda>b. job_state_value (jb_state b)) before) (job_state_value (jb_state j)) content (utc (now * 1000000)) db))"

definition next_job :: "job option \<Rightarrow> job \<Rightarrow> int \<Rightarrow> job" where
  "next_job before j now =
     j\<lparr>jb_version := (case before of None \<Rightarrow> 1 | Some b \<Rightarrow> jb_version b + 1), jb_last_now := now\<rparr>"

definition write_job ::
    "governor_policy \<Rightarrow> core_principal \<Rightarrow> core_capability \<Rightarrow> job option \<Rightarrow> job \<Rightarrow> int \<Rightarrow> gov_db \<Rightarrow> gov_db kernel" where
  "write_job pol p purpose before changed now db =
     ebind (deny (case before of None \<Rightarrow> True | Some b \<Rightarrow> jb_version b < 128) GR_HISTORY_QUOTA) (\<lambda>_.
     let j = next_job before changed now in
     ebind (parse_envelope (jb_envelope j)) (\<lambda>_.
     ebind (canonical_sha256 (job_option_json before)) (\<lambda>prior.
     let o' = \<lparr>jo_job = j, jo_prior_digest = prior\<rparr> in
     ebind (job_key pol (jb_task_id j) (jb_version j)) (\<lambda>k.
     ebind (operation_bind k JOB_KIND (job_outcome_json o')) (\<lambda>binding.
     ebind (execute_once stored_json p purpose binding
        (\<lambda>db. ebind (append_job_event p purpose binding before j now db) (\<lambda>db'. Inr (JobOutcome o', db'))) db)
       (\<lambda>(_, _, db'). Inr db'))))))"

section \<open>The actions\<close>

datatype job_call =
    SubmitJob job_envelope
  | ClaimJob string string int int
  | TakeoverJob string string int int
  | RenewJob job_claim int
  | BeginJob job_claim
  | FinishJob job_claim provider_response
  | InspectJob string

text \<open>A result is the view of a job, the claim, or the permission of \<^verbatim>\<open>begin\<close> with the job.\<close>

datatype job_result = JView "job option" | JClaim job_claim | JBegin bool job

text \<open>An action answers without a change, or gives the snapshot and the job to be written.\<close>

type_synonym job_effect = "job_result + gov_state \<times> job"

definition submit_change ::
    "governor_policy \<Rightarrow> core_principal \<Rightarrow> job_envelope \<Rightarrow> int \<Rightarrow> gov_state \<Rightarrow> job option \<Rightarrow> job_effect kernel" where
  "submit_change pol p e now s job =
     ebind (deny (je_model_id e \<in> set (pr_model_binding_ids p)) GR_MODEL_BINDING) (\<lambda>_.
     case job of
       Some j \<Rightarrow> ebind (deny (jb_envelope j = e) GR_IDEMPOTENCY) (\<lambda>_. Inr (Inl (JView (Some j))))
     | None \<Rightarrow>
         ebind (deny (now < je_deadline_at e) GR_INVALID_REQUEST) (\<lambda>_.
         ebind (reservation_id pol (je_task_id e)) (\<lambda>rid.
         Inr (Inr (s, \<lparr>jb_version = 0, jb_envelope = e, jb_state = JS_QUEUED, jb_claim = None, jb_result_digest = None,
                       jb_reservation_id = rid, jb_last_now = now\<rparr>)))))"

definition job_request :: "job \<Rightarrow> reservation_request" where
  "job_request j =
     (let e = jb_envelope j in
      \<lparr>rq_request_id = jb_reservation_id j, rq_task_id = je_task_id e, rq_provider_id = ''nebius'', rq_model_id = je_model_id e,
       rq_request_digest = envelope_digest e, rq_money_nano = je_money_nano e, rq_risk_units = je_risk_units e\<rparr>)"

text \<open>The reservation of a job and the next claim, common to a claim and a takeover.\<close>

definition reserve_job ::
    "governor_policy \<Rightarrow> core_principal \<Rightarrow> job \<Rightarrow> int \<Rightarrow> int \<Rightarrow> gov_state \<Rightarrow> (reservation \<times> gov_state) kernel" where
  "reserve_job pol p j epoch now s =
     ebind (check_request (job_request j)) (\<lambda>_.
     ebind (deny (je_model_id (jb_envelope j) \<in> set (pr_model_binding_ids p)) GR_MODEL_BINDING) (\<lambda>_.
     ebind (reserve_state pol s (job_request j) epoch now) (\<lambda>(e, s', _). Inr (e, s'))))"

definition claimed_job :: "job \<Rightarrow> string \<Rightarrow> int \<Rightarrow> int \<Rightarrow> int \<Rightarrow> job kernel" where
  "claimed_job j worker epoch lease now =
     (let e = jb_envelope j;
          c = \<lparr>jc_task_id = je_task_id e, jc_envelope_digest = envelope_digest e, jc_worker_id = worker,
               jc_fence = (case jb_claim j of None \<Rightarrow> 1 | Some c \<Rightarrow> jc_fence c + 1), jc_governor_epoch = epoch,
               jc_lease_until = min (now + lease) (je_deadline_at e)\<rparr>
      in ebind (make_claim c) (\<lambda>_.
         Inr (j\<lparr>jb_claim := Some c,
                jb_state := (if jb_state j \<in> {JS_STARTED, JS_UNKNOWN} then JS_UNKNOWN else JS_CLAIMED)\<rparr>)))"

definition claim_guards :: "job \<Rightarrow> gov_state \<Rightarrow> int \<Rightarrow> int \<Rightarrow> unit kernel" where
  "claim_guards j s epoch now =
     ebind (parse_envelope (jb_envelope j)) (\<lambda>_.
     ebind (check_epoch s epoch) (\<lambda>_.
     ebind (deny (\<not> gs_kill s) GR_KILL) (\<lambda>_.
     deny (now < je_deadline_at (jb_envelope j)) GR_INVALID_REQUEST)))"

definition claim_change ::
    "governor_policy \<Rightarrow> core_principal \<Rightarrow> string \<Rightarrow> int \<Rightarrow> int \<Rightarrow> int \<Rightarrow> gov_state \<Rightarrow> job \<Rightarrow> job_effect kernel" where
  "claim_change pol p worker epoch lease now s j =
     ebind (claim_guards j s epoch now) (\<lambda>_.
     if jb_state j = JS_CLAIMED
     then (case jb_claim j of
             None \<Rightarrow> Inl PyError
           | Some c \<Rightarrow>
               ebind (deny (jc_worker_id c = worker \<and> jc_governor_epoch c = epoch \<and> now < jc_lease_until c) GR_STALE_RESERVATION) (\<lambda>_.
               Inr (Inl (JClaim c))))
     else
       ebind (deny (jb_state j = JS_QUEUED) GR_INVALID_REQUEST) (\<lambda>_.
       ebind (reserve_job pol p j epoch now s) (\<lambda>(_, s1).
       ebind (claimed_job j worker epoch lease now) (\<lambda>j'. Inr (Inr (s1, j'))))))"

text \<open>A takeover moves a reservation that was not sent to the new epoch, and marks one that was sent as unknown.\<close>

definition lease_evidence :: "job \<Rightarrow> string kernel" where
  "lease_evidence j = canonical_sha256
     (JArr [JStr ''expired-job-lease'', JStr (envelope_digest (jb_envelope j)),
            (case jb_claim j of None \<Rightarrow> JNull | Some c \<Rightarrow> claim_json c)])"

definition moved_reservation :: "job \<Rightarrow> reservation \<Rightarrow> int \<Rightarrow> gov_state \<Rightarrow> gov_state kernel" where
  "moved_reservation j e epoch s =
     (if jb_state j = JS_CLAIMED \<and> rv_epoch e \<noteq> epoch
      then ebind (deny (rv_state e = RS_RESERVED) GR_STALE_RESERVATION) (\<lambda>_.
           Inr (set_entry (jb_reservation_id j) (e\<lparr>rv_epoch := epoch\<rparr>) s))
      else Inr s)"

definition takeover_change ::
    "governor_policy \<Rightarrow> core_principal \<Rightarrow> string \<Rightarrow> int \<Rightarrow> int \<Rightarrow> int \<Rightarrow> gov_state \<Rightarrow> job \<Rightarrow> job_effect kernel" where
  "takeover_change pol p worker epoch lease now s j =
     ebind (claim_guards j s epoch now) (\<lambda>_.
     ebind (deny (jb_state j \<in> {JS_CLAIMED, JS_STARTED, JS_UNKNOWN}
              \<and> (case jb_claim j of None \<Rightarrow> False | Some c \<Rightarrow> jc_lease_until c \<le> now)) GR_INVALID_REQUEST) (\<lambda>_.
     ebind (reserve_job pol p j epoch now s) (\<lambda>(e, s1).
     ebind (moved_reservation j e epoch s1) (\<lambda>s2.
     ebind (if jb_state j = JS_STARTED \<and> rv_state e = RS_DISPATCHED
            then ebind (lease_evidence j) (\<lambda>evidence.
                 ebind (unknown_state pol s2 (jb_reservation_id j) epoch evidence now) (\<lambda>(_, s3, _). Inr s3))
            else Inr s2) (\<lambda>s3.
     ebind (claimed_job j worker epoch lease now) (\<lambda>j'. Inr (Inr (s3, j'))))))))"

text \<open>The guards of the holder of a claim.\<close>

definition holder_guards :: "job_claim \<Rightarrow> gov_state \<Rightarrow> job \<Rightarrow> unit kernel" where
  "holder_guards c s j =
     ebind (parse_envelope (jb_envelope j)) (\<lambda>_.
     ebind (check_epoch s (jc_governor_epoch c)) (\<lambda>_.
     deny (jb_claim j = Some c) GR_STALE_RESERVATION))"

definition lease_guard :: "job_claim \<Rightarrow> int \<Rightarrow> job \<Rightarrow> unit kernel" where
  "lease_guard c now j = deny (now < jc_lease_until c \<and> now < je_deadline_at (jb_envelope j)) GR_STALE_RESERVATION"

definition renew_change :: "job_claim \<Rightarrow> int \<Rightarrow> int \<Rightarrow> gov_state \<Rightarrow> job \<Rightarrow> job_effect kernel" where
  "renew_change c lease now s j =
     ebind (holder_guards c s j) (\<lambda>_.
     ebind (lease_guard c now j) (\<lambda>_.
     ebind (deny (jb_state j = JS_CLAIMED \<and> \<not> gs_kill s) GR_INVALID_REQUEST) (\<lambda>_.
     let c' = c\<lparr>jc_lease_until := max (jc_lease_until c) (min (now + lease) (je_deadline_at (jb_envelope j)))\<rparr>
     in ebind (make_claim c') (\<lambda>_.
        Inr (if c' = c then Inl (JClaim c) else Inr (s, j\<lparr>jb_claim := Some c'\<rparr>))))))"

definition begin_change :: "governor_policy \<Rightarrow> job_claim \<Rightarrow> int \<Rightarrow> gov_state \<Rightarrow> job \<Rightarrow> job_effect kernel" where
  "begin_change pol c now s j =
     ebind (holder_guards c s j) (\<lambda>_.
     if jb_state j \<in> {JS_STARTED, JS_UNKNOWN, JS_DONE} then Inr (Inl (JBegin False j))
     else
       ebind (lease_guard c now j) (\<lambda>_.
       ebind (deny (jb_state j = JS_CLAIMED) GR_INVALID_REQUEST) (\<lambda>_.
       ebind (dispatch_state pol s (jb_reservation_id j) (jc_governor_epoch c) now) (\<lambda>((send, _, _), s', _).
       ebind (deny send GR_DISPATCH_MARKER) (\<lambda>_. Inr (Inr (s', j\<lparr>jb_state := JS_STARTED\<rparr>)))))))"

definition finish_change :: "governor_policy \<Rightarrow> job_claim \<Rightarrow> provider_response \<Rightarrow> int \<Rightarrow> gov_state \<Rightarrow> job \<Rightarrow> job_effect kernel" where
  "finish_change pol c r now s j =
     ebind (holder_guards c s j) (\<lambda>_.
     if jb_state j = JS_DONE
     then ebind (deny (jb_result_digest j = Some (response_digest r)) GR_IDEMPOTENCY) (\<lambda>_. Inr (Inl (JView (Some j))))
     else
       ebind (lease_guard c now j) (\<lambda>_.
       ebind (deny (jb_state j = JS_STARTED \<and> ps_model_id r = je_model_id (jb_envelope j)
                \<and> ps_request_id r = je_request_id (jb_envelope j)) GR_INVALID_REQUEST) (\<lambda>_.
       ebind (check_payload (jb_envelope j) r) (\<lambda>_.
       ebind (settle_state pol s (jb_reservation_id j) (jc_governor_epoch c) (response_digest r)) (\<lambda>(_, s', _).
       Inr (Inr (s', j\<lparr>jb_state := JS_DONE, jb_result_digest := Some (response_digest r)\<rparr>)))))))"

section \<open>\<^verbatim>\<open>change_job\<close>\<close>

fun job_task :: "job_call \<Rightarrow> string" where
  "job_task (SubmitJob e) = je_task_id e"
| "job_task (ClaimJob task worker epoch lease) = task"
| "job_task (TakeoverJob task worker epoch lease) = task"
| "job_task (RenewJob c lease) = jc_task_id c"
| "job_task (BeginJob c) = jc_task_id c"
| "job_task (FinishJob c r) = jc_task_id c"
| "job_task (InspectJob task) = task"

fun job_purpose :: "job_call \<Rightarrow> core_capability" where
  "job_purpose (SubmitJob e) = CC_MANAGE"
| "job_purpose (TakeoverJob task worker epoch lease) = CC_MANAGE"
| "job_purpose (InspectJob task) = CC_READ"
| "job_purpose _ = CC_COMMIT"

definition check_lease :: "int \<Rightarrow> unit kernel" where
  "check_lease lease = deny (1 \<le> lease \<and> lease \<le> 60) GR_INVALID_REQUEST"

text \<open>The checks of the arguments, after the reading of the clock.\<close>

fun job_arguments :: "governor_policy \<Rightarrow> job_call \<Rightarrow> unit kernel" where
  "job_arguments pol (SubmitJob e) =
     ebind (envelope_dict e) (\<lambda>_. ebind (parse_envelope e) (\<lambda>_.
     ebind (deny (je_scope e = gp_scope pol) GR_INVALID_REQUEST) (\<lambda>_. check_identity (je_task_id e))))"
| "job_arguments pol (ClaimJob task worker epoch lease) =
     ebind (check_identity task) (\<lambda>_. ebind (check_lease lease) (\<lambda>_. check_identity worker))"
| "job_arguments pol (TakeoverJob task worker epoch lease) =
     ebind (check_identity task) (\<lambda>_. ebind (check_lease lease) (\<lambda>_. check_identity worker))"
| "job_arguments pol (RenewJob c lease) =
     ebind (make_claim c) (\<lambda>_. ebind (check_identity (jc_task_id c)) (\<lambda>_. check_lease lease))"
| "job_arguments pol (BeginJob c) = ebind (make_claim c) (\<lambda>_. check_identity (jc_task_id c))"
| "job_arguments pol (FinishJob c r) =
     ebind (make_claim c) (\<lambda>_. ebind (check_identity (jc_task_id c)) (\<lambda>_. check_response r))"
| "job_arguments pol (InspectJob task) = check_identity task"

text \<open>A job is required by every action but the first and the last.\<close>

definition required_job :: "job option \<Rightarrow> (job \<Rightarrow> job_effect kernel) \<Rightarrow> job_effect kernel" where
  "required_job job f = (case job of None \<Rightarrow> Inl (GovernorError GR_REQUIRED) | Some j \<Rightarrow> f j)"

fun job_change :: "governor_policy \<Rightarrow> core_principal \<Rightarrow> int \<Rightarrow> gov_state \<Rightarrow> job option \<Rightarrow> job_call \<Rightarrow> job_effect kernel" where
  "job_change pol p now s job (SubmitJob e) = submit_change pol p e now s job"
| "job_change pol p now s job (ClaimJob task worker epoch lease) = required_job job (claim_change pol p worker epoch lease now s)"
| "job_change pol p now s job (TakeoverJob task worker epoch lease) =
     required_job job (takeover_change pol p worker epoch lease now s)"
| "job_change pol p now s job (RenewJob c lease) = required_job job (renew_change c lease now s)"
| "job_change pol p now s job (BeginJob c) = required_job job (begin_change pol c now s)"
| "job_change pol p now s job (FinishJob c r) = required_job job (finish_change pol c r now s)"
| "job_change pol p now s job (InspectJob task) = Inr (Inl (JView job))"

text \<open>What is returned for the job that was written.\<close>

fun job_answer :: "job_call \<Rightarrow> job \<Rightarrow> job_result" where
  "job_answer (BeginJob c) j = JBegin True j"
| "job_answer (ClaimJob task worker epoch lease) j = (case jb_claim j of None \<Rightarrow> JView (Some j) | Some c \<Rightarrow> JClaim c)"
| "job_answer (TakeoverJob task worker epoch lease) j = (case jb_claim j of None \<Rightarrow> JView (Some j) | Some c \<Rightarrow> JClaim c)"
| "job_answer (RenewJob c lease) j = (case jb_claim j of None \<Rightarrow> JView (Some j) | Some c \<Rightarrow> JClaim c)"
| "job_answer _ j = JView (Some j)"

definition is_inspect :: "job_call \<Rightarrow> bool" where
  "is_inspect c = (case c of InspectJob _ \<Rightarrow> True | _ \<Rightarrow> False)"

definition job_guards :: "governor_policy \<Rightarrow> int \<Rightarrow> gov_state \<Rightarrow> job option \<Rightarrow> job_call \<Rightarrow> unit kernel" where
  "job_guards pol now s job c =
     (if is_inspect c then Inr ()
      else
        ebind (check_clock pol s now) (\<lambda>_.
        ebind (deny (0 < gs_epoch s) GR_STALE_EPOCH) (\<lambda>_.
        case job of None \<Rightarrow> Inr () | Some j \<Rightarrow> deny (jb_last_now j \<le> now) GR_CLOCK_UNSAFE)))"

text \<open>\<^verbatim>\<open>apply\<close>: both are loaded, both are written.\<close>

definition job_callback ::
    "governor_policy \<Rightarrow> core_principal \<Rightarrow> int \<Rightarrow> job_call \<Rightarrow> gov_db \<Rightarrow> (job_result \<times> gov_db) kernel" where
  "job_callback pol p now c db =
     ebind (load_state pol db) (\<lambda>s.
     ebind (load_job pol db (job_task c)) (\<lambda>job.
     ebind (job_guards pol now s job c) (\<lambda>_.
     ebind (job_change pol p now s job c) (\<lambda>out.
     case out of
       Inl r \<Rightarrow> Inr (r, db)
     | Inr (t, j) \<Rightarrow>
         ebind (write_state pol p (job_purpose c) s t now None db) (\<lambda>db1.
         ebind (write_job pol p (job_purpose c) job j now db1) (\<lambda>db2.
         Inr (job_answer c (next_job job j now), db2)))))))"

text \<open>The permission of \<^verbatim>\<open>begin\<close> is withdrawn when the lease ran out while the marker was stored.\<close>

definition confirm_step :: "governor_policy \<Rightarrow> job_call \<Rightarrow> int \<Rightarrow> clock_reading \<Rightarrow> job_result \<Rightarrow> job_result kernel" where
  "confirm_step pol c now later_reading r =
     (case (c, r) of
        (BeginJob claim, JBegin True j) \<Rightarrow>
          ebind (read_now later_reading) (\<lambda>after.
          Inr (JBegin (now \<le> after \<and> after < jc_lease_until claim \<and> after - now \<le> gp_max_clock_step_seconds pol) j))
      | _ \<Rightarrow> Inr r)"

definition change_job :: "governor \<Rightarrow> call_env \<Rightarrow> job_call \<Rightarrow> gov_db \<Rightarrow> job_result kernel \<times> gov_db" where
  "change_job gv env c =
     guarded
       (ebind (gov_require gv (ce_principal env) (job_purpose c) (fst (ce_require env))) (\<lambda>_.
        ebind (if is_inspect c then Inr 0 else read_now (fst (ce_now env))) (\<lambda>now.
        ebind (job_arguments (gv_policy gv) c) (\<lambda>_. Inr now))))
       (\<lambda>now db.
          case run_call gv env (job_purpose c) (job_callback (gv_policy gv) (ce_principal env) now c) db of
            (Inl e, db') \<Rightarrow> (Inl e, db')
          | (Inr r, db') \<Rightarrow> (confirm_step (gv_policy gv) c now (snd (ce_now env)) r, db'))"

end
