(* ===== verification/Job_Refinement.thy ===== *)
theory Job_Refinement
  imports Job_Ops
begin

text \<open>
  The database implements the machine of missions, whose states are a snapshot of the governor and the current job of
  every task: a governor call is a step of the governor that leaves the jobs, a job call is a step on the snapshot
  and one job, and a transaction writes both or neither.
\<close>

section \<open>Rows are only added\<close>

lemma find_appended: "find P xs = Some y \<Longrightarrow> find P (xs @ zs) = Some y"
  by (induction xs) auto

lemma find_fresh: "y \<notin> g ` set xs \<Longrightarrow> find (\<lambda>x. g x = y) xs = None"
  by (auto simp: find_None_iff)

lemma find_new: "y \<notin> g ` set xs \<Longrightarrow> g z = y \<Longrightarrow> find (\<lambda>x. g x = y) (xs @ [z]) = Some z"
  by (induction xs) auto

text \<open>A later database has the audit and outbox rows of an earlier one.\<close>

definition audit_grows :: "gov_db \<Rightarrow> gov_db \<Rightarrow> bool" where
  "audit_grows db db' \<longleftrightarrow> (\<exists>as xs. db_audit db' = db_audit db @ as \<and> db_outbox db' = db_outbox db @ xs)"

lemma check_job_audit_grows:
  "check_job_audit pol db row j = Inr () \<Longrightarrow> audit_grows db db' \<Longrightarrow> check_job_audit pol db' row j = Inr ()"
  by (auto simp: check_job_audit_def audit_grows_def find_appended split: option.splits)

lemma check_job_row_grows:
  assumes "check_job_row pol db row = Inr o'" "audit_grows db db'"
  shows "check_job_row pol db' row = Inr o'"
  using assms check_job_audit_grows [OF _ assms(2), of pol row]
  by (auto simp: check_job_row_def Let_def result_simps split: stored_outcome.splits)

lemma traverse_weaken:
  "traverse f xs = Inr ys \<Longrightarrow> (\<And>x y. x \<in> set xs \<Longrightarrow> f x = Inr y \<Longrightarrow> g x = Inr y) \<Longrightarrow> traverse g xs = Inr ys"
proof (induction xs arbitrary: ys)
  case (Cons x xs)
  from Cons.prems(1) obtain y zs where "f x = Inr y" "traverse f xs = Inr zs" "ys = y # zs" by (auto simp: result_simps)
  with Cons.IH [of zs] Cons.prems(2) show ?case by simp
qed simp

lemma load_jobs_eq:
  "load_jobs pol db = Inr os \<longleftrightarrow>
     (\<exists>events. domain_chain (gp_scope pol) db = Inr events) \<and> distinct (map op_id (db_operations db))
     \<and> length (db_operations db) < 1024 \<and> traverse (check_job_row pol db) (job_rows db) = Inr os"
  by (auto simp: load_jobs_def result_simps job_rows_def SCAN_LIMIT_def)

text \<open>One more operation with its audit: the chain of events stays readable.\<close>

definition added :: "governor_policy \<Rightarrow> gov_db \<Rightarrow> gov_db \<Rightarrow> gov_row \<Rightarrow> bool" where
  "added pol db db' row \<longleftrightarrow>
     db_operations db' = db_operations db @ [row] \<and> op_id row \<notin> op_id ` set (db_operations db)
     \<and> audit_grows db db' \<and> length (db_audit db') = length (db_audit db) + 1
     \<and> (\<exists>events. domain_chain (gp_scope pol) db' = Inr events)"

lemma load_jobs_added:
  assumes "load_jobs pol db = Inr os" "added pol db db' row" "length (db_operations db) < 1023"
  shows "op_kind row \<noteq> JOB_KIND \<Longrightarrow> load_jobs pol db' = Inr os"
    "op_kind row = JOB_KIND \<Longrightarrow> check_job_row pol db' row = Inr o' \<Longrightarrow> load_jobs pol db' = Inr (os @ [o'])"
proof -
  have g: "audit_grows db db'" using assms(2) by (simp add: added_def)
  have old: "traverse (check_job_row pol db') (job_rows db) = Inr os"
    using assms(1) by (auto simp: load_jobs_eq intro: traverse_weaken check_job_row_grows [OF _ g])
  have rows: "job_rows db' = job_rows db @ (if op_kind row = JOB_KIND then [row] else [])"
    using assms(2) by (simp add: job_rows_def added_def)
  show "op_kind row \<noteq> JOB_KIND \<Longrightarrow> load_jobs pol db' = Inr os"
    using assms old by (simp add: load_jobs_eq rows) (auto simp: added_def)
  show "op_kind row = JOB_KIND \<Longrightarrow> check_job_row pol db' row = Inr o' \<Longrightarrow> load_jobs pol db' = Inr (os @ [o'])"
    using assms old by (simp add: load_jobs_eq rows traverse_snoc) (auto simp: added_def)
qed

lemma execute_adds:
  assumes e: "execute_once render p purpose b (\<lambda>db. ebind (g db) (\<lambda>d. Inr (out, d))) db = Inr (x, replayed, db')"
    and fresh: "\<And>row. row \<in> set (db_operations db) \<Longrightarrow> op_kind row = ob_operation_kind b \<Longrightarrow> op_id row \<noteq> ob_idempotency_key b"
    and a: "\<And>d. g db = Inr d \<Longrightarrow> append_domain_event p purpose b eid pid rid before after content stamp db = Inr d"
    and scope: "pr_scope p = gp_scope pol" and len: "length (db_audit db) < 1023"
  shows "added pol db db' \<lparr>op_id = ob_idempotency_key b, op_revision = 1, op_kind = ob_operation_kind b,
      op_digest = ob_payload_digest b, op_outcome = out\<rparr>
    \<and> (\<exists>d. g db = Inr d \<and> db_audit db' = db_audit d \<and> db_outbox db' = db_outbox d)
    \<and> map ar_id (db_audit db') = map ar_id (db_audit db) @ [eid] \<and> map ox_id (db_outbox db') = map ox_id (db_outbox db) @ [pid]"
proof -
  let ?row = "\<lparr>op_id = ob_idempotency_key b, op_revision = 1, op_kind = ob_operation_kind b,
      op_digest = ob_payload_digest b, op_outcome = out\<rparr>"
  have "ob_idempotency_key b \<notin> op_id ` set (db_operations db)
    \<and> RK_OPERATION \<in> set (write_kinds purpose) \<and> db_operations db' = db_operations db @ [?row]"
    by (rule execute_once_shape [OF e fresh]) (auto simp: result_simps dest: a append_keeps_operations)
  moreover obtain d where d: "g db = Inr d" "db_audit db' = db_audit d" "db_outbox db' = db_outbox d"
  proof (cases "get_operation db (ob_idempotency_key b)")
    case None
    then show ?thesis using e that by (auto simp: execute_once_def result_simps)
  next
    case (Some row)
    with get_operation_row [OF Some] fresh [of row] show ?thesis
      using e by (auto simp: execute_once_def result_simps read_operation_def split: if_splits)
  qed
  moreover from append_extends [OF a [OF d(1)] len] obtain events ev h od where
    "domain_chain (pr_scope p) d = Inr (events @ [(ev, h)])"
    "d = db\<lparr>db_audit := db_audit db @ [\<lparr>ar_id = eid, ar_event = ev, ar_hash = h\<rparr>],
             db_outbox := db_outbox db @ [\<lparr>ox_id = pid, ox_state = ''PENDING'', ox_event_id = eid, ox_event_digest = h,
                            ox_operation_digest = od, ox_core_entry_hash = None\<rparr>]\<rparr>" .
  moreover have "domain_chain (gp_scope pol) db' = domain_chain (gp_scope pol) d" using d(2) by (simp add: domain_chain_def)
  ultimately show ?thesis using scope by (auto simp: added_def audit_grows_def)
qed

lemma kinds_differ: "GOVERNOR_KIND \<noteq> JOB_KIND"
  by code_simp

lemma write_state_adds:
  assumes w: "write_state pol p purpose before changed now transition db = Inr db'"
    and fresh: "\<And>k. gov_key pol (gs_version before + 1) = Inr k \<Longrightarrow> k \<notin> op_id ` set (governor_rows db)"
    and s: "pr_scope p = gp_scope pol" "length (db_audit db) < 1023"
  shows "\<exists>row. added pol db db' row \<and> op_kind row = GOVERNOR_KIND \<and> gov_key pol (gs_version before + 1) = Inr (op_id row)
    \<and> map ar_id (db_audit db') = map ar_id (db_audit db) @ [''governor-'' @ op_id row]
    \<and> map ox_id (db_outbox db') = map ox_id (db_outbox db) @ [''governor-outbox-'' @ op_id row]"
proof -
  from w obtain prior k b x replayed where
    v: "gov_key pol (gs_version before + 1) = Inr k"
      "operation_bind k GOVERNOR_KIND (outcome_json (new_outcome (stamped before changed now) prior transition)) = Inr b"
    and e: "execute_once stored_json p purpose b
       (\<lambda>db. ebind (append_governor_event p purpose b before (stamped before changed now) now db)
          (\<lambda>d. Inr (GovernorOutcome (new_outcome (stamped before changed now) prior transition), d))) db = Inr (x, replayed, db')"
    by (auto simp: write_state_def Let_def result_simps stamped_def [symmetric] new_outcome_def [symmetric] split: option.splits)
  note b = operation_bind_eq [OF v(2)]
  have "op_id row \<noteq> ob_idempotency_key b" if "row \<in> set (db_operations db)" "op_kind row = ob_operation_kind b" for row
  proof -
    have "row \<in> set (governor_rows db)" using that b by (simp add: governor_rows_def)
    then have "op_id row \<in> op_id ` set (governor_rows db)" by (rule imageI)
    with fresh [OF v(1)] b show ?thesis by auto
  qed
  moreover have "append_domain_event p purpose b (''governor-'' @ ob_idempotency_key b) (''governor-outbox-'' @ ob_idempotency_key b)
      (ob_idempotency_key b) (Some (py_int_str (gs_version before))) (py_int_str (gs_version (stamped before changed now)))
      (sha256_text (dumps_raw (state_json (stamped before changed now)))) (utc (now * 1000000)) db = Inr d"
    if "append_governor_event p purpose b before (stamped before changed now) now db = Inr d" for d
    using that by (auto simp: append_governor_event_def state_digest_def result_simps)
  ultimately have "added pol db db' \<lparr>op_id = ob_idempotency_key b, op_revision = 1, op_kind = ob_operation_kind b,
      op_digest = ob_payload_digest b, op_outcome = GovernorOutcome (new_outcome (stamped before changed now) prior transition)\<rparr>
    \<and> map ar_id (db_audit db') = map ar_id (db_audit db) @ [''governor-'' @ ob_idempotency_key b]
    \<and> map ox_id (db_outbox db') = map ox_id (db_outbox db) @ [''governor-outbox-'' @ ob_idempotency_key b]"
    using execute_adds [OF e _ _ s] by blast
  with b v(1) show ?thesis by (intro exI conjI) auto
qed

section \<open>The chain of a task\<close>

lemma job_replay_snoc:
  "job_replay current (os @ [o']) = ebind (job_replay current os) (\<lambda>j. job_replay j [o'])"
  by (induction os arbitrary: current) (auto simp: ebind_def split: sum.splits)

lemma job_replay_last:
  "job_replay current os = Inr r \<Longrightarrow> r = (if os = [] then current else Some (jo_job (last os)))"
  by (induction os arbitrary: current) (auto simp: result_simps)

lemma job_replay_version:
  assumes "job_replay current os = Inr r" "o' \<in> set os"
  shows "\<exists>j. r = Some j \<and> jb_version (jo_job o') \<le> jb_version j"
  using assms
proof (induction os arbitrary: current o')
  case (Cons o1 os)
  then have rest: "job_replay (Some (jo_job o1)) os = Inr r" by (auto simp: result_simps)
  show ?case
  proof (cases "o' \<in> set os")
    case True
    with Cons.IH rest show ?thesis by blast
  next
    case False
    then have o1: "o' = o1" using Cons.prems(2) by simp
    show ?thesis
    proof (cases os)
      case Nil
      with rest o1 show ?thesis by auto
    next
      case (Cons o2 os')
      then have "jb_version (jo_job o2) = jb_version (jo_job o1) + 1" using rest by (auto simp: result_simps)
      moreover have "\<exists>j. r = Some j \<and> jb_version (jo_job o2) \<le> jb_version j" using Cons.IH [OF rest, of o2] Cons by simp
      ultimately show ?thesis using o1 by auto
    qed
  qed
qed simp

lemma load_job_eq:
  "load_job pol db task = Inr r \<longleftrightarrow>
     (\<exists>os. load_jobs pol db = Inr os
        \<and> job_replay None (sort_key (\<lambda>o'. jb_version (jo_job o')) (filter (\<lambda>o'. jb_task_id (jo_job o') = task) os)) = Inr r)"
  by (auto simp: load_job_def result_simps)

text \<open>What the check of a row says about its job, apart from its own row.\<close>

definition job_ok :: "governor_policy \<Rightarrow> job \<Rightarrow> bool" where
  "job_ok pol j \<longleftrightarrow>
     je_scope (jb_envelope j) = gp_scope pol \<and> reservation_id pol (jb_task_id j) = Inr (jb_reservation_id j)
     \<and> check_job_claim j = Inr () \<and> (jb_result_digest j \<noteq> None) = (jb_state j = JS_DONE)
     \<and> (case jb_result_digest j of None \<Rightarrow> True | Some h \<Rightarrow> sha256_hex_text h)"

lemma check_job_row_eq:
  "check_job_row pol db row = Inr o' \<longleftrightarrow>
     op_outcome row = JobOutcome o' \<and> canonical_sha256 (job_outcome_json o') = Inr (op_digest row)
     \<and> parse_envelope (jb_envelope (jo_job o')) = Inr () \<and> job_ok pol (jo_job o')
     \<and> 1 \<le> jb_version (jo_job o') \<and> jb_version (jo_job o') \<le> 128
     \<and> 0 \<le> jb_last_now (jo_job o') \<and> jb_last_now (jo_job o') \<le> 9007199254740992
     \<and> job_key pol (jb_task_id (jo_job o')) (jb_version (jo_job o')) = Inr (op_id row)
     \<and> check_job_audit pol db row (jo_job o') = Inr ()"
  by (cases "op_outcome row")
     (auto simp: check_job_row_def Let_def result_simps job_ok_def split: option.splits)

lemma job_rows_facts:
  assumes "load_jobs pol db = Inr os"
  shows "row \<in> set (job_rows db) \<Longrightarrow> \<exists>o' \<in> set os. check_job_row pol db row = Inr o'"
    "o' \<in> set os \<Longrightarrow> \<exists>row \<in> set (job_rows db). check_job_row pol db row = Inr o'"
proof -
  have t: "traverse (check_job_row pol db) (job_rows db) = Inr os" using assms by (simp add: load_jobs_eq)
  note len = traverse_Inr_eq [OF t]
  show "row \<in> set (job_rows db) \<Longrightarrow> \<exists>o' \<in> set os. check_job_row pol db row = Inr o'"
    using len by (metis in_set_conv_nth)
  show "o' \<in> set os \<Longrightarrow> \<exists>row \<in> set (job_rows db). check_job_row pol db row = Inr o'"
    using len by (metis in_set_conv_nth)
qed

text \<open>The current job of a task is the outcome of one of the rows, with the highest version of its task.\<close>

lemma loaded_job:
  assumes "load_job pol db task = Inr (Some j)"
  shows "job_ok pol j" "parse_envelope (jb_envelope j) = Inr ()" "1 \<le> jb_version j" "jb_version j \<le> 128" "jb_task_id j = task"
    "canonical_ok (job_json j)"
proof -
  from assms obtain os where l: "load_jobs pol db = Inr os"
    and r: "job_replay None (sort_key (\<lambda>o'. jb_version (jo_job o')) (filter (\<lambda>o'. jb_task_id (jo_job o') = task) os)) = Inr (Some j)"
    by (auto simp: load_job_eq)
  let ?l = "sort_key (\<lambda>o'. jb_version (jo_job o')) (filter (\<lambda>o'. jb_task_id (jo_job o') = task) os)"
  have "?l \<noteq> []" "j = jo_job (last ?l)" using job_replay_last [OF r] by (auto split: if_splits)
  then have "last ?l \<in> set os" "jb_task_id j = task" using last_in_set [of ?l] by auto
  then obtain row where row: "check_job_row pol db row = Inr (last ?l)" using job_rows_facts(2) [OF l] by blast
  then have "canonical_ok (job_outcome_json (last ?l))" by (simp add: check_job_row_eq canonical_sha256_eq)
  then show "job_ok pol j" "parse_envelope (jb_envelope j) = Inr ()" "1 \<le> jb_version j" "jb_version j \<le> 128" "jb_task_id j = task"
    "canonical_ok (job_json j)"
    using row \<open>j = jo_job (last ?l)\<close> \<open>jb_task_id j = task\<close> by (auto simp: check_job_row_eq job_outcome_json_def)
qed

lemma job_row_versions:
  assumes "\<And>t. load_job pol db t = Inr (js t)" "row \<in> set (job_rows db)"
  shows "\<exists>t j v. js t = Some j \<and> 1 \<le> v \<and> v \<le> jb_version j \<and> job_key pol t v = Inr (op_id row)"
proof -
  obtain os where l: "load_jobs pol db = Inr os" using assms(1) by (auto simp: load_job_eq)
  from job_rows_facts(1) [OF l assms(2)] obtain o' where o': "o' \<in> set os" "check_job_row pol db row = Inr o'" by blast
  let ?t = "jb_task_id (jo_job o')"
  have "job_replay None (sort_key (\<lambda>o'. jb_version (jo_job o')) (filter (\<lambda>o'. jb_task_id (jo_job o') = ?t) os)) = Inr (js ?t)"
    using assms(1) [of ?t] l by (auto simp: load_job_eq)
  from job_replay_version [OF this, of o'] o'(1) obtain j where "js ?t = Some j" "jb_version (jo_job o') \<le> jb_version j" by auto
  with o'(2) show ?thesis by (auto simp: check_job_row_eq)
qed

section \<open>A job is written and read back\<close>

lemma write_job_shape:
  assumes w: "write_job pol p purpose before changed now db = Inr db'"
    and fresh: "\<And>k. job_key pol (jb_task_id changed) (jb_version (next_job before changed now)) = Inr k \<Longrightarrow> k \<notin> op_id ` set (job_rows db)"
    and s: "pr_scope p = gp_scope pol" "length (db_audit db) < 1023"
  shows "\<exists>row o'. added pol db db' row \<and> op_kind row = JOB_KIND \<and> op_outcome row = JobOutcome o' \<and> jo_job o' = next_job before changed now
    \<and> canonical_sha256 (job_option_json before) = Inr (jo_prior_digest o')
    \<and> canonical_sha256 (job_outcome_json o') = Inr (op_digest row)
    \<and> job_key pol (jb_task_id changed) (jb_version (next_job before changed now)) = Inr (op_id row)
    \<and> parse_envelope (jb_envelope changed) = Inr () \<and> (case before of None \<Rightarrow> True | Some b \<Rightarrow> jb_version b < 128)
    \<and> check_job_audit pol db' row (next_job before changed now) = Inr ()
    \<and> map ar_id (db_audit db') = map ar_id (db_audit db) @ [''job-'' @ op_id row]
    \<and> map ox_id (db_outbox db') = map ox_id (db_outbox db) @ [''job-outbox-'' @ op_id row]"
proof -
  let ?j = "next_job before changed now"
  have je: "jb_envelope ?j = jb_envelope changed" by (simp add: next_job_def)
  from w obtain prior k b x replayed where
    v: "canonical_sha256 (job_option_json before) = Inr prior" "job_key pol (jb_task_id changed) (jb_version ?j) = Inr k"
      "operation_bind k JOB_KIND (job_outcome_json \<lparr>jo_job = ?j, jo_prior_digest = prior\<rparr>) = Inr b"
      "parse_envelope (jb_envelope changed) = Inr ()" "case before of None \<Rightarrow> True | Some b \<Rightarrow> jb_version b < 128"
    and e: "execute_once stored_json p purpose b
       (\<lambda>db. ebind (append_job_event p purpose b before ?j now db)
          (\<lambda>d. Inr (JobOutcome \<lparr>jo_job = ?j, jo_prior_digest = prior\<rparr>, d))) db = Inr (x, replayed, db')"
    by (auto simp: write_job_def Let_def result_simps je)
  note b = operation_bind_eq [OF v(3)]
  let ?o = "\<lparr>jo_job = ?j, jo_prior_digest = prior\<rparr>"
  let ?row = "\<lparr>op_id = ob_idempotency_key b, op_revision = 1, op_kind = ob_operation_kind b, op_digest = ob_payload_digest b,
      op_outcome = JobOutcome ?o\<rparr>"
  have new: "op_id row \<noteq> ob_idempotency_key b" if "row \<in> set (db_operations db)" "op_kind row = ob_operation_kind b" for row
  proof -
    have "row \<in> set (job_rows db)" using that b by (simp add: job_rows_def)
    then have "op_id row \<in> op_id ` set (job_rows db)" by (rule imageI)
    with fresh [OF v(2)] b show ?thesis by auto
  qed
  let ?content = "sha256_text (dumps_raw (job_json ?j))"
  have app: "canonical_ok (job_json ?j) \<and>
     append_domain_event p purpose b (''job-'' @ ob_idempotency_key b) (''job-outbox-'' @ ob_idempotency_key b)
      (ob_idempotency_key b) (map_option (\<lambda>b. job_state_value (jb_state b)) before) (job_state_value (jb_state ?j))
      ?content (utc (now * 1000000)) db = Inr d"
    if "append_job_event p purpose b before ?j now db = Inr d" for d
    using that by (auto simp: append_job_event_def result_simps)
  from execute_adds [OF e new conjunct2 [OF app] s] obtain d where
    a: "added pol db db' ?row" and d: "append_job_event p purpose b before ?j now db = Inr d"
      "db_audit db' = db_audit d" "db_outbox db' = db_outbox d"
    and ids: "map ar_id (db_audit db') = map ar_id (db_audit db) @ [''job-'' @ op_id ?row]"
      "map ox_id (db_outbox db') = map ox_id (db_outbox db) @ [''job-outbox-'' @ op_id ?row]" by auto
  from append_extends [OF conjunct2 [OF app [OF d(1)]] s(2)] obtain events ev h od where
    x: "ev = next_event p b events (''job-'' @ ob_idempotency_key b) (ob_idempotency_key b)
          (map_option (\<lambda>b. job_state_value (jb_state b)) before) (job_state_value (jb_state ?j)) ?content (utc (now * 1000000))"
      "make_event ev = Inr (ev, h)" "''job-'' @ ob_idempotency_key b \<notin> set (map ar_id (db_audit db))"
      "''job-outbox-'' @ ob_idempotency_key b \<notin> set (map ox_id (db_outbox db))"
      "d = db\<lparr>db_audit := db_audit db @ [\<lparr>ar_id = ''job-'' @ ob_idempotency_key b, ar_event = ev, ar_hash = h\<rparr>],
             db_outbox := db_outbox db @ [\<lparr>ox_id = ''job-outbox-'' @ ob_idempotency_key b, ox_state = ''PENDING'',
                ox_event_id = ''job-'' @ ob_idempotency_key b, ox_event_digest = h,
                            ox_operation_digest = od, ox_core_entry_hash = None\<rparr>]\<rparr>"
      "canonical_sha256 (JObj [(''scope'', scope_binding (pr_scope p)), (''operation'', operation_binding_json b)]) = Inr od" .
  have "find (\<lambda>r. ar_id r = ''job-'' @ ob_idempotency_key b) (db_audit db') =
      Some \<lparr>ar_id = ''job-'' @ ob_idempotency_key b, ar_event = ev, ar_hash = h\<rparr>"
    using x(3) unfolding d(2) x(5) by (simp add: find_new)
  moreover have "find (\<lambda>r. ox_id r = ''job-outbox-'' @ ob_idempotency_key b) (db_outbox db') =
      Some \<lparr>ox_id = ''job-outbox-'' @ ob_idempotency_key b, ox_state = ''PENDING'',
                ox_event_id = ''job-'' @ ob_idempotency_key b, ox_event_digest = h,
                            ox_operation_digest = od, ox_core_entry_hash = None\<rparr>"
    using x(4) unfolding d(3) x(5) by (simp add: find_new)
  moreover have "decode_audit (gp_scope pol) \<lparr>ar_id = ''job-'' @ ob_idempotency_key b, ar_event = ev, ar_hash = h\<rparr> = Inr (ev, h)"
    using next_event_decodes [OF x(2,1)] s(1) by simp
  moreover have "b = \<lparr>ob_idempotency_key = k, ob_operation_kind = JOB_KIND, ob_payload_digest = ob_payload_digest b\<rparr>"
    using b by (cases b) simp
  then have "canonical_sha256 (JObj [(''scope'', scope_binding (gp_scope pol)), (''operation'',
      operation_binding_json \<lparr>ob_idempotency_key = k, ob_operation_kind = JOB_KIND, ob_payload_digest = ob_payload_digest b\<rparr>)]) = Inr od"
    using x(6) s(1) by simp
  moreover have "canonical_sha256 (job_json ?j) = Inr ?content" using app [OF d(1)] by (simp add: canonical_sha256_def)
  moreover have "av_resource_id ev = ob_idempotency_key b" "av_event_type ev = JOB_KIND"
    "map_of (av_content_hashes ev) ''content'' = Some ?content" "map_of (av_content_hashes ev) ''operation'' = Some (ob_payload_digest b)"
    using b by (simp_all add: x(1) next_event_def)
  ultimately have "check_job_audit pol db' ?row ?j = Inr ()"
    using b by (simp add: check_job_audit_def)
  with a v b ids show ?thesis by (intro exI [of _ ?row] exI [of _ ?o]) auto
qed

lemma job_write_then_load:
  assumes js: "\<And>t. load_job pol db t = Inr (js t)"
    and w: "write_job pol p purpose (js task) changed now db = Inr db'"
    and fresh: "\<And>k. job_key pol task (jb_version (next_job (js task) changed now)) = Inr k \<Longrightarrow> k \<notin> op_id ` set (job_rows db)"
    and s: "pr_scope p = gp_scope pol" "length (db_audit db) < 1023" "length (db_operations db) < 1023"
    and j: "jb_task_id changed = task" "job_ok pol changed" "0 \<le> now" "now \<le> 9007199254740992"
    and link: "case js task of None \<Rightarrow> True | Some b \<Rightarrow> jb_envelope changed = jb_envelope b \<and> jb_last_now b \<le> now"
  shows "load_job pol db' t = Inr ((js(task \<mapsto> next_job (js task) changed now)) t)"
    "\<exists>row. added pol db db' row \<and> op_kind row = JOB_KIND"
proof -
  let ?j = "next_job (js task) changed now"
  from write_job_shape [OF w _ s(1,2)] fresh j(1) obtain row o' where
    a: "added pol db db' row" "op_kind row = JOB_KIND" "op_outcome row = JobOutcome o'" "jo_job o' = ?j"
      "canonical_sha256 (job_option_json (js task)) = Inr (jo_prior_digest o')"
      "canonical_sha256 (job_outcome_json o') = Inr (op_digest row)" "job_key pol task (jb_version ?j) = Inr (op_id row)"
      "parse_envelope (jb_envelope changed) = Inr ()" "case js task of None \<Rightarrow> True | Some b \<Rightarrow> jb_version b < 128"
      "check_job_audit pol db' row ?j = Inr ()" by blast
  show "\<exists>row. added pol db db' row \<and> op_kind row = JOB_KIND" using a(1,2) by blast
  have fields: "jb_envelope ?j = jb_envelope changed" "jb_last_now ?j = now" "job_ok pol ?j"
    "jb_version ?j = (case js task of None \<Rightarrow> 1 | Some b \<Rightarrow> jb_version b + 1)"
    using j(2) by (simp_all add: next_job_def job_ok_def check_job_claim_def cong: option.case_cong)
  have old: "1 \<le> jb_version b \<and> canonical_ok (job_json b)" if "js task = Some b" for b
    using loaded_job(3,6) [of pol db task b] js [of task] that by simp
  have range: "1 \<le> jb_version ?j" "jb_version ?j \<le> 128" using a(9) old by (auto simp: fields(4) split: option.splits)
  have row: "check_job_row pol db' row = Inr o'"
    using a(3-8,10) fields j(1,3,4) range by (simp add: check_job_row_eq)
  obtain os where l: "load_jobs pol db = Inr os" using js [of task] by (auto simp: load_job_eq)
  have l': "load_jobs pol db' = Inr (os @ [o'])" using load_jobs_added(2) [OF l a(1) s(3) a(2) row] .
  let ?of = "\<lambda>t. sort_key (\<lambda>o'. jb_version (jo_job o')) (filter (\<lambda>o'. jb_task_id (jo_job o') = t) os)"
  have rep: "job_replay None (?of t) = Inr (js t)" for t using js [of t] l by (auto simp: load_job_eq)
  have task: "jb_task_id (jo_job o') = task" using a(4) fields(1) j(1) by simp
  show "load_job pol db' t = Inr ((js(task \<mapsto> ?j)) t)"
  proof (cases "t = task")
    case False
    then show ?thesis using l' rep [of t] task by (auto simp: load_job_eq)
  next
    case True
    have "jb_version (jo_job x) \<le> jb_version (jo_job o')" if "x \<in> set (filter (\<lambda>o'. jb_task_id (jo_job o') = task) os)" for x
    proof -
      from that have "x \<in> set (?of task)" by simp
      from job_replay_version [OF rep this] obtain b where "js task = Some b" "jb_version (jo_job x) \<le> jb_version b" by blast
      then show ?thesis using a(4) fields(4) by simp
    qed
    then have sorted: "sort_key (\<lambda>o'. jb_version (jo_job o')) (filter (\<lambda>o'. jb_task_id (jo_job o') = task) os @ [o']) = ?of task @ [o']"
      by (rule sort_key_snoc)
    have env: "canonical_ok (envelope_value (jb_envelope changed))"
      using a(6) a(4) by (auto simp: canonical_sha256_eq job_outcome_json_def job_json_def fields)
    have "job_replay (js task) [o'] = Inr (Some ?j)"
      using a(4,5) fields link env by (auto simp: result_simps split: option.splits)
    then show ?thesis using True l' rep [of task] task sorted by (simp add: load_job_eq job_replay_snoc del: job_replay.simps)
  qed
qed

text \<open>A governor write leaves the jobs.\<close>

lemma write_state_keeps_jobs:
  assumes "\<And>t. load_job pol db t = Inr (js t)" "added pol db db' row" "op_kind row \<noteq> JOB_KIND" "length (db_operations db) < 1023"
  shows "load_job pol db' t = Inr (js t)"
proof -
  obtain os where l: "load_jobs pol db = Inr os" using assms(1) [of t] by (auto simp: load_job_eq)
  from load_jobs_added(1) [OF l assms(2,4,3)] assms(1) [of t] l show ?thesis by (auto simp: load_job_eq)
qed

lemma job_write_keeps_state:
  assumes "added pol db db' row" "op_kind row \<noteq> GOVERNOR_KIND"
  shows "load_state pol db' = load_state pol db"
proof -
  have "governor_rows db' = governor_rows db" using assms by (simp add: governor_rows_def added_def)
  then show ?thesis by (simp add: load_state_def load_outcomes_def)
qed

section \<open>What an action does to a job\<close>

lemma required_job_eq [result_simps]: "required_job job f = Inr out \<longleftrightarrow> (\<exists>j. job = Some j \<and> f j = Inr out)"
  by (auto simp: required_job_def split: option.splits)

lemma reserve_job_eq:
  "reserve_job pol p j epoch now s = Inr (e, t) \<Longrightarrow>
     check_request (job_request j) = Inr () \<and> (\<exists>b. reserve_state pol s (job_request j) epoch now = Inr (e, t, b))"
  by (auto simp: reserve_job_def result_simps)

lemma claimed_job_eq:
  assumes "claimed_job j worker epoch lease now = Inr j'"
  shows "\<exists>c. j' = j\<lparr>jb_claim := Some c, jb_state := (if jb_state j \<in> {JS_STARTED, JS_UNKNOWN} then JS_UNKNOWN else JS_CLAIMED)\<rparr>
    \<and> make_claim c = Inr () \<and> jc_task_id c = jb_task_id j \<and> jc_envelope_digest c = envelope_digest (jb_envelope j)
    \<and> jc_worker_id c = worker \<and> jc_governor_epoch c = epoch
    \<and> jc_fence c = (case jb_claim j of None \<Rightarrow> 1 | Some c \<Rightarrow> jc_fence c + 1)"
  using assms by (auto simp: claimed_job_def Let_def result_simps)

text \<open>The stored effects, action by action: the snapshot and the job before, the effect.\<close>

lemma submit_cases:
  assumes "submit_change pol p e now s job = Inr (Inr (t, j'))"
  obtains rid where "job = None" "t = s" "reservation_id pol (je_task_id e) = Inr rid"
    "j' = \<lparr>jb_version = 0, jb_envelope = e, jb_state = JS_QUEUED, jb_claim = None, jb_result_digest = None,
           jb_reservation_id = rid, jb_last_now = now\<rparr>"
  using assms by (auto simp: submit_change_def result_simps split: option.splits)

lemma claim_cases:
  assumes "claim_change pol p worker epoch lease now s j = Inr (Inr (t, j'))"
  obtains e b where "jb_state j = JS_QUEUED" "reserve_state pol s (job_request j) epoch now = Inr (e, t, b)"
    "claimed_job j worker epoch lease now = Inr j'" "check_request (job_request j) = Inr ()" "epoch = gs_epoch s"
proof -
  from assms have ne: "jb_state j \<noteq> JS_CLAIMED"
    by (auto simp: claim_change_def result_simps split: option.splits)
  with assms have q: "jb_state j = JS_QUEUED" and g: "claim_guards j s epoch now = Inr ()" by (auto simp: claim_change_def result_simps)
  from assms ne obtain e where r: "reserve_job pol p j epoch now s = Inr (e, t)" "claimed_job j worker epoch lease now = Inr j'"
    by (auto simp: claim_change_def result_simps)
  obtain b where "reserve_state pol s (job_request j) epoch now = Inr (e, t, b)" "check_request (job_request j) = Inr ()"
    using reserve_job_eq [OF r(1)] by blast
  moreover have "epoch = gs_epoch s" using g by (simp add: claim_guards_def result_simps)
  ultimately show thesis using that q r(2) by blast
qed

lemma takeover_cases:
  assumes "takeover_change pol p worker epoch lease now s j = Inr (Inr (t, j'))"
  obtains e s1 b s2 where "jb_state j \<in> {JS_CLAIMED, JS_STARTED, JS_UNKNOWN}" "jb_claim j \<noteq> None"
    "reserve_state pol s (job_request j) epoch now = Inr (e, s1, b)" "moved_reservation j e epoch s1 = Inr s2"
    "t = s2 \<or> jb_state j = JS_STARTED \<and> (\<exists>evidence e' b. unknown_state pol s2 (jb_reservation_id j) epoch evidence now = Inr (e', t, b))"
    "claimed_job j worker epoch lease now = Inr j'" "check_request (job_request j) = Inr ()" "epoch = gs_epoch s"
proof -
  from assms have g: "claim_guards j s epoch now = Inr ()" "jb_state j \<in> {JS_CLAIMED, JS_STARTED, JS_UNKNOWN}" "jb_claim j \<noteq> None"
    by (auto simp: takeover_change_def result_simps split: option.splits)
  from assms obtain e s1 s2 where r: "reserve_job pol p j epoch now s = Inr (e, s1)" "moved_reservation j e epoch s1 = Inr s2"
    "claimed_job j worker epoch lease now = Inr j'"
    and u: "(if jb_state j = JS_STARTED \<and> rv_state e = RS_DISPATCHED
            then ebind (lease_evidence j) (\<lambda>evidence.
                 ebind (unknown_state pol s2 (jb_reservation_id j) epoch evidence now) (\<lambda>(_, s3, _). Inr s3))
            else Inr s2) = Inr t"
    by (auto simp: takeover_change_def result_simps)
  have "t = s2 \<or> jb_state j = JS_STARTED \<and> (\<exists>evidence e' b. unknown_state pol s2 (jb_reservation_id j) epoch evidence now = Inr (e', t, b))"
    using u by (auto simp: result_simps split: if_splits)
  moreover obtain b where "reserve_state pol s (job_request j) epoch now = Inr (e, s1, b)" "check_request (job_request j) = Inr ()"
    using reserve_job_eq [OF r(1)] by blast
  moreover have "epoch = gs_epoch s" using g(1) by (simp add: claim_guards_def result_simps)
  ultimately show thesis using that g r by blast
qed

lemma renew_cases:
  assumes "renew_change c lease now s j = Inr (Inr (t, j'))"
  obtains c' until where "t = s" "jb_claim j = Some c" "jb_state j = JS_CLAIMED" "c' = c\<lparr>jc_lease_until := until\<rparr>" "make_claim c' = Inr ()"
    "j' = j\<lparr>jb_claim := Some c'\<rparr>"
  using assms by (auto simp: renew_change_def holder_guards_def result_simps Let_def split: if_splits)

lemma begin_cases:
  assumes "begin_change pol c now s j = Inr (Inr (t, j'))"
  obtains e again b where "jb_claim j = Some c" "jb_state j = JS_CLAIMED" "now < jc_lease_until c"
    "dispatch_state pol s (jb_reservation_id j) (jc_governor_epoch c) now = Inr ((True, e, again), t, b)"
    "j' = j\<lparr>jb_state := JS_STARTED\<rparr>"
  using assms by (auto simp: begin_change_def holder_guards_def lease_guard_def result_simps split: if_splits)

lemma finish_cases:
  assumes "finish_change pol c r now s j = Inr (Inr (t, j'))"
  obtains e b where "jb_claim j = Some c" "jb_state j = JS_STARTED" "now < jc_lease_until c"
    "settle_state pol s (jb_reservation_id j) (jc_governor_epoch c) (response_digest r) = Inr (e, t, b)"
    "j' = j\<lparr>jb_state := JS_DONE, jb_result_digest := Some (response_digest r)\<rparr>"
  using assms by (auto simp: finish_change_def holder_guards_def lease_guard_def result_simps split: if_splits)

lemma claimed_ok:
  assumes "job_ok pol j" "jb_state j \<noteq> JS_DONE" "claimed_job j worker epoch lease now = Inr j'"
  shows "job_ok pol j' \<and> jb_envelope j' = jb_envelope j"
proof -
  from claimed_job_eq [OF assms(3)] obtain c st where "j' = j\<lparr>jb_claim := Some c, jb_state := st\<rparr>" "st \<noteq> JS_DONE"
    "make_claim c = Inr ()" "jc_task_id c = jb_task_id j" "jc_envelope_digest c = envelope_digest (jb_envelope j)"
    by (auto split: if_splits)
  with assms(1,2) show ?thesis by (auto simp: job_ok_def check_job_claim_def result_simps)
qed

lemma job_change_ok:
  assumes "job_change pol p now s job c = Inr (Inr (t, j'))" "job_arguments pol c = Inr ()"
    and "case job of None \<Rightarrow> True | Some j \<Rightarrow> job_ok pol j \<and> jb_task_id j = job_task c"
  shows "job_ok pol j' \<and> jb_task_id j' = job_task c \<and> (case job of None \<Rightarrow> True | Some j \<Rightarrow> jb_envelope j' = jb_envelope j)"
proof (cases c)
  case (SubmitJob e)
  with assms(1) have "submit_change pol p e now s job = Inr (Inr (t, j'))" by simp
  then show ?thesis by (rule submit_cases) (use assms(2) SubmitJob in \<open>auto simp: job_ok_def check_job_claim_def result_simps\<close>)
next
  case (ClaimJob task worker epoch lease)
  with assms obtain j where j: "job = Some j" "claim_change pol p worker epoch lease now s j = Inr (Inr (t, j'))" by (auto simp: result_simps)
  from j(2) have "jb_state j = JS_QUEUED" "claimed_job j worker epoch lease now = Inr j'" by (auto elim: claim_cases)
  with j(1) assms(3) claimed_ok [of pol j] show ?thesis by auto
next
  case (TakeoverJob task worker epoch lease)
  with assms obtain j where j: "job = Some j" "takeover_change pol p worker epoch lease now s j = Inr (Inr (t, j'))" by (auto simp: result_simps)
  from j(2) have "jb_state j \<noteq> JS_DONE" "claimed_job j worker epoch lease now = Inr j'" by (auto elim: takeover_cases)
  with j(1) assms(3) claimed_ok [of pol j] show ?thesis by auto
next
  case (RenewJob k lease)
  with assms obtain j where j: "job = Some j" "renew_change k lease now s j = Inr (Inr (t, j'))" by (auto simp: result_simps)
  from j(2) show ?thesis
    by (rule renew_cases) (use j(1) assms(3) in \<open>auto simp: job_ok_def check_job_claim_def result_simps\<close>)
next
  case (BeginJob k)
  with assms obtain j where j: "job = Some j" "begin_change pol k now s j = Inr (Inr (t, j'))" by (auto simp: result_simps)
  from j(2) show ?thesis
    by (rule begin_cases) (use j(1) assms(3) in \<open>auto simp: job_ok_def check_job_claim_def result_simps\<close>)
next
  case (FinishJob k r)
  with assms obtain j where j: "job = Some j" "finish_change pol k r now s j = Inr (Inr (t, j'))" by (auto simp: result_simps)
  from j(2) show ?thesis
    by (rule finish_cases) (use j(1) assms(3) in \<open>auto simp: job_ok_def check_job_claim_def result_simps response_digest_def\<close>)
qed (use assms(1) in simp)

text \<open>The snapshot that an action gives has the fields that only a write or a money policy sets.\<close>

definition tame_state :: "gov_state \<Rightarrow> gov_state \<Rightarrow> bool" where
  "tame_state s t \<longleftrightarrow>
     gs_policy_digest t = gs_policy_digest s \<and> gs_money_policy t = gs_money_policy s
     \<and> gs_version t = gs_version s \<and> gs_last_now t = gs_last_now s"

lemma tame_changes:
  "reserve_state pol s q epoch now = Inr (r, t, b) \<Longrightarrow> tame_state s t"
  "dispatch_state pol s i epoch now = Inr (d, t, b) \<Longrightarrow> tame_state s t"
  "unknown_state pol s i epoch evidence now = Inr (r, t, b) \<Longrightarrow> tame_state s t"
  "settle_state pol s i epoch evidence = Inr (r, t, b) \<Longrightarrow> tame_state s t"
  using changes_tame unfolding tame_def tame_state_def by metis+

lemma tame_state_refl [simp]: "tame_state s s"
  by (simp add: tame_state_def)

lemma tame_state_trans: "tame_state s t \<Longrightarrow> tame_state t u \<Longrightarrow> tame_state s u"
  by (simp add: tame_state_def)

lemma moved_tame: "moved_reservation j e epoch s = Inr t \<Longrightarrow> tame_state s t"
  by (auto simp: moved_reservation_def tame_state_def result_simps split: if_splits)

lemma takeover_tame: "takeover_change pol p worker epoch lease now s j = Inr (Inr (t, j')) \<Longrightarrow> tame_state s t"
proof (erule takeover_cases)
  fix e s1 b s2
  assume r: "reserve_state pol s (job_request j) epoch now = Inr (e, s1, b)" "moved_reservation j e epoch s1 = Inr s2"
    and u: "t = s2 \<or> jb_state j = JS_STARTED \<and> (\<exists>evidence e' b. unknown_state pol s2 (jb_reservation_id j) epoch evidence now = Inr (e', t, b))"
  have "tame_state s s2" using tame_state_trans [OF tame_changes(1) [OF r(1)] moved_tame [OF r(2)]] .
  moreover have "tame_state s2 t" using u by (auto dest: tame_changes)
  ultimately show "tame_state s t" by (rule tame_state_trans)
qed

lemma job_change_tame:
  assumes "job_change pol p now s job c = Inr (Inr (t, j'))"
  shows "tame_state s t"
  using assms
  by (cases c) (auto simp: result_simps elim!: submit_cases claim_cases renew_cases begin_cases finish_cases
      intro: tame_changes takeover_tame)

section \<open>The machine of missions\<close>

datatype mission_call = GovernorCall gov_call | JobCall job_call

datatype mission_result = GovernorResult gov_result | JobResult job_result

fun mission_task :: "mission_call \<Rightarrow> string option" where
  "mission_task (GovernorCall c) = None"
| "mission_task (JobCall c) = Some (job_task c)"

definition mission_do :: "governor \<Rightarrow> call_env \<Rightarrow> mission_call \<Rightarrow> gov_db \<Rightarrow> mission_result kernel \<times> gov_db" where
  "mission_do gv env c db =
     (case c of
        GovernorCall c \<Rightarrow> (case governor_call gv env c db of (r, db') \<Rightarrow> (ebind r (\<lambda>x. Inr (GovernorResult x)), db'))
      | JobCall c \<Rightarrow> (case change_job gv env c db of (r, db') \<Rightarrow> (ebind r (\<lambda>x. Inr (JobResult x)), db')))"

text \<open>A state: the snapshot and the current jobs.\<close>

type_synonym mission_state = "gov_state \<times> (string \<Rightarrow> job option)"

inductive mission_step :: "governor_policy \<Rightarrow> mission_state \<Rightarrow> mission_call \<Rightarrow> mission_result \<Rightarrow> mission_state \<Rightarrow> bool" for pol where
  governor_step: "gov_step pol n1 n2 s c r s' \<Longrightarrow> mission_step pol (s, js) (GovernorCall c) (GovernorResult r) (s', js)"
| job_kept: "job_guards pol now s (js (job_task c)) c = Inr () \<Longrightarrow> job_change pol p now s (js (job_task c)) c = Inr (Inl r)
    \<Longrightarrow> mission_step pol (s, js) (JobCall c) (JobResult r) (s, js)"
| job_stored: "job_guards pol now s (js (job_task c)) c = Inr () \<Longrightarrow> job_change pol p now s (js (job_task c)) c = Inr (Inr (t, j))
    \<Longrightarrow> job_arguments pol c = Inr () \<Longrightarrow> validate pol (stamped s t now) = Inr () \<Longrightarrow> j' = next_job (js (job_task c)) j now
    \<Longrightarrow> mission_step pol (s, js) (JobCall c) (JobResult (job_answer c j')) (stamped s t now, js(job_task c \<mapsto> j'))"

text \<open>The result that is returned: the permission of \<^verbatim>\<open>begin\<close> may be withdrawn.\<close>

definition confirmed :: "mission_result \<Rightarrow> mission_result \<Rightarrow> bool" where
  "confirmed y x \<longleftrightarrow> x = y \<or> (\<exists>b j. y = JobResult (JBegin True j) \<and> x = JobResult (JBegin b j))"

section \<open>The database implements the machine\<close>

text \<open>Room for a number of calls: rows, events, and keys that do not collide among the tasks of a set.\<close>

definition mission_ready :: "governor_policy \<Rightarrow> string set \<Rightarrow> nat \<Rightarrow> gov_db \<Rightarrow> mission_state \<Rightarrow> bool" where
  "mission_ready pol T k db st \<longleftrightarrow>
     load_state pol db = Inr (fst st) \<and> (\<forall>t. load_job pol db t = Inr (snd st t))
     \<and> length (db_operations db) + 2 * k < 1024 \<and> length (db_audit db) + 2 * k < 1024
     \<and> keys_distinct pol (gs_version (fst st) + int k)
     \<and> (\<exists>n. inj_on (\<lambda>(t, v). job_key pol t v) (T \<times> {1..n}) \<and> int k \<le> n
          \<and> (\<forall>t j. snd st t = Some j \<longrightarrow> t \<in> T \<and> jb_version j + int k \<le> n))"

lemma mission_ready_mono: "mission_ready pol T k db st \<Longrightarrow> m \<le> k \<Longrightarrow> mission_ready pol T m db st"
proof -
  assume r: "mission_ready pol T k db st" "m \<le> k"
  then obtain n where n: "inj_on (\<lambda>(t, v). job_key pol t v) (T \<times> {1..n})" "int k \<le> n"
    "\<forall>t j. snd st t = Some j \<longrightarrow> t \<in> T \<and> jb_version j + int k \<le> n" unfolding mission_ready_def by blast
  have "\<exists>n. inj_on (\<lambda>(t, v). job_key pol t v) (T \<times> {1..n}) \<and> int m \<le> n
          \<and> (\<forall>t j. snd st t = Some j \<longrightarrow> t \<in> T \<and> jb_version j + int m \<le> n)"
    using n r(2) by (intro exI [of _ n]) fastforce
  moreover have "keys_distinct pol (gs_version (fst st) + int m)"
    using r by (auto simp: mission_ready_def intro: keys_distinct_mono)
  ultimately show ?thesis using r by (auto simp: mission_ready_def)
qed

lemma governor_rows_few: "load_state pol db = Inr s \<Longrightarrow> gs_version s \<le> int (length (db_operations db))"
  using load_versions(1) [of pol db s] by (simp add: governor_rows_def)

text \<open>One governor write.\<close>

lemma ready_after_state:
  assumes "mission_ready pol T (Suc k) db (s, js)" "added pol db db' row" "op_kind row = GOVERNOR_KIND"
    and "load_state pol db' = Inr s'" "gs_version s' = gs_version s + 1"
  shows "mission_ready pol T k db' (s', js)"
proof -
  have r: "length (db_operations db) + 2 * Suc k < 1024" "length (db_audit db) + 2 * Suc k < 1024" "\<And>t. load_job pol db t = Inr (js t)"
    "keys_distinct pol (gs_version s + int (Suc k))" using assms(1) by (simp_all add: mission_ready_def)
  have "load_job pol db' t = Inr (js t)" for t
    by (rule write_state_keeps_jobs [OF r(3) assms(2)]) (use assms(3) kinds_differ r(1) in auto)
  moreover have "length (db_operations db') = length (db_operations db) + 1" "length (db_audit db') = length (db_audit db) + 1"
    using assms(2) by (simp_all add: added_def)
  moreover have "mission_ready pol T k db (s, js)" using assms(1) by (rule mission_ready_mono) simp
  then have "\<exists>n. inj_on (\<lambda>(t, v). job_key pol t v) (T \<times> {1..n}) \<and> int k \<le> n
          \<and> (\<forall>t j. js t = Some j \<longrightarrow> t \<in> T \<and> jb_version j + int k \<le> n)" by (simp add: mission_ready_def)
  moreover have "keys_distinct pol (gs_version s' + int k)" using r(4) assms(5) by (simp add: algebra_simps)
  ultimately show ?thesis using assms(4) r(1,2) by (simp add: mission_ready_def)
qed

text \<open>A governor write and then a job write.\<close>

lemma ready_job_key_fresh:
  assumes "mission_ready pol T (Suc k) db (s, js)" "task \<in> T" "\<And>t. load_job pol db' t = Inr (js t)"
    and "job_key pol task (jb_version (next_job (js task) j now)) = Inr key"
  shows "key \<notin> op_id ` set (job_rows db')"
proof
  assume "key \<in> op_id ` set (job_rows db')"
  then obtain row where "row \<in> set (job_rows db')" "key = op_id row" by blast
  with job_row_versions [OF assms(3)] obtain t b v where
    v: "js t = Some b" "1 \<le> v" "v \<le> jb_version b" "job_key pol t v = Inr key" by blast
  from assms(1) obtain n where n: "inj_on (\<lambda>(t, v). job_key pol t v) (T \<times> {1..n})" "int (Suc k) \<le> n"
    "\<forall>t j. js t = Some j \<longrightarrow> t \<in> T \<and> jb_version j + int (Suc k) \<le> n" by (auto simp: mission_ready_def)
  let ?w = "jb_version (next_job (js task) j now)"
  have w: "?w = (case js task of None \<Rightarrow> 1 | Some b \<Rightarrow> jb_version b + 1)" by (simp add: next_job_def cong: option.case_cong)
  have old: "1 \<le> jb_version b'" if "js task = Some b'" for b'
    using loaded_job(3) [of pol db' task b'] assms(3) [of task] that by simp
  have "(t, v) \<in> T \<times> {1..n}" using v n(3) by fastforce
  moreover have "(task, ?w) \<in> T \<times> {1..n}" using assms(2) n(2,3) old by (fastforce simp: w split: option.splits)
  moreover have "(\<lambda>(t, v). job_key pol t v) (t, v) = (\<lambda>(t, v). job_key pol t v) (task, ?w)" using v(4) assms(4) by simp
  ultimately have "(t, v) = (task, ?w)" by (rule inj_onD [OF n(1), rotated 1])
  then show False using v by (auto simp: w)
qed

lemma ready_after_both:
  assumes r: "mission_ready pol T (Suc k) db (s, js)" and a: "added pol db db1 row" "op_kind row = GOVERNOR_KIND"
    and l: "load_state pol db1 = Inr s'" "gs_version s' = gs_version s + 1"
    and w: "write_job pol p purpose (js task) j now db1 = Inr db2" and task: "task \<in> T" "jb_task_id j = task"
    and ok: "job_ok pol j" "pr_scope p = gp_scope pol" "0 \<le> now" "now \<le> 9007199254740992"
      "case js task of None \<Rightarrow> True | Some b \<Rightarrow> jb_envelope j = jb_envelope b \<and> jb_last_now b \<le> now"
  shows "mission_ready pol T k db2 (s', js(task \<mapsto> next_job (js task) j now))"
proof -
  let ?j = "next_job (js task) j now"
  have "mission_ready pol T k db1 (s', js)" by (rule ready_after_state [OF r a l])
  then have js: "load_job pol db1 t = Inr (js t)" and kd: "keys_distinct pol (gs_version s' + int k)" for t
    by (simp_all add: mission_ready_def)
  have lens: "length (db_audit db) + 2 * Suc k < 1024" "length (db_operations db) + 2 * Suc k < 1024"
    "length (db_audit db1) = length (db_audit db) + 1" "length (db_operations db1) = length (db_operations db) + 1"
    using r a(1) by (simp_all add: mission_ready_def added_def)
  have few: "length (db_audit db1) < 1023" "length (db_operations db1) < 1023" using lens by simp_all
  note fresh = ready_job_key_fresh [OF r task(1) js, of j now]
  note both = job_write_then_load [OF js w fresh ok(2) few task(2) ok(1,3,4,5)]
  from both(2) obtain row2 where row2: "added pol db1 db2 row2" "op_kind row2 = JOB_KIND" by blast
  have "load_state pol db2 = Inr s'" using job_write_keeps_state [OF row2(1)] row2(2) kinds_differ l(1) by simp
  moreover have "length (db_operations db2) + 2 * k < 1024" "length (db_audit db2) + 2 * k < 1024"
    using lens row2(1) by (simp_all add: added_def)
  moreover from r obtain n where n: "inj_on (\<lambda>(t, v). job_key pol t v) (T \<times> {1..n})" "int (Suc k) \<le> n"
    "\<forall>t j. js t = Some j \<longrightarrow> t \<in> T \<and> jb_version j + int (Suc k) \<le> n" by (auto simp: mission_ready_def)
  have "\<exists>n. inj_on (\<lambda>(t, v). job_key pol t v) (T \<times> {1..n}) \<and> int k \<le> n
          \<and> (\<forall>t b. (js(task \<mapsto> ?j)) t = Some b \<longrightarrow> t \<in> T \<and> jb_version b + int k \<le> n)"
  proof (intro exI [of _ n] conjI allI impI)
    fix t b
    assume "(js(task \<mapsto> ?j)) t = Some b"
    then show "t \<in> T" "jb_version b + int k \<le> n"
      using n task(1) by (fastforce simp: next_job_def split: if_splits option.splits)+
  qed (use n in simp_all)
  ultimately show ?thesis using both(1) kd by (simp add: mission_ready_def)
qed

lemma read_now_range: "read_now v = Inr n \<Longrightarrow> 0 \<le> n \<and> n \<le> 9007199254740992"
proof -
  assume "read_now v = Inr n"
  then obtain x :: rat where x: "0 \<le> x" "x \<le> 9007199254740992" "n = \<lfloor>x\<rfloor>" by (auto simp: read_now_def result_simps split: option.splits)
  then have "\<lfloor>x\<rfloor> \<le> \<lfloor>9007199254740992 :: rat\<rfloor>" by (intro floor_mono)
  with x show ?thesis by simp
qed

lemma gov_require_scope: "gov_require gv p purpose now = Inr u \<Longrightarrow> pr_scope p = gp_scope (gv_policy gv)"
  by (auto simp: gov_require_def require_def result_simps split: option.splits if_splits)

lemma job_callback_sound:
  assumes r: "mission_ready pol T (Suc k) db (s, js)" and c: "job_task c \<in> T" "job_arguments pol c = Inr ()"
    and p: "pr_scope p = gp_scope pol" "0 \<le> now" "now \<le> 9007199254740992"
    and cb: "job_callback pol p now c db = Inr (x, db')"
  shows "\<exists>st'. mission_ready pol T k db' st' \<and> mission_step pol (s, js) (JobCall c) (JobResult x) st'"
proof -
  let ?job = "js (job_task c)"
  have l: "load_state pol db = Inr s" "load_job pol db (job_task c) = Inr ?job" using r by (simp_all add: mission_ready_def)
  from cb l obtain out where g: "job_guards pol now s ?job c = Inr ()" and ch: "job_change pol p now s ?job c = Inr out"
    and out: "(case out of Inl r \<Rightarrow> Inr (r, db)
     | Inr (t, j) \<Rightarrow>
         ebind (write_state pol p (job_purpose c) s t now None db) (\<lambda>db1.
         ebind (write_job pol p (job_purpose c) ?job j now db1) (\<lambda>db2.
         Inr (job_answer c (next_job ?job j now), db2)))) = Inr (x, db')"
    by (auto simp: job_callback_def result_simps)
  show ?thesis
  proof (cases out)
    case (Inl y)
    then have "mission_step pol (s, js) (JobCall c) (JobResult x) (s, js)" "db' = db"
      using out g ch job_kept [of pol now s js c p y] by auto
    with mission_ready_mono [OF r, of k] show ?thesis by auto
  next
    case (Inr tj)
    obtain t j where tj: "tj = (t, j)" by fastforce
    from out Inr tj obtain db1 where w: "write_state pol p (job_purpose c) s t now None db = Inr db1"
      "write_job pol p (job_purpose c) ?job j now db1 = Inr db'" "x = job_answer c (next_job ?job j now)"
      by (auto simp: result_simps)
    have ch: "job_change pol p now s ?job c = Inr (Inr (t, j))" using ch Inr tj by simp
    have tame: "tame_state s t" using job_change_tame [OF ch] .
    have keys: "keys_distinct pol (gs_version s + 1)" using r by (auto simp: mission_ready_def intro: keys_distinct_mono)
    have few: "length (db_operations db) < 1022" "length (db_audit db) < 1022" using r by (auto simp: mission_ready_def)
    have fits: "transition_fits s t db None" "gs_policy_digest t = gs_policy_digest s"
      using tame by (simp_all add: transition_fits_def tame_state_def)
    have "gs_version s < 1023" using governor_rows_few [OF l(1)] few(1) by simp
    then have l1: "load_state pol db1 = Inr (stamped s t now)" using write_then_load [OF l(1) w(1) keys fits] by simp
    from write_state_adds [OF w(1) fresh_key [OF l(1) keys] p(1)] few(2) obtain row where
      row: "added pol db db1 row" "op_kind row = GOVERNOR_KIND" by auto
    have old: "case ?job of None \<Rightarrow> True | Some b \<Rightarrow> job_ok pol b \<and> jb_task_id b = job_task c"
      using loaded_job(1,5) l(2) by (auto split: option.splits)
    note ok = job_change_ok [OF ch c(2) old]
    have ni: "\<not> is_inspect c" using ch by (cases c) (simp_all add: is_inspect_def)
    then have link: "case ?job of None \<Rightarrow> True | Some b \<Rightarrow> jb_envelope j = jb_envelope b \<and> jb_last_now b \<le> now"
      using g ok by (auto simp: job_guards_def result_simps split: option.splits)
    have "mission_ready pol T k db' (stamped s t now, js(job_task c \<mapsto> next_job ?job j now))"
      using ready_after_both [OF r row l1 _ w(2) c(1)] ok p link by simp
    moreover have "validate pol (stamped s t now) = Inr ()" using write_state_shape [OF w(1) fresh_key [OF l(1) keys]] by blast
    ultimately show ?thesis
      using job_stored [of pol now s js c p t j "next_job ?job j now"] g ch c(2) w(3) by blast
  qed
qed

text \<open>A governor call writes once or not at all.\<close>

lemma change_callback_writes:
  "change_callback pol p purpose rule change now db = Inr (r, db') \<Longrightarrow>
   db' = db \<or> (\<exists>before t stamp. load_state pol db = Inr before \<and> write_state pol p purpose before t stamp None db = Inr db')"
  by (auto simp: change_callback_def result_simps split: option.splits)

lemma money_callback_writes:
  "money_callback pol p checks review now db = Inr (r, db') \<Longrightarrow>
   db' = db \<or> (\<exists>before t stamp tr. load_state pol db = Inr before \<and> write_state pol p CC_MANAGE before t stamp tr db = Inr db')"
  by (auto simp: money_callback_def result_simps split: option.splits)

definition one_write :: "governor \<Rightarrow> call_env \<Rightarrow> gov_db \<Rightarrow> gov_db \<Rightarrow> bool" where
  "one_write gv env db db' \<longleftrightarrow>
     db' = db \<or> pr_scope (ce_principal env) = gp_scope (gv_policy gv)
       \<and> (\<exists>purpose before t stamp tr. load_state (gv_policy gv) db = Inr before
            \<and> write_state (gv_policy gv) (ce_principal env) purpose before t stamp tr db = Inr db')"

lemma one_write_refl [simp]: "one_write gv env db db"
  by (simp add: one_write_def)

lemma run_call_writes:
  assumes "pr_scope (ce_principal env) = gp_scope (gv_policy gv)" "run_call gv env purpose callback db = (r, db')"
    and "\<And>x d. callback db = Inr (x, d) \<Longrightarrow> d = db \<or> (\<exists>purpose before t stamp tr. load_state (gv_policy gv) db = Inr before
            \<and> write_state (gv_policy gv) (ce_principal env) purpose before t stamp tr db = Inr d)"
  shows "one_write gv env db db'"
  using port.trace [OF assms(2)] assms(1,3) by (auto simp: one_write_def)

lemma gov_change_writes:
  assumes "gov_change gv env purpose rule change db = (r, db')"
  shows "one_write gv env db db'"
proof (cases "ebind (gov_require gv (ce_principal env) purpose (snd (ce_require env))) (\<lambda>_. read_now (snd (ce_now env)))")
  case (Inl e)
  then show ?thesis using assms by (simp add: gov_change_def)
next
  case (Inr now)
  then have scope: "pr_scope (ce_principal env) = gp_scope (gv_policy gv)" by (auto simp: result_simps dest: gov_require_scope)
  from assms Inr have "run_call gv env purpose (change_callback (gv_policy gv) (ce_principal env) purpose rule change now) db = (r, db')"
    by (simp add: gov_change_def)
  from run_call_writes [OF scope this] show ?thesis by (blast dest: change_callback_writes)
qed

lemma guarded_writes:
  assumes "guarded checks body db = (r, db')" "\<And>v r. checks = Inr v \<Longrightarrow> body v db = (r, db') \<Longrightarrow> one_write gv env db db'"
  shows "one_write gv env db db'"
  using assms by (auto simp: guarded_def split: sum.splits)

lemma governor_call_writes:
  assumes "governor_call gv env c db = (r, db')"
  shows "one_write gv env db db'"
proof -
  have as: "as_result f out = (r, db') \<Longrightarrow> \<exists>x. out = (x, db')" for f :: "'x \<Rightarrow> gov_result" and out
    by (auto simp: as_result_def split: prod.splits)
  show ?thesis
  proof (cases c)
    case (ApplyMoney review)
    with assms obtain x where x: "apply_money_policy gv env review db = (x, db')" by (auto dest: as)
    show ?thesis
    proof (rule guarded_writes [OF x [unfolded apply_money_policy_def]])
      fix now x'
      assume ck: "ebind (gov_require gv (ce_principal env) CC_MANAGE (fst (ce_require env))) (\<lambda>_. read_now (fst (ce_now env))) = Inr now"
        and run: "run_call gv env CC_MANAGE (money_callback (gv_policy gv) (ce_principal env) (ce_authority env) review now) db = (x', db')"
      from ck have "pr_scope (ce_principal env) = gp_scope (gv_policy gv)" by (auto simp: result_simps dest: gov_require_scope)
      from run_call_writes [OF this run] show "one_write gv env db db'" by (blast dest: money_callback_writes)
    qed
  next
    case Inspect
    with assms obtain x where x: "inspect gv env db = (x, db')" by (auto dest: as)
    show ?thesis
    proof (rule guarded_writes [OF x [unfolded inspect_def]])
      fix v x'
      assume ck: "gov_require gv (ce_principal env) CC_READ (fst (ce_require env)) = Inr v"
        and run: "run_call gv env CC_READ (\<lambda>db. ebind (load_state (gv_policy gv) db) (\<lambda>s.
            ebind (exposure_of (gs_reservations s)) (\<lambda>x. Inr ((s, x), db)))) db = (x', db')"
      from run_call_writes [OF gov_require_scope [OF ck] run] show "one_write gv env db db'" by (auto simp: result_simps)
    qed
  next
    case (ReviewMoney limits i)
    with assms obtain x where x: "money_policy_review gv env limits i db = (x, db')" by (auto dest: as)
    show ?thesis
    proof (rule guarded_writes [OF x [unfolded money_policy_review_def]])
      fix v x'
      assume ck: "gov_require gv (ce_principal env) CC_READ (fst (ce_require env)) = Inr v"
        and run: "run_call gv env CC_READ (\<lambda>db. ebind (load_state (gv_policy gv) db) (\<lambda>s.
            ebind (make_review (gv_policy gv) s limits i) (\<lambda>r. Inr (r, db)))) db = (x', db')"
      from run_call_writes [OF gov_require_scope [OF ck] run] show "one_write gv env db db'" by (auto simp: result_simps)
    qed
  qed (use assms in \<open>auto simp: start_epoch_def set_kill_def reserve_def dispatch_commit_def release_not_dispatched_def
        mark_unknown_def settle_def dest!: as intro: guarded_writes gov_change_writes\<close>)
qed

text \<open>A call is a step, or it failed: then nothing happened, or a step whose result was lost.\<close>

lemma governor_mission_call:
  assumes r: "mission_ready (gv_policy gv) T (Suc k) db (s, js)" and call: "governor_call gv env c db = (x, db')"
  shows "\<exists>st'. mission_ready (gv_policy gv) T k db' st' \<and>
    (case x of
       Inr y \<Rightarrow> mission_step (gv_policy gv) (s, js) (GovernorCall c) (GovernorResult y) st'
     | Inl e \<Rightarrow> db' = db \<and> st' = (s, js)
         \<or> e = CommitOutcomeUnknown \<and> (\<exists>y. mission_step (gv_policy gv) (s, js) (GovernorCall c) (GovernorResult y) st'))"
proof -
  let ?pol = "gv_policy gv"
  have l: "load_state ?pol db = Inr s" and few: "length (db_operations db) < 1022" "length (db_audit db) < 1022"
    and keys: "keys_distinct ?pol (gs_version s + 1)"
    using r by (auto simp: mission_ready_def intro: keys_distinct_mono)
  have v: "gs_version s < 1023" using governor_rows_few [OF l] few(1) by simp
  let ?n1 = "reading (fst (ce_now env))" and ?n2 = "reading (snd (ce_now env))"
  have "call_holds ?pol ?n1 ?n2 s c db (x, db')" using governor_call_holds [OF l keys, of env c] call by simp
  then obtain s' where h: "holds ?pol db' s s'"
    and step: "case x of
        Inr y \<Rightarrow> gov_step ?pol ?n1 ?n2 s c y s'
      | Inl e \<Rightarrow> db' = db \<and> s' = s \<or> e = CommitOutcomeUnknown \<and> (\<exists>y. gov_step ?pol ?n1 ?n2 s c y s')"
    unfolding call_holds_def prod.case by blast
  have s': "load_state ?pol db' = Inr s'" using h v by (simp add: holds_def)
  have "mission_ready ?pol T k db' (s', js)"
  proof (cases "db' = db")
    case True
    then show ?thesis using s' l mission_ready_mono [OF r, of k] by simp
  next
    case False
    with governor_call_writes [OF call] l obtain purpose t stamp tr where
      w: "pr_scope (ce_principal env) = gp_scope ?pol" "write_state ?pol (ce_principal env) purpose s t stamp tr db = Inr db'"
      by (auto simp: one_write_def)
    from write_state_adds [OF w(2) fresh_key [OF l keys] w(1)] few(2) obtain row where
      row: "added ?pol db db' row" "op_kind row = GOVERNOR_KIND" by auto
    have "gs_version s' = gs_version s + 1"
      using load_versions(1) [OF s'] load_versions(1) [OF l] row by (simp add: governor_rows_def added_def)
    from ready_after_state [OF r row s' this] show ?thesis .
  qed
  moreover have "case x of
       Inr y \<Rightarrow> mission_step ?pol (s, js) (GovernorCall c) (GovernorResult y) (s', js)
     | Inl e \<Rightarrow> db' = db \<and> (s', js) = (s, js)
         \<or> e = CommitOutcomeUnknown \<and> (\<exists>y. mission_step ?pol (s, js) (GovernorCall c) (GovernorResult y) (s', js))"
    using step by (cases x) (auto intro: governor_step)
  ultimately show ?thesis by blast
qed

lemma job_mission_call:
  assumes r: "mission_ready (gv_policy gv) T (Suc k) db (s, js)" and c: "job_task c \<in> T" and call: "change_job gv env c db = (x, db')"
  shows "\<exists>st'. mission_ready (gv_policy gv) T k db' st' \<and>
    (case x of
       Inr y \<Rightarrow> \<exists>z. mission_step (gv_policy gv) (s, js) (JobCall c) z st' \<and> confirmed z (JobResult y)
     | Inl e \<Rightarrow> db' = db \<and> st' = (s, js) \<or> (\<exists>z. mission_step (gv_policy gv) (s, js) (JobCall c) z st'))"
proof -
  let ?pol = "gv_policy gv" and ?p = "ce_principal env"
  have same: "mission_ready ?pol T k db (s, js)" using r by (rule mission_ready_mono) simp
  let ?checks = "ebind (gov_require gv ?p (job_purpose c) (fst (ce_require env))) (\<lambda>_.
        ebind (if is_inspect c then Inr 0 else read_now (fst (ce_now env))) (\<lambda>now.
        ebind (job_arguments ?pol c) (\<lambda>_. Inr now)))"
  show ?thesis
  proof (cases ?checks)
    case (Inl e)
    then have "change_job gv env c db = (Inl e, db)" by (simp add: change_job_def guarded_def)
    with call have "x = Inl e" "db' = db" by auto
    then show ?thesis using same by (intro exI [of _ "(s, js)"]) simp
  next
    case (Inr now)
    then have p: "pr_scope ?p = gp_scope ?pol" "job_arguments ?pol c = Inr ()" "0 \<le> now" "now \<le> 9007199254740992"
      by (auto simp: result_simps dest: gov_require_scope read_now_range split: if_splits)
    obtain y d where run: "run_call gv env (job_purpose c) (job_callback ?pol ?p now c) db = (y, d)" by fastforce
    have out: "x = (case y of Inl e \<Rightarrow> Inl e | Inr r \<Rightarrow> confirm_step ?pol c now (snd (ce_now env)) r)" "db' = d"
      using call Inr run by (auto simp: change_job_def guarded_def split: sum.splits)
    have sound: "job_callback ?pol ?p now c db = Inr (u, v) \<Longrightarrow>
        \<exists>st'. mission_ready ?pol T k v st' \<and> mission_step ?pol (s, js) (JobCall c) (JobResult u) st'" for u v
      by (rule job_callback_sound [OF r c p(2,1,3,4)])
    have eff: "case y of
        Inr u \<Rightarrow> \<exists>st'. mission_ready ?pol T k d st' \<and> mission_step ?pol (s, js) (JobCall c) (JobResult u) st'
      | Inl e \<Rightarrow> d = db \<or> e = CommitOutcomeUnknown
          \<and> (\<exists>u st'. mission_ready ?pol T k d st' \<and> mission_step ?pol (s, js) (JobCall c) (JobResult u) st')"
      using port.effect [where Q = "\<lambda>u v. \<exists>st'. mission_ready ?pol T k v st' \<and> mission_step ?pol (s, js) (JobCall c) (JobResult u) st'",
          OF sound run] .
    show ?thesis
    proof (cases y)
      case (Inl e)
      then have x: "x = Inl e" using out(1) by simp
      from eff Inl consider "d = db" | u st' where "mission_ready ?pol T k d st'"
        "mission_step ?pol (s, js) (JobCall c) (JobResult u) st'" by (simp split: sum.splits) blast
      then show ?thesis
      proof cases
        case 1
        then show ?thesis using out(2) x same by (intro exI [of _ "(s, js)"]) simp
      next
        case 2
        then show ?thesis using out(2) x by (intro exI [of _ st']) (simp, blast)
      qed
    next
      case (Inr u)
      with eff obtain st' where st': "mission_ready ?pol T k d st'" "mission_step ?pol (s, js) (JobCall c) (JobResult u) st'" by auto
      have x: "x = confirm_step ?pol c now (snd (ce_now env)) u" using out(1) Inr by simp
      have "confirmed (JobResult u) (JobResult w)" if "x = Inr w" for w
        using that unfolding x by (auto simp: confirm_step_def confirmed_def result_simps split: job_call.splits job_result.splits bool.splits)
      with st' out(2) show ?thesis by (intro exI [of _ st']) (simp split: sum.splits, blast)
    qed
  qed
qed

text \<open>Both at once.\<close>

lemma mission_call_holds:
  assumes r: "mission_ready (gv_policy gv) T (Suc k) db st" and c: "case mission_task c of None \<Rightarrow> True | Some t \<Rightarrow> t \<in> T"
    and call: "mission_do gv env c db = (x, db')"
  shows "\<exists>st'. mission_ready (gv_policy gv) T k db' st' \<and>
    (case x of
       Inr y \<Rightarrow> \<exists>z. mission_step (gv_policy gv) st c z st' \<and> confirmed z y
     | Inl e \<Rightarrow> db' = db \<and> st' = st \<or> (\<exists>z. mission_step (gv_policy gv) st c z st'))"
proof (cases c)
  case (GovernorCall g)
  obtain s js where st: "st = (s, js)" by fastforce
  obtain y d where y: "governor_call gv env g db = (y, d)" by fastforce
  have x: "x = ebind y (\<lambda>v. Inr (GovernorResult v))" "d = db'" using call GovernorCall y by (simp_all add: mission_do_def)
  from governor_mission_call [OF r [unfolded st] y] obtain st' where "mission_ready (gv_policy gv) T k d st'"
    "case y of
       Inr y \<Rightarrow> mission_step (gv_policy gv) (s, js) (GovernorCall g) (GovernorResult y) st'
     | Inl e \<Rightarrow> d = db \<and> st' = (s, js)
         \<or> e = CommitOutcomeUnknown \<and> (\<exists>y. mission_step (gv_policy gv) (s, js) (GovernorCall g) (GovernorResult y) st')" by blast
  then show ?thesis unfolding st GovernorCall using x
    by (intro exI [of _ st'], cases y) (auto simp: confirmed_def)
next
  case (JobCall j)
  obtain s js where st: "st = (s, js)" by fastforce
  obtain y d where y: "change_job gv env j db = (y, d)" by fastforce
  have x: "x = ebind y (\<lambda>v. Inr (JobResult v))" "d = db'" using call JobCall y by (simp_all add: mission_do_def)
  from job_mission_call [OF r [unfolded st] _ y] c JobCall obtain st' where "mission_ready (gv_policy gv) T k d st'"
    "case y of
       Inr y \<Rightarrow> \<exists>z. mission_step (gv_policy gv) (s, js) (JobCall j) z st' \<and> confirmed z (JobResult y)
     | Inl e \<Rightarrow> d = db \<and> st' = (s, js) \<or> (\<exists>z. mission_step (gv_policy gv) (s, js) (JobCall j) z st')" by auto
  then show ?thesis unfolding st JobCall using x by (intro exI [of _ st'], cases y) simp_all
qed

end
