(* ===== verification/Job_Safety.thy ===== *)
theory Job_Safety
  imports Job_Refinement
begin

text \<open>
  What the governor and the offline jobs promise together, over any sequence of their calls under faults: a worker is
  told to begin at most once for a task, claims are fenced, a job only moves forward, and the reservation of a job that
  was begun stays charged.
\<close>

section \<open>Sequences of calls\<close>

fun mission_calls :: "governor \<Rightarrow> (mission_call \<times> call_env) list \<Rightarrow> gov_db \<Rightarrow> mission_result kernel list \<times> gov_db" where
  "mission_calls gv [] db = ([], db)"
| "mission_calls gv ((c, env) # calls) db =
     (case mission_do gv env c db of (r, db1) \<Rightarrow>
        (case mission_calls gv calls db1 of (rs, db2) \<Rightarrow> (r # rs, db2)))"

definition answers :: "(mission_call \<times> call_env) list \<Rightarrow> mission_result kernel list \<Rightarrow> (mission_call \<times> mission_result option) list" where
  "answers calls rs = zip (map fst calls) (map (\<lambda>r. case r of Inl _ \<Rightarrow> None | Inr x \<Rightarrow> Some x) rs)"

definition within_tasks :: "string set \<Rightarrow> (mission_call \<times> call_env) list \<Rightarrow> bool" where
  "within_tasks T calls \<longleftrightarrow> (\<forall>c \<in> set calls. case mission_task (fst c) of None \<Rightarrow> True | Some t \<Rightarrow> t \<in> T)"

inductive mission_trace ::
    "governor_policy \<Rightarrow> mission_state \<Rightarrow> (mission_call \<times> mission_result option) list \<Rightarrow> mission_state \<Rightarrow> bool" for pol where
  mission_nil: "mission_trace pol st [] st"
| mission_returned: "mission_step pol st c z st1 \<Longrightarrow> confirmed z y \<Longrightarrow> mission_trace pol st1 tr st'
    \<Longrightarrow> mission_trace pol st ((c, Some y) # tr) st'"
| mission_lost: "mission_step pol st c z st1 \<Longrightarrow> mission_trace pol st1 tr st' \<Longrightarrow> mission_trace pol st ((c, None) # tr) st'"
| mission_failed: "mission_trace pol st tr st' \<Longrightarrow> mission_trace pol st ((c, None) # tr) st'"

lemma mission_calls_trace:
  assumes "mission_ready (gv_policy gv) T (length calls) db st" "within_tasks T calls" "mission_calls gv calls db = (rs, db')"
  obtains st' where "mission_trace (gv_policy gv) st (answers calls rs) st'" "mission_ready (gv_policy gv) T 0 db' st'"
proof -
  let ?pol = "gv_policy gv"
  have "\<exists>st'. mission_trace ?pol st (answers calls rs) st' \<and> mission_ready ?pol T 0 db' st'"
    using assms
  proof (induction calls arbitrary: st db rs)
    case Nil
    then show ?case by (intro exI [of _ st]) (auto simp: answers_def intro: mission_nil)
  next
    case (Cons ce calls)
    obtain c env where ce: "ce = (c, env)" by fastforce
    obtain r db1 rs' where call: "mission_do gv env c db = (r, db1)" and rest: "mission_calls gv calls db1 = (rs', db')"
      and rs: "rs = r # rs'" using Cons.prems(3) ce by (auto split: prod.splits)
    have task: "case mission_task c of None \<Rightarrow> True | Some t \<Rightarrow> t \<in> T" "within_tasks T calls"
      using Cons.prems(2) ce by (auto simp: within_tasks_def)
    from mission_call_holds [OF _ task(1) call, of "length calls" st] Cons.prems(1) obtain st1 where
      r1: "mission_ready ?pol T (length calls) db1 st1"
      and st: "case r of Inr y \<Rightarrow> \<exists>z. mission_step ?pol st c z st1 \<and> confirmed z y
        | Inl e \<Rightarrow> db1 = db \<and> st1 = st \<or> (\<exists>z. mission_step ?pol st c z st1)" by auto
    from Cons.IH [OF r1 task(2) rest] obtain st' where
      st': "mission_trace ?pol st1 (answers calls rs') st'" "mission_ready ?pol T 0 db' st'" by blast
    have "answers (ce # calls) rs = (c, case r of Inl _ \<Rightarrow> None | Inr x \<Rightarrow> Some x) # answers calls rs'"
      by (simp add: answers_def ce rs)
    then have "mission_trace ?pol st (answers (ce # calls) rs) st'"
      using st st'(1) by (auto split: sum.splits intro: mission_returned mission_lost mission_failed)
    with st'(2) show ?case by blast
  qed
  with that show thesis by blast
qed

text \<open>The contract of a relation between states: whatever the steps respect, the sequences respect.\<close>

locale mission_relation =
  fixes pol :: governor_policy and R :: "mission_state \<Rightarrow> mission_state \<Rightarrow> bool"
  assumes refl: "R st st"
    and trans: "R st st1 \<Longrightarrow> R st1 st2 \<Longrightarrow> R st st2"
    and step: "mission_step pol st c y st' \<Longrightarrow> R st st'"
begin

lemma trace: "mission_trace pol st tr st' \<Longrightarrow> R st st'"
  by (induction rule: mission_trace.induct) (auto intro: refl step trans)

end

section \<open>Jobs move forward\<close>

fun job_later :: "job_state \<Rightarrow> job_state \<Rightarrow> bool" where
  "job_later JS_QUEUED _ = True"
| "job_later JS_CLAIMED b = (b \<noteq> JS_QUEUED)"
| "job_later JS_STARTED b = (b \<in> {JS_STARTED, JS_UNKNOWN, JS_DONE})"
| "job_later JS_UNKNOWN b = (b = JS_UNKNOWN)"
| "job_later JS_DONE b = (b = JS_DONE)"

text \<open>A claim gives way to one with a higher fence, or is renewed by its holder.\<close>

definition claim_forward :: "job_claim \<Rightarrow> job_claim \<Rightarrow> bool" where
  "claim_forward c c' \<longleftrightarrow>
     jc_fence c < jc_fence c' \<or> c' = c\<lparr>jc_lease_until := jc_lease_until c'\<rparr> \<and> jc_lease_until c \<le> jc_lease_until c'"

definition job_forward :: "job \<Rightarrow> job \<Rightarrow> bool" where
  "job_forward j j' \<longleftrightarrow>
     jb_envelope j' = jb_envelope j \<and> jb_reservation_id j' = jb_reservation_id j
     \<and> jb_version j \<le> jb_version j' \<and> jb_last_now j \<le> jb_last_now j' \<and> job_later (jb_state j) (jb_state j')
     \<and> (jb_state j = JS_DONE \<longrightarrow> j' = j)
     \<and> (\<forall>c. jb_claim j = Some c \<longrightarrow> (\<exists>c'. jb_claim j' = Some c' \<and> claim_forward c c'))"

definition jobs_forward :: "mission_state \<Rightarrow> mission_state \<Rightarrow> bool" where
  "jobs_forward st st' \<longleftrightarrow> (\<forall>t j. snd st t = Some j \<longrightarrow> (\<exists>j'. snd st' t = Some j' \<and> job_forward j j'))"

lemma job_later_refl [simp]: "job_later a a"
  by (cases a) simp_all

lemma job_later_trans: "job_later a b \<Longrightarrow> job_later b c \<Longrightarrow> job_later a c"
  by (cases a; cases b; cases c) simp_all

lemma claim_forward_refl [simp]: "claim_forward c c"
  by (simp add: claim_forward_def)

lemma claim_forward_trans: "claim_forward a b \<Longrightarrow> claim_forward b c \<Longrightarrow> claim_forward a c"
  by (cases a; cases b; cases c) (auto simp: claim_forward_def)

lemma job_forward_refl [simp]: "job_forward j j"
  by (simp add: job_forward_def)

lemma job_forward_trans: "job_forward a b \<Longrightarrow> job_forward b c \<Longrightarrow> job_forward a c"
  unfolding job_forward_def by (auto intro: job_later_trans) (meson claim_forward_trans)

lemma next_job_fields [simp]:
  "jb_envelope (next_job b j now) = jb_envelope j" "jb_reservation_id (next_job b j now) = jb_reservation_id j"
  "jb_last_now (next_job b j now) = now" "jb_state (next_job b j now) = jb_state j" "jb_claim (next_job b j now) = jb_claim j"
  "jb_result_digest (next_job b j now) = jb_result_digest j"
  by (simp_all add: next_job_def)

lemma next_job_version [simp]: "jb_version (next_job (Some b) j now) = jb_version b + 1"
  by (simp add: next_job_def)

text \<open>A new claim has a higher fence.\<close>

lemma claimed_forward:
  assumes "claimed_job j worker epoch lease now = Inr j'" "jb_state j \<noteq> JS_DONE" "jb_last_now j \<le> now"
  shows "job_forward j (next_job (Some j) j' now)"
proof -
  from claimed_job_eq [OF assms(1)] obtain c where
    c: "j' = j\<lparr>jb_claim := Some c, jb_state := (if jb_state j \<in> {JS_STARTED, JS_UNKNOWN} then JS_UNKNOWN else JS_CLAIMED)\<rparr>"
      "jc_fence c = (case jb_claim j of None \<Rightarrow> 1 | Some c \<Rightarrow> jc_fence c + 1)" by blast
  have "job_later (jb_state j) (jb_state j')" using c(1) assms(2) by (cases "jb_state j") simp_all
  then show ?thesis using c assms(2,3) by (auto simp: job_forward_def claim_forward_def)
qed

lemma change_forward:
  assumes "job_change pol p now s (Some j) c = Inr (Inr (t, j'))" "jb_last_now j \<le> now"
  shows "job_forward j (next_job (Some j) j' now)"
proof (cases c)
  case (SubmitJob e)
  with assms show ?thesis by (auto elim: submit_cases)
next
  case (ClaimJob task worker epoch lease)
  with assms(1) have "claim_change pol p worker epoch lease now s j = Inr (Inr (t, j'))" by (simp add: result_simps)
  then show ?thesis by (rule claim_cases) (use assms(2) in \<open>auto intro: claimed_forward\<close>)
next
  case (TakeoverJob task worker epoch lease)
  with assms(1) have "takeover_change pol p worker epoch lease now s j = Inr (Inr (t, j'))" by (simp add: result_simps)
  then show ?thesis by (rule takeover_cases) (use assms(2) in \<open>auto intro: claimed_forward\<close>)
next
  case (RenewJob k lease)
  with assms(1) have r: "renew_change k lease now s j = Inr (Inr (t, j'))" by (simp add: result_simps)
  then obtain u where "jb_claim j = Some k" "jb_state j = JS_CLAIMED" "j' = j\<lparr>jb_claim := Some (k\<lparr>jc_lease_until := max (jc_lease_until k) u\<rparr>)\<rparr>"
    by (auto simp: renew_change_def holder_guards_def result_simps Let_def split: if_splits)
  with assms(2) show ?thesis by (simp add: job_forward_def claim_forward_def)
next
  case (BeginJob k)
  with assms(1) have "begin_change pol k now s j = Inr (Inr (t, j'))" by (simp add: result_simps)
  then show ?thesis by (rule begin_cases) (use assms(2) in \<open>auto simp: job_forward_def\<close>)
next
  case (FinishJob k r)
  with assms(1) have "finish_change pol k r now s j = Inr (Inr (t, j'))" by (simp add: result_simps)
  then show ?thesis by (rule finish_cases) (use assms(2) in \<open>auto simp: job_forward_def\<close>)
qed (use assms(1) in simp)

lemma guards_last_now: "job_guards pol now s (Some j) c = Inr () \<Longrightarrow> \<not> is_inspect c \<Longrightarrow> jb_last_now j \<le> now"
  by (simp add: job_guards_def result_simps)

lemma stored_not_inspect: "job_change pol p now s job c = Inr (Inr x) \<Longrightarrow> \<not> is_inspect c"
  by (cases c) (simp_all add: is_inspect_def)

lemma step_jobs_forward:
  assumes "mission_step pol st c y st'"
  shows "jobs_forward st st'"
  using assms
proof cases
  case (job_stored now s js c p t j j')
  have "job_forward b (next_job (Some b) j now)" if "js (job_task c) = Some b" for b
    using change_forward [of pol p now s b c t j] guards_last_now [of pol now s b c] stored_not_inspect [OF job_stored(6)]
      job_stored(5,6) that by simp
  then show ?thesis using job_stored by (auto simp: jobs_forward_def)
qed (auto simp: jobs_forward_def)

interpretation jobs: mission_relation pol jobs_forward for pol
proof unfold_locales
  show "jobs_forward st st" for st by (simp add: jobs_forward_def)
  show "jobs_forward st st2" if "jobs_forward st st1" "jobs_forward st1 st2" for st st1 st2
    using that unfolding jobs_forward_def by (meson job_forward_trans)
  show "jobs_forward st st'" if "mission_step pol st c y st'" for st c y st' using that by (rule step_jobs_forward)
qed


section \<open>One permission to begin\<close>

fun begins :: "string \<Rightarrow> mission_call \<times> mission_result option \<Rightarrow> bool" where
  "begins t (JobCall c, Some (JobResult (JBegin b j))) = (job_task c = t \<and> b)"
| "begins t _ = False"

definition begun :: "mission_state \<Rightarrow> string \<Rightarrow> bool" where
  "begun st t \<longleftrightarrow> (case snd st t of None \<Rightarrow> False | Some j \<Rightarrow> jb_state j \<in> {JS_STARTED, JS_UNKNOWN, JS_DONE})"

lemma begun_eq: "begun st t \<longleftrightarrow> (\<exists>j. snd st t = Some j \<and> jb_state j \<in> {JS_STARTED, JS_UNKNOWN, JS_DONE})"
  by (simp add: begun_def split: option.split)

lemma later_begun: "job_later a b \<Longrightarrow> a \<in> {JS_STARTED, JS_UNKNOWN, JS_DONE} \<Longrightarrow> b \<in> {JS_STARTED, JS_UNKNOWN, JS_DONE}"
  by (cases a) auto

lemma forward_begun:
  assumes "jobs_forward st st'" "begun st t"
  shows "begun st' t"
proof -
  from assms(2) obtain j where j: "snd st t = Some j" "jb_state j \<in> {JS_STARTED, JS_UNKNOWN, JS_DONE}" by (auto simp: begun_eq)
  with assms(1) obtain j' where "snd st' t = Some j'" "job_later (jb_state j) (jb_state j')"
    unfolding jobs_forward_def job_forward_def by blast
  with later_begun j(2) show ?thesis unfolding begun_eq by blast
qed

lemma begins_cases:
  assumes "begins t (c, Some y)"
  obtains k j where "c = JobCall k" "y = JobResult (JBegin True j)" "job_task k = t"
  using assms by (cases "(t, c, Some y)" rule: begins.cases) auto

lemma confirmed_begin: "confirmed z (JobResult (JBegin True j)) \<Longrightarrow> z = JobResult (JBegin True j)"
  by (auto simp: confirmed_def)

text \<open>An answer that permits to begin is that of a stored marker.\<close>

lemma step_begins:
  assumes "mission_step pol (s, js) (JobCall c) (JobResult (JBegin True j)) st'"
  obtains k b p now t j0 where "c = BeginJob k" "js (job_task c) = Some b" "begin_change pol k now s b = Inr (Inr (t, j0))"
    "j = next_job (Some b) j0 now" "st' = (stamped s t now, js(job_task c \<mapsto> j))"
  using assms
proof cases
  case (job_kept now p)
  from job_kept(3) have False
  proof (cases c)
    case (BeginJob k)
    with job_kept(3) show False by (auto simp: begin_change_def result_simps split: if_splits)
  qed (auto simp: submit_change_def claim_change_def takeover_change_def renew_change_def finish_change_def result_simps Let_def
      split: option.splits if_splits)
  then show thesis ..
next
  case (job_stored now p t j1 j')
  then have a: "job_answer c j' = JBegin True j" by simp
  then obtain k where c: "c = BeginJob k" by (cases c) (auto split: option.splits)
  with a have "j' = j" by simp
  with job_stored c show thesis using that [of k _ now t j1] by (auto simp: result_simps)
qed

lemma trace_begins:
  assumes "mission_trace pol st tr st'"
  shows "length (filter (begins t) tr) \<le> (if begun st t then 0 else 1)"
  using assms
proof (induction rule: mission_trace.induct)
  case (mission_returned st c z st1 y tr st')
  have keep: "begun st t \<Longrightarrow> begun st1 t" using step_jobs_forward [OF mission_returned.hyps(1)] by (rule forward_begun)
  show ?case
  proof (cases "begins t (c, Some y)")
    case True
    then obtain k j where c: "c = JobCall k" "y = JobResult (JBegin True j)" "job_task k = t" by (rule begins_cases)
    obtain s js where st: "st = (s, js)" by fastforce
    have "mission_step pol (s, js) (JobCall k) (JobResult (JBegin True j)) st1"
      using mission_returned.hyps(1,2) confirmed_begin c st by blast
    then have "\<not> begun st t" "begun st1 t"
      using c(3) by (auto elim!: step_begins begin_cases simp: begun_def st)
    with True mission_returned.IH show ?thesis by simp
  next
    case False
    with keep mission_returned.IH show ?thesis by (auto split: if_splits)
  qed
next
  case (mission_lost st c z st1 tr st')
  have "begun st t \<Longrightarrow> begun st1 t" using step_jobs_forward [OF mission_lost.hyps(1)] by (rule forward_begun)
  with mission_lost.IH show ?case by (auto split: if_splits)
qed simp_all

text \<open>Property C10. Over any sequence of governor and job calls, with any faults in their transactions, at most one call
  tells a worker to begin a given task; a marker whose acknowledgement was lost is never answered with a second one.\<close>

theorem job_begins_at_most_once:
  assumes "mission_ready (gv_policy gv) T (length calls) db st" "within_tasks T calls" "mission_calls gv calls db = (rs, db')"
  shows "length (filter (begins t) (answers calls rs)) \<le> 1"
proof -
  from mission_calls_trace [OF assms] obtain st' where "mission_trace (gv_policy gv) st (answers calls rs) st'" .
  then have "length (filter (begins t) (answers calls rs)) \<le> (if begun st t then 0 else 1)" by (rule trace_begins)
  then show ?thesis by (simp split: if_splits)
qed

section \<open>Claims are fenced\<close>

fun claim_in :: "string \<Rightarrow> mission_call \<times> mission_result option \<Rightarrow> job_claim option" where
  "claim_in t (JobCall k, Some (JobResult (JClaim c))) = (if job_task k = t then Some c else None)"
| "claim_in t _ = None"

definition claims_of :: "string \<Rightarrow> (mission_call \<times> mission_result option) list \<Rightarrow> job_claim list" where
  "claims_of t tr = List.map_filter (claim_in t) tr"

lemma claims_of_simps [simp]:
  "claims_of t [] = []" "claims_of t (a # tr) = (case claim_in t a of None \<Rightarrow> [] | Some c \<Rightarrow> [c]) @ claims_of t tr"
  by (simp_all add: claims_of_def List.map_filter_def split: option.splits)

definition holds_claim :: "mission_state \<Rightarrow> string \<Rightarrow> job_claim \<Rightarrow> bool" where
  "holds_claim st t c \<longleftrightarrow> (\<exists>j. snd st t = Some j \<and> jb_claim j = Some c)"

text \<open>A claim that is returned is the stored one.\<close>

lemma step_claim:
  assumes "mission_step pol (s, js) (JobCall k) (JobResult (JClaim c)) st'"
  shows "holds_claim st' (job_task k) c"
  using assms
proof cases
  case (job_kept now p)
  then show ?thesis
    by (cases k)
      (auto simp: holds_claim_def submit_change_def claim_change_def takeover_change_def renew_change_def begin_change_def
        finish_change_def holder_guards_def result_simps Let_def split: option.splits if_splits)
next
  case (job_stored now p t j1 j')
  then have "job_answer k j' = JClaim c" by simp
  then have "jb_claim j' = Some c" by (cases k) (auto split: option.splits)
  then show ?thesis using job_stored by (simp add: holds_claim_def)
qed

lemma forward_claim:
  assumes "jobs_forward st st'" "holds_claim st t c"
  shows "\<exists>c'. holds_claim st' t c' \<and> claim_forward c c'"
  using assms unfolding jobs_forward_def holds_claim_def job_forward_def by blast

lemma trace_claims:
  assumes "mission_trace pol st tr st'"
  shows "sorted_wrt claim_forward (claims_of t tr) \<and> (\<forall>c. holds_claim st t c \<longrightarrow> (\<forall>c' \<in> set (claims_of t tr). claim_forward c c'))"
  using assms
proof (induction rule: mission_trace.induct)
  case (mission_returned st c z st1 y tr st')
  have later: "\<forall>c' \<in> set (claims_of t tr). claim_forward d c'" if "holds_claim st t d" for d
    using forward_claim [OF step_jobs_forward [OF mission_returned.hyps(1)] that] mission_returned.IH claim_forward_trans by blast
  show ?case
  proof (cases "claim_in t (c, Some y)")
    case None
    with later mission_returned.IH show ?thesis by simp
  next
    case (Some d)
    then obtain k where c: "c = JobCall k" "y = JobResult (JClaim d)" "job_task k = t"
      by (cases "(t, c, Some y)" rule: claim_in.cases) (auto split: if_splits)
    obtain s js where st: "st = (s, js)" by fastforce
    have "z = JobResult (JClaim d)" using mission_returned.hyps(2) c(2) by (auto simp: confirmed_def)
    then have s: "mission_step pol (s, js) (JobCall k) (JobResult (JClaim d)) st1" using mission_returned.hyps(1) c st by blast
    then have d: "holds_claim st1 t d" using step_claim c(3) by blast
    then have "claim_forward e d" if "holds_claim st t e" for e
      using forward_claim [OF step_jobs_forward [OF mission_returned.hyps(1)] that] by (auto simp: holds_claim_def)
    with Some d later mission_returned.IH show ?thesis by simp
  qed
next
  case (mission_lost st c z st1 tr st')
  have "\<forall>c' \<in> set (claims_of t tr). claim_forward d c'" if "holds_claim st t d" for d
    using forward_claim [OF step_jobs_forward [OF mission_lost.hyps(1)] that] mission_lost.IH claim_forward_trans by blast
  with mission_lost.IH show ?case by simp
qed simp_all

text \<open>Property C12. The claims that a sequence of calls returns for a task are fenced: of any two, the later one has a higher
  fence, or it is the same claim of the same worker, with a lease that ends no earlier. So no two workers ever hold
  the same fence.\<close>

theorem claims_are_fenced:
  assumes "mission_ready (gv_policy gv) T (length calls) db st" "within_tasks T calls" "mission_calls gv calls db = (rs, db')"
  shows "sorted_wrt claim_forward (claims_of t (answers calls rs))"
proof -
  from mission_calls_trace [OF assms] obtain st' where "mission_trace (gv_policy gv) st (answers calls rs) st'" .
  then show ?thesis using trace_claims by blast
qed

section \<open>A permission to begin is guarded\<close>

lemma confirm_begin:
  assumes "confirm_step pol (BeginJob c) now later_reading r = Inr (JBegin True j)"
  shows "now \<le> reading later_reading \<and> reading later_reading < jc_lease_until c \<and> reading later_reading - now \<le> gp_max_clock_step_seconds pol"
  using assms by (auto simp: confirm_step_def reading_def result_simps split: job_result.splits bool.splits)

lemma begin_call_checks:
  assumes "change_job gv env (BeginJob c) db = (Inr (JBegin True j), db')" "length (db_operations db) < 1024"
  shows "gov_require gv (ce_principal env) CC_COMMIT (fst (ce_require env)) = Inr ()"
    and "reading (fst (ce_now env)) \<le> reading (snd (ce_now env))" "reading (snd (ce_now env)) < jc_lease_until c"
proof -
  from assms(1) obtain now r where now: "read_now (fst (ce_now env)) = Inr now"
    and req: "gov_require gv (ce_principal env) CC_COMMIT (fst (ce_require env)) = Inr ()"
    and r: "confirm_step (gv_policy gv) (BeginJob c) now (snd (ce_now env)) r = Inr (JBegin True j)"
    by (auto simp: change_job_def guarded_def is_inspect_def result_simps split: sum.splits prod.splits)
  show "gov_require gv (ce_principal env) CC_COMMIT (fst (ce_require env)) = Inr ()" by (rule req)
  have "reading (fst (ce_now env)) = now" using now by (simp add: reading_def)
  with confirm_begin [OF r] show "reading (fst (ce_now env)) \<le> reading (snd (ce_now env))" "reading (snd (ce_now env)) < jc_lease_until c"
    by simp_all
qed

lemma begin_guards:
  assumes "mission_ready (gv_policy gv) T (Suc k) db (s, js)" "jc_task_id c \<in> T"
    and "change_job gv env (BeginJob c) db = (Inr (JBegin True j), db')"
  shows "\<exists>b e0 ck s'. js (jc_task_id c) = Some b \<and> jb_claim b = Some c \<and> jb_state b = JS_CLAIMED
    \<and> gov_require gv (ce_principal env) CC_COMMIT (fst (ce_require env)) = Inr ()
    \<and> reading (fst (ce_now env)) \<le> reading (snd (ce_now env)) \<and> reading (snd (ce_now env)) < jc_lease_until c
    \<and> entry_of s (jb_reservation_id b) = Some e0 \<and> rv_state e0 = RS_RESERVED
    \<and> jc_governor_epoch c = gs_epoch s \<and> rv_epoch e0 = gs_epoch s \<and> \<not> gs_kill s
    \<and> dict_get (gs_circuits s) (rv_provider_id e0) = Some ck
    \<and> (ck_state ck = CIRCUIT_CLOSED \<or> ck_state ck = CIRCUIT_HALF_OPEN \<and> ck_probe ck = Some (jb_reservation_id b))
    \<and> within_ceilings (gv_policy gv) s
    \<and> load_state (gv_policy gv) db' = Inr s' \<and> entry_of s' (jb_reservation_id b) = Some (e0\<lparr>rv_state := RS_DISPATCHED\<rparr>)
    \<and> load_job (gv_policy gv) db' (jc_task_id c) = Inr (Some j) \<and> jb_state j = JS_STARTED"
proof -
  let ?pol = "gv_policy gv"
  have few: "length (db_operations db) < 1024" using assms(1) by (simp add: mission_ready_def)
  note checks = begin_call_checks [OF assms(3) few]
  from job_mission_call [OF assms(1) _ assms(3)] assms(2) obtain st' z where ready: "mission_ready ?pol T k db' st'"
    and z: "mission_step ?pol (s, js) (JobCall (BeginJob c)) z st'" "confirmed z (JobResult (JBegin True j))" by auto
  from z(1) have "mission_step ?pol (s, js) (JobCall (BeginJob c)) (JobResult (JBegin True j)) st'"
    unfolding confirmed_begin [OF z(2)] .
  then obtain b now t j0 where b: "js (jc_task_id c) = Some b" "begin_change ?pol c now s b = Inr (Inr (t, j0))"
    "j = next_job (Some b) j0 now" "st' = (stamped s t now, js(jc_task_id c \<mapsto> j))"
    by (auto elim: step_begins)
  from b(2) obtain e again w where d: "jb_claim b = Some c" "jb_state b = JS_CLAIMED"
    "dispatch_state ?pol s (jb_reservation_id b) (jc_governor_epoch c) now = Inr ((True, e, again), t, w)"
    "j0 = b\<lparr>jb_state := JS_STARTED\<rparr>" by (rule begin_cases)
  from d(3) obtain e0 ck where g: "entry_of s (jb_reservation_id b) = Some e0" "rv_state e0 = RS_RESERVED"
    "rv_epoch e0 = gs_epoch s" "jc_governor_epoch c = gs_epoch s" "\<not> gs_kill s" "dict_get (gs_circuits s) (rv_provider_id e0) = Some ck"
    "ck_state ck = CIRCUIT_CLOSED \<or> ck_state ck = CIRCUIT_HALF_OPEN \<and> ck_probe ck = Some (jb_reservation_id b)"
    "within_ceilings ?pol s" "t = set_entry (jb_reservation_id b) (e0\<lparr>rv_state := RS_DISPATCHED\<rparr>) s"
    by (rule dispatch_state_cases) (auto simp: entry_of_def budgets_within)
  have "entry_of (stamped s t now) (jb_reservation_id b) = Some (e0\<lparr>rv_state := RS_DISPATCHED\<rparr>)"
    by (simp add: g(9)) (simp add: entry_of_def)
  moreover have "load_state ?pol db' = Inr (stamped s t now)" "load_job ?pol db' (jc_task_id c) = Inr (Some j)" "jb_state j = JS_STARTED"
    using ready b(3,4) d(4) by (simp_all add: mission_ready_def)
  ultimately show ?thesis using b(1) d(1,2) checks g(1-8) by blast
qed

text \<open>What is returned with the permission is the stored job.\<close>

lemma begin_stored:
  assumes "mission_ready (gv_policy gv) T (Suc k) db (s, js)" "jc_task_id c \<in> T"
    and "change_job gv env (BeginJob c) db = (Inr (JBegin True j), db')"
  shows "load_job (gv_policy gv) db' (jc_task_id c) = Inr (Some j)"
  using begin_guards [OF assms] by blast

text \<open>Property C9. A worker is told to begin only with the commit purpose in the scope of the policy, as the holder of the
  stored claim, before its lease ends by both readings of the clock, with the kill switch off, the current epoch, a
  reservation that was not sent, a circuit that lets it through and totals within the ceilings; and only after both the
  marker of the reservation and the started job are stored.\<close>

theorem begin_is_guarded:
  assumes "mission_ready (gv_policy gv) T (Suc k) db (s, js)" "jc_task_id c \<in> T"
    and "change_job gv env (BeginJob c) db = (Inr (JBegin True j), db')"
  shows "\<exists>b e0 ck s'. js (jc_task_id c) = Some b \<and> jb_claim b = Some c \<and> jb_state b = JS_CLAIMED
    \<and> gov_require gv (ce_principal env) CC_COMMIT (fst (ce_require env)) = Inr ()
    \<and> reading (fst (ce_now env)) \<le> reading (snd (ce_now env)) \<and> reading (snd (ce_now env)) < jc_lease_until c
    \<and> entry_of s (jb_reservation_id b) = Some e0 \<and> rv_state e0 = RS_RESERVED
    \<and> jc_governor_epoch c = gs_epoch s \<and> rv_epoch e0 = gs_epoch s \<and> \<not> gs_kill s
    \<and> dict_get (gs_circuits s) (rv_provider_id e0) = Some ck
    \<and> (ck_state ck = CIRCUIT_CLOSED \<or> ck_state ck = CIRCUIT_HALF_OPEN \<and> ck_probe ck = Some (jb_reservation_id b))
    \<and> within_ceilings (gv_policy gv) s
    \<and> load_state (gv_policy gv) db' = Inr s' \<and> entry_of s' (jb_reservation_id b) = Some (e0\<lparr>rv_state := RS_DISPATCHED\<rparr>)
    \<and> load_job (gv_policy gv) db' (jc_task_id c) = Inr (Some j) \<and> jb_state j = JS_STARTED"
  using assms by (rule begin_guards)

section \<open>Jobs that were begun stay charged\<close>

definition entries_kept :: "gov_state \<Rightarrow> gov_state \<Rightarrow> bool" where
  "entries_kept s t \<longleftrightarrow>
     (\<forall>i e. entry_of s i = Some e \<longrightarrow>
        (\<exists>e'. entry_of t i = Some e' \<and> rv_binding_digest e' = rv_binding_digest e \<and> later (rv_state e) (rv_state e')))"

text \<open>What the snapshot holds for a job: nothing before it is claimed; then the reservation of its request, which was sent
  when the job was begun, and is committed when the job is done.\<close>

definition job_charged :: "gov_state \<Rightarrow> job \<Rightarrow> bool" where
  "job_charged s j \<longleftrightarrow> jb_state j = JS_QUEUED \<or>
     (\<exists>e. entry_of s (jb_reservation_id j) = Some e \<and> request_digest (job_request j) = Inr (rv_binding_digest e)
        \<and> (case jb_state j of
             JS_DONE \<Rightarrow> rv_state e = RS_COMMITTED
           | JS_STARTED \<Rightarrow> rv_state e \<in> {RS_DISPATCHED, RS_UNKNOWN, RS_COMMITTED}
           | JS_UNKNOWN \<Rightarrow> rv_state e \<in> {RS_DISPATCHED, RS_UNKNOWN, RS_COMMITTED}
           | _ \<Rightarrow> True))"

definition jobs_charged :: "mission_state \<Rightarrow> bool" where
  "jobs_charged st \<longleftrightarrow> (\<forall>t j. snd st t = Some j \<longrightarrow> job_charged (fst st) j)"

lemma entries_kept_refl [simp]: "entries_kept s s"
  by (simp add: entries_kept_def)

lemma entries_kept_trans:
  assumes "entries_kept s t" "entries_kept t u"
  shows "entries_kept s u"
  unfolding entries_kept_def
proof (intro allI impI)
  fix i e
  assume "entry_of s i = Some e"
  with assms(1) obtain f where f: "entry_of t i = Some f" "rv_binding_digest f = rv_binding_digest e" "later (rv_state e) (rv_state f)"
    unfolding entries_kept_def by blast
  with assms(2) obtain g where "entry_of u i = Some g" "rv_binding_digest g = rv_binding_digest f" "later (rv_state f) (rv_state g)"
    unfolding entries_kept_def by blast
  with f show "\<exists>e'. entry_of u i = Some e' \<and> rv_binding_digest e' = rv_binding_digest e \<and> later (rv_state e) (rv_state e')"
    by (auto intro: later_trans)
qed

lemma forward_kept: "entries_forward s t \<Longrightarrow> entries_kept s t"
  unfolding entries_forward_def entries_kept_def forward_def by metis

lemma keeps_kept: "keeps s t \<Longrightarrow> entries_kept s t"
  unfolding keeps_def entries_kept_def forward_def by metis

lemma kept_charged:
  assumes "job_charged s j" "entries_kept s t"
  shows "job_charged t j"
proof (cases "jb_state j = JS_QUEUED")
  case False
  with assms(1) obtain e where e: "entry_of s (jb_reservation_id j) = Some e" "request_digest (job_request j) = Inr (rv_binding_digest e)"
    "case jb_state j of JS_DONE \<Rightarrow> rv_state e = RS_COMMITTED
      | JS_STARTED \<Rightarrow> rv_state e \<in> {RS_DISPATCHED, RS_UNKNOWN, RS_COMMITTED}
      | JS_UNKNOWN \<Rightarrow> rv_state e \<in> {RS_DISPATCHED, RS_UNKNOWN, RS_COMMITTED} | _ \<Rightarrow> True" by (auto simp: job_charged_def)
  with assms(2) obtain e' where e': "entry_of t (jb_reservation_id j) = Some e'" "rv_binding_digest e' = rv_binding_digest e"
    "later (rv_state e) (rv_state e')" unfolding entries_kept_def by blast
  have "case jb_state j of JS_DONE \<Rightarrow> rv_state e' = RS_COMMITTED
      | JS_STARTED \<Rightarrow> rv_state e' \<in> {RS_DISPATCHED, RS_UNKNOWN, RS_COMMITTED}
      | JS_UNKNOWN \<Rightarrow> rv_state e' \<in> {RS_DISPATCHED, RS_UNKNOWN, RS_COMMITTED} | _ \<Rightarrow> True"
    using e(3) e'(3) by (cases "jb_state j"; cases "rv_state e") auto
  with e e' show ?thesis by (auto simp: job_charged_def)
qed (simp add: job_charged_def)

lemma stamped_charged [simp]: "job_charged (stamped s t n) j = job_charged t j"
  by (simp add: job_charged_def)

lemma job_request_id [simp]: "rq_request_id (job_request j) = jb_reservation_id j"
  by (simp add: job_request_def Let_def)

lemma job_request_cong: "jb_envelope j' = jb_envelope j \<Longrightarrow> jb_reservation_id j' = jb_reservation_id j \<Longrightarrow> job_request j' = job_request j"
  by (simp add: job_request_def Let_def)

lemma reserve_binds:
  assumes "reserve_state pol s q epoch now = Inr (e, t, b)"
  shows "entry_of t (rq_request_id q) = Some e \<and> request_digest q = Inr (rv_binding_digest e)"
  using assms by (auto simp: reserve_state_def entry_of_def result_simps Let_def split: option.splits)

lemma settle_commits:
  assumes "settle_state pol s i epoch evidence = Inr (e, t, b)"
  shows "entry_of t i = Some e \<and> rv_state e = RS_COMMITTED"
  using assms by (auto simp: settle_state_def entry_of_def result_simps Let_def split: if_splits)

lemma moved_kept:
  assumes "moved_reservation j e epoch s = Inr t" "entry_of s (jb_reservation_id j) = Some e"
  shows "entries_kept s t"
  using assms by (auto simp: moved_reservation_def entries_kept_def entry_of_def result_simps split: if_splits)

lemma job_chargedI:
  assumes "entry_of s (jb_reservation_id j) = Some e" "request_digest (job_request j) = Inr (rv_binding_digest e)"
    and "jb_state j = JS_CLAIMED"
  shows "job_charged s j"
  using assms by (simp add: job_charged_def)

lemma charged_entry:
  assumes "job_charged s j" "jb_state j \<noteq> JS_QUEUED"
  obtains e where "entry_of s (jb_reservation_id j) = Some e" "request_digest (job_request j) = Inr (rv_binding_digest e)"
  using assms by (auto simp: job_charged_def)

lemma claimed_fields:
  assumes "claimed_job j worker epoch lease now = Inr j'"
  shows "jb_reservation_id j' = jb_reservation_id j" "job_request j' = job_request j"
    "jb_state j' = (if jb_state j \<in> {JS_STARTED, JS_UNKNOWN} then JS_UNKNOWN else JS_CLAIMED)"
  using claimed_job_eq [OF assms] by (auto simp: job_request_def Let_def)

lemma takeover_charged:
  assumes "takeover_change pol p worker epoch lease now s j = Inr (Inr (t, j'))" "job_charged s j"
  shows "entries_kept s t \<and> job_charged t j'"
  using assms(1)
proof (rule takeover_cases)
  fix e s1 b s2
  assume st: "jb_state j \<in> {JS_CLAIMED, JS_STARTED, JS_UNKNOWN}" and r: "reserve_state pol s (job_request j) epoch now = Inr (e, s1, b)"
    and m: "moved_reservation j e epoch s1 = Inr s2" and c: "claimed_job j worker epoch lease now = Inr j'"
    and u: "t = s2 \<or> jb_state j = JS_STARTED \<and> (\<exists>evidence e' b. unknown_state pol s2 (jb_reservation_id j) epoch evidence now = Inr (e', t, b))"
  have e: "entry_of s1 (jb_reservation_id j) = Some e" using reserve_binds [OF r] by simp
  have "entries_kept s s1" using transitions_forward(3) [OF r] by (rule forward_kept)
  moreover have "entries_kept s2 t" using u by (auto dest!: transitions_forward(6) forward_kept)
  ultimately have k: "entries_kept s t" using moved_kept [OF m e] by (blast intro: entries_kept_trans)
  have ch: "job_charged t j" using assms(2) k by (rule kept_charged)
  then have "job_charged t j'" using st by (auto simp: job_charged_def claimed_fields [OF c])
  with k show ?thesis by blast
qed

lemma begin_charged:
  assumes "begin_change pol c now s j = Inr (Inr (t, j'))" "job_charged s j"
  shows "entries_kept s t \<and> job_charged t j'"
  using assms(1)
proof (rule begin_cases)
  fix e again b
  assume st: "jb_state j = JS_CLAIMED" and d: "dispatch_state pol s (jb_reservation_id j) (jc_governor_epoch c) now = Inr ((True, e, again), t, b)"
    and j': "j' = j\<lparr>jb_state := JS_STARTED\<rparr>"
  have k: "entries_kept s t" using transitions_forward(4) [OF d] by (rule forward_kept)
  obtain e0 where e0: "entry_of t (jb_reservation_id j) = Some e0" "request_digest (job_request j) = Inr (rv_binding_digest e0)"
    using kept_charged [OF assms(2) k] by (rule charged_entry) (simp_all add: st)
  have "entry_of t (jb_reservation_id j) = Some e \<and> rv_state e = RS_DISPATCHED" using d by (rule dispatch_state_cases) (auto simp: entry_of_def)
  with e0 have "job_charged t j'" by (simp add: job_charged_def j' job_request_cong [of "j\<lparr>jb_state := JS_STARTED\<rparr>" j])
  with k show ?thesis by blast
qed

lemma finish_charged:
  assumes "finish_change pol c r now s j = Inr (Inr (t, j'))" "job_charged s j"
  shows "entries_kept s t \<and> job_charged t j'"
  using assms(1)
proof (rule finish_cases)
  fix e b
  assume st: "jb_state j = JS_STARTED" and d: "settle_state pol s (jb_reservation_id j) (jc_governor_epoch c) (response_digest r) = Inr (e, t, b)"
    and j': "j' = j\<lparr>jb_state := JS_DONE, jb_result_digest := Some (response_digest r)\<rparr>"
  have k: "entries_kept s t" using transitions_forward(7) [OF d] by (rule forward_kept)
  obtain e0 where e0: "entry_of t (jb_reservation_id j) = Some e0" "request_digest (job_request j) = Inr (rv_binding_digest e0)"
    using kept_charged [OF assms(2) k] by (rule charged_entry) (simp_all add: st)
  with settle_commits [OF d] have "job_charged t j'" by (simp add: job_charged_def j' job_request_cong [of j' j, unfolded j'])
  with k show ?thesis by blast
qed

lemma change_charged:
  assumes "job_change pol p now s job c = Inr (Inr (t, j'))" "case job of None \<Rightarrow> True | Some j \<Rightarrow> job_charged s j"
  shows "entries_kept s t \<and> job_charged t j'"
proof (cases c)
  case (SubmitJob e)
  with assms(1) have "submit_change pol p e now s job = Inr (Inr (t, j'))" by simp
  then show ?thesis by (rule submit_cases) (simp add: job_charged_def)
next
  case (ClaimJob task worker epoch lease)
  with assms obtain j where "claim_change pol p worker epoch lease now s j = Inr (Inr (t, j'))" by (auto simp: result_simps)
  then show ?thesis
  proof (rule claim_cases)
    fix e b
    assume st: "jb_state j = JS_QUEUED" and r: "reserve_state pol s (job_request j) epoch now = Inr (e, t, b)"
      and c: "claimed_job j worker epoch lease now = Inr j'"
    have "job_charged t j'" using reserve_binds [OF r] st by (simp add: job_charged_def claimed_fields [OF c])
    then show ?thesis using forward_kept [OF transitions_forward(3) [OF r]] by blast
  qed
next
  case (TakeoverJob task worker epoch lease)
  with assms takeover_charged show ?thesis by (fastforce simp: result_simps)
next
  case (RenewJob k lease)
  with assms obtain j where j: "renew_change k lease now s j = Inr (Inr (t, j'))" "job_charged s j" by (auto simp: result_simps)
  from j(1) show ?thesis
  proof (rule renew_cases)
    fix c' until
    assume "t = s" "jb_state j = JS_CLAIMED" "j' = j\<lparr>jb_claim := Some c'\<rparr>"
    with j(2) show ?thesis by (simp add: job_charged_def job_request_cong [of "j\<lparr>jb_claim := Some c'\<rparr>" j])
  qed
next
  case (BeginJob k)
  with assms begin_charged show ?thesis by (fastforce simp: result_simps)
next
  case (FinishJob k r)
  with assms finish_charged show ?thesis by (fastforce simp: result_simps)
qed (use assms(1) in simp)

lemma next_charged [simp]: "job_charged s (next_job b j now) = job_charged s j"
  by (simp add: job_charged_def job_request_cong [of "next_job b j now" j])

lemma step_charged:
  assumes "mission_step pol st c y st'" "jobs_charged st"
  shows "jobs_charged st'"
  using assms(1)
proof cases
  case (governor_step n1 n2 s c r s' js)
  then show ?thesis using assms(2) keeps_kept [OF step_keeps] kept_charged by (fastforce simp: jobs_charged_def)
next
  case (job_stored now s js c p t j j')
  have "case js (job_task c) of None \<Rightarrow> True | Some j \<Rightarrow> job_charged s j"
    using assms(2) job_stored(1) by (auto simp: jobs_charged_def split: option.splits)
  note c = change_charged [OF job_stored(6) this]
  have "job_charged t b" if "js u = Some b" for u b
    using c assms(2) job_stored(1) that kept_charged [of s b t] by (simp add: jobs_charged_def)
  then show ?thesis using c job_stored(4,9) by (auto simp: jobs_charged_def)
qed (use assms(2) in simp)

interpretation charging: mission_relation pol "\<lambda>st st'. jobs_charged st \<longrightarrow> jobs_charged st'" for pol
  by unfold_locales (auto intro: step_charged)

text \<open>Property C11. Between the two components: over any sequence of calls under faults, a job that was claimed has, in the
  snapshot of the governor, the reservation of its own request; when the job was begun that reservation was sent and
  stays charged, and when the job is done it is committed.\<close>

theorem started_jobs_stay_charged:
  assumes "mission_ready (gv_policy gv) T (length calls) db st" "within_tasks T calls" "mission_calls gv calls db = (rs, db')"
    and "jobs_charged st" "load_job (gv_policy gv) db' t = Inr (Some j)"
  shows "\<exists>s'. load_state (gv_policy gv) db' = Inr s' \<and> job_charged s' j"
proof -
  from mission_calls_trace [OF assms(1-3)] obtain st' where
    st': "mission_trace (gv_policy gv) st (answers calls rs) st'" "mission_ready (gv_policy gv) T 0 db' st'" .
  from charging.trace [OF st'(1)] assms(4) have "jobs_charged st'" by blast
  with st'(2) assms(5) show ?thesis by (auto simp: jobs_charged_def mission_ready_def)
qed

text \<open>Property C14. A governor call or a job call, on a database with room whose keys do not collide and under any fault,
  implements one step of the machine of snapshots and jobs: what it returns is an answer of that step, apart from a
  permission to begin that was withdrawn; with an error it changed nothing, or did one step whose answer was lost.\<close>

theorem mission_implements_machine:
  assumes "mission_ready (gv_policy gv) T (Suc k) db st" "case mission_task c of None \<Rightarrow> True | Some t \<Rightarrow> t \<in> T"
    and "mission_do gv env c db = (x, db')"
  shows "\<exists>st'. mission_ready (gv_policy gv) T k db' st' \<and>
    (case x of
       Inr y \<Rightarrow> \<exists>z. mission_step (gv_policy gv) st c z st' \<and> confirmed z y
     | Inl e \<Rightarrow> db' = db \<and> st' = st \<or> (\<exists>z. mission_step (gv_policy gv) st c z st'))"
  using assms by (rule mission_call_holds)

end
