(* ===== verification/Job_Liveness.thy ===== *)
theory Job_Liveness
  imports Job_Safety Governor_Liveness
begin

text \<open>
  The permission to begin a job is given when it should be: on a healthy database with room, the holder of a live claim
  is told to begin, and the marker of the reservation and the started job are stored together.
\<close>

section \<open>A job write succeeds\<close>

lemma job_text_canonical:
  "\<not> machine_path (''job-'' @ k)" "\<not> machine_path (''job-outbox-'' @ k)" "not_blank (''job-'' @ k)" "not_blank (''job-outbox-'' @ k)"
proof -
  show "\<not> machine_path (''job-'' @ k)" by (rule not_machine_path [of _ "CHR ''j''" "CHR ''o''" "''b-'' @ k"]) simp_all
  show "\<not> machine_path (''job-outbox-'' @ k)" by (rule not_machine_path [of _ "CHR ''j''" "CHR ''o''" "''b-outbox-'' @ k"]) simp_all
  show "not_blank (''job-'' @ k)" "not_blank (''job-outbox-'' @ k)" by (simp_all add: not_blank_Cons py_space_def)
qed

lemma canonical_exists: "canonical_ok v \<Longrightarrow> canonical_sha256 v = Inr (sha256_text (dumps_raw v))"
  by (simp add: canonical_sha256_def)

text \<open>The key of a version is free.\<close>

definition job_room :: "string \<Rightarrow> gov_db \<Rightarrow> bool" where
  "job_room k db \<longleftrightarrow>
     k \<notin> op_id ` set (db_operations db) \<and> ''job-'' @ k \<notin> ar_id ` set (db_audit db) \<and> ''job-outbox-'' @ k \<notin> ox_id ` set (db_outbox db)"

lemma state_value_canonical [simp]: "\<not> machine_path (job_state_value st)"
proof -
  have "list_all (\<lambda>st. \<not> machine_path (job_state_value st)) [JS_QUEUED, JS_CLAIMED, JS_STARTED, JS_UNKNOWN, JS_DONE]" by code_simp
  then show ?thesis by (cases st) simp_all
qed

lemma job_kind_canonical [simp]: "\<not> machine_path JOB_KIND" "not_blank JOB_KIND"
  by code_simp+

lemma write_job_succeeds:
  assumes c: "domain_chain (gp_scope pol) db = Inr events" and p: "storable p" "pr_scope p = gp_scope pol" "purpose \<in> {CC_COMMIT, CC_MANAGE}"
    and k: "job_key pol (jb_task_id changed) (jb_version (next_job before changed now)) = Inr k" and free: "job_room k db"
    and env: "parse_envelope (jb_envelope changed) = Inr ()" and quota: "case before of None \<Rightarrow> True | Some b \<Rightarrow> jb_version b < 128"
    and canon: "canonical_ok (job_option_json before)" "canonical_ok (job_json (next_job before changed now))" and now: "now \<le> MAX_TIMESTAMP"
    and scope: "canonical_ok (owner_scope_json (pr_scope p))"
  shows "\<exists>db'. write_job pol p purpose before changed now db = Inr db'"
proof -
  let ?j = "next_job before changed now"
  let ?prior = "sha256_text (dumps_raw (job_option_json before))"
  let ?o = "\<lparr>jo_job = ?j, jo_prior_digest = ?prior\<rparr>"
  have key: "sha256_hex_text k" "length k = 64" using canonical_sha256_hex [OF k [unfolded job_key_def]] by (simp_all add: sha256_hex_text_def)
  have oc: "canonical_ok (job_outcome_json ?o)" using canon(2) by (simp add: job_outcome_json_def)
  let ?d = "sha256_text (dumps_raw (job_outcome_json ?o))"
  let ?b = "\<lparr>ob_idempotency_key = k, ob_operation_kind = JOB_KIND, ob_payload_digest = ?d\<rparr>"
  have bind: "operation_bind k JOB_KIND (job_outcome_json ?o) = Inr ?b"
    using canonical_exists [OF oc] key by (simp add: operation_bind_def require_non_empty_def not_blank_def [symmetric] JOB_KIND_def)
      (simp add: not_blank_Cons py_space_def)
  have texts: "\<forall>t. map_option (\<lambda>b. job_state_value (jb_state b)) before = Some t \<longrightarrow> \<not> machine_path t" by auto
  have fresh: "k \<notin> op_id ` set (db_operations db)" "''job-'' @ k \<notin> ar_id ` set (db_audit db)"
    "''job-outbox-'' @ k \<notin> ox_id ` set (db_outbox db)" using free unfolding job_room_def by blast+
  obtain db1 where app: "append_job_event p purpose ?b before ?j now db = Inr db1" "db_operations db1 = db_operations db"
    using append_succeeds [OF c [folded p(2)] p(1) fresh(2) job_text_canonical(3,1) _ fresh(3) job_text_canonical(4,2) _ _ _ texts,
        of k "job_state_value (jb_state ?j)" "sha256_text (dumps_raw (job_json ?j))" ?b "utc (now * 1000000)" purpose]
      key canonical_exists [OF canon(2)] now p(3)
    by (auto simp: append_job_event_def utc_def)
  have "get_operation db k = None" using fresh(1) by (auto simp: get_operation_def find_None_iff)
  moreover have "RK_OPERATION \<in> set (write_kinds purpose)" using p(3) by auto
  ultimately show ?thesis
    using fresh(1) env quota canonical_exists [OF canon(1)] k bind app oc key scope
    by (auto simp: write_job_def Let_def execute_once_def stored_record_def
        insert_checks_def require_non_empty_def not_blank_def [symmetric])
qed

section \<open>A healthy worker is told to begin\<close>

lemma job_room_added:
  assumes "job_room k db" "db_operations db' = db_operations db @ [row]" "op_id row \<noteq> k"
    and "map ar_id (db_audit db') = map ar_id (db_audit db) @ [''governor-'' @ g]"
    and "map ox_id (db_outbox db') = map ox_id (db_outbox db) @ [''governor-outbox-'' @ g]"
  shows "job_room k db'"
proof -
  have "ar_id ` set (db_audit db') = ar_id ` set (db_audit db) \<union> {''governor-'' @ g}"
    "ox_id ` set (db_outbox db') = ox_id ` set (db_outbox db) \<union> {''governor-outbox-'' @ g}"
    using arg_cong [OF assms(4), of set] arg_cong [OF assms(5), of set] by simp_all
  with assms(1-3) show ?thesis by (auto simp: job_room_def)
qed

lemma started_canonical:
  assumes "canonical_ok (job_json b)"
  shows "canonical_ok (job_json (next_job (Some b) (b\<lparr>jb_state := JS_STARTED\<rparr>) now))"
  using assms state_value_canonical [of JS_STARTED] by (simp add: job_json_def opt_str_def split: option.splits)

text \<open>What a healthy begin needs: the claim is stored and live, the reservation was not sent, the governor lets it through.\<close>

definition can_begin :: "governor_policy \<Rightarrow> mission_state \<Rightarrow> job_claim \<Rightarrow> job \<Rightarrow> int \<Rightarrow> bool" where
  "can_begin pol st c b now \<longleftrightarrow>
     snd st (jc_task_id c) = Some b \<and> jb_claim b = Some c \<and> jb_state b = JS_CLAIMED \<and> jb_version b < 128
     \<and> jb_last_now b \<le> now \<and> now < jc_lease_until c \<and> now < je_deadline_at (jb_envelope b)
     \<and> check_clock pol (fst st) now = Inr () \<and> \<not> gs_kill (fst st) \<and> jc_governor_epoch c = gs_epoch (fst st)
     \<and> (\<exists>e ck. entry_of (fst st) (jb_reservation_id b) = Some e \<and> rv_state e = RS_RESERVED \<and> rv_epoch e = gs_epoch (fst st)
          \<and> dict_get (gs_circuits (fst st)) (rv_provider_id e) = Some ck \<and> ck_state ck = CIRCUIT_CLOSED)"

lemma begin_callback:
  assumes r: "mission_ready pol T (Suc k) db (s, js)" and b: "can_begin pol (s, js) c b now"
    and room: "audit_room pol (gs_version s + 1) db" "job_key pol (jc_task_id c) (jb_version b + 1) = Inr key" "job_room key db"
      "gov_key pol (gs_version s + 1) \<noteq> Inr key"
    and p: "storable p" "pr_scope p = gp_scope pol" and now: "now \<le> MAX_TIMESTAMP"
  shows "\<exists>db'. job_callback pol p now (BeginJob c) db
    = Inr (JBegin True (next_job (Some b) (b\<lparr>jb_state := JS_STARTED\<rparr>) now), db')"
proof -
  have l: "load_state pol db = Inr s" "load_job pol db (jc_task_id c) = Inr (js (jc_task_id c))" "keys_distinct pol (gs_version s + 1)"
    "length (db_audit db) < 1023"
    using r by (auto simp: mission_ready_def intro: keys_distinct_mono)
  from b obtain e ck where g: "js (jc_task_id c) = Some b" "jb_claim b = Some c" "jb_state b = JS_CLAIMED" "jb_version b < 128"
    "jb_last_now b \<le> now" "now < jc_lease_until c" "now < je_deadline_at (jb_envelope b)" "check_clock pol s now = Inr ()"
    "\<not> gs_kill s" "jc_governor_epoch c = gs_epoch s" "entry_of s (jb_reservation_id b) = Some e" "rv_state e = RS_RESERVED"
    "rv_epoch e = gs_epoch s" "dict_get (gs_circuits s) (rv_provider_id e) = Some ck" "ck_state ck = CIRCUIT_CLOSED"
    by (auto simp: can_begin_def)
  have "load_job pol db (jc_task_id c) = Inr (Some b)" using l(2) g(1) by simp
  note job = loaded_job [OF this]
  let ?e = "e\<lparr>rv_state := RS_DISPATCHED\<rparr>" and ?b = "b\<lparr>jb_state := JS_STARTED\<rparr>"
  let ?t = "set_entry (jb_reservation_id b) ?e s"
  note v = loaded_entry [OF l(1) g(11)]
  have bu: "budgets pol s = Inr ()" "1 \<le> gs_epoch s" "clock_value (gs_last_now s)" using v(1) by (simp_all add: validate_def result_simps)
  then obtain m where m: "gs_last_now s = Some m" "0 \<le> m" by (auto simp: clock_value_def split: option.splits)
  with g(8) have pos: "0 \<le> now" by (simp add: result_simps)
  have big: "now \<le> 9007199254740992" using now by (simp add: MAX_TIMESTAMP_def)
  have disp: "dispatch_state pol s (jb_reservation_id b) (gs_epoch s) now = Inr ((True, ?e, False), ?t, True)"
    using g(8,9,11-15) bu by (simp add: dispatch_state_def Let_def result_simps entry_of_def get_entry_def check_epoch_def get_circuit_def)
  have guards: "job_guards pol now s (Some b) (BeginJob c) = Inr ()"
    using g(5,8) bu(2) by (simp add: job_guards_def is_inspect_def result_simps)
  have epoch: "check_epoch s (gs_epoch s) = Inr ()" using bu(2) by (simp add: check_epoch_def result_simps)
  have change: "begin_change pol c now s b = Inr (Inr (?t, ?b))"
    using g job(2) disp epoch by (simp add: begin_change_def holder_guards_def lease_guard_def)
  have "validate pol (stamped s ?t now) = Inr ()" using validate_dispatch [OF v(1) g(11,12) pos big] .
  moreover have "canonical_ok (state_json (stamped s ?t now))" by (rule canonical_dispatch [OF load_canonical [OF l(1)] g(11)])
  ultimately obtain db1 where w: "write_state pol p CC_COMMIT s ?t now None db = Inr db1"
    using write_succeeds [OF l(1,3) room(1) _ _ p _ now, of ?t CC_COMMIT] by auto
  from write_state_adds [OF w fresh_key [OF l(1,3)] p(2) l(4)] obtain row where
    row: "added pol db db1 row" "gov_key pol (gs_version s + 1) = Inr (op_id row)"
    "map ar_id (db_audit db1) = map ar_id (db_audit db) @ [''governor-'' @ op_id row]"
    "map ox_id (db_outbox db1) = map ox_id (db_outbox db) @ [''governor-outbox-'' @ op_id row]" by auto
  obtain events where chain: "domain_chain (gp_scope pol) db1 = Inr events" using row(1) by (auto simp: added_def)
  have free: "job_room key db1"
    using job_room_added [OF room(3) _ _ row(3,4)] row(1,2) room(4) by (auto simp: added_def)
  have key: "job_key pol (jb_task_id ?b) (jb_version (next_job (Some b) ?b now)) = Inr key" using room(2) job(5) by simp
  have scope: "canonical_ok (owner_scope_json (pr_scope p))" using policy_canonical [OF load_versions(4) [OF l(1)]] p(2) by simp
  obtain db2 where "write_job pol p CC_COMMIT (Some b) ?b now db1 = Inr db2"
    using write_job_succeeds [OF chain p _ key free _ _ _ started_canonical [OF job(6)] now scope, of CC_COMMIT] job(2,6) g(4)
    by (auto simp: job_option_json_def)
  with l g(1) guards change w show ?thesis by (simp add: job_callback_def result_simps required_job_def)
qed

lemma begin_run:
  assumes "mission_ready (gv_policy gv) T (Suc k) db (s, js)" "can_begin (gv_policy gv) (s, js) c b n1"
    and "audit_room (gv_policy gv) (gs_version s + 1) db" "job_key (gv_policy gv) (jc_task_id c) (jb_version b + 1) = Inr key"
    and "job_room key db" "gov_key (gv_policy gv) (gs_version s + 1) \<noteq> Inr key"
    and "storable (ce_principal env)" "pr_scope (ce_principal env) = gp_scope (gv_policy gv)"
    and "gov_require gv (ce_principal env) CC_COMMIT (fst (ce_require env)) = Inr ()" "commits gv env CC_COMMIT"
    and "read_now (fst (ce_now env)) = Inr n1" "n1 \<le> MAX_TIMESTAMP"
    and "read_now (snd (ce_now env)) = Inr n2" "n1 \<le> n2" "n2 < jc_lease_until c" "n2 - n1 \<le> gp_max_clock_step_seconds (gv_policy gv)"
  shows "\<exists>db'. change_job gv env (BeginJob c) db
    = (Inr (JBegin True (next_job (Some b) (b\<lparr>jb_state := JS_STARTED\<rparr>) n1)), db')"
proof -
  let ?pol = "gv_policy gv" and ?j = "next_job (Some b) (b\<lparr>jb_state := JS_STARTED\<rparr>) n1"
  obtain db' where cb: "job_callback ?pol (ce_principal env) n1 (BeginJob c) db = Inr (JBegin True ?j, db')"
    using begin_callback [OF assms(1-8,12)] by blast
  have "load_job ?pol db (jc_task_id c) = Inr (Some b)" "jb_claim b = Some c"
    using assms(1,2) by (simp_all add: mission_ready_def can_begin_def)
  then have claim: "make_claim c = Inr ()" using loaded_job(1) [of ?pol db "jc_task_id c" b] by (auto simp: job_ok_def check_job_claim_def result_simps)
  then have "check_identity (jc_task_id c) = Inr ()" by (auto simp: make_claim_def result_simps)
  with claim have args: "job_arguments ?pol (BeginJob c) = Inr ()" by simp
  have "confirm_step ?pol (BeginJob c) n1 (snd (ce_now env)) (JBegin True ?j) = Inr (JBegin True ?j)"
    using assms(13-16) by (simp add: confirm_step_def)
  then show ?thesis
    using assms(9,11) args run_call_commits [OF assms(10), of "job_callback ?pol (ce_principal env) n1 (BeginJob c)", OF cb]
    by (simp add: change_job_def guarded_def is_inspect_def)
qed

text \<open>Property C19. A healthy worker is told to begin: on a database that loads and has room, with a principal admitted for the
  commit purpose, sound readings of the clock and an attempt that commits, the holder of the stored, live claim of a
  job whose reservation was not sent gets the permission, and with it the started job that the next call loads.\<close>

theorem healthy_begin_succeeds:
  assumes "mission_ready (gv_policy gv) T (Suc k) db (s, js)" "can_begin (gv_policy gv) (s, js) c b n1"
    and "audit_room (gv_policy gv) (gs_version s + 1) db" "job_key (gv_policy gv) (jc_task_id c) (jb_version b + 1) = Inr key"
    and "job_room key db" "gov_key (gv_policy gv) (gs_version s + 1) \<noteq> Inr key"
    and "storable (ce_principal env)" "pr_scope (ce_principal env) = gp_scope (gv_policy gv)"
    and "gov_require gv (ce_principal env) CC_COMMIT (fst (ce_require env)) = Inr ()" "commits gv env CC_COMMIT"
    and "read_now (fst (ce_now env)) = Inr n1" "n1 \<le> MAX_TIMESTAMP"
    and "read_now (snd (ce_now env)) = Inr n2" "n1 \<le> n2" "n2 < jc_lease_until c" "n2 - n1 \<le> gp_max_clock_step_seconds (gv_policy gv)"
  shows "\<exists>db'. change_job gv env (BeginJob c) db
    = (Inr (JBegin True (next_job (Some b) (b\<lparr>jb_state := JS_STARTED\<rparr>) n1)), db')"
  using assms by (rule begin_run)

end
