(* ===== verification/Job_Scenario.thy ===== *)
theory Job_Scenario
  imports Job_Liveness Governor_Scenario
begin

text \<open>
  The governor of the scenario with one claimed job: the snapshot holds its reservation, the job was written by the
  model's own \<^verbatim>\<open>_write_job\<close>. The two keys of the job are evaluated through SHA-256. On this database the theorems on jobs
  are instantiated.
\<close>

section \<open>The job and its reservation\<close>

definition jx_envelope :: job_envelope where
  "jx_envelope = \<lparr>je_scope = gx_scope, je_task_id = ''job1'', je_request_id = ''r1'', je_request_digest = replicate 64 CHR ''a'',
     je_model_id = JOB_MODEL, je_output_schema = ADVICE_SCHEMA, je_max_output_tokens = 100, je_request_timeout = 10,
     je_deadline_at = 2000, je_money_nano = 10, je_risk_units = 1\<rparr>"

definition jx_key :: "int \<Rightarrow> string" where
  "jx_key v = sha256_text (dumps_raw (JArr [JStr JOB_KIND, owner_scope_json gx_scope, JStr ''d'', JStr ''job1'', JInt v]))"

definition jx_claim :: job_claim where
  "jx_claim = \<lparr>jc_task_id = ''job1'', jc_envelope_digest = envelope_digest jx_envelope, jc_worker_id = ''w1'', jc_fence = 1,
     jc_governor_epoch = 1, jc_lease_until = 1060\<rparr>"

definition jx_job :: job where
  "jx_job = \<lparr>jb_version = 0, jb_envelope = jx_envelope, jb_state = JS_CLAIMED, jb_claim = Some jx_claim, jb_result_digest = None,
     jb_reservation_id = ''job-'' @ jx_key 0, jb_last_now = 1000\<rparr>"

definition jx_entry :: reservation where
  "jx_entry = \<lparr>rv_request = job_request jx_job, rv_binding_digest = sha256_text (dumps_raw (JObj (request_fields (job_request jx_job)))),
     rv_epoch = 1, rv_state = RS_RESERVED, rv_evidence_digest = None, rv_no_dispatch_proof = None\<rparr>"

definition jx_state :: gov_state where
  "jx_state = \<lparr>gs_policy_digest = sha256_text (dumps_raw (policy_json gx_policy)), gs_version = 1, gs_epoch = 1, gs_kill = False,
     gs_last_now = Some 1000, gs_reservations = [(''job-'' @ jx_key 0, jx_entry)], gs_circuits = [(''nebius'', new_circuit)],
     gs_money_policy = None\<rparr>"

definition jx_stored :: job where
  "jx_stored = next_job None jx_job 1000"

definition jx_jobs :: "string \<Rightarrow> job option" where
  "jx_jobs = [''job1'' \<mapsto> jx_stored]"

lemma job_identity: "sha256_hex_text h \<Longrightarrow> is_identity (''job-'' @ h)"
  by (auto simp: is_identity_def sha256_hex_text_def list_all_iff hex_lower_def identity_char_def ascii_alnum_def ascii_letter_def
      ascii_digit_def char_between_def)

lemma jx_texts [simp]:
  "\<not> machine_path ''job1''" "\<not> machine_path ''r1''" "\<not> machine_path ''w1''" "\<not> machine_path ''nebius''" "\<not> machine_path JOB_MODEL"
  "\<not> machine_path ADVICE_SCHEMA" "is_identity ''job1''" "is_identity ''r1''" "is_identity ''w1''" "is_identity ''nebius''" "is_identity JOB_MODEL"
  "\<not> machine_path ''aioa.offline-advisory-job.v1''" "\<not> machine_path ''NONE''" "\<not> machine_path ''OFFLINE''" "\<not> machine_path ''UNVERIFIED''"
  by code_simp+

lemma jx_keys: "job_key gx_policy ''job1'' v = Inr (jx_key v)" "sha256_hex_text (jx_key v)"
  using gx_scope_canonical by (simp_all add: job_key_def canonical_sha256_def jx_key_def gx_policy_def)

lemma jx_rid: "is_identity (''job-'' @ jx_key v)" "reservation_id gx_policy ''job1'' = Inr (''job-'' @ jx_key 0)"
  using job_identity [OF jx_keys(2)] by (simp_all add: reservation_id_def jx_keys)

lemma jx_envelope_body: "canonical_ok (envelope_body jx_envelope)" "canonical_ok (envelope_value jx_envelope)"
proof -
  have "canonical_ok (scope_binding gx_scope)" by (simp add: scope_binding_def gx_scope_def)
  then show "canonical_ok (envelope_body jx_envelope)" "canonical_ok (envelope_value jx_envelope)"
    using gx_scope_canonical by (simp_all add: envelope_body_def envelope_value_def envelope_fields_def jx_envelope_def envelope_digest_def)
qed

lemma jx_parse: "parse_envelope jx_envelope = Inr ()"
proof -
  have "valid_owner_scope gx_scope" by (simp add: gx_scope_def) code_simp
  then show ?thesis using jx_envelope_body(1)
    by (simp add: parse_envelope_def make_envelope_def result_simps)
       (simp add: jx_envelope_def is_amount_def MAX_AMOUNT_def)
qed

lemma jx_claim_ok: "make_claim jx_claim = Inr ()"
  by (simp add: make_claim_def jx_claim_def result_simps envelope_digest_def)

lemma jx_job_ok: "job_ok gx_policy jx_job"
  using jx_claim_ok jx_rid(2)
  by (simp add: job_ok_def jx_job_def check_job_claim_def result_simps) (simp add: jx_envelope_def jx_claim_def gx_policy_def)

lemma jx_request: "check_request (job_request jx_job) = Inr ()"
  using jx_rid(1)
  by (simp add: check_request_def job_request_def jx_job_def result_simps envelope_digest_def)
     (simp add: jx_envelope_def is_amount_def MAX_AMOUNT_def)

lemma jx_request_canonical: "list_all (\<lambda>kv. canonical_ok (snd kv)) (request_fields (job_request jx_job))"
  using job_text_canonical
  by (simp add: request_fields_def job_request_def jx_job_def envelope_digest_def) (simp add: jx_envelope_def)

section \<open>The snapshot\<close>

lemma jx_entry_fields [simp]:
  "rv_money jx_entry = 10" "rv_risk jx_entry = 1" "rv_state jx_entry = RS_RESERVED" "rv_epoch jx_entry = 1" "rv_provider_id jx_entry = ''nebius''"
  by (simp_all add: jx_entry_def job_request_def jx_job_def) (simp_all add: jx_envelope_def)

lemma jx_state_fields [simp]:
  "gs_version jx_state = 1" "gs_epoch jx_state = 1" "\<not> gs_kill jx_state" "gs_last_now jx_state = Some 1000"
  "gs_reservations jx_state = [(''job-'' @ jx_key 0, jx_entry)]" "gs_circuits jx_state = [(''nebius'', new_circuit)]"
  "gs_money_policy jx_state = None" "gs_policy_digest jx_state = sha256_text (dumps_raw (policy_json gx_policy))"
  by (simp_all add: jx_state_def)

lemma jx_state_canonical: "canonical_ok (state_json jx_state)"
proof -
  have "canonical_ok (reservation_json jx_entry)"
    using jx_request_canonical by (simp add: reservation_json_def opt_str_def) (simp add: jx_entry_def)
  then show ?thesis using job_text_canonical
    by (simp add: state_json_def opt_int_def circuit_json_def new_circuit_def opt_str_def)
qed

lemma jx_valid_entry: "validate_reservation jx_state (''job-'' @ jx_key 0, jx_entry) = Inr ()"
proof -
  have "rq_request_id (job_request jx_job) = ''job-'' @ jx_key 0" by (simp add: jx_job_def)
  then show ?thesis using jx_request jx_request_canonical
    by (simp add: validate_reservation_def result_simps request_digest_def valid_proof_def)
      (simp add: jx_entry_def result_simps Let_def)
qed

lemma jx_budgets: "budgets gx_policy jx_state = Inr ()"
proof -
  have "live (gs_reservations jx_state) = [jx_entry]" by (simp add: live_def)
  moreover have "bucket_total P [jx_entry] = (if P jx_entry then \<lparr>bk_money = 10, bk_risk = 1\<rparr> else \<lparr>bk_money = 0, bk_risk = 0\<rparr>)" for P
    by (simp add: bucket_total_def)
  ultimately show ?thesis
    by (simp add: budgets_within amounts_ok_def within_ceilings_def is_amount_def MAX_AMOUNT_def ceiling_ok_def money_ceiling_def gx_policy_def)
qed

lemma jx_valid: "validate gx_policy jx_state = Inr ()"
proof -
  have "validate_circuit jx_state (''nebius'', new_circuit) = Inr ()"
    by (simp add: validate_circuit_def result_simps new_circuit_def is_amount_def MAX_AMOUNT_def)
  then show ?thesis using jx_valid_entry jx_budgets
    by (simp add: validate_def result_simps MAX_AMOUNT_def clock_value_def)
qed

lemma jx_load: "load_state gx_policy (first_db jx_state) = Inr jx_state"
  by (rule first_load [OF jx_valid jx_state_canonical]) simp_all

lemma jx_no_jobs: "load_job gx_policy (first_db jx_state) t = Inr None"
proof -
  have "job_rows (first_db jx_state) = []" using kinds_differ by (simp add: job_rows_def first_db_def first_row_def)
  moreover have "domain_chain (gp_scope gx_policy) (first_db jx_state) = Inr []"
    by (auto simp: domain_chain_eq first_db_def verify_audit_chain_def)
  ultimately have "load_jobs gx_policy (first_db jx_state) = Inr []" by (simp add: load_jobs_eq) (simp add: first_db_def)
  then show ?thesis by (simp add: load_job_eq)
qed

section \<open>The keys of the job\<close>

definition jx_key_text :: "int \<Rightarrow> string" where
  "jx_key_text v = dumps_raw (JArr [JStr JOB_KIND, owner_scope_json gx_scope, JStr ''d'', JStr ''job1'', JInt v])"

lemma job_first_block:
  "sha_block [1528979817, 1868639599, 1717988457, 1852124513, 1685481843, 1869773101, 1785684525, 1982931500,
      2065854327, 1852142175, 1768170042, 577708588, 577989743, 1952409956, 574235256, 573317747] H256
   = [3465692561, 4140540646, 2449629111, 3163500378, 813124426, 3967804189, 1137887463, 3052712167]"
  by code_simp

lemma job_second_block_1:
  "sha_block [1885430629, 1600742434, 975336226, 740455525, 1851879028, 1600742434, 975336482, 2100044388,
      573317738, 1868706082, 741432704, 0, 0, 0, 0, 856]
      [3465692561, 4140540646, 2449629111, 3163500378, 813124426, 3967804189, 1137887463, 3052712167]
   = [1312621641, 578325503, 1266585313, 1284931716, 184057481, 4178293207, 2269115079, 2888111379]"
  by code_simp

lemma job_second_block_2:
  "sha_block [1885430629, 1600742434, 975336226, 740455525, 1851879028, 1600742434, 975336482, 2100044388,
      573317738, 1868706082, 741498240, 0, 0, 0, 0, 856]
      [3465692561, 4140540646, 2449629111, 3163500378, 813124426, 3967804189, 1137887463, 3052712167]
   = [2975478629, 2237141966, 1204862724, 1502384652, 1340438273, 2378302400, 650197725, 903631675]"
  by code_simp

lemma job_key_words:
  "words_of (sha_pad (utf8 (jx_key_text 1))) =
     [1528979817, 1868639599, 1717988457, 1852124513, 1685481843, 1869773101, 1785684525, 1982931500,
      2065854327, 1852142175, 1768170042, 577708588, 577989743, 1952409956, 574235256, 573317747] @
     [1885430629, 1600742434, 975336226, 740455525, 1851879028, 1600742434, 975336482, 2100044388,
      573317738, 1868706082, 741432704, 0, 0, 0, 0, 856]"
  "words_of (sha_pad (utf8 (jx_key_text 2))) =
     [1528979817, 1868639599, 1717988457, 1852124513, 1685481843, 1869773101, 1785684525, 1982931500,
      2065854327, 1852142175, 1768170042, 577708588, 577989743, 1952409956, 574235256, 573317747] @
     [1885430629, 1600742434, 975336226, 740455525, 1851879028, 1600742434, 975336482, 2100044388,
      573317738, 1868706082, 741498240, 0, 0, 0, 0, 856]"
  by code_simp+

lemma job_key_digests:
  "sha_blocks (words_of (sha_pad (utf8 (jx_key_text 1)))) H256
   = [1312621641, 578325503, 1266585313, 1284931716, 184057481, 4178293207, 2269115079, 2888111379]"
  "sha_blocks (words_of (sha_pad (utf8 (jx_key_text 2)))) H256
   = [2975478629, 2237141966, 1204862724, 1502384652, 1340438273, 2378302400, 650197725, 903631675]"
  unfolding job_key_words
  by (subst two_blocks, simp, simp, simp only: job_first_block job_second_block_1 job_second_block_2)+

text \<open>The four keys of the scenario start differently.\<close>

lemma key_starts:
  "take 8 (gx_key 1) = hex_word 2860698843" "take 8 (gx_key 2) = hex_word 2760288368"
  "take 8 (jx_key 1) = hex_word 1312621641" "take 8 (jx_key 2) = hex_word 2975478629"
  by (simp_all add: gx_key_def gx_key_text_def [symmetric] jx_key_def jx_key_text_def [symmetric] sha256_text_def sha256_hex_def
      key_digests job_key_digests hex_word_shape)

lemma keys_differ: "distinct [gx_key 1, gx_key 2, jx_key 1, jx_key 2]"
proof -
  have "distinct [hex_word 2860698843, hex_word 2760288368, hex_word 1312621641, hex_word 2975478629]" by code_simp
  then have "distinct (map (take 8) [gx_key 1, gx_key 2, jx_key 1, jx_key 2])" by (simp add: key_starts del: distinct.simps)
  then show ?thesis unfolding distinct_map by blast
qed

section \<open>The database with the job\<close>

lemma jx_principal: "storable gx_principal" "pr_scope gx_principal = gp_scope gx_policy" "canonical_ok (owner_scope_json (pr_scope gx_principal))"
proof -
  show "storable gx_principal" by (simp add: storable_def scope_texts_def) (simp add: gx_scope_def not_blank_Cons py_space_def)
qed (simp_all add: gx_scope_canonical gx_policy_def)

lemma jx_job_canonical: "canonical_ok (job_json jx_stored)"
proof -
  have "canonical_ok (claim_json jx_claim)" by (simp add: claim_json_def jx_claim_def envelope_digest_def)
  then show ?thesis using jx_envelope_body(2) job_text_canonical state_value_canonical [of JS_CLAIMED]
    by (simp add: job_json_def jx_stored_def opt_str_def) (simp add: jx_job_def)
qed

lemma jx_database:
  obtains db where "load_state gx_policy db = Inr jx_state" "\<forall>t. load_job gx_policy db t = Inr (jx_jobs t)"
    "map op_id (db_operations db) = [gx_key 1, jx_key 1]" "map ar_id (db_audit db) = [''job-'' @ jx_key 1]"
    "map ox_id (db_outbox db) = [''job-outbox-'' @ jx_key 1]"
proof -
  let ?db = "first_db jx_state"
  have ids: "map op_id (db_operations ?db) = [gx_key 1]" "db_audit ?db = []" "db_outbox ?db = []" "job_rows ?db = []"
    using kinds_differ by (simp_all add: first_db_def first_row_def job_rows_def)
  have chain: "domain_chain (gp_scope gx_policy) ?db = Inr []" by (auto simp: domain_chain_eq ids verify_audit_chain_def)
  have version: "jb_version (next_job None jx_job 1000) = 1" "jb_task_id jx_job = ''job1''"
    by (simp_all add: next_job_def) (simp add: jx_job_def jx_envelope_def)
  have key: "job_key gx_policy (jb_task_id jx_job) (jb_version (next_job None jx_job 1000)) = Inr (jx_key 1)" by (simp add: version jx_keys)
  have "gx_key 1 \<noteq> jx_key 1" using keys_differ by auto
  then have free: "job_room (jx_key 1) ?db" using ids by (simp add: job_room_def) (simp add: first_db_def first_row_def)
  have none: "canonical_ok (job_option_json None)" by (simp add: job_option_json_def)
  have parse: "parse_envelope (jb_envelope jx_job) = Inr ()" using jx_parse by (simp add: jx_job_def)
  from write_job_succeeds [OF chain jx_principal(1,2) _ key free parse _ none jx_job_canonical [unfolded jx_stored_def] _ jx_principal(3), of CC_COMMIT]
  obtain db where w: "write_job gx_policy gx_principal CC_COMMIT None jx_job 1000 ?db = Inr db" by (auto simp: MAX_TIMESTAMP_def)
  have empty: "length (db_audit ?db) < 1023" "length (db_operations ?db) < 1023" by (simp_all add: first_db_def)
  from write_job_shape [OF w _ jx_principal(2) empty(1)] ids(4) obtain row where
    row: "added gx_policy ?db db row" "op_kind row = JOB_KIND"
      "job_key gx_policy (jb_task_id jx_job) (jb_version (next_job None jx_job 1000)) = Inr (op_id row)"
      "map ar_id (db_audit db) = map ar_id (db_audit ?db) @ [''job-'' @ op_id row]"
      "map ox_id (db_outbox db) = map ox_id (db_outbox ?db) @ [''job-outbox-'' @ op_id row]" by auto
  have id: "op_id row = jx_key 1" using row(3) key by simp
  have js: "load_job gx_policy ?db t = Inr (Map.empty t)" for t by (simp add: jx_no_jobs)
  have w': "write_job gx_policy gx_principal CC_COMMIT (Map.empty ''job1'') jx_job 1000 ?db = Inr db" using w by simp
  have stored: "load_job gx_policy db t = Inr (jx_jobs t)" for t
    using job_write_then_load(1) [OF js w' _ jx_principal(2) empty version(2) jx_job_ok, of t] ids(4)
    by (simp add: jx_jobs_def jx_stored_def)
  show thesis
  proof (rule that)
    show "load_state gx_policy db = Inr jx_state" using job_write_keeps_state [OF row(1)] row(2) kinds_differ jx_load by simp
    show "map op_id (db_operations db) = [gx_key 1, jx_key 1]" using row(1) id ids(1) by (simp add: added_def)
  qed (use stored row(4,5) id ids in simp_all)
qed

lemma jx_ready:
  assumes "load_state gx_policy db = Inr jx_state" "\<forall>t. load_job gx_policy db t = Inr (jx_jobs t)"
    and "map op_id (db_operations db) = [gx_key 1, jx_key 1]" "map ar_id (db_audit db) = [''job-'' @ jx_key 1]"
  shows "mission_ready gx_policy {''job1''} (Suc 0) db (jx_state, jx_jobs)"
proof -
  have len: "length (db_operations db) = 2" "length (db_audit db) = 1"
    using arg_cong [OF assms(3), of length] arg_cong [OF assms(4), of length] by simp_all
  have "inj_on (\<lambda>(t, v). job_key gx_policy t v) ({''job1''} \<times> {1..2})"
  proof (rule inj_onI, clarsimp simp: jx_keys)
    fix v w :: int
    assume "1 \<le> v" "v \<le> 2" "1 \<le> w" "w \<le> 2" "jx_key v = jx_key w"
    then have "v = 1 \<or> v = 2" "w = 1 \<or> w = 2" by auto
    with keys_differ \<open>jx_key v = jx_key w\<close> show "v = w" by auto
  qed
  moreover have "\<forall>t j. jx_jobs t = Some j \<longrightarrow> t \<in> {''job1''} \<and> jb_version j + int (Suc 0) \<le> 2"
    by (auto simp: jx_jobs_def jx_stored_def next_job_def split: if_splits)
  ultimately have "\<exists>n. inj_on (\<lambda>(t, v). job_key gx_policy t v) ({''job1''} \<times> {1..n}) \<and> int (Suc 0) \<le> n
          \<and> (\<forall>t j. jx_jobs t = Some j \<longrightarrow> t \<in> {''job1''} \<and> jb_version j + int (Suc 0) \<le> n)"
    by (intro exI [of _ 2]) simp
  then show ?thesis using assms(1,2) len gx_keys_distinct [of 2] by (simp add: mission_ready_def)
qed

section \<open>The call\<close>

definition jx_begin :: job_call where
  "jx_begin = BeginJob jx_claim"

definition jx_started :: job where
  "jx_started = next_job (Some jx_stored) (jx_stored\<lparr>jb_state := JS_STARTED\<rparr>) 1010"

text \<open>The database, and what the call does to it.\<close>

lemma jx_healthy:
  obtains db where "mission_ready (gv_policy gx_governor) {''job1''} (Suc 0) db (jx_state, jx_jobs)"
    "can_begin (gv_policy gx_governor) (jx_state, jx_jobs) jx_claim jx_stored 1010"
    "audit_room (gv_policy gx_governor) (gs_version jx_state + 1) db"
    "job_key (gv_policy gx_governor) (jc_task_id jx_claim) (jb_version jx_stored + 1) = Inr (jx_key 2)"
    "job_room (jx_key 2) db" "gov_key (gv_policy gx_governor) (gs_version jx_state + 1) \<noteq> Inr (jx_key 2)"
    "gov_require gx_governor (ce_principal gx_env) CC_COMMIT (fst (ce_require gx_env)) = Inr ()"
    "1010 \<le> MAX_TIMESTAMP" "(1010 :: int) \<le> 1011" "1011 < jc_lease_until jx_claim"
    "1011 - 1010 \<le> gp_max_clock_step_seconds (gv_policy gx_governor)"
proof -
  obtain db where db: "load_state gx_policy db = Inr jx_state" "\<forall>t. load_job gx_policy db t = Inr (jx_jobs t)"
    "map op_id (db_operations db) = [gx_key 1, jx_key 1]" "map ar_id (db_audit db) = [''job-'' @ jx_key 1]"
    "map ox_id (db_outbox db) = [''job-outbox-'' @ jx_key 1]" by (rule jx_database)
  have ids: "op_id ` set (db_operations db) = {gx_key 1, jx_key 1}" "ar_id ` set (db_audit db) = {''job-'' @ jx_key 1}"
    "ox_id ` set (db_outbox db) = {''job-outbox-'' @ jx_key 1}"
    using arg_cong [OF db(3), of set] arg_cong [OF db(4), of set] arg_cong [OF db(5), of set] by simp_all
  have ready: "mission_ready gx_policy {''job1''} (Suc 0) db (jx_state, jx_jobs)" using db(1-4) by (rule jx_ready)
  have pol: "gv_policy gx_governor = gx_policy" by (simp add: gx_governor_def)
  have stored: "jx_jobs ''job1'' = Some jx_stored" by (simp add: jx_jobs_def)
  have fields: "jb_claim jx_stored = Some jx_claim" "jb_state jx_stored = JS_CLAIMED" "jb_version jx_stored = 1" "jb_last_now jx_stored = 1000"
    "je_deadline_at (jb_envelope jx_stored) = 2000" "jb_reservation_id jx_stored = ''job-'' @ jx_key 0"
    by (simp_all add: jx_stored_def) (simp_all add: jx_job_def jx_envelope_def next_job_def)
  have claim: "jc_task_id jx_claim = ''job1''" "jc_lease_until jx_claim = 1060" "jc_governor_epoch jx_claim = 1" by (simp_all add: jx_claim_def)
  have can: "can_begin gx_policy (jx_state, jx_jobs) jx_claim jx_stored 1010"
    by (simp add: can_begin_def claim stored fields result_simps entry_of_def) (simp add: gx_policy_def new_circuit_def)
  obtain events where chain: "domain_chain (gp_scope gx_policy) db = Inr events" using spec [OF db(2), of "''job1''"] by (auto simp: load_job_eq load_jobs_eq)
  have room: "audit_room gx_policy (gs_version jx_state + 1) db"
  proof -
    have "gx_key 2 \<noteq> gx_key 1" "gx_key 2 \<noteq> jx_key 1" using keys_differ by auto
    then show ?thesis using chain ids by (simp add: audit_room_def gx_keys)
  qed
  have free: "job_room (jx_key 2) db" using keys_differ ids by (simp add: job_room_def eq_commute [of "jx_key 2"])
  have key: "job_key gx_policy (jc_task_id jx_claim) (jb_version jx_stored + 1) = Inr (jx_key 2)" by (simp add: claim fields jx_keys)
  have other: "gov_key gx_policy (gs_version jx_state + 1) \<noteq> Inr (jx_key 2)" using keys_differ by (simp add: gx_keys)
  have env: "ce_principal gx_env = gx_principal" "fst (ce_require gx_env) = utc 500" by (simp_all add: gx_env_def)
  have req: "gov_require gx_governor (ce_principal gx_env) CC_COMMIT (fst (ce_require gx_env)) = Inr ()"
    using gx_require [of "utc 500"] by (simp add: gov_require_def env gx_governor_def gx_policy_def utc_def)
  have step: "(1011 :: int) - 1010 \<le> gp_max_clock_step_seconds gx_policy" "(1010 :: int) \<le> MAX_TIMESTAMP"
    by (simp_all add: gx_policy_def MAX_TIMESTAMP_def)
  have lease: "(1011 :: int) < jc_lease_until jx_claim" "(1010 :: int) \<le> 1011" by (simp_all add: claim)
  show thesis
    using that [of db] ready can room key free other req step(2) lease(2,1) step(1) unfolding pol by blast
qed

lemma jx_begins:
  obtains db db' where "mission_ready (gv_policy gx_governor) {''job1''} (Suc 0) db (jx_state, jx_jobs)"
    "load_job (gv_policy gx_governor) db ''job1'' = Inr (Some jx_stored)"
    "change_job gx_governor gx_env jx_begin db = (Inr (JBegin True jx_started), db')"
proof -
  obtain db where h: "mission_ready (gv_policy gx_governor) {''job1''} (Suc 0) db (jx_state, jx_jobs)"
    "can_begin (gv_policy gx_governor) (jx_state, jx_jobs) jx_claim jx_stored 1010"
    "audit_room (gv_policy gx_governor) (gs_version jx_state + 1) db"
    "job_key (gv_policy gx_governor) (jc_task_id jx_claim) (jb_version jx_stored + 1) = Inr (jx_key 2)"
    "job_room (jx_key 2) db" "gov_key (gv_policy gx_governor) (gs_version jx_state + 1) \<noteq> Inr (jx_key 2)"
    "gov_require gx_governor (ce_principal gx_env) CC_COMMIT (fst (ce_require gx_env)) = Inr ()"
    "1010 \<le> MAX_TIMESTAMP" "(1010 :: int) \<le> 1011" "1011 < jc_lease_until jx_claim"
    "1011 - 1010 \<le> gp_max_clock_step_seconds (gv_policy gx_governor)" by (rule jx_healthy)
  from begin_run [OF h(1-6) gx_healthy(5,6) h(7) gx_commits gx_healthy(9) h(8) gx_healthy(11) h(9-11)] obtain db' where
    "change_job gx_governor gx_env jx_begin db = (Inr (JBegin True jx_started), db')" by (auto simp: jx_begin_def jx_started_def)
  moreover have "load_job (gv_policy gx_governor) db ''job1'' = Inr (Some jx_stored)" using h(1) by (simp add: mission_ready_def jx_jobs_def)
  ultimately show thesis using that h(1) by blast
qed

text \<open>The holder of the claim asks again.\<close>

definition jx_again :: job_call where
  "jx_again = ClaimJob ''job1'' ''w1'' 1 60"

lemma jx_claims:
  obtains db where "mission_ready (gv_policy gx_governor) {''job1''} (Suc 0) db (jx_state, jx_jobs)"
    "change_job gx_governor gx_env jx_again db = (Inr (JClaim jx_claim), db)"
proof -
  obtain db where h: "mission_ready (gv_policy gx_governor) {''job1''} (Suc 0) db (jx_state, jx_jobs)"
    "gov_require gx_governor (ce_principal gx_env) CC_COMMIT (fst (ce_require gx_env)) = Inr ()"
    "can_begin (gv_policy gx_governor) (jx_state, jx_jobs) jx_claim jx_stored 1010"
    using jx_healthy by metis
  have l: "load_state (gv_policy gx_governor) db = Inr jx_state" "load_job (gv_policy gx_governor) db ''job1'' = Inr (Some jx_stored)"
    using h(1) by (simp_all add: mission_ready_def jx_jobs_def)
  have b: "check_clock (gv_policy gx_governor) jx_state 1010 = Inr ()" "jb_last_now jx_stored \<le> 1010" "jb_state jx_stored = JS_CLAIMED"
    "jb_claim jx_stored = Some jx_claim" "1010 < je_deadline_at (jb_envelope jx_stored)"
    using h(3) by (auto simp: can_begin_def jx_jobs_def jx_claim_def)
  have parse: "parse_envelope (jb_envelope jx_stored) = Inr ()" using loaded_job(2) [OF l(2)] .
  have claim: "jc_worker_id jx_claim = ''w1''" "jc_governor_epoch jx_claim = 1" "1010 < jc_lease_until jx_claim" by (simp_all add: jx_claim_def)
  have "job_callback (gv_policy gx_governor) (ce_principal gx_env) 1010 jx_again db = Inr (JClaim jx_claim, db)"
    using l b parse claim
    by (simp add: job_callback_def jx_again_def job_guards_def is_inspect_def required_job_def claim_change_def claim_guards_def
        check_epoch_def result_simps)
  from run_call_commits [OF gx_commits, of "job_callback (gv_policy gx_governor) (ce_principal gx_env) 1010 jx_again", OF this]
  have "change_job gx_governor gx_env jx_again db = (Inr (JClaim jx_claim), db)"
    using h(2) gx_healthy(9)
    by (simp add: change_job_def guarded_def jx_again_def is_inspect_def check_lease_def check_identity_def confirm_step_def)
  with that h(1) show thesis by blast
qed

lemma jx_charged: "jobs_charged (jx_state, jx_jobs)"
proof -
  have "job_request jx_stored = job_request jx_job" by (simp add: jx_stored_def job_request_def)
  moreover have "jb_state jx_stored = JS_CLAIMED" "jb_reservation_id jx_stored = ''job-'' @ jx_key 0"
    by (simp_all add: jx_stored_def) (simp_all add: jx_job_def)
  moreover have "request_digest (job_request jx_job) = Inr (rv_binding_digest jx_entry)"
    using jx_request_canonical by (simp add: request_digest_def canonical_sha256_def jx_entry_def)
  ultimately show ?thesis by (simp add: jobs_charged_def jx_jobs_def job_charged_def entry_of_def)
qed

end
