(* ===== verification/Job_Witnesses.thy ===== *)
theory Job_Witnesses
  imports Job_Scenario
begin

text \<open>
  The instances of the theorems on jobs at the concrete scenario: the worker of the stored claim begins, or asks again.
\<close>

lemma jx_within: "within_tasks {''job1''} [(JobCall jx_begin, gx_env)]" "within_tasks {''job1''} [(JobCall jx_again, gx_env)]"
  by (simp_all add: within_tasks_def jx_begin_def jx_again_def jx_claim_def)

lemma jx_answers: "answers [(c, gx_env)] [Inr r] = [(c, Some r)]"
  by (simp add: answers_def)

lemma jx_begin_calls:
  obtains db db' where "mission_ready (gv_policy gx_governor) {''job1''} (length [(JobCall jx_begin, gx_env)]) db (jx_state, jx_jobs)"
    "load_job (gv_policy gx_governor) db ''job1'' = Inr (Some jx_stored)"
    "mission_calls gx_governor [(JobCall jx_begin, gx_env)] db = ([Inr (JobResult (JBegin True jx_started))], db')"
proof -
  obtain db db' where "mission_ready (gv_policy gx_governor) {''job1''} (Suc 0) db (jx_state, jx_jobs)"
    "load_job (gv_policy gx_governor) db ''job1'' = Inr (Some jx_stored)"
    "change_job gx_governor gx_env jx_begin db = (Inr (JBegin True jx_started), db')" by (rule jx_begins)
  then show thesis using that by (simp add: mission_do_def)
qed

lemma mission_implements_machine_witness:
  "\<exists>db db' st'. mission_do gx_governor gx_env (JobCall jx_begin) db = (Inr (JobResult (JBegin True jx_started)), db')
    \<and> mission_ready (gv_policy gx_governor) {''job1''} 0 db' st'
    \<and> (\<exists>z. mission_step (gv_policy gx_governor) (jx_state, jx_jobs) (JobCall jx_begin) z st'
          \<and> confirmed z (JobResult (JBegin True jx_started)))"
proof -
  obtain db db' where b: "mission_ready (gv_policy gx_governor) {''job1''} (Suc 0) db (jx_state, jx_jobs)"
    "change_job gx_governor gx_env jx_begin db = (Inr (JBegin True jx_started), db')" using jx_begins by blast
  have do: "mission_do gx_governor gx_env (JobCall jx_begin) db = (Inr (JobResult (JBegin True jx_started)), db')"
    using b(2) by (simp add: mission_do_def)
  have task: "case mission_task (JobCall jx_begin) of None \<Rightarrow> True | Some t \<Rightarrow> t \<in> {''job1''}"
    by (simp add: jx_begin_def jx_claim_def)
  show ?thesis using mission_implements_machine [OF b(1) task do] do unfolding sum.case by blast
qed

lemma job_begins_at_most_once_witness:
  "\<exists>db db'. mission_calls gx_governor [(JobCall jx_begin, gx_env)] db = ([Inr (JobResult (JBegin True jx_started))], db')
    \<and> begins ''job1'' (JobCall jx_begin, Some (JobResult (JBegin True jx_started)))
    \<and> length (filter (begins ''job1'') (answers [(JobCall jx_begin, gx_env)] [Inr (JobResult (JBegin True jx_started))])) \<le> 1"
proof -
  obtain db db' where b: "mission_ready (gv_policy gx_governor) {''job1''} (length [(JobCall jx_begin, gx_env)]) db (jx_state, jx_jobs)"
    "mission_calls gx_governor [(JobCall jx_begin, gx_env)] db = ([Inr (JobResult (JBegin True jx_started))], db')"
    using jx_begin_calls by blast
  have "begins ''job1'' (JobCall jx_begin, Some (JobResult (JBegin True jx_started)))" by (simp add: jx_begin_def jx_claim_def)
  with job_begins_at_most_once [OF b(1) jx_within(1) b(2)] b(2) show ?thesis by blast
qed

lemma begin_is_guarded_witness:
  "\<exists>db db' s'. change_job gx_governor gx_env (BeginJob jx_claim) db = (Inr (JBegin True jx_started), db')
    \<and> load_state (gv_policy gx_governor) db' = Inr s' \<and> load_job (gv_policy gx_governor) db' ''job1'' = Inr (Some jx_started)
    \<and> jb_state jx_started = JS_STARTED \<and> \<not> gs_kill jx_state"
proof -
  obtain db db' where b: "mission_ready (gv_policy gx_governor) {''job1''} (Suc 0) db (jx_state, jx_jobs)"
    "change_job gx_governor gx_env (BeginJob jx_claim) db = (Inr (JBegin True jx_started), db')"
    using jx_begins unfolding jx_begin_def by blast
  have task: "jc_task_id jx_claim = ''job1''" by (simp add: jx_claim_def)
  then have "jc_task_id jx_claim \<in> {''job1''}" by simp
  from begin_is_guarded [OF b(1) this b(2)] b(2) show ?thesis unfolding task by blast
qed

lemma claims_are_fenced_witness:
  "\<exists>db. mission_calls gx_governor [(JobCall jx_again, gx_env)] db = ([Inr (JobResult (JClaim jx_claim))], db)
    \<and> claims_of ''job1'' (answers [(JobCall jx_again, gx_env)] [Inr (JobResult (JClaim jx_claim))]) = [jx_claim]
    \<and> sorted_wrt claim_forward (claims_of ''job1'' (answers [(JobCall jx_again, gx_env)] [Inr (JobResult (JClaim jx_claim))]))"
proof -
  obtain db where b: "mission_ready (gv_policy gx_governor) {''job1''} (length [(JobCall jx_again, gx_env)]) db (jx_state, jx_jobs)"
    "change_job gx_governor gx_env jx_again db = (Inr (JClaim jx_claim), db)" using jx_claims by auto
  have calls: "mission_calls gx_governor [(JobCall jx_again, gx_env)] db = ([Inr (JobResult (JClaim jx_claim))], db)"
    using b(2) by (simp add: mission_do_def)
  have "claims_of ''job1'' (answers [(JobCall jx_again, gx_env)] [Inr (JobResult (JClaim jx_claim))]) = [jx_claim]"
    by (simp add: jx_answers jx_again_def)
  with claims_are_fenced [OF b(1) jx_within(2) calls] calls show ?thesis by blast
qed


lemma started_jobs_stay_charged_witness:
  "\<exists>db db' s'. mission_calls gx_governor [(JobCall jx_begin, gx_env)] db = ([Inr (JobResult (JBegin True jx_started))], db')
    \<and> load_job (gv_policy gx_governor) db' ''job1'' = Inr (Some jx_started) \<and> jb_state jx_started = JS_STARTED
    \<and> load_state (gv_policy gx_governor) db' = Inr s' \<and> job_charged s' jx_started"
proof -
  obtain db db' where b: "mission_ready (gv_policy gx_governor) {''job1''} (Suc 0) db (jx_state, jx_jobs)"
    "change_job gx_governor gx_env (BeginJob jx_claim) db = (Inr (JBegin True jx_started), db')"
    using jx_begins unfolding jx_begin_def by blast
  have calls: "mission_calls gx_governor [(JobCall jx_begin, gx_env)] db = ([Inr (JobResult (JBegin True jx_started))], db')"
    using b(2) by (simp add: mission_do_def jx_begin_def)
  have one: "mission_ready (gv_policy gx_governor) {''job1''} (length [(JobCall jx_begin, gx_env)]) db (jx_state, jx_jobs)" using b(1) by simp
  have started: "jb_state jx_started = JS_STARTED" by (simp add: jx_started_def)
  have stored: "load_job (gv_policy gx_governor) db' ''job1'' = Inr (Some jx_started)"
    using begin_stored [OF b(1) _ b(2)] by (simp add: jx_claim_def)
  from started_jobs_stay_charged [OF one jx_within(1) calls jx_charged stored] calls stored started show ?thesis by blast
qed

lemma healthy_begin_succeeds_witness:
  "\<exists>db db'. mission_ready (gv_policy gx_governor) {''job1''} (Suc 0) db (jx_state, jx_jobs)
    \<and> change_job gx_governor gx_env (BeginJob jx_claim) db = (Inr (JBegin True jx_started), db')"
proof -
  obtain db where h: "mission_ready (gv_policy gx_governor) {''job1''} (Suc 0) db (jx_state, jx_jobs)"
    "can_begin (gv_policy gx_governor) (jx_state, jx_jobs) jx_claim jx_stored 1010"
    "audit_room (gv_policy gx_governor) (gs_version jx_state + 1) db"
    "job_key (gv_policy gx_governor) (jc_task_id jx_claim) (jb_version jx_stored + 1) = Inr (jx_key 2)"
    "job_room (jx_key 2) db" "gov_key (gv_policy gx_governor) (gs_version jx_state + 1) \<noteq> Inr (jx_key 2)"
    "gov_require gx_governor (ce_principal gx_env) CC_COMMIT (fst (ce_require gx_env)) = Inr ()"
    "1010 \<le> MAX_TIMESTAMP" "(1010 :: int) \<le> 1011" "1011 < jc_lease_until jx_claim"
    "1011 - 1010 \<le> gp_max_clock_step_seconds (gv_policy gx_governor)" by (rule jx_healthy)
  from healthy_begin_succeeds [OF h(1-6) gx_healthy(5,6) h(7) gx_commits gx_healthy(9) h(8) gx_healthy(11) h(9-11)] h(1)
  show ?thesis unfolding jx_started_def by blast
qed

end
