(* ===== verification/Spec2Isabelle.thy ===== *)
theory Spec2Isabelle
  imports NZ_Service_Witnesses Governor_Witnesses Job_Witnesses
begin

text \<open>
  A verification library for two subsystems of AIOA-spArkHAT. CloudOps (src/runtime/nonzero_cloudops) investigates cloud
  resources, proposes a remediation, asks a human operator for approval and carries the approved action out at most
  once, with every step recorded in a durable store and in a ledger. The mission governor (src/runtime/mission/governor.py
  and jobs.py, over src/runtime/core_admission.py and the memory kernel of src/runtime/memory_patch) decides whether a
  request to a provider may be sent, counts what it may cost, and hands offline jobs to workers, also when
  transactions fail, acknowledgements are lost, clocks jump and workers die.

  \<^bold>\<open>CloudOps.\<close>  An operator reaches the service through a transport adapter (service.py: request).  Every call is
  admitted (operator, kill switch, source identity, ledger), a write is announced in the core ledger before and after
  it (provenance.py over src/runtime/tools/provenance.py).  A run is created in a durable store, an adapter is asked
  for a resource, findings are derived from it and a remediation proposal is written (planning.py, investigation.py,
  policy.py).  The operator is shown an approval challenge and decides (execution.py: request_approval, decide); an
  approved proposal is executed by the portable mutation boundary (adapters/portable.py), which returns a receipt, and
  its effect is verified by a read-back (execution.py: resume, verification.py).  Runs, proposals, approvals,
  idempotency records, checkpoints, audit events and verification evidence are kept in a DomainSnapshot
  (state/snapshot.py) that a file-backed repository (state/repository.py) loads and rewrites under a lock.  Records are
  immutable pydantic models (models/contracts.py) bound to each other by SHA-256 digests of canonical JSON
  (models/digest.py); what an operator sees of them are views (views.py, evidence.py).

  \<^bold>\<open>The governor.\<close>  A principal is issued by the core for one capability and sealed (core_admission.py); every call of the
  governor requires one and runs as one transaction, retried up to ten times (persistence/ports.py, retry.py).
  A transaction reads the whole chain of snapshots from the operation table and checks it, applies one
  transition (reserve, dispatch, release, mark unknown, settle, a new epoch, the kill switch, a money policy) and
  writes the next snapshot once per key (persistence/idempotency.py) together with an event of the hash-chained audit
  and its outbox record (audit.py, contracts/records.py). A job (jobs.py, job_contracts.py) has a chain of
  versions in the same table; claiming, taking over, beginning and finishing a job change the snapshot and the job in
  the same transaction.

  \<^bold>\<open>Theories, in import order.\<close>
  \<^item> \<^verbatim>\<open>AIOA_Prelude\<close>: results (an exception or a value), Python dictionaries as association lists that keep insertion
    order, sorting by keys, instants, whitespace and ASCII tests.
  \<^item> \<^verbatim>\<open>Sha256\<close>, \<^verbatim>\<open>Canonical_Json\<close>: hashlib.sha256 at 32-bit words, json.dumps with sorted keys, and that the canonical text
    determines the value.
  \<^item> \<^verbatim>\<open>NZ_Vocabulary\<close>: models/enums.py, public_enums.py, transitions.py, authority.py, errors.py, failures.py.
  \<^item> \<^verbatim>\<open>NZ_Redaction\<close>: the identifier shapes of models/identifiers.py and the detection part of models/redaction.py.
  \<^item> \<^verbatim>\<open>NZ_Resources\<close>, \<^verbatim>\<open>NZ_Records\<close>, \<^verbatim>\<open>NZ_Local_Records\<close>: models/contracts.py, one record and one validity predicate (the
    field constraints and model validators) per class, and its factories.
  \<^item> \<^verbatim>\<open>NZ_Snapshot\<close>: state/snapshot.py, guards.py, idempotency.py; \<^verbatim>\<open>NZ_Durable_Truth\<close> states what every operation keeps
    (locale \<^verbatim>\<open>durable_truth\<close>, the contract of state/protocol.py) and that records are only added.
  \<^item> \<^verbatim>\<open>NZ_Repository\<close>: state/repository.py and files.py; a store is the image on disk and the writers are run against an
    oracle of input and output failures.
  \<^item> \<^verbatim>\<open>NZ_Portable\<close>, \<^verbatim>\<open>NZ_Executor\<close>: adapters/portable.py, the default inventory of adapters/resources.py,
    adapters/base.py and verification.py.
  \<^item> \<^verbatim>\<open>NZ_Workflow\<close>: execution.py in the exception and state monad \<^verbatim>\<open>comp\<close> over a world with clock, store and executor;
    \<^verbatim>\<open>NZ_Workflow_Safety\<close> (what every call keeps, over the locales \<^verbatim>\<open>world_relation\<close> and \<^verbatim>\<open>store_relation\<close>),
    \<^verbatim>\<open>NZ_Workflow_Effects\<close> (effects are authorised), \<^verbatim>\<open>NZ_Workflow_Completion\<close> (what is reported is durable).
  \<^item> \<^verbatim>\<open>NZ_Investigation\<close>: investigation.py, policy.py and the deterministic advisor of adapters/advisory.py; \<^verbatim>\<open>NZ_Planning\<close>:
    planning.py in the same worlds; \<^verbatim>\<open>NZ_Planning_Safety\<close>: what an investigation keeps and what a reported one means
    (locale \<^verbatim>\<open>planning_relation\<close>).
  \<^item> \<^verbatim>\<open>Provenance\<close>: src/runtime/tools/provenance.py; \<^verbatim>\<open>NZ_Evidence_Link\<close>: provenance.py, the ledger of the service.
  \<^item> \<^verbatim>\<open>NZ_Views\<close>: views.py, evidence.py; \<^verbatim>\<open>NZ_Routes\<close>: the paths of the transport adapter; \<^verbatim>\<open>NZ_Service\<close>: contract.py and
    service.py; \<^verbatim>\<open>NZ_Service_Safety\<close>: what every operation keeps (locales \<^verbatim>\<open>service_relation\<close>, \<^verbatim>\<open>admitted_relation\<close>,
    \<^verbatim>\<open>operation_relation\<close>), the only way to an effect, and completion on a healthy service; \<^verbatim>\<open>NZ_Boundary\<close>:
    configurations and views; \<^verbatim>\<open>NZ_Output_Bound\<close>: the budget of a result.
  \<^item> \<^verbatim>\<open>NZ_Scenario\<close>, \<^verbatim>\<open>NZ_Witnesses\<close>, \<^verbatim>\<open>NZ_Service_Witnesses\<close>: a concrete run from proposal to verified success, a concrete
    service, and the instances of the theorems on them.
  \<^item> \<^verbatim>\<open>Kernel_Base\<close>: the error codes and canonical digests of the memory kernel; \<^verbatim>\<open>Core_Admission\<close>: core_admission.py;
    \<^verbatim>\<open>Kernel_Transactions\<close>: persistence/ports.py and retry.py, with the contract of a transaction as the locale
    \<^verbatim>\<open>transaction_port\<close>; \<^verbatim>\<open>Kernel_Audit\<close>: the tables, audit.py, the events of contracts/records.py and idempotency.py.
  \<^item> \<^verbatim>\<open>Governor_State\<close>, \<^verbatim>\<open>Governor_Ops\<close>, \<^verbatim>\<open>Governor_Store\<close>: governor.py, its data and budgets, its transitions on a
    snapshot, and its methods over the database (an interpretation of \<^verbatim>\<open>transaction_port\<close>);
    \<^verbatim>\<open>Governor_Refinement\<close>: the methods implement the step relation \<^verbatim>\<open>gov_step\<close>; \<^verbatim>\<open>Governor_Safety\<close>,
    \<^verbatim>\<open>Governor_Bounds\<close>, \<^verbatim>\<open>Governor_Liveness\<close>: what sequences of calls promise.
  \<^item> \<^verbatim>\<open>Job_Contracts\<close>, \<^verbatim>\<open>Job_Ops\<close>: job_contracts.py, jobs.py and the payload contracts they use; \<^verbatim>\<open>Job_Refinement\<close>: governor
    and job calls implement the step relation \<^verbatim>\<open>mission_step\<close> over snapshots and jobs; \<^verbatim>\<open>Job_Safety\<close> (over the locale
    \<^verbatim>\<open>mission_relation\<close>), \<^verbatim>\<open>Job_Liveness\<close>: what sequences of both promise.
  \<^item> \<^verbatim>\<open>Governor_Scenario\<close>, \<^verbatim>\<open>Governor_Witnesses\<close>, \<^verbatim>\<open>Job_Scenario\<close>, \<^verbatim>\<open>Job_Witnesses\<close>: a concrete governor with a stored
    snapshot, one with a claimed job, and the instances of the theorems on them.

  \<^bold>\<open>Correspondence.\<close>  A class is a record, an enumeration a datatype, a method a definition of the same name (suffixed by its
  class or file where names clash).  A raise is a value \<^verbatim>\<open>Inl\<close> of the type \<^verbatim>\<open>exn\<close>, whose constructors are the exception
  classes of the source; the typed errors of the service are values of \<^verbatim>\<open>nz_error\<close>, those of the kernel and the
  governor of \<^verbatim>\<open>kernel_error\<close>. A database is three lists of rows in the order of their insertion.  Instants are microseconds since the
  epoch with an optional offset, and the UTC check is a predicate on the stamp; Python integers are unbounded, the words
  of SHA-256 are 32 bits, identifiers 128 bits.  A record built by a factory passes through its validity predicate, as
  pydantic validates in the constructor.  Loops are structural recursion, so that no fuel is used anywhere in the model; the ten attempts of the
  transaction runner are the source's own bound.
  A text is a list of 8-bit characters, each standing for one code point.

  \<^bold>\<open>Parameters.\<close>  Arbitrary in every theorem, as fields of an environment or arguments: the random generators of
  identifiers and nonces, the sequence of clock readings, the kill switch and the identity file at each use, the
  points where file input and output fails, what the planning model answers and how its text is read as a candidate,
  pydantic's lax reading of an integer, the rounding of an interval to milliseconds (floating point), \<^verbatim>\<open>str\<close> of a
  JSON value that is not text, the digest of a file, the JSON forms of the views and the reading of a decision.
  For the governor: the faults of every attempt of a transaction (at its beginning, in the callback, at the
  commit, with the commit done or not, in the cleanup), the clock readings of every check, and the native proofs a
  review refers to. The theorems on stored chains assume that the SHA-256 keys of the versions concerned do not collide
  (\<^verbatim>\<open>keys_distinct\<close>, and the injectivity in \<^verbatim>\<open>mission_ready\<close>, which also says how many more calls the quota of 1024
  rows leaves room for); the scenarios evaluate the keys they use.

  \<^bold>\<open>What the lemmas show.\<close>  The store: every operation keeps well-formedness, capacities and links, history is append-only also
  under failures, stale writers are rejected, export and import are inverse.  The boundary: an execution changes only what
  its approved proposal names, is applied at most once per idempotency key, is stable under replay and verifies.
  The workflow: an effect implies a durable approval of the same operator, what is reported as decided or
  completed is stored, no sequence of calls loses history.  Planning: an untrusted model cannot influence a plan, a
  plan is bound and inert, an executed plan removes the finding.  The ledger: appended logs verify, a verified log is
  determined by its length and terminal hash, a failed append fails closed, nothing private is recorded.  The service:
  an effect passes admission and is announced first, a refused call changes nothing, a healthy write completes, every
  result of an execution fits the budget reserved before it.  The governor: an accepted principal was issued, an append
  extends the chain by one event, the runner says what happened; a permission to send is guarded, given once, charged
  and below the ceilings, reservations only move forward, running totals are exact sums, a healthy dispatch succeeds.
  The jobs: both components together refine one machine; a worker is told to begin once per task, under the guards of
  the governor and as the holder of a live claim; claims are fenced; a begun job stays charged; jobs only
  move forward; a healthy begin succeeds.

  \<^bold>\<open>Not modelled.\<close>  The JSON text of the store and inventory files, file locking, leases and path checks (operating system)
  and with them the file handling of the service's constructor; the replacement part of models/redaction.py; the
  recursion limit of the JSON reader; the optional remote adapter adapters/aws_optional.py, a client of a remote
  service.  Of the kernel: the publication of the outbox into the core ledger, the SQLite adapter of
  LocalCoreRecordFactory and the replacement of records, which the governor does not use.  Of the jobs: completion
  bindings and their proofs (mission/completion.py), JobEnvelope.from_request and the constant fields that public adds
  to a view.  The agent shell around the governor (warrants, sandboxes, recipes, providers) and the subsystems listed
  as not modelled in the manifest are separate programs around these two.
\<close>

section \<open>Bindings by digest\<close>

text \<open>The text a digest is computed over determines the value up to the order of keys: two payloads
  with the same canonical text are the same payload, so that every binding by digest in the contracts is exact up
  to collisions of the hash.\<close>

theorem canonical_json_is_injective: "dumps v = dumps w \<longleftrightarrow> canon v = canon w"
  using dumps_inj [of v w] by (auto simp: dumps_def)

text \<open>The iterator check of an ingress receipt accepts exactly the subsequences: the remaining rules
  stand in the order they had, and none is new.\<close>

theorem receipt_check_is_subsequence: "ordered_subset xs ys \<longleftrightarrow> subseq xs ys"
  by (rule ordered_subset_subseq)

end
